(* ===== verification/Prelude.thy ===== *)
theory Prelude
  imports Main "HOL-Library.AList" "HOL-Library.Sublist"
begin

text \<open>
  What every component of the development shares: the action type that models a Python
  coroutine of the control plane (state passing with exceptions as values), the
  compositional rules by which a relation between the state before and after is carried
  through a whole handler, the part of Python's \<open>str\<close> and \<open>dict\<close> that the sources use,
  and generic facts about lists and association lists.

  A Python string is a list of \<open>char\<close>: the code points below 256. On them \<open>strip\<close> and
  \<open>lower\<close> are Python's own functions. A \<open>dict\<close> is an association list in insertion
  order, written by \<open>AList.update\<close> (which keeps the place of a present key and appends a
  new one, as Python does).
\<close>

named_theorems run_simps \<open>how one step of a handler runs: its result and the state it leaves\<close>

section \<open>Actions: state passing with exceptions\<close>

text \<open>
  A coroutine that may change the state \<open>'w\<close> and may raise: the state after is kept when
  it raises, because the routers of the control plane commit on a refusal.
\<close>

type_synonym ('w, 'e, 'a) act = "'w \<Rightarrow> ('e + 'a) \<times> 'w"

definition retA :: "'a \<Rightarrow> ('w, 'e, 'a) act" where
  "retA x = (\<lambda>w. (Inr x, w))"

definition raiseA :: "'e \<Rightarrow> ('w, 'e, 'a) act" where
  "raiseA e = (\<lambda>w. (Inl e, w))"

definition bindA :: "('w, 'e, 'a) act \<Rightarrow> ('a \<Rightarrow> ('w, 'e, 'b) act) \<Rightarrow> ('w, 'e, 'b) act" where
  "bindA m k = (\<lambda>w. case m w of (Inl e, w') \<Rightarrow> (Inl e, w') | (Inr x, w') \<Rightarrow> k x w')"

definition liftA :: "'e + 'a \<Rightarrow> ('w, 'e, 'a) act" where
  "liftA r = (\<lambda>w. (r, w))"

definition getA :: "('w \<Rightarrow> 'a) \<Rightarrow> ('w, 'e, 'a) act" where
  "getA f = (\<lambda>w. (Inr (f w), w))"

definition modA :: "('w \<Rightarrow> 'w) \<Rightarrow> ('w, 'e, unit) act" where
  "modA f = (\<lambda>w. (Inr (), f w))"

text \<open>\<open>try: m except e: h e\<close>, for the exceptions that \<open>p\<close> selects.\<close>

definition catchA :: "('w, 'e, 'a) act \<Rightarrow> ('e \<Rightarrow> bool) \<Rightarrow> ('e \<Rightarrow> ('w, 'e, 'a) act) \<Rightarrow> ('w, 'e, 'a) act" where
  "catchA m p h = (\<lambda>w. case m w of (Inl e, w') \<Rightarrow> (if p e then h e w' else (Inl e, w')) | r \<Rightarrow> r)"

definition whenA :: "bool \<Rightarrow> ('w, 'e, unit) act \<Rightarrow> ('w, 'e, unit) act" where
  "whenA b m = (if b then m else retA ())"

fun forA :: "'a list \<Rightarrow> ('a \<Rightarrow> ('w, 'e, 'b) act) \<Rightarrow> ('w, 'e, 'b list) act" where
  "forA [] f = retA []"
| "forA (x # xs) f = bindA (f x) (\<lambda>y. bindA (forA xs f) (\<lambda>ys. retA (y # ys)))"

lemmas act_defs = retA_def raiseA_def bindA_def liftA_def getA_def modA_def catchA_def whenA_def

lemma bindA_simps [simp]:
  "bindA (retA x) k = k x"
  "bindA (raiseA e) k = raiseA e"
  "bindA (liftA (Inr x)) k = k x"
  "bindA (liftA (Inl e)) k' = raiseA e"
  "bindA (bindA m f) g = bindA m (\<lambda>x. bindA (f x) g)"
  by (auto simp: act_defs fun_eq_iff split: prod.splits sum.splits)

lemma retA_apply [simp]: "retA x w = (Inr x, w)"
  and raiseA_apply [simp]: "raiseA e w = (Inl e, w)"
  and liftA_apply [simp]: "liftA r w = (r, w)"
  and getA_apply [simp]: "getA f w = (Inr (f w), w)"
  and modA_apply [simp]: "modA g w = (Inr (), g w)"
  by (simp_all add: act_defs)

lemma bindA_getA [simp]: "bindA (getA f) k w = k (f w) w"
  and bindA_modA [simp]: "bindA (modA g) k' w = k' () (g w)"
  by (simp_all add: bindA_def)

lemma bindA_run: "m w = (Inr x, w') \<Longrightarrow> bindA m k w = k x w'"
  by (simp add: bindA_def)

lemma bindA_fail: "m w = (Inl e, w') \<Longrightarrow> bindA m k w = (Inl e, w')"
  by (simp add: bindA_def)

lemma bindA_okE:
  assumes "bindA m k w = (Inr y, w'')"
  obtains x w' where "m w = (Inr x, w')" and "k x w' = (Inr y, w'')"
  using assms by (auto simp: bindA_def split: prod.splits sum.splits)

lemma bindA_errE:
  assumes "bindA m k w = (Inl e, w'')"
  obtains (first) "m w = (Inl e, w'')"
  | (second) x w' where "m w = (Inr x, w')" and "k x w' = (Inl e, w'')"
  using assms by (auto simp: bindA_def split: prod.splits sum.splits)

lemma bindA_cong [fundef_cong]:
  assumes "m = m'" and "\<And>x w. k x w = k' x w"
  shows "bindA m k = bindA m' k'"
proof -
  have "k = k'" by (intro ext) (simp add: assms(2))
  with assms(1) show ?thesis by simp
qed

section \<open>State relations carried through actions\<close>

text \<open>
  \<open>acts_within R m\<close>: whatever the outcome, the state after \<open>m\<close> is \<open>R\<close>-related to the state
  before. \<open>fails_within R m\<close>: the same, for the runs that raise. For a reflexive and transitive
  \<open>R\<close> both compose along \<open>bindA\<close>, so a frame property of a handler is the frame
  property of the repository calls it makes.
\<close>

definition acts_within :: "('w \<Rightarrow> 'w \<Rightarrow> bool) \<Rightarrow> ('w, 'e, 'a) act \<Rightarrow> bool" where
  "acts_within R m \<longleftrightarrow> (\<forall>w. R w (snd (m w)))"

definition fails_within :: "('w \<Rightarrow> 'w \<Rightarrow> bool) \<Rightarrow> ('w, 'e, 'a) act \<Rightarrow> bool" where
  "fails_within R m \<longleftrightarrow> (\<forall>w e w'. m w = (Inl e, w') \<longrightarrow> R w w')"

lemma stepsD: "acts_within R m \<Longrightarrow> m w = (r, w') \<Longrightarrow> R w w'"
  by (metis acts_within_def snd_conv)

lemma failsD: "fails_within R m \<Longrightarrow> m w = (Inl e, w') \<Longrightarrow> R w w'"
  by (auto simp: fails_within_def)

lemma steps_mono: "acts_within R m \<Longrightarrow> (\<And>w w'. R w w' \<Longrightarrow> S w w') \<Longrightarrow> acts_within S m"
  by (auto simp: acts_within_def)

text \<open>
  \<open>raises_only P m\<close>: an exception of \<open>m\<close> is in \<open>P\<close>. \<open>fails_unless P R m\<close>: a run that raises has
  an exception in \<open>P\<close> (which the caller answers with a rollback) or ends \<open>R\<close>-related.
\<close>

definition raises_only :: "('e \<Rightarrow> bool) \<Rightarrow> ('w, 'e, 'a) act \<Rightarrow> bool" where
  "raises_only P m \<longleftrightarrow> (\<forall>w e w'. m w = (Inl e, w') \<longrightarrow> P e)"

definition fails_unless :: "('e \<Rightarrow> bool) \<Rightarrow> ('w \<Rightarrow> 'w \<Rightarrow> bool) \<Rightarrow> ('w, 'e, 'a) act \<Rightarrow> bool" where
  "fails_unless P R m \<longleftrightarrow> (\<forall>w e w'. m w = (Inl e, w') \<longrightarrow> P e \<or> R w w')"

lemma raises_bindA:
  assumes "raises_only P m" and "\<And>x. raises_only P (k x)"
  shows "raises_only P (bindA m k)"
  using assms unfolding raises_only_def by (blast elim: bindA_errE)

lemma raises_basic:
  "raises_only P (retA x)" "raises_only P (getA f)" "raises_only P (modA g)"
  by (simp_all add: raises_only_def)

lemma raises_if: "(b \<Longrightarrow> raises_only P m) \<Longrightarrow> (\<not> b \<Longrightarrow> raises_only P n) \<Longrightarrow> raises_only P (if b then m else n)"
  by simp

lemma raises_option:
  "(v = None \<Longrightarrow> raises_only P m) \<Longrightarrow> (\<And>x. v = Some x \<Longrightarrow> raises_only P (k x)) \<Longrightarrow>
   raises_only P (case v of None \<Rightarrow> m | Some x \<Rightarrow> k x)"
  by (cases v) auto

lemma raises_prod: "(\<And>a b. v = (a, b) \<Longrightarrow> raises_only P (k a b)) \<Longrightarrow> raises_only P (case v of (a, b) \<Rightarrow> k a b)"
  by (cases v) auto

lemma raises_total: "(\<And>w. \<exists>y w'. m w = (Inr y, w')) \<Longrightarrow> raises_only P m"
  by (metis raises_only_def Inl_Inr_False prod.inject)

lemmas raises_rules = raises_bindA raises_basic raises_if raises_option raises_prod

lemma unlessD: "fails_unless P R m \<Longrightarrow> m w = (Inl e, w') \<Longrightarrow> P e \<or> R w w'"
  by (auto simp: fails_unless_def)

lemma unless_fails: "fails_within R m \<Longrightarrow> fails_unless P R m"
  by (auto simp: fails_within_def fails_unless_def)

lemma unless_raises: "raises_only P m \<Longrightarrow> fails_unless P R m"
  by (auto simp: raises_only_def fails_unless_def)

locale state_relation =
  fixes R :: "'w \<Rightarrow> 'w \<Rightarrow> bool"
  assumes rel_refl: "R w w"
    and rel_trans: "R u v \<Longrightarrow> R v w \<Longrightarrow> R u w"
begin

lemma steps_retA: "acts_within R (retA x)"
  and steps_raiseA: "acts_within R (raiseA e)"
  and steps_liftA: "acts_within R (liftA r)"
  and steps_getA: "acts_within R (getA f)"
  by (simp_all add: acts_within_def rel_refl)

lemma steps_modA: "(\<And>w. R w (g w)) \<Longrightarrow> acts_within R (modA g)"
  by (simp add: acts_within_def)

lemma steps_bindA:
  assumes m: "acts_within R m" and k: "\<And>x. acts_within R (k x)"
  shows "acts_within R (bindA m k)"
  unfolding acts_within_def
proof
  fix w
  obtain r w' where mw: "m w = (r, w')" by (cases "m w")
  with m have R1: "R w w'" by (rule stepsD)
  show "R w (snd (bindA m k w))"
  proof (cases r)
    case (Inl e)
    with mw R1 show ?thesis by (simp add: bindA_fail)
  next
    case (Inr x)
    obtain r2 w2 where kw: "k x w' = (r2, w2)" by (cases "k x w'")
    with k have "R w' w2" by (rule stepsD)
    with R1 have "R w w2" by (rule rel_trans)
    with mw Inr kw show ?thesis by (simp add: bindA_run)
  qed
qed

lemma steps_catchA:
  assumes m: "acts_within R m" and h: "\<And>e. acts_within R (h e)"
  shows "acts_within R (catchA m p h)"
  unfolding acts_within_def
proof
  fix w
  obtain r w' where mw: "m w = (r, w')" by (cases "m w")
  with m have R1: "R w w'" by (rule stepsD)
  show "R w (snd (catchA m p h w))"
  proof (cases r)
    case (Inl e)
    obtain r2 w2 where hw: "h e w' = (r2, w2)" by (cases "h e w'")
    with h have "R w' w2" by (rule stepsD)
    with R1 have "R w w2" by (rule rel_trans)
    with mw Inl hw R1 show ?thesis by (simp add: catchA_def)
  next
    case (Inr x)
    with mw R1 show ?thesis by (simp add: catchA_def)
  qed
qed

lemma steps_if: "(b \<Longrightarrow> acts_within R m) \<Longrightarrow> (\<not> b \<Longrightarrow> acts_within R n) \<Longrightarrow> acts_within R (if b then m else n)"
  by simp

lemma steps_whenA: "(b \<Longrightarrow> acts_within R m) \<Longrightarrow> acts_within R (whenA b m)"
  by (simp add: whenA_def steps_retA)

lemma steps_option:
  "(v = None \<Longrightarrow> acts_within R m) \<Longrightarrow> (\<And>x. v = Some x \<Longrightarrow> acts_within R (k x)) \<Longrightarrow>
   acts_within R (case v of None \<Rightarrow> m | Some x \<Rightarrow> k x)"
  by (cases v) auto

lemma steps_sum:
  "(\<And>a. v = Inl a \<Longrightarrow> acts_within R (m a)) \<Longrightarrow> (\<And>x. v = Inr x \<Longrightarrow> acts_within R (k x)) \<Longrightarrow>
   acts_within R (case v of Inl a \<Rightarrow> m a | Inr x \<Rightarrow> k x)"
  by (cases v) auto

lemma steps_list:
  "(v = [] \<Longrightarrow> acts_within R m) \<Longrightarrow> (\<And>x xs. v = x # xs \<Longrightarrow> acts_within R (k x xs)) \<Longrightarrow>
   acts_within R (case v of [] \<Rightarrow> m | x # xs \<Rightarrow> k x xs)"
  by (cases v) auto

lemma steps_prod: "(\<And>a b. v = (a, b) \<Longrightarrow> acts_within R (k a b)) \<Longrightarrow> acts_within R (case v of (a, b) \<Rightarrow> k a b)"
  by (cases v) auto

lemma steps_Let: "acts_within R (k v) \<Longrightarrow> acts_within R (let x = v in k x)"
  by simp

lemma steps_forA: "(\<And>x. x \<in> set xs \<Longrightarrow> acts_within R (f x)) \<Longrightarrow> acts_within R (forA xs f)"
  by (induction xs) (auto intro!: steps_bindA steps_retA)

lemma fails_retA: "fails_within R (retA x)"
  by (simp add: fails_within_def)

lemma fails_modA: "fails_within R (modA g)"
  by (simp add: fails_within_def)

lemma fails_steps: "acts_within R m \<Longrightarrow> fails_within R m"
  by (auto simp: fails_within_def dest: stepsD)

lemma fails_bindA:
  assumes m: "acts_within R m" and k: "\<And>x. fails_within R (k x)"
  shows "fails_within R (bindA m k)"
  unfolding fails_within_def
proof (intro allI impI)
  fix w e w'
  assume "bindA m k w = (Inl e, w')"
  then show "R w w'"
  proof (cases rule: bindA_errE)
    case first
    with m show ?thesis by (rule stepsD)
  next
    case (second x v)
    from m second(1) have "R w v" by (rule stepsD)
    moreover from k second(2) have "R v w'" by (rule failsD)
    ultimately show ?thesis by (rule rel_trans)
  qed
qed

text \<open>When nothing after the first action can raise, only its own failures matter.\<close>

lemma fails_bindA_total:
  assumes m: "fails_within R m" and k: "\<And>x w. \<exists>y w'. k x w = (Inr y, w')"
  shows "fails_within R (bindA m k)"
  unfolding fails_within_def
proof (intro allI impI)
  fix w e w'
  assume "bindA m k w = (Inl e, w')"
  then show "R w w'"
  proof (cases rule: bindA_errE)
    case first
    with m show ?thesis by (rule failsD)
  next
    case (second x v)
    from k obtain y v' where "k x v = (Inr y, v')" by blast
    with second(2) show ?thesis by simp
  qed
qed

lemma fails_raiseA: "fails_within R (raiseA e)"
  and fails_liftA: "fails_within R (liftA r)"
  by (simp_all add: fails_within_def rel_refl)

lemma fails_if: "(b \<Longrightarrow> fails_within R m) \<Longrightarrow> (\<not> b \<Longrightarrow> fails_within R n) \<Longrightarrow> fails_within R (if b then m else n)"
  by simp

lemma fails_option:
  "(v = None \<Longrightarrow> fails_within R m) \<Longrightarrow> (\<And>x. v = Some x \<Longrightarrow> fails_within R (k x)) \<Longrightarrow>
   fails_within R (case v of None \<Rightarrow> m | Some x \<Rightarrow> k x)"
  by (cases v) auto

lemma fails_sum:
  "(\<And>a. v = Inl a \<Longrightarrow> fails_within R (m a)) \<Longrightarrow> (\<And>x. v = Inr x \<Longrightarrow> fails_within R (k x)) \<Longrightarrow>
   fails_within R (case v of Inl a \<Rightarrow> m a | Inr x \<Rightarrow> k x)"
  by (cases v) auto

lemma fails_prod: "(\<And>a b. v = (a, b) \<Longrightarrow> fails_within R (k a b)) \<Longrightarrow> fails_within R (case v of (a, b) \<Rightarrow> k a b)"
  by (cases v) auto

lemma fails_Let: "fails_within R (k v) \<Longrightarrow> fails_within R (let x = v in k x)"
  by simp

lemma fails_catchA:
  assumes m: "fails_within R m" and h: "\<And>e. fails_within R (h e)"
  shows "fails_within R (catchA m p h)"
  unfolding fails_within_def
proof (intro allI impI)
  fix w e w'
  assume run: "catchA m p h w = (Inl e, w')"
  then obtain e1 w1 where m1: "m w = (Inl e1, w1)"
    by (auto simp: catchA_def split: prod.splits sum.splits)
  with m have R1: "R w w1" by (rule failsD)
  show "R w w'"
  proof (cases "p e1")
    case True
    with run m1 have "h e1 w1 = (Inl e, w')" by (simp add: catchA_def)
    with h have "R w1 w'" by (rule failsD)
    with R1 show ?thesis by (rule rel_trans)
  next
    case False
    with run m1 R1 show ?thesis by (simp add: catchA_def)
  qed
qed

lemma unless_bindA:
  assumes m: "acts_within R m" and k: "\<And>x. fails_unless P R (k x)"
  shows "fails_unless P R (bindA m k)"
  unfolding fails_unless_def
proof (intro allI impI)
  fix w e w'
  assume "bindA m k w = (Inl e, w')"
  then show "P e \<or> R w w'"
  proof (cases rule: bindA_errE)
    case first
    with m have "R w w'" by (rule stepsD)
    then show ?thesis ..
  next
    case (second x v)
    from m second(1) have "R w v" by (rule stepsD)
    with rel_trans unlessD [OF k second(2)] show ?thesis by blast
  qed
qed

lemma unless_if: "(b \<Longrightarrow> fails_unless P R m) \<Longrightarrow> (\<not> b \<Longrightarrow> fails_unless P R n) \<Longrightarrow> fails_unless P R (if b then m else n)"
  by simp

lemma unless_option:
  "(v = None \<Longrightarrow> fails_unless P R m) \<Longrightarrow> (\<And>x. v = Some x \<Longrightarrow> fails_unless P R (k x)) \<Longrightarrow>
   fails_unless P R (case v of None \<Rightarrow> m | Some x \<Rightarrow> k x)"
  by (cases v) auto

lemma unless_sum:
  "(\<And>a. v = Inl a \<Longrightarrow> fails_unless P R (m a)) \<Longrightarrow> (\<And>x. v = Inr x \<Longrightarrow> fails_unless P R (k x)) \<Longrightarrow>
   fails_unless P R (case v of Inl a \<Rightarrow> m a | Inr x \<Rightarrow> k x)"
  by (cases v) auto

lemma unless_steps: "acts_within R m \<Longrightarrow> fails_unless P R m"
  by (intro unless_fails fails_steps)

lemmas unless_rules = unless_bindA unless_if unless_option unless_sum

lemmas fails_rules = fails_retA fails_raiseA fails_liftA fails_if fails_option fails_sum fails_prod fails_Let fails_catchA

lemmas steps_rules =
  steps_retA steps_raiseA steps_liftA steps_getA steps_bindA steps_catchA steps_if steps_whenA
  steps_option steps_sum steps_list steps_prod steps_Let

end

section \<open>Python strings\<close>

definition code_point :: "char \<Rightarrow> nat" where
  "code_point c = of_char c"

definition py_isspace :: "char \<Rightarrow> bool" where
  "py_isspace c = (let n = code_point c in
     (9 \<le> n \<and> n \<le> 13) \<or> (28 \<le> n \<and> n \<le> 32) \<or> n = 133 \<or> n = 160)"

definition py_lower_char :: "char \<Rightarrow> char" where
  "py_lower_char c = (let n = code_point c in
     if (65 \<le> n \<and> n \<le> 90) \<or> (192 \<le> n \<and> n \<le> 222 \<and> n \<noteq> 215) then char_of (n + 32) else c)"

definition py_lower :: "string \<Rightarrow> string" where
  "py_lower s = map py_lower_char s"

definition strip_by :: "('a \<Rightarrow> bool) \<Rightarrow> 'a list \<Rightarrow> 'a list" where
  "strip_by p s = rev (dropWhile p (rev (dropWhile p s)))"

definition py_strip :: "string \<Rightarrow> string" where
  "py_strip s = strip_by py_isspace s"

definition py_startswith :: "string \<Rightarrow> string \<Rightarrow> bool" where
  "py_startswith s p = (take (length p) s = p)"

fun py_join :: "string \<Rightarrow> string list \<Rightarrow> string" where
  "py_join sep [] = []"
| "py_join sep [x] = x"
| "py_join sep (x # y # ys) = x @ sep @ py_join sep (y # ys)"

text \<open>A text between single quotes, as the messages of the sources have them.\<close>

definition sq :: "string \<Rightarrow> string" where
  "sq s = [CHR 0x27] @ s @ [CHR 0x27]"

fun nat_digits :: "nat \<Rightarrow> string" where
  "nat_digits n = (if n < 10 then [char_of (48 + n)] else nat_digits (n div 10) @ [char_of (48 + n mod 10)])"

declare nat_digits.simps [simp del]

definition int_str :: "int \<Rightarrow> string" where
  "int_str i = (if i < 0 then ''-'' @ nat_digits (nat (- i)) else nat_digits (nat i))"

text \<open>\<open>s or d\<close> on an optional string: the empty string and \<open>None\<close> are both false.\<close>

definition opt_truthy :: "string option \<Rightarrow> bool" where
  "opt_truthy s = (case s of None \<Rightarrow> False | Some t \<Rightarrow> t \<noteq> [])"

definition or_str :: "string option \<Rightarrow> string \<Rightarrow> string" where
  "or_str s d = (case s of None \<Rightarrow> d | Some t \<Rightarrow> if t = [] then d else t)"

lemma code_point_char_of: "n < 256 \<Longrightarrow> code_point (char_of n) = n"
  by (simp add: code_point_def)

lemma py_lower_char_idem [simp]: "py_lower_char (py_lower_char c) = py_lower_char c"
  by (auto simp: py_lower_char_def Let_def code_point_char_of)

lemma py_lower_idem [simp]: "py_lower (py_lower s) = py_lower s"
  by (simp add: py_lower_def)

lemma py_isspace_lower [simp]: "py_isspace (py_lower_char c) = py_isspace c"
  by (auto simp: py_lower_char_def py_isspace_def Let_def code_point_char_of)

lemma py_lower_strip: "py_lower (py_strip s) = py_strip (py_lower s)"
proof -
  have *: "map py_lower_char (dropWhile py_isspace t) = dropWhile py_isspace (map py_lower_char t)" for t
    by (induction t) auto
  show ?thesis
    by (simp add: py_lower_def py_strip_def strip_by_def rev_map * flip: rev_map)
qed

lemma dropWhile_dropWhile [simp]: "dropWhile p (dropWhile p xs) = dropWhile p xs"
  by (induction xs) auto

lemma dropWhile_hd: "xs \<noteq> [] \<Longrightarrow> \<not> p (hd xs) \<Longrightarrow> dropWhile p xs = xs"
  by (cases xs) auto

lemma dropWhile_last_kept: "xs \<noteq> [] \<Longrightarrow> \<not> p (last xs) \<Longrightarrow> dropWhile p xs \<noteq> [] \<and> last (dropWhile p xs) = last xs"
  by (induction xs) auto

lemma strip_by_ends:
  assumes "strip_by p xs \<noteq> []"
  shows "\<not> p (hd (strip_by p xs))" and "\<not> p (last (strip_by p xs))"
proof -
  let ?y = "dropWhile p xs"
  have y: "?y \<noteq> []"
  proof
    assume "?y = []"
    then have "strip_by p xs = []" by (simp only: strip_by_def rev.simps dropWhile.simps)
    with assms show False by simp
  qed
  then have hdy: "\<not> p (hd ?y)" by (rule hd_dropWhile)
  have "rev ?y \<noteq> []" and "\<not> p (last (rev ?y))" using y hdy by (simp_all add: last_rev del: dropWhile_eq_Nil_conv)
  then have "dropWhile p (rev ?y) \<noteq> [] \<and> last (dropWhile p (rev ?y)) = last (rev ?y)"
    by (rule dropWhile_last_kept)
  then show "\<not> p (hd (strip_by p xs))"
    using hdy y by (simp add: strip_by_def hd_rev last_rev)
  show "\<not> p (last (strip_by p xs))"
    using assms hd_dropWhile [of p "rev ?y"] by (simp add: strip_by_def last_rev)
qed

lemma strip_by_fixed: "(xs = [] \<or> \<not> p (hd xs) \<and> \<not> p (last xs)) \<Longrightarrow> strip_by p xs = xs"
  by (cases "xs = []") (simp_all add: strip_by_def dropWhile_hd hd_rev)

lemma strip_by_idem [simp]: "strip_by p (strip_by p xs) = strip_by p xs"
  by (rule strip_by_fixed) (use strip_by_ends in blast)

lemma py_strip_idem [simp]: "py_strip (py_strip s) = py_strip s"
  by (simp add: py_strip_def)

lemma set_strip_by: "set (strip_by p xs) \<subseteq> set xs"
proof
  fix x
  assume "x \<in> set (strip_by p xs)"
  then have "x \<in> set (dropWhile p (rev (dropWhile p xs)))" by (simp add: strip_by_def)
  then have "x \<in> set (dropWhile p xs)" by (metis set_dropWhileD set_rev)
  then show "x \<in> set xs" by (metis set_dropWhileD)
qed

section \<open>Splitting\<close>

text \<open>\<open>s.split(c)\<close>.\<close>

fun split_on :: "'a \<Rightarrow> 'a list \<Rightarrow> 'a list list" where
  "split_on c [] = [[]]"
| "split_on c (x # xs) = (if x = c then [] # split_on c xs
     else case split_on c xs of [] \<Rightarrow> [[x]] | y # ys \<Rightarrow> (x # y) # ys)"

lemma split_on_ne [simp]: "split_on c xs \<noteq> []"
  by (induction xs) (auto split: list.splits)

lemma split_on_whole: "c \<notin> set xs \<Longrightarrow> split_on c xs = [xs]"
  by (induction xs) auto

lemma split_on_append: "c \<notin> set xs \<Longrightarrow> split_on c (xs @ c # ys) = xs # split_on c ys"
  by (induction xs) auto

lemma split_on_parts: "p \<in> set (split_on c xs) \<Longrightarrow> c \<notin> set p"
  by (induction xs arbitrary: p) (auto split: list.splits if_splits)

lemma join_split: "py_join [c] (split_on c xs) = xs"
proof (induction xs)
  case (Cons x xs)
  obtain y ys where s: "split_on c xs = y # ys" by (cases "split_on c xs") simp_all
  show ?case
  proof (cases "x = c")
    case True
    with Cons s show ?thesis by simp
  next
    case False
    with Cons s show ?thesis by (cases ys) auto
  qed
qed simp

section \<open>Lists\<close>

lemma length_filter_le1:
  assumes "\<And>x y. x \<in> set xs \<Longrightarrow> y \<in> set xs \<Longrightarrow> p x \<Longrightarrow> p y \<Longrightarrow> f x = f y" and "distinct (map f xs)"
  shows "length (filter p xs) \<le> 1"
  using assms
proof (induction xs)
  case Nil
  then show ?case by simp
next
  case (Cons a xs)
  then have IH: "length (filter p xs) \<le> 1" by simp
  show ?case
  proof (cases "p a")
    case True
    then have "filter p xs = []"
      using Cons.prems by (auto simp: filter_empty_conv image_iff)
    then show ?thesis by simp
  qed (use IH in simp)
qed

lemma find_Some_in: "find p xs = Some x \<Longrightarrow> x \<in> set xs \<and> p x"
  by (metis find_Some_iff nth_mem)

lemma find_None_all: "find p xs = None \<longleftrightarrow> (\<forall>x \<in> set xs. \<not> p x)"
  by (auto simp: find_None_iff)

lemma map_update_same: "map_of (AList.update k v al) k = Some v"
  by (simp add: update_conv)

lemma map_update_other: "k' \<noteq> k \<Longrightarrow> map_of (AList.update k v al) k' = map_of al k'"
  by (simp add: update_conv)

lemma map_update_if: "map_of (AList.update k v al) k' = (if k' = k then Some v else map_of al k')"
  by (simp add: update_conv)

end
