(* ===== verification/PyData.thy ===== *)
theory PyData
  imports Prelude "HOL-Library.Word" "HOL-Library.Char_ord" "HOL-Library.List_Lexorder" "HOL-Library.Product_Lexorder"
begin

text \<open>
  The Python values that the modelled code keeps in JSONB columns and prints into keys:
  JSON documents with \<open>dict\<close> lookup, truth value and \<open>==\<close>, \<open>json.dumps\<close> with sorted keys,
  \<open>uuid.UUID\<close> with \<open>str\<close> and the parsing constructor, and UTC \<open>datetime\<close> with
  \<open>isoformat\<close> and \<open>fromisoformat\<close>.
\<close>

section \<open>JSON documents\<close>

text \<open>
  A float is kept as its \<open>repr\<close>. Keys are strings: every document the code reads from a
  column has been through JSONB, which has no other keys.
\<close>

datatype json =
    JNull
  | JBool bool
  | JInt int
  | JFloat string
  | JStr string
  | JArr "json list"
  | JObj "(string \<times> json) list"

type_synonym jdict = "(string \<times> json) list"

fun is_obj :: "json \<Rightarrow> bool" where
  "is_obj (JObj d) = True"
| "is_obj _ = False"

fun obj_of :: "json \<Rightarrow> jdict" where
  "obj_of (JObj d) = d"
| "obj_of _ = []"

fun is_str :: "json \<Rightarrow> bool" where
  "is_str (JStr s) = True"
| "is_str _ = False"

fun is_arr :: "json \<Rightarrow> bool" where
  "is_arr (JArr xs) = True"
| "is_arr _ = False"

fun is_bool :: "json \<Rightarrow> bool" where
  "is_bool (JBool b) = True"
| "is_bool _ = False"

text \<open>\<open>bool(v)\<close>.\<close>

fun truthy :: "json \<Rightarrow> bool" where
  "truthy JNull = False"
| "truthy (JBool b) = b"
| "truthy (JInt i) = (i \<noteq> 0)"
| "truthy (JFloat r) = (r \<noteq> ''0.0'' \<and> r \<noteq> ''-0.0'')"
| "truthy (JStr s) = (s \<noteq> [])"
| "truthy (JArr xs) = (xs \<noteq> [])"
| "truthy (JObj d) = (d \<noteq> [])"

text \<open>\<open>d.get(k)\<close>, \<open>d.get(k, default)\<close>, \<open>v or default\<close>.\<close>

definition dget :: "jdict \<Rightarrow> string \<Rightarrow> json" where
  "dget d k = (case map_of d k of None \<Rightarrow> JNull | Some v \<Rightarrow> v)"

definition dget_def :: "jdict \<Rightarrow> string \<Rightarrow> json \<Rightarrow> json" where
  "dget_def d k v0 = (case map_of d k of None \<Rightarrow> v0 | Some v \<Rightarrow> v)"

abbreviation dset :: "string \<Rightarrow> json \<Rightarrow> jdict \<Rightarrow> jdict" where
  "dset \<equiv> AList.update"

text \<open>\<open>{**a, **b}\<close> and \<open>a.update(b)\<close>.\<close>

definition dmerge :: "jdict \<Rightarrow> jdict \<Rightarrow> jdict" where
  "dmerge a b = foldl (\<lambda>d (k, v). dset k v d) a b"

definition opt_str :: "string option \<Rightarrow> json" where
  "opt_str s = (case s of None \<Rightarrow> JNull | Some t \<Rightarrow> JStr t)"

definition str_opt :: "json \<Rightarrow> string option" where
  "str_opt v = (case v of JStr t \<Rightarrow> Some t | _ \<Rightarrow> None)"

lemma dget_dset: "dget (dset k v d) k' = (if k' = k then v else dget d k')"
  by (simp add: dget_def map_update_if)

lemma map_of_dmerge: "map_of (dmerge a b) k = (case map_of (rev b) k of None \<Rightarrow> map_of a k | Some v \<Rightarrow> Some v)"
proof (induction b arbitrary: a)
  case Nil
  then show ?case by (simp add: dmerge_def)
next
  case (Cons p b)
  obtain k0 v0 where p: "p = (k0, v0)" by (cases p)
  have "dmerge a (p # b) = dmerge (dset k0 v0 a) b" by (simp add: dmerge_def p)
  then show ?case
    by (simp add: Cons.IH p map_add_def map_update_if split: option.splits)
qed

lemma dmerge_Nil [simp]: "dmerge a [] = a"
  by (simp add: dmerge_def)

lemma dmerge_Cons [simp]: "dmerge a ((k, v) # b) = dmerge (dset k v a) b"
  by (simp add: dmerge_def)

lemma is_obj_iff: "is_obj v \<longleftrightarrow> (\<exists>d. v = JObj d)"
  by (cases v) auto

subsection \<open>Equality\<close>

text \<open>
  Python's \<open>==\<close> on documents: the order of an object's keys does not matter, and a
  Boolean equals the integer 0 or 1.
\<close>

lemma json_size_zip [termination_simp]:
  fixes xs ys :: "json list"
  assumes "(a, b) \<in> set (zip xs ys)"
  shows "size a < Suc (size_list size xs)" and "size b < Suc (size_list size ys)"
proof -
  from assms have "a \<in> set xs" and "b \<in> set ys" by (auto dest: set_zip_leftD set_zip_rightD)
  then show "size a < Suc (size_list size xs)" and "size b < Suc (size_list size ys)"
    by (simp_all add: less_Suc_eq_le size_list_estimation')
qed

lemma json_size_pair [termination_simp]:
  "(k, v) \<in> set d \<Longrightarrow> size v < Suc (size_list (\<lambda>x. Suc (size (snd x))) d)"
  by (induction d) auto

lemma json_size_map_of [termination_simp]:
  "map_of d k = Some v \<Longrightarrow> size v < Suc (size_list (\<lambda>x. Suc (size (snd x))) d)"
  by (rule json_size_pair) (rule map_of_SomeD)

fun jeq :: "json \<Rightarrow> json \<Rightarrow> bool" where
  "jeq (JArr xs) (JArr ys) = (length xs = length ys \<and> list_all (\<lambda>(x, y). jeq x y) (zip xs ys))"
| "jeq (JObj a) (JObj b) =
     (length a = length b \<and>
      list_all (\<lambda>(k, v). case map_of b k of None \<Rightarrow> False | Some v' \<Rightarrow> jeq v v') a)"
| "jeq (JBool p) (JInt i) = (i = (if p then 1 else 0))"
| "jeq (JInt i) (JBool p) = (i = (if p then 1 else 0))"
| "jeq u v = (u = v)"

text \<open>Documents as the database returns them: no key twice in an object.\<close>

fun jwf :: "json \<Rightarrow> bool" where
  "jwf (JArr xs) = list_all jwf xs"
| "jwf (JObj d) = (distinct (map fst d) \<and> list_all (\<lambda>(k, v). jwf v) d)"
| "jwf _ = True"

lemma jeq_refl: "jwf v \<Longrightarrow> jeq v v"
proof (induction v rule: jwf.induct)
  case (1 xs)
  then have "\<forall>x \<in> set xs. jeq x x" by (auto simp: list_all_iff)
  then show ?case by (auto simp: list_all_iff in_set_zip)
next
  case (2 d)
  have "case map_of d k of None \<Rightarrow> False | Some v' \<Rightarrow> jeq v v'" if kv: "(k, v) \<in> set d" for k v
  proof -
    from 2 kv have "jwf v" and "distinct (map fst d)" by (auto simp: list_all_iff)
    with kv have "map_of d k = Some v" by simp
    moreover from 2 kv \<open>jwf v\<close> have "jeq v v" by blast
    ultimately show ?thesis by simp
  qed
  then show ?case by (auto simp: list_all_iff)
qed auto

lemma jwf_dget_def: "jwf (JObj d) \<Longrightarrow> jwf v0 \<Longrightarrow> jwf (dget_def d k v0)"
  by (auto simp: dget_def_def list_all_iff split: option.splits dest: map_of_SomeD)

lemma jwf_dset: "jwf (JObj d) \<Longrightarrow> jwf v \<Longrightarrow> jwf (JObj (dset k v d))"
proof (induction d)
  case (Cons p d)
  then show ?case by (cases p) (auto simp: dom_update)
qed simp

lemma jwf_dmerge: "jwf (JObj a) \<Longrightarrow> \<forall>(k, v) \<in> set b. jwf v \<Longrightarrow> jwf (JObj (dmerge a b))"
proof (induction b arbitrary: a)
  case (Cons p b)
  then show ?case by (cases p) (simp add: jwf_dset del: jwf.simps)
qed simp

lemma jwf_obj_of: "jwf v \<Longrightarrow> is_obj v \<Longrightarrow> jwf (JObj (obj_of v))"
  by (cases v) auto

subsection \<open>json.dumps with sorted keys\<close>

definition hex_digit :: "nat \<Rightarrow> char" where
  "hex_digit n = (if n < 10 then char_of (48 + n) else char_of (87 + n))"

definition json_escape_char :: "char \<Rightarrow> string" where
  "json_escape_char c = (let n = code_point c in
     if c = CHR 0x22 then [CHR 0x5C, CHR 0x22]
     else if c = CHR 0x5C then [CHR 0x5C, CHR 0x5C]
     else if n = 10 then [CHR 0x5C, CHR ''n'']
     else if n = 13 then [CHR 0x5C, CHR ''r'']
     else if n = 9 then [CHR 0x5C, CHR ''t'']
     else if n = 12 then [CHR 0x5C, CHR ''f'']
     else if n = 8 then [CHR 0x5C, CHR ''b'']
     else if 32 \<le> n \<and> n < 127 then [c]
     else [CHR 0x5C, CHR ''u'', CHR ''0'', CHR ''0'', hex_digit (n div 16), hex_digit (n mod 16)])"

definition json_quote :: "string \<Rightarrow> string" where
  "json_quote s = CHR 0x22 # concat (map json_escape_char s) @ [CHR 0x22]"

fun json_dumps :: "string \<Rightarrow> string \<Rightarrow> json \<Rightarrow> string" where
  "json_dumps is ks JNull = ''null''"
| "json_dumps is ks (JBool b) = (if b then ''true'' else ''false'')"
| "json_dumps is ks (JInt i) = int_str i"
| "json_dumps is ks (JFloat r) = r"
| "json_dumps is ks (JStr s) = json_quote s"
| "json_dumps is ks (JArr xs) = ''['' @ py_join is (map (json_dumps is ks) xs) @ '']''"
| "json_dumps is ks (JObj d) =
     ''{'' @ py_join is (map snd (sort_key fst
        (map (\<lambda>(k, v). (k, json_quote k @ ks @ json_dumps is ks v)) d))) @ ''}''"

subsection \<open>str and repr\<close>

definition repr_char :: "char \<Rightarrow> char \<Rightarrow> string" where
  "repr_char q c = (let n = code_point c in
     if c = q \<or> c = CHR 0x5C then [CHR 0x5C, c]
     else if n = 10 then [CHR 0x5C, CHR ''n'']
     else if n = 13 then [CHR 0x5C, CHR ''r'']
     else if n = 9 then [CHR 0x5C, CHR ''t'']
     else if n < 32 \<or> (127 \<le> n \<and> n \<le> 160) \<or> n = 173
       then [CHR 0x5C, CHR ''x'', hex_digit (n div 16), hex_digit (n mod 16)]
     else [c])"

definition repr_str :: "string \<Rightarrow> string" where
  "repr_str s = (let q = (if CHR 0x27 \<in> set s \<and> CHR 0x22 \<notin> set s then CHR 0x22 else CHR 0x27)
     in q # concat (map (repr_char q) s) @ [q])"

fun py_repr :: "json \<Rightarrow> string" where
  "py_repr JNull = ''None''"
| "py_repr (JBool b) = (if b then ''True'' else ''False'')"
| "py_repr (JInt i) = int_str i"
| "py_repr (JFloat r) = r"
| "py_repr (JStr s) = repr_str s"
| "py_repr (JArr xs) = ''['' @ py_join '', '' (map py_repr xs) @ '']''"
| "py_repr (JObj d) = ''{'' @ py_join '', '' (map (\<lambda>(k, v). repr_str k @ '': '' @ py_repr v) d) @ ''}''"

definition py_str :: "json \<Rightarrow> string" where
  "py_str v = (case v of JStr s \<Rightarrow> s | _ \<Rightarrow> py_repr v)"

lemma py_str_JStr [simp]: "py_str (JStr s) = s"
  by (simp add: py_str_def)

subsection \<open>Layouts of json.dumps\<close>

text \<open>The two layouts in use: \<open>separators=(",", ":")\<close> and the default one.\<close>

definition dumps_compact :: "json \<Rightarrow> string" where
  "dumps_compact v = json_dumps '','' '':'' v"

definition dumps_default :: "json \<Rightarrow> string" where
  "dumps_default v = json_dumps '', '' '': '' v"

section \<open>UUIDs\<close>

type_synonym uuid = "128 word"

text \<open>\<open>hex_fixed k n\<close> prints the \<open>k\<close> low hexadecimal digits of \<open>n\<close>.\<close>

fun hex_fixed :: "nat \<Rightarrow> nat \<Rightarrow> string" where
  "hex_fixed 0 n = []"
| "hex_fixed (Suc k) n = hex_fixed k (n div 16) @ [hex_digit (n mod 16)]"

definition hex_value :: "char \<Rightarrow> nat option" where
  "hex_value c = (let n = code_point c in
     if 48 \<le> n \<and> n \<le> 57 then Some (n - 48)
     else if 97 \<le> n \<and> n \<le> 102 then Some (n - 87)
     else if 65 \<le> n \<and> n \<le> 70 then Some (n - 55)
     else None)"

fun unhex :: "nat \<Rightarrow> string \<Rightarrow> nat option" where
  "unhex acc [] = Some acc"
| "unhex acc (c # cs) = (case hex_value c of None \<Rightarrow> None | Some d \<Rightarrow> unhex (16 * acc + d) cs)"

definition hyphenate :: "string \<Rightarrow> string" where
  "hyphenate h = take 8 h @ ''-'' @ take 4 (drop 8 h) @ ''-'' @ take 4 (drop 12 h) @ ''-'' @
     take 4 (drop 16 h) @ ''-'' @ drop 20 h"

definition uuid_str :: "uuid \<Rightarrow> string" where
  "uuid_str u = hyphenate (hex_fixed 32 (unat u))"

text \<open>
  \<open>UUID(s)\<close>: braces are stripped and hyphens removed, then 32 hexadecimal digits are
  required; \<open>None\<close> is the \<open>ValueError\<close>. (The \<open>urn:uuid:\<close> prefix that Python also drops
  is not accepted here; no text the code builds has one.)
\<close>

definition is_brace :: "char \<Rightarrow> bool" where
  "is_brace c = (c \<in> {CHR ''{'', CHR ''}''})"

definition uuid_parse :: "string \<Rightarrow> uuid option" where
  "uuid_parse s = (let h = filter (\<lambda>c. c \<noteq> CHR ''-'') (strip_by is_brace s)
     in if length h \<noteq> 32 then None else map_option word_of_nat (unhex 0 h))"

lemma length_hex_fixed [simp]: "length (hex_fixed k n) = k"
  by (induction k arbitrary: n) auto

lemma hex_value_digit: "d < 16 \<Longrightarrow> hex_value (hex_digit d) = Some d"
  by (auto simp: hex_value_def hex_digit_def Let_def code_point_char_of)

lemma unhex_append: "unhex acc (xs @ ys) = (case unhex acc xs of None \<Rightarrow> None | Some a \<Rightarrow> unhex a ys)"
  by (induction xs arbitrary: acc) (auto split: option.splits)

lemma unhex_hex_fixed: "unhex acc (hex_fixed k n) = Some (16 ^ k * acc + n mod 16 ^ k)"
proof (induction k arbitrary: n)
  case 0
  then show ?case by simp
next
  case (Suc k)
  have "16 * (n div 16 mod 16 ^ k) + n mod 16 = n mod (16 * 16 ^ k)"
    by (simp add: mod_mult2_eq)
  then show ?case
    by (simp add: unhex_append Suc hex_value_digit algebra_simps)
qed

lemma hex_digit_plain: "d < 16 \<Longrightarrow> hex_digit d \<notin> {CHR ''-'', CHR ''{'', CHR ''}''}"
proof -
  assume "d < 16"
  then have "hex_value (hex_digit d) = Some d" by (rule hex_value_digit)
  moreover have "hex_value (CHR ''-'') = None" "hex_value (CHR ''{'') = None" "hex_value (CHR ''}'') = None"
    by (simp_all add: hex_value_def code_point_def)
  ultimately show ?thesis by auto
qed

lemma set_hex_fixed: "c \<in> set (hex_fixed k n) \<Longrightarrow> c \<notin> {CHR ''-'', CHR ''{'', CHR ''}''}"
  by (induction k arbitrary: n) (use hex_digit_plain in \<open>force+\<close>)

lemma filter_hyphenate:
  assumes "CHR ''-'' \<notin> set h"
  shows "filter (\<lambda>c. c \<noteq> CHR ''-'') (hyphenate h) = h"
proof -
  have keep: "filter (\<lambda>c. c \<noteq> CHR ''-'') xs = xs" if "set xs \<subseteq> set h" for xs
    using that assms by (auto intro!: filter_True)
  have "filter (\<lambda>c. c \<noteq> CHR ''-'') (hyphenate h) =
      take 8 h @ take 4 (drop 8 h) @ take 4 (drop 12 h) @ take 4 (drop 16 h) @ drop 20 h"
    by (simp add: hyphenate_def keep set_take_subset set_drop_subset
        subset_trans [OF set_take_subset set_drop_subset])
  also have "\<dots> = h"
    using append_take_drop_id [of 8 h] append_take_drop_id [of 4 "drop 8 h"]
      append_take_drop_id [of 4 "drop 12 h"] append_take_drop_id [of 4 "drop 16 h"]
    by (simp del: append_take_drop_id)
  finally show ?thesis .
qed

lemma uuid_roundtrip: "uuid_parse (uuid_str u) = Some u"
proof -
  let ?h = "hex_fixed 32 (unat u)"
  have ne: "hyphenate ?h \<noteq> []" by (simp add: hyphenate_def)
  have hd: "hd (hyphenate ?h) \<in> set ?h"
    by (metis hyphenate_def hd_append2 hd_in_set in_set_takeD length_hex_fixed list.size(3) take_eq_Nil zero_neq_numeral)
  have last: "last (hyphenate ?h) \<in> set ?h"
  proof -
    have "drop 20 ?h \<noteq> []" by simp
    then have "last (hyphenate ?h) = last (drop 20 ?h)" by (simp add: hyphenate_def)
    with \<open>drop 20 ?h \<noteq> []\<close> show ?thesis by (metis in_set_dropD last_in_set)
  qed
  have "\<not> is_brace (hd (hyphenate ?h))" and "\<not> is_brace (last (hyphenate ?h))"
    using hd last set_hex_fixed by (fastforce simp: is_brace_def)+
  then have strip: "strip_by is_brace (hyphenate ?h) = hyphenate ?h"
    by (simp add: strip_by_fixed)
  have "CHR ''-'' \<notin> set ?h" using set_hex_fixed by blast
  then have "filter (\<lambda>c. c \<noteq> CHR ''-'') (hyphenate ?h) = ?h" by (rule filter_hyphenate)
  moreover have "unat u mod 16 ^ 32 = unat u"
    using unsigned_less [where 'a = nat, of u] by simp
  ultimately show ?thesis
    by (simp add: uuid_parse_def uuid_str_def strip unhex_hex_fixed)
qed

lemma uuid_str_inject [simp]: "uuid_str u = uuid_str v \<longleftrightarrow> u = v"
  by (metis option.inject uuid_roundtrip)

section \<open>UTC timestamps\<close>

datatype datetime = DT (dt_year: nat) (dt_month: nat) (dt_day: nat) (dt_hour: nat) (dt_minute: nat)
  (dt_second: nat) (dt_micro: nat)

definition leap_year :: "nat \<Rightarrow> bool" where
  "leap_year y = (y mod 4 = 0 \<and> (y mod 100 \<noteq> 0 \<or> y mod 400 = 0))"

definition month_days :: "nat \<Rightarrow> nat \<Rightarrow> nat" where
  "month_days y m = (if m = 2 then (if leap_year y then 29 else 28)
     else if m \<in> {4, 6, 9, 11} then 30 else 31)"

definition dt_wf :: "datetime \<Rightarrow> bool" where
  "dt_wf t = (1 \<le> dt_year t \<and> dt_year t \<le> 9999 \<and> 1 \<le> dt_month t \<and> dt_month t \<le> 12 \<and>
     1 \<le> dt_day t \<and> dt_day t \<le> month_days (dt_year t) (dt_month t) \<and>
     dt_hour t < 24 \<and> dt_minute t < 60 \<and> dt_second t < 60 \<and> dt_micro t < 1000000)"

text \<open>Days before the year, days before the month, and the instant in microseconds.\<close>

definition year_days :: "nat \<Rightarrow> nat" where
  "year_days y = (let p = y - 1 in 365 * p + p div 4 - p div 100 + p div 400)"

definition dt_ordinal :: "datetime \<Rightarrow> nat" where
  "dt_ordinal t = year_days (dt_year t) + sum_list (map (month_days (dt_year t)) [1..<dt_month t]) + dt_day t"

definition dt_instant :: "datetime \<Rightarrow> int" where
  "dt_instant t = int (((dt_ordinal t * 24 + dt_hour t) * 60 + dt_minute t) * 60 + dt_second t) * 1000000
     + int (dt_micro t)"

fun dec_fixed :: "nat \<Rightarrow> nat \<Rightarrow> string" where
  "dec_fixed 0 n = []"
| "dec_fixed (Suc k) n = dec_fixed k (n div 10) @ [char_of (48 + n mod 10)]"

fun undec :: "nat \<Rightarrow> string \<Rightarrow> nat option" where
  "undec acc [] = Some acc"
| "undec acc (c # cs) = (let n = code_point c in
     if 48 \<le> n \<and> n \<le> 57 then undec (10 * acc + (n - 48)) cs else None)"

definition isoformat :: "datetime \<Rightarrow> string" where
  "isoformat t = dec_fixed 4 (dt_year t) @ ''-'' @ dec_fixed 2 (dt_month t) @ ''-'' @ dec_fixed 2 (dt_day t) @ ''T'' @
     dec_fixed 2 (dt_hour t) @ '':'' @ dec_fixed 2 (dt_minute t) @ '':'' @ dec_fixed 2 (dt_second t) @
     (if dt_micro t = 0 then [] else ''.'' @ dec_fixed 6 (dt_micro t)) @ ''+00:00''"

text \<open>
  \<open>datetime.fromisoformat\<close> on the texts that \<open>isoformat\<close> produces for a UTC time. Python
  accepts further ISO 8601 layouts; nothing in the modelled code writes them.
\<close>

definition fromisoformat :: "string \<Rightarrow> datetime option" where
  "fromisoformat s = (let rest = drop 19 s in
     if length s < 25 \<or> s ! 4 \<noteq> CHR ''-'' \<or> s ! 7 \<noteq> CHR ''-'' \<or> s ! 10 \<noteq> CHR ''T'' \<or> s ! 13 \<noteq> CHR '':'' \<or> s ! 16 \<noteq> CHR '':''
     then None
     else let us = (if rest = ''+00:00'' then Some 0
                    else if length rest = 13 \<and> hd rest = CHR ''.'' \<and> drop 7 rest = ''+00:00'' then undec 0 (take 6 (tl rest))
                    else None)
     in case (undec 0 (take 4 s), undec 0 (take 2 (drop 5 s)), undec 0 (take 2 (drop 8 s)), undec 0 (take 2 (drop 11 s)),
              undec 0 (take 2 (drop 14 s)), undec 0 (take 2 (drop 17 s)), us) of
          (Some y, Some mo, Some d, Some h, Some mi, Some se, Some u) \<Rightarrow>
             (let t = DT y mo d h mi se u in if dt_wf t then Some t else None)
        | _ \<Rightarrow> None)"

lemma length_dec_fixed [simp]: "length (dec_fixed k n) = k"
  by (induction k arbitrary: n) auto

lemma undec_append: "undec acc (xs @ ys) = (case undec acc xs of None \<Rightarrow> None | Some a \<Rightarrow> undec a ys)"
  by (induction xs arbitrary: acc) (auto simp: Let_def)

lemma undec_dec_fixed: "undec acc (dec_fixed k n) = Some (10 ^ k * acc + n mod 10 ^ k)"
proof (induction k arbitrary: n)
  case 0
  then show ?case by simp
next
  case (Suc k)
  have "10 * (n div 10 mod 10 ^ k) + n mod 10 = n mod (10 * 10 ^ k)"
    by (simp add: mod_mult2_eq)
  then show ?case
    by (simp add: undec_append Suc code_point_char_of algebra_simps)
qed

lemma month_days_le: "month_days y m \<le> 31"
  by (simp add: month_days_def)

lemma isoformat_roundtrip:
  assumes "dt_wf t"
  shows "fromisoformat (isoformat t) = Some t"
proof -
  obtain y mo d h mi se u where t: "t = DT y mo d h mi se u" by (cases t)
  have b: "y < 10000" "mo < 100" "d < 100" "h < 100" "mi < 100" "se < 100" "u < 1000000"
    using assms month_days_le [of y mo] by (auto simp: dt_wf_def t)
  define zone where "zone = (if u = 0 then [] else ''.'' @ dec_fixed 6 u) @ ''+00:00''"
  have iso: "isoformat t = dec_fixed 4 y @ ''-'' @ dec_fixed 2 mo @ ''-'' @ dec_fixed 2 d @ ''T'' @
      dec_fixed 2 h @ '':'' @ dec_fixed 2 mi @ '':'' @ dec_fixed 2 se @ zone"
    by (simp add: isoformat_def t zone_def)
  have us: "(if zone = ''+00:00'' then Some 0
      else if length zone = 13 \<and> hd zone = CHR ''.'' \<and> drop 7 zone = ''+00:00'' then undec 0 (take 6 (tl zone))
      else None) = Some u"
    using b by (simp add: zone_def undec_dec_fixed)
  define s where "s = isoformat t"
  have seps: "s ! 4 = CHR ''-''" "s ! 7 = CHR ''-''" "s ! 10 = CHR ''T''" "s ! 13 = CHR '':''" "s ! 16 = CHR '':''"
    by (simp_all add: s_def iso nth_append)
  have fields: "undec 0 (take 4 s) = Some y" "undec 0 (take 2 (drop 5 s)) = Some mo"
      "undec 0 (take 2 (drop 8 s)) = Some d" "undec 0 (take 2 (drop 11 s)) = Some h"
      "undec 0 (take 2 (drop 14 s)) = Some mi" "undec 0 (take 2 (drop 17 s)) = Some se"
    using b by (simp_all add: s_def iso undec_dec_fixed)
  have zone: "drop 19 s = zone" and len: "\<not> length s < 25"
    by (simp_all add: s_def iso zone_def)
  have wf: "dt_wf (DT y mo d h mi se u)" using assms by (simp add: t)
  have "fromisoformat s = Some (DT y mo d h mi se u)"
    unfolding fromisoformat_def zone Let_def us fields
    using seps len wf by simp
  then show ?thesis by (simp add: s_def t)
qed

end
