(* ===== verification/Environments.thy ===== *)
theory Environments
  imports PyData
begin

text \<open>
  Environment labels: the canonical names used by catalog reconciliation
  (\<open>catalog_api_definition.py\<close>), the alias tables used by deployment and runtime target
  selection (\<open>environment_aliases.py\<close>), and the promotion chain of \<open>models/promotion.py\<close>.
\<close>

section \<open>Catalog labels: catalog_api_definition.py\<close>

definition DEFAULT_ENV_ALIASES :: "(string \<times> string) list" where
  "DEFAULT_ENV_ALIASES =
     [(''dev'', ''dev''), (''development'', ''dev''), (''staging'', ''staging''), (''stage'', ''staging''),
      (''prod'', ''production''), (''production'', ''production'')]"

definition env_get :: "(string \<times> string) list \<Rightarrow> string \<Rightarrow> string" where
  "env_get d k = (case map_of d k of None \<Rightarrow> k | Some v \<Rightarrow> v)"

definition normalize_environment :: "json \<Rightarrow> string option" where
  "normalize_environment v =
     (if v = JNull then None
      else let env = py_lower (py_strip (py_str v))
           in if env = [] then None else Some (env_get DEFAULT_ENV_ALIASES env))"

definition environment_matches :: "json \<Rightarrow> json \<Rightarrow> bool" where
  "environment_matches gateway_environment target_environment =
     (case normalize_environment target_environment of
        None \<Rightarrow> True
      | Some target \<Rightarrow> normalize_environment gateway_environment = Some target)"

section \<open>Deployment labels: environment\_aliases.py\<close>

definition ENVIRONMENT_ALIASES :: "(string \<times> string list) list" where
  "ENVIRONMENT_ALIASES =
     [(''dev'', [''dev'', ''development'']), (''staging'', [''staging'', ''stage'']),
      (''production'', [''production'', ''prod''])]"

definition ENVIRONMENT_CANONICAL :: "(string \<times> string) list" where
  "ENVIRONMENT_CANONICAL =
     concat (map (\<lambda>(canonical, aliases). map (\<lambda>alias. (alias, canonical)) aliases) ENVIRONMENT_ALIASES)"

definition normalize_deployment_environment :: "json \<Rightarrow> string option" where
  "normalize_deployment_environment v =
     (if v = JNull then None
      else let env = py_lower (py_strip (py_str v))
           in if env = [] then None else Some (env_get ENVIRONMENT_CANONICAL env))"

definition deployment_environment_aliases :: "json \<Rightarrow> string list" where
  "deployment_environment_aliases v =
     (case normalize_deployment_environment v of
        None \<Rightarrow> []
      | Some canonical \<Rightarrow>
          (case map_of ENVIRONMENT_ALIASES canonical of None \<Rightarrow> [canonical] | Some as \<Rightarrow> as))"

definition deployment_environment_matches :: "json \<Rightarrow> json \<Rightarrow> bool" where
  "deployment_environment_matches left right =
     (normalize_deployment_environment left = normalize_deployment_environment right)"

fun add_unseen :: "string list \<Rightarrow> string list \<Rightarrow> string list" where
  "add_unseen acc [] = acc"
| "add_unseen acc (a # as) = add_unseen (if a \<in> set acc then acc else acc @ [a]) as"

fun unique_aliases_from :: "string list \<Rightarrow> json list \<Rightarrow> string list" where
  "unique_aliases_from acc [] = acc"
| "unique_aliases_from acc (v # vs) =
     unique_aliases_from (add_unseen acc (deployment_environment_aliases v)) vs"

definition unique_environment_aliases :: "json list \<Rightarrow> string list" where
  "unique_environment_aliases vs = unique_aliases_from [] vs"

section \<open>The promotion chain: models/promotion.py\<close>

definition VALID_PROMOTION_CHAINS :: "(string \<times> string) list" where
  "VALID_PROMOTION_CHAINS = [(''dev'', ''staging''), (''staging'', ''production'')]"

text \<open>\<open>Inl\<close> is the text of the \<open>ValueError\<close> (the arrow of the message is written \<open>->\<close>).\<close>

definition validate_promotion_chain :: "string \<Rightarrow> string \<Rightarrow> string + unit" where
  "validate_promotion_chain source target =
     (if source = target then Inl (''Cannot promote to the same environment: '' @ source)
      else if (source, target) \<notin> set VALID_PROMOTION_CHAINS then
        Inl (''Invalid promotion chain: '' @ source @ ''->'' @ target @ ''. Allowed chains: '' @
             py_join '', '' (map (\<lambda>(s, t). s @ ''->'' @ t) (sort VALID_PROMOTION_CHAINS)))
      else Inr ())"

section \<open>Canonical labels as an interface\<close>

text \<open>
  Both modules promise the same thing to their callers: a canonical label that is stable
  under normalising again and blind to case and surrounding blanks.
\<close>

locale canonical_labels =
  fixes table :: "(string \<times> string) list"
  assumes values_fixed: "map_of table k = Some v \<Longrightarrow> map_of table v = Some v"
    and values_normal: "map_of table k = Some v \<Longrightarrow> py_lower (py_strip v) = v \<and> v \<noteq> []"
begin

lemma canon_fixed: "env_get table (env_get table k) = env_get table k"
  by (auto simp: env_get_def split: option.splits dest: values_fixed)

lemma canon_normal: "py_lower (py_strip k) = k \<Longrightarrow> py_lower (py_strip (env_get table k)) = env_get table k"
  by (auto simp: env_get_def split: option.splits dest: values_normal)

lemma canon_nonempty: "k \<noteq> [] \<Longrightarrow> env_get table k \<noteq> []"
  by (auto simp: env_get_def split: option.splits dest: values_normal)

lemma canon_stable:
  assumes "env = py_lower (py_strip s)" and "env \<noteq> []" and "c = env_get table env"
  shows "c \<noteq> []" and "py_lower (py_strip c) = c" and "env_get table (py_lower (py_strip c)) = c"
proof -
  have "py_lower (py_strip env) = env"
    unfolding assms(1) by (simp add: py_lower_strip)
  then show normal: "py_lower (py_strip c) = c"
    unfolding assms(3) by (rule canon_normal)
  then show "env_get table (py_lower (py_strip c)) = c"
    by (simp add: assms(3) canon_fixed)
  show "c \<noteq> []" using assms(2,3) canon_nonempty by simp
qed

end

lemma py_normal_labels [simp]:
  "py_lower (py_strip ''dev'') = ''dev''"
  "py_lower (py_strip ''staging'') = ''staging''"
  "py_lower (py_strip ''production'') = ''production''"
  by code_simp+

interpretation catalog_labels: canonical_labels DEFAULT_ENV_ALIASES
  by unfold_locales (auto simp: DEFAULT_ENV_ALIASES_def split: if_splits)

interpretation deployment_labels: canonical_labels ENVIRONMENT_CANONICAL
  by unfold_locales (auto simp: ENVIRONMENT_CANONICAL_def ENVIRONMENT_ALIASES_def split: if_splits)

lemma normalize_environment_stable:
  assumes "normalize_environment v = Some c"
  shows "normalize_environment (JStr c) = Some c"
proof -
  let ?env = "py_lower (py_strip (py_str v))"
  from assms have "?env \<noteq> []" and c: "c = env_get DEFAULT_ENV_ALIASES ?env"
    by (auto simp: normalize_environment_def Let_def split: if_splits)
  from catalog_labels.canon_stable [OF refl this]
  show ?thesis by (simp add: normalize_environment_def)
qed

lemma env_tables_agree: "env_get ENVIRONMENT_CANONICAL k = env_get DEFAULT_ENV_ALIASES k"
  by (simp add: env_get_def ENVIRONMENT_CANONICAL_def ENVIRONMENT_ALIASES_def DEFAULT_ENV_ALIASES_def)

lemma normalizers_agree: "normalize_deployment_environment v = normalize_environment v"
  by (simp add: normalize_deployment_environment_def normalize_environment_def env_tables_agree Let_def)

lemma normalize_environment_lower: "normalize_environment (JStr (py_lower s)) = normalize_environment (JStr s)"
  by (simp add: normalize_environment_def py_lower_strip)

lemma deployment_aliases_sound:
  assumes "a \<in> set (deployment_environment_aliases v)"
  shows "normalize_deployment_environment (JStr a) = normalize_deployment_environment v"
proof -
  from assms obtain c where c: "normalize_deployment_environment v = Some c"
    by (cases "normalize_deployment_environment v") (auto simp: deployment_environment_aliases_def)
  have stable: "normalize_deployment_environment (JStr c) = Some c"
    using c normalize_environment_stable by (simp add: normalizers_agree)
  show ?thesis
  proof (cases "map_of ENVIRONMENT_ALIASES c")
    case None
    with assms c stable show ?thesis by (simp add: deployment_environment_aliases_def)
  next
    case (Some as)
    then have "(c, as) \<in> set ENVIRONMENT_ALIASES" by (rule map_of_SomeD)
    moreover have "\<forall>(k, as) \<in> set ENVIRONMENT_ALIASES. \<forall>a \<in> set as.
        normalize_deployment_environment (JStr a) = Some k" by code_simp
    ultimately show ?thesis using assms c Some by (auto simp: deployment_environment_aliases_def)
  qed
qed

lemma validate_promotion_chain_iff:
  "validate_promotion_chain s t = Inr () \<longleftrightarrow> (s = ''dev'' \<and> t = ''staging'') \<or> (s = ''staging'' \<and> t = ''production'')"
  by (auto simp: validate_promotion_chain_def VALID_PROMOTION_CHAINS_def)

lemma set_add_unseen: "set (add_unseen acc as) = set acc \<union> set as"
  and distinct_add_unseen: "distinct acc \<Longrightarrow> distinct (add_unseen acc as)"
  by (induction as arbitrary: acc) auto

lemma set_unique_aliases_from:
  "set (unique_aliases_from acc vs) = set acc \<union> (\<Union>v \<in> set vs. set (deployment_environment_aliases v))"
  by (induction vs arbitrary: acc) (auto simp: set_add_unseen)

lemma distinct_unique_aliases_from: "distinct acc \<Longrightarrow> distinct (unique_aliases_from acc vs)"
  by (induction vs arbitrary: acc) (auto simp: distinct_add_unseen)

end
