(* ===== verification/Errors.thy ===== *)
theory Errors
  imports PyData
begin

text \<open>
  The exceptions of the modelled services as one datatype (the lifecycle errors of
  \<open>api_lifecycle/errors.py\<close>, those of \<open>gitops_writer/exceptions.py\<close> and of the
  catalog client, the built-in \<open>ValueError\<close>, \<open>TypeError\<close>,
  \<open>AttributeError\<close>, \<open>PermissionError\<close> and \<open>RuntimeError\<close>, and the two
  that SQLAlchemy raises when a uniqueness constraint is violated or a query that must
  have at most one row has more), with what \<open>except\<close> clauses read of them, and the
  services of the host the code calls: the two text parsers, the digest and the settings.
\<close>

datatype error =
    ApiLifecycleValidationError string
  | ApiLifecycleSpecValidationError string string
  | ApiLifecycleTransitionError string
  | ApiLifecycleGatewayNotFoundError string
  | ApiLifecycleGatewayAmbiguousError string
  | ApiLifecycleConflictError string
  | ApiLifecycleNotFoundError string
  | ValueError string
  | TypeError string
  | AttributeError string
  | RuntimeError string
  | PermissionError string
  | IntegrityError string
  | MultipleResultsFound
  | FileNotFoundError string
  | YAMLError string
  | GithubException int string
  | CatalogShaConflictError string "string option" int string
  | InvalidApiNameError string string
  | LegacyCollisionError string string string "string option"
  | GitOpsConflictError string string string string
  | GitOpsRaceExhaustedError string string nat
  | InfrastructureBugError string string

text \<open>\<open>str(exc)\<close>.\<close>

fun err_text :: "error \<Rightarrow> string" where
  "err_text (ApiLifecycleValidationError m) = m"
| "err_text (ApiLifecycleSpecValidationError c m) = m"
| "err_text (ApiLifecycleTransitionError m) = m"
| "err_text (ApiLifecycleGatewayNotFoundError m) = m"
| "err_text (ApiLifecycleGatewayAmbiguousError m) = m"
| "err_text (ApiLifecycleConflictError m) = m"
| "err_text (ApiLifecycleNotFoundError m) = m"
| "err_text (ValueError m) = m"
| "err_text (TypeError m) = m"
| "err_text (AttributeError m) = m"
| "err_text (RuntimeError m) = m"
| "err_text (PermissionError m) = m"
| "err_text (IntegrityError m) = m"
| "err_text MultipleResultsFound = ''Multiple rows were found when one or none was required''"
| "err_text (FileNotFoundError m) = m"
| "err_text (YAMLError m) = m"
| "err_text (GithubException s m) = m"
| "err_text (CatalogShaConflictError p sha s m) = m"
| "err_text (InvalidApiNameError n reason) = ''invalid api_name '' @ repr_str n @ '': '' @ reason"
| "err_text (LegacyCollisionError t a category detail) =
     ''legacy collision for '' @ t @ ''/'' @ a @ '': category='' @ category @
     (if opt_truthy detail then '' ('' @ or_str detail [] @ '')'' else [])"
| "err_text (GitOpsConflictError t a remote_hash attempted_hash) =
     ''GitOps conflict for '' @ t @ ''/'' @ a @ '': remote hash '' @ remote_hash @ '' != attempted '' @ attempted_hash"
| "err_text (GitOpsRaceExhaustedError t a attempts) =
     ''optimistic-CAS race not resolved for '' @ t @ ''/'' @ a @ '' after '' @ nat_digits attempts @ '' retries''"
| "err_text (InfrastructureBugError git_path commit_sha) =
     ''git_path 404 after commit at '' @ commit_sha @ '': '' @ git_path"

text \<open>\<open>exc.__class__.__name__\<close>.\<close>

fun err_class :: "error \<Rightarrow> string" where
  "err_class (ApiLifecycleValidationError m) = ''ApiLifecycleValidationError''"
| "err_class (ApiLifecycleSpecValidationError c m) = ''ApiLifecycleSpecValidationError''"
| "err_class (ApiLifecycleTransitionError m) = ''ApiLifecycleTransitionError''"
| "err_class (ApiLifecycleGatewayNotFoundError m) = ''ApiLifecycleGatewayNotFoundError''"
| "err_class (ApiLifecycleGatewayAmbiguousError m) = ''ApiLifecycleGatewayAmbiguousError''"
| "err_class (ApiLifecycleConflictError m) = ''ApiLifecycleConflictError''"
| "err_class (ApiLifecycleNotFoundError m) = ''ApiLifecycleNotFoundError''"
| "err_class (ValueError m) = ''ValueError''"
| "err_class (TypeError m) = ''TypeError''"
| "err_class (AttributeError m) = ''AttributeError''"
| "err_class (RuntimeError m) = ''RuntimeError''"
| "err_class (PermissionError m) = ''PermissionError''"
| "err_class (IntegrityError m) = ''IntegrityError''"
| "err_class MultipleResultsFound = ''MultipleResultsFound''"
| "err_class (FileNotFoundError m) = ''FileNotFoundError''"
| "err_class (YAMLError m) = ''YAMLError''"
| "err_class (GithubException s m) = ''GithubException''"
| "err_class (CatalogShaConflictError p sha s m) = ''CatalogShaConflictError''"
| "err_class (InvalidApiNameError n reason) = ''InvalidApiNameError''"
| "err_class (LegacyCollisionError t a category detail) = ''LegacyCollisionError''"
| "err_class (GitOpsConflictError t a remote_hash attempted_hash) = ''GitOpsConflictError''"
| "err_class (GitOpsRaceExhaustedError t a attempts) = ''GitOpsRaceExhaustedError''"
| "err_class (InfrastructureBugError git_path commit_sha) = ''InfrastructureBugError''"

text \<open>\<open>isinstance\<close> tests; a specification error is a validation error.\<close>

fun is_validation_error :: "error \<Rightarrow> bool" where
  "is_validation_error (ApiLifecycleValidationError m) = True"
| "is_validation_error (ApiLifecycleSpecValidationError c m) = True"
| "is_validation_error _ = False"

fun is_spec_error :: "error \<Rightarrow> bool" where
  "is_spec_error (ApiLifecycleSpecValidationError c m) = True"
| "is_spec_error _ = False"

fun is_gateway_not_found :: "error \<Rightarrow> bool" where
  "is_gateway_not_found (ApiLifecycleGatewayNotFoundError m) = True"
| "is_gateway_not_found _ = False"

fun is_gateway_ambiguous :: "error \<Rightarrow> bool" where
  "is_gateway_ambiguous (ApiLifecycleGatewayAmbiguousError m) = True"
| "is_gateway_ambiguous _ = False"

fun is_value_error :: "error \<Rightarrow> bool" where
  "is_value_error (ValueError m) = True"
| "is_value_error _ = False"

fun is_sha_conflict :: "error \<Rightarrow> bool" where
  "is_sha_conflict (CatalogShaConflictError p sha s m) = True"
| "is_sha_conflict _ = False"

fun is_file_not_found :: "error \<Rightarrow> bool" where
  "is_file_not_found (FileNotFoundError m) = True"
| "is_file_not_found _ = False"

fun spec_error_code :: "error \<Rightarrow> string" where
  "spec_error_code (ApiLifecycleSpecValidationError c m) = c"
| "spec_error_code _ = []"

section \<open>The host\<close>

text \<open>
  \<open>json.loads\<close> and \<open>yaml.safe_load\<close> (\<open>Inl\<close>: the text of the parse error), \<open>yaml.safe_dump\<close>
  in block style with the keys in their order, the digest
  \<open>sha256(...).hexdigest()\<close>, whether Kafka takes an event (or is
  disabled, which publishes nothing), and the settings read by the modelled code.
\<close>

record host =
  json_loads :: "string \<Rightarrow> string + json"
  yaml_safe_load :: "string \<Rightarrow> string + json"
  yaml_safe_dump :: "json \<Rightarrow> string"
  sha256_hex :: "string \<Rightarrow> string"
  GIT_SYNC_ON_WRITE :: bool
  is_sse_enabled :: bool
  is_sync_engine_enabled :: bool
  kafka_accepts :: bool
  GATEWAY_API_KEYS :: string
  SYNC_ENGINE_INTERVAL_SECONDS :: int
  SYNC_ENGINE_RETRY_MAX :: int
  SYNC_ENGINE_PENDING_TIMEOUT_SECONDS :: int

end
