(* ===== verification/Models.thy ===== *)
theory Models
  imports Environments Errors
begin

text \<open>
  The rows of the control plane's database that the deployment services read and write
  (\<open>models/catalog.py\<close>, \<open>gateway_instance.py\<close>, \<open>gateway_deployment.py\<close>, \<open>promotion.py\<close>,
  \<open>api_gateway_assignment.py\<close>, \<open>audit_event.py\<close>), the tables with the uniqueness constraints the models declare, and the
  world the services run in: the tables of the session, the audit log, the notifications
  queued for delivery after the commit, the sync requests handed to Kafka (tenant and
  deployment), the clock and the supply of fresh UUIDs.

  Columns no modelled operation reads or writes are left out (credentials and health probes
  of a gateway).
\<close>

section \<open>Rows\<close>

record api_catalog =
  cat_id :: uuid
  cat_tenant_id :: string
  cat_api_id :: string
  cat_api_name :: string
  cat_version :: string
  cat_status :: string
  cat_category :: "string option"
  cat_tags :: "string list"
  cat_portal_published :: bool
  cat_audience :: string
  cat_api_metadata :: json
  cat_openapi_spec :: json
  cat_git_path :: "string option"
  cat_git_commit_sha :: "string option"
  cat_catalog_content_hash :: "string option"
  cat_catalog_release_id :: "string option"
  cat_catalog_release_tag :: "string option"
  cat_catalog_pr_url :: "string option"
  cat_catalog_pr_number :: "int option"
  cat_catalog_source_branch :: "string option"
  cat_catalog_merge_commit_sha :: "string option"
  cat_target_gateways :: "string list"
  cat_synced_at :: datetime
  cat_deleted_at :: "datetime option"

datatype gateway_type =
    WEBMETHODS | KONG | APIGEE | AWS_APIGATEWAY | AZURE_APIM | GRAVITEE | STOA
  | STOA_EDGE_MCP | STOA_SIDECAR | STOA_PROXY | STOA_SHADOW

fun gateway_type_value :: "gateway_type \<Rightarrow> string" where
  "gateway_type_value WEBMETHODS = ''webmethods''"
| "gateway_type_value KONG = ''kong''"
| "gateway_type_value APIGEE = ''apigee''"
| "gateway_type_value AWS_APIGATEWAY = ''aws_apigateway''"
| "gateway_type_value AZURE_APIM = ''azure_apim''"
| "gateway_type_value GRAVITEE = ''gravitee''"
| "gateway_type_value STOA = ''stoa''"
| "gateway_type_value STOA_EDGE_MCP = ''stoa_edge_mcp''"
| "gateway_type_value STOA_SIDECAR = ''stoa_sidecar''"
| "gateway_type_value STOA_PROXY = ''stoa_proxy''"
| "gateway_type_value STOA_SHADOW = ''stoa_shadow''"

datatype gateway_status = ONLINE | OFFLINE | DEGRADED | MAINTENANCE

record gateway_instance =
  gi_id :: uuid
  gi_name :: string
  gi_display_name :: string
  gi_gateway_type :: gateway_type
  gi_environment :: string
  gi_tenant_id :: "string option"
  gi_base_url :: string
  gi_target_gateway_url :: "string option"
  gi_public_url :: "string option"
  gi_ui_url :: "string option"
  gi_endpoints :: json
  gi_status :: gateway_status
  gi_health_details :: json
  gi_mode :: "string option"
  gi_deployment_mode :: "string option"
  gi_target_gateway_type :: "string option"
  gi_topology :: "string option"
  gi_tags :: "string list"
  gi_enabled :: bool
  gi_visibility :: json
  gi_source :: string
  gi_deleted_at :: "datetime option"

datatype sync_status = PENDING | SYNCING | SYNCED | DRIFTED | ERROR | DELETING

fun sync_value :: "sync_status \<Rightarrow> string" where
  "sync_value PENDING = ''pending''"
| "sync_value SYNCING = ''syncing''"
| "sync_value SYNCED = ''synced''"
| "sync_value DRIFTED = ''drifted''"
| "sync_value ERROR = ''error''"
| "sync_value DELETING = ''deleting''"

datatype policy_sync_status = POLICY_PENDING | POLICY_SYNCED | POLICY_PARTIAL | POLICY_ERROR

fun policy_sync_value :: "policy_sync_status \<Rightarrow> string" where
  "policy_sync_value POLICY_PENDING = ''pending''"
| "policy_sync_value POLICY_SYNCED = ''synced''"
| "policy_sync_value POLICY_PARTIAL = ''partial''"
| "policy_sync_value POLICY_ERROR = ''error''"

record gateway_deployment =
  dep_id :: uuid
  dep_api_catalog_id :: uuid
  dep_gateway_instance_id :: uuid
  dep_desired_state :: json
  dep_desired_at :: datetime
  dep_actual_state :: json
  dep_actual_at :: "datetime option"
  dep_desired_generation :: int
  dep_synced_generation :: int
  dep_attempted_generation :: int
  dep_sync_status :: sync_status
  dep_last_sync_attempt :: "datetime option"
  dep_last_sync_success :: "datetime option"
  dep_sync_error :: "string option"
  dep_sync_attempts :: int
  dep_sync_steps :: json
  dep_policy_sync_status :: "policy_sync_status option"
  dep_policy_sync_error :: "string option"
  dep_promotion_id :: "uuid option"
  dep_gateway_resource_id :: "string option"
  dep_created_at :: datetime

datatype promotion_status = PR_PENDING | PR_PROMOTING | PR_PROMOTED | PR_FAILED | PR_ROLLED_BACK

fun promotion_value :: "promotion_status \<Rightarrow> string" where
  "promotion_value PR_PENDING = ''pending''"
| "promotion_value PR_PROMOTING = ''promoting''"
| "promotion_value PR_PROMOTED = ''promoted''"
| "promotion_value PR_FAILED = ''failed''"
| "promotion_value PR_ROLLED_BACK = ''rolled_back''"

record promotion =
  pr_id :: uuid
  pr_tenant_id :: string
  pr_api_id :: string
  pr_source_environment :: string
  pr_target_environment :: string
  pr_source_deployment_id :: "uuid option"
  pr_target_deployment_id :: "uuid option"
  pr_target_gateway_ids :: json
  pr_status :: string
  pr_spec_diff :: json
  pr_message :: string
  pr_requested_by :: string
  pr_approved_by :: "string option"
  pr_completed_at :: "datetime option"
  pr_created_at :: datetime

record api_gateway_assignment =
  aga_id :: uuid
  aga_api_id :: uuid
  aga_gateway_id :: uuid
  aga_environment :: string
  aga_auto_deploy :: bool

record lifecycle_actor =
  actor_id :: "string option"
  actor_email :: "string option"
  actor_username :: "string option"
  actor_type :: string

record audit_event =
  ae_tenant_id :: string
  ae_actor :: lifecycle_actor
  ae_action :: string
  ae_method :: string
  ae_path :: string
  ae_resource_type :: string
  ae_resource_id :: string
  ae_resource_name :: string
  ae_outcome :: string
  ae_status_code :: int
  ae_details :: json

record link_event =
  le_tenant_id :: string
  le_event_type :: string
  le_data :: json
  le_gateway_id :: string

section \<open>The world\<close>

record world =
  catalogs :: "api_catalog list"
  gateways :: "gateway_instance list"
  deployments :: "gateway_deployment list"
  promotions :: "promotion list"
  assignments :: "api_gateway_assignment list"
  audit_log :: "audit_event list"
  link_events :: "link_event list"
  sync_requests :: "(string \<times> uuid) list"
  clock :: "nat \<Rightarrow> datetime"
  ticks :: nat
  uuid_source :: "nat \<Rightarrow> uuid"
  uuids_used :: nat

type_synonym 'a action = "(world, error, 'a) act"

text \<open>\<open>datetime.now(UTC)\<close> and \<open>uuid4()\<close>.\<close>

definition nowA :: "datetime action" where
  "nowA = (\<lambda>w. (Inr (clock w (ticks w)), w\<lparr>ticks := Suc (ticks w)\<rparr>))"

definition uuid4A :: "uuid action" where
  "uuid4A = (\<lambda>w. (Inr (uuid_source w (uuids_used w)), w\<lparr>uuids_used := Suc (uuids_used w)\<rparr>))"

lemma nowA_apply [simp]: "nowA w = (Inr (clock w (ticks w)), w\<lparr>ticks := Suc (ticks w)\<rparr>)"
  by (simp add: nowA_def)

lemma uuid4A_apply [simp]: "uuid4A w = (Inr (uuid_source w (uuids_used w)), w\<lparr>uuids_used := Suc (uuids_used w)\<rparr>)"
  by (simp add: uuid4A_def)

section \<open>Tables with uniqueness constraints\<close>

text \<open>
  A table is the list of its rows in insertion order. \<open>key\<close> is its primary key and
  \<open>clash\<close> the pairs of rows that one of its unique indexes forbids; a flush that would
  break either raises \<open>IntegrityError\<close>.
\<close>

definition insert_row :: "('r \<Rightarrow> uuid) \<Rightarrow> ('r \<Rightarrow> 'r \<Rightarrow> bool) \<Rightarrow> string \<Rightarrow> 'r \<Rightarrow> 'r list \<Rightarrow> error + 'r list" where
  "insert_row key clash name row t =
     (if list_ex (\<lambda>r. key r = key row \<or> clash r row) t then Inl (IntegrityError name) else Inr (t @ [row]))"

definition save_row :: "('r \<Rightarrow> uuid) \<Rightarrow> ('r \<Rightarrow> 'r \<Rightarrow> bool) \<Rightarrow> string \<Rightarrow> 'r \<Rightarrow> 'r list \<Rightarrow> error + 'r list" where
  "save_row key clash name row t =
     (if list_ex (\<lambda>r. key r \<noteq> key row \<and> clash r row) t then Inl (IntegrityError name)
      else Inr (map (\<lambda>r. if key r = key row then row else r) t))"

definition delete_row :: "('r \<Rightarrow> uuid) \<Rightarrow> uuid \<Rightarrow> 'r list \<Rightarrow> 'r list" where
  "delete_row key i t = filter (\<lambda>r. key r \<noteq> i) t"

text \<open>\<open>result.scalar_one_or_none()\<close> on the rows a query selected.\<close>

fun scalar_one_or_none :: "'r list \<Rightarrow> error + 'r option" where
  "scalar_one_or_none [] = Inr None"
| "scalar_one_or_none [r] = Inr (Some r)"
| "scalar_one_or_none (r # s # rs) = Inl MultipleResultsFound"

definition table_ok :: "('r \<Rightarrow> uuid) \<Rightarrow> ('r \<Rightarrow> 'r \<Rightarrow> bool) \<Rightarrow> 'r list \<Rightarrow> bool" where
  "table_ok key clash t \<longleftrightarrow> distinct (map key t) \<and> (\<forall>r \<in> set t. \<forall>s \<in> set t. key r \<noteq> key s \<longrightarrow> \<not> clash r s)"

lemma scalar_one_or_none_Some: "scalar_one_or_none rs = Inr (Some r) \<longleftrightarrow> rs = [r]"
  by (cases rs rule: scalar_one_or_none.cases) auto

lemma scalar_one_or_none_None: "scalar_one_or_none rs = Inr None \<longleftrightarrow> rs = []"
  by (cases rs rule: scalar_one_or_none.cases) auto

lemma scalar_one_or_none_le1: "length rs \<le> 1 \<Longrightarrow> \<exists>v. scalar_one_or_none rs = Inr v"
  by (cases rs rule: scalar_one_or_none.cases) auto

lemma scalar_one_or_none_in:
  "scalar_one_or_none (filter p t) = Inr (Some r) \<Longrightarrow> r \<in> set t \<and> p r"
proof -
  assume "scalar_one_or_none (filter p t) = Inr (Some r)"
  then have "filter p t = [r]" by (simp add: scalar_one_or_none_Some)
  then have "r \<in> set (filter p t)" by simp
  then show ?thesis by simp
qed

text \<open>
  The contract of a constrained table: its clashes are symmetric. Every table operation
  then keeps \<open>table_ok\<close>, and a query whose condition selects rows that would clash (or share a
  key) has at most one result.
\<close>

locale constrained_table =
  fixes key :: "'r \<Rightarrow> uuid" and clash :: "'r \<Rightarrow> 'r \<Rightarrow> bool"
  assumes clash_sym: "clash r s \<Longrightarrow> clash s r"
begin

lemma ok_Nil: "table_ok key clash []"
  by (simp add: table_ok_def)

lemma insert_ok:
  assumes "table_ok key clash t" and "insert_row key clash n row t = Inr t'"
  shows "table_ok key clash t'"
proof -
  from assms(2) have t': "t' = t @ [row]" and new: "\<forall>r \<in> set t. key r \<noteq> key row \<and> \<not> clash r row"
    by (auto simp: insert_row_def list_ex_iff split: if_splits)
  have "key row \<notin> key ` set t" using new by force
  with assms(1) have "distinct (map key t')" by (simp add: t' table_ok_def)
  moreover have "\<not> clash r s" if "r \<in> set t'" "s \<in> set t'" "key r \<noteq> key s" for r s
    using that assms(1) new clash_sym [of row s] by (auto simp: t' table_ok_def)
  ultimately show ?thesis by (simp add: table_ok_def)
qed

lemma insert_set: "insert_row key clash n row t = Inr t' \<Longrightarrow> t' = t @ [row]"
  by (auto simp: insert_row_def split: if_splits)

lemma save_keys: "save_row key clash n row t = Inr t' \<Longrightarrow> map key t' = map key t"
  by (auto simp: save_row_def split: if_splits)

lemma save_ok:
  assumes "table_ok key clash t" and "save_row key clash n row t = Inr t'"
  shows "table_ok key clash t'"
proof -
  from assms(2) have t': "t' = map (\<lambda>r. if key r = key row then row else r) t"
    and nc: "\<forall>r \<in> set t. key r \<noteq> key row \<longrightarrow> \<not> clash r row"
    by (auto simp: save_row_def list_ex_iff split: if_splits)
  have "distinct (map key t')" using assms save_keys by (metis table_ok_def)
  moreover have "\<not> clash r s" if "r \<in> set t'" "s \<in> set t'" "key r \<noteq> key s" for r s
    using that assms(1) nc unfolding t' table_ok_def by (auto dest: clash_sym split: if_splits)
  ultimately show ?thesis by (simp add: table_ok_def)
qed

lemma clash_same: "table_ok key clash t \<Longrightarrow> r \<in> set t \<Longrightarrow> s \<in> set t \<Longrightarrow> clash r s \<Longrightarrow> r = s"
  by (auto simp: table_ok_def distinct_map dest: inj_onD)

lemma delete_ok: "table_ok key clash t \<Longrightarrow> table_ok key clash (delete_row key i t)"
  by (auto simp: table_ok_def delete_row_def distinct_map_filter)

lemma save_length: "save_row key clash n row t = Inr t' \<Longrightarrow> length t' = length t"
  by (auto simp: save_row_def split: if_splits)

lemma save_other:
  "save_row key clash n row t = Inr t' \<Longrightarrow> r \<in> set t \<Longrightarrow> key r \<noteq> key row \<Longrightarrow> r \<in> set t'"
  by (force simp: save_row_def split: if_splits)

lemma save_member:
  "save_row key clash n row t = Inr t' \<Longrightarrow> r \<in> set t' \<Longrightarrow> r = row \<or> r \<in> set t"
  by (auto simp: save_row_def split: if_splits)

lemma save_present:
  "save_row key clash n row t = Inr t' \<Longrightarrow> r \<in> set t \<Longrightarrow> key r = key row \<Longrightarrow> row \<in> set t'"
  by (force simp: save_row_def split: if_splits)

lemma query_unique:
  assumes "table_ok key clash t" and "\<And>r s. p r \<Longrightarrow> p s \<Longrightarrow> key r = key s \<or> clash r s"
  shows "\<exists>v. scalar_one_or_none (filter p t) = Inr v"
proof (rule scalar_one_or_none_le1, rule length_filter_le1)
  show "distinct (map key t)" using assms(1) by (simp add: table_ok_def)
next
  fix x y
  assume "x \<in> set t" "y \<in> set t" "p x" "p y"
  then show "key x = key y" using assms by (auto simp: table_ok_def)
qed

lemma query_finds:
  assumes "table_ok key clash t" and "\<And>r s. p r \<Longrightarrow> p s \<Longrightarrow> key r = key s \<or> clash r s"
    and "r \<in> set t" and "p r"
  shows "scalar_one_or_none (filter p t) = Inr (Some r)"
proof -
  have "\<exists>v. scalar_one_or_none (filter p t) = Inr v"
    by (rule query_unique [OF assms(1,2)])
  then obtain v where v: "scalar_one_or_none (filter p t) = Inr v" ..
  with assms(3,4) obtain s where s: "v = Some s"
    by (cases v) (auto simp: scalar_one_or_none_None filter_empty_conv)
  with v have "filter p t = [s]" by (simp add: scalar_one_or_none_Some)
  moreover from assms(3,4) have "r \<in> set (filter p t)" by simp
  ultimately have "r = s" by simp
  with v s show ?thesis by simp
qed

end

text \<open>The unique indexes the models declare.\<close>

definition catalog_clash :: "api_catalog \<Rightarrow> api_catalog \<Rightarrow> bool" where
  "catalog_clash r s = (cat_deleted_at r = None \<and> cat_deleted_at s = None \<and> cat_tenant_id r = cat_tenant_id s \<and>
     ((cat_api_name r = cat_api_name s \<and> cat_version r = cat_version s) \<or> cat_api_id r = cat_api_id s))"

definition gateway_clash :: "gateway_instance \<Rightarrow> gateway_instance \<Rightarrow> bool" where
  "gateway_clash r s = (gi_name r = gi_name s)"

definition deployment_clash :: "gateway_deployment \<Rightarrow> gateway_deployment \<Rightarrow> bool" where
  "deployment_clash r s = (dep_api_catalog_id r = dep_api_catalog_id s \<and>
     dep_gateway_instance_id r = dep_gateway_instance_id s)"

definition active_status :: "string \<Rightarrow> bool" where
  "active_status s = (s \<in> {promotion_value PR_PENDING, promotion_value PR_PROMOTING})"

definition promotion_clash :: "promotion \<Rightarrow> promotion \<Rightarrow> bool" where
  "promotion_clash r s = (active_status (pr_status r) \<and> active_status (pr_status s) \<and>
     pr_api_id r = pr_api_id s \<and> pr_target_environment r = pr_target_environment s)"

interpretation catalog_table: constrained_table cat_id catalog_clash
  by unfold_locales (auto simp: catalog_clash_def)

interpretation gateway_table: constrained_table gi_id gateway_clash
  by unfold_locales (auto simp: gateway_clash_def)

interpretation deployment_table: constrained_table dep_id deployment_clash
  by unfold_locales (auto simp: deployment_clash_def)

interpretation promotion_table: constrained_table pr_id promotion_clash
  by unfold_locales (auto simp: promotion_clash_def)

definition db_ok :: "world \<Rightarrow> bool" where
  "db_ok w \<longleftrightarrow> table_ok cat_id catalog_clash (catalogs w) \<and> table_ok gi_id gateway_clash (gateways w) \<and>
     table_ok dep_id deployment_clash (deployments w) \<and> table_ok pr_id promotion_clash (promotions w)"

text \<open>
  Writing a table of the world: the row is flushed, or the flush raises and the tables
  stay as they were.
\<close>

definition put_catalogs :: "(api_catalog list \<Rightarrow> error + api_catalog list) \<Rightarrow> unit action" where
  "put_catalogs f = (\<lambda>w. case f (catalogs w) of Inl e \<Rightarrow> (Inl e, w) | Inr t \<Rightarrow> (Inr (), w\<lparr>catalogs := t\<rparr>))"

definition put_deployments :: "(gateway_deployment list \<Rightarrow> error + gateway_deployment list) \<Rightarrow> unit action" where
  "put_deployments f = (\<lambda>w. case f (deployments w) of Inl e \<Rightarrow> (Inl e, w) | Inr t \<Rightarrow> (Inr (), w\<lparr>deployments := t\<rparr>))"

definition put_promotions :: "(promotion list \<Rightarrow> error + promotion list) \<Rightarrow> unit action" where
  "put_promotions f = (\<lambda>w. case f (promotions w) of Inl e \<Rightarrow> (Inl e, w) | Inr t \<Rightarrow> (Inr (), w\<lparr>promotions := t\<rparr>))"

section \<open>Relations between the world before and after\<close>

text \<open>The tables are as they were (the log, the clock and the queues may have moved on).\<close>

definition same_tables :: "world \<Rightarrow> world \<Rightarrow> bool" where
  "same_tables w w' \<longleftrightarrow> catalogs w' = catalogs w \<and> gateways w' = gateways w \<and>
     deployments w' = deployments w \<and> promotions w' = promotions w"

text \<open>Audit records and queued notifications are only appended.\<close>

definition log_grows :: "world \<Rightarrow> world \<Rightarrow> bool" where
  "log_grows w w' \<longleftrightarrow> prefix (audit_log w) (audit_log w') \<and> prefix (link_events w) (link_events w') \<and>
     prefix (sync_requests w) (sync_requests w')"

text \<open>Constraint violations are never introduced.\<close>

definition keeps_db_ok :: "world \<Rightarrow> world \<Rightarrow> bool" where
  "keeps_db_ok w w' \<longleftrightarrow> (db_ok w \<longrightarrow> db_ok w')"

interpretation same_tables: state_relation same_tables
  by unfold_locales (auto simp: same_tables_def)

interpretation log_grows: state_relation log_grows
  by unfold_locales (auto simp: log_grows_def)

interpretation keeps_db_ok: state_relation keeps_db_ok
  by unfold_locales (auto simp: keeps_db_ok_def)

end
