(* ===== verification/PortalPublication.thy ===== *)
theory PortalPublication
  imports Models
begin

text \<open>
  The portal side of the API lifecycle: the policy on legacy publication tags
  (\<open>portal_tags.py\<close>), the publisher that records a publication in the catalog metadata
  (\<open>portal.py\<close>), and the functions of \<open>service.py\<close> that read the metadata back
  (\<open>_spec_state\<close>, \<open>_portal_publication_record\<close>, \<open>_portal_publication_records\<close>,
  \<open>_portal_state\<close>). The lemmas show that a publication written by the publisher is read
  back exactly, and that the tag policy splits a tag list without loss.
\<close>

section \<open>Legacy publication tags\<close>

definition LEGACY_PORTAL_PUBLICATION_TAGS :: "string list" where
  "LEGACY_PORTAL_PUBLICATION_TAGS = [''portal:published'', ''promoted:portal'', ''portal-promoted'']"

fun find_legacy_portal_publication_tags :: "json list \<Rightarrow> string list" where
  "find_legacy_portal_publication_tags [] = []"
| "find_legacy_portal_publication_tags (tag # tags) =
     (let normalized = py_strip (py_str tag)
      in if py_lower normalized \<in> set LEGACY_PORTAL_PUBLICATION_TAGS
         then normalized # find_legacy_portal_publication_tags tags
         else find_legacy_portal_publication_tags tags)"

fun strip_legacy_portal_publication_tags :: "json list \<Rightarrow> string list \<times> string list" where
  "strip_legacy_portal_publication_tags [] = ([], [])"
| "strip_legacy_portal_publication_tags (tag # tags) =
     (let normalized = py_strip (py_str tag); (clean, stripped) = strip_legacy_portal_publication_tags tags
      in if normalized = [] then (clean, stripped)
         else if py_lower normalized \<in> set LEGACY_PORTAL_PUBLICATION_TAGS then (clean, normalized # stripped)
         else (normalized # clean, stripped))"

lemma strip_legacy_stripped:
  "snd (strip_legacy_portal_publication_tags tags) = find_legacy_portal_publication_tags tags"
  by (induction tags) (auto simp: Let_def LEGACY_PORTAL_PUBLICATION_TAGS_def py_lower_def split: prod.splits)

lemma strip_legacy_clean:
  "fst (strip_legacy_portal_publication_tags tags) =
     filter (\<lambda>t. t \<noteq> [] \<and> py_lower t \<notin> set LEGACY_PORTAL_PUBLICATION_TAGS) (map (\<lambda>t. py_strip (py_str t)) tags)"
  by (induction tags) (auto simp: Let_def split: prod.splits)

lemma find_legacy_filter:
  "find_legacy_portal_publication_tags tags =
     filter (\<lambda>t. py_lower t \<in> set LEGACY_PORTAL_PUBLICATION_TAGS) (map (\<lambda>t. py_strip (py_str t)) tags)"
  by (induction tags) (auto simp: Let_def)

lemma find_legacy_clean:
  "find_legacy_portal_publication_tags (map JStr (fst (strip_legacy_portal_publication_tags tags))) = []"
proof -
  have "py_lower (py_strip t) \<notin> set LEGACY_PORTAL_PUBLICATION_TAGS"
    if "t \<in> set (fst (strip_legacy_portal_publication_tags tags))" for t
    using that by (auto simp: strip_legacy_clean)
  then show ?thesis by (auto simp: find_legacy_filter filter_empty_conv)
qed

section \<open>States shown to callers\<close>

record spec_state =
  ss_source :: json
  ss_has_openapi_spec :: bool
  ss_git_path :: "string option"
  ss_git_commit_sha :: "string option"
  ss_reference :: json
  ss_fallback_reason :: json

record publication_state =
  pub_environment :: string
  pub_gateway_instance_id :: uuid
  pub_deployment_id :: uuid
  pub_status :: string
  pub_result :: string
  pub_spec_hash :: string
  pub_published_at :: datetime

record portal_lifecycle_state =
  pls_published :: bool
  pls_status :: string
  pls_publications :: "publication_state list"
  pls_last_result :: "string option"
  pls_last_environment :: "string option"
  pls_last_gateway_instance_id :: "uuid option"
  pls_last_deployment_id :: "uuid option"
  pls_last_published_at :: "datetime option"

section \<open>Reading the catalog metadata: service.py\<close>

definition metadata_of :: "api_catalog \<Rightarrow> jdict" where
  "metadata_of api = (if is_obj (cat_api_metadata api) then obj_of (cat_api_metadata api) else [])"

definition lifecycle_of :: "api_catalog \<Rightarrow> jdict" where
  "lifecycle_of api = (let v = dget (metadata_of api) ''lifecycle'' in if is_obj v then obj_of v else [])"

definition spec_state_of :: "api_catalog \<Rightarrow> spec_state" where
  "spec_state_of api =
     (let lifecycle = lifecycle_of api;
          source = dget lifecycle ''spec_source'';
          reference = dget lifecycle ''spec_reference'';
          source' =
            (if truthy (cat_openapi_spec api) then
               (if opt_truthy (cat_git_path api) \<or> opt_truthy (cat_git_commit_sha api) then JStr ''git''
                else if truthy source then source else JStr ''inline'')
             else if truthy reference then (if truthy source then source else JStr ''reference'')
             else (if truthy source then source else JStr ''missing''))
      in \<lparr>ss_source = source', ss_has_openapi_spec = truthy (cat_openapi_spec api),
          ss_git_path = cat_git_path api, ss_git_commit_sha = cat_git_commit_sha api,
          ss_reference = reference, ss_fallback_reason = dget lifecycle ''fallback_reason''\<rparr>)"

definition publications_of :: "api_catalog \<Rightarrow> jdict" where
  "publications_of api =
     (let v = dget (lifecycle_of api) ''portal_publications'' in if is_obj v then obj_of v else [])"

definition publication_key :: "string \<Rightarrow> uuid \<Rightarrow> string" where
  "publication_key environment gateway_instance_id = environment @ '':'' @ uuid_str gateway_instance_id"

definition portal_publication_record :: "api_catalog \<Rightarrow> string \<Rightarrow> uuid \<Rightarrow> jdict option" where
  "portal_publication_record api environment gateway_instance_id =
     (let record = dget (publications_of api) (publication_key environment gateway_instance_id)
      in if is_obj record then Some (obj_of record) else None)"

text \<open>A raw record with its identifiers and its time parsed; \<open>None\<close> where the code skips it.\<close>

definition parse_publication :: "json \<Rightarrow> (jdict \<times> uuid \<times> uuid \<times> datetime) option" where
  "parse_publication raw =
     (if \<not> is_obj raw then None
      else let d = obj_of raw
      in case (map_of d ''gateway_instance_id'', map_of d ''deployment_id'', map_of d ''published_at'') of
           (Some g, Some dp, Some p) \<Rightarrow>
             (case (uuid_parse (py_str g), uuid_parse (py_str dp), fromisoformat (py_str p)) of
                (Some gu, Some du, Some t) \<Rightarrow> Some (d, gu, du, t)
              | _ \<Rightarrow> None)
         | _ \<Rightarrow> None)"

definition portal_publication_records :: "api_catalog \<Rightarrow> (jdict \<times> uuid \<times> uuid \<times> datetime) list" where
  "portal_publication_records api = List.map_filter (\<lambda>(_, raw). parse_publication raw) (publications_of api)"

definition publication_of_record :: "jdict \<times> uuid \<times> uuid \<times> datetime \<Rightarrow> publication_state option" where
  "publication_of_record r = (case r of (d, g, dp, t) \<Rightarrow>
     (case (map_of d ''environment'', map_of d ''publication_status'', map_of d ''result'', map_of d ''spec_hash'') of
        (Some e, Some ps, Some re, Some sh) \<Rightarrow>
          Some \<lparr>pub_environment = py_str e, pub_gateway_instance_id = g, pub_deployment_id = dp,
                pub_status = py_str ps, pub_result = py_str re, pub_spec_hash = py_str sh, pub_published_at = t\<rparr>
      | _ \<Rightarrow> None))"

definition portal_state_of :: "api_catalog \<Rightarrow> portal_lifecycle_state" where
  "portal_state_of api =
     (let publications = sort_key (\<lambda>p. - dt_instant (pub_published_at p))
            (List.map_filter publication_of_record (portal_publication_records api));
          last = (case publications of [] \<Rightarrow> None | p # _ \<Rightarrow> Some p)
      in \<lparr>pls_published = cat_portal_published api,
          pls_status = (if cat_portal_published api then ''published'' else ''not_published''),
          pls_publications = publications,
          pls_last_result = map_option pub_result last,
          pls_last_environment = map_option pub_environment last,
          pls_last_gateway_instance_id = map_option pub_gateway_instance_id last,
          pls_last_deployment_id = map_option pub_deployment_id last,
          pls_last_published_at = map_option pub_published_at last\<rparr>)"

section \<open>The publisher: portal.py\<close>

text \<open>\<open>dict(v or {})\<close>: a non-empty value that is no mapping is refused by \<open>dict\<close>.\<close>

definition dict_or_empty :: "json \<Rightarrow> error + jdict" where
  "dict_or_empty v =
     (if \<not> truthy v then Inr []
      else case v of JObj d \<Rightarrow> Inr d
      | JStr s \<Rightarrow> Inl (ValueError ''dictionary update sequence element #0 has length 1; 2 is required'')
      | _ \<Rightarrow> Inl (TypeError ''object is not a mapping''))"

definition publication_payload :: "publication_state \<Rightarrow> json" where
  "publication_payload p = JObj
     [(''environment'', JStr (pub_environment p)),
      (''gateway_instance_id'', JStr (uuid_str (pub_gateway_instance_id p))),
      (''deployment_id'', JStr (uuid_str (pub_deployment_id p))),
      (''publication_status'', JStr (pub_status p)),
      (''result'', JStr (pub_result p)),
      (''spec_hash'', JStr (pub_spec_hash p)),
      (''published_at'', JStr (isoformat (pub_published_at p))),
      (''source'', JStr ''api_lifecycle'')]"

definition portal_publish :: "api_catalog \<Rightarrow> publication_state \<Rightarrow> error + api_catalog" where
  "portal_publish api publication =
     (let metadata = metadata_of api
      in case dict_or_empty (dget metadata ''lifecycle'') of Inl e \<Rightarrow> Inl e | Inr lifecycle \<Rightarrow>
        (case dict_or_empty (dget lifecycle ''portal_publications'') of Inl e \<Rightarrow> Inl e | Inr publications \<Rightarrow>
          let key = publication_key (pub_environment publication) (pub_gateway_instance_id publication);
              payload = publication_payload publication;
              publications' = dset key payload publications;
              lifecycle' = dset ''portal_last_publication'' payload
                             (dset ''portal_publications'' (JObj publications') lifecycle);
              metadata' = dset ''lifecycle'' (JObj lifecycle') metadata
          in Inr (api\<lparr>cat_api_metadata := JObj metadata', cat_portal_published := True\<rparr>)))"

lemma dict_or_empty_ok: "dict_or_empty v = Inr d \<Longrightarrow> d = (if is_obj v then obj_of v else [])"
  by (cases v) (auto simp: dict_or_empty_def split: if_splits)

lemma portal_publish_publications:
  assumes "portal_publish api p = Inr api'"
  shows "publications_of api' =
    dset (publication_key (pub_environment p) (pub_gateway_instance_id p)) (publication_payload p) (publications_of api)"
    and "cat_portal_published api'"
    and "cat_openapi_spec api' = cat_openapi_spec api" and "cat_id api' = cat_id api" and "cat_status api' = cat_status api"
    and "cat_tenant_id api' = cat_tenant_id api" and "cat_api_id api' = cat_api_id api"
    and "cat_api_name api' = cat_api_name api" and "cat_version api' = cat_version api"
    and "cat_git_commit_sha api' = cat_git_commit_sha api" and "cat_deleted_at api' = cat_deleted_at api"
    and "cat_git_path api' = cat_git_path api"
    and "\<And>k. k \<noteq> ''lifecycle'' \<Longrightarrow> dget (metadata_of api') k = dget (metadata_of api) k"
proof -
  let ?m = "metadata_of api"
  obtain lc pubs where lc: "dict_or_empty (dget ?m ''lifecycle'') = Inr lc"
    and pubs: "dict_or_empty (dget lc ''portal_publications'') = Inr pubs"
    and api': "api' = api\<lparr>cat_api_metadata := JObj (dset ''lifecycle''
         (JObj (dset ''portal_last_publication'' (publication_payload p) (dset ''portal_publications''
            (JObj (dset (publication_key (pub_environment p) (pub_gateway_instance_id p)) (publication_payload p) pubs)) lc))) ?m),
         cat_portal_published := True\<rparr>"
    using assms by (auto simp: portal_publish_def Let_def split: sum.splits)
  have "lifecycle_of api = lc" using dict_or_empty_ok [OF lc] by (simp add: lifecycle_of_def)
  then have "publications_of api = pubs" using dict_or_empty_ok [OF pubs] by (simp add: publications_of_def)
  then show "publications_of api' =
      dset (publication_key (pub_environment p) (pub_gateway_instance_id p)) (publication_payload p) (publications_of api)"
    by (simp add: api' publications_of_def lifecycle_of_def metadata_of_def dget_dset)
  fix k
  assume "k \<noteq> ''lifecycle''"
  then show "dget (metadata_of api') k = dget (metadata_of api) k"
    by (simp add: api' metadata_of_def [of "api\<lparr>cat_api_metadata := _, cat_portal_published := _\<rparr>"] dget_dset)
qed (use assms in \<open>auto simp: portal_publish_def Let_def split: sum.splits\<close>)

lemma payload_parses:
  assumes "dt_wf (pub_published_at p)"
  shows "\<exists>d. parse_publication (publication_payload p) = Some (d, pub_gateway_instance_id p, pub_deployment_id p, pub_published_at p)
     \<and> publication_of_record (d, pub_gateway_instance_id p, pub_deployment_id p, pub_published_at p) = Some p"
  using assms
  by (simp add: parse_publication_def publication_payload_def publication_of_record_def uuid_roundtrip isoformat_roundtrip)

lemma map_filter_member: "x \<in> set xs \<Longrightarrow> f x = Some y \<Longrightarrow> y \<in> set (List.map_filter f xs)"
  by (force simp: List.map_filter_def)

lemma portal_publish_readable:
  assumes "portal_publish api p = Inr api'" and "dt_wf (pub_published_at p)"
  shows "p \<in> set (pls_publications (portal_state_of api'))"
proof -
  let ?k = "publication_key (pub_environment p) (pub_gateway_instance_id p)"
  have "map_of (publications_of api') ?k = Some (publication_payload p)"
    by (simp add: portal_publish_publications(1) [OF assms(1)] map_update_same)
  then have mem: "(?k, publication_payload p) \<in> set (publications_of api')" by (rule map_of_SomeD)
  from payload_parses [OF assms(2)] obtain d where
    d: "parse_publication (publication_payload p) = Some (d, pub_gateway_instance_id p, pub_deployment_id p, pub_published_at p)"
    and p: "publication_of_record (d, pub_gateway_instance_id p, pub_deployment_id p, pub_published_at p) = Some p" by blast
  from mem d have "(d, pub_gateway_instance_id p, pub_deployment_id p, pub_published_at p) \<in> set (portal_publication_records api')"
    unfolding portal_publication_records_def by (intro map_filter_member) auto
  then have "p \<in> set (List.map_filter publication_of_record (portal_publication_records api'))"
    using p by (rule map_filter_member)
  then show ?thesis by (simp add: portal_state_of_def Let_def)
qed

lemma portal_publish_record:
  assumes "portal_publish api p = Inr api'"
  shows "portal_publication_record api' (pub_environment p) (pub_gateway_instance_id p) = Some (obj_of (publication_payload p))"
    and "publication_key e g \<noteq> publication_key (pub_environment p) (pub_gateway_instance_id p) \<Longrightarrow>
       portal_publication_record api' e g = portal_publication_record api e g"
  by (simp_all add: portal_publication_record_def portal_publish_publications(1) [OF assms] dget_dset publication_payload_def Let_def)

end
