(* ===== verification/DesiredState.thy ===== *)
theory DesiredState
  imports PortalPublication
begin

text \<open>
  The static part of \<open>GatewayDeploymentService\<close>: how a catalog row is turned into the
  desired state of a deployment, the production provenance gate, and the test for
  lifecycle-managed rows.
\<close>

definition py_upper_char :: "char \<Rightarrow> char" where
  "py_upper_char c = (let n = code_point c in
     if (97 \<le> n \<and> n \<le> 122) \<or> (224 \<le> n \<and> n \<le> 254 \<and> n \<noteq> 247) then char_of (n - 32) else c)"

definition py_upper :: "string \<Rightarrow> string" where
  "py_upper s = map py_upper_char s"

definition DEPLOY_METHODS :: "string list" where
  "DEPLOY_METHODS = [''get'', ''post'', ''put'', ''patch'', ''delete'', ''head'', ''options'']"

definition desired_state_git_metadata :: "host \<Rightarrow> api_catalog \<Rightarrow> jdict" where
  "desired_state_git_metadata hst api =
     (let git_path = or_str (cat_git_path api) (''tenants/'' @ cat_tenant_id api @ ''/apis/'' @ cat_api_name api)
      in if opt_truthy (cat_git_commit_sha api) then
           [(''desired_source'', JStr ''git''), (''git_sync_status'', JStr ''up_to_date''),
            (''desired_commit_sha'', opt_str (cat_git_commit_sha api)), (''desired_git_path'', JStr git_path)]
         else
           [(''desired_source'', JStr ''db_shortcut''),
            (''git_sync_status'', JStr (if \<not> GIT_SYNC_ON_WRITE hst then ''git_sync_disabled'' else ''missing_commit'')),
            (''desired_commit_sha'', JNull), (''desired_git_path'', JStr git_path)])"

text \<open>\<open>api_catalog.openapi_spec or api_catalog.api_metadata or {}\<close>.\<close>

definition spec_data_of :: "api_catalog \<Rightarrow> json" where
  "spec_data_of api =
     (if truthy (cat_openapi_spec api) then cat_openapi_spec api
      else if truthy (cat_api_metadata api) then cat_api_metadata api else JObj [])"

definition backend_url_of :: "api_catalog \<Rightarrow> json" where
  "backend_url_of api =
     (let metadata = cat_api_metadata api; spec_data = spec_data_of api;
          from_metadata =
            (if is_obj metadata then dget_def (obj_of metadata) ''backend_url'' (dget_def (obj_of metadata) ''url'' (JStr []))
             else JStr [])
      in if \<not> truthy from_metadata \<and> is_obj spec_data then
           (case dget_def (obj_of spec_data) ''servers'' (JArr []) of
              JArr (JObj server # _) \<Rightarrow> dget_def server ''url'' (JStr [])
            | _ \<Rightarrow> from_metadata)
         else from_metadata)"

definition methods_of :: "json \<Rightarrow> string list" where
  "methods_of spec_data =
     (if \<not> is_obj spec_data then []
      else case dget_def (obj_of spec_data) ''paths'' (JObj []) of
        JObj paths \<Rightarrow>
          sort (remdups (concat (map (\<lambda>(_, path_item).
            map py_upper (filter (\<lambda>m. py_lower m \<in> set DEPLOY_METHODS) (map fst (obj_of path_item)))) paths)))
      | _ \<Rightarrow> [])"

definition build_desired_state :: "host \<Rightarrow> api_catalog \<Rightarrow> jdict" where
  "build_desired_state hst api =
     (let spec_data = spec_data_of api; methods = methods_of spec_data
      in dmerge
         [(''spec_hash'', JStr (sha256_hex hst (dumps_default spec_data))),
          (''version'', JStr (cat_version api)),
          (''api_name'', JStr (cat_api_name api)),
          (''api_id'', JStr (cat_api_id api)),
          (''api_catalog_id'', JStr (uuid_str (cat_id api))),
          (''tenant_id'', JStr (cat_tenant_id api)),
          (''backend_url'', backend_url_of api),
          (''methods'', JArr (map JStr (if methods \<noteq> [] then methods
             else [''GET'', ''POST'', ''PUT'', ''DELETE'']))),
          (''activated'', JBool True),
          (''openapi_spec'', if truthy spec_data then spec_data else JNull)]
         (desired_state_git_metadata hst api))"

definition requires_git_backed_desired_state :: "string \<Rightarrow> bool" where
  "requires_git_backed_desired_state environment =
     (py_lower (py_strip environment) \<in> {''prod'', ''production''})"

text \<open>The gateway is given by its name and environment, which are all the gate reads.\<close>

definition require_git_backed_desired_state :: "api_catalog \<Rightarrow> string \<Rightarrow> string \<Rightarrow> error + unit" where
  "require_git_backed_desired_state api gateway_name gateway_environment =
     (if requires_git_backed_desired_state gateway_environment \<and> \<not> opt_truthy (cat_git_commit_sha api)
      then Inl (PermissionError (''Production deployment requires a Git-backed UAC/catalog desired state before targeting gateway '' @
             sq gateway_name @ ''.''))
      else Inr ())"

definition build_desired_state_for_gateway :: "host \<Rightarrow> api_catalog \<Rightarrow> gateway_instance \<Rightarrow> string \<Rightarrow> jdict" where
  "build_desired_state_for_gateway hst api gateway target_source =
     dmerge (build_desired_state hst api)
       [(''target_gateway_name'', JStr (gi_name gateway)), (''target_environment'', JStr (gi_environment gateway)),
        (''target_source'', JStr target_source)]"

definition is_lifecycle_managed_catalog :: "api_catalog option \<Rightarrow> bool" where
  "is_lifecycle_managed_catalog api =
     (case api of None \<Rightarrow> False | Some a \<Rightarrow> is_obj (dget (metadata_of a) ''lifecycle''))"

section \<open>Facts about desired states\<close>

lemma desired_state_identity:
  "dget (build_desired_state hst api) ''api_catalog_id'' = JStr (uuid_str (cat_id api))"
  "dget (build_desired_state hst api) ''api_id'' = JStr (cat_api_id api)"
  "dget (build_desired_state hst api) ''tenant_id'' = JStr (cat_tenant_id api)"
  "dget (build_desired_state hst api) ''version'' = JStr (cat_version api)"
  "dget (build_desired_state hst api) ''backend_url'' = backend_url_of api"
  "dget (build_desired_state hst api) ''spec_hash'' = JStr (sha256_hex hst (dumps_default (spec_data_of api)))"
  by (simp_all add: build_desired_state_def desired_state_git_metadata_def dget_def Let_def map_update_if)

lemma jwf_spec_data: "jwf (cat_openapi_spec api) \<Longrightarrow> jwf (cat_api_metadata api) \<Longrightarrow> jwf (spec_data_of api)"
  by (simp add: spec_data_of_def)

lemma jwf_backend_url:
  assumes "jwf (cat_openapi_spec api)" and "jwf (cat_api_metadata api)"
  shows "jwf (backend_url_of api)"
proof -
  let ?from = "if is_obj (cat_api_metadata api) then dget_def (obj_of (cat_api_metadata api)) ''backend_url''
      (dget_def (obj_of (cat_api_metadata api)) ''url'' (JStr [])) else JStr []"
  have meta: "jwf ?from"
  proof (cases "is_obj (cat_api_metadata api)")
    case True
    from jwf_obj_of [OF assms(2) True] have "jwf (dget_def (obj_of (cat_api_metadata api)) k v)" if "jwf v" for k v
      using that by (rule jwf_dget_def)
    with True show ?thesis by simp
  qed simp
  have servers: "jwf (dget_def server ''url'' (JStr []))"
    if "is_obj (spec_data_of api)" "dget_def (obj_of (spec_data_of api)) ''servers'' (JArr []) = JArr (JObj server # rest)" for server rest
  proof -
    have "jwf (dget_def (obj_of (spec_data_of api)) ''servers'' (JArr []))"
      using jwf_obj_of [OF jwf_spec_data [OF assms] that(1)] by (rule jwf_dget_def) simp
    with that(2) have "jwf (JObj server)" by simp
    then show ?thesis by (rule jwf_dget_def) simp
  qed
  from meta servers show ?thesis
    by (auto simp: backend_url_of_def Let_def split: json.splits list.splits)
qed

lemma jwf_desired_state:
  assumes "jwf (cat_openapi_spec api)" and "jwf (cat_api_metadata api)"
  shows "jwf (JObj (build_desired_state hst api))"
  unfolding build_desired_state_def Let_def
proof (rule jwf_dmerge)
  show "\<forall>(k, v)\<in>set (desired_state_git_metadata hst api). jwf v"
    by (auto simp: desired_state_git_metadata_def Let_def opt_str_def split: option.splits)
qed (auto simp: list_all_iff jwf_backend_url [OF assms] jwf_spec_data [OF assms])

lemma desired_source_git:
  "dget (build_desired_state hst api) ''desired_source'' = JStr ''git'' \<longleftrightarrow> opt_truthy (cat_git_commit_sha api)"
  by (simp add: build_desired_state_def desired_state_git_metadata_def dget_def Let_def map_update_if)

lemma methods_sorted: "sorted (methods_of v) \<and> distinct (methods_of v)"
  by (simp add: methods_of_def split: json.splits)

text \<open>
  The gate of the deployment service reads the label with its own two spellings of
  production; they are the labels that normalise to \<open>production\<close>.
\<close>

lemma production_gate_labels:
  "requires_git_backed_desired_state env \<longleftrightarrow> normalize_environment (JStr env) = Some ''production''"
  by (auto simp: requires_git_backed_desired_state_def normalize_environment_def Let_def env_get_def
      DEFAULT_ENV_ALIASES_def split: if_splits)

lemma require_git_ok:
  "require_git_backed_desired_state api n env = Inr () \<longleftrightarrow>
     (normalize_environment (JStr env) = Some ''production'' \<longrightarrow> opt_truthy (cat_git_commit_sha api))"
  by (auto simp: require_git_backed_desired_state_def production_gate_labels)

lemma require_git_cases:
  obtains "require_git_backed_desired_state api n env = Inr ()"
  | m where "require_git_backed_desired_state api n env = Inl (PermissionError m)"
  by (cases "requires_git_backed_desired_state env \<and> \<not> opt_truthy (cat_git_commit_sha api)")
    (auto simp: require_git_backed_desired_state_def)

end
