(* ===== verification/SyncSteps.thy ===== *)
theory SyncSteps
  imports PyData Errors
begin

text \<open>
  \<open>services/sync_step_tracker.py\<close>: the ordered trace of one synchronisation. A step is a
  JSON object, a trace the list of its steps; each operation takes the reading of the clock
  that \<open>_now_iso\<close> makes.
\<close>

type_synonym trace = "jdict list"

definition mk_step :: "string \<Rightarrow> string \<Rightarrow> json \<Rightarrow> json \<Rightarrow> json \<Rightarrow> jdict" where
  "mk_step name status started completed detail =
     [(''name'', JStr name), (''status'', JStr status), (''started_at'', started),
      (''completed_at'', completed), (''detail'', detail)]"

definition iso_json :: "datetime \<Rightarrow> json" where
  "iso_json t = JStr (isoformat t)"

definition trace_from_list :: "json list \<Rightarrow> error + trace" where
  "trace_from_list steps =
     (if list_all is_obj steps then Inr (map obj_of steps)
      else Inl (TypeError ''argument after ** must be a mapping''))"

definition step_start :: "datetime \<Rightarrow> string \<Rightarrow> trace \<Rightarrow> trace" where
  "step_start t name steps = steps @ [mk_step name ''running'' (iso_json t) JNull JNull]"

text \<open>\<open>_find\<close>: the position of the last step with the given name.\<close>

fun find_last :: "string \<Rightarrow> trace \<Rightarrow> nat option" where
  "find_last name [] = None"
| "find_last name (s # steps) =
     (case find_last name steps of
        Some i \<Rightarrow> Some (Suc i)
      | None \<Rightarrow> if dget s ''name'' = JStr name then Some 0 else None)"

text \<open>\<open>complete\<close> and \<open>fail\<close> differ in the status they write only.\<close>

definition step_finish :: "string \<Rightarrow> datetime \<Rightarrow> string \<Rightarrow> string option \<Rightarrow> trace \<Rightarrow> trace" where
  "step_finish status t name detail steps =
     (case find_last name steps of
        None \<Rightarrow> steps
      | Some i \<Rightarrow>
          (let s = dset ''completed_at'' (iso_json t) (dset ''status'' (JStr status) (steps ! i));
               s' = (if opt_truthy detail then dset ''detail'' (opt_str detail) s else s)
           in steps[i := s']))"

definition step_complete :: "datetime \<Rightarrow> string \<Rightarrow> string option \<Rightarrow> trace \<Rightarrow> trace" where
  "step_complete t name detail steps = step_finish ''success'' t name detail steps"

definition step_fail :: "datetime \<Rightarrow> string \<Rightarrow> string option \<Rightarrow> trace \<Rightarrow> trace" where
  "step_fail t name detail steps = step_finish ''failed'' t name detail steps"

definition step_skip :: "datetime \<Rightarrow> string \<Rightarrow> string option \<Rightarrow> trace \<Rightarrow> trace" where
  "step_skip t name reason steps = steps @ [mk_step name ''skipped'' (iso_json t) (iso_json t) (opt_str reason)]"

definition trace_to_list :: "trace \<Rightarrow> json" where
  "trace_to_list steps = JArr (map JObj steps)"

text \<open>The text of a failed step: its detail when there is one.\<close>

definition step_error :: "jdict \<Rightarrow> string" where
  "step_error s = (if truthy (dget s ''detail'') then py_str (dget s ''detail'')
     else ''Step '' @ sq (py_str (dget_def s ''name'' (JStr ''unknown''))) @ '' failed'')"

definition first_error :: "trace \<Rightarrow> string option" where
  "first_error steps = map_option step_error (find (\<lambda>s. dget s ''status'' = JStr ''failed'') steps)"

section \<open>What a trace says\<close>

definition has_failed :: "trace \<Rightarrow> bool" where
  "has_failed steps \<longleftrightarrow> (\<exists>s \<in> set steps. dget s ''status'' = JStr ''failed'')"

lemma first_error_None: "first_error steps = None \<longleftrightarrow> \<not> has_failed steps"
  by (auto simp: first_error_def has_failed_def find_None_iff)

lemma first_error_append: "first_error (xs @ ys) = (case first_error xs of Some e \<Rightarrow> Some e | None \<Rightarrow> first_error ys)"
  by (induction xs) (auto simp: first_error_def)

lemma find_last_Some:
  "find_last name steps = Some i \<Longrightarrow> i < length steps \<and> dget (steps ! i) ''name'' = JStr name \<and>
     (\<forall>j. i < j \<and> j < length steps \<longrightarrow> dget (steps ! j) ''name'' \<noteq> JStr name)"
proof (induction steps arbitrary: i)
  case Nil
  then show ?case by simp
next
  case (Cons s steps)
  show ?case
  proof (cases "find_last name steps")
    case (Some k)
    with Cons.prems have i: "i = Suc k" by simp
    show ?thesis
    proof (intro conjI allI impI)
      show "i < length (s # steps)" and "dget ((s # steps) ! i) ''name'' = JStr name"
        using Cons.IH [OF Some] i by auto
      fix j assume "i < j \<and> j < length (s # steps)"
      then show "dget ((s # steps) ! j) ''name'' \<noteq> JStr name"
        using Cons.IH [OF Some] i by (cases j) auto
    qed
  next
    case None
    then have none: "\<forall>x \<in> set steps. dget x ''name'' \<noteq> JStr name"
      by (induction steps) (auto split: option.splits if_splits)
    from None Cons.prems have "i = 0" and "dget s ''name'' = JStr name" by (auto split: if_splits)
    with none show ?thesis by (auto simp: nth_Cons' all_set_conv_all_nth)
  qed
qed

lemma find_last_None: "find_last name steps = None \<longleftrightarrow> (\<forall>s \<in> set steps. dget s ''name'' \<noteq> JStr name)"
  by (induction steps) (auto split: option.splits)

lemma find_last_append_same [simp]: "dget s ''name'' = JStr name \<Longrightarrow> find_last name (steps @ [s]) = Some (length steps)"
  by (induction steps) auto

lemma length_step_finish [simp]: "length (step_finish st t name d steps) = length steps"
  by (auto simp: step_finish_def Let_def split: option.splits)

lemma mk_step_get [simp]:
  "dget (mk_step n s a b d) ''name'' = JStr n"
  "dget (mk_step n s a b d) ''status'' = JStr s"
  "dget (mk_step n s a b d) ''detail'' = d"
  by (simp_all add: mk_step_def dget_def)

lemma finish_after_start:
  "\<exists>s. step_finish st t' name d (step_start t name steps) = steps @ [s] \<and> dget s ''name'' = JStr name \<and>
       dget s ''status'' = JStr st \<and> dget s ''detail'' = (if opt_truthy d then opt_str d else JNull)"
  by (simp add: step_start_def step_finish_def Let_def dget_dset)

lemma first_error_fail_after_start:
  assumes "first_error steps = None"
  shows "first_error (step_fail t' name (Some d) (step_start t name steps)) =
     Some (if d = [] then ''Step '' @ sq name @ '' failed'' else d)"
proof -
  obtain s where s: "step_fail t' name (Some d) (step_start t name steps) = steps @ [s]"
    and f: "dget s ''name'' = JStr name" "dget s ''status'' = JStr ''failed''"
      "dget s ''detail'' = (if opt_truthy (Some d) then opt_str (Some d) else JNull)"
    using finish_after_start unfolding step_fail_def by blast
  have nm: "dget_def s ''name'' (JStr ''unknown'') = JStr name"
    using f(1) by (auto simp: dget_def dget_def_def split: option.splits)
  have "first_error [s] = Some (step_error s)" by (simp add: first_error_def f)
  moreover have "step_error s = (if d = [] then ''Step '' @ sq name @ '' failed'' else d)"
    by (simp add: step_error_def f nm opt_truthy_def opt_str_def)
  ultimately show ?thesis by (simp add: s first_error_append assms)
qed

lemma has_failed_start [simp]: "has_failed (step_start t name steps) = has_failed steps"
  and has_failed_skip [simp]: "has_failed (step_skip t name r steps) = has_failed steps"
  by (auto simp: has_failed_def step_start_def step_skip_def)

lemma has_failed_complete: "\<not> has_failed steps \<Longrightarrow> \<not> has_failed (step_complete t name d steps)"
proof -
  assume nf: "\<not> has_failed steps"
  show ?thesis
  proof (cases "find_last name steps")
    case None
    with nf show ?thesis by (simp add: step_complete_def step_finish_def)
  next
    case (Some i)
    then obtain s' where "step_complete t name d steps = steps[i := s']" and "dget s' ''status'' = JStr ''success''"
      by (simp add: step_complete_def step_finish_def Let_def dget_dset)
    with nf show ?thesis
      using set_update_subset_insert [of steps i s'] by (auto simp: has_failed_def)
  qed
qed

lemma trace_roundtrip: "trace_from_list (map JObj steps) = Inr steps"
  by (simp add: trace_from_list_def list_all_iff o_def)

end
