(* ===== verification/LifecycleRepository.thy ===== *)
theory LifecycleRepository
  imports DesiredState SyncSteps
begin

text \<open>
  \<open>api_lifecycle/repository.py\<close>: the persistence adapter of the lifecycle service as
  queries and writes on the tables of the world, with the data it hands to the service
  (\<open>GatewayTarget\<close> and the deployment and promotion snapshots of \<open>ports.py\<close>; a snapshot
  and the state built from it have the same fields, so one record models both).
  Every query leaves the world alone, and on tables that satisfy their constraints none of
  them raises.
\<close>

section \<open>Data handed to the service\<close>

record gateway_target =
  gt_id :: uuid
  gt_name :: string
  gt_display_name :: string
  gt_gateway_type :: string
  gt_environment :: string
  gt_tenant_id :: "string option"
  gt_enabled :: bool
  gt_public_url :: "string option"

record sync_step =
  st_name :: string
  st_status :: string
  st_detail :: "string option"
  st_started_at :: "string option"
  st_completed_at :: "string option"

record deployment_state =
  ds_id :: uuid
  ds_environment :: string
  ds_gateway_instance_id :: uuid
  ds_gateway_name :: string
  ds_gateway_type :: string
  ds_sync_status :: string
  ds_desired_generation :: int
  ds_synced_generation :: int
  ds_gateway_resource_id :: "string option"
  ds_public_url :: "string option"
  ds_sync_error :: "string option"
  ds_last_sync_attempt :: "datetime option"
  ds_last_sync_success :: "datetime option"
  ds_policy_sync_status :: "string option"
  ds_policy_sync_error :: "string option"
  ds_sync_steps :: "sync_step list"

record promotion_state =
  ps_id :: uuid
  ps_source_environment :: string
  ps_target_environment :: string
  ps_status :: string
  ps_message :: string
  ps_requested_by :: string
  ps_approved_by :: "string option"
  ps_completed_at :: "datetime option"
  ps_source_deployment_id :: "uuid option"
  ps_target_deployment_id :: "uuid option"
  ps_target_gateway_ids :: "uuid list"

definition gateway_target_from_model :: "gateway_instance \<Rightarrow> gateway_target" where
  "gateway_target_from_model g =
     \<lparr>gt_id = gi_id g, gt_name = gi_name g, gt_display_name = gi_display_name g,
      gt_gateway_type = gateway_type_value (gi_gateway_type g), gt_environment = gi_environment g,
      gt_tenant_id = gi_tenant_id g, gt_enabled = gi_enabled g, gt_public_url = gi_public_url g\<rparr>"

definition sync_steps_from_model :: "json \<Rightarrow> sync_step list" where
  "sync_steps_from_model raw_steps = (case raw_steps of
      JArr steps \<Rightarrow> List.map_filter (\<lambda>raw_step.
        if \<not> is_obj raw_step then None
        else let d = obj_of raw_step; name = dget d ''name''; status = dget d ''status''
          in if \<not> is_str name \<or> \<not> is_str status then None
             else Some \<lparr>st_name = py_str name, st_status = py_str status, st_detail = str_opt (dget d ''detail''),
                        st_started_at = str_opt (dget d ''started_at''),
                        st_completed_at = str_opt (dget d ''completed_at'')\<rparr>) steps
    | _ \<Rightarrow> [])"

definition uuid_list_from_json :: "json \<Rightarrow> uuid list" where
  "uuid_list_from_json raw = (case raw of
      JArr items \<Rightarrow> List.map_filter (\<lambda>item. uuid_parse (py_str item)) items
    | _ \<Rightarrow> [])"

section \<open>Queries\<close>

definition queryA :: "(world \<Rightarrow> error + 'a) \<Rightarrow> 'a action" where
  "queryA f = (\<lambda>w. (f w, w))"

lemma queryA_apply [simp]: "queryA f w = (f w, w)"
  by (simp add: queryA_def)

definition get_api_by_id :: "string \<Rightarrow> string \<Rightarrow> api_catalog option action" where
  "get_api_by_id tenant_id api_id = queryA (\<lambda>w. scalar_one_or_none
     (filter (\<lambda>c. cat_tenant_id c = tenant_id \<and> cat_api_id c = api_id \<and> cat_deleted_at c = None) (catalogs w)))"

definition get_api_by_name_version :: "string \<Rightarrow> string \<Rightarrow> string \<Rightarrow> api_catalog option action" where
  "get_api_by_name_version tenant_id api_name version = queryA (\<lambda>w. scalar_one_or_none
     (filter (\<lambda>c. cat_tenant_id c = tenant_id \<and> cat_api_name c = api_name \<and> cat_version c = version \<and>
        cat_deleted_at c = None) (catalogs w)))"

definition deployment_snapshot :: "gateway_deployment \<Rightarrow> gateway_instance \<Rightarrow> deployment_state" where
  "deployment_snapshot deployment gateway =
     \<lparr>ds_id = dep_id deployment, ds_environment = gi_environment gateway, ds_gateway_instance_id = gi_id gateway,
      ds_gateway_name = gi_name gateway, ds_gateway_type = gateway_type_value (gi_gateway_type gateway),
      ds_sync_status = sync_value (dep_sync_status deployment),
      ds_desired_generation = dep_desired_generation deployment,
      ds_synced_generation = dep_synced_generation deployment,
      ds_gateway_resource_id = dep_gateway_resource_id deployment, ds_public_url = gi_public_url gateway,
      ds_sync_error = dep_sync_error deployment, ds_last_sync_attempt = dep_last_sync_attempt deployment,
      ds_last_sync_success = dep_last_sync_success deployment,
      ds_policy_sync_status = map_option policy_sync_value (dep_policy_sync_status deployment),
      ds_policy_sync_error = dep_policy_sync_error deployment,
      ds_sync_steps = sync_steps_from_model (dep_sync_steps deployment)\<rparr>"

definition list_gateway_deployments :: "uuid \<Rightarrow> deployment_state list action" where
  "list_gateway_deployments api_catalog_id = getA (\<lambda>w.
     map (\<lambda>(d, g). deployment_snapshot d g)
       (sort_key (\<lambda>(d, g). (gi_environment g, gi_name g))
         (concat (map (\<lambda>d. map (\<lambda>g. (d, g))
            (filter (\<lambda>g. gi_id g = dep_gateway_instance_id d \<and> gi_deleted_at g = None) (gateways w)))
          (filter (\<lambda>d. dep_api_catalog_id d = api_catalog_id) (deployments w))))))"

text \<open>\<open>gateway.tenant_id in (None, tenant_id)\<close>.\<close>

definition visible_to :: "string \<Rightarrow> gateway_instance \<Rightarrow> bool" where
  "visible_to tenant_id g = (gi_tenant_id g = None \<or> gi_tenant_id g = Some tenant_id)"

definition get_gateway_target :: "string \<Rightarrow> uuid \<Rightarrow> gateway_target option action" where
  "get_gateway_target tenant_id gateway_instance_id = queryA (\<lambda>w.
     case scalar_one_or_none (filter (\<lambda>g. gi_id g = gateway_instance_id \<and> gi_deleted_at g = None) (gateways w)) of
       Inl e \<Rightarrow> Inl e
     | Inr None \<Rightarrow> Inr None
     | Inr (Some g) \<Rightarrow> Inr (if \<not> visible_to tenant_id g then None else Some (gateway_target_from_model g)))"

definition list_gateway_targets :: "string \<Rightarrow> string \<Rightarrow> gateway_target list action" where
  "list_gateway_targets tenant_id environment = getA (\<lambda>w.
     map gateway_target_from_model
       (filter (\<lambda>g. visible_to tenant_id g \<and> environment_matches (JStr (gi_environment g)) (JStr environment))
         (filter (\<lambda>g. gi_deleted_at g = None \<and> gi_enabled g) (gateways w))))"

definition get_gateway_deployment :: "uuid \<Rightarrow> uuid \<Rightarrow> gateway_deployment option action" where
  "get_gateway_deployment api_catalog_id gateway_instance_id = queryA (\<lambda>w. scalar_one_or_none
     (filter (\<lambda>d. dep_api_catalog_id d = api_catalog_id \<and> dep_gateway_instance_id d = gateway_instance_id)
       (deployments w)))"

definition promotion_snapshot :: "promotion \<Rightarrow> promotion_state" where
  "promotion_snapshot p =
     \<lparr>ps_id = pr_id p, ps_source_environment = pr_source_environment p, ps_target_environment = pr_target_environment p,
      ps_status = pr_status p, ps_message = pr_message p, ps_requested_by = pr_requested_by p,
      ps_approved_by = pr_approved_by p, ps_completed_at = pr_completed_at p,
      ps_source_deployment_id = pr_source_deployment_id p, ps_target_deployment_id = pr_target_deployment_id p,
      ps_target_gateway_ids = uuid_list_from_json (pr_target_gateway_ids p)\<rparr>"

definition list_promotions :: "string \<Rightarrow> string \<Rightarrow> promotion_state list action" where
  "list_promotions tenant_id api_id = getA (\<lambda>w.
     map promotion_snapshot (sort_key (\<lambda>p. - dt_instant (pr_created_at p))
       (filter (\<lambda>p. pr_tenant_id p = tenant_id \<and> pr_api_id p = api_id) (promotions w))))"

definition in_lane :: "string \<Rightarrow> string \<Rightarrow> string \<Rightarrow> string \<Rightarrow> promotion \<Rightarrow> bool" where
  "in_lane tenant_id api_id source target p =
     (pr_tenant_id p = tenant_id \<and> pr_api_id p = api_id \<and> pr_source_environment p = source \<and>
      pr_target_environment p = target)"

definition get_active_promotion :: "string \<Rightarrow> string \<Rightarrow> string \<Rightarrow> string \<Rightarrow> promotion option action" where
  "get_active_promotion tenant_id api_id source target = getA (\<lambda>w.
     find (\<lambda>p. in_lane tenant_id api_id source target p \<and> active_status (pr_status p)) (promotions w))"

text \<open>\<open>ORDER BY completed_at DESC\<close>: the database puts missing times first.\<close>

definition completed_desc :: "promotion \<Rightarrow> nat \<times> int" where
  "completed_desc p = (case pr_completed_at p of None \<Rightarrow> (0, 0) | Some t \<Rightarrow> (1, - dt_instant t))"

definition first_row :: "'a list \<Rightarrow> 'a option" where
  "first_row rs = (case rs of [] \<Rightarrow> None | r # _ \<Rightarrow> Some r)"

definition get_latest_promoted_promotion :: "string \<Rightarrow> string \<Rightarrow> string \<Rightarrow> string \<Rightarrow> promotion option action" where
  "get_latest_promoted_promotion tenant_id api_id source target = getA (\<lambda>w.
     first_row (sort_key completed_desc
       (filter (\<lambda>p. in_lane tenant_id api_id source target p \<and> pr_status p = promotion_value PR_PROMOTED) (promotions w))))"

definition get_active_promotion_for_target_deployment ::
    "string \<Rightarrow> string \<Rightarrow> string \<Rightarrow> uuid \<Rightarrow> promotion option action" where
  "get_active_promotion_for_target_deployment tenant_id api_id target target_deployment_id = getA (\<lambda>w.
     find (\<lambda>p. pr_tenant_id p = tenant_id \<and> pr_api_id p = api_id \<and> pr_target_environment p = target \<and>
        pr_target_deployment_id p = Some target_deployment_id \<and> active_status (pr_status p)) (promotions w))"

section \<open>Writes\<close>

definition create_api_catalog :: "api_catalog \<Rightarrow> api_catalog action" where
  "create_api_catalog api =
     bindA (put_catalogs (insert_row cat_id catalog_clash ''api_catalog'' api)) (\<lambda>_. retA api)"

definition save_api_catalog :: "api_catalog \<Rightarrow> api_catalog action" where
  "save_api_catalog api =
     bindA (put_catalogs (save_row cat_id catalog_clash ''api_catalog'' api)) (\<lambda>_. retA api)"

definition create_gateway_deployment :: "gateway_deployment \<Rightarrow> gateway_deployment action" where
  "create_gateway_deployment deployment =
     bindA (put_deployments (insert_row dep_id deployment_clash ''uq_deployment_api_gateway'' deployment)) (\<lambda>_. retA deployment)"

definition save_gateway_deployment :: "gateway_deployment \<Rightarrow> gateway_deployment action" where
  "save_gateway_deployment deployment =
     bindA (put_deployments (save_row dep_id deployment_clash ''uq_deployment_api_gateway'' deployment)) (\<lambda>_. retA deployment)"

definition create_promotion :: "promotion \<Rightarrow> promotion action" where
  "create_promotion p =
     bindA (put_promotions (insert_row pr_id promotion_clash ''uq_promotions_active_per_target'' p)) (\<lambda>_. retA p)"

definition save_promotion :: "promotion \<Rightarrow> promotion action" where
  "save_promotion p =
     bindA (put_promotions (save_row pr_id promotion_clash ''uq_promotions_active_per_target'' p)) (\<lambda>_. retA p)"

definition sse_data :: "gateway_deployment \<Rightarrow> json" where
  "sse_data d = JObj
     [(''deployment_id'', JStr (uuid_str (dep_id d))), (''api_catalog_id'', JStr (uuid_str (dep_api_catalog_id d))),
      (''gateway_instance_id'', JStr (uuid_str (dep_gateway_instance_id d))),
      (''sync_status'', JStr (sync_value (dep_sync_status d))), (''desired_state'', dep_desired_state d),
      (''desired_generation'', JInt (dep_desired_generation d))]"

definition queue_sse_event :: "gateway_deployment \<Rightarrow> string \<Rightarrow> unit action" where
  "queue_sse_event d tenant_id = modA (\<lambda>w. w\<lparr>link_events := link_events w @
     [\<lparr>le_tenant_id = tenant_id,
       le_event_type = (if dep_sync_status d = DELETING then ''undeploy'' else ''sync-deployment''),
       le_data = sse_data d, le_gateway_id = uuid_str (dep_gateway_instance_id d)\<rparr>]\<rparr>)"

definition queue_gateway_deployment :: "host \<Rightarrow> gateway_deployment \<Rightarrow> string \<Rightarrow> unit action" where
  "queue_gateway_deployment hst d tenant_id = whenA (is_sse_enabled hst) (queue_sse_event d tenant_id)"

section \<open>The audit sink: audit.py\<close>

definition record_transition ::
    "string \<Rightarrow> lifecycle_actor \<Rightarrow> string \<Rightarrow> string \<Rightarrow> string \<Rightarrow> json \<Rightarrow> string \<Rightarrow> int \<Rightarrow> string option \<Rightarrow> unit action" where
  "record_transition tenant_id actor action resource_id resource_name details outcome status_code path =
     modA (\<lambda>w. w\<lparr>audit_log := audit_log w @
       [\<lparr>ae_tenant_id = tenant_id, ae_actor = actor, ae_action = action, ae_method = ''POST'',
         ae_path = or_str path (''/v1/tenants/'' @ tenant_id @ ''/apis/lifecycle/drafts''),
         ae_resource_type = ''api'', ae_resource_id = resource_id, ae_resource_name = resource_name,
         ae_outcome = outcome, ae_status_code = status_code, ae_details = details\<rparr>]\<rparr>)"

section \<open>Laws of the repository\<close>

lemmas repository_queries =
  get_api_by_id_def get_api_by_name_version_def list_gateway_deployments_def get_gateway_target_def
  list_gateway_targets_def get_gateway_deployment_def list_promotions_def get_active_promotion_def
  get_latest_promoted_promotion_def get_active_promotion_for_target_deployment_def

lemma queries_same: "snd (get_api_by_id t a w) = w" "snd (get_api_by_name_version t n v w) = w"
  "snd (list_gateway_deployments i w) = w" "snd (get_gateway_target t g w) = w"
  "snd (list_gateway_targets t e w) = w" "snd (get_gateway_deployment c g w) = w"
  "snd (list_promotions t a w) = w" "snd (get_active_promotion t a s e w) = w"
  "snd (get_latest_promoted_promotion t a s e w) = w"
  "snd (get_active_promotion_for_target_deployment t a e d w) = w"
  by (simp_all add: repository_queries)

lemma get_api_by_id_Some:
  "get_api_by_id t a w = (Inr (Some c), w') \<Longrightarrow>
     w' = w \<and> c \<in> set (catalogs w) \<and> cat_tenant_id c = t \<and> cat_api_id c = a \<and> cat_deleted_at c = None"
  by (auto simp: get_api_by_id_def dest!: scalar_one_or_none_in)

lemma get_api_by_id_total: "db_ok w \<Longrightarrow> \<exists>v. get_api_by_id t a w = (Inr v, w)"
  unfolding get_api_by_id_def db_ok_def
  using catalog_table.query_unique [of "catalogs w" "\<lambda>c. cat_tenant_id c = t \<and> cat_api_id c = a \<and> cat_deleted_at c = None"]
  by (auto simp: catalog_clash_def)

lemma get_api_by_id_finds:
  assumes "db_ok w" and "c \<in> set (catalogs w)" and "cat_deleted_at c = None"
  shows "get_api_by_id (cat_tenant_id c) (cat_api_id c) w = (Inr (Some c), w)"
  using assms catalog_table.query_finds [of "catalogs w"
      "\<lambda>d. cat_tenant_id d = cat_tenant_id c \<and> cat_api_id d = cat_api_id c \<and> cat_deleted_at d = None" c]
  by (simp add: get_api_by_id_def db_ok_def catalog_clash_def)

lemma get_api_by_name_version_total: "db_ok w \<Longrightarrow> \<exists>v. get_api_by_name_version t n ver w = (Inr v, w)"
  unfolding get_api_by_name_version_def db_ok_def
  using catalog_table.query_unique [of "catalogs w"
      "\<lambda>c. cat_tenant_id c = t \<and> cat_api_name c = n \<and> cat_version c = ver \<and> cat_deleted_at c = None"]
  by (auto simp: catalog_clash_def)

lemma get_gateway_deployment_Some:
  "get_gateway_deployment c g w = (Inr (Some d), w') \<Longrightarrow>
     w' = w \<and> d \<in> set (deployments w) \<and> dep_api_catalog_id d = c \<and> dep_gateway_instance_id d = g"
  by (auto simp: get_gateway_deployment_def dest!: scalar_one_or_none_in)

lemma get_gateway_deployment_None:
  "get_gateway_deployment c g w = (Inr None, w') \<Longrightarrow>
     w' = w \<and> (\<forall>d \<in> set (deployments w). \<not> (dep_api_catalog_id d = c \<and> dep_gateway_instance_id d = g))"
  by (auto simp: get_gateway_deployment_def scalar_one_or_none_None filter_empty_conv)

lemma get_gateway_deployment_total: "db_ok w \<Longrightarrow> \<exists>v. get_gateway_deployment c g w = (Inr v, w)"
  unfolding get_gateway_deployment_def db_ok_def
  using deployment_table.query_unique [of "deployments w" "\<lambda>d. dep_api_catalog_id d = c \<and> dep_gateway_instance_id d = g"]
  by (auto simp: deployment_clash_def)

lemma get_gateway_deployment_finds:
  assumes "db_ok w" and "d \<in> set (deployments w)"
  shows "get_gateway_deployment (dep_api_catalog_id d) (dep_gateway_instance_id d) w = (Inr (Some d), w)"
  using assms deployment_table.query_finds [of "deployments w"
      "\<lambda>e. dep_api_catalog_id e = dep_api_catalog_id d \<and> dep_gateway_instance_id e = dep_gateway_instance_id d" d]
  by (simp add: get_gateway_deployment_def db_ok_def deployment_clash_def)

lemma get_gateway_target_Some:
  "get_gateway_target t i w = (Inr (Some g), w') \<Longrightarrow>
     w' = w \<and> (\<exists>gi \<in> set (gateways w). g = gateway_target_from_model gi \<and> gi_id gi = i \<and> gi_deleted_at gi = None \<and>
       visible_to t gi)"
  by (auto simp: get_gateway_target_def split: sum.splits option.splits if_splits dest!: scalar_one_or_none_in)

lemma get_gateway_target_total: "db_ok w \<Longrightarrow> \<exists>v. get_gateway_target t i w = (Inr v, w)"
proof -
  assume "db_ok w"
  then have "\<exists>v. scalar_one_or_none (filter (\<lambda>g. gi_id g = i \<and> gi_deleted_at g = None) (gateways w)) = Inr v"
    unfolding db_ok_def by (intro gateway_table.query_unique) auto
  then show ?thesis by (auto simp: get_gateway_target_def split: option.splits)
qed

lemma list_gateway_targets_in:
  "g \<in> set gs \<Longrightarrow> list_gateway_targets t env w = (Inr gs, w') \<Longrightarrow>
     \<exists>gi \<in> set (gateways w). g = gateway_target_from_model gi \<and> gi_deleted_at gi = None \<and> gi_enabled gi \<and>
       visible_to t gi \<and> environment_matches (JStr (gi_environment gi)) (JStr env)"
  by (auto simp: list_gateway_targets_def)

lemma get_active_promotion_Some:
  "get_active_promotion t a s e w = (Inr (Some p), w') \<Longrightarrow>
     w' = w \<and> p \<in> set (promotions w) \<and> in_lane t a s e p \<and> active_status (pr_status p)"
  by (auto simp: get_active_promotion_def dest!: find_Some_in)

lemma first_row_sorted_in: "first_row (sort_key k (filter p t)) = Some r \<Longrightarrow> r \<in> set t \<and> p r"
proof -
  assume "first_row (sort_key k (filter p t)) = Some r"
  then obtain rs where "sort_key k (filter p t) = r # rs" by (auto simp: first_row_def split: list.splits)
  then have "r \<in> set (sort_key k (filter p t))" by (simp only: list.set_intros(1))
  then show ?thesis by simp
qed

lemma get_latest_promoted_Some:
  "get_latest_promoted_promotion t a s e w = (Inr (Some p), w') \<Longrightarrow>
     w' = w \<and> p \<in> set (promotions w) \<and> in_lane t a s e p \<and> pr_status p = ''promoted''"
  by (auto simp: get_latest_promoted_promotion_def dest!: first_row_sorted_in)

text \<open>What the writes do to the world, in the terms of the shared state relations.\<close>

lemma put_catalogs_cases:
  obtains e where "put_catalogs f w = (Inl e, w)" "f (catalogs w) = Inl e"
  | t where "put_catalogs f w = (Inr (), w\<lparr>catalogs := t\<rparr>)" "f (catalogs w) = Inr t"
  by (cases "f (catalogs w)") (auto simp: put_catalogs_def)

lemma put_deployments_cases:
  obtains e where "put_deployments f w = (Inl e, w)" "f (deployments w) = Inl e"
  | t where "put_deployments f w = (Inr (), w\<lparr>deployments := t\<rparr>)" "f (deployments w) = Inr t"
  by (cases "f (deployments w)") (auto simp: put_deployments_def)

lemma put_promotions_cases:
  obtains e where "put_promotions f w = (Inl e, w)" "f (promotions w) = Inl e"
  | t where "put_promotions f w = (Inr (), w\<lparr>promotions := t\<rparr>)" "f (promotions w) = Inr t"
  by (cases "f (promotions w)") (auto simp: put_promotions_def)

lemma log_grows_puts:
  "acts_within log_grows (put_catalogs f)" "acts_within log_grows (put_deployments g)" "acts_within log_grows (put_promotions h)"
  by (auto simp: acts_within_def log_grows_def put_catalogs_def put_deployments_def put_promotions_def split: sum.splits)

lemma same_tables_fail_puts:
  "fails_within same_tables (put_catalogs f)" "fails_within same_tables (put_deployments g)"
  "fails_within same_tables (put_promotions h)"
  by (auto simp: fails_within_def same_tables_def put_catalogs_def put_deployments_def put_promotions_def split: sum.splits)

lemma keeps_db_ok_puts:
  "acts_within keeps_db_ok (put_catalogs (insert_row cat_id catalog_clash n c))"
  "acts_within keeps_db_ok (put_catalogs (save_row cat_id catalog_clash n c))"
  "acts_within keeps_db_ok (put_deployments (insert_row dep_id deployment_clash n d))"
  "acts_within keeps_db_ok (put_deployments (save_row dep_id deployment_clash n d))"
  "acts_within keeps_db_ok (put_promotions (insert_row pr_id promotion_clash n p))"
  "acts_within keeps_db_ok (put_promotions (save_row pr_id promotion_clash n p))"
  by (auto simp: acts_within_def keeps_db_ok_def db_ok_def put_catalogs_def put_deployments_def put_promotions_def
      intro: catalog_table.insert_ok catalog_table.save_ok deployment_table.insert_ok deployment_table.save_ok
        promotion_table.insert_ok promotion_table.save_ok split: sum.splits)

end
