(* ===== verification/OpenApi.thy ===== *)
theory OpenApi
  imports Errors
begin

text \<open>
  \<open>api_lifecycle/openapi.py\<close>: parsing an inline contract and validating the minimum
  OpenAPI/Swagger structure needed before a deployment. A contract is given as the JSON
  value that reaches the function: \<open>JNull\<close> for \<open>None\<close>, \<open>JStr\<close> for a text, \<open>JObj\<close> for a
  parsed document.
\<close>

definition HTTP_METHODS :: "string list" where
  "HTTP_METHODS = [''get'', ''put'', ''post'', ''delete'', ''options'', ''head'', ''patch'', ''trace'']"

record openapi_result =
  oa_valid :: bool
  oa_code :: string
  oa_message :: string
  oa_spec_format :: string
  oa_spec_version :: string
  oa_title :: string
  oa_version :: string
  oa_path_count :: nat
  oa_operation_count :: nat

definition invalid_spec :: "string \<Rightarrow> string \<Rightarrow> error + 'a" where
  "invalid_spec code message = Inl (ApiLifecycleSpecValidationError code message)"

definition parse_openapi_contract :: "host \<Rightarrow> json \<Rightarrow> error + jdict option" where
  "parse_openapi_contract hst spec =
     (let as_object = (\<lambda>parsed. case parsed of
            JObj d \<Rightarrow> Inr (Some d)
          | _ \<Rightarrow> Inl (ApiLifecycleValidationError ''Invalid OpenAPI spec: must be a JSON/YAML object''))
      in case spec of
           JNull \<Rightarrow> Inr None
         | JObj d \<Rightarrow> as_object (JObj d)
         | JStr s \<Rightarrow>
             if py_strip s = [] then Inr None
             else (case (if py_startswith (dropWhile py_isspace s) ''{'' then json_loads hst s else yaml_safe_load hst s) of
                     Inl exc \<Rightarrow> Inl (ApiLifecycleValidationError (''Invalid OpenAPI spec: unable to parse: '' @ exc))
                   | Inr parsed \<Rightarrow> as_object parsed)
         | _ \<Rightarrow> Inl (ApiLifecycleValidationError ''Invalid OpenAPI spec: expected a JSON/YAML string or object''))"

definition validate_spec_version :: "jdict \<Rightarrow> error + string \<times> string" where
  "validate_spec_version spec =
     (let openapi_version = dget spec ''openapi''; swagger_version = dget spec ''swagger''
      in if truthy openapi_version then
           (let version = py_str openapi_version
            in if \<not> py_startswith version ''3''
               then invalid_spec ''openapi_version_unsupported''
                      (''Unsupported OpenAPI version: '' @ version @ ''. Supported: 3.x'')
               else Inr (''openapi'', version))
         else if truthy swagger_version then
           (let version = py_str swagger_version
            in if \<not> py_startswith version ''2''
               then invalid_spec ''swagger_version_unsupported''
                      (''Unsupported Swagger version: '' @ version @ ''. Supported: 2.0'')
               else Inr (''swagger'', version))
         else invalid_spec ''openapi_version_missing'' (''OpenAPI spec must declare '' @ sq ''openapi'' @ '' or '' @ sq ''swagger''))"

fun validate_operations :: "string \<Rightarrow> nat \<Rightarrow> jdict \<Rightarrow> error + nat" where
  "validate_operations path operation_count [] = Inr operation_count"
| "validate_operations path operation_count ((method, operation) # rest) =
     (if py_lower method \<notin> set HTTP_METHODS then validate_operations path operation_count rest
      else (case operation of
          JObj op \<Rightarrow>
            (let responses = dget op ''responses''
             in if \<not> is_obj responses \<or> obj_of responses = []
                then invalid_spec ''openapi_operation_responses_missing''
                       (''OpenAPI operation must declare a non-empty responses object: '' @ path @ '' '' @ method)
                else validate_operations path (operation_count + 1) rest)
        | _ \<Rightarrow> invalid_spec ''openapi_operation_invalid''
                 (''OpenAPI operation must be an object: '' @ path @ '' '' @ method)))"

fun validate_paths_from :: "nat \<Rightarrow> jdict \<Rightarrow> error + nat" where
  "validate_paths_from operation_count [] = Inr operation_count"
| "validate_paths_from operation_count ((path, path_item) # rest) =
     (if \<not> py_startswith path ''/''
      then invalid_spec ''openapi_path_invalid'' (''OpenAPI path keys must start with '' @ sq ''/'')
      else (case path_item of
          JObj items \<Rightarrow>
            (case validate_operations path operation_count items of
               Inl e \<Rightarrow> Inl e
             | Inr n \<Rightarrow> validate_paths_from n rest)
        | _ \<Rightarrow> invalid_spec ''openapi_path_item_invalid'' (''OpenAPI path item must be an object: '' @ path)))"

definition validate_paths :: "jdict \<Rightarrow> error + nat" where
  "validate_paths paths = validate_paths_from 0 paths"

definition validate_openapi_contract :: "host \<Rightarrow> json \<Rightarrow> error + openapi_result" where
  "validate_openapi_contract hst spec =
     (case parse_openapi_contract hst spec of
        Inl exc \<Rightarrow> invalid_spec ''openapi_spec_invalid'' (err_text exc)
      | Inr None \<Rightarrow> invalid_spec ''openapi_spec_missing'' ''OpenAPI spec is required''
      | Inr (Some parsed) \<Rightarrow>
     (case validate_spec_version parsed of Inl e \<Rightarrow> Inl e | Inr (spec_format, spec_version) \<Rightarrow>
      let info = dget parsed ''info'' in
      if \<not> is_obj info then invalid_spec ''openapi_info_missing'' ''OpenAPI spec must include an info object'' else
      let title = dget (obj_of info) ''title'' in
      if \<not> is_str title \<or> py_strip (py_str title) = []
      then invalid_spec ''openapi_info_title_missing'' ''OpenAPI info.title is required'' else
      let api_version = dget (obj_of info) ''version'' in
      if \<not> is_str api_version \<or> py_strip (py_str api_version) = []
      then invalid_spec ''openapi_info_version_missing'' ''OpenAPI info.version is required'' else
      let paths = dget parsed ''paths'' in
      if \<not> is_obj paths then invalid_spec ''openapi_paths_missing'' ''OpenAPI spec must include a paths object'' else
      if obj_of paths = [] then invalid_spec ''openapi_paths_empty'' ''OpenAPI spec must include at least one path'' else
      (case validate_paths (obj_of paths) of Inl e \<Rightarrow> Inl e | Inr operation_count \<Rightarrow>
       Inr \<lparr>oa_valid = True, oa_code = ''validated'', oa_message = ''OpenAPI contract validated'',
            oa_spec_format = spec_format, oa_spec_version = spec_version,
            oa_title = py_strip (py_str title), oa_version = py_strip (py_str api_version),
            oa_path_count = length (obj_of paths), oa_operation_count = operation_count\<rparr>)))"

section \<open>What an accepted contract looks like\<close>

text \<open>The structure the validator is there to guarantee, stated without its control flow.\<close>

definition operation_ok :: "json \<Rightarrow> bool" where
  "operation_ok operation \<longleftrightarrow> (\<exists>op rs. operation = JObj op \<and> dget op ''responses'' = JObj rs \<and> rs \<noteq> [])"

definition http_operations :: "json \<Rightarrow> jdict" where
  "http_operations path_item = filter (\<lambda>(m, _). py_lower m \<in> set HTTP_METHODS) (obj_of path_item)"

definition path_ok :: "string \<times> json \<Rightarrow> bool" where
  "path_ok p \<longleftrightarrow> py_startswith (fst p) ''/'' \<and> is_obj (snd p) \<and>
     (\<forall>(m, operation) \<in> set (http_operations (snd p)). operation_ok operation)"

definition version_ok :: "jdict \<Rightarrow> bool" where
  "version_ok spec \<longleftrightarrow>
     (if truthy (dget spec ''openapi'') then py_startswith (py_str (dget spec ''openapi'')) ''3''
      else truthy (dget spec ''swagger'') \<and> py_startswith (py_str (dget spec ''swagger'')) ''2'')"

definition text_ok :: "json \<Rightarrow> bool" where
  "text_ok v \<longleftrightarrow> (\<exists>s. v = JStr s \<and> py_strip s \<noteq> [])"

definition contract_ok :: "jdict \<Rightarrow> bool" where
  "contract_ok spec \<longleftrightarrow> version_ok spec \<and>
     (\<exists>info. dget spec ''info'' = JObj info \<and> text_ok (dget info ''title'') \<and> text_ok (dget info ''version'')) \<and>
     (\<exists>paths. dget spec ''paths'' = JObj paths \<and> paths \<noteq> [] \<and> (\<forall>p \<in> set paths. path_ok p))"

definition operation_total :: "jdict \<Rightarrow> nat" where
  "operation_total paths = (\<Sum>p \<leftarrow> paths. length (http_operations (snd p)))"

lemma operation_ok_iff:
  "operation_ok operation \<longleftrightarrow> is_obj operation \<and> is_obj (dget (obj_of operation) ''responses'') \<and>
     obj_of (dget (obj_of operation) ''responses'') \<noteq> []"
  by (auto simp: operation_ok_def is_obj_iff)

lemma text_ok_iff: "text_ok v \<longleftrightarrow> is_str v \<and> py_strip (py_str v) \<noteq> []"
  by (cases v) (auto simp: text_ok_def)

lemma validate_operations_ok:
  "validate_operations path n items = Inr k \<longleftrightarrow>
     (\<forall>(m, operation) \<in> set (http_operations (JObj items)). operation_ok operation) \<and>
     k = n + length (http_operations (JObj items))"
  by (induction path n items rule: validate_operations.induct)
    (auto simp: http_operations_def invalid_spec_def operation_ok_iff Let_def split: json.splits)

lemma validate_paths_from_ok:
  "validate_paths_from n paths = Inr k \<longleftrightarrow> (\<forall>p \<in> set paths. path_ok p) \<and> k = n + operation_total paths"
proof (induction n paths rule: validate_paths_from.induct)
  case (1 n)
  then show ?case by (auto simp: operation_total_def)
next
  case (2 n path path_item rest)
  show ?case
  proof (cases "py_startswith path ''/'' \<and> is_obj path_item")
    case False
    then show ?thesis
      by (auto simp: invalid_spec_def path_ok_def split: json.splits)
  next
    case True
    then obtain items where items: "path_item = JObj items" by (auto simp: is_obj_iff)
    show ?thesis
    proof (cases "validate_operations path n items")
      case (Inl e)
      then have "\<not> path_ok (path, path_item)"
        using validate_operations_ok [of path n items "n + length (http_operations (JObj items))"]
        by (auto simp: path_ok_def items)
      with True items Inl show ?thesis by simp
    next
      case (Inr m)
      then have ok: "path_ok (path, path_item)" and m: "m = n + length (http_operations path_item)"
        using True by (auto simp: validate_operations_ok path_ok_def items)
      with True items Inr 2 show ?thesis
        by (auto simp: operation_total_def)
    qed
  qed
qed

lemma validate_spec_version_ok:
  "(\<exists>r. validate_spec_version spec = Inr r) \<longleftrightarrow> version_ok spec"
  by (simp add: validate_spec_version_def version_ok_def invalid_spec_def Let_def)

lemma validate_openapi_contract_ok:
  "validate_openapi_contract hst (JObj spec) = Inr r \<Longrightarrow>
     contract_ok spec \<and> oa_path_count r = length (obj_of (dget spec ''paths'')) \<and>
     oa_operation_count r = operation_total (obj_of (dget spec ''paths'')) \<and> oa_code r = ''validated''"
  using validate_spec_version_ok [of spec]
  by (auto simp: validate_openapi_contract_def parse_openapi_contract_def contract_ok_def text_ok_iff
      invalid_spec_def Let_def is_obj_iff validate_paths_def validate_paths_from_ok
      split: sum.splits prod.splits if_splits)

lemma validate_openapi_contract_complete:
  assumes "contract_ok spec"
  shows "\<exists>r. validate_openapi_contract hst (JObj spec) = Inr r"
proof -
  from assms obtain info paths where
    v: "version_ok spec" and i: "dget spec ''info'' = JObj info" and t: "text_ok (dget info ''title'')"
    and ve: "text_ok (dget info ''version'')" and p: "dget spec ''paths'' = JObj paths" and ne: "paths \<noteq> []"
    and ps: "\<forall>p \<in> set paths. path_ok p"
    unfolding contract_ok_def by blast
  from v obtain f ver where "validate_spec_version spec = Inr (f, ver)"
    using validate_spec_version_ok by (metis surj_pair)
  moreover have "validate_paths paths = Inr (operation_total paths)"
    using ps by (simp add: validate_paths_def validate_paths_from_ok)
  ultimately show ?thesis
    using t ve ne
    by (simp add: validate_openapi_contract_def parse_openapi_contract_def i p text_ok_iff)
qed

end
