(* ===== verification/LifecycleState.thy ===== *)
theory LifecycleState
  imports LifecycleRepository OpenApi
begin

text \<open>
  The commands and results of the API lifecycle service (\<open>ports.py\<close>) and the pure
  functions of \<open>service.py\<close>: slugs, environment labels, the phase of an API, the last
  error, spec fingerprints, the production guard, and the aggregate state of one API.
\<close>

section \<open>Commands and results: ports.py\<close>

record create_command =
  cc_tenant_id :: string
  cc_name :: string
  cc_display_name :: string
  cc_version :: string
  cc_description :: string
  cc_backend_url :: string
  cc_openapi_spec :: json
  cc_spec_reference :: "string option"
  cc_tags :: "string list"
  cc_owner_team :: "string option"

record validate_command =
  vc_tenant_id :: string
  vc_api_id :: string
  vc_reason :: "string option"

text \<open>\<open>DeployApiCommand\<close> and \<open>PublishApiCommand\<close> have the same fields.\<close>

record target_command =
  tc_tenant_id :: string
  tc_api_id :: string
  tc_environment :: string
  tc_gateway_instance_id :: "uuid option"
  tc_force :: bool

record promote_command =
  mc_tenant_id :: string
  mc_api_id :: string
  mc_source_environment :: string
  mc_target_environment :: string
  mc_source_gateway_instance_id :: "uuid option"
  mc_target_gateway_instance_id :: "uuid option"
  mc_force :: bool

record validation_result =
  vr_valid :: bool
  vr_code :: string
  vr_message :: string
  vr_spec_source :: json
  vr_spec_format :: string
  vr_spec_version :: string
  vr_title :: string
  vr_version :: string
  vr_path_count :: nat
  vr_operation_count :: nat
  vr_validated_at :: datetime

record lifecycle_state =
  ls_catalog_id :: uuid
  ls_tenant_id :: string
  ls_api_id :: string
  ls_api_name :: string
  ls_display_name :: string
  ls_version :: string
  ls_description :: string
  ls_backend_url :: string
  ls_catalog_status :: string
  ls_lifecycle_phase :: string
  ls_portal_published :: bool
  ls_tags :: "string list"
  ls_spec :: spec_state
  ls_deployments :: "deployment_state list"
  ls_promotions :: "promotion_state list"
  ls_last_error :: "string option"
  ls_portal :: portal_lifecycle_state

record validation_outcome =
  vo_tenant_id :: string
  vo_api_id :: string
  vo_status :: string
  vo_validation :: validation_result
  vo_lifecycle_state :: lifecycle_state

record deployment_outcome =
  do_tenant_id :: string
  do_api_id :: string
  do_environment :: string
  do_gateway_instance_id :: uuid
  do_deployment_id :: uuid
  do_deployment_status :: string
  do_action :: string
  do_lifecycle_state :: lifecycle_state

record publication_outcome =
  po_tenant_id :: string
  po_api_id :: string
  po_environment :: string
  po_gateway_instance_id :: uuid
  po_deployment_id :: uuid
  po_publication_status :: string
  po_portal_published :: bool
  po_result :: string
  po_lifecycle_state :: lifecycle_state

record promotion_outcome =
  mo_tenant_id :: string
  mo_api_id :: string
  mo_promotion_id :: uuid
  mo_source_environment :: string
  mo_target_environment :: string
  mo_source_gateway_instance_id :: uuid
  mo_target_gateway_instance_id :: uuid
  mo_target_deployment_id :: uuid
  mo_promotion_status :: string
  mo_deployment_status :: string
  mo_result :: string
  mo_lifecycle_state :: lifecycle_state

section \<open>Slugs\<close>

definition slug_keep :: "char \<Rightarrow> bool" where
  "slug_keep c = (let n = code_point c in
     (97 \<le> n \<and> n \<le> 122) \<or> (48 \<le> n \<and> n \<le> 57) \<or> py_isspace c \<or> c = CHR ''-'')"

definition slug_sep :: "char \<Rightarrow> bool" where
  "slug_sep c = (py_isspace c \<or> c = CHR ''-'')"

text \<open>\<open>re.sub(r"[\s-]+", "-", value)\<close>: each maximal run of separators becomes one hyphen.\<close>

fun collapse_seps :: "bool \<Rightarrow> string \<Rightarrow> string" where
  "collapse_seps in_run [] = []"
| "collapse_seps in_run (c # cs) =
     (if slug_sep c then (if in_run then collapse_seps True cs else CHR ''-'' # collapse_seps True cs)
      else c # collapse_seps False cs)"

definition slugify :: "string \<Rightarrow> string" where
  "slugify value =
     (let v1 = py_strip (py_lower value);
          v2 = filter slug_keep v1;
          v3 = strip_by (\<lambda>c. c = CHR ''-'') (collapse_seps False v2)
      in if v3 = [] then ''api'' else v3)"

section \<open>Environment labels and the production guard\<close>

definition lifecycle_environment :: "string \<Rightarrow> error + string" where
  "lifecycle_environment value =
     (case normalize_environment (JStr value) of
        Some environment \<Rightarrow>
          if environment \<in> {''dev'', ''staging'', ''production''} then Inr environment
          else Inl (ApiLifecycleValidationError (''Invalid deployment environment: '' @ value))
      | None \<Rightarrow> Inl (ApiLifecycleValidationError (''Invalid deployment environment: '' @ value)))"

definition production_git_guard_violation :: "api_catalog \<Rightarrow> gateway_target \<Rightarrow> string option" where
  "production_git_guard_violation api gateway =
     (case require_git_backed_desired_state api (gt_name gateway) (gt_environment gateway) of
        Inl exc \<Rightarrow> Some (err_text exc)
      | Inr _ \<Rightarrow> None)"

definition deployment_synced_to_desired_generation :: "gateway_deployment \<Rightarrow> bool" where
  "deployment_synced_to_desired_generation d =
     (sync_value (dep_sync_status d) = sync_value SYNCED \<and> dep_synced_generation d \<ge> dep_desired_generation d)"

definition promotion_result :: "string \<Rightarrow> string \<Rightarrow> string" where
  "promotion_result promotion_action deployment_action =
     (if promotion_action = ''unchanged'' \<and> deployment_action = ''unchanged'' then ''unchanged''
      else if ''created'' \<in> {promotion_action, deployment_action} then ''requested''
      else ''updated'')"

definition spec_fingerprint :: "host \<Rightarrow> json \<Rightarrow> string" where
  "spec_fingerprint hst spec = sha256_hex hst (dumps_compact spec)"

section \<open>Phase and last error\<close>

definition calculate_lifecycle_phase ::
    "string \<Rightarrow> bool \<Rightarrow> deployment_state list \<Rightarrow> promotion_state list \<Rightarrow> string" where
  "calculate_lifecycle_phase catalog_status portal_published ds ps =
     (if catalog_status \<in> {''archived'', ''failed''} then catalog_status
      else if list_ex (\<lambda>d. ds_sync_status d = ''error'') ds then ''failed''
      else if list_ex (\<lambda>p. ps_status p = ''failed'') ps then ''failed''
      else if list_ex (\<lambda>p. ps_status p \<in> {''pending'', ''promoting''}) ps then ''promoting''
      else if list_ex (\<lambda>p. ps_status p = ''promoted'') ps then ''promoted''
      else if portal_published then ''published''
      else if list_ex (\<lambda>d. ds_sync_status d = ''synced'') ds then ''deployed''
      else catalog_status)"

definition last_error_of :: "string \<Rightarrow> deployment_state list \<Rightarrow> promotion_state list \<Rightarrow> string option" where
  "last_error_of catalog_status ds ps =
     (if catalog_status = ''failed'' then Some ''catalog validation failed''
      else case find (\<lambda>d. ds_sync_status d = ''error'' \<and> opt_truthy (ds_sync_error d)) ds of
        Some d \<Rightarrow> ds_sync_error d
      | None \<Rightarrow> map_option ps_message (find (\<lambda>p. ps_status p = ''failed'') ps))"

section \<open>The aggregate state\<close>

text \<open>\<open>str(metadata.get(k) or default)\<close>.\<close>

definition meta_str :: "api_catalog \<Rightarrow> string \<Rightarrow> string \<Rightarrow> string" where
  "meta_str api k d = (let v = dget (metadata_of api) k in if truthy v then py_str v else d)"

definition state_from_catalog :: "api_catalog \<Rightarrow> lifecycle_state action" where
  "state_from_catalog api =
     bindA (list_gateway_deployments (cat_id api)) (\<lambda>ds.
     bindA (list_promotions (cat_tenant_id api) (cat_api_id api)) (\<lambda>ps.
     retA
       \<lparr>ls_catalog_id = cat_id api, ls_tenant_id = cat_tenant_id api, ls_api_id = cat_api_id api,
        ls_api_name = cat_api_name api,
        ls_display_name = meta_str api ''display_name'' (cat_api_name api),
        ls_version = cat_version api,
        ls_description = meta_str api ''description'' [],
        ls_backend_url = meta_str api ''backend_url'' [],
        ls_catalog_status = cat_status api,
        ls_lifecycle_phase = calculate_lifecycle_phase (cat_status api) (cat_portal_published api) ds ps,
        ls_portal_published = cat_portal_published api, ls_tags = cat_tags api,
        ls_spec = spec_state_of api, ls_deployments = ds, ls_promotions = ps,
        ls_last_error = last_error_of (cat_status api) ds ps, ls_portal = portal_state_of api\<rparr>))"

definition get_lifecycle_state :: "string \<Rightarrow> string \<Rightarrow> lifecycle_state action" where
  "get_lifecycle_state tenant_id api_id =
     bindA (get_api_by_id tenant_id api_id) (\<lambda>r. case r of
         None \<Rightarrow> raiseA (ApiLifecycleNotFoundError (''API '' @ sq api_id @ '' was not found''))
       | Some api \<Rightarrow> state_from_catalog api)"

section \<open>Facts\<close>

subsection \<open>Slugs\<close>

definition slug_char :: "char \<Rightarrow> bool" where
  "slug_char c \<longleftrightarrow> (let n = code_point c in (97 \<le> n \<and> n \<le> 122) \<or> (48 \<le> n \<and> n \<le> 57))"

fun no_double_hyphen :: "string \<Rightarrow> bool" where
  "no_double_hyphen (a # b # cs) = (\<not> (a = CHR ''-'' \<and> b = CHR ''-'') \<and> no_double_hyphen (b # cs))"
| "no_double_hyphen _ = True"

definition is_slug :: "string \<Rightarrow> bool" where
  "is_slug s \<longleftrightarrow> s \<noteq> [] \<and> (\<forall>c \<in> set s. slug_char c \<or> c = CHR ''-'') \<and> hd s \<noteq> CHR ''-'' \<and> last s \<noteq> CHR ''-'' \<and>
     no_double_hyphen s"

lemma slug_char_not_sep: "slug_char c \<Longrightarrow> \<not> slug_sep c"
  by (auto simp: slug_char_def slug_sep_def py_isspace_def code_point_def Let_def)

lemma hyphen_is_sep [simp]: "slug_sep (CHR ''-'')"
  by (simp add: slug_sep_def)

lemma slug_keep_cases: "slug_keep c \<longleftrightarrow> slug_char c \<or> slug_sep c"
  by (auto simp: slug_keep_def slug_char_def slug_sep_def Let_def)

lemma collapse_chars:
  "\<forall>c \<in> set s. slug_keep c \<Longrightarrow> \<forall>c \<in> set (collapse_seps r s). slug_char c \<or> c = CHR ''-''"
  by (induction r s rule: collapse_seps.induct) (auto simp: slug_keep_cases)

lemma collapse_run_hd: "collapse_seps True s \<noteq> [] \<Longrightarrow> hd (collapse_seps True s) \<noteq> CHR ''-''"
  by (induction s) auto

lemma no_double_Cons:
  "no_double_hyphen s \<Longrightarrow> (c = CHR ''-'' \<Longrightarrow> s \<noteq> [] \<Longrightarrow> hd s \<noteq> CHR ''-'') \<Longrightarrow> no_double_hyphen (c # s)"
  by (cases s) auto

lemma collapse_no_double: "no_double_hyphen (collapse_seps r s)"
proof (induction r s rule: collapse_seps.induct)
  case (2 r c cs)
  show ?case
  proof (cases "slug_sep c")
    case True
    with 2 have nd: "no_double_hyphen (collapse_seps True cs)" by (cases r) simp_all
    then have "no_double_hyphen (CHR ''-'' # collapse_seps True cs)"
      by (rule no_double_Cons) (rule collapse_run_hd)
    with True nd show ?thesis by simp
  next
    case False
    then have "c \<noteq> CHR ''-''" by auto
    with False 2 show ?thesis by (simp add: no_double_Cons)
  qed
qed simp

lemma no_double_append1: "no_double_hyphen (xs @ ys) \<Longrightarrow> no_double_hyphen xs"
  by (induction xs rule: no_double_hyphen.induct) auto

lemma no_double_append2: "no_double_hyphen (xs @ ys) \<Longrightarrow> no_double_hyphen ys"
proof (induction xs)
  case (Cons a xs)
  then have "no_double_hyphen (xs @ ys)" by (cases "xs @ ys") auto
  then show ?case by (rule Cons.IH)
qed simp

lemma no_double_strip: "no_double_hyphen s \<Longrightarrow> no_double_hyphen (strip_by p s)"
proof -
  assume s: "no_double_hyphen s"
  let ?d = "dropWhile p s"
  have "s = takeWhile p s @ ?d" by simp
  with s have d: "no_double_hyphen ?d" by (metis no_double_append2)
  have "rev ?d = takeWhile p (rev ?d) @ dropWhile p (rev ?d)" by simp
  then have "?d = rev (dropWhile p (rev ?d)) @ rev (takeWhile p (rev ?d))"
    by (metis rev_append rev_rev_ident)
  with d have "no_double_hyphen (rev (dropWhile p (rev ?d)))" by (metis no_double_append1)
  then show ?thesis by (simp add: strip_by_def)
qed

lemma slugify_is_slug: "is_slug (slugify value)"
proof -
  let ?v2 = "filter slug_keep (py_strip (py_lower value))"
  let ?c = "collapse_seps False ?v2"
  let ?v3 = "strip_by (\<lambda>c. c = CHR ''-'') ?c"
  show ?thesis
  proof (cases "?v3 = []")
    case True
    then show ?thesis by (simp add: slugify_def is_slug_def slug_char_def code_point_def)
  next
    case False
    have "\<forall>c \<in> set ?c. slug_char c \<or> c = CHR ''-''" by (rule collapse_chars) simp
    then have "\<forall>c \<in> set ?v3. slug_char c \<or> c = CHR ''-''" using set_strip_by by fast
    moreover have "no_double_hyphen ?v3" by (rule no_double_strip, rule collapse_no_double)
    moreover have "hd ?v3 \<noteq> CHR ''-''" "last ?v3 \<noteq> CHR ''-''" using strip_by_ends [OF False] by auto
    ultimately have "is_slug ?v3" using False by (simp add: is_slug_def)
    with False show ?thesis by (simp add: slugify_def)
  qed
qed

lemma collapse_fixed:
  "\<forall>c \<in> set s. slug_char c \<or> c = CHR ''-'' \<Longrightarrow> no_double_hyphen s \<Longrightarrow>
     (r \<Longrightarrow> s \<noteq> [] \<Longrightarrow> hd s \<noteq> CHR ''-'') \<Longrightarrow> collapse_seps r s = s"
proof (induction r s rule: collapse_seps.induct)
  case (2 r c cs)
  have nd: "no_double_hyphen cs" using 2(5) by (cases cs) auto
  show ?case
  proof (cases "slug_sep c")
    case True
    with 2(4) slug_char_not_sep have c: "c = CHR ''-''" by auto
    with 2(6) have r: "\<not> r" by auto
    have "cs \<noteq> [] \<Longrightarrow> hd cs \<noteq> CHR ''-''" using 2(5) c by (cases cs) auto
    with 2 True r nd c show ?thesis by simp
  next
    case False
    with 2 nd show ?thesis by simp
  qed
qed simp

lemma slug_char_plain: "slug_char c \<Longrightarrow> py_lower_char c = c \<and> \<not> py_isspace c \<and> slug_keep c"
  by (auto simp: slug_char_def py_lower_char_def py_isspace_def slug_keep_def Let_def code_point_def)

lemma hyphen_plain: "py_lower_char (CHR ''-'') = CHR ''-''" "\<not> py_isspace (CHR ''-'')" "slug_keep (CHR ''-'')"
  by (simp_all add: py_lower_char_def py_isspace_def slug_keep_def code_point_def)

lemma slugify_of_slug: "is_slug s \<Longrightarrow> slugify s = s"
proof -
  assume s: "is_slug s"
  then have chars: "\<forall>c \<in> set s. slug_char c \<or> c = CHR ''-''" and ne: "s \<noteq> []" by (simp_all add: is_slug_def)
  then have plain: "\<forall>c \<in> set s. py_lower_char c = c \<and> \<not> py_isspace c \<and> slug_keep c"
    using slug_char_plain hyphen_plain by metis
  have "py_lower s = s" using plain by (simp add: py_lower_def map_idI)
  moreover have "py_strip s = s"
    unfolding py_strip_def by (rule strip_by_fixed) (use plain ne in auto)
  moreover have "filter slug_keep s = s" using plain by simp
  moreover have "collapse_seps False s = s"
    using s chars by (intro collapse_fixed) (auto simp: is_slug_def)
  moreover have "strip_by (\<lambda>c. c = CHR ''-'') s = s"
    using s by (intro strip_by_fixed) (auto simp: is_slug_def)
  ultimately show ?thesis using ne by (simp add: slugify_def)
qed

subsection \<open>Labels, guard, phase\<close>

lemma lifecycle_environment_ok:
  "lifecycle_environment v = Inr env \<longleftrightarrow>
     normalize_environment (JStr v) = Some env \<and> env \<in> {''dev'', ''staging'', ''production''}"
  by (auto simp: lifecycle_environment_def split: option.splits if_splits)

lemma lifecycle_environment_err: "lifecycle_environment v = Inl e \<Longrightarrow> is_validation_error e"
  by (auto simp: lifecycle_environment_def split: option.splits if_splits)

lemma guard_None:
  "production_git_guard_violation api g = None \<longleftrightarrow>
     (normalize_environment (JStr (gt_environment g)) = Some ''production'' \<longrightarrow> opt_truthy (cat_git_commit_sha api))"
  unfolding production_git_guard_violation_def
  using require_git_ok [of api "gt_name g" "gt_environment g"]
  by (auto split: sum.splits)

lemma state_from_catalog_total: "\<exists>s. state_from_catalog api w = (Inr s, w)"
  by (simp add: state_from_catalog_def list_gateway_deployments_def list_promotions_def bindA_def getA_def)

lemma phase_unpublished_draft:
  assumes "calculate_lifecycle_phase st pub ds ps = ''published''" and "st \<noteq> ''published''"
  shows "pub \<and> (\<forall>d \<in> set ds. ds_sync_status d \<noteq> ''error'') \<and>
     (\<forall>p \<in> set ps. ps_status p \<notin> {''failed'', ''pending'', ''promoting'', ''promoted''})"
  using assms by (auto simp: calculate_lifecycle_phase_def list_ex_iff split: if_splits)

end
