(* ===== verification/LifecycleDraft.thy ===== *)
theory LifecycleDraft
  imports LifecycleState
begin

text \<open>
  The first two operations of \<open>ApiLifecycleService\<close>: \<open>create_draft\<close>, which registers a
  catalog row that is neither deployed nor published, and \<open>validate_draft\<close>, which moves it
  to \<open>ready\<close> and fixes the fingerprint of the validated contract. Both audit what they do;
  a refused validation is audited and changes no row.
\<close>

section \<open>create\_draft\<close>

definition normalize_create_command :: "create_command \<Rightarrow> error + create_command" where
  "normalize_create_command command =
     (let name = py_strip (cc_name command);
          display_name = py_strip (cc_display_name command);
          version = (let v = py_strip (cc_version command) in if v = [] then ''1.0.0'' else v);
          backend_url = py_strip (cc_backend_url command)
      in if name = [] then Inl (ApiLifecycleValidationError ''API name is required'')
         else if display_name = [] then Inl (ApiLifecycleValidationError ''API display_name is required'')
         else if backend_url = [] then Inl (ApiLifecycleValidationError ''API backend_url is required'')
         else Inr \<lparr>cc_tenant_id = cc_tenant_id command, cc_name = name, cc_display_name = display_name,
                   cc_version = version, cc_description = py_strip (cc_description command),
                   cc_backend_url = backend_url, cc_openapi_spec = cc_openapi_spec command,
                   cc_spec_reference = (if opt_truthy (cc_spec_reference command)
                      then map_option py_strip (cc_spec_reference command) else None),
                   cc_tags = map py_strip (filter (\<lambda>tag. tag \<noteq> [] \<and> py_strip tag \<noteq> []) (cc_tags command)),
                   cc_owner_team = (if opt_truthy (cc_owner_team command)
                      then map_option py_strip (cc_owner_team command) else None)\<rparr>)"

definition spec_json :: "jdict option \<Rightarrow> json" where
  "spec_json parsed = (case parsed of None \<Rightarrow> JNull | Some d \<Rightarrow> JObj d)"

definition draft_spec_source :: "jdict option \<Rightarrow> create_command \<Rightarrow> string" where
  "draft_spec_source parsed_spec c =
     (if truthy (spec_json parsed_spec) then ''inline''
      else if opt_truthy (cc_spec_reference c) then ''reference'' else ''missing'')"

definition draft_metadata :: "jdict option \<Rightarrow> create_command \<Rightarrow> jdict" where
  "draft_metadata parsed_spec c =
     [(''name'', JStr (cc_name c)), (''display_name'', JStr (cc_display_name c)), (''version'', JStr (cc_version c)),
      (''description'', JStr (cc_description c)), (''backend_url'', JStr (cc_backend_url c)),
      (''tags'', JArr (map JStr (cc_tags c))), (''owner_team'', opt_str (cc_owner_team c)),
      (''status'', JStr ''draft''),
      (''lifecycle'', JObj [(''catalog_status'', JStr ''draft''),
         (''spec_source'', JStr (draft_spec_source parsed_spec c)),
         (''spec_reference'', opt_str (cc_spec_reference c))])]"

definition create_draft :: "host \<Rightarrow> create_command \<Rightarrow> lifecycle_actor \<Rightarrow> lifecycle_state action" where
  "create_draft hst command actor =
     bindA (liftA (normalize_create_command command)) (\<lambda>normalized.
     let forbidden_tags = find_legacy_portal_publication_tags (map JStr (cc_tags normalized)) in
     if forbidden_tags \<noteq> [] then raiseA (ApiLifecycleValidationError
         (''Portal publication must use the lifecycle publish action, not catalog tags: '' @ py_join '', '' forbidden_tags))
     else
     bindA (get_api_by_name_version (cc_tenant_id normalized) (cc_name normalized) (cc_version normalized)) (\<lambda>existing.
     if existing \<noteq> None then raiseA (ApiLifecycleConflictError
         (''API '' @ sq (cc_name normalized) @ '' version '' @ sq (cc_version normalized) @ '' already exists in this tenant''))
     else
     let api_id = slugify (cc_name normalized) in
     bindA (get_api_by_id (cc_tenant_id normalized) api_id) (\<lambda>existing_api_id.
     if existing_api_id \<noteq> None then raiseA (ApiLifecycleConflictError
         (''API id '' @ sq api_id @ '' already exists in this tenant''))
     else
     bindA (liftA (parse_openapi_contract hst (cc_openapi_spec normalized))) (\<lambda>parsed_spec.
     if \<not> truthy (spec_json parsed_spec) \<and> \<not> opt_truthy (cc_spec_reference normalized)
     then raiseA (ApiLifecycleValidationError ''API OpenAPI spec or spec_reference is required'')
     else
     bindA uuid4A (\<lambda>fresh.
     bindA nowA (\<lambda>now.
     bindA (create_api_catalog
        \<lparr>cat_id = fresh, cat_tenant_id = cc_tenant_id normalized, cat_api_id = api_id,
         cat_api_name = cc_name normalized, cat_version = cc_version normalized, cat_status = ''draft'',
         cat_category = None, cat_tags = cc_tags normalized, cat_portal_published = False, cat_audience = ''public'',
         cat_api_metadata = JObj (draft_metadata parsed_spec normalized), cat_openapi_spec = spec_json parsed_spec,
         cat_git_path = None, cat_git_commit_sha = None,
      cat_catalog_content_hash = None, cat_catalog_release_id = None, cat_catalog_release_tag = None,
      cat_catalog_pr_url = None, cat_catalog_pr_number = None, cat_catalog_source_branch = None,
      cat_catalog_merge_commit_sha = None, cat_target_gateways = [], cat_synced_at = now,
         cat_deleted_at = None\<rparr>) (\<lambda>created.
     bindA (record_transition (cat_tenant_id created) actor ''api_lifecycle.create_draft'' (cat_api_id created)
        (cat_api_name created)
        (JObj [(''api_id'', JStr (cat_api_id created)), (''api_name'', JStr (cat_api_name created)),
           (''version'', JStr (cat_version created)), (''catalog_status'', JStr (cat_status created)),
           (''spec_source'', JStr (draft_spec_source parsed_spec normalized)),
           (''portal_published'', JBool (cat_portal_published created))])
        ''success'' 201 (Some (''/v1/tenants/'' @ cat_tenant_id created @ ''/apis/lifecycle/drafts''))) (\<lambda>_.
     state_from_catalog created))))))))"

section \<open>validate\_draft\<close>

definition audit_validation_failure ::
    "api_catalog \<Rightarrow> lifecycle_actor \<Rightarrow> string \<Rightarrow> string \<Rightarrow> int \<Rightarrow> unit action" where
  "audit_validation_failure api actor code message status_code =
     record_transition (cat_tenant_id api) actor ''api_lifecycle.validate_draft_failed'' (cat_api_id api) (cat_api_name api)
       (JObj [(''api_id'', JStr (cat_api_id api)), (''api_name'', JStr (cat_api_name api)),
          (''version'', JStr (cat_version api)), (''catalog_status'', JStr (cat_status api)),
          (''validation'', JObj [(''valid'', JBool False), (''code'', JStr code), (''message'', JStr message)])])
       ''failure'' status_code
       (Some (''/v1/tenants/'' @ cat_tenant_id api @ ''/apis/'' @ cat_api_id api @ ''/lifecycle/validate''))"

text \<open>\<open>dict(metadata.get("lifecycle") or {})\<close> on the metadata of a row.\<close>

definition lifecycle_dict :: "api_catalog \<Rightarrow> error + jdict" where
  "lifecycle_dict api = dict_or_empty (dget (metadata_of api) ''lifecycle'')"

definition validated_lifecycle :: "jdict \<Rightarrow> datetime \<Rightarrow> string \<Rightarrow> openapi_result \<Rightarrow> json \<Rightarrow> jdict" where
  "validated_lifecycle lifecycle validated_at validation_hash result spec_source =
     dmerge lifecycle
       [(''catalog_status'', JStr ''ready''), (''validated_at'', JStr (isoformat validated_at)),
        (''validation_spec_hash'', JStr validation_hash),
        (''validation_result'', JObj
          [(''valid'', JBool True), (''code'', JStr (oa_code result)), (''message'', JStr (oa_message result)),
           (''spec_source'', spec_source), (''spec_format'', JStr (oa_spec_format result)),
           (''spec_version'', JStr (oa_spec_version result)), (''title'', JStr (oa_title result)),
           (''version'', JStr (oa_version result)), (''path_count'', JInt (int (oa_path_count result))),
           (''operation_count'', JInt (int (oa_operation_count result)))])]"

definition validated_row :: "api_catalog \<Rightarrow> jdict \<Rightarrow> api_catalog" where
  "validated_row api lifecycle =
     api\<lparr>cat_status := ''ready'',
         cat_api_metadata := JObj (dset ''lifecycle'' (JObj lifecycle) (dset ''status'' (JStr ''ready'') (metadata_of api)))\<rparr>"

definition mk_validation_result :: "openapi_result \<Rightarrow> json \<Rightarrow> datetime \<Rightarrow> validation_result" where
  "mk_validation_result r spec_source validated_at =
     \<lparr>vr_valid = True, vr_code = oa_code r, vr_message = oa_message r, vr_spec_source = spec_source,
      vr_spec_format = oa_spec_format r, vr_spec_version = oa_spec_version r, vr_title = oa_title r,
      vr_version = oa_version r, vr_path_count = oa_path_count r, vr_operation_count = oa_operation_count r,
      vr_validated_at = validated_at\<rparr>"

definition refuse_validation :: "api_catalog \<Rightarrow> lifecycle_actor \<Rightarrow> string \<Rightarrow> string \<Rightarrow> int \<Rightarrow> error \<Rightarrow> 'a action" where
  "refuse_validation api actor code message status_code exc =
     bindA (audit_validation_failure api actor code message status_code) (\<lambda>_. raiseA exc)"

definition validate_draft :: "host \<Rightarrow> validate_command \<Rightarrow> lifecycle_actor \<Rightarrow> validation_outcome action" where
  "validate_draft hst command actor =
     bindA (get_api_by_id (vc_tenant_id command) (vc_api_id command)) (\<lambda>found.
     case found of None \<Rightarrow> raiseA (ApiLifecycleNotFoundError (''API '' @ sq (vc_api_id command) @ '' was not found''))
     | Some api \<Rightarrow>
     if cat_status api = ''archived'' then
       refuse_validation api actor ''transition_archived'' ''Archived APIs cannot be validated'' 409
         (ApiLifecycleTransitionError ''Archived APIs cannot be validated'')
     else if cat_status api \<notin> {''draft'', ''ready''} then
       (let message = ''API status '' @ sq (cat_status api) @ '' cannot be validated''
        in refuse_validation api actor ''transition_invalid'' message 409 (ApiLifecycleTransitionError message))
     else
     let spec_source = ss_source (spec_state_of api); reference = ss_reference (spec_state_of api) in
     if \<not> truthy (cat_openapi_spec api) \<and> truthy reference then
       (let message = ''Spec reference cannot be resolved yet: '' @ py_str reference
        in refuse_validation api actor ''spec_reference_unresolved'' message 422
             (ApiLifecycleSpecValidationError ''spec_reference_unresolved'' message))
     else
     case validate_openapi_contract hst (cat_openapi_spec api) of
       Inl exc \<Rightarrow> refuse_validation api actor (spec_error_code exc) (err_text exc) 422 exc
     | Inr openapi_result \<Rightarrow>
     bindA nowA (\<lambda>validated_at.
     let validation_hash = spec_fingerprint hst (cat_openapi_spec api) in
     bindA (liftA (lifecycle_dict api)) (\<lambda>lifecycle.
     let previous_hash = dget lifecycle ''validation_spec_hash'' in
     if cat_status api = ''ready'' \<and> truthy previous_hash \<and> previous_hash \<noteq> JStr validation_hash then
       (let message = ''Ready API spec changed; return the API to draft before validating again''
        in refuse_validation api actor ''ready_spec_changed'' message 409 (ApiLifecycleTransitionError message))
     else
     bindA (save_api_catalog (validated_row api
         (validated_lifecycle lifecycle validated_at validation_hash openapi_result spec_source))) (\<lambda>saved.
     let validation = mk_validation_result openapi_result spec_source validated_at in
     bindA (record_transition (cat_tenant_id saved) actor ''api_lifecycle.validate_draft'' (cat_api_id saved)
        (cat_api_name saved)
        (JObj [(''api_id'', JStr (cat_api_id saved)), (''api_name'', JStr (cat_api_name saved)),
           (''version'', JStr (cat_version saved)), (''catalog_status'', JStr (cat_status saved)),
           (''validation'', JObj [(''code'', JStr (vr_code validation)), (''spec_source'', vr_spec_source validation),
              (''spec_format'', JStr (vr_spec_format validation)), (''spec_version'', JStr (vr_spec_version validation)),
              (''path_count'', JInt (int (vr_path_count validation))),
              (''operation_count'', JInt (int (vr_operation_count validation)))]),
           (''reason'', opt_str (vc_reason command))])
        ''success'' 200
        (Some (''/v1/tenants/'' @ cat_tenant_id saved @ ''/apis/'' @ cat_api_id saved @ ''/lifecycle/validate''))) (\<lambda>_.
     bindA (state_from_catalog saved) (\<lambda>state.
     retA \<lparr>vo_tenant_id = cat_tenant_id saved, vo_api_id = cat_api_id saved, vo_status = cat_status saved,
           vo_validation = validation, vo_lifecycle_state = state\<rparr>))))))"

section \<open>Frames\<close>

lemma log_grows_basic [simp]:
  "acts_within log_grows nowA" "acts_within log_grows uuid4A"
  "acts_within log_grows (record_transition t a ac i n d out s p)" "acts_within log_grows (queryA f)"
  "acts_within log_grows (state_from_catalog api)" "acts_within log_grows (queue_gateway_deployment hst dep tn)"
  by (auto simp: acts_within_def log_grows_def record_transition_def state_from_catalog_def bindA_def getA_def retA_def
      list_gateway_deployments_def list_promotions_def queue_gateway_deployment_def queue_sse_event_def whenA_def)

lemma same_tables_basic [simp]:
  "acts_within same_tables nowA" "acts_within same_tables uuid4A"
  "acts_within same_tables (record_transition t a ac i n d out s p)" "acts_within same_tables (queryA f)"
  "acts_within same_tables (state_from_catalog api)" "acts_within same_tables (queue_gateway_deployment hst dep tn)"
  by (auto simp: acts_within_def same_tables_def record_transition_def state_from_catalog_def bindA_def getA_def retA_def
      list_gateway_deployments_def list_promotions_def queue_gateway_deployment_def queue_sse_event_def whenA_def)

lemma keeps_db_ok_same: "acts_within same_tables m \<Longrightarrow> acts_within keeps_db_ok m"
  by (erule steps_mono) (auto simp: same_tables_def keeps_db_ok_def db_ok_def)

lemma queries_act [simp]:
  assumes "state_relation R"
  shows "acts_within R (get_api_by_id t a)" "acts_within R (get_api_by_name_version t n v)"
    "acts_within R (get_gateway_target t g)" "acts_within R (list_gateway_targets t e)"
    "acts_within R (get_gateway_deployment c g)" "acts_within R (get_active_promotion t a s e)"
    "acts_within R (get_latest_promoted_promotion t a s e)"
    "acts_within R (get_active_promotion_for_target_deployment t a e dp)"
  using assms by (auto simp: acts_within_def queries_same state_relation.rel_refl)

lemmas lifecycle_relations [simp] =
  same_tables.state_relation_axioms log_grows.state_relation_axioms keeps_db_ok.state_relation_axioms

lemma refuse_validation_same [simp]: "acts_within same_tables (refuse_validation api actor c m s e)"
  unfolding refuse_validation_def audit_validation_failure_def
  by (intro same_tables.steps_rules) simp

lemma refuse_validation_run:
  "refuse_validation api actor c m s e w = (Inl e, snd (audit_validation_failure api actor c m s w))"
  by (simp add: refuse_validation_def audit_validation_failure_def record_transition_def bindA_def)

end
