(* ===== verification/LifecycleDeploy.thy ===== *)
theory LifecycleDeploy
  imports LifecycleDraft
begin

text \<open>
  \<open>deploy_to_environment\<close>: resolving the gateway target, the production guard, and the
  upsert of the \<open>GatewayDeployment\<close> row that asks the runtime for the new desired state.
  The upsert is shared with promotion.
\<close>

section \<open>Resolving a gateway\<close>

definition resolve_gateway_target :: "string \<Rightarrow> string \<Rightarrow> uuid option \<Rightarrow> gateway_target action" where
  "resolve_gateway_target tenant_id environment gateway_instance_id =
     (case gateway_instance_id of
        Some gid \<Rightarrow>
          bindA (get_gateway_target tenant_id gid) (\<lambda>found. case found of
            None \<Rightarrow> raiseA (ApiLifecycleGatewayNotFoundError (''Gateway '' @ sq (uuid_str gid) @ '' was not found''))
          | Some gateway \<Rightarrow>
              if \<not> gt_enabled gateway
              then raiseA (ApiLifecycleGatewayNotFoundError (''Gateway '' @ sq (gt_name gateway) @ '' is disabled''))
              else if \<not> environment_matches (JStr (gt_environment gateway)) (JStr environment)
              then raiseA (ApiLifecycleValidationError (''Gateway '' @ sq (gt_name gateway) @ '' is in environment '' @
                     sq (gt_environment gateway) @ '', not '' @ sq environment))
              else retA gateway)
      | None \<Rightarrow>
          bindA (list_gateway_targets tenant_id environment) (\<lambda>gws. case gws of
            [] \<Rightarrow> raiseA (ApiLifecycleGatewayNotFoundError
                    (''No gateway target found for environment '' @ sq environment))
          | [gateway] \<Rightarrow> retA gateway
          | _ \<Rightarrow> raiseA (ApiLifecycleGatewayAmbiguousError
                   (''Multiple gateway targets found for environment '' @ sq environment @ '': '' @
                    py_join '', '' (map gt_name gws) @ ''. Provide gateway_instance_id explicitly.''))))"

text \<open>The three classes of the \<open>except\<close> clauses, and the status each is audited with.\<close>

definition resolution_error :: "error \<Rightarrow> bool" where
  "resolution_error e = (is_gateway_not_found e \<or> is_gateway_ambiguous e \<or> is_validation_error e)"

definition failure_status :: "error \<Rightarrow> int" where
  "failure_status e = (if is_validation_error e then 422 else if is_gateway_not_found e then 404 else 409)"

section \<open>The upsert\<close>

definition is_some_other :: "uuid option \<Rightarrow> uuid option \<Rightarrow> bool" where
  "is_some_other new old = (new \<noteq> None \<and> old \<noteq> new)"

definition or_uuid :: "uuid option \<Rightarrow> uuid option \<Rightarrow> uuid option" where
  "or_uuid a b = (case a of Some x \<Rightarrow> Some x | None \<Rightarrow> b)"

definition redeploy_row :: "gateway_deployment \<Rightarrow> jdict \<Rightarrow> uuid option \<Rightarrow> datetime \<Rightarrow> gateway_deployment" where
  "redeploy_row existing desired_state promotion_id now =
     existing\<lparr>dep_desired_state := JObj desired_state,
              dep_promotion_id := or_uuid promotion_id (dep_promotion_id existing),
              dep_desired_at := now, dep_sync_status := PENDING, dep_sync_error := None, dep_sync_attempts := 0,
              dep_desired_generation := dep_desired_generation existing + 1\<rparr>"

definition new_deployment_row ::
    "uuid \<Rightarrow> uuid \<Rightarrow> uuid \<Rightarrow> jdict \<Rightarrow> uuid option \<Rightarrow> datetime \<Rightarrow> gateway_deployment" where
  "new_deployment_row fresh api_catalog_id gateway_instance_id desired_state promotion_id now =
     \<lparr>dep_id = fresh, dep_api_catalog_id = api_catalog_id, dep_gateway_instance_id = gateway_instance_id,
      dep_desired_state = JObj desired_state, dep_desired_at = now, dep_actual_state = JNull, dep_actual_at = None,
      dep_desired_generation = 1, dep_synced_generation = 0, dep_attempted_generation = 0,
      dep_sync_status = PENDING, dep_last_sync_attempt = None, dep_last_sync_success = None,
      dep_sync_error = None, dep_sync_attempts = 0, dep_sync_steps = JNull,
      dep_policy_sync_status = None, dep_policy_sync_error = None, dep_promotion_id = promotion_id,
      dep_gateway_resource_id = None, dep_created_at = now\<rparr>"

definition upsert_gateway_deployment ::
    "host \<Rightarrow> api_catalog \<Rightarrow> gateway_target \<Rightarrow> jdict \<Rightarrow> bool \<Rightarrow> uuid option \<Rightarrow> (gateway_deployment \<times> string) action" where
  "upsert_gateway_deployment hst api gateway desired_state force promotion_id =
     (case production_git_guard_violation api gateway of
        Some guard_message \<Rightarrow> raiseA (ApiLifecycleTransitionError guard_message)
      | None \<Rightarrow>
     bindA nowA (\<lambda>now.
     bindA (get_gateway_deployment (cat_id api) (gt_id gateway)) (\<lambda>found. case found of
       Some existing \<Rightarrow>
         let relinked = is_some_other promotion_id (dep_promotion_id existing);
             existing' = (if relinked then existing\<lparr>dep_promotion_id := promotion_id\<rparr> else existing);
             unchanged = jeq (dep_desired_state existing') (JObj desired_state) \<and> \<not> force
         in if relinked \<and> unchanged
            then bindA (save_gateway_deployment existing') (\<lambda>saved. retA (saved, ''unchanged''))
            else if unchanged then retA (existing', ''unchanged'')
            else bindA (save_gateway_deployment (redeploy_row existing' desired_state promotion_id now)) (\<lambda>saved.
                 bindA (queue_gateway_deployment hst saved (cat_tenant_id api)) (\<lambda>_.
                 retA (saved, ''updated'')))
     | None \<Rightarrow>
         bindA uuid4A (\<lambda>fresh.
         bindA (create_gateway_deployment
            (new_deployment_row fresh (cat_id api) (gt_id gateway) desired_state promotion_id now)) (\<lambda>created.
         bindA (queue_gateway_deployment hst created (cat_tenant_id api)) (\<lambda>_.
         retA (created, ''created'')))))))"

section \<open>deploy\_to\_environment\<close>

definition audit_deploy_failure ::
    "api_catalog \<Rightarrow> lifecycle_actor \<Rightarrow> string \<Rightarrow> string \<Rightarrow> string \<Rightarrow> int \<Rightarrow> unit action" where
  "audit_deploy_failure api actor environment code message status_code =
     record_transition (cat_tenant_id api) actor ''api_lifecycle.deploy_failed'' (cat_api_id api) (cat_api_name api)
       (JObj [(''api_id'', JStr (cat_api_id api)), (''api_name'', JStr (cat_api_name api)),
          (''version'', JStr (cat_version api)), (''catalog_status'', JStr (cat_status api)),
          (''environment'', JStr environment),
          (''deployment'', JObj [(''valid'', JBool False), (''code'', JStr code), (''message'', JStr message)])])
       ''failure'' status_code
       (Some (''/v1/tenants/'' @ cat_tenant_id api @ ''/apis/'' @ cat_api_id api @ ''/lifecycle/deployments''))"

definition PRODUCTION_GIT_GUARD_CODE :: string where
  "PRODUCTION_GIT_GUARD_CODE = ''production_requires_git_backed_desired_state''"

definition refuse_deploy ::
    "api_catalog \<Rightarrow> lifecycle_actor \<Rightarrow> string \<Rightarrow> string \<Rightarrow> string \<Rightarrow> int \<Rightarrow> error \<Rightarrow> 'a action" where
  "refuse_deploy api actor environment code message status_code exc =
     bindA (audit_deploy_failure api actor environment code message status_code) (\<lambda>_. raiseA exc)"

definition deploy_desired_state :: "host \<Rightarrow> api_catalog \<Rightarrow> string \<Rightarrow> gateway_target \<Rightarrow> jdict" where
  "deploy_desired_state hst api environment gateway =
     dmerge (build_desired_state hst api)
       [(''target_environment'', JStr environment), (''target_gateway_name'', JStr (gt_name gateway)),
        (''target_source'', JStr ''api_lifecycle'')]"

definition deploy_to_environment :: "host \<Rightarrow> target_command \<Rightarrow> lifecycle_actor \<Rightarrow> deployment_outcome action" where
  "deploy_to_environment hst command actor =
     bindA (liftA (lifecycle_environment (tc_environment command))) (\<lambda>environment.
     bindA (get_api_by_id (tc_tenant_id command) (tc_api_id command)) (\<lambda>found.
     case found of None \<Rightarrow> raiseA (ApiLifecycleNotFoundError (''API '' @ sq (tc_api_id command) @ '' was not found''))
     | Some api \<Rightarrow>
     if cat_status api \<noteq> ''ready'' then
       (let message = ''API status '' @ sq (cat_status api) @ '' cannot be deployed; validate the draft first''
        in refuse_deploy api actor environment ''transition_invalid'' message 409 (ApiLifecycleTransitionError message))
     else
     bindA (catchA (resolve_gateway_target (tc_tenant_id command) environment (tc_gateway_instance_id command))
              resolution_error
              (\<lambda>exc. refuse_deploy api actor environment (err_class exc) (err_text exc) (failure_status exc) exc)) (\<lambda>gateway.
     case production_git_guard_violation api gateway of
       Some guard_message \<Rightarrow>
         refuse_deploy api actor environment PRODUCTION_GIT_GUARD_CODE guard_message 409
           (ApiLifecycleTransitionError guard_message)
     | None \<Rightarrow>
     bindA (upsert_gateway_deployment hst api gateway (deploy_desired_state hst api environment gateway)
              (tc_force command) None) (\<lambda>(deployment, action).
     bindA (record_transition (cat_tenant_id api) actor
        (if action = ''unchanged'' then ''api_lifecycle.deploy_idempotent'' else ''api_lifecycle.deploy_requested'')
        (cat_api_id api) (cat_api_name api)
        (JObj [(''api_id'', JStr (cat_api_id api)), (''api_name'', JStr (cat_api_name api)),
           (''version'', JStr (cat_version api)), (''catalog_status'', JStr (cat_status api)),
           (''environment'', JStr environment), (''gateway_instance_id'', JStr (uuid_str (gt_id gateway))),
           (''gateway_name'', JStr (gt_name gateway)), (''deployment_id'', JStr (uuid_str (dep_id deployment))),
           (''deployment_status'', JStr (sync_value (dep_sync_status deployment))), (''action'', JStr action)])
        ''success'' 200
        (Some (''/v1/tenants/'' @ cat_tenant_id api @ ''/apis/'' @ cat_api_id api @ ''/lifecycle/deployments''))) (\<lambda>_.
     bindA (state_from_catalog api) (\<lambda>state.
     retA \<lparr>do_tenant_id = cat_tenant_id api, do_api_id = cat_api_id api, do_environment = environment,
           do_gateway_instance_id = gt_id gateway, do_deployment_id = dep_id deployment,
           do_deployment_status = sync_value (dep_sync_status deployment), do_action = action,
           do_lifecycle_state = state\<rparr>))))))"

end
