(* ===== verification/LifecyclePublish.thy ===== *)
theory LifecyclePublish
  imports LifecycleDeploy
begin

text \<open>
  \<open>publish_to_portal\<close>: an API is published for one gateway only when the gateway has
  acknowledged the desired state the catalog row stands for now; a publication also
  completes the promotion that owns the deployment.
\<close>

definition audit_publish_failure ::
    "api_catalog \<Rightarrow> lifecycle_actor \<Rightarrow> string \<Rightarrow> string \<Rightarrow> string \<Rightarrow> int \<Rightarrow> uuid option \<Rightarrow> uuid option \<Rightarrow> unit action" where
  "audit_publish_failure api actor environment code message status_code gateway_instance_id deployment_id =
     record_transition (cat_tenant_id api) actor ''api_lifecycle.publish_failed'' (cat_api_id api) (cat_api_name api)
       (JObj [(''api_id'', JStr (cat_api_id api)), (''api_name'', JStr (cat_api_name api)),
          (''version'', JStr (cat_version api)), (''catalog_status'', JStr (cat_status api)),
          (''environment'', JStr environment),
          (''gateway_instance_id'', opt_str (map_option uuid_str gateway_instance_id)),
          (''deployment_id'', opt_str (map_option uuid_str deployment_id)),
          (''publication'', JObj [(''valid'', JBool False), (''code'', JStr code), (''message'', JStr message)])])
       ''failure'' status_code
       (Some (''/v1/tenants/'' @ cat_tenant_id api @ ''/apis/'' @ cat_api_id api @ ''/lifecycle/publications''))"

definition refuse_publish ::
    "api_catalog \<Rightarrow> lifecycle_actor \<Rightarrow> string \<Rightarrow> string \<Rightarrow> string \<Rightarrow> int \<Rightarrow> uuid option \<Rightarrow> uuid option \<Rightarrow> error \<Rightarrow> 'a action" where
  "refuse_publish api actor environment code message status_code gid did exc =
     bindA (audit_publish_failure api actor environment code message status_code gid did) (\<lambda>_. raiseA exc)"

definition resolve_publish_gateway ::
    "string \<Rightarrow> string \<Rightarrow> uuid option \<Rightarrow> api_catalog \<Rightarrow> lifecycle_actor \<Rightarrow> gateway_target action" where
  "resolve_publish_gateway tenant_id environment gateway_instance_id api actor =
     catchA (resolve_gateway_target tenant_id environment gateway_instance_id) resolution_error
       (\<lambda>exc. refuse_publish api actor environment (err_class exc) (err_text exc) (failure_status exc) None None exc)"

definition validate_publishable_spec ::
    "host \<Rightarrow> api_catalog \<Rightarrow> lifecycle_actor \<Rightarrow> string \<Rightarrow> uuid \<Rightarrow> uuid \<Rightarrow> openapi_result action" where
  "validate_publishable_spec hst api actor environment gateway_instance_id deployment_id =
     (if \<not> truthy (cat_openapi_spec api) then
        (let reference = ss_reference (spec_state_of api);
             code = (if truthy reference then ''spec_reference_unresolved'' else ''openapi_spec_missing'');
             message = (if truthy reference
               then ''Spec reference cannot be resolved for publication: '' @ py_str reference
               else ''OpenAPI spec is required for portal publication'')
         in refuse_publish api actor environment code message 422 (Some gateway_instance_id) (Some deployment_id)
              (ApiLifecycleSpecValidationError code message))
      else case validate_openapi_contract hst (cat_openapi_spec api) of
        Inl exc \<Rightarrow> refuse_publish api actor environment (spec_error_code exc) (err_text exc) 422
          (Some gateway_instance_id) (Some deployment_id) exc
      | Inr r \<Rightarrow> retA r)"

definition complete_promotion_for_publication ::
    "api_catalog \<Rightarrow> lifecycle_actor \<Rightarrow> string \<Rightarrow> uuid \<Rightarrow> uuid \<Rightarrow> unit action" where
  "complete_promotion_for_publication api actor environment gateway_instance_id deployment_id =
     bindA (get_active_promotion_for_target_deployment (cat_tenant_id api) (cat_api_id api) environment deployment_id)
       (\<lambda>found. case found of None \<Rightarrow> retA ()
     | Some p \<Rightarrow>
     bindA nowA (\<lambda>now.
     bindA (save_promotion (p\<lparr>pr_status := promotion_value PR_PROMOTED, pr_target_deployment_id := Some deployment_id,
                              pr_completed_at := Some now\<rparr>)) (\<lambda>saved.
     record_transition (cat_tenant_id api) actor ''api_lifecycle.promotion_completed'' (cat_api_id api) (cat_api_name api)
       (JObj [(''api_id'', JStr (cat_api_id api)), (''api_name'', JStr (cat_api_name api)),
          (''promotion_id'', JStr (uuid_str (pr_id saved))),
          (''source_environment'', JStr (pr_source_environment saved)),
          (''target_environment'', JStr (pr_target_environment saved)),
          (''target_gateway_instance_id'', JStr (uuid_str gateway_instance_id)),
          (''target_deployment_id'', JStr (uuid_str deployment_id)),
          (''promotion_status'', JStr (pr_status saved)), (''result'', JStr ''promoted'')])
       ''success'' 200
       (Some (''/v1/tenants/'' @ cat_tenant_id api @ ''/apis/'' @ cat_api_id api @ ''/lifecycle/promotions'')))))"

definition identity_keys :: "string list" where
  "identity_keys = [''api_catalog_id'', ''api_id'', ''tenant_id'', ''version'', ''backend_url'', ''spec_hash'']"

text \<open>\<open>(deployment.desired_state or {}).get(key) != current[key]\<close> for one of the identity keys,
  or a generation that is not acknowledged exactly.\<close>

definition deployment_stale :: "host \<Rightarrow> api_catalog \<Rightarrow> gateway_deployment \<Rightarrow> bool" where
  "deployment_stale hst api d =
     (let current = build_desired_state hst api
      in \<not> deployment_synced_to_desired_generation d \<or> dep_synced_generation d \<noteq> dep_desired_generation d \<or>
         list_ex (\<lambda>k. \<not> jeq (dget (obj_of (dep_desired_state d)) k) (dget current k)) identity_keys)"

text \<open>The condition under which a repeated publication is answered without publishing again.\<close>

definition already_published :: "api_catalog \<Rightarrow> jdict option \<Rightarrow> string \<Rightarrow> gateway_deployment \<Rightarrow> bool \<Rightarrow> bool" where
  "already_published api previous spec_hash d force =
     (case previous of None \<Rightarrow> False
      | Some rec \<Rightarrow> rec \<noteq> [] \<and> cat_portal_published api \<and> dget rec ''spec_hash'' = JStr spec_hash \<and>
          dget rec ''deployment_id'' = JStr (uuid_str (dep_id d)) \<and> \<not> force)"

definition publication_path :: "api_catalog \<Rightarrow> string option" where
  "publication_path api = Some (''/v1/tenants/'' @ cat_tenant_id api @ ''/apis/'' @ cat_api_id api @ ''/lifecycle/publications'')"

definition publish_unchanged ::
    "api_catalog \<Rightarrow> lifecycle_actor \<Rightarrow> string \<Rightarrow> gateway_target \<Rightarrow> gateway_deployment \<Rightarrow> publication_outcome action" where
  "publish_unchanged api actor environment gateway deployment =
     bindA (complete_promotion_for_publication api actor environment (gt_id gateway) (dep_id deployment)) (\<lambda>_.
     bindA (record_transition (cat_tenant_id api) actor ''api_lifecycle.publish_idempotent'' (cat_api_id api) (cat_api_name api)
        (JObj [(''api_id'', JStr (cat_api_id api)), (''api_name'', JStr (cat_api_name api)),
           (''environment'', JStr environment), (''gateway_instance_id'', JStr (uuid_str (gt_id gateway))),
           (''deployment_id'', JStr (uuid_str (dep_id deployment))), (''result'', JStr ''unchanged'')])
        ''success'' 200 (publication_path api)) (\<lambda>_.
     bindA (state_from_catalog api) (\<lambda>state.
     retA \<lparr>po_tenant_id = cat_tenant_id api, po_api_id = cat_api_id api, po_environment = environment,
           po_gateway_instance_id = gt_id gateway, po_deployment_id = dep_id deployment,
           po_publication_status = ''published'', po_portal_published = True, po_result = ''unchanged'',
           po_lifecycle_state = state\<rparr>)))"

definition publish_now ::
    "host \<Rightarrow> api_catalog \<Rightarrow> lifecycle_actor \<Rightarrow> string \<Rightarrow> gateway_target \<Rightarrow> gateway_deployment \<Rightarrow> openapi_result \<Rightarrow>
     jdict option \<Rightarrow> publication_outcome action" where
  "publish_now hst api actor environment gateway deployment validation previous =
     (let result = (if previous \<noteq> None \<and> previous \<noteq> Some [] then ''republished'' else ''published'') in
     bindA nowA (\<lambda>published_at.
     bindA (liftA (portal_publish api
        \<lparr>pub_environment = environment, pub_gateway_instance_id = gt_id gateway, pub_deployment_id = dep_id deployment,
         pub_status = ''published'', pub_result = result, pub_spec_hash = spec_fingerprint hst (cat_openapi_spec api),
         pub_published_at = published_at\<rparr>)) (\<lambda>published_api.
     bindA (save_api_catalog published_api) (\<lambda>saved.
     bindA (record_transition (cat_tenant_id saved) actor ''api_lifecycle.publish_requested'' (cat_api_id saved)
        (cat_api_name saved)
        (JObj [(''api_id'', JStr (cat_api_id saved)), (''api_name'', JStr (cat_api_name saved)),
           (''version'', JStr (cat_version saved)), (''catalog_status'', JStr (cat_status saved)),
           (''environment'', JStr environment), (''gateway_instance_id'', JStr (uuid_str (gt_id gateway))),
           (''gateway_name'', JStr (gt_name gateway)), (''deployment_id'', JStr (uuid_str (dep_id deployment))),
           (''deployment_status'', JStr (sync_value (dep_sync_status deployment))),
           (''publication_status'', JStr ''published''), (''result'', JStr result),
           (''spec'', JObj [(''code'', JStr (oa_code validation)), (''spec_format'', JStr (oa_spec_format validation)),
              (''spec_version'', JStr (oa_spec_version validation))])])
        ''success'' 200 (publication_path saved)) (\<lambda>_.
     bindA (complete_promotion_for_publication saved actor environment (gt_id gateway) (dep_id deployment)) (\<lambda>_.
     bindA (state_from_catalog saved) (\<lambda>state.
     retA \<lparr>po_tenant_id = cat_tenant_id saved, po_api_id = cat_api_id saved, po_environment = environment,
           po_gateway_instance_id = gt_id gateway, po_deployment_id = dep_id deployment,
           po_publication_status = ''published'', po_portal_published = cat_portal_published saved,
           po_result = result, po_lifecycle_state = state\<rparr>)))))))"

definition publish_to_portal :: "host \<Rightarrow> target_command \<Rightarrow> lifecycle_actor \<Rightarrow> publication_outcome action" where
  "publish_to_portal hst command actor =
     bindA (liftA (lifecycle_environment (tc_environment command))) (\<lambda>environment.
     bindA (get_api_by_id (tc_tenant_id command) (tc_api_id command)) (\<lambda>found.
     case found of None \<Rightarrow> raiseA (ApiLifecycleNotFoundError (''API '' @ sq (tc_api_id command) @ '' was not found''))
     | Some api \<Rightarrow>
     if cat_status api \<noteq> ''ready'' then
       (let message = ''API status '' @ sq (cat_status api) @ '' cannot be published; validate the draft first''
        in refuse_publish api actor environment ''transition_invalid'' message 409 None None
             (ApiLifecycleTransitionError message))
     else
     bindA (resolve_publish_gateway (tc_tenant_id command) environment (tc_gateway_instance_id command) api actor) (\<lambda>gateway.
     bindA (get_gateway_deployment (cat_id api) (gt_id gateway)) (\<lambda>found_deployment.
     case found_deployment of
       None \<Rightarrow>
         (let message = ''No GatewayDeployment found for gateway '' @ sq (gt_name gateway)
          in refuse_publish api actor environment ''deployment_not_found'' message 404 (Some (gt_id gateway)) None
               (ApiLifecycleNotFoundError message))
     | Some deployment \<Rightarrow>
     if sync_value (dep_sync_status deployment) \<noteq> sync_value SYNCED then
       (let message = ''Deployment '' @ sq (uuid_str (dep_id deployment)) @ '' is '' @
              sq (sync_value (dep_sync_status deployment)) @ '', not '' @ sq ''synced''
        in refuse_publish api actor environment ''deployment_not_synced'' message 409 (Some (gt_id gateway))
             (Some (dep_id deployment)) (ApiLifecycleTransitionError message))
     else if deployment_stale hst api deployment then
       (let message = ''The current catalog desired state has not been acknowledged''
        in refuse_publish api actor environment ''deployment_stale'' message 409 (Some (gt_id gateway))
             (Some (dep_id deployment)) (ApiLifecycleTransitionError message))
     else
     bindA (validate_publishable_spec hst api actor environment (gt_id gateway) (dep_id deployment)) (\<lambda>validation.
     let spec_hash = spec_fingerprint hst (cat_openapi_spec api);
         previous = portal_publication_record api environment (gt_id gateway)
     in if already_published api previous spec_hash deployment (tc_force command)
        then publish_unchanged api actor environment gateway deployment
        else publish_now hst api actor environment gateway deployment validation previous)))))"

end
