(* ===== verification/LifecyclePromote.thy ===== *)
theory LifecyclePromote
  imports LifecyclePublish
begin

text \<open>
  \<open>promote_to_environment\<close>: a published, synced deployment of the source environment is
  promoted along the chain by requesting a deployment on the target gateway and recording
  the promotion.
\<close>

definition audit_promotion_failure ::
    "api_catalog \<Rightarrow> lifecycle_actor \<Rightarrow> string \<Rightarrow> string \<Rightarrow> string \<Rightarrow> string \<Rightarrow> int \<Rightarrow>
     uuid option \<Rightarrow> uuid option \<Rightarrow> uuid option \<Rightarrow> unit action" where
  "audit_promotion_failure api actor source_environment target_environment code message status_code sgid tgid sdid =
     record_transition (cat_tenant_id api) actor ''api_lifecycle.promotion_failed'' (cat_api_id api) (cat_api_name api)
       (JObj [(''api_id'', JStr (cat_api_id api)), (''api_name'', JStr (cat_api_name api)),
          (''version'', JStr (cat_version api)), (''catalog_status'', JStr (cat_status api)),
          (''promotion_id'', JNull),
          (''source_environment'', JStr source_environment), (''target_environment'', JStr target_environment),
          (''source_gateway_instance_id'', opt_str (map_option uuid_str sgid)),
          (''target_gateway_instance_id'', opt_str (map_option uuid_str tgid)),
          (''source_deployment_id'', opt_str (map_option uuid_str sdid)), (''target_deployment_id'', JNull),
          (''promotion'', JObj [(''valid'', JBool False), (''code'', JStr code), (''message'', JStr message)])])
       ''failure'' status_code
       (Some (''/v1/tenants/'' @ cat_tenant_id api @ ''/apis/'' @ cat_api_id api @ ''/lifecycle/promotions''))"

definition refuse_promotion ::
    "api_catalog \<Rightarrow> lifecycle_actor \<Rightarrow> string \<Rightarrow> string \<Rightarrow> string \<Rightarrow> string \<Rightarrow> int \<Rightarrow>
     uuid option \<Rightarrow> uuid option \<Rightarrow> uuid option \<Rightarrow> error \<Rightarrow> 'a action" where
  "refuse_promotion api actor source target code message status_code sgid tgid sdid exc =
     bindA (audit_promotion_failure api actor source target code message status_code sgid tgid sdid) (\<lambda>_. raiseA exc)"

text \<open>
  \<open>source_environment or environment\<close>: the caller gives the environment of the other role,
  and the one of its own role is the environment being resolved.
\<close>

definition resolve_promotion_gateway ::
    "string \<Rightarrow> string \<Rightarrow> uuid option \<Rightarrow> api_catalog \<Rightarrow> lifecycle_actor \<Rightarrow> string \<Rightarrow> string option \<Rightarrow> string option \<Rightarrow>
     gateway_target action" where
  "resolve_promotion_gateway tenant_id environment gateway_instance_id api actor gateway_role source_environment target_environment =
     catchA (resolve_gateway_target tenant_id environment gateway_instance_id) resolution_error
       (\<lambda>exc. refuse_promotion api actor (or_str source_environment environment) (or_str target_environment environment)
          (gateway_role @ ''_gateway_'' @ err_class exc) (err_text exc) (failure_status exc) None None None exc)"

definition requested_by_of :: "lifecycle_actor \<Rightarrow> string" where
  "requested_by_of actor =
     or_str (actor_email actor) (or_str (actor_username actor) (or_str (actor_id actor) ''system''))"

definition new_promotion_row ::
    "uuid \<Rightarrow> api_catalog \<Rightarrow> lifecycle_actor \<Rightarrow> string \<Rightarrow> string \<Rightarrow> gateway_deployment \<Rightarrow> gateway_target \<Rightarrow> datetime \<Rightarrow> promotion" where
  "new_promotion_row fresh api actor source_environment target_environment source_deployment target_gateway now =
     \<lparr>pr_id = fresh, pr_tenant_id = cat_tenant_id api, pr_api_id = cat_api_id api,
      pr_source_environment = source_environment, pr_target_environment = target_environment,
      pr_source_deployment_id = Some (dep_id source_deployment), pr_target_deployment_id = None,
      pr_target_gateway_ids = JArr [JStr (uuid_str (gt_id target_gateway))],
      pr_status = promotion_value PR_PROMOTING, pr_spec_diff = JNull,
      pr_message = ''Lifecycle promotion '' @ source_environment @ ''->'' @ target_environment,
      pr_requested_by = requested_by_of actor, pr_approved_by = Some (requested_by_of actor),
      pr_completed_at = None, pr_created_at = now\<rparr>"

definition start_promotion ::
    "api_catalog \<Rightarrow> lifecycle_actor \<Rightarrow> string \<Rightarrow> string \<Rightarrow> gateway_deployment \<Rightarrow> gateway_target \<Rightarrow> promotion option \<Rightarrow>
     (promotion \<times> string) action" where
  "start_promotion api actor source_environment target_environment source_deployment target_gateway revived =
     (case revived of
        Some p \<Rightarrow>
          bindA (save_promotion (p\<lparr>pr_status := promotion_value PR_PROMOTING,
              pr_source_deployment_id := Some (dep_id source_deployment),
              pr_target_gateway_ids := JArr [JStr (uuid_str (gt_id target_gateway))], pr_completed_at := None\<rparr>)) (\<lambda>saved.
          retA (saved, ''updated''))
      | None \<Rightarrow>
          bindA uuid4A (\<lambda>fresh.
          bindA nowA (\<lambda>now.
          bindA (create_promotion (new_promotion_row fresh api actor source_environment target_environment
              source_deployment target_gateway now)) (\<lambda>created.
          retA (created, ''created'')))))"

definition upsert_promotion ::
    "api_catalog \<Rightarrow> lifecycle_actor \<Rightarrow> string \<Rightarrow> string \<Rightarrow> gateway_deployment \<Rightarrow> gateway_target \<Rightarrow> bool \<Rightarrow>
     (promotion \<times> string) action" where
  "upsert_promotion api actor source_environment target_environment source_deployment target_gateway force =
     bindA (get_active_promotion (cat_tenant_id api) (cat_api_id api) source_environment target_environment) (\<lambda>active.
     if active \<noteq> None \<and> \<not> force then retA (the active, ''unchanged'')
     else if \<not> force then
       bindA (get_latest_promoted_promotion (cat_tenant_id api) (cat_api_id api) source_environment target_environment) (\<lambda>promoted.
       case promoted of
         Some p \<Rightarrow> retA (p, ''unchanged'')
       | None \<Rightarrow> start_promotion api actor source_environment target_environment source_deployment target_gateway None)
     else start_promotion api actor source_environment target_environment source_deployment target_gateway active)"

definition promotion_desired_state ::
    "host \<Rightarrow> api_catalog \<Rightarrow> string \<Rightarrow> string \<Rightarrow> gateway_target \<Rightarrow> gateway_target \<Rightarrow> gateway_deployment \<Rightarrow> promotion \<Rightarrow> jdict" where
  "promotion_desired_state hst api source_environment target_environment source_gateway target_gateway source_deployment p =
     dmerge (build_desired_state hst api)
       [(''target_environment'', JStr target_environment), (''target_gateway_name'', JStr (gt_name target_gateway)),
        (''target_source'', JStr ''api_lifecycle_promotion''), (''promotion_id'', JStr (uuid_str (pr_id p))),
        (''source_environment'', JStr source_environment),
        (''source_gateway_instance_id'', JStr (uuid_str (gt_id source_gateway))),
        (''source_deployment_id'', JStr (uuid_str (dep_id source_deployment)))]"

text \<open>The status and completion time after the target deployment is known; the clock is read
  only when there is no completion time yet.\<close>

definition settle_promotion :: "promotion \<Rightarrow> gateway_deployment \<Rightarrow> gateway_target \<Rightarrow> promotion action" where
  "settle_promotion p target_deployment target_gateway =
     (let p1 = p\<lparr>pr_target_deployment_id := Some (dep_id target_deployment),
                 pr_target_gateway_ids := JArr [JStr (uuid_str (gt_id target_gateway))]\<rparr>
      in if deployment_synced_to_desired_generation target_deployment then
           (case pr_completed_at p1 of
              Some t \<Rightarrow> retA (p1\<lparr>pr_status := promotion_value PR_PROMOTED\<rparr>)
            | None \<Rightarrow> bindA nowA (\<lambda>now. retA (p1\<lparr>pr_status := promotion_value PR_PROMOTED, pr_completed_at := Some now\<rparr>)))
         else if pr_status p1 = promotion_value PR_PENDING then retA (p1\<lparr>pr_status := promotion_value PR_PROMOTING\<rparr>)
         else retA p1)"

definition source_published :: "api_catalog \<Rightarrow> string \<Rightarrow> gateway_target \<Rightarrow> gateway_deployment \<Rightarrow> bool" where
  "source_published api environment gateway d =
     (cat_portal_published api \<and>
      (case portal_publication_record api environment (gt_id gateway) of
         None \<Rightarrow> False
       | Some rec \<Rightarrow> rec \<noteq> [] \<and> dget rec ''deployment_id'' = JStr (uuid_str (dep_id d))))"

text \<open>The part of the operation after every check has passed.\<close>

definition run_promotion ::
    "host \<Rightarrow> promote_command \<Rightarrow> lifecycle_actor \<Rightarrow> api_catalog \<Rightarrow> string \<Rightarrow> string \<Rightarrow> gateway_target \<Rightarrow> gateway_target \<Rightarrow>
     gateway_deployment \<Rightarrow> promotion_outcome action" where
  "run_promotion hst command actor api source_environment target_environment source_gateway target_gateway source_deployment =
     bindA (upsert_promotion api actor source_environment target_environment source_deployment target_gateway
              (mc_force command)) (\<lambda>(promotion, promotion_action).
     bindA (upsert_gateway_deployment hst api target_gateway
              (promotion_desired_state hst api source_environment target_environment source_gateway target_gateway
                 source_deployment promotion)
              (mc_force command) (Some (pr_id promotion))) (\<lambda>(target_deployment, deployment_action).
     bindA (settle_promotion promotion target_deployment target_gateway) (\<lambda>settled.
     bindA (save_promotion settled) (\<lambda>saved_promotion.
     let result = promotion_result promotion_action deployment_action in
     bindA (record_transition (cat_tenant_id api) actor
        (if result = ''unchanged'' then ''api_lifecycle.promotion_idempotent'' else ''api_lifecycle.promotion_requested'')
        (cat_api_id api) (cat_api_name api)
        (JObj [(''api_id'', JStr (cat_api_id api)), (''api_name'', JStr (cat_api_name api)),
           (''promotion_id'', JStr (uuid_str (pr_id saved_promotion))),
           (''source_environment'', JStr source_environment), (''target_environment'', JStr target_environment),
           (''source_gateway_instance_id'', JStr (uuid_str (gt_id source_gateway))),
           (''target_gateway_instance_id'', JStr (uuid_str (gt_id target_gateway))),
           (''source_deployment_id'', JStr (uuid_str (dep_id source_deployment))),
           (''target_deployment_id'', JStr (uuid_str (dep_id target_deployment))),
           (''promotion_status'', JStr (pr_status saved_promotion)),
           (''deployment_status'', JStr (sync_value (dep_sync_status target_deployment))), (''result'', JStr result)])
        ''success'' 200
        (Some (''/v1/tenants/'' @ cat_tenant_id api @ ''/apis/'' @ cat_api_id api @ ''/lifecycle/promotions''))) (\<lambda>_.
     bindA (state_from_catalog api) (\<lambda>state.
     retA \<lparr>mo_tenant_id = cat_tenant_id api, mo_api_id = cat_api_id api, mo_promotion_id = pr_id saved_promotion,
           mo_source_environment = source_environment, mo_target_environment = target_environment,
           mo_source_gateway_instance_id = gt_id source_gateway, mo_target_gateway_instance_id = gt_id target_gateway,
           mo_target_deployment_id = dep_id target_deployment, mo_promotion_status = pr_status saved_promotion,
           mo_deployment_status = sync_value (dep_sync_status target_deployment), mo_result = result,
           mo_lifecycle_state = state\<rparr>))))))"

definition promote_to_environment :: "host \<Rightarrow> promote_command \<Rightarrow> lifecycle_actor \<Rightarrow> promotion_outcome action" where
  "promote_to_environment hst command actor =
     bindA (liftA (lifecycle_environment (mc_source_environment command))) (\<lambda>source_environment.
     bindA (liftA (lifecycle_environment (mc_target_environment command))) (\<lambda>target_environment.
     case validate_promotion_chain source_environment target_environment of
       Inl exc \<Rightarrow> raiseA (ApiLifecycleValidationError exc)
     | Inr _ \<Rightarrow>
     bindA (get_api_by_id (mc_tenant_id command) (mc_api_id command)) (\<lambda>found.
     case found of None \<Rightarrow> raiseA (ApiLifecycleNotFoundError (''API '' @ sq (mc_api_id command) @ '' was not found''))
     | Some api \<Rightarrow>
     if cat_status api \<noteq> ''ready'' then
       (let message = ''API status '' @ sq (cat_status api) @ '' cannot be promoted; validate the draft first''
        in refuse_promotion api actor source_environment target_environment ''transition_invalid'' message 409 None None None
             (ApiLifecycleTransitionError message))
     else
     bindA (resolve_promotion_gateway (mc_tenant_id command) source_environment (mc_source_gateway_instance_id command)
              api actor ''source'' None (Some target_environment)) (\<lambda>source_gateway.
     bindA (resolve_promotion_gateway (mc_tenant_id command) target_environment (mc_target_gateway_instance_id command)
              api actor ''target'' (Some source_environment) None) (\<lambda>target_gateway.
     let sgid = Some (gt_id source_gateway); tgid = Some (gt_id target_gateway) in
     case production_git_guard_violation api target_gateway of
       Some guard_message \<Rightarrow>
         refuse_promotion api actor source_environment target_environment PRODUCTION_GIT_GUARD_CODE guard_message 409
           sgid tgid None (ApiLifecycleTransitionError guard_message)
     | None \<Rightarrow>
     bindA (get_gateway_deployment (cat_id api) (gt_id source_gateway)) (\<lambda>found_deployment.
     case found_deployment of
       None \<Rightarrow>
         (let message = ''No source GatewayDeployment found for gateway '' @ sq (gt_name source_gateway)
          in refuse_promotion api actor source_environment target_environment ''source_deployment_not_found'' message 404
               sgid tgid None (ApiLifecycleNotFoundError message))
     | Some source_deployment \<Rightarrow>
     if sync_value (dep_sync_status source_deployment) \<noteq> sync_value SYNCED then
       (let message = ''Source deployment '' @ sq (uuid_str (dep_id source_deployment)) @ '' is '' @
              sq (sync_value (dep_sync_status source_deployment)) @ '', not '' @ sq ''synced''
        in refuse_promotion api actor source_environment target_environment ''source_deployment_not_synced'' message 409
             sgid tgid (Some (dep_id source_deployment)) (ApiLifecycleTransitionError message))
     else if \<not> source_published api source_environment source_gateway source_deployment then
       (let message = ''Source environment '' @ sq source_environment @ '' is not published through lifecycle''
        in refuse_promotion api actor source_environment target_environment ''source_publication_missing'' message 409
             sgid tgid (Some (dep_id source_deployment)) (ApiLifecycleTransitionError message))
     else run_promotion hst command actor api source_environment target_environment source_gateway target_gateway
            source_deployment))))))"

end
