(* ===== verification/LifecycleRuns.thy ===== *)
theory LifecycleRuns
  imports LifecyclePromote
begin

text \<open>
  How the repository calls run inside a handler: a query returns and leaves the world alone,
  an audit record is appended, a write replaces one table or is refused. The rules are
  collected in \<open>run_simps\<close>; with them a handler's run unfolds step by step.
\<close>

section \<open>Running one step\<close>

text \<open>A step that returns splits into its result and the state it leaves.\<close>

lemma liftA_bind_ok [simp]:
  "bindA (liftA r) k w = (Inr y, w') \<longleftrightarrow> (\<exists>x. r = Inr x \<and> k x w = (Inr y, w'))"
  by (cases r) auto

lemma query_bind:
  assumes "snd (q w) = w"
  shows "bindA q k w = (case fst (q w) of Inl e \<Rightarrow> (Inl e, w) | Inr x \<Rightarrow> k x w)"
  using assms by (cases "q w") (auto simp: bindA_def split: sum.splits)

lemma query_bind_ok:
  assumes "snd (q w) = w"
  shows "bindA q k w = (Inr y, w') \<longleftrightarrow> (\<exists>x. q w = (Inr x, w) \<and> k x w = (Inr y, w'))"
  using assms by (cases "q w") (auto simp: bindA_def split: sum.splits)

lemma query_ok [simp]:
  "bindA (get_api_by_id t a) k0 w = (Inr y, w') \<longleftrightarrow> (\<exists>x. get_api_by_id t a w = (Inr x, w) \<and> k0 x w = (Inr y, w'))"
  "bindA (get_api_by_name_version t n v) k1 w = (Inr y, w') \<longleftrightarrow> (\<exists>x. get_api_by_name_version t n v w = (Inr x, w) \<and> k1 x w = (Inr y, w'))"
  "bindA (list_gateway_deployments i) k2 w = (Inr y, w') \<longleftrightarrow> (\<exists>x. list_gateway_deployments i w = (Inr x, w) \<and> k2 x w = (Inr y, w'))"
  "bindA (get_gateway_target t g) k3 w = (Inr y, w') \<longleftrightarrow> (\<exists>x. get_gateway_target t g w = (Inr x, w) \<and> k3 x w = (Inr y, w'))"
  "bindA (list_gateway_targets t e) k4 w = (Inr y, w') \<longleftrightarrow> (\<exists>x. list_gateway_targets t e w = (Inr x, w) \<and> k4 x w = (Inr y, w'))"
  "bindA (get_gateway_deployment c g) k5 w = (Inr y, w') \<longleftrightarrow> (\<exists>x. get_gateway_deployment c g w = (Inr x, w) \<and> k5 x w = (Inr y, w'))"
  "bindA (list_promotions t a) k6 w = (Inr y, w') \<longleftrightarrow> (\<exists>x. list_promotions t a w = (Inr x, w) \<and> k6 x w = (Inr y, w'))"
  "bindA (get_active_promotion t a s e) k7 w = (Inr y, w') \<longleftrightarrow> (\<exists>x. get_active_promotion t a s e w = (Inr x, w) \<and> k7 x w = (Inr y, w'))"
  "bindA (get_latest_promoted_promotion t a s e) k8 w = (Inr y, w') \<longleftrightarrow> (\<exists>x. get_latest_promoted_promotion t a s e w = (Inr x, w) \<and> k8 x w = (Inr y, w'))"
  "bindA (get_active_promotion_for_target_deployment t a e d) k9 w = (Inr y, w') \<longleftrightarrow> (\<exists>x. get_active_promotion_for_target_deployment t a e d w = (Inr x, w) \<and> k9 x w = (Inr y, w'))"
  by (intro query_bind_ok queries_same)+

text \<open>The state after an audit record, and the record.\<close>

definition logged :: "audit_event \<Rightarrow> world \<Rightarrow> world" where
  "logged ev w = w\<lparr>audit_log := audit_log w @ [ev]\<rparr>"

lemma logged_fields [simp]:
  "catalogs (logged ev w) = catalogs w" "gateways (logged ev w) = gateways w"
  "deployments (logged ev w) = deployments w" "promotions (logged ev w) = promotions w"
  "audit_log (logged ev w) = audit_log w @ [ev]" "link_events (logged ev w) = link_events w"
  "sync_requests (logged ev w) = sync_requests w" "ticks (logged ev w) = ticks w"
  "uuids_used (logged ev w) = uuids_used w" "clock (logged ev w) = clock w"
  "uuid_source (logged ev w) = uuid_source w"
  by (simp_all add: logged_def)

lemma logged_inject [simp]: "logged ev w = logged ev' w \<longleftrightarrow> ev = ev'"
  by (metis append1_eq_conv logged_fields(5))

text \<open>The world after one audit record with the given actor, action, outcome, tenant and API.\<close>

definition logged_as :: "lifecycle_actor \<Rightarrow> string \<Rightarrow> string \<Rightarrow> string \<Rightarrow> string \<Rightarrow> world \<Rightarrow> world \<Rightarrow> bool" where
  "logged_as actor act outcome tenant_id api_id w w' \<longleftrightarrow>
     (\<exists>ev. w' = logged ev w \<and> ae_actor ev = actor \<and> ae_action ev = act \<and> ae_outcome ev = outcome \<and>
        ae_tenant_id ev = tenant_id \<and> ae_resource_id ev = api_id)"

lemma logged_as_logged [simp]:
  "logged_as actor act oc t i w (logged ev w) \<longleftrightarrow>
     ae_actor ev = actor \<and> ae_action ev = act \<and> ae_outcome ev = oc \<and> ae_tenant_id ev = t \<and> ae_resource_id ev = i"
  by (auto simp: logged_as_def)

lemma logged_as_fields:
  assumes "logged_as actor act oc t i w w'"
  shows "catalogs w' = catalogs w" "gateways w' = gateways w" "deployments w' = deployments w"
    "promotions w' = promotions w" "link_events w' = link_events w" "sync_requests w' = sync_requests w"
    "ticks w' = ticks w" "uuids_used w' = uuids_used w" "clock w' = clock w" "uuid_source w' = uuid_source w"
    "\<exists>ev. audit_log w' = audit_log w @ [ev] \<and> ae_actor ev = actor \<and> ae_action ev = act \<and> ae_outcome ev = oc \<and>
        ae_tenant_id ev = t \<and> ae_resource_id ev = i"
  using assms by (auto simp: logged_as_def)

lemma record_bind [simp]:
  "bindA (record_transition t actor act i n d oc s p) k w =
     k () (logged \<lparr>ae_tenant_id = t, ae_actor = actor, ae_action = act, ae_method = ''POST'',
         ae_path = or_str p (''/v1/tenants/'' @ t @ ''/apis/lifecycle/drafts''), ae_resource_type = ''api'',
         ae_resource_id = i, ae_resource_name = n, ae_outcome = oc, ae_status_code = s, ae_details = d\<rparr> w)"
  by (simp add: record_transition_def logged_def)

text \<open>The world after a notification was queued for delivery, when notifications are enabled.\<close>

definition notified :: "host \<Rightarrow> gateway_deployment \<Rightarrow> string \<Rightarrow> world \<Rightarrow> world" where
  "notified hst d t w = (if is_sse_enabled hst then snd (queue_sse_event d t w) else w)"

lemma notified_fields [simp]:
  "catalogs (notified hst d t w) = catalogs w" "gateways (notified hst d t w) = gateways w"
  "deployments (notified hst d t w) = deployments w" "promotions (notified hst d t w) = promotions w"
  "audit_log (notified hst d t w) = audit_log w" "sync_requests (notified hst d t w) = sync_requests w"
  "ticks (notified hst d t w) = ticks w" "uuids_used (notified hst d t w) = uuids_used w"
  "clock (notified hst d t w) = clock w" "uuid_source (notified hst d t w) = uuid_source w"
  by (simp_all add: notified_def queue_sse_event_def)

lemma notified_links: "link_events (notified hst d t w) = link_events w \<or>
    (\<exists>ev. link_events (notified hst d t w) = link_events w @ [ev] \<and> le_tenant_id ev = t \<and>
       le_gateway_id ev = uuid_str (dep_gateway_instance_id d))"
  by (simp add: notified_def queue_sse_event_def)

lemma queue_bind [simp]: "bindA (queue_gateway_deployment hst d t) k w = k () (notified hst d t w)"
  by (simp add: queue_gateway_deployment_def notified_def queue_sse_event_def whenA_def)

lemma state_bind [simp]: "bindA (state_from_catalog api) k w = k (projr (fst (state_from_catalog api w))) w"
  by (simp add: state_from_catalog_def list_gateway_deployments_def list_promotions_def bindA_def getA_def)

lemma state_run: "state_from_catalog api w = (Inr (projr (fst (state_from_catalog api w))), w)"
  by (simp add: state_from_catalog_def list_gateway_deployments_def list_promotions_def bindA_def getA_def)

lemma state_ok [simp]:
  "state_from_catalog api w = (Inr st, w') \<longleftrightarrow> w' = w \<and> st = projr (fst (state_from_catalog api w))"
  using state_run [of api w] by (metis Pair_inject sum.inject(2))

lemma clock_bind [simp]: "bindA nowA k w = k (clock w (ticks w)) (w\<lparr>ticks := Suc (ticks w)\<rparr>)"
  and uuid_bind [simp]: "bindA uuid4A k' w = k' (uuid_source w (uuids_used w)) (w\<lparr>uuids_used := Suc (uuids_used w)\<rparr>)"
  by (simp_all add: bindA_def)

text \<open>A write returns the row, and the table it leaves.\<close>

definition fits :: "('r \<Rightarrow> uuid) \<Rightarrow> ('r \<Rightarrow> 'r \<Rightarrow> bool) \<Rightarrow> 'r \<Rightarrow> 'r list \<Rightarrow> bool" where
  "fits key clash row t \<longleftrightarrow> (\<forall>r \<in> set t. key r \<noteq> key row \<and> \<not> clash r row)"

definition replaceable :: "('r \<Rightarrow> uuid) \<Rightarrow> ('r \<Rightarrow> 'r \<Rightarrow> bool) \<Rightarrow> 'r \<Rightarrow> 'r list \<Rightarrow> bool" where
  "replaceable key clash row t \<longleftrightarrow> (\<forall>r \<in> set t. key r \<noteq> key row \<longrightarrow> \<not> clash r row)"

definition replace_row :: "('r \<Rightarrow> uuid) \<Rightarrow> 'r \<Rightarrow> 'r list \<Rightarrow> 'r list" where
  "replace_row key row t = map (\<lambda>r. if key r = key row then row else r) t"

lemma insert_row_fits: "insert_row key clash n row t = (if fits key clash row t then Inr (t @ [row]) else Inl (IntegrityError n))"
  by (auto simp: insert_row_def fits_def list_ex_iff)

lemma save_row_replace:
  "save_row key clash n row t = (if replaceable key clash row t then Inr (replace_row key row t) else Inl (IntegrityError n))"
  by (auto simp: save_row_def replaceable_def replace_row_def list_ex_iff)

lemma create_catalog_bind: "bindA (create_api_catalog r) k w =
    (if fits cat_id catalog_clash r (catalogs w) then k r (w\<lparr>catalogs := catalogs w @ [r]\<rparr>)
     else (Inl (IntegrityError ''api_catalog''), w))"
  and save_catalog_bind: "bindA (save_api_catalog r) k w =
    (if replaceable cat_id catalog_clash r (catalogs w) then k r (w\<lparr>catalogs := replace_row cat_id r (catalogs w)\<rparr>)
     else (Inl (IntegrityError ''api_catalog''), w))"
  by (simp_all add: create_api_catalog_def save_api_catalog_def put_catalogs_def bindA_def insert_row_fits save_row_replace)

lemma create_deployment_bind: "bindA (create_gateway_deployment d) k w =
    (if fits dep_id deployment_clash d (deployments w) then k d (w\<lparr>deployments := deployments w @ [d]\<rparr>)
     else (Inl (IntegrityError ''uq_deployment_api_gateway''), w))"
  and save_deployment_bind: "bindA (save_gateway_deployment d) k w =
    (if replaceable dep_id deployment_clash d (deployments w) then k d (w\<lparr>deployments := replace_row dep_id d (deployments w)\<rparr>)
     else (Inl (IntegrityError ''uq_deployment_api_gateway''), w))"
  by (simp_all add: create_gateway_deployment_def save_gateway_deployment_def put_deployments_def bindA_def insert_row_fits
      save_row_replace)

lemma create_promotion_bind: "bindA (create_promotion p) k w =
    (if fits pr_id promotion_clash p (promotions w) then k p (w\<lparr>promotions := promotions w @ [p]\<rparr>)
     else (Inl (IntegrityError ''uq_promotions_active_per_target''), w))"
  and save_promotion_bind: "bindA (save_promotion p) k w =
    (if replaceable pr_id promotion_clash p (promotions w) then k p (w\<lparr>promotions := replace_row pr_id p (promotions w)\<rparr>)
     else (Inl (IntegrityError ''uq_promotions_active_per_target''), w))"
  by (simp_all add: create_promotion_def save_promotion_def put_promotions_def bindA_def insert_row_fits save_row_replace)

lemmas write_bind [run_simps] = create_catalog_bind save_catalog_bind create_deployment_bind save_deployment_bind
  create_promotion_bind save_promotion_bind

section \<open>Successful runs\<close>

text \<open>
  A handler is a chain of checks that refuse and steps that return. \<open>refuses m\<close>: no run of \<open>m\<close>
  returns. With these rules the simplifier turns "the handler returned" into the
  conjunction of the checks that passed and the steps that were taken.
\<close>

definition refuses :: "('w, 'e, 'a) act \<Rightarrow> bool" where
  "refuses m \<longleftrightarrow> (\<forall>w y w'. m w \<noteq> (Inr y, w'))"

lemma refusesI: "(\<And>w. isl (fst (m w))) \<Longrightarrow> refuses m"
  by (metis fst_conv isl_def refuses_def sum.disc(2))

lemma refuses_raise [simp]: "refuses (raiseA e)"
  and refuses_bind: "(\<And>x. refuses (k x)) \<Longrightarrow> refuses (bindA m k)"
  by (auto simp: refuses_def bindA_def split: prod.splits sum.splits)

lemma refuses_lifecycle [simp]:
  "refuses (refuse_validation api actor c m s e)" "refuses (refuse_deploy api actor env c m s e)"
  "refuses (refuse_publish api actor env c m s gid did e)"
  "refuses (refuse_promotion api actor src tgt c m s sgid tgid sdid e)"
  unfolding refuse_validation_def refuse_deploy_def refuse_publish_def refuse_promotion_def
  by (rule refuses_bind, simp)+

lemma ok_if: "refuses m \<Longrightarrow> (if b then m else n) w = (Inr y, w') \<longleftrightarrow> \<not> b \<and> n w = (Inr y, w')"
  and ok_option: "refuses m \<Longrightarrow>
    (case v of None \<Rightarrow> m | Some x \<Rightarrow> k x) w = (Inr y, w') \<longleftrightarrow> (\<exists>x. v = Some x \<and> k x w = (Inr y, w'))"
  and ok_guard: "(\<And>x. refuses (h x)) \<Longrightarrow>
    (case v of None \<Rightarrow> n | Some x \<Rightarrow> h x) w = (Inr y, w') \<longleftrightarrow> v = None \<and> n w = (Inr y, w')"
  and ok_sum: "(\<And>a. refuses (f a)) \<Longrightarrow>
    (case r of Inl a \<Rightarrow> f a | Inr x \<Rightarrow> g x) w = (Inr y, w') \<longleftrightarrow> (\<exists>x. r = Inr x \<and> g x w = (Inr y, w'))"
  by (auto simp: refuses_def split: option.splits sum.splits)

lemma ok_catch: "(\<And>e. refuses (h e)) \<Longrightarrow> catchA m p h w = (Inr y, w') \<longleftrightarrow> m w = (Inr y, w')"
  by (auto simp: catchA_def refuses_def split: prod.splits sum.splits)

lemma bind_ok: "bindA m k w = (Inr y, w') \<longleftrightarrow> (\<exists>x w1. m w = (Inr x, w1) \<and> k x w1 = (Inr y, w'))"
  by (auto simp: bindA_def split: prod.splits sum.splits)

lemma ok_catch_bind: "(\<And>e. refuses (h e)) \<Longrightarrow>
    bindA (catchA m p h) k w = (Inr y, w') \<longleftrightarrow> bindA m k w = (Inr y, w')"
  by (simp add: bind_ok ok_catch)

lemma ok_writes:
  "bindA (create_api_catalog r) k1 w = (Inr y, w') \<longleftrightarrow>
     fits cat_id catalog_clash r (catalogs w) \<and> k1 r (w\<lparr>catalogs := catalogs w @ [r]\<rparr>) = (Inr y, w')"
  "bindA (save_api_catalog r) k2 w = (Inr y, w') \<longleftrightarrow>
     replaceable cat_id catalog_clash r (catalogs w) \<and> k2 r (w\<lparr>catalogs := replace_row cat_id r (catalogs w)\<rparr>) = (Inr y, w')"
  "bindA (create_gateway_deployment d) k3 w = (Inr y, w') \<longleftrightarrow>
     fits dep_id deployment_clash d (deployments w) \<and> k3 d (w\<lparr>deployments := deployments w @ [d]\<rparr>) = (Inr y, w')"
  "bindA (save_gateway_deployment d) k4 w = (Inr y, w') \<longleftrightarrow>
     replaceable dep_id deployment_clash d (deployments w) \<and>
     k4 d (w\<lparr>deployments := replace_row dep_id d (deployments w)\<rparr>) = (Inr y, w')"
  "bindA (create_promotion p) k5 w = (Inr y, w') \<longleftrightarrow>
     fits pr_id promotion_clash p (promotions w) \<and> k5 p (w\<lparr>promotions := promotions w @ [p]\<rparr>) = (Inr y, w')"
  "bindA (save_promotion p) k6 w = (Inr y, w') \<longleftrightarrow>
     replaceable pr_id promotion_clash p (promotions w) \<and>
     k6 p (w\<lparr>promotions := replace_row pr_id p (promotions w)\<rparr>) = (Inr y, w')"
  by (simp_all add: run_simps)

lemmas ok_simps = ok_if ok_option ok_guard ok_sum ok_catch ok_writes Let_def

section \<open>Nothing happened\<close>

text \<open>Everything but the clock and the identifier supply is as it was.\<close>

definition inert :: "world \<Rightarrow> world \<Rightarrow> bool" where
  "inert w w' \<longleftrightarrow> same_tables w w' \<and> audit_log w' = audit_log w \<and> link_events w' = link_events w \<and>
     sync_requests w' = sync_requests w"

interpretation inert: state_relation inert
  by unfold_locales (auto simp: inert_def same_tables_def)

lemma inert_basic [simp]: "acts_within inert nowA" "acts_within inert uuid4A" "acts_within inert (state_from_catalog api)"
  by (auto simp: acts_within_def inert_def same_tables_def state_from_catalog_def bindA_def getA_def retA_def
      list_gateway_deployments_def list_promotions_def)

lemma inert_fail_writes:
  "fails_within inert (create_api_catalog r)" "fails_within inert (save_api_catalog r)"
  "fails_within inert (create_gateway_deployment d)" "fails_within inert (save_gateway_deployment d)"
  "fails_within inert (create_promotion p)" "fails_within inert (save_promotion p)"
  by (auto simp: fails_within_def inert_def same_tables_def create_api_catalog_def save_api_catalog_def
      create_gateway_deployment_def save_gateway_deployment_def create_promotion_def save_promotion_def
      put_catalogs_def put_deployments_def put_promotions_def bindA_def split: sum.splits)


lemma refusal_same [simp]:
  "acts_within same_tables (refuse_validation api actor c m s e)"
  "acts_within same_tables (refuse_deploy api actor env c m s e)"
  "acts_within same_tables (refuse_publish api actor env c m s gid did e)"
  "acts_within same_tables (refuse_promotion api actor src tgt c m s sgid tgid sdid e)"
  unfolding refuse_validation_def audit_validation_failure_def refuse_deploy_def audit_deploy_failure_def
    refuse_publish_def audit_publish_failure_def refuse_promotion_def audit_promotion_failure_def
  by (intro same_tables.steps_rules same_tables_basic)+

lemma fail_writes_same:
  "fails_within same_tables (create_api_catalog r)" "fails_within same_tables (save_api_catalog r)"
  "fails_within same_tables (create_gateway_deployment d)" "fails_within same_tables (save_gateway_deployment d)"
  "fails_within same_tables (create_promotion p)" "fails_within same_tables (save_promotion p)"
  using inert_fail_writes(1,2) [of r] inert_fail_writes(3,4) [of d] inert_fail_writes(5,6) [of p]
  by (auto simp: fails_within_def inert_def)

text \<open>A write that is refused, followed by steps that cannot be.\<close>

lemma fail_write_then:
  assumes "\<And>x w. \<exists>y w'. k x w = (Inr y, w')"
  shows "fails_within same_tables (bindA (save_api_catalog r) k)"
    and "fails_within same_tables (bindA (create_api_catalog r) k)"
  by (intro same_tables.fails_bindA_total fail_writes_same assms)+

lemma fail_write_then_deployment:
  assumes "\<And>x w. \<exists>y w'. k x w = (Inr y, w')"
  shows "fails_within same_tables (bindA (save_gateway_deployment d) k)"
    and "fails_within same_tables (bindA (create_gateway_deployment d) k)"
  by (intro same_tables.fails_bindA_total fail_writes_same assms)+

lemma fail_write_then_promotion:
  assumes "\<And>x w. \<exists>y w'. k x w = (Inr y, w')"
  shows "fails_within same_tables (bindA (save_promotion p) k)"
    and "fails_within same_tables (bindA (create_promotion p) k)"
  by (intro same_tables.fails_bindA_total fail_writes_same assms)+

lemmas refused_rules = fail_write_then fail_write_then_deployment fail_write_then_promotion
  same_tables.fails_bindA same_tables.fails_rules same_tables.steps_liftA queries_act
  same_tables.state_relation_axioms same_tables_basic same_tables.fails_steps refusal_same

end
