(* ===== verification/DraftFacts.thy ===== *)
theory DraftFacts
  imports LifecycleRuns
begin

text \<open>
  What \<open>create_draft\<close> and \<open>validate_draft\<close> do to the world: inversion rules for their
  successful runs and frames for the refused ones.
\<close>

section \<open>create\_draft\<close>

text \<open>The row a draft is created with.\<close>

definition draft_row :: "uuid \<Rightarrow> datetime \<Rightarrow> create_command \<Rightarrow> jdict option \<Rightarrow> api_catalog" where
  "draft_row fresh now c parsed_spec =
     \<lparr>cat_id = fresh, cat_tenant_id = cc_tenant_id c, cat_api_id = slugify (cc_name c),
      cat_api_name = cc_name c, cat_version = cc_version c, cat_status = ''draft'', cat_category = None, cat_tags = cc_tags c,
      cat_portal_published = False, cat_audience = ''public'', cat_api_metadata = JObj (draft_metadata parsed_spec c),
      cat_openapi_spec = spec_json parsed_spec, cat_git_path = None, cat_git_commit_sha = None,
      cat_catalog_content_hash = None, cat_catalog_release_id = None, cat_catalog_release_tag = None,
      cat_catalog_pr_url = None, cat_catalog_pr_number = None, cat_catalog_source_branch = None,
      cat_catalog_merge_commit_sha = None, cat_target_gateways = [], cat_synced_at = now, cat_deleted_at = None\<rparr>"

lemma create_draft_okE:
  assumes "create_draft hst c actor w = (Inr st, w')"
  obtains n parsed row where "normalize_create_command c = Inr n"
    and "find_legacy_portal_publication_tags (map JStr (cc_tags n)) = []"
    and "get_api_by_name_version (cc_tenant_id n) (cc_name n) (cc_version n) w = (Inr None, w)"
    and "get_api_by_id (cc_tenant_id n) (slugify (cc_name n)) w = (Inr None, w)"
    and "parse_openapi_contract hst (cc_openapi_spec n) = Inr parsed"
    and "truthy (spec_json parsed) \<or> opt_truthy (cc_spec_reference n)"
    and "row = draft_row (uuid_source w (uuids_used w)) (clock w (ticks w)) n parsed"
    and "fits cat_id catalog_clash row (catalogs w)"
    and "logged_as actor ''api_lifecycle.create_draft'' ''success'' (cc_tenant_id n) (slugify (cc_name n))
      (w\<lparr>uuids_used := Suc (uuids_used w), ticks := Suc (ticks w), catalogs := catalogs w @ [row]\<rparr>) w'"
    and "st = projr (fst (state_from_catalog row w'))"
proof -
  from assms show thesis
    unfolding create_draft_def
    apply (simp add: ok_simps)
    apply (elim exE conjE)
    subgoal for n parsed
      by (rule that [of n parsed "draft_row (uuid_source w (uuids_used w)) (clock w (ticks w)) n parsed"])
        (auto simp: draft_row_def)
    done
qed

lemma create_draft_refused: "fails_within inert (create_draft hst c actor)"
  unfolding create_draft_def
  by (intro inert.fails_bindA inert.fails_rules inert.steps_liftA queries_act inert.state_relation_axioms
      inert_basic inert.fails_bindA_total inert_fail_writes) simp_all

section \<open>validate\_draft\<close>

text \<open>The fingerprint a ready row was validated with, and the lock it puts on the contract.\<close>

definition spec_locked :: "host \<Rightarrow> api_catalog \<Rightarrow> jdict \<Rightarrow> bool" where
  "spec_locked hst api lc \<longleftrightarrow> cat_status api = ''ready'' \<and> truthy (dget lc ''validation_spec_hash'') \<and>
     dget lc ''validation_spec_hash'' \<noteq> JStr (spec_fingerprint hst (cat_openapi_spec api))"

definition validation_row :: "host \<Rightarrow> api_catalog \<Rightarrow> jdict \<Rightarrow> datetime \<Rightarrow> openapi_result \<Rightarrow> api_catalog" where
  "validation_row hst api lc now r = validated_row api
     (validated_lifecycle lc now (spec_fingerprint hst (cat_openapi_spec api)) r (ss_source (spec_state_of api)))"

lemma validated_row_fields [simp]:
  "cat_id (validated_row api lc) = cat_id api" "cat_tenant_id (validated_row api lc) = cat_tenant_id api"
  "cat_api_id (validated_row api lc) = cat_api_id api" "cat_api_name (validated_row api lc) = cat_api_name api"
  "cat_version (validated_row api lc) = cat_version api" "cat_status (validated_row api lc) = ''ready''"
  "cat_deleted_at (validated_row api lc) = cat_deleted_at api"
  "cat_openapi_spec (validated_row api lc) = cat_openapi_spec api"
  "cat_portal_published (validated_row api lc) = cat_portal_published api"
  "cat_git_commit_sha (validated_row api lc) = cat_git_commit_sha api"
  by (simp_all add: validated_row_def)

lemma validate_draft_okE:
  assumes "validate_draft hst c actor w = (Inr out, w')"
  obtains api r lc row where "get_api_by_id (vc_tenant_id c) (vc_api_id c) w = (Inr (Some api), w)"
    and "cat_status api \<in> {''draft'', ''ready''}"
    and "validate_openapi_contract hst (cat_openapi_spec api) = Inr r"
    and "lifecycle_dict api = Inr lc" and "\<not> spec_locked hst api lc"
    and "row = validation_row hst api lc (clock w (ticks w)) r"
    and "replaceable cat_id catalog_clash row (catalogs w)"
    and "logged_as actor ''api_lifecycle.validate_draft'' ''success'' (cat_tenant_id api) (cat_api_id api)
      (w\<lparr>ticks := Suc (ticks w), catalogs := replace_row cat_id row (catalogs w)\<rparr>) w'"
    and "vo_status out = ''ready''"
    and "vo_validation out = mk_validation_result r (ss_source (spec_state_of api)) (clock w (ticks w))"
    and "vo_lifecycle_state out = projr (fst (state_from_catalog row w'))"
proof -
  from assms show thesis
    unfolding validate_draft_def
    apply (simp add: ok_simps)
    apply (elim exE conjE)
    subgoal for x api r lc
      by (hypsubst, rule that [of api r lc "validation_row hst api lc (clock w (ticks w)) r"])
        (simp_all add: validation_row_def spec_locked_def)
    done
qed

lemma validate_draft_refused: "fails_within same_tables (validate_draft hst c actor)"
  unfolding validate_draft_def
  by (intro refused_rules) (simp_all add: Let_def)

end
