(* ===== verification/DeployFacts.thy ===== *)
theory DeployFacts
  imports DraftFacts
begin

text \<open>
  What \<open>deploy_to_environment\<close> does: resolving a gateway, the three outcomes of the upsert,
  the inversion rule of a successful deployment and the frame of a refused one.
\<close>

section \<open>Gateway resolution\<close>

text \<open>A resolved target is an enabled, visible gateway of the environment.\<close>

definition usable_gateway :: "string \<Rightarrow> string \<Rightarrow> gateway_instance \<Rightarrow> bool" where
  "usable_gateway tenant_id environment gi \<longleftrightarrow> gi_deleted_at gi = None \<and> gi_enabled gi \<and> visible_to tenant_id gi \<and>
     environment_matches (JStr (gi_environment gi)) (JStr environment)"

text \<open>The gateway a request means: the one it names, or the only usable one.\<close>

definition meant_gateway :: "string \<Rightarrow> string \<Rightarrow> uuid option \<Rightarrow> world \<Rightarrow> gateway_instance \<Rightarrow> bool" where
  "meant_gateway t env gid w gi \<longleftrightarrow> gi \<in> set (gateways w) \<and> usable_gateway t env gi \<and>
     (case gid of Some i \<Rightarrow> gi_id gi = i | None \<Rightarrow> filter (usable_gateway t env) (gateways w) = [gi])"

lemma list_gateway_targets_filter:
  "list_gateway_targets t env w = (Inr (map gateway_target_from_model (filter (usable_gateway t env) (gateways w))), w)"
proof -
  have "filter (usable_gateway t env) (gateways w) =
      filter (\<lambda>g. visible_to t g \<and> environment_matches (JStr (gi_environment g)) (JStr env))
        (filter (\<lambda>g. gi_deleted_at g = None \<and> gi_enabled g) (gateways w))"
    by (auto simp: usable_gateway_def intro: filter_cong)
  then show ?thesis by (simp add: list_gateway_targets_def)
qed

lemma resolve_unnamed: "resolve_gateway_target t env None w = (case filter (usable_gateway t env) (gateways w) of
      [] \<Rightarrow> (Inl (ApiLifecycleGatewayNotFoundError (''No gateway target found for environment '' @ sq env)), w)
    | [gi] \<Rightarrow> (Inr (gateway_target_from_model gi), w)
    | gs \<Rightarrow> (Inl (ApiLifecycleGatewayAmbiguousError
             (''Multiple gateway targets found for environment '' @ sq env @ '': '' @
              py_join '', '' (map gt_name (map gateway_target_from_model gs)) @ ''. Provide gateway_instance_id explicitly.'')), w))"
  by (simp add: resolve_gateway_target_def query_bind list_gateway_targets_filter split: list.splits)

lemma resolve_gateway_targetE:
  assumes "resolve_gateway_target t env gid w = (Inr g, w')"
  obtains gi where "w' = w" and "g = gateway_target_from_model gi" and "meant_gateway t env gid w gi"
proof (cases gid)
  case (Some i)
  with assms have q: "get_gateway_target t i w = (Inr (Some g), w)" and en: "gt_enabled g" "w' = w"
    and env: "environment_matches (JStr (gt_environment g)) (JStr env)"
    by (auto simp: resolve_gateway_target_def ok_simps)
  from get_gateway_target_Some [OF q] obtain gi where "gi \<in> set (gateways w)" "g = gateway_target_from_model gi"
    "gi_id gi = i" "gi_deleted_at gi = None" "visible_to t gi" by blast
  with en env Some show thesis
    by (intro that) (auto simp: usable_gateway_def gateway_target_from_model_def meant_gateway_def)
next
  case None
  let ?l = "filter (usable_gateway t env) (gateways w)"
  show thesis
  proof (cases ?l rule: scalar_one_or_none.cases)
    case (2 gi)
    then have "gi \<in> set ?l" by simp
    then have "gi \<in> set (gateways w) \<and> usable_gateway t env gi" by simp
    with assms 2 None show thesis by (intro that [of gi]) (auto simp: resolve_unnamed meant_gateway_def)
  qed (use assms None in \<open>auto simp: resolve_unnamed\<close>)
qed

lemma resolve_meant:
  assumes "db_ok w" and gi: "meant_gateway t env gid w gi"
  shows "resolve_gateway_target t env gid w = (Inr (gateway_target_from_model gi), w)"
proof (cases gid)
  case (Some i)
  have "scalar_one_or_none (filter (\<lambda>g. gi_id g = i \<and> gi_deleted_at g = None) (gateways w)) = Inr (Some gi)"
    using assms Some unfolding db_ok_def
    by (intro gateway_table.query_finds) (auto simp: meant_gateway_def usable_gateway_def)
  then show ?thesis using gi Some
    by (simp add: resolve_gateway_target_def get_gateway_target_def query_bind meant_gateway_def usable_gateway_def
        gateway_target_from_model_def)
next
  case None
  with gi show ?thesis by (simp add: resolve_unnamed meant_gateway_def)
qed

lemma resolve_gateway_target_same [simp]:
  "state_relation R \<Longrightarrow> acts_within R (resolve_gateway_target t env gid)"
  unfolding resolve_gateway_target_def
  by (intro state_relation.steps_rules queries_act; (assumption | simp))

lemma resolve_bind_ok: "bindA (resolve_gateway_target t env gid) k w = (Inr y, w') \<longleftrightarrow>
    (\<exists>g. resolve_gateway_target t env gid w = (Inr g, w) \<and> k g w = (Inr y, w'))"
proof (rule query_bind_ok)
  have "acts_within (=) (resolve_gateway_target t env gid)"
    by (rule resolve_gateway_target_same) (unfold_locales, auto)
  then show "snd (resolve_gateway_target t env gid w) = w" by (simp add: acts_within_def)
qed

section \<open>The upsert\<close>

definition relink :: "uuid option \<Rightarrow> gateway_deployment \<Rightarrow> gateway_deployment" where
  "relink pid d = (if is_some_other pid (dep_promotion_id d) then d\<lparr>dep_promotion_id := pid\<rparr> else d)"

lemma relink_fields [simp]:
  "dep_id (relink pid d) = dep_id d" "dep_api_catalog_id (relink pid d) = dep_api_catalog_id d"
  "dep_gateway_instance_id (relink pid d) = dep_gateway_instance_id d"
  "dep_desired_state (relink pid d) = dep_desired_state d" "dep_sync_status (relink pid d) = dep_sync_status d"
  "dep_desired_generation (relink pid d) = dep_desired_generation d"
  "dep_synced_generation (relink pid d) = dep_synced_generation d"
  "relink None d = d"
  by (simp_all add: relink_def is_some_other_def)

lemma relink_eq: "relink pid d = d \<longleftrightarrow> \<not> is_some_other pid (dep_promotion_id d)"
proof
  assume eq: "relink pid d = d"
  show "\<not> is_some_other pid (dep_promotion_id d)"
  proof
    assume other: "is_some_other pid (dep_promotion_id d)"
    then have "dep_promotion_id (relink pid d) = pid" by (simp add: relink_def)
    with eq other show False by (simp add: is_some_other_def)
  qed
qed (simp add: relink_def)

lemma upsert_okE:
  assumes "upsert_gateway_deployment hst api g ds force pid w = (Inr (d, act), w')"
  obtains (unchanged) e where "production_git_guard_violation api g = None"
      and "get_gateway_deployment (cat_id api) (gt_id g) w = (Inr (Some e), w)"
      and "jeq (dep_desired_state e) (JObj ds)" and "\<not> force" and "act = ''unchanged''" and "d = relink pid e"
      and "w' = w\<lparr>ticks := Suc (ticks w),
                  deployments := (if d = e then deployments w else replace_row dep_id d (deployments w))\<rparr>"
  | (updated) e where "production_git_guard_violation api g = None"
      and "get_gateway_deployment (cat_id api) (gt_id g) w = (Inr (Some e), w)"
      and "\<not> jeq (dep_desired_state e) (JObj ds) \<or> force" and "act = ''updated''"
      and "d = redeploy_row (relink pid e) ds pid (clock w (ticks w))"
      and "w' = notified hst d (cat_tenant_id api)
                 (w\<lparr>ticks := Suc (ticks w), deployments := replace_row dep_id d (deployments w)\<rparr>)"
  | (created) "production_git_guard_violation api g = None"
      and "get_gateway_deployment (cat_id api) (gt_id g) w = (Inr None, w)" and "act = ''created''"
      and "d = new_deployment_row (uuid_source w (uuids_used w)) (cat_id api) (gt_id g) ds pid (clock w (ticks w))"
      and "fits dep_id deployment_clash d (deployments w)"
      and "w' = notified hst d (cat_tenant_id api)
                 (w\<lparr>ticks := Suc (ticks w), uuids_used := Suc (uuids_used w), deployments := deployments w @ [d]\<rparr>)"
proof -
  let ?get = "get_gateway_deployment (cat_id api) (gt_id g)"
  have get: "?get (w\<lparr>ticks := n\<rparr>) = (fst (?get w), w\<lparr>ticks := n\<rparr>)" for n
    by (simp add: get_gateway_deployment_def)
  from assms have guard: "production_git_guard_violation api g = None"
    by (auto simp: upsert_gateway_deployment_def ok_guard)
  from assms obtain found where "fst (?get w) = Inr found"
    by (auto simp: upsert_gateway_deployment_def guard get)
  then have found: "?get w = (Inr found, w)"
    using queries_same(6) by (metis prod.collapse)
  note run = assms [unfolded upsert_gateway_deployment_def guard option.case, simplified, unfolded get found, simplified]
  show thesis
  proof (cases found)
    case None
    with run found guard show thesis
      by (intro created) (auto simp: ok_simps)
  next
    case (Some e)
    note run' = run [unfolded Some option.case Let_def, folded relink_def, unfolded relink_fields]
    show thesis
    proof (cases "jeq (dep_desired_state e) (JObj ds) \<and> \<not> force")
      case True
      have "act = ''unchanged'' \<and> d = relink pid e \<and> w' = w\<lparr>ticks := Suc (ticks w),
          deployments := (if d = e then deployments w else replace_row dep_id d (deployments w))\<rparr>"
      proof (cases "is_some_other pid (dep_promotion_id e)")
        case True2: True
        note run'' = run' [unfolded if_P [OF conjI [OF True2 True]] ok_writes]
        then have "act = ''unchanged'' \<and> d = relink pid e \<and>
            w' = w\<lparr>ticks := Suc (ticks w), deployments := replace_row dep_id d (deployments w)\<rparr>" by auto
        moreover have "relink pid e \<noteq> e" using True2 by (simp add: relink_eq)
        ultimately show ?thesis by simp
      next
        case False2: False
        then have "relink pid e = e" by (simp add: relink_eq)
        with run' True False2 show ?thesis by auto
      qed
      then show thesis using guard found Some True by (intro unchanged [of e]) simp_all
    next
      case False
      then have no: "\<not> (b \<and> jeq (dep_desired_state e) (JObj ds) \<and> \<not> force)"
          "\<not> (jeq (dep_desired_state e) (JObj ds) \<and> \<not> force)" for b by simp_all
      note run'' = run' [unfolded if_not_P [OF no(1)] if_not_P [OF no(2)] ok_writes]
      show thesis
      proof (rule updated [of e])
        show "act = ''updated''" "d = redeploy_row (relink pid e) ds pid (clock w (ticks w))"
          "w' = notified hst d (cat_tenant_id api)
             (w\<lparr>ticks := Suc (ticks w), deployments := replace_row dep_id d (deployments w)\<rparr>)"
          using run'' by auto
      qed (use guard found Some False in auto)
    qed
  qed
qed

text \<open>What every successful upsert leaves alone.\<close>

lemma upsert_frame:
  assumes "upsert_gateway_deployment hst api g ds force pid w = (Inr (d, act), w')"
  shows "catalogs w' = catalogs w" "gateways w' = gateways w" "promotions w' = promotions w"
    "audit_log w' = audit_log w" "sync_requests w' = sync_requests w" "clock w' = clock w" "uuid_source w' = uuid_source w"
    "dep_api_catalog_id d = cat_id api" "dep_gateway_instance_id d = gt_id g"
  using assms
  by (cases rule: upsert_okE;
      auto simp: redeploy_row_def new_deployment_row_def dest: get_gateway_deployment_Some)+

lemma upsert_refused: "fails_within same_tables (upsert_gateway_deployment hst api g ds force pid)"
  unfolding upsert_gateway_deployment_def Let_def
  by (intro refused_rules) simp_all

lemma get_gateway_deployment_ticks [simp]:
  "get_gateway_deployment c i (w\<lparr>ticks := n\<rparr>) = (fst (get_gateway_deployment c i w), w\<lparr>ticks := n\<rparr>)"
  by (simp add: get_gateway_deployment_def)

text \<open>A row that is replaced by one with the same identity never clashes.\<close>

lemma replaceable_same_identity:
  assumes "table_ok dep_id deployment_clash t" and "e \<in> set t" and "dep_id d = dep_id e"
    and "dep_api_catalog_id d = dep_api_catalog_id e" and "dep_gateway_instance_id d = dep_gateway_instance_id e"
  shows "replaceable dep_id deployment_clash d t"
  using assms by (auto simp: replaceable_def table_ok_def deployment_clash_def)

lemma upsert_total:
  assumes ok: "db_ok w" and guard: "production_git_guard_violation api g = None"
    and fresh: "uuid_source w (uuids_used w) \<notin> dep_id ` set (deployments w)"
  shows "\<exists>r w'. upsert_gateway_deployment hst api g ds force pid w = (Inr r, w')"
proof -
  let ?get = "get_gateway_deployment (cat_id api) (gt_id g) w"
  from get_gateway_deployment_total [OF ok] obtain v where v: "?get = (Inr v, w)" by blast
  show ?thesis
  proof (cases v)
    case None
    with v get_gateway_deployment_None have
      new: "\<forall>e \<in> set (deployments w). \<not> (dep_api_catalog_id e = cat_id api \<and> dep_gateway_instance_id e = gt_id g)" by blast
    have fit: "fits dep_id deployment_clash (new_deployment_row (uuid_source w (uuids_used w)) (cat_id api) (gt_id g) ds pid
        (clock w (ticks w))) (deployments w)"
      using fresh new by (force simp: fits_def deployment_clash_def new_deployment_row_def)
    with v None show ?thesis
      by (simp add: upsert_gateway_deployment_def guard query_bind queries_same run_simps)
  next
    case (Some e)
    have "replaceable dep_id deployment_clash d (deployments w)"
      if "dep_id d = dep_id e" "dep_api_catalog_id d = dep_api_catalog_id e"
        "dep_gateway_instance_id d = dep_gateway_instance_id e" for d
      using that ok v Some get_gateway_deployment_Some replaceable_same_identity unfolding db_ok_def by metis
    note rep = this
    have r: "replaceable dep_id deployment_clash (relink pid e) (deployments w)"
      "replaceable dep_id deployment_clash (redeploy_row (relink pid e) ds pid (clock w (ticks w))) (deployments w)"
      by (rule rep; simp add: redeploy_row_def)+
    show ?thesis
      using v Some r unfolding upsert_gateway_deployment_def guard option.case Let_def relink_def [symmetric]
      by (simp add: query_bind queries_same run_simps)
  qed
qed

lemma upsert_bind_ok: "bindA (upsert_gateway_deployment hst api g ds force pid) k w = (Inr y, w') \<longleftrightarrow>
    (\<exists>d act w1. upsert_gateway_deployment hst api g ds force pid w = (Inr (d, act), w1) \<and> k (d, act) w1 = (Inr y, w'))"
  by (simp add: bind_ok)

section \<open>deploy\_to\_environment\<close>

lemma deploy_okE:
  assumes "deploy_to_environment hst c actor w = (Inr out, w')"
  obtains env api gi d act w1 where "lifecycle_environment (tc_environment c) = Inr env"
    and "get_api_by_id (tc_tenant_id c) (tc_api_id c) w = (Inr (Some api), w)" and "cat_status api = ''ready''"
    and "meant_gateway (tc_tenant_id c) env (tc_gateway_instance_id c) w gi"
    and "production_git_guard_violation api (gateway_target_from_model gi) = None"
    and "upsert_gateway_deployment hst api (gateway_target_from_model gi)
           (deploy_desired_state hst api env (gateway_target_from_model gi)) (tc_force c) None w = (Inr (d, act), w1)"
    and "logged_as actor (if act = ''unchanged'' then ''api_lifecycle.deploy_idempotent'' else ''api_lifecycle.deploy_requested'')
           ''success'' (cat_tenant_id api) (cat_api_id api) w1 w'"
    and "do_deployment_id out = dep_id d" and "do_action out = act" and "do_environment out = env"
    and "do_deployment_status out = sync_value (dep_sync_status d)"
proof -
  from assms show thesis
    unfolding deploy_to_environment_def
    apply (simp add: ok_simps ok_catch_bind resolve_bind_ok upsert_bind_ok)
    apply (elim exE conjE)
    subgoal for env x api gw d act w1
      by (rule resolve_gateway_targetE [of "tc_tenant_id c" env "tc_gateway_instance_id c" w gw w], assumption,
          rule that [of env api _ d act w1]) auto
    done
qed

lemma deploy_refused: "fails_within same_tables (deploy_to_environment hst c actor)"
proof -
  have upsert: "fails_within same_tables (bindA (upsert_gateway_deployment hst api g ds force pid) k)"
    if "\<And>x w. \<exists>y w'. k x w = (Inr y, w')" for api g ds force pid and k :: "gateway_deployment \<times> string \<Rightarrow> deployment_outcome action"
    using upsert_refused that by (rule same_tables.fails_bindA_total)
  show ?thesis
    unfolding deploy_to_environment_def
    by (intro upsert refused_rules resolve_gateway_target_same same_tables.steps_catchA)
      (auto simp: Let_def split: prod.splits)
qed

end
