(* ===== verification/PublishFacts.thy ===== *)
theory PublishFacts
  imports DeployFacts
begin

text \<open>
  What \<open>publish_to_portal\<close> does: the completion of the owning promotion, the two outcomes
  of a successful publication, and the frame of a refused one.
\<close>

lemma record_run: "record_transition t actor act i n d oc s p w =
    (Inr (), logged \<lparr>ae_tenant_id = t, ae_actor = actor, ae_action = act, ae_method = ''POST'',
         ae_path = or_str p (''/v1/tenants/'' @ t @ ''/apis/lifecycle/drafts''), ae_resource_type = ''api'',
         ae_resource_id = i, ae_resource_name = n, ae_outcome = oc, ae_status_code = s, ae_details = d\<rparr> w)"
  by (simp add: record_transition_def logged_def)

section \<open>Completing the promotion of a deployment\<close>

definition completed :: "promotion \<Rightarrow> uuid \<Rightarrow> datetime \<Rightarrow> promotion" where
  "completed p did now = p\<lparr>pr_status := ''promoted'', pr_target_deployment_id := Some did, pr_completed_at := Some now\<rparr>"

lemma get_active_for_target_Some:
  assumes "get_active_promotion_for_target_deployment t a e did w = (Inr (Some p), w')"
  shows "w' = w" "p \<in> set (promotions w)" "pr_tenant_id p = t" "pr_api_id p = a" "pr_target_environment p = e"
    "pr_target_deployment_id p = Some did" "active_status (pr_status p)"
  using assms by (auto simp: get_active_promotion_for_target_deployment_def dest!: find_Some_in)

lemma get_active_for_target_total:
  "\<exists>v. get_active_promotion_for_target_deployment t a e did w = (Inr v, w)"
  by (simp add: get_active_promotion_for_target_deployment_def)

lemma complete_okE:
  assumes "complete_promotion_for_publication api actor env gid did w = (Inr u, w')"
  obtains (no_promotion) "get_active_promotion_for_target_deployment (cat_tenant_id api) (cat_api_id api) env did w = (Inr None, w)"
      and "w' = w"
  | (completes) p where
      "get_active_promotion_for_target_deployment (cat_tenant_id api) (cat_api_id api) env did w = (Inr (Some p), w)"
      and "replaceable pr_id promotion_clash (completed p did (clock w (ticks w))) (promotions w)"
      and "logged_as actor ''api_lifecycle.promotion_completed'' ''success'' (cat_tenant_id api) (cat_api_id api)
        (w\<lparr>ticks := Suc (ticks w), promotions := replace_row pr_id (completed p did (clock w (ticks w))) (promotions w)\<rparr>) w'"
proof -
  let ?get = "get_active_promotion_for_target_deployment (cat_tenant_id api) (cat_api_id api) env did w"
  from get_active_for_target_total obtain found where found: "?get = (Inr found, w)" by blast
  show thesis
  proof (cases found)
    case None
    with assms found show thesis
      by (intro no_promotion) (simp_all add: complete_promotion_for_publication_def)
  next
    case (Some p)
    from assms found Some show thesis
      by (intro completes [of p]) (auto simp: complete_promotion_for_publication_def ok_simps record_run
          simp flip: completed_def)
  qed
qed

lemma replaceable_inactive: "\<not> active_status (pr_status p) \<Longrightarrow> replaceable pr_id promotion_clash p t"
  by (simp add: replaceable_def promotion_clash_def)

lemma complete_total: "\<exists>w'. complete_promotion_for_publication api actor env gid did w = (Inr (), w')"
proof -
  let ?get = "get_active_promotion_for_target_deployment (cat_tenant_id api) (cat_api_id api) env did w"
  from get_active_for_target_total obtain found where found: "?get = (Inr found, w)" by blast
  have "replaceable pr_id promotion_clash (p\<lparr>pr_status := ''promoted'', pr_target_deployment_id := Some did,
      pr_completed_at := Some t\<rparr>) ps" for p t ps
    by (rule replaceable_inactive) (simp add: active_status_def)
  with found show ?thesis
    by (cases found) (simp_all add: complete_promotion_for_publication_def query_bind queries_same run_simps record_run)
qed

lemma complete_frame:
  assumes "complete_promotion_for_publication api actor env gid did w = (Inr u, w')"
  shows "catalogs w' = catalogs w" "gateways w' = gateways w" "deployments w' = deployments w"
    "link_events w' = link_events w"
  using assms by (cases rule: complete_okE; auto dest: logged_as_fields)+

section \<open>publish\_to\_portal\<close>

definition publication_of :: "host \<Rightarrow> api_catalog \<Rightarrow> string \<Rightarrow> uuid \<Rightarrow> uuid \<Rightarrow> bool \<Rightarrow> datetime \<Rightarrow> publication_state" where
  "publication_of hst api env gid did again now =
     \<lparr>pub_environment = env, pub_gateway_instance_id = gid, pub_deployment_id = did, pub_status = ''published'',
      pub_result = (if again then ''republished'' else ''published''),
      pub_spec_hash = spec_fingerprint hst (cat_openapi_spec api), pub_published_at = now\<rparr>"

text \<open>What every publication has checked.\<close>

definition publishable :: "host \<Rightarrow> target_command \<Rightarrow> string \<Rightarrow> api_catalog \<Rightarrow> gateway_instance \<Rightarrow> gateway_deployment \<Rightarrow>
    openapi_result \<Rightarrow> world \<Rightarrow> bool" where
  "publishable hst c env api gi d r w \<longleftrightarrow>
     lifecycle_environment (tc_environment c) = Inr env \<and>
     get_api_by_id (tc_tenant_id c) (tc_api_id c) w = (Inr (Some api), w) \<and> cat_status api = ''ready'' \<and>
     meant_gateway (tc_tenant_id c) env (tc_gateway_instance_id c) w gi \<and>
     get_gateway_deployment (cat_id api) (gi_id gi) w = (Inr (Some d), w) \<and> dep_sync_status d = SYNCED \<and>
     \<not> deployment_stale hst api d \<and> truthy (cat_openapi_spec api) \<and>
     validate_openapi_contract hst (cat_openapi_spec api) = Inr r"

lemma sync_value_eq [simp]: "sync_value s = sync_value t \<longleftrightarrow> s = t" "sync_value s = ''synced'' \<longleftrightarrow> s = SYNCED"
  by (cases s; cases t; simp) (cases s; simp)

lemma gateway_target_fields [simp]:
  "gt_id (gateway_target_from_model gi) = gi_id gi" "gt_name (gateway_target_from_model gi) = gi_name gi"
  "gt_environment (gateway_target_from_model gi) = gi_environment gi"
  by (simp_all add: gateway_target_from_model_def)

lemma publication_of_fields [simp]:
  "pub_result (publication_of hst api env gid did again now) = (if again then ''republished'' else ''published'')"
  "pub_environment (publication_of hst api env gid did again now) = env"
  "pub_gateway_instance_id (publication_of hst api env gid did again now) = gid"
  "pub_deployment_id (publication_of hst api env gid did again now) = did"
  "pub_spec_hash (publication_of hst api env gid did again now) = spec_fingerprint hst (cat_openapi_spec api)"
  "pub_published_at (publication_of hst api env gid did again now) = now"
  by (simp_all add: publication_of_def)

lemma complete_bind_ok: "bindA (complete_promotion_for_publication api actor env gid did) k w = (Inr y, w') \<longleftrightarrow>
    (\<exists>w1. complete_promotion_for_publication api actor env gid did w = (Inr (), w1) \<and> k () w1 = (Inr y, w'))"
  by (auto simp: bind_ok)

lemma publishable_spec_ok: "bindA (validate_publishable_spec hst api actor env gid did) k w = (Inr y, w') \<longleftrightarrow>
    truthy (cat_openapi_spec api) \<and> (\<exists>r. validate_openapi_contract hst (cat_openapi_spec api) = Inr r \<and> k r w = (Inr y, w'))"
proof (cases "truthy (cat_openapi_spec api)")
  case True
  then show ?thesis
    by (cases "validate_openapi_contract hst (cat_openapi_spec api)")
      (auto simp: validate_publishable_spec_def refuse_publish_def bind_ok)
next
  case False
  then show ?thesis by (auto simp: validate_publishable_spec_def Let_def refuse_publish_def bind_ok)
qed

lemma publish_unchanged_okE:
  assumes "publish_unchanged api actor env g d w = (Inr out, w')"
  obtains w1 where "complete_promotion_for_publication api actor env (gt_id g) (dep_id d) w = (Inr (), w1)"
      and "logged_as actor ''api_lifecycle.publish_idempotent'' ''success'' (cat_tenant_id api) (cat_api_id api) w1 w'"
      and "po_result out = ''unchanged''" and "po_deployment_id out = dep_id d" and "po_environment out = env"
  using assms unfolding publish_unchanged_def
  by (auto simp: complete_bind_ok)

lemma publish_now_okE:
  assumes "publish_now hst api actor env g d r prev w = (Inr out, w')"
  obtains pub api' w1 where
      "pub = publication_of hst api env (gt_id g) (dep_id d) (prev \<noteq> None \<and> prev \<noteq> Some []) (clock w (ticks w))"
      and "portal_publish api pub = Inr api'" and "replaceable cat_id catalog_clash api' (catalogs w)"
      and "complete_promotion_for_publication api' actor env (gt_id g) (dep_id d) w1 = (Inr (), w')"
      and "logged_as actor ''api_lifecycle.publish_requested'' ''success'' (cat_tenant_id api') (cat_api_id api')
        (w\<lparr>ticks := Suc (ticks w), catalogs := replace_row cat_id api' (catalogs w)\<rparr>) w1"
      and "po_result out = pub_result pub" and "po_deployment_id out = dep_id d" and "po_environment out = env"
proof -
  let ?pub = "publication_of hst api env (gt_id g) (dep_id d) (prev \<noteq> None \<and> prev \<noteq> Some []) (clock w (ticks w))"
  from assms show thesis
    unfolding publish_now_def Let_def publication_of_def [symmetric]
    apply (simp only: clock_bind liftA_bind_ok ok_writes record_bind complete_bind_ok)
    apply (elim exE conjE)
    subgoal premises prems for api' w2
    proof -
      from prems(4) have e: "w2 = w'" and out: "po_result out = pub_result ?pub" "po_deployment_id out = dep_id d"
          "po_environment out = env"
        by (auto split del: if_split)
      have rep: "replaceable cat_id catalog_clash api' (catalogs w)" using prems(2) by simp
      show thesis
        by (rule that [OF refl prems(1) rep prems(3) [unfolded e]]) (simp_all add: out)
    qed
    done
qed

lemma publish_okE:
  assumes "publish_to_portal hst c actor w = (Inr out, w')"
  obtains (again) env api gi d r w1 where "publishable hst c env api gi d r w"
      and "already_published api (portal_publication_record api env (gi_id gi)) (spec_fingerprint hst (cat_openapi_spec api)) d
             (tc_force c)"
      and "complete_promotion_for_publication api actor env (gi_id gi) (dep_id d) w = (Inr (), w1)"
      and "logged_as actor ''api_lifecycle.publish_idempotent'' ''success'' (cat_tenant_id api) (cat_api_id api) w1 w'"
      and "po_result out = ''unchanged''" and "po_deployment_id out = dep_id d" and "po_environment out = env"
  | (now) env api gi d r pub api' w1 where "publishable hst c env api gi d r w"
      and "pub = publication_of hst api env (gi_id gi) (dep_id d)
             (portal_publication_record api env (gi_id gi) \<noteq> None \<and> portal_publication_record api env (gi_id gi) \<noteq> Some [])
             (clock w (ticks w))"
      and "portal_publish api pub = Inr api'" and "replaceable cat_id catalog_clash api' (catalogs w)"
      and "complete_promotion_for_publication api' actor env (gi_id gi) (dep_id d) w1 = (Inr (), w')"
      and "logged_as actor ''api_lifecycle.publish_requested'' ''success'' (cat_tenant_id api') (cat_api_id api')
        (w\<lparr>ticks := Suc (ticks w), catalogs := replace_row cat_id api' (catalogs w)\<rparr>) w1"
      and "po_result out = pub_result pub" and "po_deployment_id out = dep_id d" and "po_environment out = env"
proof -
  from assms show thesis
    unfolding publish_to_portal_def resolve_publish_gateway_def
    apply (simp add: ok_simps ok_catch_bind resolve_bind_ok publishable_spec_ok)
    apply (elim exE conjE)
    subgoal premises prems for env v api g u d r
    proof -
      from prems obtain gi where gi: "g = gateway_target_from_model gi"
        "meant_gateway (tc_tenant_id c) env (tc_gateway_instance_id c) w gi"
        by (blast elim: resolve_gateway_targetE)
      then have id: "gt_id g = gi_id gi" by simp
      have ok: "publishable hst c env api gi d r w"
        using prems gi(2) by (simp add: publishable_def id)
      show thesis
      proof (cases "already_published api (portal_publication_record api env (gi_id gi))
          (spec_fingerprint hst (cat_openapi_spec api)) d (tc_force c)")
        case True
        with prems have "publish_unchanged api actor env g d w = (Inr out, w')" by (simp add: id)
        then show thesis by (rule publish_unchanged_okE) (rule again [OF ok True], simp_all add: id)
      next
        case False
        with prems have "publish_now hst api actor env g d r (portal_publication_record api env (gi_id gi)) w = (Inr out, w')"
          by (simp add: id)
        then show thesis by (rule publish_now_okE) (unfold id, rule now [OF ok], assumption+)
      qed
    qed
    done
qed

text \<open>A refused publication changes no row.\<close>

lemma validate_publishable_spec_same: "acts_within same_tables (validate_publishable_spec hst api actor env gid did)"
  unfolding validate_publishable_spec_def Let_def
  by (intro same_tables.steps_rules refusal_same)

lemma publish_unchanged_total: "\<exists>y w'. publish_unchanged api actor env g d w = (Inr y, w')"
  unfolding publish_unchanged_def using complete_total [of api actor env "gt_id g" "dep_id d" w]
  by (auto simp: bindA_run)

lemma publish_now_refused: "fails_within same_tables (publish_now hst api actor env g d r prev)"
proof -
  have tail: "\<exists>y w'. bindA (complete_promotion_for_publication api' actor env gid did) (\<lambda>_. bindA (state_from_catalog api') k) v
      = (Inr y, w')" if "\<And>st v. \<exists>y. k st v = (Inr y, v)" for api' gid did v and k :: "lifecycle_state \<Rightarrow> publication_outcome action"
  proof -
    from complete_total obtain v' where "complete_promotion_for_publication api' actor env gid did v = (Inr (), v')" by blast
    moreover from that obtain y where "k (projr (fst (state_from_catalog api' v'))) v' = (Inr y, v')" by blast
    ultimately show ?thesis by (simp add: bindA_run)
  qed
  show ?thesis
    unfolding publish_now_def Let_def
    by (intro refused_rules) (simp_all only: record_bind, rule tail, simp)
qed

lemma publish_refused: "fails_within same_tables (publish_to_portal hst c actor)"
proof -
  have unchanged: "fails_within same_tables (publish_unchanged api actor env g d)" for api env g d
    using publish_unchanged_total [of api actor env g d] by (metis fails_within_def Inl_Inr_False prod.inject)
  show ?thesis
    unfolding publish_to_portal_def resolve_publish_gateway_def
    by (intro refused_rules resolve_gateway_target_same same_tables.steps_catchA validate_publishable_spec_same
        publish_now_refused unchanged) (simp_all add: Let_def publish_now_refused unchanged)
qed

end
