(* ===== verification/PromoteFacts.thy ===== *)
theory PromoteFacts
  imports PublishFacts
begin

text \<open>
  What \<open>promote_to_environment\<close> does: the three outcomes of the promotion upsert, the
  settlement of the promotion against the target deployment, the inversion rule of a
  successful promotion, and the absence of half-done promotions on a consistent database.
\<close>

section \<open>The promotion upsert\<close>

definition revived_promotion :: "promotion \<Rightarrow> gateway_deployment \<Rightarrow> gateway_target \<Rightarrow> promotion" where
  "revived_promotion p d g = p\<lparr>pr_status := ''promoting'', pr_source_deployment_id := Some (dep_id d),
     pr_target_gateway_ids := JArr [JStr (uuid_str (gt_id g))], pr_completed_at := None\<rparr>"

lemma active_total: "\<exists>v. get_active_promotion t a s e w = (Inr v, w)"
  and latest_total: "\<exists>v. get_latest_promoted_promotion t a s e w = (Inr v, w)"
  by (simp_all add: get_active_promotion_def get_latest_promoted_promotion_def)

lemma upsert_promotion_okE:
  assumes "upsert_promotion api actor src tgt d g force w = (Inr (p, act), w')"
  obtains (kept) "\<not> force" and "p \<in> set (promotions w)" and "in_lane (cat_tenant_id api) (cat_api_id api) src tgt p"
      and "active_status (pr_status p) \<or> pr_status p = ''promoted''" and "act = ''unchanged''" and "w' = w"
  | (revived) q where "force" and "q \<in> set (promotions w)" and "in_lane (cat_tenant_id api) (cat_api_id api) src tgt q"
      and "active_status (pr_status q)" and "p = revived_promotion q d g" and "act = ''updated''"
      and "replaceable pr_id promotion_clash p (promotions w)"
      and "w' = w\<lparr>promotions := replace_row pr_id p (promotions w)\<rparr>"
  | (started) "p = new_promotion_row (uuid_source w (uuids_used w)) api actor src tgt d g (clock w (ticks w))"
      and "act = ''created''" and "fits pr_id promotion_clash p (promotions w)"
      and "w' = w\<lparr>uuids_used := Suc (uuids_used w), ticks := Suc (ticks w), promotions := promotions w @ [p]\<rparr>"
proof -
  let ?t = "cat_tenant_id api" and ?a = "cat_api_id api"
  obtain active where act: "get_active_promotion ?t ?a src tgt w = (Inr active, w)" using active_total by blast
  obtain latest where lat: "get_latest_promoted_promotion ?t ?a src tgt w = (Inr latest, w)" using latest_total by blast
  have start_new: thesis
    if "start_promotion api actor src tgt d g None w = (Inr (p, act), w')"
    using that by (intro started) (auto simp: start_promotion_def ok_simps)
  have start_old: thesis if "start_promotion api actor src tgt d g (Some q) w = (Inr (p, act), w')" "force" "active = Some q" for q
    using that act get_active_promotion_Some [of ?t ?a src tgt w q w]
    by (intro revived [of q]) (auto simp: start_promotion_def ok_simps simp flip: revived_promotion_def)
  show thesis
  proof (cases force)
    case True
    with assms act have "start_promotion api actor src tgt d g active w = (Inr (p, act), w')"
      by (simp add: upsert_promotion_def query_bind queries_same)
    with True start_new start_old show thesis by (cases active) auto
  next
    case False
    show thesis
    proof (cases active)
      case (Some q)
      with assms act False get_active_promotion_Some [of ?t ?a src tgt w q w] show thesis
        by (intro kept) (auto simp: upsert_promotion_def query_bind queries_same)
    next
      case None
      show thesis
      proof (cases latest)
        case (Some q)
        with assms act lat False None get_latest_promoted_Some [of ?t ?a src tgt w q w] show thesis
          by (intro kept) (auto simp: upsert_promotion_def query_bind queries_same)
      next
        case None': None
        with assms act lat False None show thesis
          by (intro start_new) (simp add: upsert_promotion_def query_bind queries_same)
      qed
    qed
  qed
qed

lemma upsert_promotion_frame:
  assumes "upsert_promotion api actor src tgt d g force w = (Inr (p, act), w')"
  shows "catalogs w' = catalogs w" "gateways w' = gateways w" "deployments w' = deployments w"
    "audit_log w' = audit_log w" "link_events w' = link_events w" "sync_requests w' = sync_requests w"
    "clock w' = clock w" "uuid_source w' = uuid_source w"
    "in_lane (cat_tenant_id api) (cat_api_id api) src tgt p" "p \<in> set (promotions w')"
    "pr_status p \<in> {''pending'', ''promoting'', ''promoted''}"
  using assms
  by (cases rule: upsert_promotion_okE;
      force simp: revived_promotion_def new_promotion_row_def in_lane_def active_status_def replace_row_def)+

lemma upsert_promotion_refused: "fails_within same_tables (upsert_promotion api actor src tgt d g force)"
  unfolding upsert_promotion_def start_promotion_def
  by (intro refused_rules) simp_all

section \<open>Settlement\<close>

lemma settle_total: "\<exists>q w'. settle_promotion p d g w = (Inr q, w')"
  unfolding settle_promotion_def Let_def by (auto split: option.splits)

lemma settle_okE:
  assumes "settle_promotion p d g w = (Inr q, w')"
  shows "pr_id q = pr_id p" "pr_tenant_id q = pr_tenant_id p" "pr_api_id q = pr_api_id p"
    "pr_source_environment q = pr_source_environment p" "pr_target_environment q = pr_target_environment p"
    "pr_target_deployment_id q = Some (dep_id d)" "w' = w \<or> w' = w\<lparr>ticks := Suc (ticks w)\<rparr>"
    "pr_status q = (if deployment_synced_to_desired_generation d then ''promoted''
       else if pr_status p = ''pending'' then ''promoting'' else pr_status p)"
    "deployment_synced_to_desired_generation d \<Longrightarrow> pr_completed_at q \<noteq> None"
    "pr_requested_by q = pr_requested_by p" "pr_approved_by q = pr_approved_by p"
  using assms unfolding settle_promotion_def Let_def
  by (auto split: if_splits option.splits)

text \<open>The settled row never clashes: it is active only if the promotion already was.\<close>

lemma settled_replaceable:
  assumes "table_ok pr_id promotion_clash t" and "p \<in> set t" and "settle_promotion p d g w = (Inr q, w')"
  shows "replaceable pr_id promotion_clash q t"
proof -
  note q = settle_okE [OF assms(3)]
  have "active_status (pr_status q) \<Longrightarrow> active_status (pr_status p)"
    by (auto simp: q(8) active_status_def split: if_splits)
  with assms(1,2) q show ?thesis
    by (auto simp: replaceable_def table_ok_def promotion_clash_def)
qed

section \<open>promote\_to\_environment\<close>

lemma upsert_promotion_bind_ok: "bindA (upsert_promotion api actor src tgt d g force) k w = (Inr y, w') \<longleftrightarrow>
    (\<exists>p act w1. upsert_promotion api actor src tgt d g force w = (Inr (p, act), w1) \<and> k (p, act) w1 = (Inr y, w'))"
  by (simp add: bind_ok)

lemma settle_bind_ok: "bindA (settle_promotion p d g) k w = (Inr y, w') \<longleftrightarrow>
    (\<exists>q w1. settle_promotion p d g w = (Inr q, w1) \<and> k q w1 = (Inr y, w'))"
  by (simp add: bind_ok)

lemma run_promotion_okE:
  assumes "run_promotion hst c actor api src tgt sg tg sd w = (Inr out, w')"
  obtains p pact w1 d dact w2 q w3 where
      "upsert_promotion api actor src tgt sd tg (mc_force c) w = (Inr (p, pact), w1)"
      and "upsert_gateway_deployment hst api tg (promotion_desired_state hst api src tgt sg tg sd p) (mc_force c)
             (Some (pr_id p)) w1 = (Inr (d, dact), w2)"
      and "settle_promotion p d tg w2 = (Inr q, w3)"
      and "replaceable pr_id promotion_clash q (promotions w3)"
      and "logged_as actor (if promotion_result pact dact = ''unchanged'' then ''api_lifecycle.promotion_idempotent''
               else ''api_lifecycle.promotion_requested'') ''success'' (cat_tenant_id api) (cat_api_id api)
             (w3\<lparr>promotions := replace_row pr_id q (promotions w3)\<rparr>) w'"
      and "mo_promotion_id out = pr_id q" and "mo_promotion_status out = pr_status q"
      and "mo_target_deployment_id out = dep_id d" and "mo_deployment_status out = sync_value (dep_sync_status d)"
      and "mo_result out = promotion_result pact dact"
      and "mo_source_environment out = src" and "mo_target_environment out = tgt"
proof -
  from assms show thesis
    unfolding run_promotion_def
    apply (simp add: ok_simps upsert_promotion_bind_ok upsert_bind_ok settle_bind_ok)
    apply (elim exE conjE)
    subgoal for p pact w1 d dact w2 q w3
      by (hypsubst, rule that [of p pact w1 d dact w2 q w3]) (simp_all split del: if_split)
    done
qed

text \<open>What every promotion has checked before it writes.\<close>

definition promotable :: "promote_command \<Rightarrow> string \<Rightarrow> string \<Rightarrow> api_catalog \<Rightarrow> gateway_instance \<Rightarrow> gateway_instance \<Rightarrow>
    gateway_deployment \<Rightarrow> world \<Rightarrow> bool" where
  "promotable c src tgt api sgi tgi sd w \<longleftrightarrow>
     lifecycle_environment (mc_source_environment c) = Inr src \<and> lifecycle_environment (mc_target_environment c) = Inr tgt \<and>
     ((src = ''dev'' \<and> tgt = ''staging'') \<or> (src = ''staging'' \<and> tgt = ''production'')) \<and>
     get_api_by_id (mc_tenant_id c) (mc_api_id c) w = (Inr (Some api), w) \<and> cat_status api = ''ready'' \<and>
     meant_gateway (mc_tenant_id c) src (mc_source_gateway_instance_id c) w sgi \<and>
     meant_gateway (mc_tenant_id c) tgt (mc_target_gateway_instance_id c) w tgi \<and>
     production_git_guard_violation api (gateway_target_from_model tgi) = None \<and>
     get_gateway_deployment (cat_id api) (gi_id sgi) w = (Inr (Some sd), w) \<and> dep_sync_status sd = SYNCED \<and>
     source_published api src (gateway_target_from_model sgi) sd"

lemma promote_okE:
  assumes "promote_to_environment hst c actor w = (Inr out, w')"
  obtains src tgt api sgi tgi sd where "promotable c src tgt api sgi tgi sd w"
      and "run_promotion hst c actor api src tgt (gateway_target_from_model sgi) (gateway_target_from_model tgi) sd w
             = (Inr out, w')"
proof -
  from assms show thesis
    unfolding promote_to_environment_def resolve_promotion_gateway_def
    apply (simp add: ok_simps ok_catch_bind resolve_bind_ok)
    apply (elim exE conjE)
    subgoal premises prems for src tgt v api sg tg v' sd
    proof -
      from prems obtain sgi where s: "sg = gateway_target_from_model sgi"
        "meant_gateway (mc_tenant_id c) src (mc_source_gateway_instance_id c) w sgi" by (blast elim: resolve_gateway_targetE)
      from prems obtain tgi where t: "tg = gateway_target_from_model tgi"
        "meant_gateway (mc_tenant_id c) tgt (mc_target_gateway_instance_id c) w tgi" by (blast elim: resolve_gateway_targetE)
      from prems s t show thesis
        by (intro that [of src tgt api sgi tgi sd]) (simp_all add: promotable_def flip: validate_promotion_chain_iff)
    qed
    done
qed

end
