(* ===== verification/LifecycleInvariants.thy ===== *)
theory LifecycleInvariants
  imports PromoteFacts
begin

text \<open>
  What holds of every operation of the lifecycle service, whatever its outcome: the
  constraints of the database are kept, audit records and notifications are only appended,
  identifiers still to be drawn stay unused, and a refused operation changes no row.
\<close>

section \<open>Constraints and logs\<close>

lemma keeps_db_ok_steps [simp]:
  "acts_within keeps_db_ok nowA" "acts_within keeps_db_ok uuid4A"
  "acts_within keeps_db_ok (record_transition t a ac i n d out s p)"
  "acts_within keeps_db_ok (state_from_catalog api)" "acts_within keeps_db_ok (queue_gateway_deployment hst dep tn)"
  "acts_within keeps_db_ok (refuse_validation api actor c m s' e)"
  "acts_within keeps_db_ok (refuse_deploy api actor env c m s' e)"
  "acts_within keeps_db_ok (refuse_publish api actor env c m s' gid did e)"
  "acts_within keeps_db_ok (refuse_promotion api actor src tgt c m s' sgid tgid sdid e)"
  by (intro keeps_db_ok_same same_tables_basic refusal_same)+

lemma keeps_db_ok_writes [simp]:
  "acts_within keeps_db_ok (create_api_catalog r)" "acts_within keeps_db_ok (save_api_catalog r)"
  "acts_within keeps_db_ok (create_gateway_deployment d)" "acts_within keeps_db_ok (save_gateway_deployment d)"
  "acts_within keeps_db_ok (create_promotion p)" "acts_within keeps_db_ok (save_promotion p)"
  unfolding create_api_catalog_def save_api_catalog_def create_gateway_deployment_def save_gateway_deployment_def
    create_promotion_def save_promotion_def
  by (intro keeps_db_ok.steps_bindA keeps_db_ok_puts keeps_db_ok.steps_retA)+

lemma log_grows_writes [simp]:
  "acts_within log_grows (create_api_catalog r)" "acts_within log_grows (save_api_catalog r)"
  "acts_within log_grows (create_gateway_deployment d)" "acts_within log_grows (save_gateway_deployment d)"
  "acts_within log_grows (create_promotion p)" "acts_within log_grows (save_promotion p)"
  unfolding create_api_catalog_def save_api_catalog_def create_gateway_deployment_def save_gateway_deployment_def
    create_promotion_def save_promotion_def
  by (intro log_grows.steps_bindA log_grows_puts log_grows.steps_retA)+

lemma log_grows_refusals [simp]:
  "acts_within log_grows (refuse_validation api actor c m s' e)"
  "acts_within log_grows (refuse_deploy api actor env c m s' e)"
  "acts_within log_grows (refuse_publish api actor env c m s' gid did e)"
  "acts_within log_grows (refuse_promotion api actor src tgt c m s' sgid tgid sdid e)"
  unfolding refuse_validation_def audit_validation_failure_def refuse_deploy_def audit_deploy_failure_def
    refuse_publish_def audit_publish_failure_def refuse_promotion_def audit_promotion_failure_def
  by (intro log_grows.steps_rules log_grows_basic)+

text \<open>Any relation that the single steps respect is respected by the whole service.\<close>

locale lifecycle_relation = state_relation R for R :: "world \<Rightarrow> world \<Rightarrow> bool" +
  assumes respects_clock: "acts_within R nowA" and respects_uuid: "acts_within R uuid4A"
    and respects_audit: "acts_within R (record_transition t a ac i n d out s p)"
    and respects_state: "acts_within R (state_from_catalog api)"
    and respects_queue: "acts_within R (queue_gateway_deployment hst dep tn)"
    and respects_catalog_writes: "acts_within R (create_api_catalog r)" "acts_within R (save_api_catalog r)"
    and respects_deployment_writes: "acts_within R (create_gateway_deployment dep)" "acts_within R (save_gateway_deployment dep)"
    and respects_promotion_writes: "acts_within R (create_promotion pr)" "acts_within R (save_promotion pr)"
begin

lemma respects_queries: "acts_within R (get_api_by_id t a)" "acts_within R (get_api_by_name_version t n v)"
    "acts_within R (get_gateway_target t g)" "acts_within R (list_gateway_targets t e)"
    "acts_within R (get_gateway_deployment c g)" "acts_within R (get_active_promotion t a s e)"
    "acts_within R (get_latest_promoted_promotion t a s e)"
    "acts_within R (get_active_promotion_for_target_deployment t a e dp)"
  by (simp_all add: state_relation_axioms)

lemma respects_refusals:
  "acts_within R (refuse_validation api actor c m s e)" "acts_within R (refuse_deploy api actor env c m s e)"
  "acts_within R (refuse_publish api actor env c m s gid did e)"
  "acts_within R (refuse_promotion api actor src tgt c m s sgid tgid sdid e)"
  unfolding refuse_validation_def audit_validation_failure_def refuse_deploy_def audit_deploy_failure_def
    refuse_publish_def audit_publish_failure_def refuse_promotion_def audit_promotion_failure_def
  by (intro steps_rules respects_audit)+

lemmas respects = respects_clock respects_uuid respects_audit respects_state respects_queue respects_catalog_writes
  respects_deployment_writes respects_promotion_writes respects_queries respects_refusals steps_rules

lemma respects_resolve: "acts_within R (resolve_gateway_target t e g)"
  by (rule resolve_gateway_target_same) (rule state_relation_axioms)

lemma respects_create: "acts_within R (create_draft hst c actor)"
  unfolding create_draft_def by (intro respects)

lemma respects_validate: "acts_within R (validate_draft hst c actor)"
  unfolding validate_draft_def by (intro respects)

lemma respects_upsert: "acts_within R (upsert_gateway_deployment hst api g ds force pid)"
  unfolding upsert_gateway_deployment_def by (intro respects)

lemma respects_deploy: "acts_within R (deploy_to_environment hst c actor)"
  unfolding deploy_to_environment_def by (intro respects respects_resolve respects_upsert)

lemma respects_complete: "acts_within R (complete_promotion_for_publication api actor env gid did)"
  unfolding complete_promotion_for_publication_def by (intro respects)

lemma respects_publish: "acts_within R (publish_to_portal hst c actor)"
  unfolding publish_to_portal_def resolve_publish_gateway_def validate_publishable_spec_def publish_unchanged_def
    publish_now_def
  by (intro respects respects_resolve respects_complete)

lemma respects_settle: "acts_within R (settle_promotion p d g)"
  unfolding settle_promotion_def by (intro respects)

lemma respects_upsert_promotion: "acts_within R (upsert_promotion api actor src tgt d g force)"
  unfolding upsert_promotion_def start_promotion_def by (intro respects)

lemma respects_run_promotion: "acts_within R (run_promotion hst c actor api src tgt sg tg sd)"
  unfolding run_promotion_def by (intro respects respects_upsert_promotion respects_upsert respects_settle)

lemma respects_promote: "acts_within R (promote_to_environment hst c actor)"
  unfolding promote_to_environment_def resolve_promotion_gateway_def
  by (intro respects respects_resolve respects_run_promotion)

end

interpretation db_constraints: lifecycle_relation keeps_db_ok
  by unfold_locales simp_all

interpretation append_only: lifecycle_relation log_grows
  by unfold_locales simp_all

section \<open>Other relations the service respects\<close>

text \<open>No row is ever deleted or renumbered: the keys of a table are a prefix of the keys after.\<close>

definition keeps_rows :: "world \<Rightarrow> world \<Rightarrow> bool" where
  "keeps_rows w w' \<longleftrightarrow> prefix (map cat_id (catalogs w)) (map cat_id (catalogs w')) \<and>
     prefix (map dep_id (deployments w)) (map dep_id (deployments w')) \<and>
     prefix (map pr_id (promotions w)) (map pr_id (promotions w'))"

text \<open>The gateways, the sources of time and identifiers and the Kafka queue are not the service's to change.\<close>

definition keeps_environment :: "world \<Rightarrow> world \<Rightarrow> bool" where
  "keeps_environment w w' \<longleftrightarrow> gateways w' = gateways w \<and> clock w' = clock w \<and> uuid_source w' = uuid_source w \<and>
     sync_requests w' = sync_requests w \<and> ticks w \<le> ticks w' \<and> uuids_used w \<le> uuids_used w'"

lemma replace_row_keys [simp]: "map key (replace_row key row t) = map key t"
  by (simp add: replace_row_def)

lemmas step_defs = acts_within_def record_transition_def state_from_catalog_def bindA_def getA_def retA_def
  list_gateway_deployments_def list_promotions_def queue_gateway_deployment_def queue_sse_event_def whenA_def
  create_api_catalog_def save_api_catalog_def create_gateway_deployment_def save_gateway_deployment_def
  create_promotion_def save_promotion_def put_catalogs_def put_deployments_def put_promotions_def
  insert_row_fits save_row_replace

interpretation keeps_rows: lifecycle_relation keeps_rows
  by unfold_locales (auto simp: keeps_rows_def step_defs)

interpretation keeps_environment: lifecycle_relation keeps_environment
  by unfold_locales (auto simp: keeps_environment_def step_defs)

end
