(* ===== verification/LifecycleProgress.thy ===== *)
theory LifecycleProgress
  imports LifecycleInvariants
begin

text \<open>
  When the operations of the lifecycle service succeed: on a consistent database whose
  identifier supply is unused, each succeeds exactly under the conditions stated here.
\<close>

text \<open>
  \<open>uuid4()\<close> does not repeat itself: the next \<open>k\<close> identifiers the supply hands out are distinct and
  the key of no row.
\<close>

definition row_ids :: "world \<Rightarrow> uuid set" where
  "row_ids w = cat_id ` set (catalogs w) \<union> dep_id ` set (deployments w) \<union> pr_id ` set (promotions w)"

definition fresh_ids :: "nat \<Rightarrow> world \<Rightarrow> bool" where
  "fresh_ids k w \<longleftrightarrow> distinct (map (uuid_source w) [uuids_used w..<uuids_used w + k]) \<and>
     (\<forall>n < k. uuid_source w (uuids_used w + n) \<notin> row_ids w)"

lemma fresh_idsD:
  assumes "fresh_ids k w" and "n < k"
  shows "uuid_source w (uuids_used w + n) \<notin> cat_id ` set (catalogs w)"
    "uuid_source w (uuids_used w + n) \<notin> dep_id ` set (deployments w)"
    "uuid_source w (uuids_used w + n) \<notin> pr_id ` set (promotions w)"
  using assms by (auto simp: fresh_ids_def row_ids_def)

lemma fresh_next:
  assumes "fresh_ids k w" and "0 < k"
  shows "uuid_source w (uuids_used w) \<notin> cat_id ` set (catalogs w)"
    "uuid_source w (uuids_used w) \<notin> dep_id ` set (deployments w)"
    "uuid_source w (uuids_used w) \<notin> pr_id ` set (promotions w)"
  using fresh_idsD [OF assms] by simp_all

section \<open>create\_draft\<close>

definition draft_accepted :: "host \<Rightarrow> create_command \<Rightarrow> world \<Rightarrow> create_command \<Rightarrow> jdict option \<Rightarrow> bool" where
  "draft_accepted hst c w n parsed \<longleftrightarrow>
     normalize_create_command c = Inr n \<and>
     find_legacy_portal_publication_tags (map JStr (cc_tags n)) = [] \<and>
     (\<forall>r \<in> set (catalogs w). cat_deleted_at r = None \<longrightarrow> cat_tenant_id r = cc_tenant_id n \<longrightarrow>
        \<not> (cat_api_name r = cc_name n \<and> cat_version r = cc_version n) \<and> cat_api_id r \<noteq> slugify (cc_name n)) \<and>
     parse_openapi_contract hst (cc_openapi_spec n) = Inr parsed \<and>
     (truthy (spec_json parsed) \<or> opt_truthy (cc_spec_reference n))"

lemma names_free:
  "get_api_by_name_version t n v w = (Inr None, w) \<longleftrightarrow> (\<forall>r \<in> set (catalogs w). \<not> (cat_tenant_id r = t \<and> cat_api_name r = n \<and>
     cat_version r = v \<and> cat_deleted_at r = None))"
  "get_api_by_id t a w = (Inr None, w) \<longleftrightarrow> (\<forall>r \<in> set (catalogs w). \<not> (cat_tenant_id r = t \<and> cat_api_id r = a \<and>
     cat_deleted_at r = None))"
  by (simp_all add: get_api_by_name_version_def get_api_by_id_def scalar_one_or_none_None filter_empty_conv)

lemma create_draft_iff:
  assumes fresh: "fresh_ids 1 w"
  shows "(\<exists>st w'. create_draft hst c actor w = (Inr st, w')) \<longleftrightarrow> (\<exists>n parsed. draft_accepted hst c w n parsed)"
proof
  assume "\<exists>st w'. create_draft hst c actor w = (Inr st, w')"
  then obtain st w' where "create_draft hst c actor w = (Inr st, w')" by blast
  then show "\<exists>n parsed. draft_accepted hst c w n parsed"
    by (cases rule: create_draft_okE) (auto simp: draft_accepted_def names_free)
next
  assume "\<exists>n parsed. draft_accepted hst c w n parsed"
  then obtain n parsed where acc: "draft_accepted hst c w n parsed" by blast
  let ?row = "draft_row (uuid_source w (uuids_used w)) (clock w (ticks w)) n parsed"
  have fit: "fits cat_id catalog_clash ?row (catalogs w)"
    using acc fresh_next(1) [OF fresh]
    by (force simp: fits_def catalog_clash_def draft_row_def draft_accepted_def)
  have free: "get_api_by_name_version (cc_tenant_id n) (cc_name n) (cc_version n) w = (Inr None, w)"
    "get_api_by_id (cc_tenant_id n) (slugify (cc_name n)) w = (Inr None, w)"
    using acc by (auto simp: names_free draft_accepted_def)
  from acc fit free show "\<exists>st w'. create_draft hst c actor w = (Inr st, w')"
    by (cases "truthy (spec_json parsed)")
      (simp_all add: create_draft_def draft_accepted_def query_bind queries_same run_simps draft_row_def Let_def)
qed

section \<open>validate\_draft\<close>

lemma get_api_by_id_iff:
  assumes "db_ok w"
  shows "get_api_by_id t a w = (Inr (Some api), w) \<longleftrightarrow>
    api \<in> set (catalogs w) \<and> cat_tenant_id api = t \<and> cat_api_id api = a \<and> cat_deleted_at api = None"
  using get_api_by_id_Some get_api_by_id_finds [OF assms] by blast

lemma catalog_replaceable:
  assumes "table_ok cat_id catalog_clash t" and "api \<in> set t" and "cat_id r = cat_id api"
    and "cat_tenant_id r = cat_tenant_id api" and "cat_api_id r = cat_api_id api" and "cat_api_name r = cat_api_name api"
    and "cat_version r = cat_version api" and "cat_deleted_at r = cat_deleted_at api"
  shows "replaceable cat_id catalog_clash r t"
  using assms by (auto simp: replaceable_def table_ok_def catalog_clash_def)

definition draft_validatable :: "host \<Rightarrow> validate_command \<Rightarrow> world \<Rightarrow> api_catalog \<Rightarrow> bool" where
  "draft_validatable hst c w api \<longleftrightarrow>
     api \<in> set (catalogs w) \<and> cat_tenant_id api = vc_tenant_id c \<and> cat_api_id api = vc_api_id c \<and>
     cat_deleted_at api = None \<and> cat_status api \<in> {''draft'', ''ready''} \<and>
     (\<exists>r. validate_openapi_contract hst (cat_openapi_spec api) = Inr r) \<and>
     (\<exists>lc. lifecycle_dict api = Inr lc \<and> \<not> spec_locked hst api lc)"

lemma accepted_spec_truthy:
  assumes "validate_openapi_contract hst spec = Inr r"
  shows "truthy spec"
proof (cases spec)
  case (JObj d)
  with assms have "contract_ok d" using validate_openapi_contract_ok by blast
  then have "d \<noteq> []" by (auto simp: contract_ok_def dget_def)
  with JObj show ?thesis by simp
next
  case (JStr s)
  have "py_strip [] = []" by (simp add: py_strip_def strip_by_def)
  with assms JStr have "s \<noteq> []" by (auto simp: validate_openapi_contract_def parse_openapi_contract_def invalid_spec_def)
  with JStr show ?thesis by simp
qed (use assms in \<open>auto simp: validate_openapi_contract_def parse_openapi_contract_def invalid_spec_def Let_def split: if_splits\<close>)

lemma validate_draft_iff:
  assumes ok: "db_ok w"
  shows "(\<exists>out w'. validate_draft hst c actor w = (Inr out, w')) \<longleftrightarrow> (\<exists>api. draft_validatable hst c w api)"
proof
  assume "\<exists>out w'. validate_draft hst c actor w = (Inr out, w')"
  then obtain out w' where "validate_draft hst c actor w = (Inr out, w')" by blast
  then show "\<exists>api. draft_validatable hst c w api"
    by (cases rule: validate_draft_okE) (auto simp: draft_validatable_def get_api_by_id_iff [OF ok])
next
  assume "\<exists>api. draft_validatable hst c w api"
  then obtain api r lc where v: "draft_validatable hst c w api"
    and r: "validate_openapi_contract hst (cat_openapi_spec api) = Inr r"
    and lc: "lifecycle_dict api = Inr lc" "\<not> spec_locked hst api lc" unfolding draft_validatable_def by blast
  let ?row = "validation_row hst api lc (clock w (ticks w)) r"
  have rep: "replaceable cat_id catalog_clash ?row (catalogs w)"
    using ok v unfolding db_ok_def draft_validatable_def
    by (intro catalog_replaceable [of _ api]) (auto simp: validation_row_def)
  have get: "get_api_by_id (vc_tenant_id c) (vc_api_id c) w = (Inr (Some api), w)"
    using v by (simp add: draft_validatable_def get_api_by_id_iff [OF ok])
  have st: "cat_status api \<noteq> ''archived''" "\<not> cat_status api \<notin> {''draft'', ''ready''}"
    "\<not> (\<not> truthy (cat_openapi_spec api) \<and> truthy (ss_reference (spec_state_of api)))"
    using v accepted_spec_truthy [OF r] by (auto simp: draft_validatable_def)
  show "\<exists>out w'. validate_draft hst c actor w = (Inr out, w')"
    unfolding validate_draft_def query_bind [OF queries_same(1)] get fst_conv sum.case option.case if_not_P [OF st(1)]
      if_not_P [OF st(2)] Let_def if_not_P [OF st(3)] r clock_bind lc(1)
    using lc(2) rep by (auto simp: spec_locked_def run_simps simp flip: validation_row_def)
qed

section \<open>The upsert\<close>

text \<open>The row an upsert asks the runtime for: a new desired state, a new generation, nothing acknowledged.\<close>

definition requested_anew :: "jdict \<Rightarrow> world \<Rightarrow> gateway_deployment \<Rightarrow> bool" where
  "requested_anew ds w d \<longleftrightarrow> dep_desired_state d = JObj ds \<and> dep_sync_status d = PENDING \<and> dep_sync_error d = None \<and>
     dep_sync_attempts d = 0 \<and> dep_desired_generation d = (case find (\<lambda>e. dep_id e = dep_id d) (deployments w) of
        None \<Rightarrow> 1 | Some e \<Rightarrow> dep_desired_generation e + 1)"

lemma find_row: "distinct (map key t) \<Longrightarrow> r \<in> set t \<Longrightarrow> key r = i \<Longrightarrow> find (\<lambda>s. key s = i) t = Some r"
  by (induction t) (auto simp: rev_image_eqI)

lemma find_fits: "fits key clash row t \<Longrightarrow> find (\<lambda>s. key s = key row) t = None"
  by (auto simp: find_None_iff fits_def)

lemma upsert_effect:
  assumes up: "upsert_gateway_deployment hst api g ds force pid w = (Inr (d, act), w')" and ok: "db_ok w"
  shows "d \<in> set (deployments w')" "dep_api_catalog_id d = cat_id api" "dep_gateway_instance_id d = gt_id g"
    "act = ''unchanged'' \<Longrightarrow> \<not> force \<and> jeq (dep_desired_state d) (JObj ds) \<and> (\<exists>e \<in> set (deployments w). d = relink pid e)"
    "act \<noteq> ''unchanged'' \<Longrightarrow> requested_anew ds w d"
    "filter (\<lambda>r. dep_id r \<noteq> dep_id d) (deployments w') = filter (\<lambda>r. dep_id r \<noteq> dep_id d) (deployments w)"
    "get_gateway_deployment (cat_id api) (gt_id g) w' = (Inr (Some d), w')"
    "catalogs w' = catalogs w" "gateways w' = gateways w" "promotions w' = promotions w" "audit_log w' = audit_log w"
    "pid \<noteq> None \<Longrightarrow> dep_promotion_id d = pid"
proof -
  have other: "filter (\<lambda>r. dep_id r \<noteq> dep_id x) (replace_row dep_id x t) = filter (\<lambda>r. dep_id r \<noteq> dep_id x) t" for x t
    by (induction t) (auto simp: replace_row_def)
  have there: "e \<in> set t \<Longrightarrow> dep_id x = dep_id e \<Longrightarrow> x \<in> set (replace_row dep_id x t)" for x e t
    by (force simp: replace_row_def)
  have dist: "distinct (map dep_id (deployments w))" using ok by (simp add: db_ok_def table_ok_def)
  have all: "d \<in> set (deployments w') \<and> dep_api_catalog_id d = cat_id api \<and> dep_gateway_instance_id d = gt_id g \<and>
      (act = ''unchanged'' \<longrightarrow> \<not> force \<and> jeq (dep_desired_state d) (JObj ds) \<and> (\<exists>e \<in> set (deployments w). d = relink pid e)) \<and>
      (act \<noteq> ''unchanged'' \<longrightarrow> requested_anew ds w d) \<and>
      filter (\<lambda>r. dep_id r \<noteq> dep_id d) (deployments w') = filter (\<lambda>r. dep_id r \<noteq> dep_id d) (deployments w) \<and>
      catalogs w' = catalogs w \<and> gateways w' = gateways w \<and> promotions w' = promotions w \<and> audit_log w' = audit_log w"
    using up
  proof (cases rule: upsert_okE)
    case (unchanged e)
    from get_gateway_deployment_Some [OF unchanged(2)] have e: "e \<in> set (deployments w)" "dep_api_catalog_id e = cat_id api"
      "dep_gateway_instance_id e = gt_id g" by auto
    have src: "\<exists>x \<in> set (deployments w). d = relink pid x" using e(1) unchanged(6) by blast
    have "deployments w' = deployments w \<and> d \<in> set (deployments w) \<or> deployments w' = replace_row dep_id d (deployments w)"
      using unchanged(7) e(1) by auto
    with there [OF e(1), of d] other [of d "deployments w"] unchanged(6) have
      "d \<in> set (deployments w') \<and>
       filter (\<lambda>r. dep_id r \<noteq> dep_id d) (deployments w') = filter (\<lambda>r. dep_id r \<noteq> dep_id d) (deployments w)"
      by fastforce
    with unchanged(3-7) e src show ?thesis by simp
  next
    case (updated e)
    from get_gateway_deployment_Some [OF updated(2)] have e: "e \<in> set (deployments w)" "dep_api_catalog_id e = cat_id api"
      "dep_gateway_instance_id e = gt_id g" by auto
    have id: "dep_id d = dep_id e" by (simp add: updated(5) redeploy_row_def)
    from find_row [OF dist e(1)] id have "find (\<lambda>x. dep_id x = dep_id d) (deployments w) = Some e" by simp
    then have "requested_anew ds w d" by (simp add: requested_anew_def updated(5)) (simp add: redeploy_row_def)
    with updated e id there [OF e(1) id] other [of d "deployments w"] show ?thesis by (simp add: redeploy_row_def)
  next
    case created
    from find_fits [OF created(5)] have "requested_anew ds w d"
      by (simp add: requested_anew_def created(4)) (simp add: new_deployment_row_def)
    with created show ?thesis by (simp add: new_deployment_row_def)
  qed
  then show "d \<in> set (deployments w')" "dep_api_catalog_id d = cat_id api" "dep_gateway_instance_id d = gt_id g"
    "act = ''unchanged'' \<Longrightarrow> \<not> force \<and> jeq (dep_desired_state d) (JObj ds) \<and> (\<exists>e \<in> set (deployments w). d = relink pid e)"
    "act \<noteq> ''unchanged'' \<Longrightarrow> requested_anew ds w d"
    "filter (\<lambda>r. dep_id r \<noteq> dep_id d) (deployments w') = filter (\<lambda>r. dep_id r \<noteq> dep_id d) (deployments w)"
    "catalogs w' = catalogs w" "gateways w' = gateways w" "promotions w' = promotions w" "audit_log w' = audit_log w"
    by simp_all
  show "pid \<noteq> None \<Longrightarrow> dep_promotion_id d = pid"
    using up by (cases rule: upsert_okE)
      (auto simp: relink_def is_some_other_def redeploy_row_def new_deployment_row_def or_uuid_def split: option.splits if_splits)
  from stepsD [OF db_constraints.respects_upsert up] ok have "db_ok w'" by (simp add: keeps_db_ok_def)
  from get_gateway_deployment_finds [OF this, of d] all show "get_gateway_deployment (cat_id api) (gt_id g) w' = (Inr (Some d), w')"
    by (elim conjE) simp
qed

text \<open>Asking again for the same desired state changes nothing but the clock.\<close>

lemma upsert_again:
  assumes "get_gateway_deployment (cat_id api) (gt_id g) w = (Inr (Some e), w)" and "jeq (dep_desired_state e) (JObj ds)"
    and "production_git_guard_violation api g = None"
  shows "upsert_gateway_deployment hst api g ds False None w = (Inr (e, ''unchanged''), w\<lparr>ticks := Suc (ticks w)\<rparr>)"
proof -
  have "get_gateway_deployment (cat_id api) (gt_id g) (w\<lparr>ticks := Suc (ticks w)\<rparr>) = (Inr (Some e), w\<lparr>ticks := Suc (ticks w)\<rparr>)"
    using assms(1) by (simp add: get_gateway_deployment_def)
  with assms show ?thesis
    by (simp add: upsert_gateway_deployment_def query_bind queries_same is_some_other_def)
qed

section \<open>deploy\_to\_environment\<close>

definition catalog_row :: "string \<Rightarrow> string \<Rightarrow> world \<Rightarrow> api_catalog \<Rightarrow> bool" where
  "catalog_row t a w api \<longleftrightarrow> api \<in> set (catalogs w) \<and> cat_tenant_id api = t \<and> cat_api_id api = a \<and> cat_deleted_at api = None"

definition deployable :: "target_command \<Rightarrow> world \<Rightarrow> string \<Rightarrow> api_catalog \<Rightarrow> gateway_instance \<Rightarrow> bool" where
  "deployable c w env api gi \<longleftrightarrow>
     lifecycle_environment (tc_environment c) = Inr env \<and> catalog_row (tc_tenant_id c) (tc_api_id c) w api \<and>
     cat_status api = ''ready'' \<and> meant_gateway (tc_tenant_id c) env (tc_gateway_instance_id c) w gi \<and>
     (normalize_environment (JStr (gi_environment gi)) = Some ''production'' \<longrightarrow> opt_truthy (cat_git_commit_sha api))"

lemma meant_gateway_same: "gateways w' = gateways w \<Longrightarrow> meant_gateway t env gid w' gi = meant_gateway t env gid w gi"
  by (simp add: meant_gateway_def split: option.split)

lemma deployable_same:
  assumes "catalogs w' = catalogs w" and "gateways w' = gateways w"
  shows "deployable c w' env api gi = deployable c w env api gi"
  unfolding deployable_def catalog_row_def meant_gateway_same [OF assms(2)] assms(1) ..

lemma guard_gateway: "production_git_guard_violation api (gateway_target_from_model gi) = None \<longleftrightarrow>
    (normalize_environment (JStr (gi_environment gi)) = Some ''production'' \<longrightarrow> opt_truthy (cat_git_commit_sha api))"
  by (simp add: guard_None)

lemma get_row_iff: "db_ok w \<Longrightarrow> get_api_by_id t a w = (Inr (Some api), w) \<longleftrightarrow> catalog_row t a w api"
  by (simp add: get_api_by_id_iff catalog_row_def)

lemma resolve_bind_run: "resolve_gateway_target t env gid w = (Inr g, w) \<Longrightarrow>
    bindA (catchA (resolve_gateway_target t env gid) p h) k w = k g w"
  by (simp add: bindA_def catchA_def)

lemma upsert_bind_run: "upsert_gateway_deployment hst api g ds force pid w = (Inr (d, act), w1) \<Longrightarrow>
    bindA (upsert_gateway_deployment hst api g ds force pid) k w = k (d, act) w1"
  by (rule bindA_run)

lemma deploy_runs:
  assumes ok: "db_ok w" and d: "deployable c w env api gi"
    and up: "upsert_gateway_deployment hst api (gateway_target_from_model gi)
      (deploy_desired_state hst api env (gateway_target_from_model gi)) (tc_force c) None w = (Inr (dep, act), w1)"
  shows "\<exists>out w'. deploy_to_environment hst c actor w = (Inr out, w') \<and> do_action out = act \<and>
    do_deployment_id out = dep_id dep \<and> deployments w' = deployments w1 \<and> link_events w' = link_events w1"
proof -
  from d have get: "get_api_by_id (tc_tenant_id c) (tc_api_id c) w = (Inr (Some api), w)"
    and env: "lifecycle_environment (tc_environment c) = Inr env" and st: "\<not> cat_status api \<noteq> ''ready''"
    and guard: "production_git_guard_violation api (gateway_target_from_model gi) = None"
    and res: "resolve_gateway_target (tc_tenant_id c) env (tc_gateway_instance_id c) w = (Inr (gateway_target_from_model gi), w)"
    by (simp_all add: deployable_def get_row_iff [OF ok] guard_gateway resolve_meant [OF ok])
  show ?thesis
    unfolding deploy_to_environment_def env bindA_simps query_bind [OF queries_same(1)] get fst_conv sum.case option.case
      if_not_P [OF st] resolve_bind_run [OF res] guard upsert_bind_run [OF up]
    by simp
qed

lemma deploy_iff:
  assumes ok: "db_ok w" and fresh: "fresh_ids 1 w"
  shows "(\<exists>out w'. deploy_to_environment hst c actor w = (Inr out, w')) \<longleftrightarrow> (\<exists>env api gi. deployable c w env api gi)"
proof
  assume "\<exists>out w'. deploy_to_environment hst c actor w = (Inr out, w')"
  then obtain out w' where "deploy_to_environment hst c actor w = (Inr out, w')" by blast
  then show "\<exists>env api gi. deployable c w env api gi"
    by (cases rule: deploy_okE) (auto simp: deployable_def get_row_iff [OF ok] simp flip: guard_gateway)
next
  assume "\<exists>env api gi. deployable c w env api gi"
  then obtain env api gi where d: "deployable c w env api gi" by blast
  then have guard: "production_git_guard_violation api (gateway_target_from_model gi) = None"
    by (simp add: deployable_def guard_gateway)
  from upsert_total [OF ok guard fresh_next(2) [OF fresh zero_less_one]]
  obtain dep act w1 where "upsert_gateway_deployment hst api (gateway_target_from_model gi)
      (deploy_desired_state hst api env (gateway_target_from_model gi)) (tc_force c) None w = (Inr (dep, act), w1)" by fast
  from deploy_runs [OF ok d this] show "\<exists>out w'. deploy_to_environment hst c actor w = (Inr out, w')" by blast
qed

section \<open>publish\_to\_portal\<close>

text \<open>The publication can be stored: what the metadata has in its place is a mapping or empty.\<close>

definition publication_storable :: "api_catalog \<Rightarrow> bool" where
  "publication_storable api \<longleftrightarrow> (\<exists>lc pubs. dict_or_empty (dget (metadata_of api) ''lifecycle'') = Inr lc \<and>
     dict_or_empty (dget lc ''portal_publications'') = Inr pubs)"

lemma portal_publish_iff: "(\<exists>api'. portal_publish api p = Inr api') \<longleftrightarrow> publication_storable api"
  by (auto simp: portal_publish_def publication_storable_def Let_def split: sum.splits)

lemma complete_then: "(\<And>v. \<exists>y v'. k () v = (Inr y, v')) \<Longrightarrow>
    \<exists>y v'. bindA (complete_promotion_for_publication api actor env gid did) k w = (Inr y, v')"
  using complete_total [of api actor env gid did w] by (auto simp: bind_ok)

text \<open>A publication that is already there is answered without publishing again.\<close>

lemma publish_runs:
  assumes ok: "db_ok w" and p: "publishable hst c env api gi d r w"
  shows "publish_to_portal hst c actor w =
      (if already_published api (portal_publication_record api env (gi_id gi)) (spec_fingerprint hst (cat_openapi_spec api)) d
            (tc_force c)
       then publish_unchanged api actor env (gateway_target_from_model gi) d
       else publish_now hst api actor env (gateway_target_from_model gi) d r (portal_publication_record api env (gi_id gi))) w"
proof -
  let ?g = "gateway_target_from_model gi"
  from p have env: "lifecycle_environment (tc_environment c) = Inr env"
    and get: "get_api_by_id (tc_tenant_id c) (tc_api_id c) w = (Inr (Some api), w)" and st: "\<not> cat_status api \<noteq> ''ready''"
    and res: "resolve_gateway_target (tc_tenant_id c) env (tc_gateway_instance_id c) w = (Inr ?g, w)"
    and dep: "get_gateway_deployment (cat_id api) (gi_id gi) w = (Inr (Some d), w)"
    and synced: "\<not> sync_value (dep_sync_status d) \<noteq> sync_value SYNCED" and fresh: "\<not> deployment_stale hst api d"
    and spec: "\<not> \<not> truthy (cat_openapi_spec api)" and r: "validate_openapi_contract hst (cat_openapi_spec api) = Inr r"
    by (simp_all add: publishable_def resolve_meant [OF ok])
  show ?thesis
    unfolding publish_to_portal_def resolve_publish_gateway_def env bindA_simps query_bind [OF queries_same(1)] get fst_conv
      sum.case option.case if_not_P [OF st] resolve_bind_run [OF res] query_bind [OF queries_same(6)] gateway_target_fields dep
      if_not_P [OF synced] if_not_P [OF fresh] validate_publishable_spec_def if_not_P [OF spec] r Let_def ..
qed

lemma publish_repeats:
  assumes ok: "db_ok w" and p: "publishable hst c env api gi d r w"
    and again: "already_published api (portal_publication_record api env (gi_id gi)) (spec_fingerprint hst (cat_openapi_spec api)) d
      (tc_force c)"
  shows "\<exists>out w'. publish_to_portal hst c actor w = (Inr out, w') \<and> po_result out = ''unchanged'' \<and>
     catalogs w' = catalogs w \<and> deployments w' = deployments w"
proof -
  obtain out w' where run: "publish_unchanged api actor env (gateway_target_from_model gi) d w = (Inr out, w')"
    using publish_unchanged_total by blast
  then have "po_result out = ''unchanged'' \<and> catalogs w' = catalogs w \<and> deployments w' = deployments w"
    by (rule publish_unchanged_okE) (simp add: complete_frame(1,3) logged_as_fields(1,3))
  with run again show ?thesis by (simp add: publish_runs [OF ok p])
qed

lemma publish_target:
  assumes ok: "db_ok w" and p: "publishable hst c env api gi d r w" and run: "publish_to_portal hst c actor w = (Inr out, w')"
  shows "po_environment out = env" and "po_deployment_id out = dep_id d"
  using run unfolding publish_runs [OF ok p]
  by (auto elim!: publish_unchanged_okE publish_now_okE split: if_splits)

lemma publishable_same:
  assumes "catalogs w' = catalogs w" and "gateways w' = gateways w" and "deployments w' = deployments w"
    and "publishable hst c env api gi d r w"
  shows "publishable hst c env api gi d r w'"
  using assms(4) unfolding publishable_def meant_gateway_same [OF assms(2)]
  by (simp add: get_api_by_id_def get_gateway_deployment_def assms(1,3))

lemma publish_iff:
  assumes ok: "db_ok w"
  shows "(\<exists>out w'. publish_to_portal hst c actor w = (Inr out, w')) \<longleftrightarrow>
    (\<exists>env api gi d r. publishable hst c env api gi d r w \<and> (publication_storable api \<or>
       already_published api (portal_publication_record api env (gi_id gi)) (spec_fingerprint hst (cat_openapi_spec api)) d
         (tc_force c)))"
proof
  assume "\<exists>out w'. publish_to_portal hst c actor w = (Inr out, w')"
  then obtain out w' where "publish_to_portal hst c actor w = (Inr out, w')" by blast
  then show "\<exists>env api gi d r. publishable hst c env api gi d r w \<and> (publication_storable api \<or>
       already_published api (portal_publication_record api env (gi_id gi)) (spec_fingerprint hst (cat_openapi_spec api)) d
         (tc_force c))"
    by (cases rule: publish_okE) (use portal_publish_iff in blast)+
next
  assume "\<exists>env api gi d r. publishable hst c env api gi d r w \<and> (publication_storable api \<or>
       already_published api (portal_publication_record api env (gi_id gi)) (spec_fingerprint hst (cat_openapi_spec api)) d
         (tc_force c))"
  then obtain env api gi d r where p: "publishable hst c env api gi d r w" and
    store: "publication_storable api \<or> already_published api (portal_publication_record api env (gi_id gi))
       (spec_fingerprint hst (cat_openapi_spec api)) d (tc_force c)" by blast
  let ?prev = "portal_publication_record api env (gi_id gi)" and ?g = "gateway_target_from_model gi"
  from p have get: "get_api_by_id (tc_tenant_id c) (tc_api_id c) w = (Inr (Some api), w)" by (simp add: publishable_def)
  note run = publish_runs [OF ok p]
  show "\<exists>out w'. publish_to_portal hst c actor w = (Inr out, w')"
  proof (cases "already_published api ?prev (spec_fingerprint hst (cat_openapi_spec api)) d (tc_force c)")
    case True
    with publish_unchanged_total show ?thesis by (simp add: run)
  next
    case False
    let ?pub = "publication_of hst api env (gi_id gi) (dep_id d) (?prev \<noteq> None \<and> ?prev \<noteq> Some []) (clock w (ticks w))"
    from False store portal_publish_iff obtain api' where pub: "portal_publish api ?pub = Inr api'" by blast
    have rep: "replaceable cat_id catalog_clash api' (catalogs (w\<lparr>ticks := Suc (ticks w)\<rparr>))"
      using ok get_api_by_id_Some [OF get] portal_publish_publications [OF pub] unfolding db_ok_def
      by (intro catalog_replaceable [of _ api]) simp_all
    have "\<exists>out w'. publish_now hst api actor env ?g d r ?prev w = (Inr out, w')"
      unfolding publish_now_def Let_def publication_of_def [symmetric] gateway_target_fields clock_bind pub bindA_simps
        write_bind if_P [OF rep] record_bind
      by (rule complete_then) simp
    with False show ?thesis by (simp add: run)
  qed
qed

section \<open>promote\_to\_environment\<close>

text \<open>Once the promotion row is there, nothing that follows can be refused.\<close>

lemma run_promotion_after_upsert:
  assumes ok: "db_ok w" and fresh: "fresh_ids 2 w" and guard: "production_git_guard_violation api tg = None"
    and up: "upsert_promotion api actor src tgt sd tg (mc_force c) w = (Inr (p, pact), w1)"
  shows "\<exists>out w'. run_promotion hst c actor api src tgt sg tg sd w = (Inr out, w')"
proof -
  let ?ds = "promotion_desired_state hst api src tgt sg tg sd p"
  note frame = upsert_promotion_frame [OF up]
  from db_constraints.respects_upsert_promotion up have "keeps_db_ok w w1" by (rule stepsD)
  with ok have ok1: "db_ok w1" by (simp add: keeps_db_ok_def)
  from up have "uuids_used w1 = uuids_used w + 0 \<or> uuids_used w1 = uuids_used w + 1"
    by (cases rule: upsert_promotion_okE) simp_all
  then have "uuid_source w1 (uuids_used w1) \<notin> dep_id ` set (deployments w1)"
    using fresh_idsD(2) [OF fresh, of 0] fresh_idsD(2) [OF fresh, of 1] frame by auto
  with upsert_total [OF ok1 guard] obtain d dact w2 where
    dep: "upsert_gateway_deployment hst api tg ?ds (mc_force c) (Some (pr_id p)) w1 = (Inr (d, dact), w2)" by fast
  from settle_total obtain q w3 where q: "settle_promotion p d tg w2 = (Inr q, w3)" by blast
  have "promotions w3 = promotions w1"
    using settle_okE(7) [OF q] upsert_frame(3) [OF dep] by auto
  then have rep: "replaceable pr_id promotion_clash q (promotions w3)"
    using settled_replaceable [OF _ frame(10) q] ok1 by (simp add: db_ok_def)
  show ?thesis
    unfolding run_promotion_def bindA_run [where m = "upsert_promotion api actor src tgt sd tg (mc_force c)", OF up] prod.case
      upsert_bind_run [OF dep] bindA_run [where m = "settle_promotion p d tg", OF q] write_bind if_P [OF rep] Let_def
    by simp
qed

text \<open>
  A promotion that is refused changes no row; one that fails after it has begun to write
  fails with an exception of the database, which the endpoint answers with a rollback.
\<close>

fun db_error :: "error \<Rightarrow> bool" where
  "db_error (IntegrityError m) = True"
| "db_error MultipleResultsFound = True"
| "db_error e = False"

lemma raises_db [simp]:
  "raises_only db_error (get_gateway_deployment c g)" "raises_only db_error (create_gateway_deployment d)"
  "raises_only db_error (save_gateway_deployment d)" "raises_only db_error (create_promotion p)"
  "raises_only db_error (save_promotion p)" "raises_only db_error (get_active_promotion t a s e)"
  "raises_only db_error (get_latest_promoted_promotion t a s e)"
proof -
  have one: "scalar_one_or_none rs = Inl e \<Longrightarrow> db_error e" for rs :: "'b list" and e
    by (cases rs rule: scalar_one_or_none.cases) auto
  show "raises_only db_error (get_gateway_deployment c g)"
    by (auto simp: raises_only_def get_gateway_deployment_def dest: one)
  show "raises_only db_error (get_active_promotion t a s e)"
    "raises_only db_error (get_latest_promoted_promotion t a s e)"
    by (simp_all add: get_active_promotion_def get_latest_promoted_promotion_def raises_basic)
qed (auto simp: raises_only_def create_gateway_deployment_def save_gateway_deployment_def create_promotion_def
    save_promotion_def bindA_def put_deployments_def put_promotions_def insert_row_def save_row_def
    split: sum.splits if_splits)

lemma run_promotion_raises:
  assumes guard: "production_git_guard_violation api tg = None"
  shows "raises_only db_error (run_promotion hst c actor api src tgt sg tg sd)"
proof -
  have basic: "raises_only db_error nowA" "raises_only db_error uuid4A"
    "raises_only db_error (queue_gateway_deployment hst d t)" "raises_only db_error (settle_promotion p d' g)"
    "raises_only db_error (record_transition t' ac x i n det oc st pth)" "raises_only db_error (state_from_catalog api')"
    for d t p d' g t' ac x i n det oc st pth api'
    using settle_total state_from_catalog_total
    by (auto intro!: raises_total simp: queue_gateway_deployment_def queue_sse_event_def whenA_def record_transition_def
        split: if_splits)
  show ?thesis
    unfolding run_promotion_def upsert_promotion_def start_promotion_def upsert_gateway_deployment_def guard option.case Let_def
    by (intro raises_rules raises_db basic)
qed

lemma promote_refused: "fails_unless db_error same_tables (promote_to_environment hst c actor)"
proof -
  note steps = same_tables.steps_rules queries_act resolve_gateway_target_same same_tables.state_relation_axioms refusal_same
  show ?thesis
    unfolding promote_to_environment_def resolve_promotion_gateway_def Let_def
    by (intro same_tables.unless_rules unless_raises run_promotion_raises same_tables.unless_steps steps; assumption)
qed

text \<open>
  The unique index on active promotions does not include the tenant, so a promotion row of
  another tenant with the same API id and target can be in the way.
\<close>

definition foreign_active :: "api_catalog \<Rightarrow> string \<Rightarrow> string \<Rightarrow> world \<Rightarrow> bool" where
  "foreign_active api src tgt w \<longleftrightarrow> (\<exists>p \<in> set (promotions w). active_status (pr_status p) \<and> pr_api_id p = cat_api_id api \<and>
     pr_target_environment p = tgt \<and> \<not> in_lane (cat_tenant_id api) (cat_api_id api) src tgt p)"

lemma get_active_None: "get_active_promotion t a s e w = (Inr None, w) \<longleftrightarrow>
    (\<forall>p \<in> set (promotions w). \<not> (in_lane t a s e p \<and> active_status (pr_status p)))"
  by (auto simp: get_active_promotion_def find_None_iff)

lemma upsert_promotion_total:
  assumes ok: "db_ok w" and fresh: "fresh_ids 2 w" and own: "\<not> foreign_active api src tgt w"
  shows "\<exists>r w'. upsert_promotion api actor src tgt sd tg force w = (Inr r, w')"
proof -
  let ?t = "cat_tenant_id api" and ?a = "cat_api_id api"
  obtain active where act: "get_active_promotion ?t ?a src tgt w = (Inr active, w)" using active_total by blast
  obtain latest where lat: "get_latest_promoted_promotion ?t ?a src tgt w = (Inr latest, w)" using latest_total by blast
  have new: "\<exists>r w'. start_promotion api actor src tgt sd tg None w = (Inr r, w')" if "active = None"
  proof -
    have "fits pr_id promotion_clash (new_promotion_row (uuid_source w (uuids_used w)) api actor src tgt sd tg (clock w (ticks w)))
        (promotions w)"
      using fresh_next(3) [OF fresh] own act [unfolded that get_active_None]
      by (force simp: fits_def promotion_clash_def new_promotion_row_def foreign_active_def in_lane_def)
    then show ?thesis by (simp add: start_promotion_def run_simps)
  qed
  have old: "\<exists>r w'. start_promotion api actor src tgt sd tg active w = (Inr r, w')" if "active = Some q" for q
  proof -
    from get_active_promotion_Some [OF act [unfolded that]] have
      q: "q \<in> set (promotions w)" "active_status (pr_status q)" by blast+
    have "replaceable pr_id promotion_clash (revived_promotion q sd tg) (promotions w)"
      using ok q by (auto simp: db_ok_def table_ok_def replaceable_def promotion_clash_def revived_promotion_def)
    then show ?thesis by (simp add: that start_promotion_def run_simps revived_promotion_def)
  qed
  show ?thesis
    using act lat new old by (cases active; cases latest; simp add: upsert_promotion_def query_bind queries_same)
qed

lemma promote_runs:
  assumes ok: "db_ok w" and p: "promotable c src tgt api sgi tgi sd w"
  shows "promote_to_environment hst c actor w =
    run_promotion hst c actor api src tgt (gateway_target_from_model sgi) (gateway_target_from_model tgi) sd w"
proof -
  from p have env: "lifecycle_environment (mc_source_environment c) = Inr src" "lifecycle_environment (mc_target_environment c) = Inr tgt"
    and chain: "validate_promotion_chain src tgt = Inr ()"
    and get: "get_api_by_id (mc_tenant_id c) (mc_api_id c) w = (Inr (Some api), w)" and st: "\<not> cat_status api \<noteq> ''ready''"
    and res: "resolve_gateway_target (mc_tenant_id c) src (mc_source_gateway_instance_id c) w = (Inr (gateway_target_from_model sgi), w)"
      "resolve_gateway_target (mc_tenant_id c) tgt (mc_target_gateway_instance_id c) w = (Inr (gateway_target_from_model tgi), w)"
    and guard: "production_git_guard_violation api (gateway_target_from_model tgi) = None"
    and dep: "get_gateway_deployment (cat_id api) (gi_id sgi) w = (Inr (Some sd), w)"
    and synced: "\<not> sync_value (dep_sync_status sd) \<noteq> sync_value SYNCED"
    and pub: "\<not> \<not> source_published api src (gateway_target_from_model sgi) sd"
    by (simp_all add: promotable_def resolve_meant [OF ok] validate_promotion_chain_iff)
  show ?thesis
    unfolding promote_to_environment_def resolve_promotion_gateway_def env bindA_simps chain sum.case query_bind [OF queries_same(1)]
      get fst_conv option.case if_not_P [OF st] resolve_bind_run [OF res(1)] resolve_bind_run [OF res(2)] Let_def guard
      query_bind [OF queries_same(6)] gateway_target_fields dep if_not_P [OF synced] if_not_P [OF pub] ..
qed

lemma promote_succeeds:
  assumes ok: "db_ok w" and fresh: "fresh_ids 2 w" and p: "promotable c src tgt api sgi tgi sd w"
    and own: "\<not> foreign_active api src tgt w"
  shows "\<exists>out w'. promote_to_environment hst c actor w = (Inr out, w')"
proof -
  from p have guard: "production_git_guard_violation api (gateway_target_from_model tgi) = None"
    by (simp add: promotable_def)
  obtain p pact w1 where "upsert_promotion api actor src tgt sd (gateway_target_from_model tgi) (mc_force c) w = (Inr (p, pact), w1)"
    using upsert_promotion_total [OF ok fresh own, of actor sd "gateway_target_from_model tgi" "mc_force c"] by auto
  from run_promotion_after_upsert [OF ok fresh guard this] show ?thesis by (simp add: promote_runs [OF ok assms(3)])
qed

text \<open>With such a row and none of its own, a first or forced promotion is refused by the database.\<close>

lemma promote_blocked:
  assumes ok: "db_ok w" and fresh: "fresh_ids 2 w" and p: "promotable c src tgt api sgi tgi sd w"
    and foreign: "foreign_active api src tgt w"
    and none: "\<forall>q \<in> set (promotions w). in_lane (cat_tenant_id api) (cat_api_id api) src tgt q \<longrightarrow>
        \<not> active_status (pr_status q) \<and> pr_status q \<noteq> ''promoted''"
  shows "\<exists>w'. promote_to_environment hst c actor w = (Inl (IntegrityError ''uq_promotions_active_per_target''), w')"
proof -
  let ?t = "cat_tenant_id api" and ?a = "cat_api_id api"
  let ?tg = "gateway_target_from_model tgi"
  have act: "get_active_promotion ?t ?a src tgt w = (Inr None, w)" using none by (auto simp: get_active_None)
  have lat: "get_latest_promoted_promotion ?t ?a src tgt w = (Inr None, w)"
  proof -
    obtain v where v: "get_latest_promoted_promotion ?t ?a src tgt w = (Inr v, w)" using latest_total by blast
    with none get_latest_promoted_Some [of ?t ?a src tgt w _ w] show ?thesis by (cases v) auto
  qed
  have "\<not> fits pr_id promotion_clash (new_promotion_row (uuid_source w (uuids_used w)) api actor src tgt sd ?tg (clock w (ticks w)))
      (promotions w)"
    using foreign by (auto simp: fits_def promotion_clash_def new_promotion_row_def foreign_active_def active_status_def)
  then have "\<exists>w1. upsert_promotion api actor src tgt sd ?tg (mc_force c) w =
      (Inl (IntegrityError ''uq_promotions_active_per_target''), w1)"
    using act lat by (simp add: upsert_promotion_def start_promotion_def query_bind queries_same run_simps)
  then have "\<exists>w'. run_promotion hst c actor api src tgt (gateway_target_from_model sgi) ?tg sd w =
      (Inl (IntegrityError ''uq_promotions_active_per_target''), w')"
    by (auto simp: run_promotion_def bindA_def)
  then show ?thesis by (simp add: promote_runs [OF ok p])
qed

end
