(* ===== verification/Rbac.thy ===== *)
theory Rbac
  imports Errors "HOL-Library.List_Lexorder" "HOL-Library.Char_ord"
begin

text \<open>
  Who may do what: \<open>auth/rbac.py\<close> (permissions of roles, role aliases, the tenant decision),
  \<open>auth/environment_guard.py\<close> (writes to read-only environments) and the tenant claims of
  \<open>auth/dependencies.py\<close>. Refusals are HTTP exceptions with a status and a detail.
\<close>

record user =
  u_id :: string
  u_email :: string
  u_username :: string
  u_roles :: "string list"
  u_tenant_id :: "string option"

datatype http_exception = HTTPException (status_code: int) (detail: json)

section \<open>Permissions\<close>

datatype permission =
    TENANTS_CREATE | TENANTS_READ | TENANTS_UPDATE | TENANTS_DELETE
  | APIS_CREATE | APIS_READ | APIS_UPDATE | APIS_DELETE | APIS_DEPLOY | APIS_PROMOTE
  | APPS_CREATE | APPS_READ | APPS_UPDATE | APPS_DELETE
  | USERS_MANAGE | AUDIT_READ | WORKFLOWS_READ | WORKFLOWS_MANAGE

fun permission_value :: "permission \<Rightarrow> string" where
  "permission_value TENANTS_CREATE = ''tenants:create''"
| "permission_value TENANTS_READ = ''tenants:read''"
| "permission_value TENANTS_UPDATE = ''tenants:update''"
| "permission_value TENANTS_DELETE = ''tenants:delete''"
| "permission_value APIS_CREATE = ''apis:create''"
| "permission_value APIS_READ = ''apis:read''"
| "permission_value APIS_UPDATE = ''apis:update''"
| "permission_value APIS_DELETE = ''apis:delete''"
| "permission_value APIS_DEPLOY = ''apis:deploy''"
| "permission_value APIS_PROMOTE = ''apis:promote''"
| "permission_value APPS_CREATE = ''apps:create''"
| "permission_value APPS_READ = ''apps:read''"
| "permission_value APPS_UPDATE = ''apps:update''"
| "permission_value APPS_DELETE = ''apps:delete''"
| "permission_value USERS_MANAGE = ''users:manage''"
| "permission_value AUDIT_READ = ''audit:read''"
| "permission_value WORKFLOWS_READ = ''workflows:read''"
| "permission_value WORKFLOWS_MANAGE = ''workflows:manage''"

definition ROLE_PERMISSIONS :: "(string \<times> permission list) list" where
  "ROLE_PERMISSIONS =
     [(''cpi-admin'',
        [TENANTS_CREATE, TENANTS_READ, TENANTS_UPDATE, TENANTS_DELETE, APIS_CREATE, APIS_READ, APIS_UPDATE, APIS_DELETE,
         APIS_DEPLOY, APIS_PROMOTE, APPS_CREATE, APPS_READ, APPS_UPDATE, APPS_DELETE, USERS_MANAGE, AUDIT_READ,
         WORKFLOWS_READ, WORKFLOWS_MANAGE]),
      (''tenant-admin'',
        [TENANTS_READ, APIS_CREATE, APIS_READ, APIS_UPDATE, APIS_DELETE, APIS_DEPLOY, APIS_PROMOTE, APPS_CREATE,
         APPS_READ, APPS_UPDATE, APPS_DELETE, USERS_MANAGE, AUDIT_READ, WORKFLOWS_READ, WORKFLOWS_MANAGE]),
      (''devops'',
        [TENANTS_READ, APIS_CREATE, APIS_READ, APIS_UPDATE, APIS_DEPLOY, APIS_PROMOTE, APPS_CREATE, APPS_READ,
         APPS_UPDATE, AUDIT_READ, WORKFLOWS_READ]),
      (''viewer'', [TENANTS_READ, APIS_READ, APPS_READ, AUDIT_READ, WORKFLOWS_READ]),
      (''stoa.security'', [TENANTS_READ, APIS_READ, APPS_READ, AUDIT_READ, WORKFLOWS_READ]),
      (''stoa.agent'', [APIS_READ, APPS_READ])]"

definition ROLE_ALIASES :: "(string \<times> string) list" where
  "ROLE_ALIASES = [(''stoa.admin'', ''cpi-admin''), (''stoa.product_owner'', ''tenant-admin''),
     (''stoa.developer'', ''devops''), (''stoa.consumer'', ''viewer'')]"

text \<open>\<open>sorted\<close> of the set of the roles and their aliases.\<close>

definition normalize_roles :: "string list \<Rightarrow> string list" where
  "normalize_roles raw_roles =
     sort (remdups (raw_roles @ List.map_filter (\<lambda>role. case map_of ROLE_ALIASES role of
        Some aliased \<Rightarrow> if aliased \<noteq> [] then Some aliased else None | None \<Rightarrow> None) raw_roles))"

definition get_user_permissions :: "string list \<Rightarrow> permission list" where
  "get_user_permissions roles =
     remdups (concat (List.map_filter (\<lambda>role. map_of ROLE_PERMISSIONS role) roles))"

definition require_permission :: "permission \<Rightarrow> user \<Rightarrow> http_exception + unit" where
  "require_permission p user =
     (if p \<notin> set (get_user_permissions (u_roles user))
      then Inl (HTTPException 403 (JStr (''Permission denied: '' @ permission_value p @ '' required''))) else Inr ())"

section \<open>Tenants\<close>

definition forbidden :: "string \<Rightarrow> http_exception + 'a" where
  "forbidden message = Inl (HTTPException 403 (JStr message))"

definition is_admin :: "user \<Rightarrow> bool" where
  "is_admin user \<longleftrightarrow> ''cpi-admin'' \<in> set (u_roles user)"

text \<open>\<open>(requested or "").strip() or None\<close>.\<close>

definition strip_or_none :: "string option \<Rightarrow> string option" where
  "strip_or_none s = (let t = py_strip (or_str s []) in if t = [] then None else Some t)"

definition decide_tenant_access :: "user \<Rightarrow> string option \<Rightarrow> string \<Rightarrow> http_exception + string option" where
  "decide_tenant_access user requested mode =
     (if mode = ''global'' then
        (if is_admin user \<and> requested = None then Inr None
         else forbidden ''Global tenant access requires a platform administrator'')
      else if mode = ''resource'' then
        (case requested of
           Some r \<Rightarrow> if r \<noteq> [] \<and> py_strip r \<noteq> [] \<and> (is_admin user \<or> u_tenant_id user = Some r) then Inr (Some r)
                     else forbidden ''Access denied to this tenant''
         | None \<Rightarrow> forbidden ''Access denied to this tenant'')
      else if mode \<noteq> ''filter'' then forbidden ''Unsupported tenant access mode''
      else let requested' = strip_or_none requested in
        if is_admin user then
          (case requested' of None \<Rightarrow> forbidden ''Target tenant is required'' | Some r \<Rightarrow> Inr (Some r))
        else let tenant = (if opt_truthy (u_tenant_id user) then py_strip (or_str (u_tenant_id user) []) else []) in
          if tenant = [] then forbidden ''Authenticated tenant is required'' else Inr (Some tenant))"

definition resolve_effective_tenant :: "user \<Rightarrow> string option \<Rightarrow> http_exception + string option" where
  "resolve_effective_tenant user requested =
     (let requested' = strip_or_none requested;
          mode = (if is_admin user \<and> requested' = None then ''global'' else ''filter'')
      in decide_tenant_access user requested' mode)"

definition require_role :: "string list \<Rightarrow> user \<Rightarrow> http_exception + user" where
  "require_role allowed_roles user =
     (if \<not> list_ex (\<lambda>role. role \<in> set (u_roles user)) allowed_roles
      then Inl (HTTPException 403 (JStr (''Access denied. Required roles: '' @ py_repr (JArr (map JStr allowed_roles)))))
      else Inr user)"

section \<open>Read-only environments\<close>

definition ENVIRONMENT_MODES :: "(string \<times> string) list" where
  "ENVIRONMENT_MODES = [(''dev'', ''full''), (''staging'', ''full''), (''prod'', ''read-only'')]"

definition require_writable_environment :: "string option \<Rightarrow> user \<Rightarrow> http_exception + user" where
  "require_writable_environment environment user =
     (if \<not> opt_truthy environment then Inr user
      else let env = or_str environment [];
               mode = (case map_of ENVIRONMENT_MODES env of Some m \<Rightarrow> m | None \<Rightarrow> ''full'')
        in if mode = ''read-only'' \<and> \<not> is_admin user
           then forbidden (''Environment '' @ sq env @ '' is read-only. Only cpi-admin can perform writes.'')
           else Inr user)"

section \<open>Tenant claims of a token\<close>

definition normalize_tenant_claim :: "json \<Rightarrow> string + string" where
  "normalize_tenant_claim v =
     (let v' = (case v of JArr [x] \<Rightarrow> x | _ \<Rightarrow> v)
      in case v' of JStr s \<Rightarrow> if s \<noteq> [] \<and> s = py_strip s then Inr s else Inl ''invalid_tenant_claim''
         | _ \<Rightarrow> Inl ''invalid_tenant_claim'')"

text \<open>The tenant a verified payload establishes; \<open>Inl\<close> is a rejected token.\<close>

definition optional_claim :: "jdict \<Rightarrow> string \<Rightarrow> string + string option" where
  "optional_claim payload k =
     (case map_of payload k of None \<Rightarrow> Inr None
      | Some v \<Rightarrow> (case normalize_tenant_claim v of Inl e \<Rightarrow> Inl e | Inr t \<Rightarrow> Inr (Some t)))"

definition tenant_of_payload :: "jdict \<Rightarrow> string + string option" where
  "tenant_of_payload payload =
     (case optional_claim payload ''tenant_id'' of Inl e \<Rightarrow> Inl e | Inr tenant_id \<Rightarrow>
      (case optional_claim payload ''tenant'' of Inl e \<Rightarrow> Inl e | Inr legacy_tenant \<Rightarrow>
       if tenant_id \<noteq> None \<and> legacy_tenant \<noteq> None \<and> tenant_id \<noteq> legacy_tenant
       then Inl ''conflicting_tenant_claims'' else Inr tenant_id))"

section \<open>Facts\<close>

lemma set_map_filter: "set (List.map_filter f xs) = {y. \<exists>x \<in> set xs. f x = Some y}"
  by (force simp: List.map_filter_def)

lemma set_get_user_permissions:
  "set (get_user_permissions roles) = (\<Union>role \<in> set roles. set (case map_of ROLE_PERMISSIONS role of Some ps \<Rightarrow> ps | None \<Rightarrow> []))"
  by (force simp: get_user_permissions_def set_map_filter split: option.splits)

lemma get_user_permissions_append:
  "set (get_user_permissions (xs @ ys)) = set (get_user_permissions xs) \<union> set (get_user_permissions ys)"
  by (simp add: set_get_user_permissions)

lemma alias_targets: "map_of ROLE_ALIASES r = Some a \<Longrightarrow> a \<noteq> [] \<and> map_of ROLE_ALIASES a = None"
  by (auto simp: ROLE_ALIASES_def split: if_splits)

lemma set_normalize_roles: "set (normalize_roles rs) = set rs \<union> {a. \<exists>r \<in> set rs. map_of ROLE_ALIASES r = Some a}"
  by (auto simp: normalize_roles_def set_map_filter dest: alias_targets split: option.splits if_splits)

lemma normalize_roles_set_idem: "set (normalize_roles (normalize_roles rs)) = set (normalize_roles rs)"
  by (auto simp: set_normalize_roles dest: alias_targets)

lemma sorted_distinct_normalize: "sorted (normalize_roles rs) \<and> distinct (normalize_roles rs)"
  by (simp add: normalize_roles_def)

lemma normalize_roles_idem: "normalize_roles (normalize_roles rs) = normalize_roles rs"
  using sorted_distinct_set_unique sorted_distinct_normalize normalize_roles_set_idem by metis

lemma require_permission_ok:
  "require_permission p user = Inr () \<longleftrightarrow>
     (\<exists>role \<in> set (u_roles user). \<exists>ps. map_of ROLE_PERMISSIONS role = Some ps \<and> p \<in> set ps)"
  by (auto simp: require_permission_def set_get_user_permissions split: option.splits dest!: sym [of "Some _"])

lemma resource_access_ok:
  "decide_tenant_access user (Some t) ''resource'' = Inr r \<longleftrightarrow>
     r = Some t \<and> py_strip t \<noteq> [] \<and> (is_admin user \<or> u_tenant_id user = Some t)"
  by (auto simp: decide_tenant_access_def forbidden_def py_strip_def strip_by_def)

text \<open>Whatever the mode, an ordinary user is only ever given their own tenant.\<close>

lemma tenant_isolation:
  assumes "decide_tenant_access user requested mode = Inr r" and "\<not> is_admin user"
  shows "\<exists>t. u_tenant_id user = Some t \<and> r = Some (if mode = ''resource'' then t else py_strip t) \<and> py_strip t \<noteq> []"
  using assms
  by (auto simp: decide_tenant_access_def forbidden_def Let_def or_str_def opt_truthy_def split: if_splits option.splits
      dest!: sym [of "Some _"])

lemma effective_tenant_isolation:
  assumes "resolve_effective_tenant user requested = Inr r" and "\<not> is_admin user"
  shows "\<exists>t. u_tenant_id user = Some t \<and> r = Some (py_strip t) \<and> py_strip t \<noteq> []"
  using tenant_isolation [of user "strip_or_none requested" "''filter''" r] assms
  by (auto simp: resolve_effective_tenant_def Let_def)

end
