(* ===== verification/LifecycleRouter.thy ===== *)
theory LifecycleRouter
  imports LifecycleProgress Rbac
begin

text \<open>
  \<open>routers/api_lifecycle.py\<close>: the endpoints over the lifecycle service. Each checks the
  permission and the tenant of the caller, runs the service, commits or rolls back, and
  maps the exception to an HTTP status.
\<close>

section \<open>Requests: schemas/api\_lifecycle.py\<close>

record draft_request =
  rq_name :: string
  rq_display_name :: string
  rq_version :: string
  rq_description :: string
  rq_backend_url :: string
  rq_openapi_spec :: json
  rq_spec_reference :: "string option"
  rq_tags :: "string list"
  rq_owner_team :: "string option"

record target_request =
  rq_environment :: string
  rq_gateway_instance_id :: "uuid option"
  rq_force :: bool

record promotion_request =
  rq_source_environment :: string
  rq_target_environment :: string
  rq_source_gateway_instance_id :: "uuid option"
  rq_target_gateway_instance_id :: "uuid option"
  rq_promote_force :: bool

section \<open>Transactions\<close>

text \<open>
  A rollback restores the tables and the audit log and discards the queued notifications;
  the clock and the identifier supply have moved on.
\<close>

definition rollback :: "world \<Rightarrow> world \<Rightarrow> world" where
  "rollback before after = before\<lparr>ticks := ticks after, uuids_used := uuids_used after\<rparr>"

type_synonym 'a endpoint = "world \<Rightarrow> (http_exception + 'a) \<times> world"

text \<open>\<open>h\<close> is the chain of \<open>except\<close> clauses: whether it commits, and the exception it raises.\<close>

definition run_endpoint :: "'a action \<Rightarrow> (error \<Rightarrow> bool \<times> http_exception) \<Rightarrow> 'a endpoint" where
  "run_endpoint m h w =
     (case m w of
        (Inr x, w') \<Rightarrow> (Inr x, w')
      | (Inl e, w') \<Rightarrow> (case h e of (commit, exc) \<Rightarrow> (Inl exc, if commit then w' else rollback w w')))"

text \<open>The decorators, in the order they run.\<close>

definition guarded :: "(http_exception + 'g) list \<Rightarrow> 'a endpoint \<Rightarrow> 'a endpoint" where
  "guarded checks run w =
     (case List.map_filter (\<lambda>c. case c of Inl exc \<Rightarrow> Some exc | Inr _ \<Rightarrow> None) checks of
        exc # _ \<Rightarrow> (Inl exc, w)
      | [] \<Rightarrow> run w)"

definition passed :: "http_exception + 'b \<Rightarrow> http_exception + unit" where
  "passed r = (case r of Inl e \<Rightarrow> Inl e | Inr _ \<Rightarrow> Inr ())"

definition actor_from_user :: "user \<Rightarrow> lifecycle_actor" where
  "actor_from_user user =
     \<lparr>actor_id = Some (u_id user), actor_email = Some (u_email user), actor_username = Some (u_username user),
      actor_type = ''user''\<rparr>"

section \<open>Exceptions to statuses\<close>

definition draft_except :: "error \<Rightarrow> bool \<times> http_exception" where
  "draft_except e =
     (if is_validation_error e then (False, HTTPException 400 (JStr (err_text e)))
      else case e of
        ApiLifecycleConflictError m \<Rightarrow> (False, HTTPException 409 (JStr m))
      | _ \<Rightarrow> (False, HTTPException 500 (JStr ''Failed to create API draft'')))"

definition spec_detail :: "error \<Rightarrow> json" where
  "spec_detail e = JObj [(''code'', JStr (spec_error_code e)), (''message'', JStr (err_text e))]"

text \<open>A missing API leaves through \<open>get_db\<close>, which rolls back.\<close>

definition validate_except :: "error \<Rightarrow> bool \<times> http_exception" where
  "validate_except e = (case e of
        ApiLifecycleNotFoundError m \<Rightarrow> (False, HTTPException 404 (JStr m))
      | ApiLifecycleTransitionError m \<Rightarrow> (True, HTTPException 409 (JStr m))
      | ApiLifecycleSpecValidationError c m \<Rightarrow> (True, HTTPException 422 (spec_detail e))
      | _ \<Rightarrow> (False, HTTPException 500 (JStr ''Failed to validate API draft'')))"

definition target_except :: "bool \<Rightarrow> string \<Rightarrow> error \<Rightarrow> bool \<times> http_exception" where
  "target_except spec_details failure e = (case e of
        ApiLifecycleNotFoundError m \<Rightarrow> (True, HTTPException 404 (JStr m))
      | ApiLifecycleGatewayNotFoundError m \<Rightarrow> (True, HTTPException 404 (JStr m))
      | ApiLifecycleTransitionError m \<Rightarrow> (True, HTTPException 409 (JStr m))
      | ApiLifecycleGatewayAmbiguousError m \<Rightarrow> (True, HTTPException 409 (JStr m))
      | ApiLifecycleSpecValidationError c m \<Rightarrow>
          (True, HTTPException 422 (if spec_details then spec_detail e else JStr m))
      | ApiLifecycleValidationError m \<Rightarrow> (True, HTTPException 422 (JStr m))
      | _ \<Rightarrow> (False, HTTPException 500 (JStr failure)))"

section \<open>Endpoints\<close>

definition create_api_draft ::
    "host \<Rightarrow> user \<Rightarrow> string option \<Rightarrow> string \<Rightarrow> draft_request \<Rightarrow> lifecycle_state endpoint" where
  "create_api_draft hst user environment tenant_id request =
     guarded [passed (require_writable_environment environment user), passed (require_permission APIS_CREATE user),
              passed (decide_tenant_access user (Some tenant_id) ''resource'')]
       (run_endpoint (create_draft hst
          \<lparr>cc_tenant_id = tenant_id, cc_name = rq_name request, cc_display_name = rq_display_name request,
           cc_version = rq_version request, cc_description = rq_description request,
           cc_backend_url = rq_backend_url request, cc_openapi_spec = rq_openapi_spec request,
           cc_spec_reference = rq_spec_reference request, cc_tags = rq_tags request,
           cc_owner_team = rq_owner_team request\<rparr> (actor_from_user user)) draft_except)"

definition validate_api_draft :: "host \<Rightarrow> user \<Rightarrow> string \<Rightarrow> string \<Rightarrow> string option \<Rightarrow> validation_outcome endpoint" where
  "validate_api_draft hst user tenant_id api_id reason =
     guarded [passed (require_permission APIS_UPDATE user), passed (decide_tenant_access user (Some tenant_id) ''resource'')]
       (run_endpoint (validate_draft hst \<lparr>vc_tenant_id = tenant_id, vc_api_id = api_id, vc_reason = reason\<rparr>
          (actor_from_user user)) validate_except)"

definition target_of_request :: "string \<Rightarrow> string \<Rightarrow> target_request \<Rightarrow> target_command" where
  "target_of_request tenant_id api_id request =
     \<lparr>tc_tenant_id = tenant_id, tc_api_id = api_id, tc_environment = rq_environment request,
      tc_gateway_instance_id = rq_gateway_instance_id request, tc_force = rq_force request\<rparr>"

definition deploy_api_to_lifecycle_gateway ::
    "host \<Rightarrow> user \<Rightarrow> string \<Rightarrow> string \<Rightarrow> target_request \<Rightarrow> deployment_outcome endpoint" where
  "deploy_api_to_lifecycle_gateway hst user tenant_id api_id request =
     guarded [passed (require_permission APIS_DEPLOY user), passed (decide_tenant_access user (Some tenant_id) ''resource'')]
       (run_endpoint (deploy_to_environment hst (target_of_request tenant_id api_id request) (actor_from_user user))
          (target_except False ''Failed to request API deployment''))"

definition publish_api_to_lifecycle_portal ::
    "host \<Rightarrow> user \<Rightarrow> string \<Rightarrow> string \<Rightarrow> target_request \<Rightarrow> publication_outcome endpoint" where
  "publish_api_to_lifecycle_portal hst user tenant_id api_id request =
     guarded [passed (require_permission APIS_UPDATE user), passed (decide_tenant_access user (Some tenant_id) ''resource'')]
       (run_endpoint (publish_to_portal hst (target_of_request tenant_id api_id request) (actor_from_user user))
          (target_except True ''Failed to publish API''))"

definition promote_api_through_lifecycle ::
    "host \<Rightarrow> user \<Rightarrow> string \<Rightarrow> string \<Rightarrow> promotion_request \<Rightarrow> promotion_outcome endpoint" where
  "promote_api_through_lifecycle hst user tenant_id api_id request =
     guarded [passed (require_permission APIS_DEPLOY user), passed (decide_tenant_access user (Some tenant_id) ''resource'')]
       (run_endpoint (promote_to_environment hst
          \<lparr>mc_tenant_id = tenant_id, mc_api_id = api_id, mc_source_environment = rq_source_environment request,
           mc_target_environment = rq_target_environment request,
           mc_source_gateway_instance_id = rq_source_gateway_instance_id request,
           mc_target_gateway_instance_id = rq_target_gateway_instance_id request,
           mc_force = rq_promote_force request\<rparr> (actor_from_user user))
          (target_except False ''Failed to promote API''))"

definition get_api_lifecycle_state :: "user \<Rightarrow> string \<Rightarrow> string \<Rightarrow> lifecycle_state endpoint" where
  "get_api_lifecycle_state user tenant_id api_id =
     guarded [passed (require_permission APIS_READ user), passed (decide_tenant_access user (Some tenant_id) ''resource'')]
       (run_endpoint (get_lifecycle_state tenant_id api_id)
          (\<lambda>e. case e of ApiLifecycleNotFoundError m \<Rightarrow> (False, HTTPException 404 (JStr m))
                | _ \<Rightarrow> (False, HTTPException 500 (JStr ''Failed to retrieve API lifecycle state''))))"

section \<open>One request\<close>

datatype lifecycle_request =
    CreateDraft "string option" draft_request
  | ValidateDraft string "string option"
  | DeployApi string target_request
  | PublishApi string target_request
  | PromoteApi string promotion_request

fun request_permission :: "lifecycle_request \<Rightarrow> permission" where
  "request_permission (CreateDraft env r) = APIS_CREATE"
| "request_permission (ValidateDraft a r) = APIS_UPDATE"
| "request_permission (DeployApi a r) = APIS_DEPLOY"
| "request_permission (PublishApi a r) = APIS_UPDATE"
| "request_permission (PromoteApi a r) = APIS_DEPLOY"

definition ignore_result :: "(http_exception + 'a) \<times> world \<Rightarrow> (http_exception + unit) \<times> world" where
  "ignore_result r = (passed (fst r), snd r)"

fun serve :: "host \<Rightarrow> user \<Rightarrow> string \<Rightarrow> lifecycle_request \<Rightarrow> unit endpoint" where
  "serve hst user t (CreateDraft env r) w = ignore_result (create_api_draft hst user env t r w)"
| "serve hst user t (ValidateDraft a r) w = ignore_result (validate_api_draft hst user t a r w)"
| "serve hst user t (DeployApi a r) w = ignore_result (deploy_api_to_lifecycle_gateway hst user t a r w)"
| "serve hst user t (PublishApi a r) w = ignore_result (publish_api_to_lifecycle_portal hst user t a r w)"
| "serve hst user t (PromoteApi a r) w = ignore_result (promote_api_through_lifecycle hst user t a r w)"

end
