(* ===== verification/RouterFacts.thy ===== *)
theory RouterFacts
  imports LifecycleRouter
begin

text \<open>
  What a lifecycle request can do, whatever the service answers: the caller was entitled to
  it, the constraints of the database are kept, no identifier is drawn twice, and a request
  that is answered with an error leaves every row as it was.
\<close>

section \<open>Transactions\<close>

lemma rollback_tables [simp]: "same_tables w (rollback w w')"
  by (simp add: rollback_def same_tables_def)

text \<open>What an endpoint does to the world, from what the service does.\<close>

lemma run_endpoint_error:
  assumes "run_endpoint m h w = (Inl exc, w')"
  obtains e v where "m w = (Inl e, v)" and "exc = snd (h e)" and "w' = (if fst (h e) then v else rollback w v)"
  using assms by (auto simp: run_endpoint_def split: prod.splits sum.splits)

lemma run_endpoint_ok: "run_endpoint m h w = (Inr x, w') \<longleftrightarrow> m w = (Inr x, w')"
  by (auto simp: run_endpoint_def split: prod.splits sum.splits)

lemma run_endpoint_within:
  assumes m: "acts_within R m" and r: "\<And>w v. R w v \<Longrightarrow> R w (rollback w v)"
  shows "R w (snd (run_endpoint m h w))"
proof -
  obtain x v where mw: "m w = (x, v)" by (cases "m w")
  with m have "R w v" by (rule stepsD)
  with mw r show ?thesis by (auto simp: run_endpoint_def split: sum.splits prod.splits)
qed

lemma run_endpoint_fails_same:
  assumes "\<And>e v. m w = (Inl e, v) \<Longrightarrow> \<not> fst (h e) \<or> same_tables w v" and "run_endpoint m h w = (Inl exc, w')"
  shows "same_tables w w'"
  using assms(2) by (rule run_endpoint_error) (use assms(1) in auto)

lemma guarded_cases:
  obtains exc where "guarded checks run w = (Inl exc, w)" and "\<exists>c \<in> set checks. c = Inl exc"
  | "guarded checks run w = run w" and "\<forall>c \<in> set checks. \<exists>x. c = Inr x"
proof (cases "List.map_filter (\<lambda>c. case c of Inl exc \<Rightarrow> Some exc | Inr _ \<Rightarrow> None) checks")
  case Nil
  have "\<exists>x. c = Inr x" if "c \<in> set checks" for c
  proof (cases c)
    case (Inl exc)
    with that have "exc \<in> set (List.map_filter (\<lambda>c. case c of Inl exc \<Rightarrow> Some exc | Inr _ \<Rightarrow> None) checks)"
      by (force simp: set_map_filter)
    with Nil show ?thesis by simp
  qed simp
  with Nil show thesis by (intro that(2)) (simp_all add: guarded_def)
next
  case (Cons exc rest)
  then have "exc \<in> set (List.map_filter (\<lambda>c. case c of Inl exc \<Rightarrow> Some exc | Inr _ \<Rightarrow> None) checks)" by simp
  then obtain c where "c \<in> set checks" "(case c of Inl exc \<Rightarrow> Some exc | Inr _ \<Rightarrow> None) = Some exc"
    by (auto simp: set_map_filter)
  then have "\<exists>c \<in> set checks. c = Inl exc" by (intro bexI [of _ c]) (simp_all split: sum.splits)
  with Cons show thesis by (intro that(1)) (simp_all add: guarded_def)
qed

lemma passed_ok [simp]: "passed r = Inr () \<longleftrightarrow> (\<exists>x. r = Inr x)" "passed r = Inl e \<longleftrightarrow> r = Inl e"
  by (cases r; simp add: passed_def)+

section \<open>Identifiers\<close>

text \<open>New keys come from the identifiers drawn in between.\<close>

definition draws_ids :: "world \<Rightarrow> world \<Rightarrow> bool" where
  "draws_ids w w' \<longleftrightarrow> keeps_environment w w' \<and>
     (\<forall>i \<in> row_ids w'. i \<in> row_ids w \<or> (\<exists>n. uuids_used w \<le> n \<and> n < uuids_used w' \<and> i = uuid_source w n))"

text \<open>Hence what is left of a supply that does not repeat itself stays unused.\<close>

lemma draws_ids_fresh:
  assumes draws: "draws_ids w w'" and fresh: "fresh_ids k w"
  shows "fresh_ids (uuids_used w + k - uuids_used w') w'"
proof -
  have env: "uuid_source w' = uuid_source w" "uuids_used w \<le> uuids_used w'"
    and ids: "\<forall>i \<in> row_ids w'. i \<in> row_ids w \<or> (\<exists>n. uuids_used w \<le> n \<and> n < uuids_used w' \<and> i = uuid_source w n)"
    using draws by (simp_all add: draws_ids_def keeps_environment_def)
  have inj: "inj_on (uuid_source w) {uuids_used w..<uuids_used w + k}"
    using fresh by (simp add: fresh_ids_def distinct_map)
  have old: "uuid_source w n \<notin> row_ids w" if "uuids_used w \<le> n" "n < uuids_used w + k" for n
  proof -
    have "n - uuids_used w < k" and "uuids_used w + (n - uuids_used w) = n" using that by simp_all
    with fresh show ?thesis unfolding fresh_ids_def by metis
  qed
  have "uuid_source w n \<notin> row_ids w'" if n: "uuids_used w' \<le> n" "n < uuids_used w + k" for n
  proof
    assume "uuid_source w n \<in> row_ids w'"
    with ids old [of n] env n obtain j where j: "uuids_used w \<le> j" "j < uuids_used w'" "uuid_source w n = uuid_source w j"
      by auto
    with inj env n have "n = j" by (auto dest: inj_onD)
    with j n show False by simp
  qed
  moreover have "distinct (map (uuid_source w) [uuids_used w'..<uuids_used w + k])"
    using inj env by (auto simp: distinct_map elim: inj_on_subset)
  ultimately show ?thesis by (cases "uuids_used w' \<le> uuids_used w + k") (simp_all add: fresh_ids_def env(1))
qed

lemma same_tables_draws: "same_tables w w' \<Longrightarrow> keeps_environment w w' \<Longrightarrow> draws_ids w w'"
  by (simp add: draws_ids_def row_ids_def same_tables_def)

interpretation draws_ids: state_relation draws_ids
proof unfold_locales
  show "draws_ids w w" for w by (simp add: draws_ids_def keeps_environment_def)
  show "draws_ids u w" if a: "draws_ids u v" and b: "draws_ids v w" for u v w
  proof -
    from a b have env: "uuid_source v = uuid_source u" "uuids_used u \<le> uuids_used v" "uuids_used v \<le> uuids_used w"
      by (simp_all add: draws_ids_def keeps_environment_def)
    have "i \<in> row_ids u \<or> (\<exists>n. uuids_used u \<le> n \<and> n < uuids_used w \<and> i = uuid_source u n)" if "i \<in> row_ids w" for i
    proof (cases "i \<in> row_ids v")
      case True
      with a obtain n where "i \<in> row_ids u \<or> uuids_used u \<le> n \<and> n < uuids_used v \<and> i = uuid_source u n"
        by (auto simp: draws_ids_def)
      with env less_le_trans [of n "uuids_used v" "uuids_used w"] show ?thesis by blast
    next
      case False
      with b that obtain n where "uuids_used v \<le> n \<and> n < uuids_used w \<and> i = uuid_source v n"
        by (auto simp: draws_ids_def)
      with env show ?thesis by (metis order_trans)
    qed
    moreover have "keeps_environment u w"
      using a b by (auto simp: draws_ids_def intro: keeps_environment.rel_trans)
    ultimately show ?thesis by (simp add: draws_ids_def)
  qed
qed

lemma replace_row_key_set [simp]: "key ` set (replace_row key row t) = key ` set t"
proof -
  have "map key (replace_row key row t) = map key t" by simp
  then show ?thesis by (metis list.set_map)
qed

lemma upsert_draws:
  assumes "upsert_gateway_deployment hst api g ds force pid w = (Inr (d, act), w')"
  shows "draws_ids w w'"
  using assms
  by (cases rule: upsert_okE)
    (auto simp: draws_ids_def row_ids_def keeps_environment_def new_deployment_row_def split: if_splits)

lemma logged_draws: "logged_as actor act oc t i w w' \<Longrightarrow> draws_ids v w \<Longrightarrow> draws_ids v w'"
  using logged_as_fields [of actor act oc t i w w']
  by (simp add: draws_ids_def row_ids_def keeps_environment_def)

lemma create_draws: "create_draft hst c actor w = (Inr st, w') \<Longrightarrow> draws_ids w w'"
  by (erule create_draft_okE, erule logged_draws)
    (auto simp: draws_ids_def row_ids_def keeps_environment_def draft_row_def)

lemma validate_draws: "validate_draft hst c actor w = (Inr out, w') \<Longrightarrow> draws_ids w w'"
  by (erule validate_draft_okE, erule logged_draws)
    (simp add: draws_ids_def row_ids_def keeps_environment_def)

lemma deploy_draws: "deploy_to_environment hst c actor w = (Inr out, w') \<Longrightarrow> draws_ids w w'"
  by (erule deploy_okE, erule logged_draws) (erule upsert_draws)

lemma complete_draws: "complete_promotion_for_publication api actor env gid did w = (Inr u, w') \<Longrightarrow> draws_ids w w'"
proof (erule complete_okE)
  fix p
  assume "logged_as actor ''api_lifecycle.promotion_completed'' ''success'' (cat_tenant_id api) (cat_api_id api)
    (w\<lparr>ticks := Suc (ticks w), promotions := replace_row pr_id (completed p did (clock w (ticks w))) (promotions w)\<rparr>) w'"
  then show "draws_ids w w'"
    by (rule logged_draws) (simp add: draws_ids_def row_ids_def keeps_environment_def)
qed (simp add: draws_ids.rel_refl)

lemma publish_draws: "publish_to_portal hst c actor w = (Inr out, w') \<Longrightarrow> draws_ids w w'"
proof (erule publish_okE)
  fix api env gi d w1
  assume "complete_promotion_for_publication api actor env (gi_id gi) (dep_id d) w = (Inr (), w1)"
    and log: "logged_as actor ''api_lifecycle.publish_idempotent'' ''success'' (cat_tenant_id api) (cat_api_id api) w1 w'"
  from this(1) have "draws_ids w w1" by (rule complete_draws)
  with log show "draws_ids w w'" by (rule logged_draws)
next
  fix api' env gi d w1
  assume log: "logged_as actor ''api_lifecycle.publish_requested'' ''success'' (cat_tenant_id api') (cat_api_id api')
        (w\<lparr>ticks := Suc (ticks w), catalogs := replace_row cat_id api' (catalogs w)\<rparr>) w1"
    and "complete_promotion_for_publication api' actor env (gi_id gi) (dep_id d) w1 = (Inr (), w')"
  from this(2) have "draws_ids w1 w'" by (rule complete_draws)
  moreover from log have "draws_ids w w1"
    by (rule logged_draws) (simp add: draws_ids_def row_ids_def keeps_environment_def)
  ultimately show "draws_ids w w'" by (metis draws_ids.rel_trans)
qed

lemma upsert_promotion_draws:
  assumes "upsert_promotion api actor src tgt d g force w = (Inr (p, act), w')"
  shows "draws_ids w w'"
  using assms
  by (cases rule: upsert_promotion_okE)
    (auto simp: draws_ids_def row_ids_def keeps_environment_def new_promotion_row_def)

lemma promote_draws: "promote_to_environment hst c actor w = (Inr out, w') \<Longrightarrow> draws_ids w w'"
proof (erule promote_okE, erule run_promotion_okE)
  fix api src tgt sg tg sd p pact w1 d dact w2 q w3 ds force pid a
  assume up: "upsert_promotion api actor src tgt sd tg (mc_force c) w = (Inr (p, pact), w1)"
    and dep: "upsert_gateway_deployment hst api tg ds force pid w1 = (Inr (d, dact), w2)"
    and st: "settle_promotion p d tg w2 = (Inr q, w3)"
    and log: "logged_as actor a ''success'' (cat_tenant_id api) (cat_api_id api)
             (w3\<lparr>promotions := replace_row pr_id q (promotions w3)\<rparr>) w'"
  have "draws_ids w2 (w3\<lparr>promotions := replace_row pr_id q (promotions w3)\<rparr>)"
    using settle_okE(7) [OF st] by (auto simp: draws_ids_def row_ids_def keeps_environment_def)
  with upsert_draws [OF dep] upsert_promotion_draws [OF up]
  have "draws_ids w (w3\<lparr>promotions := replace_row pr_id q (promotions w3)\<rparr>)" by (metis draws_ids.rel_trans)
  with log show "draws_ids w w'" by (rule logged_draws)
qed

section \<open>Requests\<close>

text \<open>An endpoint that refuses leaves the rows as they were and keeps the identifier supply.\<close>

lemma lifecycle_endpoint:
  assumes respects: "acts_within keeps_environment m" and ok: "\<And>x v. m w = (Inr x, v) \<Longrightarrow> draws_ids w v"
    and fails: "\<And>e v. m w = (Inl e, v) \<Longrightarrow> \<not> fst (h e) \<or> same_tables w v"
    and run: "guarded checks (run_endpoint m h) w = (r, w')"
  shows "draws_ids w w'" and "isl r \<Longrightarrow> same_tables w w'" and "\<not> isl r \<Longrightarrow> \<forall>c \<in> set checks. \<exists>x. c = Inr x"
    and "\<not> isl r \<Longrightarrow> \<exists>x. r = Inr x \<and> m w = (Inr x, w')"
proof -
  have "draws_ids w w' \<and> (isl r \<longrightarrow> same_tables w w') \<and> (\<not> isl r \<longrightarrow> (\<forall>c \<in> set checks. \<exists>x. c = Inr x)) \<and>
      (\<not> isl r \<longrightarrow> (\<exists>x. r = Inr x \<and> m w = (Inr x, w')))"
  proof (rule guarded_cases [of checks "run_endpoint m h" w])
    fix exc
    assume "guarded checks (run_endpoint m h) w = (Inl exc, w)"
    with run show ?thesis by (auto simp: draws_ids.rel_refl same_tables.rel_refl)
  next
    assume g: "guarded checks (run_endpoint m h) w = run_endpoint m h w" and c: "\<forall>c \<in> set checks. \<exists>x. c = Inr x"
    with run have run': "run_endpoint m h w = (r, w')" by simp
    show ?thesis
    proof (cases r)
      case (Inl exc)
      from respects have "keeps_environment w (snd (run_endpoint m h w))"
        by (rule run_endpoint_within) (simp add: rollback_def keeps_environment_def)
      with run' have env: "keeps_environment w w'" by simp
      have "same_tables w w'" using fails run' Inl run_endpoint_fails_same [of m w h exc w'] by blast
      with env Inl show ?thesis by (auto intro: same_tables_draws)
    next
      case (Inr x)
      with run' have "m w = (Inr x, w')" by (simp add: run_endpoint_ok)
      with Inr ok c show ?thesis by auto
    qed
  qed
  then show "draws_ids w w'" "isl r \<Longrightarrow> same_tables w w'" "\<not> isl r \<Longrightarrow> \<forall>c \<in> set checks. \<exists>x. c = Inr x"
    "\<not> isl r \<Longrightarrow> \<exists>x. r = Inr x \<and> m w = (Inr x, w')" by auto
qed

lemma endpoint_effect:
  assumes "acts_within keeps_environment m" and "\<And>x v. m w = (Inr x, v) \<Longrightarrow> draws_ids w v"
    and "\<And>e v. m w = (Inl e, v) \<Longrightarrow> \<not> fst (h e) \<or> same_tables w v"
    and "ignore_result (guarded checks (run_endpoint m h) w) = (r, w')"
  shows "draws_ids w w' \<and> (isl r \<longrightarrow> same_tables w w') \<and> (\<not> isl r \<longrightarrow> (\<forall>c \<in> set checks. \<exists>x. c = Inr x))"
proof -
  obtain r0 v where run: "guarded checks (run_endpoint m h) w = (r0, v)"
    by (cases "guarded checks (run_endpoint m h) w")
  with assms(4) have "w' = v" "isl r = isl r0"
    by (auto simp: ignore_result_def passed_def split: sum.splits)
  with lifecycle_endpoint [OF assms(1-3) run] show ?thesis by simp
qed

lemma refused_same:
  "create_draft hst c1 actor w = (Inl e, v) \<Longrightarrow> \<not> fst (draft_except e) \<or> same_tables w v"
  "validate_draft hst c2 actor w = (Inl e, v) \<Longrightarrow> \<not> fst (validate_except e) \<or> same_tables w v"
  "deploy_to_environment hst c3 actor w = (Inl e, v) \<Longrightarrow> \<not> fst (target_except b1 m1 e) \<or> same_tables w v"
  "publish_to_portal hst c3 actor w = (Inl e, v) \<Longrightarrow> \<not> fst (target_except b1 m1 e) \<or> same_tables w v"
  using failsD [OF create_draft_refused] failsD [OF validate_draft_refused] failsD [OF deploy_refused]
    failsD [OF publish_refused]
  by (auto simp: inert_def)

lemma promote_refused_same:
  assumes "promote_to_environment hst c actor w = (Inl e, v)"
  shows "\<not> fst (target_except d m e) \<or> same_tables w v"
proof -
  have "\<not> fst (target_except d m e)" if "db_error e"
    using that by (cases e) (simp_all add: target_except_def)
  with unlessD [OF promote_refused assms] show ?thesis by blast
qed

lemma serve_effect:
  assumes run: "serve hst user t req w = (r, w')"
  shows "draws_ids w w' \<and> (isl r \<longrightarrow> same_tables w w') \<and> (\<not> isl r \<longrightarrow>
      require_permission (request_permission req) user = Inr () \<and>
      decide_tenant_access user (Some t) ''resource'' = Inr (Some t))"
proof (cases req)
  case (CreateDraft env q)
  note e = run [unfolded CreateDraft serve.simps create_api_draft_def]
  from endpoint_effect [OF keeps_environment.respects_create create_draws refused_same(1) e] CreateDraft show ?thesis
    by (simp add: resource_access_ok)
next
  case (ValidateDraft a q)
  note e = run [unfolded ValidateDraft serve.simps validate_api_draft_def]
  from endpoint_effect [OF keeps_environment.respects_validate validate_draws refused_same(2) e] ValidateDraft show ?thesis
    by (simp add: resource_access_ok)
next
  case (DeployApi a q)
  note e = run [unfolded DeployApi serve.simps deploy_api_to_lifecycle_gateway_def]
  from endpoint_effect [OF keeps_environment.respects_deploy deploy_draws refused_same(3) e] DeployApi show ?thesis
    by (simp add: resource_access_ok)
next
  case (PublishApi a q)
  note e = run [unfolded PublishApi serve.simps publish_api_to_lifecycle_portal_def]
  from endpoint_effect [OF keeps_environment.respects_publish publish_draws refused_same(4) e] PublishApi show ?thesis
    by (simp add: resource_access_ok)
next
  case (PromoteApi a q)
  note e = run [unfolded PromoteApi serve.simps promote_api_through_lifecycle_def]
  from endpoint_effect [OF keeps_environment.respects_promote promote_draws promote_refused_same e] PromoteApi
  show ?thesis by (simp add: resource_access_ok)
qed

lemmas serve_defs = create_api_draft_def validate_api_draft_def deploy_api_to_lifecycle_gateway_def
  publish_api_to_lifecycle_portal_def promote_api_through_lifecycle_def

text \<open>Any relation the single steps respect, and a rollback restores, is respected by every request.\<close>

lemma endpoint_within:
  assumes "acts_within R m" and "state_relation R" and "\<And>w v. R w v \<Longrightarrow> R w (rollback w v)"
  shows "R w (snd (ignore_result (guarded checks (run_endpoint m h) w)))"
proof (rule guarded_cases [of checks "run_endpoint m h" w])
  assume "guarded checks (run_endpoint m h) w = run_endpoint m h w"
  then show ?thesis using run_endpoint_within [OF assms(1,3)] by (simp add: ignore_result_def)
qed (simp add: ignore_result_def state_relation.rel_refl [OF assms(2)])

lemma serve_within:
  assumes R: "lifecycle_relation R" and undo: "\<And>w v. R w v \<Longrightarrow> R w (rollback w v)"
  shows "R w (snd (serve hst user t req w))"
proof -
  note e = endpoint_within [OF _ lifecycle_relation.axioms(1) [OF R] undo]
  show ?thesis
    by (cases req; simp add: serve_defs; intro e lifecycle_relation.respects_create [OF R]
      lifecycle_relation.respects_validate [OF R] lifecycle_relation.respects_deploy [OF R]
      lifecycle_relation.respects_publish [OF R] lifecycle_relation.respects_promote [OF R]; assumption)
qed

lemma serve_db_ok: "db_ok w \<Longrightarrow> db_ok (snd (serve hst user t req w))"
proof -
  have "keeps_db_ok w (snd (serve hst user t req w))"
    by (rule serve_within [OF db_constraints.lifecycle_relation_axioms])
      (simp add: keeps_db_ok_def rollback_def db_ok_def)
  then show "db_ok w \<Longrightarrow> db_ok (snd (serve hst user t req w))" by (simp add: keeps_db_ok_def)
qed

lemma serve_log_grows: "log_grows w (snd (serve hst user t req w))"
  by (rule serve_within [OF append_only.lifecycle_relation_axioms]) (simp add: log_grows_def rollback_def)

lemma serve_keeps_rows: "keeps_rows w (snd (serve hst user t req w))"
  by (rule serve_within [OF keeps_rows.lifecycle_relation_axioms]) (simp add: keeps_rows_def rollback_def)

lemma serve_keeps_environment: "keeps_environment w (snd (serve hst user t req w))"
  by (rule serve_within [OF keeps_environment.lifecycle_relation_axioms]) (simp add: keeps_environment_def rollback_def)

end
