(* ===== verification/Scenario.thy ===== *)
theory Scenario
  imports RouterFacts
begin

text \<open>
  A small world at which the properties are instantiated: a tenant with a draft, a ready API that
  the gateway of \<open>dev\<close> has acknowledged and the portal shows, and three gateways. The host
  parses no text and its digest is the identity.
\<close>

definition sample_host :: host where
  "sample_host = \<lparr>json_loads = (\<lambda>_. Inl []), yaml_safe_load = (\<lambda>_. Inl []), yaml_safe_dump = dumps_default, sha256_hex = (\<lambda>s. s),
     GIT_SYNC_ON_WRITE = True, is_sse_enabled = True, is_sync_engine_enabled = True, kafka_accepts = True, GATEWAY_API_KEYS = ''k1, k2'',
     SYNC_ENGINE_INTERVAL_SECONDS = 300, SYNC_ENGINE_RETRY_MAX = 3, SYNC_ENGINE_PENDING_TIMEOUT_SECONDS = 3600\<rparr>"

definition sample_actor :: lifecycle_actor where
  "sample_actor = \<lparr>actor_id = Some ''u1'', actor_email = None, actor_username = None, actor_type = ''user''\<rparr>"

definition sample_gateway :: "uuid \<Rightarrow> string \<Rightarrow> string \<Rightarrow> gateway_instance" where
  "sample_gateway i name env =
     \<lparr>gi_id = i, gi_name = name, gi_display_name = name, gi_gateway_type = STOA, gi_environment = env,
      gi_tenant_id = None, gi_base_url = ''http://gw'', gi_target_gateway_url = None, gi_public_url = None,
      gi_ui_url = None, gi_endpoints = JNull, gi_status = ONLINE, gi_health_details = JNull, gi_mode = None,
      gi_deployment_mode = None, gi_target_gateway_type = None, gi_topology = None, gi_tags = [],
      gi_enabled = True, gi_visibility = JNull, gi_source = ''self_register'', gi_deleted_at = None\<rparr>"

definition sample_spec :: json where
  "sample_spec = JObj [(''openapi'', JStr ''3.0''), (''info'', JObj [(''title'', JStr ''T''), (''version'', JStr ''1'')]),
     (''paths'', JObj [(''/a'', JObj [(''get'', JObj [(''responses'', JObj [(''200'', JObj [])])])])])]"

definition sample_row :: "uuid \<Rightarrow> string \<Rightarrow> string \<Rightarrow> jdict \<Rightarrow> api_catalog" where
  "sample_row i name status lc =
     \<lparr>cat_id = i, cat_tenant_id = ''t'', cat_api_id = name, cat_api_name = name, cat_version = ''1'',
      cat_status = status, cat_category = None, cat_tags = [], cat_portal_published = True, cat_audience = ''public'',
      cat_api_metadata = JObj [(''backend_url'', JStr ''http://b''), (''lifecycle'', JObj lc)],
      cat_openapi_spec = sample_spec, cat_git_path = None, cat_git_commit_sha = Some ''c0'',
      cat_catalog_content_hash = None, cat_catalog_release_id = None, cat_catalog_release_tag = None,
      cat_catalog_pr_url = None, cat_catalog_pr_number = None, cat_catalog_source_branch = None,
      cat_catalog_merge_commit_sha = None, cat_target_gateways = [], cat_synced_at = DT 2025 1 1 0 0 0 0, cat_deleted_at = None\<rparr>"

text \<open>A draft, and a ready API published for the gateway of \<open>dev\<close> with an earlier contract.\<close>

definition sample_draft :: api_catalog where
  "sample_draft = sample_row 16 ''d'' ''draft'' []"

definition sample_api :: api_catalog where
  "sample_api = sample_row 17 ''a'' ''ready''
     [(''portal_publications'', JObj [(publication_key ''dev'' 1,
        JObj [(''deployment_id'', JStr (uuid_str 32)), (''spec_hash'', JStr ''old'')])])]"

definition sample_deployment :: gateway_deployment where
  "sample_deployment =
     \<lparr>dep_id = 32, dep_api_catalog_id = 17, dep_gateway_instance_id = 1,
      dep_desired_state = JObj (deploy_desired_state sample_host sample_api ''dev''
        (gateway_target_from_model (sample_gateway 1 ''g1'' ''dev''))),
      dep_desired_at = DT 2025 1 1 0 0 0 0, dep_actual_state = JNull, dep_actual_at = None,
      dep_desired_generation = 1, dep_synced_generation = 1, dep_attempted_generation = 1,
      dep_sync_status = SYNCED, dep_last_sync_attempt = None, dep_last_sync_success = None, dep_sync_error = None,
      dep_sync_attempts = 0, dep_sync_steps = JNull, dep_policy_sync_status = None, dep_policy_sync_error = None,
      dep_promotion_id = None, dep_gateway_resource_id = None, dep_created_at = DT 2025 1 1 0 0 0 0\<rparr>"

definition sample_world :: world where
  "sample_world = \<lparr>catalogs = [sample_draft, sample_api],
     gateways = [sample_gateway 1 ''g1'' ''dev'', sample_gateway 2 ''g2'' ''staging'', sample_gateway 3 ''g3'' ''prod''],
     deployments = [sample_deployment], promotions = [], assignments = [], audit_log = [], link_events = [], sync_requests = [],
     clock = (\<lambda>n. DT 2025 1 1 0 0 0 n), ticks = 0, uuid_source = (\<lambda>n. word_of_nat (n + 100)), uuids_used = 0\<rparr>"

definition create_sample :: create_command where
  "create_sample = \<lparr>cc_tenant_id = ''t'', cc_name = ''n'', cc_display_name = ''A'', cc_version = ''1'',
     cc_description = [], cc_backend_url = ''http://b'', cc_openapi_spec = sample_spec, cc_spec_reference = None,
     cc_tags = [], cc_owner_team = None\<rparr>"

definition validate_sample :: validate_command where
  "validate_sample = \<lparr>vc_tenant_id = ''t'', vc_api_id = ''d'', vc_reason = None\<rparr>"

definition target_sample :: "string \<Rightarrow> target_command" where
  "target_sample env = \<lparr>tc_tenant_id = ''t'', tc_api_id = ''a'', tc_environment = env, tc_gateway_instance_id = None,
     tc_force = False\<rparr>"

definition promote_sample :: promote_command where
  "promote_sample = \<lparr>mc_tenant_id = ''t'', mc_api_id = ''a'', mc_source_environment = ''dev'',
     mc_target_environment = ''staging'', mc_source_gateway_instance_id = None, mc_target_gateway_instance_id = None,
     mc_force = False\<rparr>"

text \<open>What the operations ask of this world.\<close>

lemma sample_ok: "db_ok sample_world"
  by (simp add: db_ok_def table_ok_def sample_world_def catalog_clash_def gateway_clash_def deployment_clash_def
      sample_draft_def sample_api_def sample_row_def sample_gateway_def)

lemma fresh_ids_two: "fresh_ids 2 w \<longleftrightarrow> uuid_source w (uuids_used w) \<noteq> uuid_source w (Suc (uuids_used w)) \<and>
    uuid_source w (uuids_used w) \<notin> row_ids w \<and> uuid_source w (Suc (uuids_used w)) \<notin> row_ids w"
proof -
  have "[uuids_used w..<uuids_used w + 2] = [uuids_used w, Suc (uuids_used w)]" by (simp add: upt_rec)
  then show ?thesis by (auto simp: fresh_ids_def less_2_cases_iff)
qed

lemma sample_fresh: "fresh_ids 2 sample_world" "fresh_ids 1 sample_world"
proof -
  show "fresh_ids 2 sample_world"
    by (simp add: fresh_ids_two row_ids_def sample_world_def sample_draft_def sample_api_def sample_row_def sample_deployment_def)
  then show "fresh_ids 1 sample_world" by (simp add: fresh_ids_two) (simp add: fresh_ids_def)
qed

lemma sample_contract: "\<exists>r. validate_openapi_contract sample_host sample_spec = Inr r"
proof -
  have "\<not> isl (validate_openapi_contract sample_host sample_spec)" by code_simp
  then show ?thesis by (metis sum.collapse(2))
qed

lemma sample_parsed: "parse_openapi_contract sample_host sample_spec = Inr (Some (obj_of sample_spec))"
  by code_simp

lemma sample_normalized: "normalize_create_command create_sample = Inr create_sample"
  by code_simp

lemma sample_creates: "\<exists>st w'. create_draft sample_host create_sample sample_actor sample_world = (Inr st, w')"
proof -
  have "find_legacy_portal_publication_tags (map JStr (cc_tags create_sample)) = []" by code_simp
  moreover have "slugify ''n'' = ''n''" by code_simp
  ultimately have "draft_accepted sample_host create_sample sample_world create_sample (Some (obj_of sample_spec))"
    using sample_parsed sample_normalized
    by (simp add: draft_accepted_def create_sample_def sample_world_def sample_draft_def sample_api_def sample_row_def)
      (simp add: sample_spec_def spec_json_def)
  then show ?thesis using create_draft_iff [OF sample_fresh(2)] by blast
qed

lemma sample_validates: "\<exists>out w'. validate_draft sample_host validate_sample sample_actor sample_world = (Inr out, w')"
proof -
  have "draft_validatable sample_host validate_sample sample_world sample_draft"
    using sample_contract
    by (simp add: draft_validatable_def validate_sample_def sample_world_def sample_draft_def sample_row_def lifecycle_dict_def
        metadata_of_def dict_or_empty_def spec_locked_def dget_def)
  then show ?thesis using validate_draft_iff [OF sample_ok] by blast
qed

lemma sample_meant:
  "meant_gateway ''t'' ''dev'' None sample_world (sample_gateway 1 ''g1'' ''dev'')"
  "meant_gateway ''t'' ''staging'' None sample_world (sample_gateway 2 ''g2'' ''staging'')"
  "meant_gateway ''t'' ''production'' None sample_world (sample_gateway 3 ''g3'' ''prod'')"
proof -
  have env: "environment_matches (JStr ''dev'') (JStr ''dev'')" "\<not> environment_matches (JStr ''staging'') (JStr ''dev'')"
    "\<not> environment_matches (JStr ''prod'') (JStr ''dev'')" "environment_matches (JStr ''staging'') (JStr ''staging'')"
    "\<not> environment_matches (JStr ''dev'') (JStr ''staging'')" "\<not> environment_matches (JStr ''prod'') (JStr ''staging'')"
    "environment_matches (JStr ''prod'') (JStr ''production'')" "\<not> environment_matches (JStr ''dev'') (JStr ''production'')"
    "\<not> environment_matches (JStr ''staging'') (JStr ''production'')"
    by code_simp+
  show "meant_gateway ''t'' ''dev'' None sample_world (sample_gateway 1 ''g1'' ''dev'')"
    "meant_gateway ''t'' ''staging'' None sample_world (sample_gateway 2 ''g2'' ''staging'')"
    "meant_gateway ''t'' ''production'' None sample_world (sample_gateway 3 ''g3'' ''prod'')"
    by (simp_all add: meant_gateway_def sample_world_def usable_gateway_def sample_gateway_def visible_to_def env)
qed

lemma sample_environments: "lifecycle_environment ''dev'' = Inr ''dev''" "lifecycle_environment ''staging'' = Inr ''staging''"
  "lifecycle_environment ''production'' = Inr ''production''"
  by code_simp+

lemma sample_api_row: "catalog_row ''t'' ''a'' sample_world sample_api"
  by (simp add: catalog_row_def sample_world_def sample_api_def sample_row_def)

lemma sample_deploys:
  assumes "env \<in> {''dev'', ''staging'', ''production''}"
  shows "\<exists>out w'. deploy_to_environment sample_host (target_sample env) sample_actor sample_world = (Inr out, w')"
proof -
  have "opt_truthy (cat_git_commit_sha sample_api)" "cat_status sample_api = ''ready''"
    by (simp_all add: sample_api_def sample_row_def opt_truthy_def)
  with assms have "\<exists>gi. deployable (target_sample env) sample_world env sample_api gi"
    using sample_meant sample_environments sample_api_row by (auto simp: deployable_def target_sample_def)
  then show ?thesis using deploy_iff [OF sample_ok sample_fresh(2)] by blast
qed

lemma deploy_desired_identity:
  "k \<in> set identity_keys \<Longrightarrow> dget (deploy_desired_state hst api env g) k = dget (build_desired_state hst api) k"
  by (auto simp: identity_keys_def deploy_desired_state_def dmerge_def dget_def map_update_if)

lemma sample_current: "\<not> deployment_stale sample_host sample_api sample_deployment"
proof -
  have url: "backend_url_of sample_api = JStr ''http://b''"
    by (simp add: backend_url_of_def Let_def sample_api_def sample_row_def dget_def dget_def_def)
  have "jeq (dget (build_desired_state sample_host sample_api) k) (dget (build_desired_state sample_host sample_api) k)"
    if "k \<in> set identity_keys" for k
    using that by (auto simp: identity_keys_def desired_state_identity url)
  then show ?thesis
    by (simp add: deployment_stale_def Let_def list_ex_iff sample_deployment_def deployment_synced_to_desired_generation_def
        deploy_desired_identity)
qed

lemma sample_deployed: "get_gateway_deployment 17 1 sample_world = (Inr (Some sample_deployment), sample_world)"
  by (simp add: get_gateway_deployment_def sample_world_def sample_deployment_def)

lemma sample_found: "get_api_by_id ''t'' ''a'' sample_world = (Inr (Some sample_api), sample_world)"
  using get_row_iff [OF sample_ok] sample_api_row by blast

lemma sample_publishable: "\<exists>r. publishable sample_host (target_sample ''dev'') ''dev'' sample_api
    (sample_gateway 1 ''g1'' ''dev'') sample_deployment r sample_world"
proof -
  obtain r where "validate_openapi_contract sample_host sample_spec = Inr r" using sample_contract by blast
  moreover from this have "truthy sample_spec" by (rule accepted_spec_truthy)
  moreover have "cat_id sample_api = 17" "gi_id (sample_gateway 1 ''g1'' ''dev'') = 1" "cat_openapi_spec sample_api = sample_spec"
    "cat_status sample_api = ''ready''" "dep_sync_status sample_deployment = SYNCED"
    by (simp_all add: sample_api_def sample_row_def sample_gateway_def sample_deployment_def)
  ultimately show ?thesis
    using sample_environments sample_found sample_meant(1) sample_deployed sample_current
    by (auto simp: publishable_def target_sample_def)
qed

lemma sample_publishes: "\<exists>out w'. publish_to_portal sample_host (target_sample ''dev'') sample_actor sample_world = (Inr out, w')"
proof -
  have "publication_storable sample_api"
    by (simp add: publication_storable_def sample_api_def sample_row_def metadata_of_def dget_def dict_or_empty_def)
  then show ?thesis using publish_iff [OF sample_ok] sample_publishable by blast
qed

lemma sample_promotable: "promotable promote_sample ''dev'' ''staging'' sample_api (sample_gateway 1 ''g1'' ''dev'')
    (sample_gateway 2 ''g2'' ''staging'') sample_deployment sample_world"
proof -
  have "source_published sample_api ''dev'' (gateway_target_from_model (sample_gateway 1 ''g1'' ''dev'')) sample_deployment"
    by (simp add: source_published_def portal_publication_record_def publications_of_def lifecycle_of_def metadata_of_def
        sample_api_def sample_row_def sample_gateway_def sample_deployment_def dget_def Let_def)
  moreover have "production_git_guard_violation sample_api (gateway_target_from_model (sample_gateway 2 ''g2'' ''staging'')) = None"
    by (simp add: guard_None sample_api_def sample_row_def opt_truthy_def)
  moreover have "cat_id sample_api = 17" "gi_id (sample_gateway 1 ''g1'' ''dev'') = 1" "cat_status sample_api = ''ready''"
    "dep_sync_status sample_deployment = SYNCED"
    by (simp_all add: sample_api_def sample_row_def sample_gateway_def sample_deployment_def)
  ultimately show ?thesis
    using sample_environments sample_found sample_meant sample_deployed by (simp add: promotable_def promote_sample_def)
qed

lemma sample_promotes: "\<exists>out w'. promote_to_environment sample_host promote_sample sample_actor sample_world = (Inr out, w')"
  by (rule promote_succeeds [OF sample_ok sample_fresh(1) sample_promotable])
    (simp add: foreign_active_def sample_world_def)

text \<open>The API was published with another contract, so it is published anew.\<close>

lemma sample_republished:
  assumes "publish_to_portal sample_host (target_sample ''dev'') sample_actor sample_world = (Inr out, w')"
  shows "po_result out = ''republished''"
proof -
  have rec: "portal_publication_record sample_api ''dev'' 1 =
      Some [(''deployment_id'', JStr (uuid_str 32)), (''spec_hash'', JStr ''old'')]"
    by (simp add: portal_publication_record_def publications_of_def lifecycle_of_def metadata_of_def sample_api_def sample_row_def
        dget_def Let_def)
  have hash: "spec_fingerprint sample_host (cat_openapi_spec sample_api) \<noteq> ''old''"
    by (simp add: sample_api_def sample_row_def) code_simp
  have gid: "gi_id gi = 1" if "meant_gateway ''t'' ''dev'' None sample_world gi" for gi
    using that sample_meant(1) by (auto simp: meant_gateway_def sample_gateway_def)
  from assms show ?thesis
    using sample_found sample_environments rec hash gid
    by (cases rule: publish_okE) (auto simp: publishable_def target_sample_def already_published_def dget_def publication_of_def)
qed

end
