(* ===== verification/LifecycleSpecs.thy ===== *)
theory LifecycleSpecs
  imports Scenario
begin

text \<open>
  What the lifecycle service guarantees: when each operation succeeds, what a successful one
  does to the rows, and what it leaves alone. Every statement with a hypothesis is followed by
  an instance at the sample world.
\<close>

section \<open>Shared facts\<close>

text \<open>Exactly one audit record was added.\<close>

definition audited :: "world \<Rightarrow> string \<Rightarrow> string \<Rightarrow> string \<Rightarrow> world \<Rightarrow> bool" where
  "audited w act outcome api_id w' \<longleftrightarrow> (\<exists>ev. audit_log w' = audit_log w @ [ev] \<and> ae_action ev = act \<and> ae_outcome ev = outcome \<and>
     ae_resource_id ev = api_id)"

lemma logged_as_audited: "logged_as actor act oc t i w w' \<Longrightarrow> audit_log w = audit_log v \<Longrightarrow> audited v act oc i w'"
  by (auto simp: logged_as_def audited_def)

text \<open>The row with key \<open>i\<close> is the only one that changed.\<close>

definition only_row :: "('r \<Rightarrow> uuid) \<Rightarrow> uuid \<Rightarrow> 'r list \<Rightarrow> 'r list \<Rightarrow> bool" where
  "only_row key i t t' \<longleftrightarrow> filter (\<lambda>r. key r \<noteq> i) t' = filter (\<lambda>r. key r \<noteq> i) t"

lemma only_row_replace: "only_row key (key row) t (replace_row key row t)"
  by (induction t) (auto simp: only_row_def replace_row_def)

lemma only_row_append: "only_row key (key row) t (t @ [row])"
  by (simp add: only_row_def)

lemma only_row_same: "only_row key i t t"
  by (simp add: only_row_def)

lemma replace_row_member: "r \<in> set t \<Longrightarrow> key r = key row \<Longrightarrow> row \<in> set (replace_row key row t)"
  by (force simp: replace_row_def)

section \<open>Drafts\<close>

text \<open>
  On a database whose next identifier is unused, \<open>create_draft\<close> succeeds exactly when the
  command normalises, asks for no portal publication through its tags, clashes with no live API of
  the tenant (by name and version, or by slug), and comes with a parsable contract or a reference
  to one.
\<close>

theorem draft_created_iff:
  assumes "fresh_ids 1 w"
  shows "(\<exists>st w'. create_draft hst c actor w = (Inr st, w')) \<longleftrightarrow> (\<exists>n parsed. draft_accepted hst c w n parsed)"
  using assms by (rule create_draft_iff)

theorem draft_created_iff_witness:
  "fresh_ids 1 sample_world \<and> (\<exists>n parsed. draft_accepted sample_host create_sample sample_world n parsed)"
  using draft_created_iff [OF sample_fresh(2)] sample_creates sample_fresh(2) by blast

text \<open>
  A created draft is one new catalog row, in status \<open>draft\<close>, unpublished and undeployed, that is
  found again under the slug of its name; no other row is touched and one success is audited.
\<close>

theorem draft_created:
  assumes "create_draft hst c actor w = (Inr st, w')"
  shows "\<exists>n row. normalize_create_command c = Inr n \<and> catalogs w' = catalogs w @ [row] \<and>
     cat_status row = ''draft'' \<and> \<not> cat_portal_published row \<and> cat_api_id row = slugify (cc_name n) \<and>
     get_api_by_id (cc_tenant_id n) (slugify (cc_name n)) w' = (Inr (Some row), w') \<and>
     gateways w' = gateways w \<and> deployments w' = deployments w \<and> promotions w' = promotions w \<and>
     audited w ''api_lifecycle.create_draft'' ''success'' (slugify (cc_name n)) w'"
  using assms
proof (cases rule: create_draft_okE)
  case (1 n parsed row)
  note f = logged_as_fields [OF 1(9)]
  have "cat_api_id row = slugify (cc_name n)" "cat_tenant_id row = cc_tenant_id n" "cat_deleted_at row = None"
    "cat_status row = ''draft''" "\<not> cat_portal_published row"
    by (simp_all add: 1(7) draft_row_def)
  moreover from this 1(4) have "get_api_by_id (cc_tenant_id n) (slugify (cc_name n)) w' = (Inr (Some row), w')"
    by (simp add: get_api_by_id_def f scalar_one_or_none_None)
  ultimately show ?thesis
    using 1(1) f logged_as_audited [OF 1(9), of w] by (intro exI [of _ n] exI [of _ row]) simp
qed

theorem draft_created_witness: "\<exists>st w' row. create_draft sample_host create_sample sample_actor sample_world = (Inr st, w') \<and>
    catalogs w' = catalogs sample_world @ [row] \<and> cat_status row = ''draft''"
  using sample_creates draft_created by metis

text \<open>
  \<open>validate_draft\<close> succeeds exactly for a live \<open>draft\<close> or \<open>ready\<close> API of the tenant whose
  stored contract is valid, and, once it is \<open>ready\<close>, has not changed since it was validated.
\<close>

theorem draft_validated_iff:
  assumes "db_ok w"
  shows "(\<exists>out w'. validate_draft hst c actor w = (Inr out, w')) \<longleftrightarrow> (\<exists>api. draft_validatable hst c w api)"
  using assms by (rule validate_draft_iff)

theorem draft_validated_iff_witness:
  "db_ok sample_world \<and> (\<exists>api. draft_validatable sample_host validate_sample sample_world api)"
  using draft_validated_iff [OF sample_ok] sample_validates sample_ok by blast

lemma metadata_of_stored: "metadata_of (api\<lparr>cat_status := s, cat_api_metadata := JObj d\<rparr>) = d"
  by (simp add: metadata_of_def)

lemma validation_row_metadata:
  "lifecycle_of (validation_row hst api lc now r) = validated_lifecycle lc now (spec_fingerprint hst (cat_openapi_spec api)) r
     (ss_source (spec_state_of api))"
  "lifecycle_dict (validation_row hst api lc now r) = Inr (validated_lifecycle lc now
     (spec_fingerprint hst (cat_openapi_spec api)) r (ss_source (spec_state_of api)))"
  "dget (validated_lifecycle lc now h r src) ''validation_spec_hash'' = JStr h"
  "k \<notin> {''lifecycle'', ''status''} \<Longrightarrow> dget (metadata_of (validation_row hst api lc now r)) k = dget (metadata_of api) k"
proof -
  let ?lc = "validated_lifecycle lc now (spec_fingerprint hst (cat_openapi_spec api)) r (ss_source (spec_state_of api))"
  have meta: "metadata_of (validation_row hst api lc now r) =
      dset ''lifecycle'' (JObj ?lc) (dset ''status'' (JStr ''ready'') (metadata_of api))"
    by (simp add: validation_row_def validated_row_def metadata_of_stored)
  show "lifecycle_of (validation_row hst api lc now r) = ?lc" "lifecycle_dict (validation_row hst api lc now r) = Inr ?lc"
    by (simp_all add: lifecycle_of_def lifecycle_dict_def meta dget_dset dict_or_empty_def Let_def)
  show "k \<notin> {''lifecycle'', ''status''} \<Longrightarrow> dget (metadata_of (validation_row hst api lc now r)) k = dget (metadata_of api) k"
    by (simp add: meta dget_dset)
qed (simp add: validated_lifecycle_def dget_dset)

lemma validated_effect:
  assumes run: "validate_draft hst c actor w = (Inr out, w')" and ok: "db_ok w"
  obtains api row r lc now where "catalog_row (vc_tenant_id c) (vc_api_id c) w api"
    and "row = validation_row hst api lc now r" and "catalog_row (vc_tenant_id c) (vc_api_id c) w' row"
    and "validate_openapi_contract hst (cat_openapi_spec api) = Inr r"
    and "catalogs w' = replace_row cat_id row (catalogs w)"
    and "gateways w' = gateways w" and "deployments w' = deployments w" and "promotions w' = promotions w"
    and "audited w ''api_lifecycle.validate_draft'' ''success'' (vc_api_id c) w'"
  using run
proof (cases rule: validate_draft_okE)
  case (1 api r lc row)
  note f = logged_as_fields [OF 1(8)]
  have api: "catalog_row (vc_tenant_id c) (vc_api_id c) w api" using 1(1) get_row_iff [OF ok] by simp
  have id: "cat_id row = cat_id api" by (simp add: 1(6) validation_row_def)
  have "catalog_row (vc_tenant_id c) (vc_api_id c) w' row"
    using api replace_row_member [of api "catalogs w" cat_id row] by (simp add: catalog_row_def f 1(6) validation_row_def)
  moreover have "audited w ''api_lifecycle.validate_draft'' ''success'' (vc_api_id c) w'"
    using logged_as_audited [OF 1(8), of w] api by (simp add: catalog_row_def)
  ultimately show thesis using api 1 f by (intro that) simp_all
qed

text \<open>
  A successful validation changes one catalog row, which becomes \<open>ready\<close>: its contract is
  the one that was validated and its metadata carry the fingerprint of that contract; every
  other entry of the metadata, every other row and every other table are untouched.
\<close>

theorem draft_validated:
  assumes run: "validate_draft hst c actor w = (Inr out, w')" and ok: "db_ok w"
  shows "\<exists>api row r. catalog_row (vc_tenant_id c) (vc_api_id c) w api \<and> catalog_row (vc_tenant_id c) (vc_api_id c) w' row \<and>
     cat_status row = ''ready'' \<and> cat_openapi_spec row = cat_openapi_spec api \<and>
     validate_openapi_contract hst (cat_openapi_spec row) = Inr r \<and>
     dget (lifecycle_of row) ''validation_spec_hash'' = JStr (spec_fingerprint hst (cat_openapi_spec row)) \<and>
     (\<forall>k. k \<notin> {''lifecycle'', ''status''} \<longrightarrow> dget (metadata_of row) k = dget (metadata_of api) k) \<and>
     only_row cat_id (cat_id api) (catalogs w) (catalogs w') \<and>
     gateways w' = gateways w \<and> deployments w' = deployments w \<and> promotions w' = promotions w \<and>
     audited w ''api_lifecycle.validate_draft'' ''success'' (vc_api_id c) w'"
proof (rule validated_effect [OF run ok])
  fix api row r lc now
  assume e: "catalog_row (vc_tenant_id c) (vc_api_id c) w api" "row = validation_row hst api lc now r"
    "catalog_row (vc_tenant_id c) (vc_api_id c) w' row" "validate_openapi_contract hst (cat_openapi_spec api) = Inr r"
    "catalogs w' = replace_row cat_id row (catalogs w)" "gateways w' = gateways w" "deployments w' = deployments w"
    "promotions w' = promotions w" "audited w ''api_lifecycle.validate_draft'' ''success'' (vc_api_id c) w'"
  have fields: "cat_id row = cat_id api" "cat_status row = ''ready''" "cat_openapi_spec row = cat_openapi_spec api"
    by (simp_all add: e(2) validation_row_def)
  then have "only_row cat_id (cat_id api) (catalogs w) (catalogs w')" using only_row_replace [of cat_id row "catalogs w"] e(5) by simp
  moreover have "dget (lifecycle_of row) ''validation_spec_hash'' = JStr (spec_fingerprint hst (cat_openapi_spec row))"
    "\<forall>k. k \<notin> {''lifecycle'', ''status''} \<longrightarrow> dget (metadata_of row) k = dget (metadata_of api) k"
    unfolding fields(3) unfolding e(2) using validation_row_metadata by auto
  ultimately show ?thesis using e fields by (intro exI [of _ api] exI [of _ row] exI [of _ r]) simp
qed

theorem draft_validated_witness: "\<exists>out w' row. validate_draft sample_host validate_sample sample_actor sample_world = (Inr out, w') \<and>
    catalog_row ''t'' ''d'' w' row \<and> cat_status row = ''ready''"
proof -
  obtain out w' where run: "validate_draft sample_host validate_sample sample_actor sample_world = (Inr out, w')"
    using sample_validates by blast
  from draft_validated [OF run sample_ok] run show ?thesis by (auto simp: validate_sample_def)
qed

text \<open>
  A \<open>ready\<close> API whose valid contract is no longer the validated one cannot be validated:
  the request is refused as a conflict, one failure is audited, and no row changes.
\<close>

theorem ready_contract_locked:
  assumes ok: "db_ok w" and row: "catalog_row (vc_tenant_id c) (vc_api_id c) w api" and lc: "lifecycle_dict api = Inr lc"
    and locked: "spec_locked hst api lc" and valid: "validate_openapi_contract hst (cat_openapi_spec api) = Inr r"
  shows "\<exists>m w'. validate_draft hst c actor w = (Inl (ApiLifecycleTransitionError m), w') \<and> same_tables w w' \<and>
     audited w ''api_lifecycle.validate_draft_failed'' ''failure'' (vc_api_id c) w'"
proof -
  have get: "get_api_by_id (vc_tenant_id c) (vc_api_id c) w = (Inr (Some api), w)" using row get_row_iff [OF ok] by simp
  have st: "cat_status api \<noteq> ''archived''" "\<not> cat_status api \<notin> {''draft'', ''ready''}"
    "\<not> (\<not> truthy (cat_openapi_spec api) \<and> truthy (ss_reference (spec_state_of api)))"
    "cat_status api = ''ready'' \<and> truthy (dget lc ''validation_spec_hash'') \<and>
     dget lc ''validation_spec_hash'' \<noteq> JStr (spec_fingerprint hst (cat_openapi_spec api))"
    using locked accepted_spec_truthy [OF valid] by (auto simp: spec_locked_def)
  show ?thesis
    unfolding validate_draft_def query_bind [OF queries_same(1)] get fst_conv sum.case option.case if_not_P [OF st(1)]
      if_not_P [OF st(2)] Let_def if_not_P [OF st(3)] valid clock_bind lc bindA_simps if_P [OF st(4)]
    using row by (auto simp: refuse_validation_def audit_validation_failure_def record_bind same_tables_def audited_def
      catalog_row_def)
qed

text \<open>An API that was validated with another contract.\<close>

definition changed_api :: api_catalog where
  "changed_api = sample_row 17 ''a'' ''ready'' [(''validation_spec_hash'', JStr ''old'')]"

theorem ready_contract_locked_witness: "\<exists>m w'. validate_draft sample_host
     \<lparr>vc_tenant_id = ''t'', vc_api_id = ''a'', vc_reason = None\<rparr> sample_actor (sample_world\<lparr>catalogs := [changed_api]\<rparr>)
     = (Inl (ApiLifecycleTransitionError m), w')"
proof -
  let ?w = "sample_world\<lparr>catalogs := [changed_api]\<rparr>" and ?c = "\<lparr>vc_tenant_id = ''t'', vc_api_id = ''a'', vc_reason = None\<rparr>"
  have fields: "cat_status changed_api = ''ready''" "cat_openapi_spec changed_api = sample_spec"
    "cat_api_metadata changed_api = JObj [(''backend_url'', JStr ''http://b''),
       (''lifecycle'', JObj [(''validation_spec_hash'', JStr ''old'')])]"
    by (simp_all add: changed_api_def sample_row_def)
  have hash: "spec_fingerprint sample_host sample_spec \<noteq> ''old''"
    by code_simp
  have "db_ok ?w" using sample_ok by (simp add: db_ok_def table_ok_def)
  moreover have "catalog_row (vc_tenant_id ?c) (vc_api_id ?c) ?w changed_api"
    by (simp add: catalog_row_def changed_api_def sample_row_def)
  moreover have "lifecycle_dict changed_api = Inr [(''validation_spec_hash'', JStr ''old'')]"
    by (simp add: lifecycle_dict_def metadata_of_def fields dget_def dict_or_empty_def)
  moreover have "spec_locked sample_host changed_api [(''validation_spec_hash'', JStr ''old'')]"
    using hash by (simp add: spec_locked_def fields dget_def)
  ultimately show ?thesis using ready_contract_locked [of ?w ?c] sample_contract fields by metis
qed

section \<open>Deployments\<close>

text \<open>
  C35. \<open>deploy_to_environment\<close> succeeds exactly when the environment label is one of the three
  environments, the tenant has the API, the API is \<open>ready\<close>, the request means one usable gateway
  of that environment, and a production gateway is only asked for a Git-backed API.
\<close>

theorem deployed_iff:
  assumes "db_ok w" and "fresh_ids 1 w"
  shows "(\<exists>out w'. deploy_to_environment hst c actor w = (Inr out, w')) \<longleftrightarrow> (\<exists>env api gi. deployable c w env api gi)"
  using assms by (rule deploy_iff)

theorem deployed_iff_witness: "db_ok sample_world \<and> fresh_ids 1 sample_world \<and>
    (\<exists>env api gi. deployable (target_sample ''staging'') sample_world env api gi)"
proof -
  have "\<exists>out w'. deploy_to_environment sample_host (target_sample ''staging'') sample_actor sample_world = (Inr out, w')"
    by (rule sample_deploys) simp
  with deployed_iff [OF sample_ok sample_fresh(2)] have "\<exists>env api gi. deployable (target_sample ''staging'') sample_world env api gi"
    by (rule iffD1)
  with sample_ok sample_fresh(2) show ?thesis by (intro conjI)
qed

text \<open>
  C15. A successful deployment touches the one row of the API and the gateway. Unless it reports
  \<open>unchanged\<close>, that row asks the runtime for the current desired state: it is \<open>PENDING\<close>, without an
  error or an attempt, one generation after what was there (1 for a new row).
\<close>

theorem deployed:
  assumes run: "deploy_to_environment hst c actor w = (Inr out, w')" and ok: "db_ok w"
  shows "\<exists>env api gi d. deployable c w env api gi \<and> get_gateway_deployment (cat_id api) (gi_id gi) w' = (Inr (Some d), w') \<and>
     do_deployment_id out = dep_id d \<and> do_deployment_status out = sync_value (dep_sync_status d) \<and>
     only_row dep_id (dep_id d) (deployments w) (deployments w') \<and>
     (if do_action out = ''unchanged'' then deployments w' = deployments w \<and> \<not> tc_force c \<and>
        jeq (dep_desired_state d) (JObj (deploy_desired_state hst api env (gateway_target_from_model gi)))
      else requested_anew (deploy_desired_state hst api env (gateway_target_from_model gi)) w d) \<and>
     catalogs w' = catalogs w \<and> gateways w' = gateways w \<and> promotions w' = promotions w"
  using run
proof (cases rule: deploy_okE)
  case (1 env api gi d act w1)
  note f = logged_as_fields [OF 1(7)] and up = 1(6) and e = upsert_effect [OF 1(6) ok, simplified gateway_target_fields]
  have dep: "deployable c w env api gi"
    using 1 by (simp add: deployable_def get_row_iff [OF ok] flip: guard_gateway)
  have "get_gateway_deployment (cat_id api) (gi_id gi) w' = (Inr (Some d), w')"
    using e(7) f(3) by (simp add: get_gateway_deployment_def)
  moreover have "act = ''unchanged'' \<Longrightarrow> deployments w' = deployments w"
    using up f(3) by (cases rule: upsert_okE) simp_all
  moreover have "only_row dep_id (dep_id d) (deployments w) (deployments w')" using e(6) f(3) by (simp add: only_row_def)
  moreover have "if do_action out = ''unchanged'' then deployments w' = deployments w \<and> \<not> tc_force c \<and>
        jeq (dep_desired_state d) (JObj (deploy_desired_state hst api env (gateway_target_from_model gi)))
      else requested_anew (deploy_desired_state hst api env (gateway_target_from_model gi)) w d"
  proof (cases "act = ''unchanged''")
    case True
    with e(4) [OF True] calculation(2) 1(9) show ?thesis by simp
  next
    case False
    with e(5) [OF False] 1(9) show ?thesis by simp
  qed
  moreover have "catalogs w' = catalogs w" "gateways w' = gateways w" "promotions w' = promotions w"
    using e(8-10) f(1,2,4) by simp_all
  ultimately show ?thesis using dep 1(8,11) by blast
qed

theorem deployed_witness: "\<exists>out w' d. deploy_to_environment sample_host (target_sample ''staging'') sample_actor sample_world = (Inr out, w') \<and>
    d \<in> set (deployments w') \<and> do_deployment_id out = dep_id d"
proof -
  obtain out w' where run: "deploy_to_environment sample_host (target_sample ''staging'') sample_actor sample_world = (Inr out, w')"
    using sample_deploys by blast
  from deployed [OF run sample_ok] run get_gateway_deployment_Some show ?thesis by metis
qed

text \<open>
  Deploying twice is deploying once: when nothing was forced, the second request reports
  \<open>unchanged\<close>, changes no deployment row and notifies no gateway.
\<close>

theorem deployed_twice:
  assumes run: "deploy_to_environment hst c actor w = (Inr out, w')" and ok: "db_ok w" and calm: "\<not> tc_force c"
    and docs: "\<forall>api \<in> set (catalogs w). jwf (cat_openapi_spec api) \<and> jwf (cat_api_metadata api)"
  shows "\<exists>out' w''. deploy_to_environment hst c actor' w' = (Inr out', w'') \<and> do_action out' = ''unchanged'' \<and>
     do_deployment_id out' = do_deployment_id out \<and> deployments w'' = deployments w' \<and> link_events w'' = link_events w'"
  using run
proof (cases rule: deploy_okE)
  case (1 env api gi d act w1)
  note f = logged_as_fields [OF 1(7)] and up = 1(6) and e = upsert_effect [OF 1(6) ok, simplified gateway_target_fields]
  let ?ds = "deploy_desired_state hst api env (gateway_target_from_model gi)"
  have same: "catalogs w' = catalogs w" "gateways w' = gateways w" using e f by simp_all
  have "deployable c w env api gi"
    using 1 by (simp add: deployable_def get_row_iff [OF ok] flip: guard_gateway)
  then have dep: "deployable c w' env api gi" by (simp add: deployable_same [OF same])
  have ok': "db_ok w'" using stepsD [OF db_constraints.respects_deploy run] ok by (simp add: keeps_db_ok_def)
  have get: "get_gateway_deployment (cat_id api) (gt_id (gateway_target_from_model gi)) w' = (Inr (Some d), w')"
    using e(7) f(3) by (simp add: get_gateway_deployment_def)
  have "api \<in> set (catalogs w)" using 1(2) get_row_iff [OF ok] by (simp add: catalog_row_def)
  then have "jwf (JObj (build_desired_state hst api))" using docs jwf_desired_state by blast
  then have "jwf (JObj ?ds)" unfolding deploy_desired_state_def by (rule jwf_dmerge) simp
  then have "jeq (JObj ?ds) (JObj ?ds)" by (rule jeq_refl)
  then have jeq: "jeq (dep_desired_state d) (JObj ?ds)"
    using e(4,5) by (cases "act = ''unchanged''") (auto simp: requested_anew_def)
  have "upsert_gateway_deployment hst api (gateway_target_from_model gi) ?ds (tc_force c) None w' =
      (Inr (d, ''unchanged''), w'\<lparr>ticks := Suc (ticks w')\<rparr>)"
    using upsert_again [OF get jeq 1(5)] calm by simp
  from deploy_runs [OF ok' dep this, of actor'] show ?thesis using 1(8) by auto
qed

lemma sample_documents: "\<forall>api \<in> set (catalogs sample_world). jwf (cat_openapi_spec api) \<and> jwf (cat_api_metadata api)"
  by (simp add: sample_world_def sample_draft_def sample_api_def sample_row_def sample_spec_def)

theorem deployed_twice_witness: "\<exists>out w' out' w''.
    deploy_to_environment sample_host (target_sample ''staging'') sample_actor sample_world = (Inr out, w') \<and>
    deploy_to_environment sample_host (target_sample ''staging'') sample_actor w' = (Inr out', w'') \<and>
    do_action out' = ''unchanged''"
proof -
  have "\<not> tc_force (target_sample ''staging'')" by (simp add: target_sample_def)
  moreover obtain out w' where
    "deploy_to_environment sample_host (target_sample ''staging'') sample_actor sample_world = (Inr out, w')"
    using sample_deploys by blast
  ultimately show ?thesis using deployed_twice [OF _ sample_ok _ sample_documents] by metis
qed

text \<open>
  C21. Nothing reaches production without Git: a successful deployment or promotion to
  \<open>production\<close> concerns an API whose catalog row carries a commit.
\<close>

theorem production_needs_git:
  assumes "db_ok w"
  shows "(deploy_to_environment hst c actor w = (Inr out, w') \<longrightarrow> lifecycle_environment (tc_environment c) = Inr ''production'' \<longrightarrow>
       (\<exists>api. catalog_row (tc_tenant_id c) (tc_api_id c) w api \<and> opt_truthy (cat_git_commit_sha api))) \<and>
     (promote_to_environment hst m actor w = (Inr mout, mw') \<longrightarrow> lifecycle_environment (mc_target_environment m) = Inr ''production'' \<longrightarrow>
       (\<exists>api. catalog_row (mc_tenant_id m) (mc_api_id m) w api \<and> opt_truthy (cat_git_commit_sha api)))"
proof (intro conjI)
  have normal: "normalize_environment (JStr (gi_environment gi)) = Some ''production''"
    if "meant_gateway t ''production'' gid w gi" for t gid gi
  proof -
    have "normalize_environment (JStr ''production'') = Some ''production''" by code_simp
    with that show ?thesis by (simp add: meant_gateway_def usable_gateway_def environment_matches_def)
  qed
  show "deploy_to_environment hst c actor w = (Inr out, w') \<longrightarrow> lifecycle_environment (tc_environment c) = Inr ''production'' \<longrightarrow>
       (\<exists>api. catalog_row (tc_tenant_id c) (tc_api_id c) w api \<and> opt_truthy (cat_git_commit_sha api))"
    using get_row_iff [OF assms] normal by (auto elim!: deploy_okE simp: guard_gateway)
  show "promote_to_environment hst m actor w = (Inr mout, mw') \<longrightarrow> lifecycle_environment (mc_target_environment m) = Inr ''production'' \<longrightarrow>
       (\<exists>api. catalog_row (mc_tenant_id m) (mc_api_id m) w api \<and> opt_truthy (cat_git_commit_sha api))"
    using get_row_iff [OF assms] normal by (auto elim!: promote_okE simp: guard_gateway promotable_def)
qed

theorem production_needs_git_witness: "\<exists>api. catalog_row ''t'' ''a'' sample_world api \<and> opt_truthy (cat_git_commit_sha api)"
proof -
  have "\<exists>out w'. deploy_to_environment sample_host (target_sample ''production'') sample_actor sample_world = (Inr out, w')"
    by (rule sample_deploys) simp
  then obtain out w' where
    run: "deploy_to_environment sample_host (target_sample ''production'') sample_actor sample_world = (Inr out, w')" by blast
  have "lifecycle_environment (tc_environment (target_sample ''production'')) = Inr ''production''"
    by (simp add: target_sample_def sample_environments)
  from production_needs_git [OF sample_ok, THEN conjunct1, rule_format, OF run this] show ?thesis
    by (simp add: target_sample_def)
qed

section \<open>Publications\<close>

text \<open>
  \<open>publish_to_portal\<close> succeeds exactly when the API is \<open>ready\<close>, the request means one usable
  gateway, that gateway has acknowledged exactly the generation and the identity the catalog row
  stands for now, the stored contract is valid, and the publication can be stored or is there already.
\<close>

theorem published_iff:
  assumes "db_ok w"
  shows "(\<exists>out w'. publish_to_portal hst c actor w = (Inr out, w')) \<longleftrightarrow>
    (\<exists>env api gi d r. publishable hst c env api gi d r w \<and> (publication_storable api \<or>
       already_published api (portal_publication_record api env (gi_id gi)) (spec_fingerprint hst (cat_openapi_spec api)) d
         (tc_force c)))"
  using assms by (rule publish_iff)

theorem published_iff_witness: "db_ok sample_world \<and>
    (\<exists>out w'. publish_to_portal sample_host (target_sample ''dev'') sample_actor sample_world = (Inr out, w'))"
proof -
  have "publication_storable sample_api"
    by (simp add: publication_storable_def sample_api_def sample_row_def metadata_of_def dget_def dict_or_empty_def)
  with sample_publishable have "\<exists>env api gi d r. publishable sample_host (target_sample ''dev'') env api gi d r sample_world \<and>
      (publication_storable api \<or> already_published api (portal_publication_record api env (gi_id gi))
        (spec_fingerprint sample_host (cat_openapi_spec api)) d (tc_force (target_sample ''dev'')))" by blast
  with published_iff [OF sample_ok] have "\<exists>out w'. publish_to_portal sample_host (target_sample ''dev'') sample_actor sample_world
      = (Inr out, w')" by (rule iffD2)
  with sample_ok show ?thesis ..
qed

lemma complete_changes:
  assumes "complete_promotion_for_publication api actor env gid did w = (Inr u, w')"
  shows "catalogs w' = catalogs w" "gateways w' = gateways w" "deployments w' = deployments w"
  using complete_frame [OF assms] by simp_all

text \<open>The row a publication leaves: the published one, and its publications.\<close>

lemma published_effect:
  assumes run: "publish_to_portal hst c actor w = (Inr out, w')" and ok: "db_ok w"
  obtains env api gi d r row where "publishable hst c env api gi d r w" and "po_deployment_id out = dep_id d"
    and "po_environment out = env" and "catalog_row (tc_tenant_id c) (tc_api_id c) w api"
    and "catalog_row (tc_tenant_id c) (tc_api_id c) w' row" and "cat_portal_published row"
    and "only_row cat_id (cat_id api) (catalogs w) (catalogs w')"
    and "gateways w' = gateways w" and "deployments w' = deployments w"
    and "(po_result out = ''unchanged'' \<and> row = api \<and> catalogs w' = catalogs w \<and>
            already_published api (portal_publication_record api env (gi_id gi)) (spec_fingerprint hst (cat_openapi_spec api)) d
              (tc_force c)) \<or>
         (\<exists>p. p = publication_of hst api env (gi_id gi) (dep_id d)
             (portal_publication_record api env (gi_id gi) \<noteq> None \<and> portal_publication_record api env (gi_id gi) \<noteq> Some [])
             (clock w (ticks w)) \<and> portal_publish api p = Inr row \<and> po_result out = pub_result p)"
  using run
proof (cases rule: publish_okE)
  case (again env api gi d r w1)
  note f = logged_as_fields [OF again(4)] and k = complete_changes [OF again(3)]
  have api: "catalog_row (tc_tenant_id c) (tc_api_id c) w api" using again(1) get_row_iff [OF ok] by (simp add: publishable_def)
  moreover have "cat_portal_published api" using again(2) by (auto simp: already_published_def split: option.splits)
  moreover have "catalogs w' = catalogs w" "gateways w' = gateways w" "deployments w' = deployments w" using f k by simp_all
  ultimately show thesis using again
    by (intro that [of env api gi d r api]) (simp_all add: catalog_row_def only_row_same)
next
  case (now env api gi d r pub row w1)
  note f = logged_as_fields [OF now(6)] and k = complete_changes [OF now(5)] and p = portal_publish_publications [OF now(3)]
  have api: "catalog_row (tc_tenant_id c) (tc_api_id c) w api" using now(1) get_row_iff [OF ok] by (simp add: publishable_def)
  have same: "catalogs w' = replace_row cat_id row (catalogs w)" "gateways w' = gateways w" "deployments w' = deployments w"
    using f k by simp_all
  have row: "catalog_row (tc_tenant_id c) (tc_api_id c) w' row"
    using api p replace_row_member [of api "catalogs w" cat_id row] by (simp add: catalog_row_def same)
  have only: "only_row cat_id (cat_id api) (catalogs w) (catalogs w')"
    using only_row_replace [of cat_id row "catalogs w"] p(4) same by simp
  show thesis
    by (rule that [OF now(1,8,9) api row p(2) only same(2,3)], rule disjI2, rule exI [of _ pub], intro conjI now(2,3,7))
qed



text \<open>
  What is published can be read back: after a publication that was not already there, the
  portal state of the row lists it, for the environment, gateway and deployment of the request and
  with the fingerprint of the contract; the records of other environments and gateways are unchanged.
\<close>

theorem published_visible:
  assumes run: "publish_to_portal hst c actor w = (Inr out, w')" and ok: "db_ok w"
    and new: "po_result out \<noteq> ''unchanged''" and time: "dt_wf (clock w (ticks w))"
  shows "\<exists>api row p. catalog_row (tc_tenant_id c) (tc_api_id c) w api \<and> catalog_row (tc_tenant_id c) (tc_api_id c) w' row \<and>
     p \<in> set (pls_publications (portal_state_of row)) \<and> pub_environment p = po_environment out \<and>
     pub_deployment_id p = po_deployment_id out \<and> pub_spec_hash p = spec_fingerprint hst (cat_openapi_spec row) \<and>
     pub_published_at p = clock w (ticks w) \<and>
     (\<forall>e g. publication_key e g \<noteq> publication_key (pub_environment p) (pub_gateway_instance_id p) \<longrightarrow>
        portal_publication_record row e g = portal_publication_record api e g)"
proof (rule published_effect [OF run ok])
  fix env api gi d r row
  assume e: "po_deployment_id out = dep_id d" "po_environment out = env"
    "catalog_row (tc_tenant_id c) (tc_api_id c) w api" "catalog_row (tc_tenant_id c) (tc_api_id c) w' row"
    and res: "(po_result out = ''unchanged'' \<and> row = api \<and> catalogs w' = catalogs w \<and>
            already_published api (portal_publication_record api env (gi_id gi)) (spec_fingerprint hst (cat_openapi_spec api)) d
              (tc_force c)) \<or>
         (\<exists>p. p = publication_of hst api env (gi_id gi) (dep_id d)
             (portal_publication_record api env (gi_id gi) \<noteq> None \<and> portal_publication_record api env (gi_id gi) \<noteq> Some [])
             (clock w (ticks w)) \<and> portal_publish api p = Inr row \<and> po_result out = pub_result p)"
  from res new obtain p again where p: "p = publication_of hst api env (gi_id gi) (dep_id d) again (clock w (ticks w))"
    and pub: "portal_publish api p = Inr row" by blast
  have fields: "pub_environment p = env" "pub_deployment_id p = dep_id d" "pub_published_at p = clock w (ticks w)"
    "pub_spec_hash p = spec_fingerprint hst (cat_openapi_spec row)"
    using portal_publish_publications(3) [OF pub] by (simp_all add: p publication_of_def)
  have "p \<in> set (pls_publications (portal_state_of row))"
    using portal_publish_readable [OF pub] time fields by simp
  with e fields portal_publish_record(2) [OF pub] show ?thesis
    by (intro exI [of _ api] exI [of _ row] exI [of _ p]) simp
qed

theorem published_visible_witness: "\<exists>out w' row p.
    publish_to_portal sample_host (target_sample ''dev'') sample_actor sample_world = (Inr out, w') \<and>
    catalog_row ''t'' ''a'' w' row \<and> p \<in> set (pls_publications (portal_state_of row))"
proof -
  obtain out w' where run: "publish_to_portal sample_host (target_sample ''dev'') sample_actor sample_world = (Inr out, w')"
    using sample_publishes by blast
  moreover have "po_result out \<noteq> ''unchanged''" using sample_republished [OF run] by simp
  moreover have "dt_wf (clock sample_world (ticks sample_world))" by (simp add: sample_world_def dt_wf_def month_days_def)
  ultimately show ?thesis using published_visible [OF run sample_ok] by (auto simp: target_sample_def)
qed

text \<open>What a publication stores does not change what the row stands for.\<close>

lemma published_metadata:
  assumes "portal_publish api p = Inr row"
  shows "k \<noteq> ''lifecycle'' \<Longrightarrow> map_of (metadata_of row) k = map_of (metadata_of api) k"
    and "cat_api_metadata row = JObj (metadata_of row)"
  using assms by (auto simp: portal_publish_def Let_def metadata_of_def [of "api\<lparr>cat_api_metadata := _, cat_portal_published := _\<rparr>"]
      map_update_if split: sum.splits)

lemma published_same_desired:
  assumes pub: "portal_publish api p = Inr row" and spec: "truthy (cat_openapi_spec api)"
  shows "build_desired_state hst row = build_desired_state hst api"
proof -
  note f = portal_publish_publications [OF pub]
  have data: "spec_data_of row = spec_data_of api" using spec f(3) by (simp add: spec_data_of_def)
  have entry: "dget_def (metadata_of row) k v = dget_def (metadata_of api) k v" if "k \<noteq> ''lifecycle''" for k v
    using published_metadata(1) [OF pub that] by (simp add: dget_def_def)
  have url: "dget_def (metadata_of row) ''backend_url'' v = dget_def (metadata_of api) ''backend_url'' v"
    "dget_def (metadata_of row) ''url'' v = dget_def (metadata_of api) ''url'' v" for v
    by (simp_all add: entry)
  have meta: "(if is_obj (cat_api_metadata x) then dget_def (obj_of (cat_api_metadata x)) k
        (dget_def (obj_of (cat_api_metadata x)) k' v) else v) = dget_def (metadata_of x) k (dget_def (metadata_of x) k' v)" for x k k' v
    by (simp add: metadata_of_def dget_def_def)
  have "backend_url_of row = backend_url_of api"
    unfolding backend_url_of_def Let_def data meta url ..
  then show ?thesis
    by (simp add: build_desired_state_def desired_state_git_metadata_def data f Let_def)
qed

text \<open>
  Publishing twice is publishing once: when nothing was forced, the second request reports
  \<open>unchanged\<close> and leaves the catalog and the deployments as they are.
\<close>

theorem published_twice:
  assumes run: "publish_to_portal hst c actor w = (Inr out, w')" and ok: "db_ok w" and calm: "\<not> tc_force c"
  shows "\<exists>out' w''. publish_to_portal hst c actor' w' = (Inr out', w'') \<and> po_result out' = ''unchanged'' \<and>
     catalogs w'' = catalogs w' \<and> deployments w'' = deployments w'"
proof (rule published_effect [OF run ok])
  fix env api gi d r row
  assume p: "publishable hst c env api gi d r w" and row: "catalog_row (tc_tenant_id c) (tc_api_id c) w' row"
    and same: "gateways w' = gateways w" "deployments w' = deployments w"
    and res: "(po_result out = ''unchanged'' \<and> row = api \<and> catalogs w' = catalogs w \<and>
            already_published api (portal_publication_record api env (gi_id gi)) (spec_fingerprint hst (cat_openapi_spec api)) d
              (tc_force c)) \<or>
         (\<exists>p. p = publication_of hst api env (gi_id gi) (dep_id d)
             (portal_publication_record api env (gi_id gi) \<noteq> None \<and> portal_publication_record api env (gi_id gi) \<noteq> Some [])
             (clock w (ticks w)) \<and> portal_publish api p = Inr row \<and> po_result out = pub_result p)"
  have ok': "db_ok w'" using stepsD [OF db_constraints.respects_publish run] ok by (simp add: keeps_db_ok_def)
  have spec: "truthy (cat_openapi_spec api)" using p by (simp add: publishable_def)
  have row_same: "cat_id row = cat_id api \<and> cat_status row = cat_status api \<and> cat_openapi_spec row = cat_openapi_spec api \<and>
      build_desired_state hst row = build_desired_state hst api \<and>
      already_published row (portal_publication_record row env (gi_id gi)) (spec_fingerprint hst (cat_openapi_spec row)) d False"
    using res
  proof (elim disjE conjE exE)
    fix p
    assume q: "p = publication_of hst api env (gi_id gi) (dep_id d)
        (portal_publication_record api env (gi_id gi) \<noteq> None \<and> portal_publication_record api env (gi_id gi) \<noteq> Some [])
        (clock w (ticks w))" and pub: "portal_publish api p = Inr row"
    note f = portal_publish_publications [OF pub]
    have "portal_publication_record row env (gi_id gi) = Some (obj_of (publication_payload p))"
      using portal_publish_record(1) [OF pub] by (simp add: q publication_of_def)
    then have "already_published row (portal_publication_record row env (gi_id gi))
        (spec_fingerprint hst (cat_openapi_spec row)) d False"
      by (simp add: already_published_def f publication_payload_def q publication_of_def dget_def)
    with f published_same_desired [OF pub spec] show ?thesis by simp
  qed (use calm in simp)
  have stale: "deployment_stale hst row d = deployment_stale hst api d"
    using row_same by (simp add: deployment_stale_def)
  have get: "get_gateway_deployment (cat_id api) (gi_id gi) w' = (Inr (Some d), w')"
    using p same by (simp add: publishable_def get_gateway_deployment_def)
  have "publishable hst c env row gi d r w'"
    using p row_same row get get_row_iff [OF ok'] unfolding publishable_def meant_gateway_same [OF same(1)] stale by simp
  moreover have "already_published row (portal_publication_record row env (gi_id gi))
      (spec_fingerprint hst (cat_openapi_spec row)) d (tc_force c)"
    using row_same calm unfolding eq_False [THEN iffD2, OF calm] by blast
  ultimately show ?thesis by (rule publish_repeats [OF ok'])
qed

theorem published_twice_witness: "\<exists>out w' out' w''.
    publish_to_portal sample_host (target_sample ''dev'') sample_actor sample_world = (Inr out, w') \<and>
    publish_to_portal sample_host (target_sample ''dev'') sample_actor w' = (Inr out', w'') \<and> po_result out' = ''unchanged''"
proof -
  have "\<not> tc_force (target_sample ''dev'')" by (simp add: target_sample_def)
  then show ?thesis using sample_publishes published_twice [OF _ sample_ok] by metis
qed

text \<open>
  A publication completes the promotion that owns the deployment: an active promotion of the API
  to the environment, towards the published deployment, is \<open>promoted\<close> afterwards, with a completion time.
\<close>

theorem published_completes:
  assumes run: "publish_to_portal hst c actor w = (Inr out, w')" and ok: "db_ok w"
    and p: "p \<in> set (promotions w)" "active_status (pr_status p)" "pr_tenant_id p = tc_tenant_id c" "pr_api_id p = tc_api_id c"
      "pr_target_environment p = po_environment out" "pr_target_deployment_id p = Some (po_deployment_id out)"
  shows "\<exists>q \<in> set (promotions w'). pr_id q = pr_id p \<and> pr_status q = ''promoted'' \<and> pr_completed_at q \<noteq> None"
proof -
  have completes: "\<exists>q \<in> set (promotions v'). pr_id q = pr_id p \<and> pr_status q = ''promoted'' \<and> pr_completed_at q \<noteq> None"
    if run: "complete_promotion_for_publication api actor env gid did v = (Inr u, v')" and same: "promotions v = promotions w"
      and api: "cat_tenant_id api = tc_tenant_id c" "cat_api_id api = tc_api_id c" "env = po_environment out" "did = po_deployment_id out"
    for api env gid did v v' u
  proof -
    let ?sel = "\<lambda>p. pr_tenant_id p = cat_tenant_id api \<and> pr_api_id p = cat_api_id api \<and> pr_target_environment p = env \<and>
        pr_target_deployment_id p = Some did \<and> active_status (pr_status p)"
    have "q = p" if "q \<in> set (promotions w)" "?sel q" for q
    proof (rule promotion_table.clash_same)
      show "table_ok pr_id promotion_clash (promotions w)" using ok by (simp add: db_ok_def)
      show "promotion_clash q p" using that p api by (simp add: promotion_clash_def)
    qed (use that p in simp_all)
    note unique = this
    have "?sel p" using p api by simp
    with p(1) have "find ?sel (promotions w) \<noteq> None" unfolding find_None_all by blast
    then obtain q where q: "find ?sel (promotions w) = Some q" by blast
    from find_Some_in [OF q] have "q = p" by (intro unique) simp_all
    with q same have found: "get_active_promotion_for_target_deployment (cat_tenant_id api) (cat_api_id api) env did v = (Inr (Some p), v)"
      by (simp add: get_active_promotion_for_target_deployment_def)
    from run found show ?thesis
    proof (cases rule: complete_okE)
      case (completes q)
      with found have "q = p" by simp
      with completes p(1) same logged_as_fields(4) [OF completes(3)] show ?thesis
        by (intro bexI [of _ "completed p did (clock v (ticks v))"]) (auto simp: completed_def replace_row_def)
    qed simp
  qed
  from run show ?thesis
  proof (cases rule: publish_okE)
    case (again env api gi d r w1)
    have "cat_tenant_id api = tc_tenant_id c \<and> cat_api_id api = tc_api_id c"
      using again(1) get_row_iff [OF ok] by (auto simp: publishable_def catalog_row_def)
    with completes [OF again(3)] again(6,7) logged_as_fields(4) [OF again(4)] show ?thesis by simp
  next
    case (now env api gi d r pub api' w1)
    have "cat_tenant_id api' = tc_tenant_id c \<and> cat_api_id api' = tc_api_id c"
      using now(1) get_row_iff [OF ok] portal_publish_publications [OF now(3)] by (auto simp: publishable_def catalog_row_def)
    with completes [OF now(5)] now(8,9) logged_as_fields(4) [OF now(6)] show ?thesis by simp
  qed
qed

text \<open>A promotion that waits for the sample deployment.\<close>

definition sample_promotion :: promotion where
  "sample_promotion =
     \<lparr>pr_id = 64, pr_tenant_id = ''t'', pr_api_id = ''a'', pr_source_environment = ''dev'', pr_target_environment = ''dev'',
      pr_source_deployment_id = None, pr_target_deployment_id = Some 32, pr_target_gateway_ids = JNull,
      pr_status = ''promoting'', pr_spec_diff = JNull, pr_message = [], pr_requested_by = ''u'', pr_approved_by = None,
      pr_completed_at = None, pr_created_at = DT 2025 1 1 0 0 0 0\<rparr>"

theorem published_completes_witness: "\<exists>out w'. \<exists>q \<in> set (promotions w').
    publish_to_portal sample_host (target_sample ''dev'') sample_actor (sample_world\<lparr>promotions := [sample_promotion]\<rparr>) = (Inr out, w') \<and>
    pr_id q = 64 \<and> pr_status q = ''promoted''"
proof -
  let ?w = "sample_world\<lparr>promotions := [sample_promotion]\<rparr>"
  have ok: "db_ok ?w" using sample_ok by (simp add: db_ok_def table_ok_def)
  obtain r where "publishable sample_host (target_sample ''dev'') ''dev'' sample_api (sample_gateway 1 ''g1'' ''dev'')
      sample_deployment r sample_world"
    using sample_publishable by blast
  then have p: "publishable sample_host (target_sample ''dev'') ''dev'' sample_api (sample_gateway 1 ''g1'' ''dev'')
      sample_deployment r ?w"
    by (rule publishable_same [rotated 3]) simp_all
  have "publication_storable sample_api"
    by (simp add: publication_storable_def sample_api_def sample_row_def metadata_of_def dget_def dict_or_empty_def)
  with p obtain out w' where run: "publish_to_portal sample_host (target_sample ''dev'') sample_actor ?w = (Inr out, w')"
    using publish_iff [OF ok] by blast
  have "dep_id sample_deployment = 32" by (simp add: sample_deployment_def)
  with publish_target [OF ok p run] have out: "po_environment out = ''dev''" "po_deployment_id out = 32" by simp_all
  have pre: "sample_promotion \<in> set (promotions ?w)" "active_status (pr_status sample_promotion)"
      "pr_tenant_id sample_promotion = tc_tenant_id (target_sample ''dev'')"
      "pr_api_id sample_promotion = tc_api_id (target_sample ''dev'')"
      "pr_target_environment sample_promotion = po_environment out"
      "pr_target_deployment_id sample_promotion = Some (po_deployment_id out)"
    using out by (simp_all add: sample_promotion_def target_sample_def active_status_def)
  have "pr_id sample_promotion = 64" by (simp add: sample_promotion_def)
  with published_completes [OF run ok pre] run show ?thesis by auto
qed

section \<open>Promotions\<close>

text \<open>
  C36. Where no promotion of another lane holds the target, \<open>promote_to_environment\<close> succeeds exactly
  when the environments are adjacent, the API is \<open>ready\<close>, both gateways are usable, production is
  Git-backed, and the API is deployed on the source gateway, \<open>SYNCED\<close> there and published from there.
\<close>

theorem promoted_iff:
  assumes ok: "db_ok w" and fresh: "fresh_ids 2 w"
    and own: "\<forall>src tgt api sgi tgi sd. promotable c src tgt api sgi tgi sd w \<longrightarrow> \<not> foreign_active api src tgt w"
  shows "(\<exists>out w'. promote_to_environment hst c actor w = (Inr out, w')) \<longleftrightarrow>
    (\<exists>src tgt api sgi tgi sd. promotable c src tgt api sgi tgi sd w)"
proof
  assume "\<exists>out w'. promote_to_environment hst c actor w = (Inr out, w')"
  then show "\<exists>src tgt api sgi tgi sd. promotable c src tgt api sgi tgi sd w" by (blast elim: promote_okE)
next
  assume "\<exists>src tgt api sgi tgi sd. promotable c src tgt api sgi tgi sd w"
  then show "\<exists>out w'. promote_to_environment hst c actor w = (Inr out, w')" using promote_succeeds [OF ok fresh] own by blast
qed

theorem promoted_iff_witness: "db_ok sample_world \<and> fresh_ids 2 sample_world \<and>
    (\<exists>out w'. promote_to_environment sample_host promote_sample sample_actor sample_world = (Inr out, w'))"
proof -
  have "\<forall>src tgt api sgi tgi sd. promotable promote_sample src tgt api sgi tgi sd sample_world \<longrightarrow> \<not> foreign_active api src tgt sample_world"
    by (simp add: foreign_active_def sample_world_def)
  from promoted_iff [OF sample_ok sample_fresh(1) this] have
    "\<exists>out w'. promote_to_environment sample_host promote_sample sample_actor sample_world = (Inr out, w')"
    by (rule iffD2) (use sample_promotable in blast)
  with sample_ok sample_fresh(1) show ?thesis by (intro conjI)
qed

text \<open>
  C18. A successful promotion links two rows: a promotion row of the lane, and the deployment of the API
  on the target gateway, which it owns and points to. It reads \<open>promoted\<close> as soon as that deployment
  has acknowledged the desired generation; no catalog row changes.
\<close>

theorem promoted:
  assumes run: "promote_to_environment hst c actor w = (Inr out, w')" and ok: "db_ok w"
  shows "\<exists>src tgt api sgi tgi sd p d. promotable c src tgt api sgi tgi sd w \<and> p \<in> set (promotions w') \<and>
     pr_id p = mo_promotion_id out \<and> pr_status p = mo_promotion_status out \<and>
     in_lane (mc_tenant_id c) (mc_api_id c) src tgt p \<and> pr_target_deployment_id p = Some (dep_id d) \<and>
     get_gateway_deployment (cat_id api) (gi_id tgi) w' = (Inr (Some d), w') \<and> dep_id d = mo_target_deployment_id out \<and>
     dep_promotion_id d = Some (pr_id p) \<and> (deployment_synced_to_desired_generation d \<longrightarrow> pr_status p = ''promoted'') \<and>
     only_row dep_id (dep_id d) (deployments w) (deployments w') \<and> catalogs w' = catalogs w \<and> gateways w' = gateways w"
  using run
proof (rule promote_okE)
  fix src tgt api sgi tgi sd
  let ?sg = "gateway_target_from_model sgi" and ?tg = "gateway_target_from_model tgi"
  assume p0: "promotable c src tgt api sgi tgi sd w"
    and "run_promotion hst c actor api src tgt ?sg ?tg sd w = (Inr out, w')"
  from this(2) show ?thesis
  proof (cases rule: run_promotion_okE)
    case (1 p pact w1 d dact w2 q w3)
    note a = upsert_promotion_frame [OF 1(1)] and s = settle_okE [OF 1(3)] and f = logged_as_fields [OF 1(5)]
    have ok1: "db_ok w1" using stepsD [OF db_constraints.respects_upsert_promotion 1(1)] ok by (simp add: keeps_db_ok_def)
    note e = upsert_effect [OF 1(2) ok1, unfolded gateway_target_fields]
    have w3: "catalogs w3 = catalogs w2" "gateways w3 = gateways w2" "deployments w3 = deployments w2" "promotions w3 = promotions w2"
      using s(7) by auto
    have api: "cat_tenant_id api = mc_tenant_id c" "cat_api_id api = mc_api_id c"
      using p0 get_row_iff [OF ok] by (auto simp: promotable_def catalog_row_def)
    have "p \<in> set (promotions w3)" using a(10) e(10) w3(4) by simp
    then have "q \<in> set (promotions w')" using f(4) s(1) replace_row_member [of p "promotions w3" pr_id q] by simp
    moreover have "in_lane (mc_tenant_id c) (mc_api_id c) src tgt q" using a(9) s(2-5) api by (simp add: in_lane_def)
    moreover have "get_gateway_deployment (cat_id api) (gi_id tgi) w' = (Inr (Some d), w')"
      using e(7) f(3) w3(3) by (simp add: get_gateway_deployment_def)
    moreover have "only_row dep_id (dep_id d) (deployments w) (deployments w')"
      using e(6) a(3) f(3) w3(3) by (simp add: only_row_def)
    moreover have "catalogs w' = catalogs w" "gateways w' = gateways w" using a(1,2) e(8,9) w3 f(1,2) by simp_all
    moreover have "dep_promotion_id d = Some (pr_id q)" using e(12) s(1) by simp
    ultimately show ?thesis using p0 1(6-9) s(6,8) by (intro exI conjI) (assumption | simp)+
  qed
qed

theorem promoted_witness: "\<exists>out w' p. promote_to_environment sample_host promote_sample sample_actor sample_world = (Inr out, w') \<and>
    p \<in> set (promotions w') \<and> pr_id p = mo_promotion_id out"
proof -
  obtain out w' where run: "promote_to_environment sample_host promote_sample sample_actor sample_world = (Inr out, w')"
    using sample_promotes by blast
  from promoted [OF run sample_ok] run show ?thesis by blast
qed

lemma latest_promoted_some:
  assumes "p \<in> set (promotions w)" and "in_lane t a s e p" and "pr_status p = ''promoted''"
  shows "\<exists>q. get_latest_promoted_promotion t a s e w = (Inr (Some q), w) \<and> pr_status q = ''promoted''"
proof -
  have "first_row (sort_key completed_desc (filter (\<lambda>p. in_lane t a s e p \<and> pr_status p = promotion_value PR_PROMOTED)
      (promotions w))) \<noteq> None" (is "first_row ?l \<noteq> None")
  proof -
    have "x \<in> set xs \<Longrightarrow> first_row xs \<noteq> None" for x :: promotion and xs by (cases xs) (simp_all add: first_row_def)
    moreover have "p \<in> set ?l" using assms by simp
    ultimately show ?thesis by blast
  qed
  then obtain q where "get_latest_promoted_promotion t a s e w = (Inr (Some q), w)"
    by (auto simp: get_latest_promoted_promotion_def)
  with get_latest_promoted_Some [OF this] show ?thesis by blast
qed

text \<open>
  A promotion that was completed once keeps its status when the same promotion is requested again,
  even where the request sends a new desired state to the target: the response and the row then say
  \<open>promoted\<close> while the target deployment is still \<open>pending\<close>.
\<close>

theorem promoted_while_pending:
  assumes run: "promote_to_environment hst c actor w = (Inr out, w')" and ok: "db_ok w" and calm: "\<not> mc_force c"
    and lane: "lifecycle_environment (mc_source_environment c) = Inr src" "lifecycle_environment (mc_target_environment c) = Inr tgt"
    and idle: "\<forall>p \<in> set (promotions w). in_lane (mc_tenant_id c) (mc_api_id c) src tgt p \<longrightarrow> \<not> active_status (pr_status p)"
    and before: "p \<in> set (promotions w)" "in_lane (mc_tenant_id c) (mc_api_id c) src tgt p" "pr_status p = ''promoted''"
    and changed: "mo_result out \<noteq> ''unchanged''"
  shows "mo_promotion_status out = ''promoted'' \<and> mo_deployment_status out = ''pending''"
  using run
proof (rule promote_okE)
  fix src' tgt' api sgi tgi sd
  let ?sg = "gateway_target_from_model sgi" and ?tg = "gateway_target_from_model tgi"
  assume p0: "promotable c src' tgt' api sgi tgi sd w"
    and "run_promotion hst c actor api src' tgt' ?sg ?tg sd w = (Inr out, w')"
  from this(2) show ?thesis
  proof (cases rule: run_promotion_okE)
    case (1 q pact w1 d dact w2 q' w3)
    have at: "src' = src" "tgt' = tgt" "cat_tenant_id api = mc_tenant_id c" "cat_api_id api = mc_api_id c"
      using p0 lane get_row_iff [OF ok] by (auto simp: promotable_def catalog_row_def)
    have none: "get_active_promotion (mc_tenant_id c) (mc_api_id c) src tgt w = (Inr None, w)"
      using idle by (simp add: get_active_None)
    obtain l where l: "get_latest_promoted_promotion (mc_tenant_id c) (mc_api_id c) src tgt w = (Inr (Some l), w)"
      "pr_status l = ''promoted''" using latest_promoted_some [OF before] by blast
    have "upsert_promotion api actor src' tgt' sd ?tg (mc_force c) w = (Inr (l, ''unchanged''), w)"
      using none l(1) calm by (simp add: upsert_promotion_def query_bind queries_same at)
    with 1(1) have q: "q = l" "pact = ''unchanged''" "w1 = w" by simp_all
    with 1(10) changed have "dact \<noteq> ''unchanged''" by (auto simp: promotion_result_def)
    with upsert_effect(5) [OF 1(2)] ok q(3) have "dep_sync_status d = PENDING" by (simp add: requested_anew_def)
    moreover from this settle_okE(8) [OF 1(3)] have "pr_status q' = ''promoted''"
      by (simp add: q(1) l(2) deployment_synced_to_desired_generation_def)
    ultimately show ?thesis using 1(7,9) by simp
  qed
qed

definition finished_promotion :: promotion where
  "finished_promotion = sample_promotion\<lparr>pr_target_environment := ''staging'', pr_status := ''promoted''\<rparr>"

lemma promotable_unique:
  assumes "promotable c src tgt api sgi tgi sd w" and "promotable c src' tgt' api' sgi' tgi' sd' w"
  shows "api' = api" and "mc_target_gateway_instance_id c = None \<Longrightarrow> tgi' = tgi"
  using assms by (auto simp: promotable_def meant_gateway_def)

lemma promotable_same:
  assumes "catalogs w' = catalogs w" and "gateways w' = gateways w" and "deployments w' = deployments w"
    and "promotable c src tgt api sgi tgi sd w"
  shows "promotable c src tgt api sgi tgi sd w'"
  using assms(4) unfolding promotable_def meant_gateway_same [OF assms(2)]
  by (simp add: get_api_by_id_def get_gateway_deployment_def assms(1,3))

theorem promoted_while_pending_witness: "\<exists>out w'.
    promote_to_environment sample_host promote_sample sample_actor (sample_world\<lparr>promotions := [finished_promotion]\<rparr>) = (Inr out, w') \<and>
    mo_promotion_status out = ''promoted'' \<and> mo_deployment_status out = ''pending''"
proof -
  let ?w = "sample_world\<lparr>promotions := [finished_promotion]\<rparr>"
  have ok: "db_ok ?w" using sample_ok by (simp add: db_ok_def table_ok_def)
  have fresh: "fresh_ids 2 ?w"
    by (simp add: fresh_ids_two row_ids_def sample_world_def sample_draft_def sample_api_def sample_row_def sample_deployment_def
        finished_promotion_def sample_promotion_def)
  have p: "promotable promote_sample ''dev'' ''staging'' sample_api (sample_gateway 1 ''g1'' ''dev'')
      (sample_gateway 2 ''g2'' ''staging'') sample_deployment ?w"
    using sample_promotable by (rule promotable_same [rotated 3]) simp_all
  have inactive: "\<not> active_status (pr_status finished_promotion)"
    by (simp add: finished_promotion_def active_status_def)
  have "\<not> foreign_active sample_api ''dev'' ''staging'' ?w" using inactive by (simp add: foreign_active_def)
  with promote_succeeds [OF ok fresh p] obtain out w' where
    run: "promote_to_environment sample_host promote_sample sample_actor ?w = (Inr out, w')" by blast
  have new: "mo_result out \<noteq> ''unchanged''"
    using run
  proof (rule promote_okE)
    fix src tgt api sgi tgi sd
    assume p': "promotable promote_sample src tgt api sgi tgi sd ?w"
      and "run_promotion sample_host promote_sample sample_actor api src tgt (gateway_target_from_model sgi)
        (gateway_target_from_model tgi) sd ?w = (Inr out, w')"
    have "mc_target_gateway_instance_id promote_sample = None" by (simp add: promote_sample_def)
    with promotable_unique [OF p p'] have "api = sample_api" "tgi = sample_gateway 2 ''g2'' ''staging''" by blast+
    then have at: "cat_id api = 17" "gi_id tgi = 2"
      by (simp_all add: sample_api_def sample_row_def sample_gateway_def)
    from \<open>run_promotion _ _ _ api src tgt _ _ sd ?w = _\<close> show ?thesis
    proof (cases rule: run_promotion_okE)
      case (1 p pact w1 d dact w2 q w3)
      have "deployments w1 = [sample_deployment]" using upsert_promotion_frame(3) [OF 1(1)] by (simp add: sample_world_def)
      then have "get_gateway_deployment 17 2 w1 = (Inr None, w1)"
        by (simp add: get_gateway_deployment_def sample_deployment_def)
      with 1(2) at have "dact = ''created''" by (auto elim: upsert_okE)
      with 1(10) show ?thesis by (simp add: promotion_result_def)
    qed
  qed
  have lane: "in_lane (mc_tenant_id promote_sample) (mc_api_id promote_sample) ''dev'' ''staging'' finished_promotion"
    by (simp add: in_lane_def promote_sample_def finished_promotion_def sample_promotion_def)
  have env: "lifecycle_environment (mc_source_environment promote_sample) = Inr ''dev''"
    "lifecycle_environment (mc_target_environment promote_sample) = Inr ''staging''"
    by (simp_all add: promote_sample_def sample_environments)
  have rest: "\<not> mc_force promote_sample" "finished_promotion \<in> set (promotions ?w)" "pr_status finished_promotion = ''promoted''"
    by (simp_all add: promote_sample_def finished_promotion_def)
  have idle: "\<forall>p \<in> set (promotions ?w). in_lane (mc_tenant_id promote_sample) (mc_api_id promote_sample) ''dev'' ''staging'' p \<longrightarrow>
      \<not> active_status (pr_status p)" using inactive by simp
  from promoted_while_pending [OF run ok rest(1) env idle rest(2) lane rest(3) new]
  have "mo_promotion_status out = ''promoted'' \<and> mo_deployment_status out = ''pending''" .
  with run show ?thesis by blast
qed

text \<open>
  The unique index on active promotions leaves out the tenant, and so does not separate tenants: while
  another tenant has an active promotion of an API with the same id to the same environment, a first
  promotion that meets every condition is refused by the database.
\<close>

theorem promoted_blocked_by_other_tenant:
  assumes "db_ok w" and "fresh_ids 2 w" and "promotable c src tgt api sgi tgi sd w"
    and "p \<in> set (promotions w)" and "pr_tenant_id p \<noteq> cat_tenant_id api" and "pr_api_id p = cat_api_id api"
    and "pr_target_environment p = tgt" and "active_status (pr_status p)"
    and "\<forall>q \<in> set (promotions w). in_lane (cat_tenant_id api) (cat_api_id api) src tgt q \<longrightarrow>
        \<not> active_status (pr_status q) \<and> pr_status q \<noteq> ''promoted''"
  shows "\<exists>w'. promote_to_environment hst c actor w = (Inl (IntegrityError ''uq_promotions_active_per_target''), w')"
proof -
  have "foreign_active api src tgt w" using assms(4-8) by (auto simp: foreign_active_def in_lane_def)
  from promote_blocked [OF assms(1-3) this assms(9)] show ?thesis .
qed

definition foreign_promotion :: promotion where
  "foreign_promotion = sample_promotion\<lparr>pr_tenant_id := ''other'', pr_target_environment := ''staging''\<rparr>"

theorem promoted_blocked_by_other_tenant_witness: "\<exists>w'.
    promote_to_environment sample_host promote_sample sample_actor (sample_world\<lparr>promotions := [foreign_promotion]\<rparr>)
      = (Inl (IntegrityError ''uq_promotions_active_per_target''), w')"
proof -
  let ?w = "sample_world\<lparr>promotions := [foreign_promotion]\<rparr>"
  have ok: "db_ok ?w" using sample_ok by (simp add: db_ok_def table_ok_def)
  have fresh: "fresh_ids 2 ?w"
    by (simp add: fresh_ids_two row_ids_def sample_world_def sample_draft_def sample_api_def sample_row_def sample_deployment_def
        foreign_promotion_def sample_promotion_def)
  have p: "promotable promote_sample ''dev'' ''staging'' sample_api (sample_gateway 1 ''g1'' ''dev'')
      (sample_gateway 2 ''g2'' ''staging'') sample_deployment ?w"
    using sample_promotable by (rule promotable_same [rotated 3]) simp_all
  have f: "pr_tenant_id foreign_promotion = ''other''" "pr_api_id foreign_promotion = ''a''"
    "pr_target_environment foreign_promotion = ''staging''" "active_status (pr_status foreign_promotion)"
    "cat_tenant_id sample_api = ''t''" "cat_api_id sample_api = ''a''"
    by (simp_all add: foreign_promotion_def sample_promotion_def sample_api_def sample_row_def active_status_def)
  show ?thesis
    by (rule promoted_blocked_by_other_tenant [OF ok fresh p, of foreign_promotion]) (simp_all add: f in_lane_def)
qed

end
