(* ===== verification/RequestSpecs.thy ===== *)
theory RequestSpecs
  imports Scenario
begin

text \<open>
  What the lifecycle endpoints guarantee, request by request and along any history of requests:
  who may change what, that a refused request changes nothing, and the invariants of the database.
\<close>

section \<open>One request\<close>

text \<open>
  C1. A request that is answered without an error was made by a user one of whose roles grants the
  permission of the endpoint, for a tenant that is the user's own unless the user is a platform
  administrator.
\<close>

theorem request_authorised:
  assumes "serve hst user t req w = (r, w')" and "\<not> isl r"
  shows "(\<exists>role \<in> set (u_roles user). \<exists>ps. map_of ROLE_PERMISSIONS role = Some ps \<and> request_permission req \<in> set ps) \<and>
     (is_admin user \<or> u_tenant_id user = Some t) \<and> py_strip t \<noteq> []"
  using serve_effect [OF assms(1)] assms(2) by (simp add: require_permission_ok resource_access_ok)

text \<open>
  C2. A request that is answered with an error leaves every row of the database as it was, whatever
  the error and wherever in the handler it was raised.
\<close>

theorem request_atomic:
  assumes "serve hst user t req w = (Inl exc, w')"
  shows "same_tables w w'"
  using serve_effect [OF assms] by simp

definition sample_user :: user where
  "sample_user = \<lparr>u_id = ''u1'', u_email = ''u@x'', u_username = ''u'', u_roles = [''devops''], u_tenant_id = Some ''t''\<rparr>"

definition sample_request :: lifecycle_request where
  "sample_request = DeployApi ''a'' \<lparr>rq_environment = ''staging'', rq_gateway_instance_id = None, rq_force = False\<rparr>"

lemma sample_served: "\<exists>w'. serve sample_host sample_user ''t'' sample_request sample_world = (Inr (), w')"
proof -
  have "\<exists>env api gi. deployable (target_sample ''staging'') sample_world env api gi"
    using sample_deploys [of "''staging''"] deploy_iff [OF sample_ok sample_fresh(2), of _ "target_sample ''staging''"] by simp
  then obtain out w' where run: "deploy_to_environment sample_host (target_sample ''staging'') (actor_from_user sample_user) sample_world
      = (Inr out, w')" using deploy_iff [OF sample_ok sample_fresh(2)] by blast
  have target: "target_of_request ''t'' ''a'' \<lparr>rq_environment = ''staging'', rq_gateway_instance_id = None, rq_force = False\<rparr> =
      target_sample ''staging''" by (simp add: target_of_request_def target_sample_def)
  have "passed (require_permission APIS_DEPLOY sample_user) = Inr ()"
    "passed (decide_tenant_access sample_user (Some ''t'') ''resource'') = Inr ()"
    by code_simp+
  then show ?thesis
    using run by (simp add: sample_request_def deploy_api_to_lifecycle_gateway_def target guarded_def map_filter_simps
      ignore_result_def run_endpoint_def passed_def)
qed

theorem request_authorised_witness: "\<exists>role \<in> set (u_roles sample_user). \<exists>ps. map_of ROLE_PERMISSIONS role = Some ps \<and>
    APIS_DEPLOY \<in> set ps"
proof -
  obtain w' where "serve sample_host sample_user ''t'' sample_request sample_world = (Inr (), w')" using sample_served by blast
  from request_authorised [OF this] show ?thesis by (simp add: sample_request_def)
qed

theorem request_atomic_witness: "\<exists>exc w'. serve sample_host sample_user ''other'' sample_request sample_world = (Inl exc, w') \<and>
    same_tables sample_world w'"
proof -
  have "isl (passed (decide_tenant_access sample_user (Some ''other'') ''resource''))" by code_simp
  then have "\<exists>exc w'. serve sample_host sample_user ''other'' sample_request sample_world = (Inl exc, w')"
    using serve_effect [of sample_host sample_user "''other''" sample_request sample_world]
    by (cases "serve sample_host sample_user ''other'' sample_request sample_world") (auto simp: passed_def isl_def split: sum.splits)
  then show ?thesis using request_atomic by blast
qed

section \<open>Histories\<close>

text \<open>The states the service can reach from \<open>w0\<close> by any requests of any users, in any order.\<close>

inductive reachable_by :: "host \<Rightarrow> world \<Rightarrow> world \<Rightarrow> bool" for hst w0 where
  start: "reachable_by hst w0 w0"
| request: "reachable_by hst w0 w \<Longrightarrow> serve hst user t req w = (r, w') \<Longrightarrow> reachable_by hst w0 w'"

inductive_cases reachable_byE: "reachable_by hst w0 w"

lemma reachable_within:
  assumes "reachable_by hst w0 w" and "state_relation R" and "\<And>user t req w. R w (snd (serve hst user t req w))"
  shows "R w0 w"
  using assms(1)
proof induction
  case start
  show ?case by (rule state_relation.rel_refl [OF assms(2)])
next
  case (request w user t req r w')
  from assms(3) [of w user t req] request(2) have "R w w'" by simp
  with request.IH show ?case by (rule state_relation.rel_trans [OF assms(2)])
qed

text \<open>
  C5. Along every history of requests the database stays consistent, the audit log and the queued
  notifications only grow, no row disappears or changes its key, the gateways are untouched, and every
  key that is new was drawn from the identifier supply in between, so that a supply that has not
  repeated itself so far still does not.
\<close>

theorem history_invariants:
  assumes "reachable_by hst w0 w"
  shows "(db_ok w0 \<longrightarrow> db_ok w) \<and> log_grows w0 w \<and> keeps_rows w0 w \<and> gateways w = gateways w0 \<and>
     (\<forall>i \<in> row_ids w. i \<in> row_ids w0 \<or> (\<exists>n. uuids_used w0 \<le> n \<and> n < uuids_used w \<and> i = uuid_source w0 n)) \<and>
     (\<forall>k. fresh_ids k w0 \<longrightarrow> fresh_ids (uuids_used w0 + k - uuids_used w) w)"
proof -
  have "keeps_db_ok w0 w"
    using assms keeps_db_ok.state_relation_axioms by (rule reachable_within) (simp add: keeps_db_ok_def serve_db_ok)
  moreover have "log_grows w0 w"
    using assms log_grows.state_relation_axioms serve_log_grows by (rule reachable_within)
  moreover have "keeps_rows w0 w"
    using assms keeps_rows.state_relation_axioms serve_keeps_rows by (rule reachable_within)
  moreover have "draws_ids w0 w"
    using assms draws_ids.state_relation_axioms
    by (rule reachable_within) (use serve_effect in \<open>metis prod.collapse\<close>)
  ultimately show ?thesis
    using draws_ids_fresh [of w0 w] by (auto simp: keeps_db_ok_def draws_ids_def keeps_environment_def)
qed

theorem history_invariants_witness: "\<exists>w. reachable_by sample_host sample_world w \<and> db_ok w"
proof -
  obtain w where run: "serve sample_host sample_user ''t'' sample_request sample_world = (Inr (), w)" using sample_served by blast
  then have r: "reachable_by sample_host sample_world w" by (rule reachable_by.request [OF reachable_by.start])
  with history_invariants sample_ok have "db_ok w" by blast
  with r show ?thesis by blast
qed

section \<open>Tenants, roles and environments\<close>

text \<open>
  Tenants are isolated: whatever tenant an ordinary user asks for and in whatever mode, the
  tenant they are given is their own (trimmed, in the modes that trim).
\<close>

theorem tenants_isolated:
  assumes "\<not> is_admin user"
  shows "(decide_tenant_access user requested mode = Inr r \<longrightarrow>
       (\<exists>t. u_tenant_id user = Some t \<and> py_strip t \<noteq> [] \<and> r = Some (if mode = ''resource'' then t else py_strip t))) \<and>
     (resolve_effective_tenant user requested = Inr r \<longrightarrow>
       (\<exists>t. u_tenant_id user = Some t \<and> py_strip t \<noteq> [] \<and> r = Some (py_strip t)))"
  using tenant_isolation effective_tenant_isolation assms by blast

theorem tenants_isolated_witness: "\<exists>t. u_tenant_id sample_user = Some t \<and> Some ''t'' = Some (py_strip t)"
proof -
  have user: "\<not> is_admin sample_user" "resolve_effective_tenant sample_user (Some ''other'') = Inr (Some ''t'')" by code_simp+
  from tenants_isolated [OF user(1), THEN conjunct2, rule_format, OF user(2)] show ?thesis by blast
qed

text \<open>
  Normalising roles is idempotent and loses nothing: the result is sorted, holds every role and the
  canonical name of every aliased one, and grants at least the permissions of the roles it was given.
\<close>

theorem roles_normalized:
  "normalize_roles (normalize_roles rs) = normalize_roles rs \<and> sorted (normalize_roles rs) \<and> distinct (normalize_roles rs) \<and>
   set (normalize_roles rs) = set rs \<union> {a. \<exists>r \<in> set rs. map_of ROLE_ALIASES r = Some a} \<and>
   set (get_user_permissions rs) \<subseteq> set (get_user_permissions (normalize_roles rs))"
proof -
  have "set (get_user_permissions rs) \<subseteq> set (get_user_permissions (normalize_roles rs))"
    unfolding set_get_user_permissions set_normalize_roles by (rule UN_mono) simp_all
  with normalize_roles_idem sorted_distinct_normalize set_normalize_roles show ?thesis by (intro conjI) simp_all
qed

text \<open>
  The guard of read-only environments stops exactly the callers that are no platform administrator
  and name the environment \<open>prod\<close>, letter by letter. The other labels of production that the rest of the
  control plane accepts (\<open>production\<close>, \<open>Prod\<close>) pass it.
\<close>

theorem writable_environment_guard:
  "(\<exists>exc. require_writable_environment environment user = Inl exc) \<longleftrightarrow> environment = Some ''prod'' \<and> \<not> is_admin user"
proof (cases environment)
  case None
  then show ?thesis by (simp add: require_writable_environment_def opt_truthy_def)
next
  case (Some e)
  have mode: "(case map_of ENVIRONMENT_MODES e of Some m \<Rightarrow> m | None \<Rightarrow> ''full'') = ''read-only'' \<longleftrightarrow> e = ''prod''"
    by (simp add: ENVIRONMENT_MODES_def)
  have "require_writable_environment environment user =
      (if e \<noteq> [] \<and> e = ''prod'' \<and> \<not> is_admin user
       then forbidden (''Environment '' @ sq e @ '' is read-only. Only cpi-admin can perform writes.'') else Inr user)"
    unfolding require_writable_environment_def Let_def Some using mode
    by (cases "e = []") (simp_all add: opt_truthy_def or_str_def)
  with Some show ?thesis by (simp add: forbidden_def)
qed

end
