(* ===== verification/GatewayService.thy ===== *)
theory GatewayService
  imports LifecycleRuns LifecycleRouter
begin

text \<open>
  The dynamic part of \<open>GatewayDeploymentService\<close> (\<open>services/gateway_deployment_service.py\<close>) on the
  queries of \<open>GatewayDeploymentRepository\<close> and \<open>GatewayInstanceRepository\<close>: direct deployment of a
  catalog row to a list of gateways, undeployment, forced synchronisation, and the two administration
  endpoints of \<open>routers/gateway_deployments.py\<close> that only call them. Rows that belong to the lifecycle
  service are refused.

  The session maps a primary key to one object, so a deployment the service holds is the row of its id:
  the model carries the id and reads the row again where the code reads the object.
\<close>

section \<open>Queries\<close>

definition get_deployment_by_id :: "uuid \<Rightarrow> gateway_deployment option action" where
  "get_deployment_by_id i = queryA (\<lambda>w. scalar_one_or_none (filter (\<lambda>d. dep_id d = i) (deployments w)))"

definition get_gateway_by_id :: "uuid \<Rightarrow> gateway_instance option action" where
  "get_gateway_by_id i = queryA (\<lambda>w. scalar_one_or_none
     (filter (\<lambda>g. gi_id g = i \<and> gi_deleted_at g = None) (gateways w)))"

definition get_catalog_row :: "uuid \<Rightarrow> api_catalog option action" where
  "get_catalog_row i = queryA (\<lambda>w. scalar_one_or_none (filter (\<lambda>c. cat_id c = i) (catalogs w)))"

definition get_by_api_and_gateway :: "uuid \<Rightarrow> uuid \<Rightarrow> gateway_deployment option action" where
  "get_by_api_and_gateway api_catalog_id gateway_instance_id = queryA (\<lambda>w. scalar_one_or_none
     (filter (\<lambda>d. dep_api_catalog_id d = api_catalog_id \<and> dep_gateway_instance_id d = gateway_instance_id)
       (deployments w)))"

definition delete_deployment :: "uuid \<Rightarrow> unit action" where
  "delete_deployment i = modA (\<lambda>w. w\<lparr>deployments := delete_row dep_id i (deployments w)\<rparr>)"

section \<open>Notifications\<close>

text \<open>
  \<open>(desired_state or {}).get("tenant_id", "")\<close>; a tenant that is not a string, which no code writes, is
  named by its text.
\<close>

definition desired_tenant :: "gateway_deployment \<Rightarrow> string" where
  "desired_tenant d =
     (case dget_def (if truthy (dep_desired_state d) then obj_of (dep_desired_state d) else []) ''tenant_id'' (JStr []) of
        JStr t \<Rightarrow> t
      | j \<Rightarrow> py_str j)"

text \<open>The request handed to Kafka; a failure to publish it is only logged.\<close>

definition emit_sync_request :: "uuid \<Rightarrow> string \<Rightarrow> unit action" where
  "emit_sync_request i tenant_id = modA (\<lambda>w. w\<lparr>sync_requests := sync_requests w @ [(tenant_id, i)]\<rparr>)"

definition emit_sync_requests :: "uuid list \<Rightarrow> string \<Rightarrow> unit action" where
  "emit_sync_requests ids tenant_id = bindA (forA ids (\<lambda>i. emit_sync_request i tenant_id)) (\<lambda>_. retA ())"

definition emit_sse_events :: "uuid list \<Rightarrow> string \<Rightarrow> unit action" where
  "emit_sse_events ids tenant_id =
     bindA (forA ids (\<lambda>i. bindA (get_deployment_by_id i) (\<lambda>d. case d of
        None \<Rightarrow> retA ()
      | Some d' \<Rightarrow> queue_sse_event d' tenant_id))) (\<lambda>_. retA ())"

section \<open>deploy\_api\<close>

definition redeploy_direct :: "gateway_deployment \<Rightarrow> jdict \<Rightarrow> datetime \<Rightarrow> gateway_deployment" where
  "redeploy_direct existing desired_state now =
     existing\<lparr>dep_desired_state := JObj desired_state, dep_desired_at := now, dep_sync_status := PENDING,
              dep_sync_error := None, dep_sync_attempts := 0,
              dep_desired_generation := dep_desired_generation existing + 1\<rparr>"

text \<open>One turn of the loop over the gateways: the id of the deployment it is appended with.\<close>

definition deploy_one :: "host \<Rightarrow> api_catalog \<Rightarrow> datetime \<Rightarrow> uuid \<Rightarrow> uuid action" where
  "deploy_one hst api now gw_id =
     bindA (get_gateway_by_id gw_id) (\<lambda>gateway. case gateway of
       None \<Rightarrow> raiseA (ValueError (''Gateway instance '' @ uuid_str gw_id @ '' not found''))
     | Some g \<Rightarrow>
         if \<not> gi_enabled g then
           raiseA (PermissionError (''Gateway '' @ sq (gi_name g) @ '' is disabled. Enable it before deploying.''))
         else bindA (liftA (require_git_backed_desired_state api (gi_name g) (gi_environment g))) (\<lambda>_.
           bindA (get_by_api_and_gateway (cat_id api) gw_id) (\<lambda>existing.
             let desired_state = build_desired_state_for_gateway hst api g ''direct'' in
             case existing of
               Some e \<Rightarrow>
                 if jeq (dep_desired_state e) (JObj desired_state) then retA (dep_id e)
                 else bindA (save_gateway_deployment (redeploy_direct e desired_state now)) (\<lambda>_. retA (dep_id e))
             | None \<Rightarrow>
                 bindA uuid4A (\<lambda>fresh.
                 bindA (create_gateway_deployment
                   (new_deployment_row fresh (cat_id api) gw_id desired_state None now)) (\<lambda>_. retA fresh)))))"

text \<open>\<open>SyncStepTracker.from_list(dep.sync_steps or [])\<close>.\<close>

definition trace_of_steps :: "json \<Rightarrow> error + trace" where
  "trace_of_steps steps =
     (if \<not> truthy steps then Inr []
      else case steps of JArr xs \<Rightarrow> trace_from_list xs | _ \<Rightarrow> Inl (TypeError ''argument after ** must be a mapping''))"

definition yes_no :: "bool \<Rightarrow> string" where
  "yes_no b = (if b then ''yes'' else ''no'')"

definition record_event_emitted :: "host \<Rightarrow> bool \<Rightarrow> uuid \<Rightarrow> unit action" where
  "record_event_emitted hst emit i =
     bindA (get_deployment_by_id i) (\<lambda>d. case d of
       None \<Rightarrow> retA ()
     | Some dep \<Rightarrow>
         bindA (liftA (trace_of_steps (dep_sync_steps dep))) (\<lambda>steps.
         bindA nowA (\<lambda>t1. bindA nowA (\<lambda>t2.
           let steps' = step_complete t2 ''event_emitted''
                 (Some (''kafka='' @ yes_no (emit \<and> is_sync_engine_enabled hst) @ '' sse='' @ yes_no (is_sse_enabled hst)))
                 (step_start t1 ''event_emitted'' steps)
           in bindA (save_gateway_deployment (dep\<lparr>dep_sync_steps := trace_to_list steps'\<rparr>)) (\<lambda>_. retA ())))))"

definition lifecycle_endpoint_text :: string where
  "lifecycle_endpoint_text = ''POST /v1/tenants/{tenant_id}/apis/{api_id}/lifecycle/deployments''"

definition deploy_api :: "host \<Rightarrow> uuid \<Rightarrow> uuid list \<Rightarrow> bool \<Rightarrow> uuid list action" where
  "deploy_api hst api_catalog_id gateway_instance_ids emit =
     bindA (get_catalog_row api_catalog_id) (\<lambda>row. case row of
       None \<Rightarrow> raiseA (ValueError ''API catalog entry not found'')
     | Some api \<Rightarrow>
         if is_lifecycle_managed_catalog (Some api) then
           raiseA (PermissionError (''API '' @ sq (cat_api_id api) @ '' is lifecycle-managed. Use '' @
             lifecycle_endpoint_text @ '' instead.''))
         else bindA nowA (\<lambda>now.
           bindA (forA gateway_instance_ids (deploy_one hst api now)) (\<lambda>deps.
           bindA (whenA (emit \<and> is_sync_engine_enabled hst) (emit_sync_requests deps (cat_tenant_id api))) (\<lambda>_.
           bindA (whenA (is_sse_enabled hst) (emit_sse_events deps (cat_tenant_id api))) (\<lambda>_.
           bindA (forA deps (record_event_emitted hst emit)) (\<lambda>_. retA deps))))))"

section \<open>undeploy and force\_sync\<close>

definition raise_if_lifecycle_managed_deployment :: "gateway_deployment \<Rightarrow> unit action" where
  "raise_if_lifecycle_managed_deployment d =
     bindA (get_catalog_row (dep_api_catalog_id d)) (\<lambda>row.
       if is_lifecycle_managed_catalog row then
         raiseA (ValueError (''GatewayDeployment '' @ sq (uuid_str (dep_id d)) @ '' belongs to lifecycle-managed API '' @
           sq (case row of None \<Rightarrow> [] | Some api \<Rightarrow> cat_api_id api) @ ''. Use lifecycle operations instead.''))
       else retA ())"

definition marked_deleting :: "gateway_deployment \<Rightarrow> gateway_deployment" where
  "marked_deleting d = d\<lparr>dep_sync_status := DELETING, dep_desired_generation := dep_desired_generation d + 1\<rparr>"

definition undeploy :: "host \<Rightarrow> uuid \<Rightarrow> unit action" where
  "undeploy hst i =
     bindA (get_deployment_by_id i) (\<lambda>row. case row of
       None \<Rightarrow> raiseA (ValueError ''Deployment not found'')
     | Some d \<Rightarrow>
         bindA (raise_if_lifecycle_managed_deployment d) (\<lambda>_.
         if opt_truthy (dep_gateway_resource_id d) \<or> is_sse_enabled hst then
           bindA (save_gateway_deployment (marked_deleting d)) (\<lambda>saved.
           bindA (whenA (is_sync_engine_enabled hst) (emit_sync_request (dep_id saved) (desired_tenant saved))) (\<lambda>_.
           whenA (is_sse_enabled hst) (emit_sse_events [dep_id saved] (desired_tenant saved))))
         else delete_deployment (dep_id d)))"

definition marked_pending :: "gateway_deployment \<Rightarrow> gateway_deployment" where
  "marked_pending d = d\<lparr>dep_sync_status := PENDING, dep_sync_error := None, dep_sync_attempts := 0,
     dep_desired_generation := dep_desired_generation d + 1\<rparr>"

definition force_sync :: "host \<Rightarrow> uuid \<Rightarrow> gateway_deployment action" where
  "force_sync hst i =
     bindA (get_deployment_by_id i) (\<lambda>row. case row of
       None \<Rightarrow> raiseA (ValueError ''Deployment not found'')
     | Some d \<Rightarrow>
         bindA (raise_if_lifecycle_managed_deployment d) (\<lambda>_.
         bindA (save_gateway_deployment (marked_pending d)) (\<lambda>saved.
         bindA (whenA (is_sync_engine_enabled hst) (emit_sync_request (dep_id saved) (desired_tenant saved))) (\<lambda>_.
         bindA (whenA (is_sse_enabled hst) (emit_sse_events [dep_id saved] (desired_tenant saved))) (\<lambda>_.
         retA saved)))))"

section \<open>The administration endpoints\<close>

text \<open>\<open>except ValueError\<close> answers 404; anything else leaves through \<open>get_db\<close> and is answered 500.\<close>

definition deployments_except :: "error \<Rightarrow> bool \<times> http_exception" where
  "deployments_except e = (case e of
        ValueError m \<Rightarrow> (False, HTTPException 404 (JStr m))
      | _ \<Rightarrow> (False, HTTPException 500 (JStr ''Internal Server Error'')))"

definition undeploy_endpoint :: "host \<Rightarrow> user \<Rightarrow> uuid \<Rightarrow> unit endpoint" where
  "undeploy_endpoint hst user i =
     guarded [passed (require_role [''cpi-admin''] user)] (run_endpoint (undeploy hst i) deployments_except)"

definition force_sync_endpoint :: "host \<Rightarrow> user \<Rightarrow> uuid \<Rightarrow> gateway_deployment endpoint" where
  "force_sync_endpoint hst user i =
     guarded [passed (require_role [''cpi-admin''] user)] (run_endpoint (force_sync hst i) deployments_except)"

end
