(* ===== verification/GatewayTopology.thy ===== *)
theory GatewayTopology
  imports Models
begin

text \<open>
  \<open>services/gateway_topology.py\<close>: how the declared and the observed columns of a gateway are turned into
  its canonical classification (deployment mode, technology, topology, endpoint map). The proof that an
  agent sends for a same-pod sidecar is a JSON document; the host of its authorisation URL is read as
  \<open>urlparse(url).hostname\<close> does. A bracketed host, which is an IPv6 address and never one of the two local
  names, keeps its closing bracket here; the library checks the address and raises when it is none.
\<close>

definition DEPLOYMENT_MODES :: "string list" where
  "DEPLOYMENT_MODES = [''edge'', ''connect'', ''sidecar'']"

definition TOPOLOGIES :: "string list" where
  "TOPOLOGIES = [''native-edge'', ''remote-agent'', ''same-pod'']"

definition TARGET_GATEWAY_TYPES :: "string list" where
  "TARGET_GATEWAY_TYPES = [''stoa'', ''kong'', ''webmethods'', ''gravitee'', ''agentgateway'', ''apigee'',
     ''aws_apigateway'', ''azure_apim'']"

definition THIRD_PARTY_TARGETS :: "string list" where
  "THIRD_PARTY_TARGETS = filter (\<lambda>t. t \<noteq> ''stoa'') TARGET_GATEWAY_TYPES"

definition ENDPOINT_ALIASES :: "(string \<times> string list) list" where
  "ENDPOINT_ALIASES =
     [(''public_url'', [''publicUrl'', ''public'', ''runtime_url'', ''runtimeUrl'', ''external_url'', ''externalUrl'']),
      (''ui_url'', [''uiUrl'', ''console_url'', ''consoleUrl'', ''web_ui_url'', ''webUiUrl'']),
      (''target_gateway_url'', [''targetGatewayUrl'', ''target_url'', ''targetUrl'']),
      (''admin_url'', [''adminUrl'', ''admin'', ''base_url'', ''baseUrl'']),
      (''internal_url'', [''internalUrl'', ''internal'']),
      (''health_url'', [''healthUrl'', ''health''])]"

record gateway_topology =
  tp_deployment_mode :: string
  tp_target_gateway_type :: string
  tp_topology :: string
  tp_endpoints :: "(string \<times> string) list"

section \<open>Texts\<close>

text \<open>\<open>_string_value\<close>: the trimmed text, \<open>None\<close> when nothing is left.\<close>

definition string_value :: "string option \<Rightarrow> string option" where
  "string_value v = (case v of None \<Rightarrow> None | Some s \<Rightarrow> if py_strip s = [] then None else Some (py_strip s))"

definition replace_char :: "char \<Rightarrow> char \<Rightarrow> string \<Rightarrow> string" where
  "replace_char a b s = map (\<lambda>c. if c = a then b else c) s"

definition lowered :: "string option \<Rightarrow> string" where
  "lowered v = py_lower (py_strip (or_str (string_value v) []))"

definition normalize_mode :: "string option \<Rightarrow> string" where
  "normalize_mode mode =
     (let mode_lower = replace_char (CHR ''_'') (CHR ''-'') (lowered mode)
      in if mode_lower \<in> {''edge'', ''edge-mcp'', ''edgemcp'', ''mcp''} then ''edge-mcp'' else mode_lower)"

definition normalized_text :: "string option \<Rightarrow> string option" where
  "normalized_text v = (let s = replace_char (CHR ''_'') (CHR ''-'') (lowered v) in if s = [] then None else Some s)"

definition normalize_deployment_mode :: "string option \<Rightarrow> string option" where
  "normalize_deployment_mode v = (case normalized_text v of
     None \<Rightarrow> None | Some s \<Rightarrow> if s \<in> set DEPLOYMENT_MODES then Some s else None)"

definition normalize_topology :: "string option \<Rightarrow> string option" where
  "normalize_topology v = (case normalized_text v of
     None \<Rightarrow> None | Some s \<Rightarrow> if s \<in> set TOPOLOGIES then Some s else None)"

section \<open>Endpoints\<close>

definition endpoint_map :: "json \<Rightarrow> (string \<times> string) list" where
  "endpoint_map endpoints = List.map_filter
     (\<lambda>(k, v). if v = JNull \<or> py_strip (py_str v) = [] then None else Some (k, py_strip (py_str v)))
     (if is_obj endpoints then obj_of endpoints else [])"

definition endpoint_value :: "json \<Rightarrow> string \<Rightarrow> string option" where
  "endpoint_value endpoints canonical_key =
     (let normalized = endpoint_map endpoints;
          keys = canonical_key # (case map_of ENDPOINT_ALIASES canonical_key of None \<Rightarrow> [] | Some ks \<Rightarrow> ks)
      in case filter opt_truthy (map (map_of normalized) keys) of [] \<Rightarrow> None | v # _ \<Rightarrow> v)"

definition set_default :: "string \<Rightarrow> string \<Rightarrow> (string \<times> string) list \<Rightarrow> (string \<times> string) list" where
  "set_default k v d = (if k \<in> fst ` set d then d else AList.update k v d)"

definition set_given :: "string \<Rightarrow> string option \<Rightarrow> (string \<times> string) list \<Rightarrow> (string \<times> string) list" where
  "set_given k v d = (case v of None \<Rightarrow> d | Some u \<Rightarrow> AList.update k u d)"

definition rstrip_slash :: "string \<Rightarrow> string" where
  "rstrip_slash s = rev (dropWhile (\<lambda>c. c = CHR ''/'') (rev s))"

definition with_base_url :: "string option \<Rightarrow> (string \<times> string) list \<Rightarrow> (string \<times> string) list" where
  "with_base_url base_url d = (case base_url of
     None \<Rightarrow> d
   | Some u \<Rightarrow>
       set_default ''health_url'' (rstrip_slash u @ ''/health'')
         (let d' = AList.update ''admin_url'' u d
          in if sublist ''.svc.cluster.local'' u \<or> \<not> sublist ''://'' u then set_default ''internal_url'' u d' else d'))"

definition build_endpoints ::
    "json \<Rightarrow> string option \<Rightarrow> string option \<Rightarrow> string option \<Rightarrow> string option \<Rightarrow> (string \<times> string) list" where
  "build_endpoints endpoints base_url public_url ui_url target_gateway_url =
     (let normalized = foldl
            (\<lambda>d (key, _). case endpoint_value (JObj (map (\<lambda>(k, v). (k, JStr v)) d)) key of
               None \<Rightarrow> d | Some v \<Rightarrow> set_default key v d)
            (endpoint_map endpoints) ENDPOINT_ALIASES
      in set_given ''target_gateway_url'' (string_value target_gateway_url)
           (set_given ''ui_url'' (string_value ui_url)
              (with_base_url (string_value base_url)
                 (set_given ''public_url'' (string_value public_url) normalized))))"

section \<open>Classification\<close>

definition derive_target_gateway_type ::
    "string \<Rightarrow> string option \<Rightarrow> string list \<Rightarrow> string \<Rightarrow> string option \<Rightarrow> string \<Rightarrow> string" where
  "derive_target_gateway_type gateway_type explicit_target tags name target_gateway_url base_url =
     (let explicit = replace_char (CHR ''-'') (CHR ''_'') (lowered explicit_target);
          search_space = py_lower (py_join '' '' (List.map_filter string_value
            (map Some tags @ [Some name, target_gateway_url, Some base_url])))
      in if explicit \<in> set TARGET_GATEWAY_TYPES then explicit
         else case find (\<lambda>t. sublist t search_space) [''webmethods'', ''gravitee'', ''agentgateway'', ''kong''] of
           Some t \<Rightarrow> t
         | None \<Rightarrow>
             if sublist ''vps-wm'' search_space \<or> sublist ''-wm-'' search_space \<or> suffix ''-wm'' search_space
             then ''webmethods''
             else let gw_type = lowered (Some gateway_type)
                  in if py_startswith gw_type ''stoa_'' \<or> gw_type = ''stoa'' then ''stoa''
                     else if gw_type = [] then ''stoa'' else gw_type)"

text \<open>\<open>urlparse(url).hostname\<close>.\<close>

definition is_ascii_alpha :: "char \<Rightarrow> bool" where
  "is_ascii_alpha c = (let n = code_point c in (65 \<le> n \<and> n \<le> 90) \<or> (97 \<le> n \<and> n \<le> 122))"

definition is_scheme_char :: "char \<Rightarrow> bool" where
  "is_scheme_char c = (is_ascii_alpha c \<or> (48 \<le> code_point c \<and> code_point c \<le> 57) \<or> c \<in> set ''+-.'')"

definition drop_scheme :: "string \<Rightarrow> string" where
  "drop_scheme url =
     (let scheme = takeWhile (\<lambda>c. c \<noteq> CHR '':'') url
      in if scheme \<noteq> [] \<and> CHR '':'' \<in> set url \<and> is_ascii_alpha (hd url) \<and> list_all is_scheme_char scheme
         then drop (length scheme + 1) url else url)"

definition url_hostname :: "string \<Rightarrow> string option" where
  "url_hostname url0 =
     (let url = drop_scheme (filter (\<lambda>c. code_point c \<notin> {9, 10, 13}) (dropWhile (\<lambda>c. code_point c \<le> 32) url0))
      in if \<not> py_startswith url ''//'' then None
         else
           let netloc = takeWhile (\<lambda>c. c \<notin> set ''/?#'') (drop 2 url);
               hostinfo = rev (takeWhile (\<lambda>c. c \<noteq> CHR ''@'') (rev netloc));
               host = (if CHR ''['' \<in> set hostinfo
                  then takeWhile (\<lambda>c. c \<noteq> CHR '']'') (drop 1 (dropWhile (\<lambda>c. c \<noteq> CHR ''['') hostinfo)) @ '']''
                  else takeWhile (\<lambda>c. c \<noteq> CHR '':'') hostinfo)
           in if host = [] then None
              else Some (py_lower (takeWhile (\<lambda>c. c \<noteq> CHR ''%'') host) @ dropWhile (\<lambda>c. c \<noteq> CHR ''%'') host))"

definition text_of :: "jdict \<Rightarrow> string \<Rightarrow> string" where
  "text_of d k = (if truthy (dget d k) then py_str (dget d k) else [])"

definition has_same_pod_sidecar_proof :: "string option \<Rightarrow> json \<Rightarrow> bool" where
  "has_same_pod_sidecar_proof topology proof_doc =
     (topology = Some ''same-pod'' \<and> is_obj proof_doc \<and>
      (let p = obj_of proof_doc;
           declared = (truthy (dget p ''declared_in_kubernetes'') \<or>
             (truthy (dget p ''namespace'') \<and> (truthy (dget p ''deployment'') \<or> truthy (dget p ''pod''))));
           container_names = (case dget p ''containers'' of JArr xs \<Rightarrow> remdups (map py_str xs) | _ \<Rightarrow> []);
           target_container = text_of p ''target_container'';
           sidecar_container = text_of p ''sidecar_container'';
           enough_containers = (2 \<le> length container_names \<or>
             (case dget p ''pod_container_count'' of JInt n \<Rightarrow> 2 \<le> n | _ \<Rightarrow> False) \<or>
             (target_container \<noteq> [] \<and> sidecar_container \<noteq> []));
           has_target = (target_container \<noteq> [] \<and> (container_names = [] \<or> target_container \<in> set container_names));
           has_stoa_sidecar = (sidecar_container = ''stoa-sidecar'' \<and>
             (container_names = [] \<or> sidecar_container \<in> set container_names));
           authz_url = text_of p ''authz_url'';
           local_authz = (url_hostname authz_url \<in> {Some ''localhost'', Some ''127.0.0.1''} \<and> suffix ''/authz'' authz_url)
       in declared \<and> enough_containers \<and> has_target \<and> has_stoa_sidecar \<and> local_authz))"

definition topology_proof_of :: "gateway_instance \<Rightarrow> json" where
  "topology_proof_of g = (if is_obj (gi_health_details g) then dget (obj_of (gi_health_details g)) ''topology_proof'' else JNull)"

definition target_of_gateway :: "gateway_instance \<Rightarrow> string" where
  "target_of_gateway g = derive_target_gateway_type (gateway_type_value (gi_gateway_type g)) (gi_target_gateway_type g)
     (gi_tags g) (gi_name g) (gi_target_gateway_url g) (gi_base_url g)"

text \<open>\<open>normalize_gateway_topology\<close> on the columns of a gateway row, as every caller passes them.\<close>

definition normalize_gateway_topology :: "gateway_instance \<Rightarrow> gateway_topology" where
  "normalize_gateway_topology g =
     (let normalized_mode = normalize_mode (gi_mode g);
          normalized_deployment = normalize_deployment_mode (gi_deployment_mode g);
          normalized_topology = normalize_topology (gi_topology g);
          target = target_of_gateway g;
          endpoints = build_endpoints (gi_endpoints g) (Some (gi_base_url g)) (gi_public_url g) (gi_ui_url g)
            (gi_target_gateway_url g);
          classified = (\<lambda>mode t topo. \<lparr>tp_deployment_mode = mode, tp_target_gateway_type = t, tp_topology = topo,
            tp_endpoints = endpoints\<rparr>);
          gw_type = lowered (Some (gateway_type_value (gi_gateway_type g)))
      in if normalized_deployment = Some ''sidecar'' \<or> normalized_topology = Some ''same-pod'' then
           (if target \<in> set THIRD_PARTY_TARGETS \<and> has_same_pod_sidecar_proof normalized_topology (topology_proof_of g)
            then classified ''sidecar'' target ''same-pod'' else classified ''connect'' target ''remote-agent'')
         else if normalized_deployment = Some ''connect'' \<or> normalized_topology = Some ''remote-agent'' then
           classified ''connect'' target ''remote-agent''
         else if normalized_deployment = Some ''edge'' \<or> normalized_topology = Some ''native-edge'' then
           classified ''edge'' (if target = ''stoa'' then ''stoa'' else target) ''native-edge''
         else if normalized_mode = ''edge-mcp'' \<or> gw_type = ''stoa_edge_mcp'' then
           classified ''edge'' ''stoa'' ''native-edge''
         else if normalized_mode = ''connect'' \<or> string_value (Some (gi_source g)) = Some ''self_register'' then
           classified ''connect'' target ''remote-agent''
         else if gw_type = ''stoa'' \<and> target = ''stoa'' then classified ''edge'' target ''native-edge''
         else classified ''connect'' target ''remote-agent'')"

section \<open>Facts about the classification\<close>

definition classes :: "(string \<times> string) list" where
  "classes = [(''edge'', ''native-edge''), (''connect'', ''remote-agent''), (''sidecar'', ''same-pod'')]"

text \<open>The classification written back to the declared columns of the row.\<close>

definition declare_topology :: "gateway_topology \<Rightarrow> gateway_instance \<Rightarrow> gateway_instance" where
  "declare_topology t g = g\<lparr>gi_deployment_mode := Some (tp_deployment_mode t),
     gi_target_gateway_type := Some (tp_target_gateway_type t), gi_topology := Some (tp_topology t)\<rparr>"

lemma gateway_type_lowered: "py_startswith (lowered (Some (gateway_type_value t))) ''stoa_'' \<or>
    lowered (Some (gateway_type_value t)) = ''stoa'' \<or> lowered (Some (gateway_type_value t)) \<in> set TARGET_GATEWAY_TYPES"
  by (cases t; hypsubst; code_simp)

lemma find_in: "find p xs = Some t \<Longrightarrow> t \<in> set xs"
  by (auto simp: find_Some_iff)

lemma choice_in:
  assumes "a \<Longrightarrow> x \<in> S" and "set L \<subseteq> S" and "y \<in> S" and "z \<in> S"
  shows "(if a then x else case find p L of Some t \<Rightarrow> t | None \<Rightarrow> if b then y else z) \<in> S"
  using assms by (auto split: option.split dest: find_in)

lemma derived_known:
  "derive_target_gateway_type (gateway_type_value gt) ex tags n u b \<in> set TARGET_GATEWAY_TYPES"
proof -
  have stoa: "''stoa'' \<in> set TARGET_GATEWAY_TYPES" "''webmethods'' \<in> set TARGET_GATEWAY_TYPES" by code_simp+
  have sub: "set [''webmethods'', ''gravitee'', ''agentgateway'', ''kong''] \<subseteq> set TARGET_GATEWAY_TYPES" by code_simp
  have other: "(if py_startswith gw ''stoa_'' \<or> gw = ''stoa'' then ''stoa'' else if gw = [] then ''stoa'' else gw)
      \<in> set TARGET_GATEWAY_TYPES" if "gw = lowered (Some (gateway_type_value gt))" for gw
    using gateway_type_lowered [of gt] stoa(1) unfolding that by metis
  show ?thesis
    unfolding derive_target_gateway_type_def Let_def
    by (intro choice_in sub stoa(2) other [OF refl])
qed

lemma target_known: "target_of_gateway g \<in> set TARGET_GATEWAY_TYPES"
  unfolding target_of_gateway_def by (rule derived_known)

lemma known_kept: "t \<in> set TARGET_GATEWAY_TYPES \<Longrightarrow> replace_char (CHR ''-'') (CHR ''_'') (lowered (Some t)) = t"
proof -
  have "list_all (\<lambda>t. replace_char (CHR ''-'') (CHR ''_'') (lowered (Some t)) = t) TARGET_GATEWAY_TYPES" by code_simp
  then show "t \<in> set TARGET_GATEWAY_TYPES \<Longrightarrow> ?thesis" by (simp add: list_all_iff)
qed

lemma class_kept:
  "(m, t) \<in> set classes \<Longrightarrow> normalize_deployment_mode (Some m) = Some m \<and> normalize_topology (Some t) = Some t"
proof -
  have "list_all (\<lambda>(m, t). normalize_deployment_mode (Some m) = Some m \<and> normalize_topology (Some t) = Some t) classes"
    by code_simp
  then show "(m, t) \<in> set classes \<Longrightarrow> ?thesis" by (auto simp: list_all_iff)
qed

lemma topology_class:
  "(tp_deployment_mode (normalize_gateway_topology g), tp_topology (normalize_gateway_topology g)) \<in> set classes"
  by (simp add: normalize_gateway_topology_def Let_def classes_def)

lemma topology_target: "tp_target_gateway_type (normalize_gateway_topology g) \<in> set TARGET_GATEWAY_TYPES"
proof -
  have "tp_target_gateway_type (normalize_gateway_topology g) \<in> {''stoa'', target_of_gateway g}"
    by (simp add: normalize_gateway_topology_def Let_def)
  moreover have "''stoa'' \<in> set TARGET_GATEWAY_TYPES" by code_simp
  ultimately show ?thesis using target_known [of g] by fastforce
qed

lemma sidecar_iff: "tp_deployment_mode (normalize_gateway_topology g) = ''sidecar'' \<longleftrightarrow>
    target_of_gateway g \<in> set THIRD_PARTY_TARGETS \<and>
    has_same_pod_sidecar_proof (normalize_topology (gi_topology g)) (topology_proof_of g)"
proof -
  have "normalize_topology (gi_topology g) = Some ''same-pod''"
    if "has_same_pod_sidecar_proof (normalize_topology (gi_topology g)) (topology_proof_of g)"
    using that by (simp add: has_same_pod_sidecar_proof_def)
  then show ?thesis
    by (cases "has_same_pod_sidecar_proof (normalize_topology (gi_topology g)) (topology_proof_of g)")
      (simp_all add: normalize_gateway_topology_def Let_def)
qed

lemma declared_target: "t \<in> set TARGET_GATEWAY_TYPES \<Longrightarrow> derive_target_gateway_type gt (Some t) tags n u b = t"
  by (simp add: derive_target_gateway_type_def known_kept Let_def)

definition endpoints_of :: "gateway_instance \<Rightarrow> (string \<times> string) list" where
  "endpoints_of g = build_endpoints (gi_endpoints g) (Some (gi_base_url g)) (gi_public_url g) (gi_ui_url g)
     (gi_target_gateway_url g)"

lemma topology_endpoints: "tp_endpoints (normalize_gateway_topology g) = endpoints_of g"
  by (simp add: normalize_gateway_topology_def Let_def endpoints_of_def)

text \<open>A row whose declared columns are consistent is classified by them.\<close>

lemma declared_class:
  assumes "normalize_deployment_mode (gi_deployment_mode g) = Some m" and "normalize_topology (gi_topology g) = Some t"
    and "(m, t) \<in> set classes"
    and "m = ''sidecar'' \<Longrightarrow> target_of_gateway g \<in> set THIRD_PARTY_TARGETS \<and>
      has_same_pod_sidecar_proof (Some ''same-pod'') (topology_proof_of g)"
  shows "normalize_gateway_topology g = \<lparr>tp_deployment_mode = m, tp_target_gateway_type = target_of_gateway g,
     tp_topology = t, tp_endpoints = endpoints_of g\<rparr>"
proof -
  from assms(3) consider "m = ''edge'' \<and> t = ''native-edge''" | "m = ''connect'' \<and> t = ''remote-agent''"
    | "m = ''sidecar'' \<and> t = ''same-pod''" by (auto simp: classes_def)
  then show ?thesis
    by cases (use assms(1,2,4) in \<open>simp_all add: normalize_gateway_topology_def Let_def endpoints_of_def\<close>)
qed

lemma topology_stable:
  "normalize_gateway_topology (declare_topology (normalize_gateway_topology g) g) = normalize_gateway_topology g"
proof -
  define t where "t = normalize_gateway_topology g"
  have target: "target_of_gateway (declare_topology t g) = tp_target_gateway_type t"
    using declared_target [OF topology_target [of g]] by (simp add: declare_topology_def target_of_gateway_def t_def)
  have cols: "topology_proof_of (declare_topology t g) = topology_proof_of g" "endpoints_of (declare_topology t g) = endpoints_of g"
    by (simp_all add: declare_topology_def topology_proof_of_def endpoints_of_def)
  have side: "target_of_gateway (declare_topology t g) \<in> set THIRD_PARTY_TARGETS \<and>
      has_same_pod_sidecar_proof (Some ''same-pod'') (topology_proof_of (declare_topology t g))"
    if "tp_deployment_mode t = ''sidecar''"
  proof -
    from that sidecar_iff [of g] have s: "target_of_gateway g \<in> set THIRD_PARTY_TARGETS"
      "has_same_pod_sidecar_proof (normalize_topology (gi_topology g)) (topology_proof_of g)" by (simp_all add: t_def)
    from s(2) have "normalize_topology (gi_topology g) = Some ''same-pod''" by (simp add: has_same_pod_sidecar_proof_def)
    with s have "tp_target_gateway_type t = target_of_gateway g"
      "has_same_pod_sidecar_proof (Some ''same-pod'') (topology_proof_of g)"
      by (simp_all add: t_def normalize_gateway_topology_def Let_def)
    with s(1) show ?thesis by (simp add: target cols)
  qed
  have cls: "(tp_deployment_mode t, tp_topology t) \<in> set classes" using topology_class [of g] by (simp add: t_def)
  have "normalize_deployment_mode (gi_deployment_mode (declare_topology t g)) = Some (tp_deployment_mode t)"
    "normalize_topology (gi_topology (declare_topology t g)) = Some (tp_topology t)"
    using class_kept [OF cls] by (simp_all add: declare_topology_def)
  from declared_class [OF this cls side] have "normalize_gateway_topology (declare_topology t g) = t"
    by (simp add: target cols topology_endpoints [of g, folded t_def, symmetric])
  then show ?thesis by (simp only: t_def)
qed

end
