(* ===== verification/Preflight.thy ===== *)
theory Preflight
  imports GatewayService GatewayTopology
begin

text \<open>
  The preflight of \<open>services/deployment_orchestration_service.py\<close>: before a deployment row is written, the
  desired state is checked against what the technology of each target gateway accepts (webMethods only),
  and every target must be usable by the tenant (\<open>repositories/api_gateway_assignment.py\<close>). With it, the
  administration endpoint that deploys a catalog row to gateways. The parts of the orchestration service
  that synchronise a row from Git, follow gateway assignments or call an adapter inline are not modelled.
\<close>

record preflight_error =
  pe_gateway_id :: string
  pe_gateway_name :: string
  pe_target_gateway_type :: string
  pe_code :: string
  pe_message :: string
  pe_path :: string

record preflight_result =
  pf_gateway_id :: string
  pf_gateway_name :: string
  pf_target_gateway_type :: string
  pf_deployable :: bool
  pf_errors :: "preflight_error list"

definition error_as_dict :: "preflight_error \<Rightarrow> json" where
  "error_as_dict e = JObj
     [(''gateway_id'', JStr (pe_gateway_id e)), (''gateway_name'', JStr (pe_gateway_name e)),
      (''target_gateway_type'', JStr (pe_target_gateway_type e)), (''code'', JStr (pe_code e)),
      (''message'', JStr (pe_message e)), (''path'', JStr (pe_path e))]"

definition result_as_dict :: "preflight_result \<Rightarrow> json" where
  "result_as_dict r = JObj
     [(''gateway_id'', JStr (pf_gateway_id r)), (''gateway_name'', JStr (pf_gateway_name r)),
      (''target_gateway_type'', JStr (pf_target_gateway_type r)), (''deployable'', JBool (pf_deployable r)),
      (''errors'', JArr (map error_as_dict (pf_errors r)))]"

section \<open>The webMethods contract\<close>

definition ORCHESTRATION_HTTP_METHODS :: "string list" where
  "ORCHESTRATION_HTTP_METHODS = [''get'', ''post'', ''put'', ''patch'', ''delete'', ''head'', ''options'', ''trace'']"

lemma json_size_enumerate [termination_simp]:
  "(i, v) \<in> set (enumerate n xs) \<Longrightarrow> size v < Suc (size_list size xs)"
proof -
  assume "(i, v) \<in> set (enumerate n xs)"
  then have "v \<in> set xs" by (auto simp: in_set_enumerate_eq)
  then show ?thesis by (simp add: less_Suc_eq_le size_list_estimation')
qed

text \<open>The paths of the Boolean \<open>additionalProperties\<close> of a document.\<close>

fun boolean_additional_properties :: "string \<Rightarrow> json \<Rightarrow> string list" where
  "boolean_additional_properties path (JObj d) = concat (map (\<lambda>(key, child).
     let child_path = path @ ''.'' @ key
     in if key = ''additionalProperties'' \<and> is_bool child then [child_path]
        else boolean_additional_properties child_path child) d)"
| "boolean_additional_properties path (JArr xs) = concat (map (\<lambda>(index, child).
     boolean_additional_properties (path @ ''.'' @ nat_digits index) child) (enumerate 0 xs))"
| "boolean_additional_properties path v = []"

type_synonym make_error = "string \<Rightarrow> string \<Rightarrow> string \<Rightarrow> preflight_error"

definition validate_no_boolean_additional_properties :: "make_error \<Rightarrow> string \<Rightarrow> json \<Rightarrow> preflight_error list" where
  "validate_no_boolean_additional_properties err path v =
     map (err ''openapi_schema_boolean_additional_properties''
            ''webMethods rejects boolean additionalProperties; omit it or use an explicit schema object'')
       (boolean_additional_properties path v)"

definition operation_errors :: "make_error \<Rightarrow> string \<Rightarrow> string \<times> json \<Rightarrow> preflight_error list" where
  "operation_errors err path item = (case item of (method, operation) \<Rightarrow>
     let operation_path = ''openapi_spec.paths.'' @ path @ ''.'' @ method
     in if py_lower method \<notin> set ORCHESTRATION_HTTP_METHODS then []
        else if \<not> is_obj operation then
          [err ''openapi_operation_invalid'' ''OpenAPI operation must be an object'' operation_path]
        else let responses = dget (obj_of operation) ''responses''
          in if \<not> is_obj responses \<or> obj_of responses = [] then
               [err ''openapi_operation_responses_missing''
                 ''webMethods requires each OpenAPI operation to declare non-empty responses''
                 (operation_path @ ''.responses'')]
             else [])"

definition path_errors :: "make_error \<Rightarrow> string \<times> json \<Rightarrow> preflight_error list" where
  "path_errors err item = (case item of (path, path_item) \<Rightarrow>
     if \<not> py_startswith path ''/'' then
       [err ''openapi_path_invalid'' (''OpenAPI path keys must start with '' @ sq ''/'') (''openapi_spec.paths.'' @ path)]
     else if \<not> is_obj path_item then
       [err ''openapi_path_item_invalid'' ''OpenAPI path item must be an object'' (''openapi_spec.paths.'' @ path)]
     else concat (map (operation_errors err path) (obj_of path_item)))"

definition info_errors :: "make_error \<Rightarrow> json \<Rightarrow> preflight_error list" where
  "info_errors err info =
     (if \<not> is_obj info then
        [err ''openapi_info_missing'' ''OpenAPI spec must include an info object'' ''openapi_spec.info'']
      else
        (if truthy (dget (obj_of info) ''title'') then []
         else [err ''openapi_info_title_missing'' ''OpenAPI info.title is required'' ''openapi_spec.info.title'']) @
        (if truthy (dget (obj_of info) ''version'') then []
         else [err ''openapi_info_version_missing'' ''OpenAPI info.version is required'' ''openapi_spec.info.version'']))"

definition validate_webmethods_openapi :: "make_error \<Rightarrow> json \<Rightarrow> preflight_error list" where
  "validate_webmethods_openapi err openapi_spec =
     (if \<not> is_obj openapi_spec then
        [err ''openapi_spec_missing'' ''webMethods deployment requires a parsed OpenAPI object'' ''openapi_spec'']
      else let spec = obj_of openapi_spec in
        if \<not> (truthy (dget spec ''openapi'') \<or> truthy (dget spec ''swagger'')) then
          [err ''openapi_version_missing'' (''OpenAPI spec must declare '' @ sq ''openapi'' @ '' or '' @ sq ''swagger'')
             ''openapi_spec.openapi'']
        else let errors = info_errors err (dget spec ''info''); paths = dget spec ''paths'' in
          if \<not> is_obj paths \<or> obj_of paths = [] then
            errors @ [err ''openapi_paths_missing'' ''OpenAPI spec must include at least one path'' ''openapi_spec.paths'']
          else errors @ concat (map (path_errors err) (obj_of paths)) @
            validate_no_boolean_additional_properties err ''openapi_spec'' openapi_spec)"

definition validate_desired_state_for_gateway :: "jdict \<Rightarrow> string \<Rightarrow> gateway_instance \<Rightarrow> preflight_error list" where
  "validate_desired_state_for_gateway desired_state gateway_type gateway =
     (if gateway_type \<noteq> ''webmethods'' then []
      else validate_webmethods_openapi
        (\<lambda>code message path. \<lparr>pe_gateway_id = uuid_str (gi_id gateway), pe_gateway_name = gi_name gateway,
           pe_target_gateway_type = gateway_type, pe_code = code, pe_message = message, pe_path = path\<rparr>)
        (dget desired_state ''openapi_spec''))"

section \<open>Targets\<close>

text \<open>\<open>tenant_id in allowed\<close>, for whatever JSON value the visibility holds.\<close>

fun json_contains :: "json \<Rightarrow> string \<Rightarrow> error + bool" where
  "json_contains (JArr xs) t = Inr (JStr t \<in> set xs)"
| "json_contains (JObj d) t = Inr (t \<in> fst ` set d)"
| "json_contains (JStr s) t = Inr (sublist t s)"
| "json_contains _ t = Inl (TypeError ''argument is not iterable'')"

definition gateway_usable_by_tenant :: "gateway_instance \<Rightarrow> string \<Rightarrow> error + bool" where
  "gateway_usable_by_tenant gateway tenant_id =
     (if gi_tenant_id gateway \<noteq> None \<and> gi_tenant_id gateway \<noteq> Some tenant_id then Inr False
      else let allowed = (if is_obj (gi_visibility gateway) then dget (obj_of (gi_visibility gateway)) ''tenant_ids'' else JNull)
        in if \<not> truthy allowed then Inr True else json_contains allowed tenant_id)"

definition get_gateway_or_raise :: "uuid \<Rightarrow> gateway_instance action" where
  "get_gateway_or_raise i =
     bindA (queryA (\<lambda>w. scalar_one_or_none (filter (\<lambda>g. gi_id g = i) (gateways w)))) (\<lambda>row. case row of
       None \<Rightarrow> raiseA (ValueError (''Gateway '' @ uuid_str i @ '' not found''))
     | Some g \<Rightarrow> retA g)"

definition target_gateway_type_value :: "gateway_instance \<Rightarrow> string" where
  "target_gateway_type_value g = tp_target_gateway_type (normalize_gateway_topology g)"

definition preflight_gateway :: "host \<Rightarrow> api_catalog \<Rightarrow> uuid \<Rightarrow> preflight_result action" where
  "preflight_gateway hst api i =
     bindA (get_gateway_or_raise i) (\<lambda>gateway.
     bindA (liftA (gateway_usable_by_tenant gateway (cat_tenant_id api))) (\<lambda>usable.
     if \<not> usable then raiseA (ValueError (''Gateway '' @ uuid_str i @ '' not found''))
     else let gateway_type = target_gateway_type_value gateway;
              errors = validate_desired_state_for_gateway (build_desired_state hst api) gateway_type gateway
       in retA \<lparr>pf_gateway_id = uuid_str (gi_id gateway), pf_gateway_name = gi_name gateway,
                pf_target_gateway_type = gateway_type, pf_deployable = (errors = []), pf_errors = errors\<rparr>))"

definition preflight_gateway_ids :: "host \<Rightarrow> api_catalog \<Rightarrow> uuid list \<Rightarrow> preflight_result list action" where
  "preflight_gateway_ids hst api ids = forA ids (preflight_gateway hst api)"

definition get_live_catalog_row :: "uuid \<Rightarrow> api_catalog option action" where
  "get_live_catalog_row i = queryA (\<lambda>w. scalar_one_or_none
     (filter (\<lambda>c. cat_id c = i \<and> cat_deleted_at c = None) (catalogs w)))"

definition preflight_api_to_gateways :: "host \<Rightarrow> uuid \<Rightarrow> uuid list \<Rightarrow> preflight_result list action" where
  "preflight_api_to_gateways hst api_catalog_id ids =
     bindA (get_live_catalog_row api_catalog_id) (\<lambda>row. case row of
       None \<Rightarrow> raiseA (ValueError ''API catalog entry not found'')
     | Some api \<Rightarrow> preflight_gateway_ids hst api ids)"

definition format_preflight_failure :: "preflight_result list \<Rightarrow> string" where
  "format_preflight_failure failed = ''Deployment preflight failed: '' @ py_join ''; ''
     (concat (map (\<lambda>r. map (\<lambda>e. pf_gateway_name r @ '': '' @ pe_code e @ '' - '' @ pe_message e) (pf_errors r)) failed))"

section \<open>The administration endpoint\<close>

text \<open>\<open>POST /v1/admin/deployments\<close>: nothing is committed unless the whole call succeeds.\<close>

definition deploy_except :: "error \<Rightarrow> bool \<times> http_exception" where
  "deploy_except e = (case e of
        PermissionError m \<Rightarrow> (False, HTTPException 409 (JStr m))
      | ValueError m \<Rightarrow> (False, HTTPException 404 (JStr m))
      | _ \<Rightarrow> (False, HTTPException 500 (JStr ''Internal Server Error'')))"

definition deploy_api_endpoint :: "host \<Rightarrow> user \<Rightarrow> uuid \<Rightarrow> uuid list \<Rightarrow> uuid list endpoint" where
  "deploy_api_endpoint hst user api_catalog_id gateway_instance_ids =
     guarded [passed (require_role [''cpi-admin''] user)] (\<lambda>w.
       case run_endpoint (preflight_api_to_gateways hst api_catalog_id gateway_instance_ids) deployments_except w of
         (Inl exc, w') \<Rightarrow> (Inl exc, w')
       | (Inr preflight, w') \<Rightarrow>
           let failed = filter (\<lambda>r. \<not> pf_deployable r) preflight
           in if failed \<noteq> [] then
                (Inl (HTTPException 400 (JObj
                   [(''code'', JStr ''deployment_preflight_failed''),
                    (''message'', JStr ''Deployment preflight failed before GatewayDeployment creation''),
                    (''targets'', JArr (map result_as_dict failed))])), rollback w w')
              else run_endpoint (deploy_api hst api_catalog_id gateway_instance_ids True) deploy_except w')"

section \<open>What the preflight decides\<close>

text \<open>\<open>occurs_in u v\<close>: the document \<open>u\<close> is \<open>v\<close> or occurs somewhere inside it.\<close>

inductive occurs_in :: "json \<Rightarrow> json \<Rightarrow> bool" where
  here: "occurs_in v v"
| in_object: "(k, c) \<in> set d \<Longrightarrow> occurs_in u c \<Longrightarrow> occurs_in u (JObj d)"
| in_array: "c \<in> set xs \<Longrightarrow> occurs_in u c \<Longrightarrow> occurs_in u (JArr xs)"

inductive_simps occurs_in_simps [simp]:
  "occurs_in u (JObj d)" "occurs_in u (JArr xs)" "occurs_in u JNull" "occurs_in u (JBool b)"
  "occurs_in u (JInt i)" "occurs_in u (JFloat r)" "occurs_in u (JStr s)"

text \<open>Somewhere in the document an object declares \<open>additionalProperties\<close> with a Boolean.\<close>

definition declares_boolean :: "json \<Rightarrow> bool" where
  "declares_boolean v \<longleftrightarrow> (\<exists>d b. occurs_in (JObj d) v \<and> (''additionalProperties'', JBool b) \<in> set d)"

lemma declares_object: "declares_boolean (JObj d) \<longleftrightarrow>
    (\<exists>(k, c) \<in> set d. k = ''additionalProperties'' \<and> is_bool c \<or> declares_boolean c)"
proof -
  have "is_bool c \<longleftrightarrow> (\<exists>b. c = JBool b)" for c by (cases c) auto
  then show ?thesis unfolding declares_boolean_def by (auto simp: Bex_def) blast+
qed

lemma declares_array: "declares_boolean (JArr xs) \<longleftrightarrow> (\<exists>c \<in> set xs. declares_boolean c)"
  unfolding declares_boolean_def by auto

lemma declares_other [simp]: "\<not> declares_boolean JNull" "\<not> declares_boolean (JBool b)" "\<not> declares_boolean (JInt i)"
  "\<not> declares_boolean (JFloat r)" "\<not> declares_boolean (JStr s)"
  by (simp_all add: declares_boolean_def)

lemma boolean_properties_iff: "boolean_additional_properties path v \<noteq> [] \<longleftrightarrow> declares_boolean v"
proof (induction path v rule: boolean_additional_properties.induct)
  case (1 path d)
  have "declares_boolean c \<Longrightarrow> \<not> is_bool c" for c by (cases c) auto
  with 1 show ?case by (fastforce simp: declares_object Let_def split: if_splits)
next
  case (2 path xs)
  have "declares_boolean ` snd ` set (enumerate 0 xs) = declares_boolean ` set xs"
    using map_snd_enumerate [of 0 xs] by (metis set_map)
  then have "(\<exists>p \<in> set (enumerate 0 xs). declares_boolean (snd p)) \<longleftrightarrow> (\<exists>c \<in> set xs. declares_boolean c)"
    by (metis (no_types, opaque_lifting) image_iff)
  with 2 show ?case by (fastforce simp: declares_array)
qed simp_all

lemma orchestration_methods: "set ORCHESTRATION_HTTP_METHODS = set HTTP_METHODS"
  by code_simp

text \<open>A contract that the lifecycle validator accepts can only fail on a Boolean \<open>additionalProperties\<close>.\<close>

lemma path_ok_no_errors: "path_ok p \<Longrightarrow> path_errors err p = []"
  by (cases p) (fastforce simp: path_errors_def path_ok_def operation_errors_def Let_def operation_ok_iff http_operations_def
      orchestration_methods)

lemma text_ok_truthy: "text_ok v \<Longrightarrow> truthy v"
  by (auto simp: text_ok_def py_strip_def strip_by_def)

lemma contract_preflight:
  assumes "contract_ok spec"
  shows "validate_webmethods_openapi err (JObj spec) =
     validate_no_boolean_additional_properties err ''openapi_spec'' (JObj spec)"
proof -
  from assms obtain info paths where info: "dget spec ''info'' = JObj info" "text_ok (dget info ''title'')"
      "text_ok (dget info ''version'')" and paths: "dget spec ''paths'' = JObj paths" "paths \<noteq> []" "\<forall>p \<in> set paths. path_ok p"
    and version: "truthy (dget spec ''openapi'') \<or> truthy (dget spec ''swagger'')"
    unfolding contract_ok_def version_ok_def by (metis (full_types))
  have "info_errors err (JObj info) = []" using info by (simp add: info_errors_def text_ok_truthy)
  moreover have "concat (map (path_errors err) paths) = []" using paths(3) path_ok_no_errors by simp
  ultimately show ?thesis
    using version info(1) paths(1,2)
    by (cases "truthy (dget spec ''openapi'')") (simp_all add: validate_webmethods_openapi_def Let_def)
qed

end
