(* ===== verification/PromotionService.thy ===== *)
theory PromotionService
  imports Preflight
begin

text \<open>
  \<open>services/promotion_service.py\<close> on \<open>repositories/promotion.py\<close>, with the endpoints of
  \<open>routers/promotions.py\<close>: a promotion request is created for a synced source deployment and explicit
  target gateways, approved by somebody else when it goes to production, completed when all its
  deployments are synced, failed when one of them is not, and rolled back by a reverse promotion.

  The event for the Kafka audit topic is sent before the transaction commits and may raise; the Slack
  notifications swallow their errors and are not modelled. The arrow and the dash of the messages are
  written \<open>->\<close> and \<open>-\<close>.
\<close>

section \<open>The repository\<close>

definition get_promotion_by_id :: "uuid \<Rightarrow> promotion option action" where
  "get_promotion_by_id i = queryA (\<lambda>w. scalar_one_or_none (filter (\<lambda>p. pr_id p = i) (promotions w)))"

definition get_promotion_by_id_and_tenant :: "uuid \<Rightarrow> string \<Rightarrow> promotion option action" where
  "get_promotion_by_id_and_tenant i tenant_id = queryA (\<lambda>w. scalar_one_or_none
     (filter (\<lambda>p. pr_id p = i \<and> pr_tenant_id p = tenant_id) (promotions w)))"

text \<open>The filter names the API and the target environment; the tenant is not part of it.\<close>

definition get_active_for_target :: "string \<Rightarrow> string \<Rightarrow> promotion option action" where
  "get_active_for_target api_id target_environment = queryA (\<lambda>w. scalar_one_or_none
     (filter (\<lambda>p. pr_api_id p = api_id \<and> pr_target_environment p = target_environment \<and>
        pr_status p \<in> {''pending'', ''promoting''}) (promotions w)))"

definition list_by_tenant ::
    "string \<Rightarrow> string option \<Rightarrow> string option \<Rightarrow> string option \<Rightarrow> nat \<Rightarrow> nat \<Rightarrow> (promotion list \<times> nat) action" where
  "list_by_tenant tenant_id api_id status target_environment page page_size = getA (\<lambda>w.
     let rows = filter (\<lambda>p. pr_tenant_id p = tenant_id \<and>
            (opt_truthy api_id \<longrightarrow> Some (pr_api_id p) = api_id) \<and> (opt_truthy status \<longrightarrow> Some (pr_status p) = status) \<and>
            (opt_truthy target_environment \<longrightarrow> Some (pr_target_environment p) = target_environment)) (promotions w)
     in (take page_size (drop ((page - 1) * page_size) (sort_key (\<lambda>p. - dt_instant (pr_created_at p)) rows)), length rows))"

definition list_by_promotion :: "uuid \<Rightarrow> gateway_deployment list action" where
  "list_by_promotion i = getA (\<lambda>w. filter (\<lambda>d. dep_promotion_id d = Some i) (deployments w))"

section \<open>create\_promotion\<close>

definition validate_gateway_tenant :: "gateway_instance \<Rightarrow> string \<Rightarrow> error + unit" where
  "validate_gateway_tenant g tenant_id =
     (if opt_truthy (gi_tenant_id g) \<and> gi_tenant_id g \<noteq> Some tenant_id
      then Inl (ValueError (''Gateway '' @ sq (gi_name g) @ '' belongs to another tenant'')) else Inr ())"

definition topology_value :: "gateway_instance \<Rightarrow> string" where
  "topology_value g = tp_topology (normalize_gateway_topology g)"

definition check_target_gateway :: "string \<Rightarrow> string \<Rightarrow> gateway_instance \<Rightarrow> error + unit" where
  "check_target_gateway tenant_id target_environment g =
     (case validate_gateway_tenant g tenant_id of
        Inl e \<Rightarrow> Inl e
      | Inr _ \<Rightarrow>
          if gi_deleted_at g \<noteq> None then Inl (ValueError (''Target gateway '' @ sq (gi_name g) @ '' has been deleted''))
          else if \<not> gi_enabled g then Inl (ValueError (''Target gateway '' @ sq (gi_name g) @ '' is disabled''))
          else if \<not> deployment_environment_matches (JStr (gi_environment g)) (JStr target_environment) then
            Inl (ValueError (''Target gateway '' @ sq (gi_name g) @ '' is in environment '' @ sq (gi_environment g) @
              '', not '' @ sq target_environment))
          else Inr ())"

definition validate_target_gateway :: "string \<Rightarrow> string \<Rightarrow> uuid \<Rightarrow> gateway_instance action" where
  "validate_target_gateway tenant_id target_environment i =
     bindA (get_gateway_or_raise i) (\<lambda>g.
     bindA (liftA (check_target_gateway tenant_id target_environment g)) (\<lambda>_. retA g))"

definition check_equivalent :: "gateway_instance \<Rightarrow> gateway_instance \<Rightarrow> error + unit" where
  "check_equivalent source g =
     (if target_gateway_type_value g \<noteq> target_gateway_type_value source then
        Inl (ValueError (''Target gateway '' @ sq (gi_name g) @ '' is '' @ sq (target_gateway_type_value g) @
          '', but the source gateway '' @ sq (gi_name source) @ '' is '' @ sq (target_gateway_type_value source) @
          ''. Select an equivalent target gateway.''))
      else if topology_value source \<noteq> [] \<and> topology_value g \<noteq> [] \<and> topology_value g \<noteq> topology_value source then
        Inl (ValueError (''Target gateway '' @ sq (gi_name g) @ '' topology is '' @ sq (topology_value g) @
          '', but the source gateway '' @ sq (gi_name source) @ '' topology is '' @ sq (topology_value source) @ ''.''))
      else Inr ())"

record promotion_request_data =
  pd_tenant_id :: string
  pd_api_id :: string
  pd_source_deployment_id :: uuid
  pd_target_gateway_ids :: "uuid list"
  pd_source_environment :: string
  pd_target_environment :: string
  pd_message :: string
  pd_requested_by :: string

definition check_source_row :: "promotion_request_data \<Rightarrow> api_catalog option \<Rightarrow> error + api_catalog" where
  "check_source_row r row =
     (case row of
        None \<Rightarrow> Inl (ValueError ''Source gateway deployment API catalog entry not found'')
      | Some api \<Rightarrow>
          if cat_tenant_id api \<noteq> pd_tenant_id r then
            Inl (ValueError ''Source gateway deployment belongs to another tenant'')
          else if pd_api_id r \<notin> {cat_api_id api, cat_api_name api, uuid_str (cat_id api)} then
            Inl (ValueError (''Source gateway deployment belongs to API '' @ sq (cat_api_id api) @ '', not '' @ sq (pd_api_id r)))
          else Inr api)"

definition check_source_gateway :: "promotion_request_data \<Rightarrow> gateway_instance \<Rightarrow> gateway_deployment \<Rightarrow> error + unit" where
  "check_source_gateway r source_gateway source_deployment =
     (case validate_gateway_tenant source_gateway (pd_tenant_id r) of
        Inl e \<Rightarrow> Inl e
      | Inr _ \<Rightarrow>
          if \<not> deployment_environment_matches (JStr (gi_environment source_gateway)) (JStr (pd_source_environment r)) then
            Inl (ValueError (''Source gateway '' @ sq (gi_name source_gateway) @ '' is in environment '' @
              sq (gi_environment source_gateway) @ '', not '' @ sq (pd_source_environment r)))
          else if sync_value (dep_sync_status source_deployment) \<noteq> sync_value SYNCED then
            Inl (ValueError (''Source deployment '' @ uuid_str (pd_source_deployment_id r) @ '' is '' @
              sq (sync_value (dep_sync_status source_deployment)) @ ''. Only synced gateway deployments can be promoted.''))
          else Inr ())"

definition validate_gateway_aware_request :: "host \<Rightarrow> promotion_request_data \<Rightarrow> api_catalog action" where
  "validate_gateway_aware_request hst r =
     (if pd_target_gateway_ids r = [] then raiseA (ValueError ''Promotion requires at least one target gateway'')
      else bindA (get_deployment_by_id (pd_source_deployment_id r)) (\<lambda>dep. case dep of
        None \<Rightarrow> raiseA (ValueError (''Source gateway deployment '' @ uuid_str (pd_source_deployment_id r) @ '' not found''))
      | Some source_deployment \<Rightarrow>
          bindA (get_live_catalog_row (dep_api_catalog_id source_deployment)) (\<lambda>row.
          bindA (liftA (check_source_row r row)) (\<lambda>api.
          bindA (get_gateway_or_raise (dep_gateway_instance_id source_deployment)) (\<lambda>source_gateway.
          bindA (liftA (check_source_gateway r source_gateway source_deployment)) (\<lambda>_.
          bindA (forA (pd_target_gateway_ids r)
            (validate_target_gateway (pd_tenant_id r) (pd_target_environment r))) (\<lambda>targets.
          bindA (forA targets (\<lambda>g. liftA (check_equivalent source_gateway g))) (\<lambda>_.
          bindA (preflight_api_to_gateways hst (cat_id api) (pd_target_gateway_ids r)) (\<lambda>preflight.
            let failed = filter (\<lambda>x. \<not> pf_deployable x) preflight
            in if failed \<noteq> [] then raiseA (ValueError (format_preflight_failure failed)) else retA api)))))))))"

definition emit_audit_event :: "host \<Rightarrow> unit action" where
  "emit_audit_event hst = (if kafka_accepts hst then retA () else raiseA (RuntimeError ''Kafka producer not initialized''))"

definition requested_promotion_row :: "uuid \<Rightarrow> promotion_request_data \<Rightarrow> api_catalog \<Rightarrow> datetime \<Rightarrow> promotion" where
  "requested_promotion_row fresh r api now =
     \<lparr>pr_id = fresh, pr_tenant_id = pd_tenant_id r, pr_api_id = cat_api_id api,
      pr_source_environment = pd_source_environment r, pr_target_environment = pd_target_environment r,
      pr_source_deployment_id = Some (pd_source_deployment_id r), pr_target_deployment_id = None,
      pr_target_gateway_ids = JArr (map (\<lambda>i. JStr (uuid_str i)) (pd_target_gateway_ids r)),
      pr_status = promotion_value PR_PENDING, pr_spec_diff = JNull, pr_message = pd_message r,
      pr_requested_by = pd_requested_by r, pr_approved_by = None, pr_completed_at = None, pr_created_at = now\<rparr>"

definition request_promotion :: "host \<Rightarrow> promotion_request_data \<Rightarrow> promotion action" where
  "request_promotion hst r =
     bindA (liftA (case validate_promotion_chain (pd_source_environment r) (pd_target_environment r) of
        Inl m \<Rightarrow> Inl (ValueError m) | Inr u \<Rightarrow> Inr u)) (\<lambda>_.
     bindA (validate_gateway_aware_request hst r) (\<lambda>api.
     bindA (get_active_for_target (cat_api_id api) (pd_target_environment r)) (\<lambda>active. case active of
       Some p \<Rightarrow> raiseA (ValueError (''Active promotion already exists for '' @ cat_api_id api @ '' -> '' @
         pd_target_environment r @ '' (id='' @ uuid_str (pr_id p) @ '', status='' @ pr_status p @ '')''))
     | None \<Rightarrow>
         bindA uuid4A (\<lambda>fresh.
         bindA nowA (\<lambda>now.
         bindA (create_promotion (requested_promotion_row fresh r api now)) (\<lambda>created.
         bindA (emit_audit_event hst) (\<lambda>_. retA created)))))))"

section \<open>approve\_promotion\<close>

definition promotion_not_found :: "uuid \<Rightarrow> error" where
  "promotion_not_found i = ValueError (''Promotion '' @ uuid_str i @ '' not found'')"

definition parse_target_gateway_ids :: "json \<Rightarrow> error + uuid list" where
  "parse_target_gateway_ids raw_ids =
     (if \<not> truthy raw_ids then Inr []
      else case raw_ids of
        JArr xs \<Rightarrow>
          (if list_all (\<lambda>v. uuid_parse (py_str v) \<noteq> None) xs then Inr (List.map_filter (\<lambda>v. uuid_parse (py_str v)) xs)
           else Inl (ValueError ''Promotion contains an invalid target gateway ID''))
      | _ \<Rightarrow> Inl (ValueError ''Promotion target gateways must be a list''))"

definition approve_promotion :: "string \<Rightarrow> uuid \<Rightarrow> string \<Rightarrow> promotion action" where
  "approve_promotion tenant_id promotion_id approved_by =
     bindA (get_promotion_by_id_and_tenant promotion_id tenant_id) (\<lambda>row. case row of
       None \<Rightarrow> raiseA (promotion_not_found promotion_id)
     | Some p \<Rightarrow>
         if pr_status p \<noteq> promotion_value PR_PENDING then
           raiseA (ValueError (''Cannot approve promotion in status '' @ sq (pr_status p) @ '' (expected '' @
             sq (promotion_value PR_PENDING) @ '')''))
         else if pr_requested_by p = approved_by \<and> pr_target_environment p = ''production'' then
           raiseA (ValueError (''Cannot approve your own promotion to production (4-eyes principle). '' @
             ''A different team member must approve production deployments.''))
         else bindA (liftA (parse_target_gateway_ids (pr_target_gateway_ids p))) (\<lambda>ids.
           if ids = [] then
             raiseA (ValueError (''Cannot approve promotion without explicit target gateways. '' @
               ''Create a new gateway-aware promotion.''))
           else save_promotion (p\<lparr>pr_status := promotion_value PR_PROMOTING, pr_approved_by := Some approved_by\<rparr>)))"

section \<open>complete\_promotion, fail\_promotion and the check after an acknowledgement\<close>

definition completion_target :: "uuid \<Rightarrow> uuid option \<Rightarrow> uuid option action" where
  "completion_target promotion_id target_deployment_id =
     (if target_deployment_id \<noteq> None then retA target_deployment_id
      else bindA (list_by_promotion promotion_id) (\<lambda>linked.
        if linked = [] then raiseA (ValueError ''Cannot complete promotion without linked gateway deployments'')
        else if \<not> list_all (\<lambda>d. sync_value (dep_sync_status d) = sync_value SYNCED) linked then
          raiseA (ValueError ''Cannot complete promotion until all linked gateway deployments are synced'')
        else retA (case linked of [d] \<Rightarrow> Some (dep_id d) | _ \<Rightarrow> None)))"

definition complete_promotion :: "uuid \<Rightarrow> uuid option \<Rightarrow> json \<Rightarrow> promotion action" where
  "complete_promotion promotion_id target_deployment_id spec_diff =
     bindA (get_promotion_by_id promotion_id) (\<lambda>row. case row of
       None \<Rightarrow> raiseA (promotion_not_found promotion_id)
     | Some p \<Rightarrow>
         if pr_status p \<noteq> promotion_value PR_PROMOTING then
           raiseA (ValueError (''Cannot complete promotion in status '' @ sq (pr_status p) @ '' (expected '' @
             sq (promotion_value PR_PROMOTING) @ '')''))
         else bindA (completion_target promotion_id target_deployment_id) (\<lambda>target.
           bindA nowA (\<lambda>now.
           save_promotion (p\<lparr>pr_status := promotion_value PR_PROMOTED, pr_target_deployment_id := target,
             pr_spec_diff := spec_diff, pr_completed_at := Some now\<rparr>))))"

definition fail_promotion :: "uuid \<Rightarrow> promotion action" where
  "fail_promotion promotion_id =
     bindA (get_promotion_by_id promotion_id) (\<lambda>row. case row of
       None \<Rightarrow> raiseA (promotion_not_found promotion_id)
     | Some p \<Rightarrow> bindA nowA (\<lambda>now.
         save_promotion (p\<lparr>pr_status := promotion_value PR_FAILED, pr_completed_at := Some now\<rparr>)))"

definition check_promotion_completion :: "uuid \<Rightarrow> unit action" where
  "check_promotion_completion promotion_id =
     bindA (list_by_promotion promotion_id) (\<lambda>linked.
       let statuses = map dep_sync_status linked
       in if linked = [] then retA ()
          else if list_ex (\<lambda>s. s \<in> {PENDING, SYNCING}) statuses then retA ()
          else if list_all (\<lambda>s. s = SYNCED) statuses then
            catchA (bindA (complete_promotion promotion_id None JNull) (\<lambda>_. retA ())) is_value_error (\<lambda>_. retA ())
          else catchA (bindA (fail_promotion promotion_id) (\<lambda>_. retA ())) is_value_error (\<lambda>_. retA ()))"

section \<open>rollback\_promotion and get\_diff\<close>

definition reverse_promotion_row :: "uuid \<Rightarrow> string \<Rightarrow> promotion \<Rightarrow> string \<Rightarrow> string \<Rightarrow> datetime \<Rightarrow> promotion" where
  "reverse_promotion_row fresh tenant_id original message requested_by now =
     \<lparr>pr_id = fresh, pr_tenant_id = tenant_id, pr_api_id = pr_api_id original,
      pr_source_environment = pr_target_environment original, pr_target_environment = pr_source_environment original,
      pr_source_deployment_id = None, pr_target_deployment_id = None, pr_target_gateway_ids = JNull,
      pr_status = promotion_value PR_PROMOTING, pr_spec_diff = JNull, pr_message = message,
      pr_requested_by = requested_by, pr_approved_by = None, pr_completed_at = None, pr_created_at = now\<rparr>"

definition rollback_promotion :: "host \<Rightarrow> string \<Rightarrow> uuid \<Rightarrow> string \<Rightarrow> string \<Rightarrow> promotion action" where
  "rollback_promotion hst tenant_id promotion_id message requested_by =
     bindA (get_promotion_by_id_and_tenant promotion_id tenant_id) (\<lambda>row. case row of
       None \<Rightarrow> raiseA (promotion_not_found promotion_id)
     | Some original \<Rightarrow>
         if pr_status original \<noteq> promotion_value PR_PROMOTED then
           raiseA (ValueError (''Can only rollback promoted promotions (current: '' @ pr_status original @ '')''))
         else bindA (save_promotion (original\<lparr>pr_status := promotion_value PR_ROLLED_BACK\<rparr>)) (\<lambda>_.
           bindA uuid4A (\<lambda>fresh.
           bindA nowA (\<lambda>now.
           bindA (create_promotion (reverse_promotion_row fresh tenant_id original message requested_by now)) (\<lambda>created.
           bindA (emit_audit_event hst) (\<lambda>_. retA created))))))"

text \<open>The row that \<open>max(..., key=...)\<close> returns: the first of the greatest.\<close>

fun first_max :: "('a \<Rightarrow> int) \<Rightarrow> 'a \<Rightarrow> 'a list \<Rightarrow> 'a" where
  "first_max f best [] = best"
| "first_max f best (x # xs) = first_max f (if f best < f x then x else best) xs"

definition spec_candidates :: "string \<Rightarrow> string \<Rightarrow> string \<Rightarrow> world \<Rightarrow> (gateway_deployment \<times> gateway_instance \<times> api_catalog) list" where
  "spec_candidates tenant_id api_id environment w =
     concat (map (\<lambda>d. concat (map (\<lambda>g. map (\<lambda>c. (d, g, c))
         (filter (\<lambda>c. cat_id c = dep_api_catalog_id d \<and> cat_tenant_id c = tenant_id \<and> cat_api_id c = api_id \<and>
            cat_deleted_at c = None) (catalogs w)))
       (filter (\<lambda>g. gi_id g = dep_gateway_instance_id d \<and> gi_deleted_at g = None \<and>
            deployment_environment_matches (JStr (gi_environment g)) (JStr environment)) (gateways w))))
     (filter (\<lambda>d. sync_value (dep_sync_status d) = sync_value SYNCED) (deployments w)))"

definition last_change :: "gateway_deployment \<Rightarrow> int" where
  "last_change d = dt_instant (case dep_last_sync_success d of Some t \<Rightarrow> t | None \<Rightarrow> dep_desired_at d)"

definition deployment_spec_json :: "gateway_deployment \<Rightarrow> gateway_instance \<Rightarrow> api_catalog \<Rightarrow> json" where
  "deployment_spec_json d g c =
     (let desired = (if is_obj (dep_desired_state d) then obj_of (dep_desired_state d) else []);
          spec_hash = dget desired ''spec_hash''
      in JObj [(''deployment_id'', JStr (uuid_str (dep_id d))), (''gateway_instance_id'', JStr (uuid_str (gi_id g))),
         (''gateway_name'', JStr (gi_name g)), (''environment'', JStr (gi_environment g)),
         (''api_catalog_id'', JStr (uuid_str (cat_id c))), (''version'', JStr (cat_version c)),
         (''spec_hash'', if truthy spec_hash then spec_hash else dget desired ''openapi_spec_hash''),
         (''desired_generation'', JInt (dep_desired_generation d)), (''synced_generation'', JInt (dep_synced_generation d)),
         (''sync_status'', JStr (sync_value (dep_sync_status d))),
         (''gateway_resource_id'', opt_str (dep_gateway_resource_id d)),
         (''last_sync_success'', opt_str (map_option isoformat (dep_last_sync_success d)))])"

definition get_deployment_spec :: "string \<Rightarrow> string \<Rightarrow> string \<Rightarrow> json action" where
  "get_deployment_spec tenant_id api_id environment = getA (\<lambda>w.
     case spec_candidates tenant_id api_id environment w of
       [] \<Rightarrow> JNull
     | x # xs \<Rightarrow> (case first_max (\<lambda>(d, _, _). last_change d) x xs of (d, g, c) \<Rightarrow> deployment_spec_json d g c))"

definition get_diff :: "string \<Rightarrow> uuid \<Rightarrow> json action" where
  "get_diff tenant_id promotion_id =
     bindA (get_promotion_by_id_and_tenant promotion_id tenant_id) (\<lambda>row. case row of
       None \<Rightarrow> raiseA (promotion_not_found promotion_id)
     | Some p \<Rightarrow>
         bindA (get_deployment_spec tenant_id (pr_api_id p) (pr_source_environment p)) (\<lambda>source_spec.
         bindA (get_deployment_spec tenant_id (pr_api_id p) (pr_target_environment p)) (\<lambda>target_spec.
         retA (JObj [(''promotion_id'', JStr (uuid_str (pr_id p))), (''source_environment'', JStr (pr_source_environment p)),
           (''target_environment'', JStr (pr_target_environment p)), (''source_spec'', source_spec),
           (''target_spec'', target_spec), (''diff_summary'', pr_spec_diff p)]))))"

section \<open>The endpoints: routers/promotions.py\<close>

definition promotions_except :: "int \<Rightarrow> error \<Rightarrow> bool \<times> http_exception" where
  "promotions_except status e = (case e of
        ValueError m \<Rightarrow> (False, HTTPException status (JStr m))
      | _ \<Rightarrow> (False, HTTPException 500 (JStr ''Internal Server Error'')))"

definition promotion_guards :: "user \<Rightarrow> string \<Rightarrow> (http_exception + unit) list" where
  "promotion_guards user tenant_id =
     [passed (require_permission APIS_PROMOTE user), passed (decide_tenant_access user (Some tenant_id) ''resource'')]"

definition create_promotion_endpoint :: "host \<Rightarrow> user \<Rightarrow> promotion_request_data \<Rightarrow> promotion endpoint" where
  "create_promotion_endpoint hst user r =
     guarded (promotion_guards user (pd_tenant_id r))
       (run_endpoint (request_promotion hst (r\<lparr>pd_requested_by := u_username user\<rparr>)) (promotions_except 400))"

definition approve_promotion_endpoint :: "user \<Rightarrow> string \<Rightarrow> uuid \<Rightarrow> promotion endpoint" where
  "approve_promotion_endpoint user tenant_id promotion_id =
     guarded (promotion_guards user tenant_id)
       (run_endpoint (approve_promotion tenant_id promotion_id (u_username user)) (promotions_except 400))"

definition complete_promotion_endpoint :: "user \<Rightarrow> string \<Rightarrow> uuid \<Rightarrow> promotion endpoint" where
  "complete_promotion_endpoint user tenant_id promotion_id =
     guarded (promotion_guards user tenant_id)
       (run_endpoint (complete_promotion promotion_id None JNull) (promotions_except 400))"

definition rollback_promotion_endpoint :: "host \<Rightarrow> user \<Rightarrow> string \<Rightarrow> uuid \<Rightarrow> string \<Rightarrow> promotion endpoint" where
  "rollback_promotion_endpoint hst user tenant_id promotion_id message =
     guarded (promotion_guards user tenant_id)
       (run_endpoint (rollback_promotion hst tenant_id promotion_id message (u_username user)) (promotions_except 400))"

definition get_promotion_diff_endpoint :: "user \<Rightarrow> string \<Rightarrow> uuid \<Rightarrow> json endpoint" where
  "get_promotion_diff_endpoint user tenant_id promotion_id =
     guarded [passed (decide_tenant_access user (Some tenant_id) ''resource'')]
       (run_endpoint (get_diff tenant_id promotion_id) (promotions_except 404))"

end
