(* ===== verification/RouteSync.thy ===== *)
theory RouteSync
  imports PromotionService
begin

text \<open>
  The pull side of deployment (\<open>routers/gateway_internal.py\<close>): an agent reads the routes of its gateway
  with the generation of each, applies them, and acknowledges the results. An acknowledgement is first
  decided on the row as it was read, and then written by a compare-and-set on the generation and the
  status of that row (\<open>GatewayDeploymentRepository.acknowledge\<close>), because the row may have been changed in
  between. Afterwards the promotions of the acknowledged deployments are checked for completion.

  The key of the agent (\<open>X-Gateway-Key\<close>) is checked before any of this (\<open>auth/gateway_key.py\<close>).
\<close>

section \<open>The key of the agent\<close>

definition gateway_api_keys_list :: "host \<Rightarrow> string list" where
  "gateway_api_keys_list hst =
     (if GATEWAY_API_KEYS hst = [] then []
      else filter (\<lambda>k. k \<noteq> []) (map py_strip (split_on (CHR '','') (GATEWAY_API_KEYS hst))))"

definition gateway_key_is_valid :: "string \<Rightarrow> string list \<Rightarrow> bool" where
  "gateway_key_is_valid presented_key valid_keys = (presented_key \<noteq> [] \<and> presented_key \<in> set valid_keys)"

definition validate_gateway_key :: "host \<Rightarrow> string \<Rightarrow> http_exception + unit" where
  "validate_gateway_key hst x_gateway_key =
     (if gateway_api_keys_list hst = [] then
        Inl (HTTPException 503 (JStr ''Gateway registration disabled (no GATEWAY_API_KEYS configured)''))
      else if \<not> gateway_key_is_valid x_gateway_key (gateway_api_keys_list hst) then
        Inl (HTTPException 401 (JStr ''Invalid gateway key''))
      else Inr ())"

section \<open>Routes\<close>

definition get_gateway_by_name :: "string \<Rightarrow> gateway_instance option action" where
  "get_gateway_by_name name = queryA (\<lambda>w. scalar_one_or_none
     (filter (\<lambda>g. gi_name g = name \<and> gi_deleted_at g = None) (gateways w)))"

definition list_by_statuses :: "sync_status list \<Rightarrow> gateway_deployment list action" where
  "list_by_statuses statuses = getA (\<lambda>w. filter (\<lambda>d. dep_sync_status d \<in> set statuses) (deployments w))"

definition list_by_statuses_and_gateway :: "sync_status list \<Rightarrow> uuid \<Rightarrow> gateway_deployment list action" where
  "list_by_statuses_and_gateway statuses i = getA (\<lambda>w.
     filter (\<lambda>d. dep_sync_status d \<in> set statuses \<and> dep_gateway_instance_id d = i) (deployments w))"

text \<open>\<open>adapters/stoa/mappers.py\<close>: \<open>map_api_spec_to_stoa\<close>.\<close>

definition map_api_spec_to_stoa :: "jdict \<Rightarrow> json \<Rightarrow> jdict" where
  "map_api_spec_to_stoa api_spec tenant_id =
     (let api_name = dget_def api_spec ''api_name'' (dget_def api_spec ''apiName'' (JStr ''unknown''));
          api_id = dget_def api_spec ''api_id'' api_name
      in [(''id'', dget_def api_spec ''api_catalog_id'' (JStr [])), (''api_id'', api_id), (''name'', api_name),
          (''tenant_id'', tenant_id), (''path_prefix'', JStr (''/apis/'' @ py_str api_id)),
          (''backend_url'', dget_def api_spec ''backend_url'' (dget_def api_spec ''url'' (JStr []))),
          (''methods'', dget_def api_spec ''methods'' (JArr (map JStr [''GET'', ''POST'', ''PUT'', ''DELETE'']))),
          (''spec_hash'', dget_def api_spec ''spec_hash'' (JStr [])),
          (''activated'', dget_def api_spec ''activated'' (JBool True))] @
         (if dget api_spec ''openapi_spec'' \<noteq> JNull then [(''openapi_spec'', dget api_spec ''openapi_spec'')] else []))"

record gateway_route =
  gr_route :: jdict
  gr_deployment_id :: string
  gr_gateway_instance_id :: string
  gr_generation :: int

definition route_of_deployment :: "gateway_deployment \<Rightarrow> gateway_route option" where
  "route_of_deployment d =
     (let ds = (if truthy (dep_desired_state d) then obj_of (dep_desired_state d) else []);
          route = map_api_spec_to_stoa ds (dget_def ds ''tenant_id'' (JStr []))
      in if truthy (dget route ''backend_url'') then
           Some \<lparr>gr_route = route, gr_deployment_id = uuid_str (dep_id d),
             gr_gateway_instance_id = uuid_str (dep_gateway_instance_id d),
             gr_generation = (if dep_desired_generation d \<noteq> 0 then dep_desired_generation d else 1)\<rparr>
         else None)"

text \<open>
  \<open>get_self_registered_by_hostname\<close> takes the latest of the rows of a host by a column that is not
  modelled; the row it takes is a parameter, which the properties only use to be one of the gateways.
\<close>

definition list_gateway_routes ::
    "(string \<Rightarrow> gateway_instance list \<Rightarrow> gateway_instance option) \<Rightarrow> string option \<Rightarrow> gateway_route list action" where
  "list_gateway_routes self_registered gateway_name =
     bindA (if opt_truthy gateway_name then
              bindA (get_gateway_by_name (the gateway_name)) (\<lambda>named.
              bindA (case named of Some g \<Rightarrow> retA (Some g)
                     | None \<Rightarrow> getA (\<lambda>w. self_registered (the gateway_name) (gateways w))) (\<lambda>gateway. case gateway of
                Some g \<Rightarrow> list_by_statuses_and_gateway [SYNCED, PENDING] (gi_id g)
              | None \<Rightarrow> retA []))
            else list_by_statuses [SYNCED, PENDING])
       (\<lambda>deps. retA (List.map_filter route_of_deployment deps))"

section \<open>Connectivity errors\<close>

text \<open>\<open>str.casefold\<close>; the micro sign folds to a letter outside the modelled range and is kept.\<close>

definition py_casefold :: "string \<Rightarrow> string" where
  "py_casefold s = concat (map (\<lambda>c. if code_point c = 223 then ''ss'' else [py_lower_char c]) s)"

definition CONNECTIVITY_MARKERS :: "string list" where
  "CONNECTIVITY_MARKERS =
     [''connection reset'', ''connection refused'', ''connect: connection'', ''clientconnectordnserror'',
      ''context deadline exceeded'', ''did not acknowledge'', ''eof'', ''gateway unreachable'', ''i/o timeout'',
      ''no route to host'', ''temporarily unavailable'', ''timed out'', ''timeout'']"

text \<open>The text of the first failed step may be any JSON value the agent sent; \<open>casefold\<close> needs a string.\<close>

definition is_gateway_connectivity_error :: "json \<Rightarrow> error + bool" where
  "is_gateway_connectivity_error err =
     (if \<not> truthy err then Inr False
      else case err of
        JStr s \<Rightarrow> Inr (list_ex (\<lambda>marker. sublist marker (py_casefold s)) CONNECTIVITY_MARKERS)
      | _ \<Rightarrow> Inl (AttributeError (''object has no attribute '' @ sq ''casefold'')))"

section \<open>One result\<close>

record synced_route =
  sr_deployment_id :: string
  sr_status :: string
  sr_error :: "string option"
  sr_steps :: "jdict list option"
  sr_generation :: "int option"

text \<open>\<open>first_error\<close> as the JSON value it returns.\<close>

definition first_error_json :: "trace \<Rightarrow> json" where
  "first_error_json steps = (case find (\<lambda>s. dget s ''status'' = JStr ''failed'') steps of
     None \<Rightarrow> JNull
   | Some s \<Rightarrow> if truthy (dget s ''detail'') then dget s ''detail''
       else JStr (''Step '' @ sq (py_str (dget_def s ''name'' (JStr ''unknown''))) @ '' failed''))"

text \<open>The steps the agent reports, after the one of the control plane; the clock is read twice.\<close>

definition merged_steps :: "datetime \<Rightarrow> datetime \<Rightarrow> jdict list \<Rightarrow> trace" where
  "merged_steps t1 t2 steps =
     step_complete t2 ''event_emitted'' (Some ''deployment dispatched to agent'') (step_start t1 ''event_emitted'' []) @ steps"

text \<open>The columns an acknowledgement writes; \<open>None\<close>: not written.\<close>

record ack_values =
  av_last_sync_attempt :: datetime
  av_sync_status :: "sync_status option"
  av_last_sync_success :: "datetime option"
  av_sync_error :: "json option"
  av_sync_steps :: "trace option"
  av_synced_generation :: "int option"
  av_attempted_generation :: "int option"

datatype ack_decision = AckSkip | AckUpdate ack_values | AckRemove

definition no_values :: "datetime \<Rightarrow> ack_values" where
  "no_values now = \<lparr>av_last_sync_attempt = now, av_sync_status = None, av_last_sync_success = None, av_sync_error = None,
     av_sync_steps = None, av_synced_generation = None, av_attempted_generation = None\<rparr>"

text \<open>The status and the error after a reported success with a failed step was turned into a failure.\<close>

definition effective_result :: "synced_route \<Rightarrow> json \<Rightarrow> string \<times> json" where
  "effective_result r step_err =
     (if sr_status r \<in> {''applied'', ''removed''} \<and> truthy step_err then (''failed'', step_err)
      else (sr_status r, opt_str (sr_error r)))"

definition decide_ack :: "datetime \<Rightarrow> gateway_deployment \<Rightarrow> synced_route \<Rightarrow> trace option \<Rightarrow> error + ack_decision" where
  "decide_ack now d r merged =
     (let step_err = (case merged of None \<Rightarrow> JNull | Some steps \<Rightarrow> first_error_json steps);
          (status, err) = effective_result r step_err;
          steps = merged
      in if sr_generation r \<noteq> None \<and> the (sr_generation r) < dep_desired_generation d then Inr AckSkip
         else case (if status = ''failed'' then is_gateway_connectivity_error (if truthy step_err then step_err else err)
                    else Inr False) of
           Inl e \<Rightarrow> Inl e
         | Inr connectivity \<Rightarrow>
             if status = ''failed'' \<and> dep_sync_status d = SYNCED \<and> dep_last_sync_success d \<noteq> None \<and>
                (dep_synced_generation d \<ge> dep_desired_generation d \<or> connectivity) then
               Inr (AckUpdate ((no_values now)\<lparr>av_attempted_generation :=
                  map_option (max (dep_attempted_generation d)) (sr_generation r)\<rparr>))
             else if status = ''applied'' then
               if dep_sync_status d = DELETING then Inr AckSkip
               else Inr (AckUpdate ((no_values now)\<lparr>av_sync_status := Some SYNCED, av_last_sync_success := Some now,
                  av_sync_error := Some JNull, av_sync_steps := steps, av_synced_generation := sr_generation r,
                  av_attempted_generation := sr_generation r\<rparr>))
             else if status = ''removed'' \<and> dep_sync_status d = DELETING then
               if sr_generation r \<noteq> Some (dep_desired_generation d) then Inr AckSkip else Inr AckRemove
             else if status = ''failed'' then
               Inr (AckUpdate ((no_values now)\<lparr>
                  av_sync_status := (if dep_sync_status d \<noteq> DELETING then Some ERROR else None),
                  av_attempted_generation := sr_generation r, av_sync_steps := steps,
                  av_sync_error := Some (if truthy step_err then step_err else err)\<rparr>))
             else Inr AckSkip)"

definition or_old :: "'a option \<Rightarrow> 'a \<Rightarrow> 'a" where
  "or_old v old = (case v of None \<Rightarrow> old | Some x \<Rightarrow> x)"

definition apply_values :: "ack_values \<Rightarrow> gateway_deployment \<Rightarrow> gateway_deployment" where
  "apply_values v d = d\<lparr>dep_last_sync_attempt := Some (av_last_sync_attempt v),
     dep_sync_status := or_old (av_sync_status v) (dep_sync_status d),
     dep_last_sync_success := (case av_last_sync_success v of None \<Rightarrow> dep_last_sync_success d | Some t \<Rightarrow> Some t),
     dep_sync_error := (case av_sync_error v of None \<Rightarrow> dep_sync_error d | Some e \<Rightarrow> str_opt e),
     dep_sync_steps := (case av_sync_steps v of None \<Rightarrow> dep_sync_steps d | Some t \<Rightarrow> trace_to_list t),
     dep_synced_generation := or_old (av_synced_generation v) (dep_synced_generation d),
     dep_attempted_generation := or_old (av_attempted_generation v) (dep_attempted_generation d)\<rparr>"

text \<open>
  The compare-and-set: it changes the row of the read one only while its generation and its status are
  those that were read, and tells whether it did.
\<close>

definition still_as_read :: "gateway_deployment \<Rightarrow> gateway_deployment \<Rightarrow> bool" where
  "still_as_read seen d \<longleftrightarrow> dep_id d = dep_id seen \<and> dep_desired_generation d = dep_desired_generation seen \<and>
     dep_sync_status d = dep_sync_status seen"

definition acknowledge :: "gateway_deployment \<Rightarrow> (gateway_deployment \<Rightarrow> gateway_deployment) \<Rightarrow> bool \<Rightarrow> bool action" where
  "acknowledge seen f removed = (\<lambda>w.
     (Inr (list_ex (still_as_read seen) (deployments w)),
      w\<lparr>deployments := (if removed then filter (\<lambda>d. \<not> still_as_read seen d) (deployments w)
         else map (\<lambda>d. if still_as_read seen d then f d else d) (deployments w))\<rparr>))"

datatype ack_outcome = Processed | NotFound | Ignored

definition write_ack :: "gateway_deployment \<Rightarrow> ack_decision \<Rightarrow> ack_outcome action" where
  "write_ack seen decision = (case decision of
     AckSkip \<Rightarrow> retA Ignored
   | AckUpdate v \<Rightarrow> bindA (acknowledge seen (apply_values v) False) (\<lambda>ok. retA (if ok then Processed else Ignored))
   | AckRemove \<Rightarrow> bindA (acknowledge seen (\<lambda>d. d) True) (\<lambda>ok. retA (if ok then Processed else Ignored)))"

text \<open>The row of a result: it exists and belongs to the gateway that acknowledges.\<close>

definition read_ack :: "uuid \<Rightarrow> synced_route \<Rightarrow> gateway_deployment option action" where
  "read_ack gateway_id r =
     (case uuid_parse (sr_deployment_id r) of
        None \<Rightarrow> retA None
      | Some i \<Rightarrow> bindA (get_deployment_by_id i) (\<lambda>row. case row of
          None \<Rightarrow> retA None
        | Some d \<Rightarrow> retA (if dep_gateway_instance_id d \<noteq> gateway_id then None else Some d)))"

definition decide_ack_now :: "datetime \<Rightarrow> gateway_deployment \<Rightarrow> synced_route \<Rightarrow> ack_decision action" where
  "decide_ack_now now d r =
     (case sr_steps r of
        None \<Rightarrow> liftA (decide_ack now d r None)
      | Some steps \<Rightarrow> bindA nowA (\<lambda>t1. bindA nowA (\<lambda>t2. liftA (decide_ack now d r (Some (merged_steps t1 t2 steps))))))"

definition ack_one :: "uuid \<Rightarrow> datetime \<Rightarrow> synced_route \<Rightarrow> ack_outcome action" where
  "ack_one gateway_id now r =
     bindA (read_ack gateway_id r) (\<lambda>row. case row of
       None \<Rightarrow> retA NotFound
     | Some d \<Rightarrow> bindA (decide_ack_now now d r) (write_ack d))"

section \<open>route\_sync\_ack\<close>

definition promotions_to_check :: "synced_route list \<Rightarrow> world \<Rightarrow> uuid list" where
  "promotions_to_check results w = remdups (List.map_filter (\<lambda>r. case uuid_parse (sr_deployment_id r) of
       None \<Rightarrow> None
     | Some i \<Rightarrow> (case find (\<lambda>d. dep_id d = i) (deployments w) of None \<Rightarrow> None | Some d \<Rightarrow> dep_promotion_id d)) results)"

definition count_of :: "ack_outcome \<Rightarrow> ack_outcome list \<Rightarrow> nat" where
  "count_of x xs = length (filter (\<lambda>y. y = x) xs)"

definition route_sync_ack :: "uuid \<Rightarrow> synced_route list \<Rightarrow> (nat \<times> nat) action" where
  "route_sync_ack gateway_id results =
     bindA nowA (\<lambda>now.
     bindA (forA results (ack_one gateway_id now)) (\<lambda>outcomes.
     bindA (getA (promotions_to_check results)) (\<lambda>ids.
     bindA (forA ids (\<lambda>i. catchA (check_promotion_completion i) (\<lambda>_. True) (\<lambda>_. retA ()))) (\<lambda>_.
     retA (count_of Processed outcomes, count_of NotFound outcomes)))))"

text \<open>An exception before the commit leaves through \<open>get_db\<close>.\<close>

definition route_sync_ack_endpoint :: "host \<Rightarrow> string \<Rightarrow> uuid \<Rightarrow> synced_route list \<Rightarrow> (nat \<times> nat) endpoint" where
  "route_sync_ack_endpoint hst x_gateway_key gateway_id results =
     guarded [validate_gateway_key hst x_gateway_key]
       (run_endpoint (route_sync_ack gateway_id results)
          (\<lambda>_. (False, HTTPException 500 (JStr ''Internal Server Error''))))"

end
