(* ===== verification/SyncEngine.thy ===== *)
theory SyncEngine
  imports RouteSync
begin

text \<open>
  The push side of deployment: \<open>workers/sync_engine.py\<close>. A pass of the engine selects the rows that need
  work (and gives up on those that were never acknowledged), reconciles each against its gateway through an
  adapter, and looks for drift of the synced ones.

  The engine commits between its steps and awaits the adapter in between, so other requests may change a
  row while the engine holds it. A reconciliation is therefore modelled as the steps between its commits,
  and a write of the engine is what the session makes of it: \<open>flush_row\<close> updates the attributes that differ
  from those that were loaded and leaves the other columns as the database has them now. The answers of the
  adapter and of the policy service are parameters of the steps; the events and the repair commits that drift
  detection sends are not modelled. The readings of the clock that only date the entries of a trace are
  taken together within one step.
\<close>

section \<open>Writing an object that was loaded before\<close>

definition changed :: "'a \<Rightarrow> 'a \<Rightarrow> 'a \<Rightarrow> 'a" where
  "changed loaded modified current = (if modified = loaded then current else modified)"

definition merge_row :: "gateway_deployment \<Rightarrow> gateway_deployment \<Rightarrow> gateway_deployment \<Rightarrow> gateway_deployment" where
  "merge_row l m d = d\<lparr>
     dep_actual_state := (if jeq (dep_actual_state l) (dep_actual_state m) then dep_actual_state d else dep_actual_state m),
     dep_actual_at := changed (dep_actual_at l) (dep_actual_at m) (dep_actual_at d),
     dep_synced_generation := changed (dep_synced_generation l) (dep_synced_generation m) (dep_synced_generation d),
     dep_attempted_generation := changed (dep_attempted_generation l) (dep_attempted_generation m) (dep_attempted_generation d),
     dep_sync_status := changed (dep_sync_status l) (dep_sync_status m) (dep_sync_status d),
     dep_last_sync_attempt := changed (dep_last_sync_attempt l) (dep_last_sync_attempt m) (dep_last_sync_attempt d),
     dep_last_sync_success := changed (dep_last_sync_success l) (dep_last_sync_success m) (dep_last_sync_success d),
     dep_sync_error := changed (dep_sync_error l) (dep_sync_error m) (dep_sync_error d),
     dep_sync_attempts := changed (dep_sync_attempts l) (dep_sync_attempts m) (dep_sync_attempts d),
     dep_sync_steps := (if jeq (dep_sync_steps l) (dep_sync_steps m) then dep_sync_steps d else dep_sync_steps m),
     dep_policy_sync_status := changed (dep_policy_sync_status l) (dep_policy_sync_status m) (dep_policy_sync_status d),
     dep_policy_sync_error := changed (dep_policy_sync_error l) (dep_policy_sync_error m) (dep_policy_sync_error d),
     dep_gateway_resource_id := changed (dep_gateway_resource_id l) (dep_gateway_resource_id m) (dep_gateway_resource_id d)\<rparr>"

text \<open>
  \<open>repo.update\<close> on an object: the merged row, which the object is refreshed to, or \<open>None\<close> when the row is
  gone (the flush or the refresh raises, and the session can write nothing more).
\<close>

definition flush_row :: "gateway_deployment \<Rightarrow> gateway_deployment \<Rightarrow> gateway_deployment option action" where
  "flush_row loaded modified = (\<lambda>w.
     (Inr (map_option (merge_row loaded modified) (find (\<lambda>d. dep_id d = dep_id loaded) (deployments w))),
      w\<lparr>deployments := map (\<lambda>d. if dep_id d = dep_id loaded then merge_row loaded modified d else d) (deployments w)\<rparr>))"

section \<open>Selecting the rows of a pass\<close>

definition ENGINE_STATUSES :: "sync_status list" where
  "ENGINE_STATUSES = [PENDING, SYNCING, DRIFTED, ERROR, DELETING]"

text \<open>\<open>timedelta(seconds=n)\<close> in microseconds.\<close>

definition seconds :: "int \<Rightarrow> int" where
  "seconds n = n * 1000000"

text \<open>A row that is being synchronised inline is left alone until it is stale.\<close>

definition not_in_progress :: "host \<Rightarrow> datetime \<Rightarrow> gateway_deployment \<Rightarrow> bool" where
  "not_in_progress hst now d =
     (dep_sync_status d \<noteq> SYNCING \<or>
      (case dep_last_sync_attempt d of
         None \<Rightarrow> False
       | Some t \<Rightarrow> dt_instant t < dt_instant now - seconds (SYNC_ENGINE_INTERVAL_SECONDS hst)))"

definition unacknowledged :: "host \<Rightarrow> datetime \<Rightarrow> gateway_deployment \<Rightarrow> bool" where
  "unacknowledged hst now d =
     (0 < SYNC_ENGINE_PENDING_TIMEOUT_SECONDS hst \<and> dep_sync_status d \<in> {PENDING, SYNCING} \<and>
      seconds (SYNC_ENGINE_PENDING_TIMEOUT_SECONDS hst) <
        dt_instant now - dt_instant (case dep_last_sync_attempt d of Some t \<Rightarrow> t | None \<Rightarrow> dep_desired_at d))"

definition given_up :: "host \<Rightarrow> gateway_deployment \<Rightarrow> gateway_deployment" where
  "given_up hst d = d\<lparr>dep_sync_status := ERROR,
     dep_sync_error := Some (''Gateway did not acknowledge deployment within '' @
       int_str (SYNC_ENGINE_PENDING_TIMEOUT_SECONDS hst) @ '' seconds; '' @
       ''force sync or redeploy after checking the target gateway.''),
     dep_sync_attempts := max (dep_sync_attempts d) (SYNC_ENGINE_RETRY_MAX hst)\<rparr>"

definition exhausted :: "host \<Rightarrow> gateway_deployment \<Rightarrow> bool" where
  "exhausted hst d = (dep_sync_status d = ERROR \<and> SYNC_ENGINE_RETRY_MAX hst \<le> dep_sync_attempts d)"

text \<open>The ids to reconcile; a row that is given up is written and left out.\<close>

definition triage :: "host \<Rightarrow> datetime \<Rightarrow> gateway_deployment \<Rightarrow> uuid list action" where
  "triage hst now d =
     (if unacknowledged hst now d then bindA (flush_row d (given_up hst d)) (\<lambda>_. retA [])
      else if exhausted hst d then retA []
      else retA [dep_id d])"

definition reconcile_all :: "host \<Rightarrow> uuid list action" where
  "reconcile_all hst =
     bindA (list_by_statuses ENGINE_STATUSES) (\<lambda>rows.
     if rows = [] then retA []
     else bindA nowA (\<lambda>t0.
       let due = filter (not_in_progress hst t0) rows
       in if due = [] then retA []
          else bindA nowA (\<lambda>now. bindA (forA due (triage hst now)) (\<lambda>ids. retA (concat ids)))))"

section \<open>Reconciling one row\<close>

text \<open>Before the adapter is called: nothing to do, or the row and its gateway.\<close>

datatype engine_start = EngineSkip | EngineConnect gateway_deployment gateway_instance

definition reconcile_begin :: "uuid \<Rightarrow> engine_start action" where
  "reconcile_begin i =
     bindA (get_deployment_by_id i) (\<lambda>row. case row of
       None \<Rightarrow> retA EngineSkip
     | Some d \<Rightarrow>
         bindA (get_gateway_by_id (dep_gateway_instance_id d)) (\<lambda>gateway. case gateway of
           None \<Rightarrow>
             bindA (flush_row d (d\<lparr>dep_sync_status := ERROR, dep_sync_error := Some ''Gateway instance not found''\<rparr>))
               (\<lambda>_. retA EngineSkip)
         | Some g \<Rightarrow>
             retA (if dep_desired_generation d \<le> dep_attempted_generation d \<and> dep_sync_status d \<noteq> ERROR then EngineSkip
                   else if gi_status g = OFFLINE then EngineSkip
                   else EngineConnect d g)))"

text \<open>An exception of the adapter before anything else was recorded, in the trace of the run.\<close>

definition failed_trace :: "datetime \<Rightarrow> string \<Rightarrow> trace \<Rightarrow> trace" where
  "failed_trace t e steps =
     (let steps1 = (if first_error steps \<noteq> None then steps
            else case filter (\<lambda>s. dget s ''status'' = JStr ''running'') steps of
              [] \<Rightarrow> step_fail t ''adapter_connected'' (Some (take 500 e)) (step_start t ''adapter_connected'' steps)
            | running \<Rightarrow> step_fail t (py_str (dget (last running) ''name'')) (Some (take 500 e)) steps);
          skip = (\<lambda>name s. if list_ex (\<lambda>x. dget x ''name'' = JStr name) s then s
            else step_skip t name (Some ''previous step failed'') s)
      in skip ''policies_applied'' (skip ''api_synced'' steps1))"

text \<open>The \<open>except Exception\<close> clause.\<close>

definition engine_failed :: "datetime \<Rightarrow> string \<Rightarrow> trace \<Rightarrow> gateway_deployment \<Rightarrow> gateway_deployment" where
  "engine_failed t e steps d =
     (let steps' = failed_trace t e steps
      in d\<lparr>dep_sync_status := ERROR, dep_sync_error := Some (case first_error steps' of Some m \<Rightarrow> m | None \<Rightarrow> take 500 e),
           dep_sync_steps := trace_to_list steps', dep_sync_attempts := dep_sync_attempts d + 1,
           dep_last_sync_attempt := Some t\<rparr>)"

definition reconcile_raised :: "gateway_deployment \<Rightarrow> string \<Rightarrow> trace \<Rightarrow> unit action" where
  "reconcile_raised d e steps =
     bindA nowA (\<lambda>t. bindA (flush_row d (engine_failed t e steps d)) (\<lambda>_. retA ()))"

text \<open>The adapter is connected; its steps so far.\<close>

definition connected_trace :: "datetime \<Rightarrow> trace" where
  "connected_trace t = step_complete t ''adapter_connected'' None (step_start t ''adapter_connected'' [])"

record adapter_result =
  ar_success :: bool
  ar_resource_id :: "string option"
  ar_data :: json
  ar_error :: "string option"

text \<open>\<open>_handle_sync\<close> before the adapter: the row is marked and the mark is committed.\<close>

definition SYNCABLE :: "sync_status list" where
  "SYNCABLE = [PENDING, DRIFTED, ERROR]"

definition handle_sync_begin :: "gateway_deployment \<Rightarrow> (datetime \<times> gateway_deployment option) action" where
  "handle_sync_begin d =
     bindA nowA (\<lambda>now.
     bindA (flush_row d (d\<lparr>dep_sync_status := SYNCING, dep_last_sync_attempt := Some now\<rparr>)) (\<lambda>row. retA (now, row)))"

text \<open>What the policy service and the adapter answered: a failure to list, or one answer per policy.\<close>

datatype policy_run = PoliciesUnlisted string | PoliciesRun "string option list"

definition policy_failures :: "string option list \<Rightarrow> string list" where
  "policy_failures answers = map (take 100) (List.map_filter (\<lambda>a. a) answers)"

definition apply_policies :: "datetime \<Rightarrow> policy_run \<Rightarrow> trace \<Rightarrow> gateway_deployment \<Rightarrow> trace \<times> gateway_deployment" where
  "apply_policies t run steps d =
     (let started = step_start t ''policies_applied'' steps
      in case run of
        PoliciesUnlisted e \<Rightarrow>
          (step_fail t ''policies_applied'' (Some (take 500 e)) started,
           d\<lparr>dep_policy_sync_status := Some POLICY_ERROR, dep_policy_sync_error := Some (take 500 e)\<rparr>)
      | PoliciesRun answers \<Rightarrow>
          let failures = policy_failures answers
          in if answers = [] then
               (step_complete t ''policies_applied'' (Some ''no policies bound'') started,
                d\<lparr>dep_policy_sync_status := None, dep_policy_sync_error := None\<rparr>)
             else if failures \<noteq> [] then
               (step_fail t ''policies_applied''
                  (Some (take 500 (nat_digits (length failures) @ '' failed: '' @ py_join ''; '' failures))) started,
                d\<lparr>dep_policy_sync_status := Some POLICY_PARTIAL,
                  dep_policy_sync_error := Some (take 500 (py_join ''; '' failures))\<rparr>)
             else
               (step_complete t ''policies_applied'' (Some (nat_digits (length answers) @ '' applied'')) started,
                d\<lparr>dep_policy_sync_status := Some POLICY_SYNCED, dep_policy_sync_error := None\<rparr>))"

definition none_text :: "string option \<Rightarrow> string" where
  "none_text v = (case v of None \<Rightarrow> ''None'' | Some s \<Rightarrow> s)"

text \<open>\<open>_handle_sync\<close> after the adapter, on the object \<open>d\<close> as it was refreshed when it was marked.\<close>

definition synced_object ::
    "datetime \<Rightarrow> datetime \<Rightarrow> adapter_result \<Rightarrow> policy_run \<Rightarrow> trace \<Rightarrow> gateway_deployment \<Rightarrow> gateway_deployment" where
  "synced_object now t res run steps d =
     (let started = step_start now ''api_synced'' steps;
          attempted = d\<lparr>dep_attempted_generation := dep_desired_generation d\<rparr>
      in if ar_success res then
           (let d1 = attempted\<lparr>dep_sync_status := SYNCED,
                  dep_actual_state := (if truthy (ar_data res) then ar_data res else dep_desired_state d),
                  dep_actual_at := Some now,
                  dep_gateway_resource_id := (if opt_truthy (ar_resource_id res) then ar_resource_id res
                    else dep_gateway_resource_id d),
                  dep_last_sync_success := Some now, dep_sync_error := None,
                  dep_synced_generation := dep_desired_generation d\<rparr>;
                (steps', d2) = apply_policies t run
                  (step_complete t ''api_synced'' (Some (''resource='' @ none_text (ar_resource_id res))) started) d1
            in d2\<lparr>dep_sync_steps := trace_to_list steps', dep_sync_error := first_error steps'\<rparr>)
         else
           (let steps' = step_skip t ''policies_applied'' (Some ''previous step failed'')
                  (step_fail t ''api_synced'' (Some (or_str (ar_error res) ''Sync failed'')) started)
            in attempted\<lparr>dep_sync_status := ERROR, dep_sync_error := first_error steps',
                 dep_sync_steps := trace_to_list steps', dep_sync_attempts := dep_sync_attempts d + 1\<rparr>))"

definition handle_sync_end ::
    "datetime \<Rightarrow> gateway_deployment \<Rightarrow> adapter_result \<Rightarrow> policy_run \<Rightarrow> trace \<Rightarrow> unit action" where
  "handle_sync_end now d res run steps =
     bindA nowA (\<lambda>t. bindA (flush_row d (synced_object now t res run steps d)) (\<lambda>_. retA ()))"

text \<open>\<open>_handle_delete\<close> after the adapter: the row is deleted whatever became of it.\<close>

definition delete_failed :: "datetime \<Rightarrow> string option \<Rightarrow> gateway_deployment \<Rightarrow> gateway_deployment" where
  "delete_failed t err d = d\<lparr>dep_sync_error := Some (or_str err ''Delete failed''),
     dep_sync_attempts := dep_sync_attempts d + 1, dep_last_sync_attempt := Some t\<rparr>"

definition handle_delete_end :: "gateway_deployment \<Rightarrow> adapter_result \<Rightarrow> unit action" where
  "handle_delete_end d res =
     (if ar_success res then delete_deployment (dep_id d)
      else bindA nowA (\<lambda>t. bindA (flush_row d (delete_failed t (ar_error res) d)) (\<lambda>_. retA ())))"

section \<open>Drift\<close>

definition api_key :: "jdict \<Rightarrow> json" where
  "api_key api = (if truthy (dget api ''id'') then dget api ''id''
     else if truthy (dget api ''apiId'') then dget api ''apiId'' else dget api ''resource_id'')"

definition gateway_api_map :: "jdict list \<Rightarrow> (string \<times> jdict) list" where
  "gateway_api_map apis = foldl (\<lambda>m api. if truthy (api_key api) then AList.update (py_str (api_key api)) api m else m) [] apis"

definition drifted :: "string \<Rightarrow> gateway_deployment \<Rightarrow> gateway_deployment" where
  "drifted message d = d\<lparr>dep_sync_status := DRIFTED, dep_sync_error := Some message\<rparr>"

text \<open>\<open>hash[:8]\<close> needs a string.\<close>

definition hash_prefix :: "json \<Rightarrow> error + string" where
  "hash_prefix v = (case v of JStr s \<Rightarrow> Inr (take 8 s) | _ \<Rightarrow> Inl (TypeError ''object is not subscriptable''))"

definition drift_of :: "datetime \<Rightarrow> jdict list \<Rightarrow> gateway_deployment \<Rightarrow> error + gateway_deployment option" where
  "drift_of now apis d =
     (if \<not> opt_truthy (dep_gateway_resource_id d) then Inr None
      else case map_of (gateway_api_map apis) (the (dep_gateway_resource_id d)) of
        None \<Rightarrow>
          if (case dep_last_sync_success d of None \<Rightarrow> False
              | Some t \<Rightarrow> dt_instant now - dt_instant t < seconds 60) then Inr None
          else Inr (Some (drifted ''API not found on gateway (external deletion)'' d))
      | Some gw_api \<Rightarrow>
          let gw_hash = dget_def gw_api ''spec_hash'' (JStr []);
              desired_hash = dget_def (if truthy (dep_desired_state d) then obj_of (dep_desired_state d) else [])
                ''spec_hash'' (JStr [])
          in if (truthy gw_hash \<or> truthy desired_hash) \<and> \<not> jeq gw_hash desired_hash then
               (case (hash_prefix desired_hash, hash_prefix gw_hash) of
                  (Inr a, Inr b) \<Rightarrow> Inr (Some (drifted (''Spec hash mismatch: desired='' @ a @ ''... actual='' @ b @ ''...'') d))
                | (Inl e, _) \<Rightarrow> Inl e
                | (_, Inl e) \<Rightarrow> Inl e)
             else Inr None)"

text \<open>The rows of one gateway, as they were listed before its adapter was asked.\<close>

fun detect_drift_rows :: "datetime \<Rightarrow> jdict list \<Rightarrow> gateway_deployment list \<Rightarrow> unit action" where
  "detect_drift_rows now apis [] = retA ()"
| "detect_drift_rows now apis (d # ds) =
     (case drift_of now apis d of
        Inl _ \<Rightarrow> retA ()
      | Inr None \<Rightarrow> detect_drift_rows now apis ds
      | Inr (Some d') \<Rightarrow> bindA (flush_row d d') (\<lambda>_. detect_drift_rows now apis ds))"

definition detect_drift_gateway :: "jdict list \<Rightarrow> gateway_deployment list \<Rightarrow> unit action" where
  "detect_drift_gateway apis ds = bindA nowA (\<lambda>now. detect_drift_rows now apis ds)"

text \<open>
  \<open>_detect_drift\<close>: the synced rows, grouped by gateway in the order of their first row; a gateway that is
  gone, offline or whose adapter raises (\<open>None\<close>) is passed over.
\<close>

fun group_by_gateway :: "gateway_deployment list \<Rightarrow> (uuid \<times> gateway_deployment list) list" where
  "group_by_gateway [] = []"
| "group_by_gateway (d # ds) =
     (let i = dep_gateway_instance_id d
      in (i, d # filter (\<lambda>x. dep_gateway_instance_id x = i) ds) #
         filter (\<lambda>(j, _). j \<noteq> i) (group_by_gateway ds))"

definition detect_drift :: "(uuid \<Rightarrow> jdict list option) \<Rightarrow> unit action" where
  "detect_drift list_apis =
     bindA (list_by_statuses [SYNCED]) (\<lambda>synced.
     bindA (forA (group_by_gateway synced) (\<lambda>(gw_id, deps).
       bindA (get_gateway_by_id gw_id) (\<lambda>gateway. case gateway of
         None \<Rightarrow> retA ()
       | Some g \<Rightarrow>
           if gi_status g = OFFLINE then retA ()
           else (case list_apis gw_id of None \<Rightarrow> retA () | Some apis \<Rightarrow> detect_drift_gateway apis deps)))) (\<lambda>_. retA ()))"

section \<open>A reconciliation that nothing interrupts\<close>

text \<open>What the gateway answers to one reconciliation.\<close>

datatype adapter_run =
    AgentManaged
  | ConnectRaised string
  | SyncRaised string
  | SyncAnswered adapter_result policy_run
  | DeleteRaised string
  | DeleteAnswered adapter_result

definition reconcile_run :: "gateway_deployment \<Rightarrow> adapter_run \<Rightarrow> unit action" where
  "reconcile_run d run = (case run of
     AgentManaged \<Rightarrow> retA ()
   | ConnectRaised e \<Rightarrow> bindA nowA (\<lambda>t. reconcile_raised d e (step_start t ''adapter_connected'' []))
   | _ \<Rightarrow> bindA nowA (\<lambda>t0.
       if dep_sync_status d = DELETING then
         (case run of
            DeleteRaised e \<Rightarrow> reconcile_raised d e (connected_trace t0)
          | DeleteAnswered res \<Rightarrow> handle_delete_end d res
          | _ \<Rightarrow> retA ())
       else if dep_sync_status d \<in> set SYNCABLE then
         bindA (handle_sync_begin d) (\<lambda>(now, row). case row of
           None \<Rightarrow> retA ()
         | Some d' \<Rightarrow>
             (case run of
                SyncRaised e \<Rightarrow> reconcile_raised d' e (step_start now ''api_synced'' (connected_trace t0))
              | SyncAnswered res policies \<Rightarrow> handle_sync_end now d' res policies (connected_trace t0)
              | _ \<Rightarrow> retA ()))
       else retA ()))"

definition reconcile_one :: "uuid \<Rightarrow> adapter_run \<Rightarrow> unit action" where
  "reconcile_one i run =
     bindA (reconcile_begin i) (\<lambda>s. case s of EngineSkip \<Rightarrow> retA () | EngineConnect d g \<Rightarrow> reconcile_run d run)"

end
