(* ===== verification/GatewayFacts.thy ===== *)
theory GatewayFacts
  imports SyncEngine RouterFacts
begin

text \<open>
  What the components that write deployment rows do to them: requests (of the lifecycle service and of the
  administration) only create fresh rows and advance old ones, acknowledgements and the engine only write
  what they know. A generation identifies its desired state along all of it.
\<close>

section \<open>Rows advance\<close>

text \<open>
  A request leaves the generation and then also the status and the desired state, or it moves to a
  later generation; what was synced and attempted stays.
\<close>

definition advanced :: "gateway_deployment \<Rightarrow> gateway_deployment \<Rightarrow> bool" where
  "advanced d d' \<longleftrightarrow> dep_id d' = dep_id d \<and> dep_api_catalog_id d' = dep_api_catalog_id d \<and>
     dep_gateway_instance_id d' = dep_gateway_instance_id d \<and>
     dep_synced_generation d' = dep_synced_generation d \<and> dep_attempted_generation d' = dep_attempted_generation d \<and>
     (dep_desired_generation d < dep_desired_generation d' \<or>
      dep_desired_generation d' = dep_desired_generation d \<and> dep_desired_state d' = dep_desired_state d \<and>
      dep_sync_status d' = dep_sync_status d)"

definition newborn :: "gateway_deployment \<Rightarrow> bool" where
  "newborn d \<longleftrightarrow> dep_desired_generation d \<ge> 1 \<and> dep_synced_generation d = 0 \<and> dep_attempted_generation d = 0"

abbreviation deployment_ids :: "world \<Rightarrow> uuid set" where
  "deployment_ids w \<equiv> dep_id ` set (deployments w)"

abbreviation distinct_ids :: "world \<Rightarrow> bool" where
  "distinct_ids w \<equiv> distinct (map dep_id (deployments w))"

definition rows_advance :: "world \<Rightarrow> world \<Rightarrow> bool" where
  "rows_advance w w' \<longleftrightarrow> deployment_ids w \<subseteq> deployment_ids w' \<and> (distinct_ids w \<longrightarrow> distinct_ids w') \<and>
     (\<forall>d' \<in> set (deployments w'). (\<exists>d \<in> set (deployments w). advanced d d') \<or> dep_id d' \<notin> deployment_ids w \<and> newborn d')"

lemma advanced_refl [simp]: "advanced d d"
  by (simp add: advanced_def)

lemma own_row: "d \<in> A \<Longrightarrow> \<exists>x \<in> A. advanced x d"
  using advanced_refl by blast

lemma advanced_trans: "advanced d e \<Longrightarrow> advanced e f \<Longrightarrow> advanced d f"
  by (auto simp: advanced_def)

lemma newborn_advanced: "newborn d \<Longrightarrow> advanced d d' \<Longrightarrow> newborn d'"
  by (auto simp: advanced_def newborn_def)

interpretation rows_advance: state_relation rows_advance
proof unfold_locales
  show "rows_advance w w" for w by (auto simp: rows_advance_def own_row)
  show "rows_advance u w" if a: "rows_advance u v" and b: "rows_advance v w" for u v w
    unfolding rows_advance_def
  proof (intro conjI ballI)
    show "deployment_ids u \<subseteq> deployment_ids w" using a b by (simp only: rows_advance_def) (elim conjE, rule subset_trans)
    show "distinct_ids u \<longrightarrow> distinct_ids w" using a b by (simp add: rows_advance_def)
    fix f assume f: "f \<in> set (deployments w)"
    with b consider (old) e where "e \<in> set (deployments v)" "advanced e f" | (new) "dep_id f \<notin> deployment_ids v" "newborn f"
      unfolding rows_advance_def by blast
    then show "(\<exists>d \<in> set (deployments u). advanced d f) \<or> dep_id f \<notin> deployment_ids u \<and> newborn f"
    proof cases
      case old
      with a consider d where "d \<in> set (deployments u)" "advanced d e" | "dep_id e \<notin> deployment_ids u" "newborn e"
        unfolding rows_advance_def by blast
      then show ?thesis
      proof cases
        case 1
        with old(2) show ?thesis using advanced_trans by blast
      next
        case 2
        moreover from old(2) have "dep_id f = dep_id e" by (simp add: advanced_def)
        ultimately show ?thesis using old(2) newborn_advanced by metis
      qed
    next
      case new
      from a have "deployment_ids u \<subseteq> deployment_ids v" by (simp add: rows_advance_def)
      with new show ?thesis by blast
    qed
  qed
qed

lemma same_rows_advance: "deployments w' = deployments w \<Longrightarrow> rows_advance w w'"
  using rows_advance.rel_refl [of w] by (simp add: rows_advance_def)

lemma replaced_advance:
  assumes "e \<in> set (deployments w)" and "advanced e d" and "deployments w' = replace_row dep_id d (deployments w)"
  shows "rows_advance w w'"
proof -
  have "deployment_ids w' = deployment_ids w" by (simp only: assms(3) replace_row_key_set)
  moreover have "\<exists>x \<in> set (deployments w). advanced x d'" if "d' \<in> set (deployments w')" for d'
  proof (cases "d' = d")
    case True
    with assms(1,2) show ?thesis by blast
  next
    case False
    with that have "d' \<in> set (deployments w)" by (auto simp: assms(3) replace_row_def split: if_splits)
    then show ?thesis by (rule own_row)
  qed
  moreover have "map dep_id (deployments w') = map dep_id (deployments w)"
    by (simp only: assms(3) replace_row_keys)
  ultimately show ?thesis by (simp add: rows_advance_def)
qed

lemma created_advance:
  assumes "fits dep_id deployment_clash d (deployments w)" and "newborn d" and "deployments w' = deployments w @ [d]"
  shows "rows_advance w w'"
  using assms by (auto simp: rows_advance_def fits_def own_row)

section \<open>The lifecycle service\<close>

lemma upsert_advances:
  assumes "upsert_gateway_deployment hst api g ds force pid w = (Inr (d, act), w')"
  shows "rows_advance w w'"
  using assms
proof (cases rule: upsert_okE)
  case (unchanged e)
  from get_gateway_deployment_Some [OF unchanged(2)] have e: "e \<in> set (deployments w)" by auto
  show ?thesis
  proof (cases "deployments w' = deployments w")
    case True
    then show ?thesis by (rule same_rows_advance)
  next
    case False
    with unchanged(7) have "deployments w' = replace_row dep_id d (deployments w)" by (simp split: if_splits)
    moreover have "advanced e d" by (simp add: unchanged(6) advanced_def relink_def)
    ultimately show ?thesis using replaced_advance [OF e] by blast
  qed
next
  case (updated e)
  from get_gateway_deployment_Some [OF updated(2)] have "e \<in> set (deployments w)" by auto
  moreover have "advanced e d" by (simp add: updated(5) advanced_def redeploy_row_def relink_def)
  moreover from updated have "deployments w' = replace_row dep_id d (deployments w)" by simp
  ultimately show ?thesis by (rule replaced_advance)
next
  case created
  then show ?thesis by (intro created_advance [of d]) (simp_all add: newborn_def new_deployment_row_def)
qed


lemma logged_advances: "logged_as actor act oc t i w w' \<Longrightarrow> rows_advance v w \<Longrightarrow> rows_advance v w'"
  using logged_as_fields(3) [of actor act oc t i w w'] by (simp add: rows_advance_def)

lemma create_advances: "create_draft hst c actor w = (Inr st, w') \<Longrightarrow> rows_advance w w'"
  by (erule create_draft_okE, erule logged_advances) (simp add: same_rows_advance)

lemma validate_advances: "validate_draft hst c actor w = (Inr out, w') \<Longrightarrow> rows_advance w w'"
  by (erule validate_draft_okE, erule logged_advances) (simp add: same_rows_advance)

lemma deploy_advances: "deploy_to_environment hst c actor w = (Inr out, w') \<Longrightarrow> rows_advance w w'"
  by (erule deploy_okE, erule logged_advances) (erule upsert_advances)

lemma complete_advances: "complete_promotion_for_publication api actor env gid did w = (Inr u, w') \<Longrightarrow> rows_advance w w'"
proof (erule complete_okE)
  fix p
  assume "logged_as actor ''api_lifecycle.promotion_completed'' ''success'' (cat_tenant_id api) (cat_api_id api)
    (w\<lparr>ticks := Suc (ticks w), promotions := replace_row pr_id (completed p did (clock w (ticks w))) (promotions w)\<rparr>) w'"
  then show "rows_advance w w'" by (rule logged_advances) (simp add: same_rows_advance)
qed (simp add: rows_advance.rel_refl)

lemma publish_advances: "publish_to_portal hst c actor w = (Inr out, w') \<Longrightarrow> rows_advance w w'"
proof (erule publish_okE)
  fix api env gi d w1
  assume "complete_promotion_for_publication api actor env (gi_id gi) (dep_id d) w = (Inr (), w1)"
    and log: "logged_as actor ''api_lifecycle.publish_idempotent'' ''success'' (cat_tenant_id api) (cat_api_id api) w1 w'"
  from this(1) have "rows_advance w w1" by (rule complete_advances)
  with log show "rows_advance w w'" by (rule logged_advances)
next
  fix api' env gi d w1
  assume log: "logged_as actor ''api_lifecycle.publish_requested'' ''success'' (cat_tenant_id api') (cat_api_id api')
        (w\<lparr>ticks := Suc (ticks w), catalogs := replace_row cat_id api' (catalogs w)\<rparr>) w1"
    and "complete_promotion_for_publication api' actor env (gi_id gi) (dep_id d) w1 = (Inr (), w')"
  from this(2) have "rows_advance w1 w'" by (rule complete_advances)
  moreover from log have "rows_advance w w1" by (rule logged_advances) (simp add: same_rows_advance)
  ultimately show "rows_advance w w'" by (metis rows_advance.rel_trans)
qed

lemma promote_advances: "promote_to_environment hst c actor w = (Inr out, w') \<Longrightarrow> rows_advance w w'"
proof (erule promote_okE, erule run_promotion_okE)
  fix api src tgt sg tg sd p pact w1 d dact w2 q w3 ds force pid a
  assume up: "upsert_promotion api actor src tgt sd tg (mc_force c) w = (Inr (p, pact), w1)"
    and dep: "upsert_gateway_deployment hst api tg ds force pid w1 = (Inr (d, dact), w2)"
    and st: "settle_promotion p d tg w2 = (Inr q, w3)"
    and log: "logged_as actor a ''success'' (cat_tenant_id api) (cat_api_id api)
             (w3\<lparr>promotions := replace_row pr_id q (promotions w3)\<rparr>) w'"
  have "rows_advance w w1" using up by (cases rule: upsert_promotion_okE) (simp_all add: same_rows_advance)
  moreover have "rows_advance w2 (w3\<lparr>promotions := replace_row pr_id q (promotions w3)\<rparr>)"
    using settle_okE(7) [OF st] by (auto intro: same_rows_advance)
  ultimately have "rows_advance w (w3\<lparr>promotions := replace_row pr_id q (promotions w3)\<rparr>)"
    using upsert_advances [OF dep] by (metis rows_advance.rel_trans)
  with log show "rows_advance w w'" by (rule logged_advances)
qed

lemma same_tables_advance: "same_tables w w' \<Longrightarrow> rows_advance w w'"
  by (simp add: same_rows_advance same_tables_def)

text \<open>An endpoint whose refusals leave the rows alone advances them when its action does.\<close>

lemma endpoint_advances:
  assumes ok: "\<And>x v. m w = (Inr x, v) \<Longrightarrow> rows_advance w v"
    and fails: "\<And>e v. m w = (Inl e, v) \<Longrightarrow> \<not> fst (h e) \<or> same_tables w v"
    and run: "guarded checks (run_endpoint m h) w = (r, w')"
  shows "rows_advance w w'"
proof (rule guarded_cases [of checks "run_endpoint m h" w])
  fix exc
  assume "guarded checks (run_endpoint m h) w = (Inl exc, w)"
  with run show ?thesis by (simp add: rows_advance.rel_refl)
next
  assume "guarded checks (run_endpoint m h) w = run_endpoint m h w"
  with run have run': "run_endpoint m h w = (r, w')" by simp
  show ?thesis
  proof (cases r)
    case (Inl exc)
    with fails run' run_endpoint_fails_same [of m w h exc w'] show ?thesis by (blast intro: same_tables_advance)
  next
    case (Inr x)
    with run' ok show ?thesis by (simp add: run_endpoint_ok)
  qed
qed

lemma ignored_advances:
  assumes "\<And>x v. m w = (Inr x, v) \<Longrightarrow> rows_advance w v" and "\<And>e v. m w = (Inl e, v) \<Longrightarrow> \<not> fst (h e) \<or> same_tables w v"
    and "ignore_result (guarded checks (run_endpoint m h) w) = (r, w')"
  shows "rows_advance w w'"
proof -
  obtain r0 v where run: "guarded checks (run_endpoint m h) w = (r0, v)"
    by (cases "guarded checks (run_endpoint m h) w")
  with assms(3) have "w' = v" by (simp add: ignore_result_def)
  with endpoint_advances [OF assms(1,2) run] show ?thesis by simp
qed

lemma serve_advances:
  assumes run: "serve hst user t req w = (r, w')"
  shows "rows_advance w w'"
proof (cases req)
  case (CreateDraft env q)
  show ?thesis
    by (rule ignored_advances [OF create_advances refused_same(1) run [unfolded CreateDraft serve.simps create_api_draft_def]])
next
  case (ValidateDraft a q)
  show ?thesis
    by (rule ignored_advances [OF validate_advances refused_same(2) run [unfolded ValidateDraft serve.simps validate_api_draft_def]])
next
  case (DeployApi a q)
  show ?thesis
    by (rule ignored_advances [OF deploy_advances refused_same(3) run [unfolded DeployApi serve.simps deploy_api_to_lifecycle_gateway_def]])
next
  case (PublishApi a q)
  show ?thesis
    by (rule ignored_advances [OF publish_advances refused_same(4) run [unfolded PublishApi serve.simps publish_api_to_lifecycle_portal_def]])
next
  case (PromoteApi a q)
  show ?thesis
    by (rule ignored_advances [OF promote_advances promote_refused_same run [unfolded PromoteApi serve.simps promote_api_through_lifecycle_def]])
qed

section \<open>Direct deployment\<close>

text \<open>What a query returned may be used to show that a run stays within a relation.\<close>

lemma within_query:
  assumes "R w w" and "\<And>x. q w = Inr x \<Longrightarrow> R w (snd (k x w))"
  shows "R w (snd (bindA (queryA q) k w))"
  using assms by (cases "q w") (simp_all add: bindA_def)

lemma within_lift:
  assumes "R w w" and "\<And>x. r = Inr x \<Longrightarrow> R w (snd (k x w))"
  shows "R w (snd (bindA (liftA r) k w))"
  using assms by (cases r) simp_all

lemma selected: "scalar_one_or_none (filter p t) = Inr (Some r) \<Longrightarrow> r \<in> set t \<and> p r"
  by (rule scalar_one_or_none_in)

lemma saved_advance: "e \<in> set (deployments w) \<Longrightarrow> advanced e d \<Longrightarrow> (\<And>x v. deployments (snd (k x v)) = deployments v) \<Longrightarrow>
    rows_advance w (snd (bindA (save_gateway_deployment d) k w))"
  by (simp add: save_deployment_bind rows_advance.rel_refl replaced_advance)

lemma ticks_advance [simp]:
  "rows_advance (w\<lparr>ticks := n\<rparr>) v = rows_advance w v" "rows_advance w (v\<lparr>ticks := n\<rparr>) = rows_advance w v"
  "rows_advance (w\<lparr>uuids_used := n\<rparr>) v = rows_advance w v" "rows_advance w (v\<lparr>uuids_used := n\<rparr>) = rows_advance w v"
  by (simp_all add: rows_advance_def)

lemma deploy_one_advances: "acts_within rows_advance (deploy_one hst api now i)"
  unfolding acts_within_def
proof
  fix w
  note q = within_query [where R = rows_advance, OF rows_advance.rel_refl]
  note l = within_lift [where R = rows_advance, OF rows_advance.rel_refl]
  show "rows_advance w (snd (deploy_one hst api now i w))"
    unfolding deploy_one_def get_gateway_by_id_def get_by_api_and_gateway_def
  proof (rule q, goal_cases)
    case (1 g)
    show ?case
    proof (cases g)
      case (Some gw)
      have "rows_advance w (snd ((case e of
            Some e' \<Rightarrow> if jeq (dep_desired_state e') (JObj ds) then retA (dep_id e')
              else bindA (save_gateway_deployment (redeploy_direct e' ds now)) (\<lambda>_. retA (dep_id e'))
          | None \<Rightarrow> bindA uuid4A (\<lambda>fresh. bindA (create_gateway_deployment
              (new_deployment_row fresh (cat_id api) i ds None now)) (\<lambda>_. retA fresh))) w))"
        if "scalar_one_or_none (filter p (deployments w)) = Inr e" for e ds p
      proof (cases e)
        case None
        then show ?thesis
          by (simp add: create_deployment_bind rows_advance.rel_refl created_advance newborn_def new_deployment_row_def)
      next
        case (Some e')
        with that have "e' \<in> set (deployments w)" by (auto dest: selected)
        with Some show ?thesis
          by (simp add: rows_advance.rel_refl saved_advance advanced_def redeploy_direct_def)
      qed
      note step = this
      show ?thesis
      proof (cases "gi_enabled gw")
        case True
        show ?thesis
          by (simp only: Some option.case True not_True_eq_False if_False Let_def) (rule l, rule q, rule step)
      qed (simp add: Some rows_advance.rel_refl)
    qed (simp add: rows_advance.rel_refl)
  qed
qed

lemma record_event_advances: "acts_within rows_advance (record_event_emitted hst emit i)"
  unfolding acts_within_def
proof
  fix w
  note q = within_query [where R = rows_advance, OF rows_advance.rel_refl]
  note l = within_lift [where R = rows_advance, OF rows_advance.rel_refl]
  show "rows_advance w (snd (record_event_emitted hst emit i w))"
    unfolding record_event_emitted_def get_deployment_by_id_def
  proof (rule q, goal_cases)
    case (1 d)
    show ?case
    proof (cases d)
      case (Some e)
      with 1 have e: "e \<in> set (deployments w)" by (auto dest: selected)
      have "rows_advance w (snd (bindA (save_gateway_deployment (e\<lparr>dep_sync_steps := j\<rparr>)) (\<lambda>_. retA ()) v))"
        if "deployments v = deployments w" for j v
      proof -
        have "rows_advance v (snd (bindA (save_gateway_deployment (e\<lparr>dep_sync_steps := j\<rparr>)) (\<lambda>_. retA ()) v))"
          using e that by (intro saved_advance [of e]) (simp_all add: advanced_def)
        with that show ?thesis by (simp add: rows_advance_def)
      qed
      note step = this
      show ?thesis
        by (simp only: Some option.case Let_def) (rule l, simp only: clock_bind, rule step, simp)
    qed (simp add: rows_advance.rel_refl)
  qed
qed

lemma emits_advance:
  "acts_within rows_advance (emit_sync_request i t)" "acts_within rows_advance (emit_sync_requests ids t)"
  "acts_within rows_advance (queue_sse_event d t)" "acts_within rows_advance (emit_sse_events ids t)"
  "acts_within rows_advance (get_deployment_by_id i)" "acts_within rows_advance (get_catalog_row i)" "acts_within rows_advance nowA"
proof -
  show 1: "acts_within rows_advance (emit_sync_request j t)" for j by (simp add: emit_sync_request_def acts_within_def same_rows_advance)
  show 2: "acts_within rows_advance (queue_sse_event e t)" for e by (simp add: queue_sse_event_def acts_within_def same_rows_advance)
  show 3: "acts_within rows_advance (get_deployment_by_id j)" for j
    by (simp add: get_deployment_by_id_def acts_within_def rows_advance.rel_refl)
  show "acts_within rows_advance (get_catalog_row i)" "acts_within rows_advance nowA"
    by (simp_all add: get_catalog_row_def acts_within_def rows_advance.rel_refl)
  show "acts_within rows_advance (emit_sync_requests ids t)" "acts_within rows_advance (emit_sse_events ids t)"
    unfolding emit_sync_requests_def emit_sse_events_def
    by (intro rows_advance.steps_rules rows_advance.steps_forA 1 2 3)+
qed

lemma deploy_api_advances: "acts_within rows_advance (deploy_api hst i ids emit)"
  unfolding deploy_api_def
  by (intro rows_advance.steps_rules rows_advance.steps_forA emits_advance deploy_one_advances record_event_advances)

section \<open>Undeployment, forced synchronisation and the endpoints\<close>

text \<open>Where rows come from; an undeployment may also delete one.\<close>

definition rows_from :: "world \<Rightarrow> world \<Rightarrow> bool" where
  "rows_from w w' \<longleftrightarrow> (distinct_ids w \<longrightarrow> distinct_ids w') \<and> (\<forall>d' \<in> set (deployments w').
     (\<exists>d \<in> set (deployments w). advanced d d') \<or> dep_id d' \<notin> deployment_ids w \<and> newborn d')"

lemma advance_from: "rows_advance w w' \<Longrightarrow> rows_from w w'"
  by (simp add: rows_advance_def rows_from_def)

lemma raise_managed_run: "\<exists>r. raise_if_lifecycle_managed_deployment d w = (r, w)"
  by (cases "scalar_one_or_none (filter (\<lambda>c. cat_id c = dep_api_catalog_id d) (catalogs w))")
    (auto simp: raise_if_lifecycle_managed_deployment_def get_catalog_row_def bindA_def)

lemma within_managed:
  assumes "R w w" and "R w (snd (k () w))"
  shows "R w (snd (bindA (raise_if_lifecycle_managed_deployment d) k w))"
  using assms raise_managed_run [of d w] by (auto simp: bindA_def split: sum.splits)

lemma saved_then:
  assumes "e \<in> set (deployments w)" and "advanced e d" and "\<And>x. acts_within rows_advance (k x)"
  shows "rows_advance w (snd (bindA (save_gateway_deployment d) k w))"
proof -
  have "rows_advance w (w\<lparr>deployments := replace_row dep_id d (deployments w)\<rparr>)"
    by (rule replaced_advance [OF assms(1,2)]) simp
  moreover have "rows_advance v (snd (k d v))" for v using assms(3) by (simp add: acts_within_def)
  ultimately show ?thesis
    by (simp add: save_deployment_bind rows_advance.rel_refl) (metis rows_advance.rel_trans)
qed

lemma force_sync_advances: "acts_within rows_advance (force_sync hst i)"
  unfolding acts_within_def
proof
  fix w
  show "rows_advance w (snd (force_sync hst i w))"
    unfolding force_sync_def get_deployment_by_id_def
  proof (rule within_query [where R = rows_advance], rule rows_advance.rel_refl, goal_cases)
    case (1 d)
    show ?case
    proof (cases d)
      case (Some e)
      with 1 have e: "e \<in> set (deployments w)" by (auto dest: selected)
      show ?thesis
        unfolding Some option.case
        by (rule within_managed [where R = rows_advance], rule rows_advance.rel_refl, rule saved_then [OF e])
          (simp add: advanced_def marked_pending_def, intro rows_advance.steps_rules emits_advance)
    qed (simp add: rows_advance.rel_refl)
  qed
qed

lemma undeploy_from: "acts_within rows_from (undeploy hst i)"
  unfolding acts_within_def
proof
  fix w
  have refl: "rows_from w w" by (rule advance_from [OF rows_advance.rel_refl])
  show "rows_from w (snd (undeploy hst i w))"
    unfolding undeploy_def get_deployment_by_id_def
  proof (rule within_query [where R = rows_from], rule refl, goal_cases)
    case (1 d)
    show ?case
    proof (cases d)
      case (Some e)
      with 1 have e: "e \<in> set (deployments w)" by (auto dest: selected)
      have "rows_advance w (snd (bindA (save_gateway_deployment (marked_deleting e)) (\<lambda>saved.
           bindA (whenA (is_sync_engine_enabled hst) (emit_sync_request (dep_id saved) (desired_tenant saved))) (\<lambda>_.
           whenA (is_sse_enabled hst) (emit_sse_events [dep_id saved] (desired_tenant saved)))) w))"
        by (rule saved_then [OF e]) (simp add: advanced_def marked_deleting_def, intro rows_advance.steps_rules emits_advance)
      moreover have "rows_from w (snd (delete_deployment j w))" for j
        by (auto simp: delete_deployment_def delete_row_def rows_from_def own_row distinct_map_filter)
      ultimately have "rows_from w (snd ((if opt_truthy (dep_gateway_resource_id e) \<or> is_sse_enabled hst then
           bindA (save_gateway_deployment (marked_deleting e)) (\<lambda>saved.
           bindA (whenA (is_sync_engine_enabled hst) (emit_sync_request (dep_id saved) (desired_tenant saved))) (\<lambda>_.
           whenA (is_sse_enabled hst) (emit_sse_events [dep_id saved] (desired_tenant saved))))
         else delete_deployment (dep_id e)) w))" using advance_from by simp
      then show ?thesis
        unfolding Some option.case by (rule within_managed [where R = rows_from, OF refl])
    qed (simp add: refl)
  qed
qed

lemma rollback_from: "rows_from w v \<Longrightarrow> rows_from w (rollback w v)"
  using advance_from [OF same_rows_advance [of "rollback w v" w]] by (simp add: rollback_def)

lemma guarded_from:
  assumes "rows_from w (snd (run w))" and "guarded checks run w = (r, w')"
  shows "rows_from w w'"
proof (rule guarded_cases [of checks run w])
  assume "guarded checks run w = run w"
  with assms show ?thesis by simp
next
  fix exc assume "guarded checks run w = (Inl exc, w)"
  with assms(2) show ?thesis using advance_from [OF rows_advance.rel_refl] by simp
qed

lemma endpoint_from:
  assumes "acts_within rows_from m" and "guarded checks (run_endpoint m h) w = (r, w')"
  shows "rows_from w w'"
  using run_endpoint_within [OF assms(1) rollback_from] assms(2) by (rule guarded_from)

lemma advances_from: "acts_within rows_advance m \<Longrightarrow> acts_within rows_from m"
  by (erule steps_mono) (rule advance_from)

lemma undeploy_endpoint_from: "undeploy_endpoint hst user i w = (r, w') \<Longrightarrow> rows_from w w'"
  unfolding undeploy_endpoint_def by (rule endpoint_from [OF undeploy_from])

lemma force_sync_endpoint_from: "force_sync_endpoint hst user i w = (r, w') \<Longrightarrow> rows_from w w'"
  unfolding force_sync_endpoint_def by (rule endpoint_from [OF advances_from [OF force_sync_advances]])

text \<open>The preflight only reads.\<close>

definition same_world :: "world \<Rightarrow> world \<Rightarrow> bool" where
  "same_world w w' \<longleftrightarrow> w' = w"

interpretation same_world: state_relation same_world
  by unfold_locales (auto simp: same_world_def)

lemma reads [simp]: "acts_within same_world (queryA q)"
  by (simp add: acts_within_def same_world_def)

lemma gateway_or_raise_reads: "acts_within same_world (get_gateway_or_raise i)"
  unfolding get_gateway_or_raise_def by (intro same_world.steps_rules reads)

lemma preflight_reads: "acts_within same_world (preflight_api_to_gateways hst i ids)"
  unfolding preflight_api_to_gateways_def preflight_gateway_ids_def preflight_gateway_def get_live_catalog_row_def
  by (intro same_world.steps_rules same_world.steps_forA reads gateway_or_raise_reads)

lemma deploy_endpoint_from:
  assumes "deploy_api_endpoint hst user i ids w = (r, w')"
  shows "rows_from w w'"
proof -
  have refl: "rows_from w w" by (rule advance_from [OF rows_advance.rel_refl])
  obtain p v where pre: "run_endpoint (preflight_api_to_gateways hst i ids) deployments_except w = (p, v)"
    by (cases "run_endpoint (preflight_api_to_gateways hst i ids) deployments_except w")
  obtain pr pv where "preflight_api_to_gateways hst i ids w = (pr, pv)" by (cases "preflight_api_to_gateways hst i ids w")
  with stepsD [OF preflight_reads this] have "preflight_api_to_gateways hst i ids w = (pr, w)" by (simp add: same_world_def)
  with pre have v: "deployments v = deployments w"
    by (auto simp: run_endpoint_def rollback_def split: sum.splits prod.splits if_splits)
  have run: "rows_from v (snd (run_endpoint (deploy_api hst i ids True) deploy_except v))"
    using run_endpoint_within [OF advances_from [OF deploy_api_advances] rollback_from] by blast
  show ?thesis
    by (rule guarded_from [OF _ assms [unfolded deploy_api_endpoint_def]])
      (use refl run v in \<open>auto simp: pre rows_from_def rollback_def Let_def split: sum.splits if_splits\<close>)
qed

end
