(* ===== verification/GatewayProtocol.thy ===== *)
theory GatewayProtocol
  imports GatewayFacts
begin

text \<open>
  The deployment protocol as a whole: requests of the lifecycle service and of the administration,
  promotions, agents that read routes and acknowledge them, and the engine, in any interleaving. The state is
  the database together with what is under way outside of it: the rows that some request or the engine
  has read and still holds, what gateways were offered, and what they have applied.

  The gateways are assumed to be honest in one respect only: they report a generation only if it was
  offered to them, and as applied only if they applied it. \<open>uuid4()\<close> does not return
  the id of a deployment that is known somewhere.
\<close>

section \<open>Promotions leave the deployments alone\<close>

definition same_deployments :: "world \<Rightarrow> world \<Rightarrow> bool" where
  "same_deployments w w' \<longleftrightarrow> deployments w' = deployments w"

interpretation same_deployments: state_relation same_deployments
  by unfold_locales (auto simp: same_deployments_def)

lemma same_deployments_basic:
  "acts_within same_deployments nowA" "acts_within same_deployments uuid4A" "acts_within same_deployments (queryA q)"
  "acts_within same_deployments (create_promotion p)" "acts_within same_deployments (save_promotion p)"
  "acts_within same_deployments (preflight_api_to_gateways hst i ids)" "acts_within same_deployments (get_gateway_or_raise i)"
  "acts_within same_deployments (emit_audit_event hst)" "acts_within same_deployments (get_deployment_by_id i)"
  "acts_within same_deployments (get_live_catalog_row i)"
proof -
  have reads: "acts_within same_world m \<Longrightarrow> acts_within same_deployments m" for m :: "'z action"
    by (erule steps_mono) (simp add: same_world_def same_deployments_def)
  show "acts_within same_deployments (preflight_api_to_gateways hst i ids)" by (rule reads [OF preflight_reads])
  show "acts_within same_deployments (get_gateway_or_raise i)" by (rule reads [OF gateway_or_raise_reads])
  show "acts_within same_deployments (create_promotion p)" "acts_within same_deployments (save_promotion p)"
    by (auto simp: acts_within_def same_deployments_def create_promotion_def save_promotion_def put_promotions_def bindA_def
        split: sum.splits)
qed (auto simp: acts_within_def same_deployments_def get_deployment_by_id_def get_live_catalog_row_def emit_audit_event_def)

lemma request_promotion_same: "acts_within same_deployments (request_promotion hst r)"
  unfolding request_promotion_def validate_gateway_aware_request_def validate_target_gateway_def get_active_for_target_def
  by (intro same_deployments.steps_rules same_deployments.steps_forA same_deployments_basic)

lemma approve_promotion_same: "acts_within same_deployments (approve_promotion t i a)"
  unfolding approve_promotion_def get_promotion_by_id_and_tenant_def
  by (intro same_deployments.steps_rules same_deployments_basic)

lemma complete_promotion_same: "acts_within same_deployments (complete_promotion i target diff)"
  unfolding complete_promotion_def get_promotion_by_id_def completion_target_def list_by_promotion_def
  by (intro same_deployments.steps_rules same_deployments_basic)

lemma fail_promotion_same: "acts_within same_deployments (fail_promotion i)"
  unfolding fail_promotion_def get_promotion_by_id_def by (intro same_deployments.steps_rules same_deployments_basic)

lemma check_completion_same: "acts_within same_deployments (check_promotion_completion i)"
  unfolding check_promotion_completion_def list_by_promotion_def
  by (intro same_deployments.steps_rules complete_promotion_same fail_promotion_same)

lemma rollback_promotion_same: "acts_within same_deployments (rollback_promotion hst t i m by_user)"
  unfolding rollback_promotion_def get_promotion_by_id_and_tenant_def
  by (intro same_deployments.steps_rules same_deployments_basic)

section \<open>Requests\<close>

inductive request_step :: "host \<Rightarrow> world \<Rightarrow> world \<Rightarrow> bool" for hst where
  lifecycle: "serve hst user t req w = (r1, w') \<Longrightarrow> request_step hst w w'"
| deploy: "deploy_api_endpoint hst user i ids w = (r2, w') \<Longrightarrow> request_step hst w w'"
| undeploy: "undeploy_endpoint hst user i w = (r3, w') \<Longrightarrow> request_step hst w w'"
| force_sync: "force_sync_endpoint hst user i w = (r4, w') \<Longrightarrow> request_step hst w w'"
| create_promotion: "create_promotion_endpoint hst user pd w = (r5, w') \<Longrightarrow> request_step hst w w'"
| approve_promotion: "approve_promotion_endpoint user t i w = (r6, w') \<Longrightarrow> request_step hst w w'"
| complete_promotion: "complete_promotion_endpoint user t i w = (r7, w') \<Longrightarrow> request_step hst w w'"
| rollback_promotion: "rollback_promotion_endpoint hst user t i m w = (r8, w') \<Longrightarrow> request_step hst w w'"
| check_promotion: "check_promotion_completion i w = (r9, w') \<Longrightarrow> request_step hst w w'"

lemma same_deployments_from: "acts_within same_deployments m \<Longrightarrow> acts_within rows_from m"
  by (erule steps_mono) (simp add: same_deployments_def advance_from same_rows_advance)

lemma request_from:
  assumes "request_step hst w w'"
  shows "rows_from w w'"
  using assms
proof cases
  case lifecycle
  then show ?thesis by (rule advance_from [OF serve_advances])
next
  case deploy
  then show ?thesis by (rule deploy_endpoint_from)
next
  case undeploy
  then show ?thesis by (rule undeploy_endpoint_from)
next
  case force_sync
  then show ?thesis by (rule force_sync_endpoint_from)
next
  case create_promotion
  then show ?thesis unfolding create_promotion_endpoint_def
    by (rule endpoint_from [OF same_deployments_from [OF request_promotion_same]])
next
  case approve_promotion
  then show ?thesis unfolding approve_promotion_endpoint_def
    by (rule endpoint_from [OF same_deployments_from [OF approve_promotion_same]])
next
  case complete_promotion
  then show ?thesis unfolding complete_promotion_endpoint_def
    by (rule endpoint_from [OF same_deployments_from [OF complete_promotion_same]])
next
  case rollback_promotion
  then show ?thesis unfolding rollback_promotion_endpoint_def
    by (rule endpoint_from [OF same_deployments_from [OF rollback_promotion_same]])
next
  case (check_promotion i)
  with stepsD [OF same_deployments_from [OF check_completion_same]] show ?thesis by blast
qed

section \<open>The system\<close>

text \<open>What a gateway is given: a route it pulls, or the desired state an adapter or a notification pushes.\<close>

datatype delivery = Pulled jdict | Pushed json

type_synonym delivered = "string \<times> int \<times> delivery"

record system =
  sys_world :: world
  sys_held :: "gateway_deployment list"
  sys_offered :: "delivered list"
  sys_applied :: "delivered list"

definition known_ids :: "system \<Rightarrow> string set" where
  "known_ids s = (\<lambda>d. uuid_str (dep_id d)) ` set (sys_held s) \<union> fst ` set (sys_offered s) \<union> fst ` set (sys_applied s)"

definition unused_ids :: "system \<Rightarrow> world \<Rightarrow> bool" where
  "unused_ids s w' \<longleftrightarrow> (\<forall>d \<in> set (deployments w'). dep_id d \<in> deployment_ids (sys_world s) \<or> uuid_str (dep_id d) \<notin> known_ids s)"

definition honest_report :: "system \<Rightarrow> gateway_deployment \<Rightarrow> synced_route \<Rightarrow> bool" where
  "honest_report s d r \<longleftrightarrow> (\<forall>g. sr_generation r = Some g \<longrightarrow>
     (\<exists>x. (uuid_str (dep_id d), g, x) \<in> set (sys_offered s)) \<and>
     (sr_status r = ''applied'' \<longrightarrow> (\<exists>x. (uuid_str (dep_id d), g, x) \<in> set (sys_applied s))))"

definition route_offer :: "gateway_route \<Rightarrow> delivered" where
  "route_offer r = (gr_deployment_id r, gr_generation r, Pulled (gr_route r))"

definition push_offer :: "gateway_deployment \<Rightarrow> delivered" where
  "push_offer d = (uuid_str (dep_id d), dep_desired_generation d, Pushed (dep_desired_state d))"

inductive protocol_step :: "host \<Rightarrow> system \<Rightarrow> system \<Rightarrow> bool" for hst where
  request: "request_step hst (sys_world s) w' \<Longrightarrow> unused_ids s w' \<Longrightarrow> protocol_step hst s (s\<lparr>sys_world := w'\<rparr>)"
| read_row: "d \<in> set (deployments (sys_world s)) \<Longrightarrow> protocol_step hst s (s\<lparr>sys_held := d # sys_held s\<rparr>)"
| offer_routes: "list_gateway_routes sr name (sys_world s) = (Inr routes, w') \<Longrightarrow>
    protocol_step hst s (s\<lparr>sys_offered := map route_offer routes @ sys_offered s\<rparr>)"
| notify: "d \<in> set (sys_held s) \<Longrightarrow> protocol_step hst s (s\<lparr>sys_offered := push_offer d # sys_offered s\<rparr>)"
| gateway_applies: "x \<in> set (sys_offered s) \<Longrightarrow> protocol_step hst s (s\<lparr>sys_applied := x # sys_applied s\<rparr>)"
| acknowledge: "d \<in> set (sys_held s) \<Longrightarrow> honest_report s d r \<Longrightarrow>
    bindA (decide_ack_now now d r) (write_ack d) (sys_world s) = (res, w') \<Longrightarrow>
    protocol_step hst s (s\<lparr>sys_world := w'\<rparr>)"
| engine_triage: "d \<in> set (sys_held s) \<Longrightarrow> triage hst now d (sys_world s) = (res2, w') \<Longrightarrow>
    protocol_step hst s (s\<lparr>sys_world := w'\<rparr>)"
| engine_begin: "reconcile_begin i (sys_world s) = (res3, w') \<Longrightarrow> protocol_step hst s (s\<lparr>sys_world := w'\<rparr>)"
| engine_mark: "d \<in> set (sys_held s) \<Longrightarrow> handle_sync_begin d (sys_world s) = (Inr (now, Some d'), w') \<Longrightarrow>
    protocol_step hst s (s\<lparr>sys_world := w', sys_held := d' # sys_held s\<rparr>)"
| engine_push: "d \<in> set (sys_held s) \<Longrightarrow> protocol_step hst s (s\<lparr>sys_applied := push_offer d # sys_applied s\<rparr>)"
| engine_end: "d \<in> set (sys_held s) \<Longrightarrow> ar_success ares \<longrightarrow> push_offer d \<in> set (sys_applied s) \<Longrightarrow>
    handle_sync_end now d ares run steps (sys_world s) = (res4, w') \<Longrightarrow> protocol_step hst s (s\<lparr>sys_world := w'\<rparr>)"
| engine_raised: "d \<in> set (sys_held s) \<Longrightarrow> reconcile_raised d e steps (sys_world s) = (res5, w') \<Longrightarrow>
    protocol_step hst s (s\<lparr>sys_world := w'\<rparr>)"
| engine_delete: "d \<in> set (sys_held s) \<Longrightarrow> handle_delete_end d ares (sys_world s) = (res6, w') \<Longrightarrow>
    protocol_step hst s (s\<lparr>sys_world := w'\<rparr>)"
| engine_drift: "set ds \<subseteq> set (sys_held s) \<Longrightarrow> detect_drift_gateway apis ds (sys_world s) = (res7, w') \<Longrightarrow>
    protocol_step hst s (s\<lparr>sys_world := w'\<rparr>)"

section \<open>The invariant\<close>

definition sane_row :: "gateway_deployment \<Rightarrow> bool" where
  "sane_row d \<longleftrightarrow> 1 \<le> dep_desired_generation d \<and> dep_synced_generation d \<le> dep_desired_generation d \<and>
     dep_attempted_generation d \<le> dep_desired_generation d"

text \<open>What is known of a row elsewhere is not newer than the row, and right when it is as new.\<close>

definition delivers :: "gateway_deployment \<Rightarrow> delivery \<Rightarrow> bool" where
  "delivers d x \<longleftrightarrow> x = Pushed (dep_desired_state d) \<or> (\<exists>r. route_of_deployment d = Some r \<and> x = Pulled (gr_route r))"

definition held_ok :: "gateway_deployment \<Rightarrow> gateway_deployment \<Rightarrow> bool" where
  "held_ok h d \<longleftrightarrow> (dep_id h = dep_id d \<longrightarrow> dep_desired_generation h \<le> dep_desired_generation d \<and>
     (dep_desired_generation h = dep_desired_generation d \<longrightarrow> dep_desired_state h = dep_desired_state d))"

definition delivered_ok :: "delivered \<Rightarrow> gateway_deployment \<Rightarrow> bool" where
  "delivered_ok p d \<longleftrightarrow> (fst p = uuid_str (dep_id d) \<longrightarrow> fst (snd p) \<le> dep_desired_generation d \<and>
     (fst (snd p) = dep_desired_generation d \<longrightarrow> delivers d (snd (snd p))))"

definition sync_justified :: "delivered list \<Rightarrow> gateway_deployment \<Rightarrow> bool" where
  "sync_justified applied d \<longleftrightarrow> (dep_synced_generation d = dep_desired_generation d \<longrightarrow>
     (\<exists>x. (uuid_str (dep_id d), dep_desired_generation d, x) \<in> set applied))"

definition protocol_ok :: "system \<Rightarrow> bool" where
  "protocol_ok s \<longleftrightarrow> distinct_ids (sys_world s) \<and> (\<forall>h \<in> set (sys_held s). sane_row h) \<and>
     (\<forall>d \<in> set (deployments (sys_world s)). sane_row d \<and> sync_justified (sys_applied s) d \<and>
        (\<forall>h \<in> set (sys_held s). held_ok h d) \<and> (\<forall>p \<in> set (sys_offered s) \<union> set (sys_applied s). delivered_ok p d))"

section \<open>Requests keep the invariant\<close>

lemma delivers_cong:
  assumes "dep_desired_state d' = dep_desired_state d"
  shows "delivers d' x = delivers d x"
proof -
  have "map_option gr_route (route_of_deployment d') = map_option gr_route (route_of_deployment d)"
    unfolding route_of_deployment_def assms Let_def by simp
  then have "(\<exists>r. route_of_deployment d' = Some r \<and> x = Pulled (gr_route r)) =
      (\<exists>r. route_of_deployment d = Some r \<and> x = Pulled (gr_route r))"
    by (cases "route_of_deployment d'"; cases "route_of_deployment d") auto
  with assms show ?thesis by (simp only: delivers_def)
qed

lemma delivered_ok_cong:
  assumes "dep_id d' = dep_id d" and "dep_desired_generation d' = dep_desired_generation d"
    and "dep_desired_state d' = dep_desired_state d"
  shows "delivered_ok p d' = delivered_ok p d"
  unfolding delivered_ok_def assms(1,2) delivers_cong [OF assms(3)] ..

lemma held_ok_advanced: "held_ok h d \<Longrightarrow> advanced d d' \<Longrightarrow> held_ok h d'"
  by (auto simp: held_ok_def advanced_def)

lemma delivered_ok_advanced: "delivered_ok p d \<Longrightarrow> advanced d d' \<Longrightarrow> delivered_ok p d'"
proof -
  assume p: "delivered_ok p d" and a: "advanced d d'"
  from a consider "dep_desired_generation d < dep_desired_generation d'" "dep_id d' = dep_id d"
    | "dep_desired_generation d' = dep_desired_generation d" "dep_desired_state d' = dep_desired_state d" "dep_id d' = dep_id d"
    by (auto simp: advanced_def)
  then show ?thesis
  proof cases
    case 1
    with p show ?thesis by (auto simp: delivered_ok_def)
  next
    case 2
    with p show ?thesis by (simp add: delivered_ok_cong [OF 2(3,1,2)])
  qed
qed

lemma sane_advanced: "sane_row d \<Longrightarrow> advanced d d' \<Longrightarrow> sane_row d'"
  by (auto simp: sane_row_def advanced_def)

lemma justified_advanced: "sane_row d \<Longrightarrow> sync_justified a d \<Longrightarrow> advanced d d' \<Longrightarrow> sync_justified a d'"
  by (auto simp: sane_row_def sync_justified_def advanced_def)

lemma newborn_ok: "newborn d \<Longrightarrow> sane_row d \<and> sync_justified a d"
  by (auto simp: newborn_def sane_row_def sync_justified_def)

lemma request_ok:
  assumes ok: "protocol_ok s" and from_rows: "rows_from (sys_world s) w'" and unused: "unused_ids s w'"
  shows "protocol_ok (s\<lparr>sys_world := w'\<rparr>)"
proof -
  have row: "sane_row d' \<and> sync_justified (sys_applied s) d' \<and> (\<forall>h \<in> set (sys_held s). held_ok h d') \<and>
      (\<forall>p \<in> set (sys_offered s) \<union> set (sys_applied s). delivered_ok p d')" if d': "d' \<in> set (deployments w')" for d'
  proof -
    from from_rows d' consider (old) d where "d \<in> set (deployments (sys_world s))" "advanced d d'"
      | (new) "dep_id d' \<notin> deployment_ids (sys_world s)" "newborn d'"
      unfolding rows_from_def by blast
    then show ?thesis
    proof cases
      case old
      with ok have "sane_row d" "sync_justified (sys_applied s) d" "\<forall>h \<in> set (sys_held s). held_ok h d"
        "\<forall>p \<in> set (sys_offered s) \<union> set (sys_applied s). delivered_ok p d" by (simp_all add: protocol_ok_def)
      with old(2) show ?thesis
        using sane_advanced justified_advanced held_ok_advanced delivered_ok_advanced by blast
    next
      case new
      with unused d' have "uuid_str (dep_id d') \<notin> known_ids s" by (auto simp: unused_ids_def)
      then have "\<And>h. h \<in> set (sys_held s) \<Longrightarrow> dep_id h \<noteq> dep_id d'"
        "\<And>p. p \<in> set (sys_offered s) \<union> set (sys_applied s) \<Longrightarrow> fst p \<noteq> uuid_str (dep_id d')"
        unfolding known_ids_def by (metis UnI1 image_eqI, metis UnCI UnE image_eqI)
      then have "\<forall>h \<in> set (sys_held s). held_ok h d'" "\<forall>p \<in> set (sys_offered s) \<union> set (sys_applied s). delivered_ok p d'"
        by (simp_all add: held_ok_def delivered_ok_def)
      with newborn_ok [OF new(2)] show ?thesis by blast
    qed
  qed
  with ok from_rows show ?thesis by (simp add: protocol_ok_def rows_from_def)
qed

section \<open>Acknowledgements and the engine\<close>

text \<open>They do not touch what is requested.\<close>

definition same_request :: "gateway_deployment \<Rightarrow> gateway_deployment \<Rightarrow> bool" where
  "same_request d d' \<longleftrightarrow> dep_id d' = dep_id d \<and> dep_desired_generation d' = dep_desired_generation d \<and>
     dep_desired_state d' = dep_desired_state d"

lemma written_ok:
  assumes ok: "protocol_ok s"
    and rows: "\<And>d'. d' \<in> set (deployments w') \<Longrightarrow> \<exists>d \<in> set (deployments (sys_world s)).
      same_request d d' \<and> sane_row d' \<and> sync_justified (sys_applied s) d'"
    and ids: "distinct_ids w'"
  shows "protocol_ok (s\<lparr>sys_world := w'\<rparr>)"
proof -
  have "sane_row d' \<and> sync_justified (sys_applied s) d' \<and> (\<forall>h \<in> set (sys_held s). held_ok h d') \<and>
      (\<forall>p \<in> set (sys_offered s) \<union> set (sys_applied s). delivered_ok p d')" if "d' \<in> set (deployments w')" for d'
  proof -
    from rows [OF that] obtain d where d: "d \<in> set (deployments (sys_world s))" "same_request d d'"
      and d': "sane_row d'" "sync_justified (sys_applied s) d'" by blast
    from ok d(1) have "\<forall>h \<in> set (sys_held s). held_ok h d" "\<forall>p \<in> set (sys_offered s) \<union> set (sys_applied s). delivered_ok p d"
      by (simp_all add: protocol_ok_def)
    moreover from d(2) have req: "dep_id d' = dep_id d" "dep_desired_generation d' = dep_desired_generation d"
      "dep_desired_state d' = dep_desired_state d" by (simp_all add: same_request_def)
    then have "held_ok h d' = held_ok h d" for h by (simp add: held_ok_def)
    ultimately show ?thesis using d' delivered_ok_cong [OF req] by simp
  qed
  with ok ids show ?thesis by (simp add: protocol_ok_def)
qed

lemma same_written_ok: "protocol_ok s \<Longrightarrow> deployments w' = deployments (sys_world s) \<Longrightarrow> protocol_ok (s\<lparr>sys_world := w'\<rparr>)"
  by (simp add: protocol_ok_def)

lemma merge_same [simp]:
  "dep_id (merge_row l m d) = dep_id d" "dep_desired_generation (merge_row l m d) = dep_desired_generation d"
  "dep_desired_state (merge_row l m d) = dep_desired_state d"
  "dep_synced_generation (merge_row l m d) = changed (dep_synced_generation l) (dep_synced_generation m) (dep_synced_generation d)"
  "dep_attempted_generation (merge_row l m d) =
     changed (dep_attempted_generation l) (dep_attempted_generation m) (dep_attempted_generation d)"
  "dep_sync_status (merge_row l m d) = changed (dep_sync_status l) (dep_sync_status m) (dep_sync_status d)"
  by (simp_all add: merge_row_def)

text \<open>
  What the engine may make of an object it holds: it leaves the generations, or sets them to the
  generation of the object, which it has pushed.
\<close>

definition engine_write :: "delivered list \<Rightarrow> gateway_deployment \<Rightarrow> gateway_deployment \<Rightarrow> bool" where
  "engine_write applied l m \<longleftrightarrow>
     dep_attempted_generation m \<in> {dep_attempted_generation l, dep_desired_generation l} \<and>
     (dep_synced_generation m = dep_synced_generation l \<or>
      dep_synced_generation m = dep_desired_generation l \<and> push_offer l \<in> set applied)"

lemma merged_row:
  assumes d: "sane_row d" "sync_justified a d" and l: "held_ok l d" "sane_row l" "dep_id d = dep_id l" and m: "engine_write a l m"
  shows "same_request d (merge_row l m d) \<and> sane_row (merge_row l m d) \<and> sync_justified a (merge_row l m d)"
proof -
  have le: "dep_desired_generation l \<le> dep_desired_generation d" using l(1,3) by (simp add: held_ok_def)
  have att: "dep_attempted_generation (merge_row l m d) \<le> dep_desired_generation d"
    using m d(1) le by (auto simp: engine_write_def changed_def sane_row_def)
  have "dep_synced_generation (merge_row l m d) = dep_synced_generation d \<or>
      dep_synced_generation (merge_row l m d) = dep_desired_generation l \<and> push_offer l \<in> set a"
    using m by (auto simp: engine_write_def changed_def)
  then consider "dep_synced_generation (merge_row l m d) = dep_synced_generation d"
    | "dep_synced_generation (merge_row l m d) = dep_desired_generation l" "push_offer l \<in> set a" by blast
  then have syn: "dep_synced_generation (merge_row l m d) \<le> dep_desired_generation d \<and> sync_justified a (merge_row l m d)"
  proof cases
    case 1
    with d show ?thesis by (simp add: sane_row_def sync_justified_def)
  next
    case 2
    with le l(3) show ?thesis by (auto simp: sync_justified_def push_offer_def)
  qed
  from att syn d(1) show ?thesis by (simp add: same_request_def sane_row_def)
qed

lemma flush_run: "flush_row l m w = (Inr (map_option (merge_row l m) (find (\<lambda>d. dep_id d = dep_id l) (deployments w))),
    w\<lparr>deployments := map (\<lambda>d. if dep_id d = dep_id l then merge_row l m d else d) (deployments w)\<rparr>)"
  by (simp add: flush_row_def)

lemma flushed_ok:
  assumes ok: "protocol_ok s" and l: "sane_row l" "\<And>d. d \<in> set (deployments (sys_world s)) \<Longrightarrow> held_ok l d"
    and m: "engine_write (sys_applied s) l m"
    and w': "deployments w' = map (\<lambda>d. if dep_id d = dep_id l then merge_row l m d else d) (deployments (sys_world s))"
  shows "protocol_ok (s\<lparr>sys_world := w'\<rparr>)"
proof (rule written_ok [OF ok])
  have "map dep_id (deployments w') = map dep_id (deployments (sys_world s))" by (simp add: w')
  with ok show "distinct_ids w'" by (simp add: protocol_ok_def)
  fix d' assume "d' \<in> set (deployments w')"
  then obtain d where d: "d \<in> set (deployments (sys_world s))" "d' = (if dep_id d = dep_id l then merge_row l m d else d)"
    by (auto simp: w')
  with ok have "sane_row d" "sync_justified (sys_applied s) d" by (simp_all add: protocol_ok_def)
  with d l m have "same_request d d' \<and> sane_row d' \<and> sync_justified (sys_applied s) d'"
    using merged_row [of d "sys_applied s" l m] by (simp add: same_request_def)
  with d(1) show "\<exists>d \<in> set (deployments (sys_world s)). same_request d d' \<and> sane_row d' \<and> sync_justified (sys_applied s) d'"
    by blast
qed

lemma held_flushed_ok:
  assumes "protocol_ok s" and "l \<in> set (sys_held s)" and "engine_write (sys_applied s) l m"
    and "deployments w' = map (\<lambda>d. if dep_id d = dep_id l then merge_row l m d else d) (deployments (sys_world s))"
  shows "protocol_ok (s\<lparr>sys_world := w'\<rparr>)"
  using assms(1,2) by (intro flushed_ok [OF assms(1) _ _ assms(3,4)]) (simp_all add: protocol_ok_def)

lemma applied_policies [simp]:
  "dep_attempted_generation (snd (apply_policies t run steps d)) = dep_attempted_generation d"
  "dep_synced_generation (snd (apply_policies t run steps d)) = dep_synced_generation d"
  "dep_sync_status (snd (apply_policies t run steps d)) = dep_sync_status d"
  by (auto simp: apply_policies_def Let_def split: policy_run.splits)

lemma engine_writes:
  "engine_write a d (given_up hst d)" "engine_write a d (d\<lparr>dep_sync_status := st, dep_sync_error := er\<rparr>)"
  "engine_write a d (d\<lparr>dep_sync_status := SYNCING, dep_last_sync_attempt := at\<rparr>)"
  "engine_write a d (engine_failed t e steps d)" "engine_write a d (delete_failed t e' d)"
  "engine_write a d (drifted msg d)"
  by (simp_all add: engine_write_def given_up_def engine_failed_def Let_def delete_failed_def drifted_def)

lemma synced_generations:
  "dep_attempted_generation (synced_object now t res run steps d) = dep_desired_generation d"
  "dep_synced_generation (synced_object now t res run steps d) =
     (if ar_success res then dep_desired_generation d else dep_synced_generation d)"
  "dep_sync_status (synced_object now t res run steps d) = (if ar_success res then SYNCED else ERROR)"
  by (cases "ar_success res"; simp add: synced_object_def Let_def case_prod_beta del: apply_policies_def)+

lemma engine_write_synced:
  "(ar_success res \<longrightarrow> push_offer d \<in> set a) \<Longrightarrow> engine_write a d (synced_object now t res run steps d)"
  by (simp add: engine_write_def synced_generations)

section \<open>Every step keeps the invariant\<close>

lemma row_of_id: "distinct_ids w \<Longrightarrow> d \<in> set (deployments w) \<Longrightarrow> e \<in> set (deployments w) \<Longrightarrow> dep_id d = dep_id e \<Longrightarrow> d = e"
  by (metis distinct_map inj_onD)

lemma read_ok:
  assumes ok: "protocol_ok s" and d: "d \<in> set (deployments (sys_world s))"
  shows "protocol_ok (s\<lparr>sys_held := d # sys_held s\<rparr>)"
proof -
  have "held_ok d e" if "e \<in> set (deployments (sys_world s))" for e
    using ok d that row_of_id [of "sys_world s" d e] by (auto simp: protocol_ok_def held_ok_def)
  with ok d show ?thesis by (simp add: protocol_ok_def)
qed

lemma applied_ok:
  assumes ok: "protocol_ok s" and x: "\<And>d. d \<in> set (deployments (sys_world s)) \<Longrightarrow> delivered_ok x d"
  shows "protocol_ok (s\<lparr>sys_applied := x # sys_applied s\<rparr>)"
proof -
  have "sync_justified (x # a) d" if "sync_justified a d" for a d
    using that by (auto simp: sync_justified_def)
  with ok x show ?thesis by (simp add: protocol_ok_def)
qed

lemma push_ok: "held_ok h d \<Longrightarrow> delivered_ok (push_offer h) d"
  by (auto simp: held_ok_def delivered_ok_def push_offer_def delivers_def)

lemma notify_ok: "protocol_ok s \<Longrightarrow> d \<in> set (sys_held s) \<Longrightarrow> protocol_ok (s\<lparr>sys_offered := push_offer d # sys_offered s\<rparr>)"
  by (simp add: protocol_ok_def push_ok)

lemma route_ok:
  assumes ok: "protocol_ok s" and e: "e \<in> set (deployments (sys_world s))" "route_of_deployment e = Some r"
    and d: "d \<in> set (deployments (sys_world s))"
  shows "delivered_ok (route_offer r) d"
proof (cases "dep_id e = dep_id d")
  case True
  with ok e d have "e = d" by (intro row_of_id [of "sys_world s"]) (simp_all add: protocol_ok_def)
  moreover from ok d have "1 \<le> dep_desired_generation d" by (simp add: protocol_ok_def sane_row_def)
  ultimately have "gr_generation r = dep_desired_generation d" "delivers d (Pulled (gr_route r))"
    using e(2) unfolding delivers_def by (auto simp: route_of_deployment_def Let_def split: if_splits)
  then show ?thesis by (simp add: delivered_ok_def route_offer_def)
next
  case False
  with e(2) have "gr_deployment_id r = uuid_str (dep_id e)"
    by (auto simp: route_of_deployment_def Let_def split: if_splits)
  with False show ?thesis by (simp add: delivered_ok_def route_offer_def)
qed

lemma routes_of_rows:
  assumes "list_gateway_routes sr name w = (Inr routes, w')"
  shows "\<forall>r \<in> set routes. \<exists>d \<in> set (deployments w). route_of_deployment d = Some r"
proof -
  let ?rows = "if opt_truthy name then
      bindA (get_gateway_by_name (the name)) (\<lambda>named.
      bindA (case named of Some g \<Rightarrow> retA (Some g) | None \<Rightarrow> getA (\<lambda>w. sr (the name) (gateways w))) (\<lambda>gateway. case gateway of
        Some g \<Rightarrow> list_by_statuses_and_gateway [SYNCED, PENDING] (gi_id g) | None \<Rightarrow> retA []))
    else list_by_statuses [SYNCED, PENDING]"
  from assms obtain ds v where rows: "?rows w = (Inr ds, v)" and routes: "routes = List.map_filter route_of_deployment ds"
    unfolding list_gateway_routes_def by (erule_tac bindA_okE) auto
  from rows have "set ds \<subseteq> set (deployments w)"
    by (auto simp: list_by_statuses_def list_by_statuses_and_gateway_def get_gateway_by_name_def
        bind_ok queryA_def getA_def split: if_splits option.splits sum.splits)
  with routes have "routes = List.map_filter route_of_deployment ds" "set ds \<subseteq> set (deployments w)" by simp_all
  then show ?thesis by (auto simp: List.map_filter_def)
qed

lemma offered_ok:
  assumes ok: "protocol_ok s" and routes: "list_gateway_routes sr name (sys_world s) = (Inr routes, w')"
  shows "protocol_ok (s\<lparr>sys_offered := map route_offer routes @ sys_offered s\<rparr>)"
proof -
  have "delivered_ok (route_offer r) d" if "r \<in> set routes" "d \<in> set (deployments (sys_world s))" for r d
    using routes_of_rows [OF routes] that route_ok [OF ok] by blast
  with ok show ?thesis by (auto simp: protocol_ok_def)
qed

subsection \<open>Acknowledgements\<close>

text \<open>What a decision may write to the row it was taken on.\<close>

lemma decided_values:
  assumes "decide_ack now d r merged = Inr (AckUpdate v)"
  shows "(\<forall>g. av_synced_generation v = Some g \<longrightarrow>
       sr_status r = ''applied'' \<and> sr_generation r = Some g \<and> dep_desired_generation d \<le> g) \<and>
     (\<forall>g. av_attempted_generation v = Some g \<longrightarrow>
       (\<exists>k. sr_generation r = Some k \<and> (g = k \<or> g = max (dep_attempted_generation d) k)))"
  using assms by (auto simp: decide_ack_def effective_result_def no_values_def Let_def split: if_splits sum.splits)

lemma decided_update:
  assumes dec: "decide_ack_now now d r w = (Inr (AckUpdate v), w')"
  shows "\<exists>merged. decide_ack now d r merged = Inr (AckUpdate v)"
  using dec by (auto simp: decide_ack_now_def bind_ok liftA_def raiseA_def retA_def split: option.splits sum.splits)

lemma decide_keeps: "decide_ack_now now d r w = (res, w') \<Longrightarrow> deployments w' = deployments w"
  by (auto simp: decide_ack_now_def liftA_def raiseA_def retA_def split: option.splits sum.splits)

lemma updated_row:
  assumes ok: "protocol_ok s" and h: "h \<in> set (sys_held s)" and honest: "honest_report s h r"
    and dec: "decide_ack now h r merged = Inr (AckUpdate v)"
    and d: "d \<in> set (deployments (sys_world s))" and same: "still_as_read h d"
  shows "same_request d (apply_values v d) \<and> sane_row (apply_values v d) \<and> sync_justified (sys_applied s) (apply_values v d)"
proof -
  from same have id: "dep_id d = dep_id h" "dep_desired_generation d = dep_desired_generation h" by (simp_all add: still_as_read_def)
  from ok h d have sane: "sane_row h" "sane_row d" "sync_justified (sys_applied s) d" by (simp_all add: protocol_ok_def)
  have le: "g \<le> dep_desired_generation d" if "sr_generation r = Some g" for g
  proof -
    from honest that obtain x where "(uuid_str (dep_id d), g, x) \<in> set (sys_offered s)"
      by (auto simp: honest_report_def id)
    with ok d have "delivered_ok (uuid_str (dep_id d), g, x) d" by (simp add: protocol_ok_def)
    then show ?thesis by (simp add: delivered_ok_def)
  qed
  have syn: "g = dep_desired_generation d \<and> (\<exists>x. (uuid_str (dep_id d), g, x) \<in> set (sys_applied s))"
    if "av_synced_generation v = Some g" for g
  proof -
    from decided_values [OF dec] that have g: "sr_status r = ''applied''" "sr_generation r = Some g" "dep_desired_generation d \<le> g"
      by (simp_all add: id)
    with honest have "\<exists>x. (uuid_str (dep_id d), g, x) \<in> set (sys_applied s)" by (simp add: honest_report_def id)
    with le [OF g(2)] g(3) show ?thesis by simp
  qed
  have att: "g \<le> dep_desired_generation d" if "av_attempted_generation v = Some g" for g
    using decided_values [OF dec] that le sane(1) by (fastforce simp: sane_row_def id)
  show ?thesis
    using sane(2,3) syn att
    by (cases "av_synced_generation v"; cases "av_attempted_generation v")
      (auto simp: apply_values_def same_request_def sane_row_def sync_justified_def or_old_def)
qed

lemma distinct_filtered: "distinct_ids w \<Longrightarrow> deployments w' = filter p (deployments w) \<Longrightarrow> distinct_ids w'"
  by (simp add: distinct_map_filter)

lemma kept_rows_ok:
  assumes ok: "protocol_ok s" and w': "deployments w' = filter p (deployments (sys_world s))"
  shows "protocol_ok (s\<lparr>sys_world := w'\<rparr>)"
  using ok distinct_filtered [of "sys_world s" w' p] by (auto simp: protocol_ok_def w')

lemma acknowledge_ok:
  assumes ok: "protocol_ok s" and h: "h \<in> set (sys_held s)" and honest: "honest_report s h r"
    and run: "bindA (decide_ack_now now h r) (write_ack h) (sys_world s) = (res, w')"
  shows "protocol_ok (s\<lparr>sys_world := w'\<rparr>)"
proof -
  obtain dec w1 where dec: "decide_ack_now now h r (sys_world s) = (dec, w1)" by fastforce
  then have same: "deployments w1 = deployments (sys_world s)" by (rule decide_keeps)
  show ?thesis
  proof (cases dec)
    case (Inl e)
    with dec run have "w' = w1" by (simp add: bindA_def)
    with same ok show ?thesis by (simp add: same_written_ok)
  next
    case (Inr a)
    with dec run have wr: "write_ack h a w1 = (res, w')" by (simp add: bindA_def)
    show ?thesis
    proof (cases a)
      case AckSkip
      with wr same ok show ?thesis by (simp add: write_ack_def same_written_ok)
    next
      case AckRemove
      with wr same ok show ?thesis
        by (auto simp: write_ack_def acknowledge_def bindA_def intro: kept_rows_ok)
    next
      case (AckUpdate v)
      with Inr dec obtain merged where upd: "decide_ack now h r merged = Inr (AckUpdate v)"
        using decided_update by blast
      from AckUpdate wr same have w': "deployments w' =
          map (\<lambda>d. if still_as_read h d then apply_values v d else d) (deployments (sys_world s))"
        by (auto simp: write_ack_def acknowledge_def bindA_def)
      show ?thesis
      proof (rule written_ok [OF ok])
        have "map dep_id (deployments w') = map dep_id (deployments (sys_world s))" by (simp add: w' apply_values_def)
        with ok show "distinct_ids w'" by (simp add: protocol_ok_def)
        fix d' assume "d' \<in> set (deployments w')"
        then obtain d where d: "d \<in> set (deployments (sys_world s))" "d' = (if still_as_read h d then apply_values v d else d)"
          by (auto simp: w')
        with ok have "sane_row d" "sync_justified (sys_applied s) d" by (simp_all add: protocol_ok_def)
        with d updated_row [OF ok h honest upd d(1)]
        have "same_request d d' \<and> sane_row d' \<and> sync_justified (sys_applied s) d'" by (simp add: same_request_def)
        with d(1) show "\<exists>d \<in> set (deployments (sys_world s)). same_request d d' \<and> sane_row d' \<and> sync_justified (sys_applied s) d'"
          by blast
      qed
    qed
  qed
qed

subsection \<open>The engine\<close>

lemma flush_bind: "bindA (flush_row l m) k w = k (map_option (merge_row l m) (find (\<lambda>d. dep_id d = dep_id l) (deployments w)))
    (w\<lparr>deployments := map (\<lambda>d. if dep_id d = dep_id l then merge_row l m d else d) (deployments w)\<rparr>)"
  by (rule bindA_run [OF flush_run])

lemma triage_ok:
  assumes "protocol_ok s" and "d \<in> set (sys_held s)" and "triage hst now d (sys_world s) = (res, w')"
  shows "protocol_ok (s\<lparr>sys_world := w'\<rparr>)"
proof (cases "unacknowledged hst now d")
  case True
  with assms(3) have "deployments w' =
      map (\<lambda>x. if dep_id x = dep_id d then merge_row d (given_up hst d) x else x) (deployments (sys_world s))"
    by (auto simp: triage_def flush_bind)
  then show ?thesis by (rule held_flushed_ok [OF assms(1,2) engine_writes(1)])
next
  case False
  with assms(3) have "w' = sys_world s" by (auto simp: triage_def split: if_splits)
  with assms(1) show ?thesis by simp
qed

lemma begin_cases:
  assumes "reconcile_begin i w = (res, w')"
  shows "w' = w \<or> (\<exists>d e. d \<in> set (deployments w) \<and>
     deployments w' = map (\<lambda>x. if dep_id x = dep_id d then merge_row d (d\<lparr>dep_sync_status := ERROR, dep_sync_error := e\<rparr>) x else x)
       (deployments w))"
proof (cases "scalar_one_or_none (filter (\<lambda>x. dep_id x = i) (deployments w))")
  case (Inl e)
  with assms show ?thesis by (simp add: reconcile_begin_def get_deployment_by_id_def query_bind)
next
  case (Inr row)
  show ?thesis
  proof (cases row)
    case None
    with Inr assms show ?thesis by (simp add: reconcile_begin_def get_deployment_by_id_def query_bind)
  next
    case (Some d)
    with Inr have d: "d \<in> set (deployments w)" by (auto dest: selected)
    show ?thesis
    proof (cases "scalar_one_or_none (filter (\<lambda>g. gi_id g = dep_gateway_instance_id d \<and> gi_deleted_at g = None) (gateways w))")
      case (Inl e)
      with Inr Some assms show ?thesis
        by (simp add: reconcile_begin_def get_deployment_by_id_def get_gateway_by_id_def query_bind)
    next
      case g: (Inr g)
      show ?thesis
      proof (cases g)
        case None
        with g Inr Some assms have "deployments w' = map (\<lambda>x. if dep_id x = dep_id d
             then merge_row d (d\<lparr>dep_sync_status := ERROR, dep_sync_error := Some ''Gateway instance not found''\<rparr>) x else x)
             (deployments w)"
          by (auto simp: reconcile_begin_def get_deployment_by_id_def get_gateway_by_id_def query_bind flush_bind)
        with d show ?thesis by blast
      next
        case (Some g')
        with g Inr \<open>row = Some d\<close> assms have "w' = w"
          by (simp add: reconcile_begin_def get_deployment_by_id_def get_gateway_by_id_def query_bind)
        then show ?thesis ..
      qed
    qed
  qed
qed

lemma begin_ok:
  assumes ok: "protocol_ok s" and run: "reconcile_begin i (sys_world s) = (res, w')"
  shows "protocol_ok (s\<lparr>sys_world := w'\<rparr>)"
  using begin_cases [OF run]
proof (elim disjE exE conjE)
  assume "w' = sys_world s"
  with ok show ?thesis by simp
next
  fix d e
  assume d: "d \<in> set (deployments (sys_world s))"
    and w': "deployments w' = map (\<lambda>x. if dep_id x = dep_id d
        then merge_row d (d\<lparr>dep_sync_status := ERROR, dep_sync_error := e\<rparr>) x else x) (deployments (sys_world s))"
  from read_ok [OF ok d] d have "held_ok d x" if "x \<in> set (deployments (sys_world s))" for x
    using that by (simp add: protocol_ok_def)
  moreover from ok d have "sane_row d" by (simp add: protocol_ok_def)
  ultimately show ?thesis by (intro flushed_ok [OF ok _ _ engine_writes(2) w'])
qed

lemma mark_ok:
  assumes ok: "protocol_ok s" and d: "d \<in> set (sys_held s)"
    and run: "handle_sync_begin d (sys_world s) = (Inr (now, Some d'), w')"
  shows "protocol_ok (s\<lparr>sys_world := w', sys_held := d' # sys_held s\<rparr>)"
proof -
  let ?m = "d\<lparr>dep_sync_status := SYNCING, dep_last_sync_attempt := Some now\<rparr>"
  from run have now: "now = clock (sys_world s) (ticks (sys_world s))"
    and found: "map_option (merge_row d ?m) (find (\<lambda>x. dep_id x = dep_id d) (deployments (sys_world s))) = Some d'"
    and w': "deployments w' = map (\<lambda>x. if dep_id x = dep_id d then merge_row d ?m x else x) (deployments (sys_world s))"
    by (auto simp: handle_sync_begin_def flush_bind)
  have ok': "protocol_ok (s\<lparr>sys_world := w'\<rparr>)" by (rule held_flushed_ok [OF ok d engine_writes(3) w'])
  from found obtain x where x: "find (\<lambda>x. dep_id x = dep_id d) (deployments (sys_world s)) = Some x" "d' = merge_row d ?m x"
    by auto
  then have "x \<in> set (deployments (sys_world s))" "dep_id x = dep_id d" by (auto simp: find_Some_iff)
  with x(2) have "x \<in> set (deployments (sys_world s))" "dep_id x = dep_id d" "d' = merge_row d ?m x" by simp_all
  then have "d' \<in> set (deployments w')" by (force simp: w')
  with read_ok [OF ok'] show ?thesis by simp
qed

lemma finish_ok:
  assumes "protocol_ok s" and "d \<in> set (sys_held s)" and "ar_success ares \<longrightarrow> push_offer d \<in> set (sys_applied s)"
    and "handle_sync_end now d ares run steps (sys_world s) = (res, w')"
  shows "protocol_ok (s\<lparr>sys_world := w'\<rparr>)"
proof -
  let ?t = "clock (sys_world s) (ticks (sys_world s))"
  from assms(4) have "deployments w' = map (\<lambda>x. if dep_id x = dep_id d
      then merge_row d (synced_object now ?t ares run steps d) x else x) (deployments (sys_world s))"
    by (auto simp: handle_sync_end_def flush_bind)
  then show ?thesis by (rule held_flushed_ok [OF assms(1,2) engine_write_synced [OF assms(3)]])
qed

lemma raised_ok:
  assumes "protocol_ok s" and "d \<in> set (sys_held s)" and "reconcile_raised d e steps (sys_world s) = (res, w')"
  shows "protocol_ok (s\<lparr>sys_world := w'\<rparr>)"
proof -
  let ?t = "clock (sys_world s) (ticks (sys_world s))"
  from assms(3) have "deployments w' = map (\<lambda>x. if dep_id x = dep_id d
      then merge_row d (engine_failed ?t e steps d) x else x) (deployments (sys_world s))"
    by (auto simp: reconcile_raised_def flush_bind)
  then show ?thesis by (rule held_flushed_ok [OF assms(1,2) engine_writes(4)])
qed

lemma deleted_ok:
  assumes "protocol_ok s" and "d \<in> set (sys_held s)" and "handle_delete_end d ares (sys_world s) = (res, w')"
  shows "protocol_ok (s\<lparr>sys_world := w'\<rparr>)"
proof (cases "ar_success ares")
  case True
  with assms(3) have "deployments w' = filter (\<lambda>x. dep_id x \<noteq> dep_id d) (deployments (sys_world s))"
    by (auto simp: handle_delete_end_def delete_deployment_def delete_row_def)
  then show ?thesis by (rule kept_rows_ok [OF assms(1)])
next
  case False
  let ?t = "clock (sys_world s) (ticks (sys_world s))"
  from False assms(3) have "deployments w' = map (\<lambda>x. if dep_id x = dep_id d
      then merge_row d (delete_failed ?t (ar_error ares) d) x else x) (deployments (sys_world s))"
    by (auto simp: handle_delete_end_def flush_bind)
  then show ?thesis by (rule held_flushed_ok [OF assms(1,2) engine_writes(5)])
qed

lemma drift_is_write: "drift_of now apis d = Inr (Some d') \<Longrightarrow> \<exists>msg. d' = drifted msg d"
  by (auto simp: drift_of_def Let_def split: if_splits option.splits sum.splits)

lemma drift_rows_ok:
  assumes "protocol_ok s" and "set ds \<subseteq> set (sys_held s)"
  shows "protocol_ok (s\<lparr>sys_world := snd (detect_drift_rows now apis ds (sys_world s))\<rparr>)"
  using assms
proof (induction ds arbitrary: s)
  case Nil
  then show ?case by simp
next
  case (Cons d ds)
  show ?case
  proof (cases "drift_of now apis d")
    case (Inl e)
    with Cons.prems(1) show ?thesis by simp
  next
    case (Inr row)
    show ?thesis
    proof (cases row)
      case None
      with Inr Cons show ?thesis by simp
    next
      case (Some d')
      with Inr drift_is_write obtain msg where d': "d' = drifted msg d" by blast
      let ?w = "(sys_world s)\<lparr>deployments :=
        map (\<lambda>x. if dep_id x = dep_id d then merge_row d d' x else x) (deployments (sys_world s))\<rparr>"
      have "protocol_ok (s\<lparr>sys_world := ?w\<rparr>)"
        by (rule held_flushed_ok [OF Cons.prems(1) _ engine_writes(6)]) (use Cons.prems(2) d' in auto)
      from Cons.IH [OF this] Cons.prems(2) Inr Some show ?thesis by (simp add: flush_bind)
    qed
  qed
qed

lemma drift_ok:
  assumes "protocol_ok s" and "set ds \<subseteq> set (sys_held s)" and "detect_drift_gateway apis ds (sys_world s) = (res, w')"
  shows "protocol_ok (s\<lparr>sys_world := w'\<rparr>)"
proof -
  let ?v = "(sys_world s)\<lparr>ticks := Suc (ticks (sys_world s))\<rparr>"
  have "protocol_ok (s\<lparr>sys_world := ?v\<rparr>)" by (rule same_written_ok [OF assms(1)]) simp
  from drift_rows_ok [OF this, of ds "clock (sys_world s) (ticks (sys_world s))" apis] assms(2,3) show ?thesis by (simp add: detect_drift_gateway_def)
qed

subsection \<open>The protocol\<close>

lemma protocol_preserved:
  assumes "protocol_step hst s s'" and ok: "protocol_ok s"
  shows "protocol_ok s'"
  using assms(1)
proof cases
  case (request w')
  with ok show ?thesis by (simp add: request_ok request_from)
next
  case (gateway_applies x)
  with ok have "\<And>d. d \<in> set (deployments (sys_world s)) \<Longrightarrow> delivered_ok x d" by (simp add: protocol_ok_def)
  with ok gateway_applies show ?thesis by (simp add: applied_ok)
next
  case (engine_push d)
  with ok have "\<And>x. x \<in> set (deployments (sys_world s)) \<Longrightarrow> delivered_ok (push_offer d) x"
    by (simp add: protocol_ok_def push_ok)
  with ok engine_push show ?thesis by (simp add: applied_ok)
qed (use ok in \<open>simp_all add: read_ok offered_ok notify_ok acknowledge_ok triage_ok begin_ok mark_ok finish_ok raised_ok
  deleted_ok drift_ok\<close>)

definition protocol_start :: "system \<Rightarrow> bool" where
  "protocol_start s \<longleftrightarrow> sys_held s = [] \<and> sys_offered s = [] \<and> sys_applied s = [] \<and> distinct_ids (sys_world s) \<and>
     (\<forall>d \<in> set (deployments (sys_world s)). newborn d)"

inductive reached :: "host \<Rightarrow> system \<Rightarrow> bool" for hst where
  start: "protocol_start s \<Longrightarrow> reached hst s"
| step: "reached hst s \<Longrightarrow> protocol_step hst s s' \<Longrightarrow> reached hst s'"

lemma start_ok: "protocol_start s \<Longrightarrow> protocol_ok s"
  by (simp add: protocol_start_def protocol_ok_def newborn_ok)

lemma reached_ok: "reached hst s \<Longrightarrow> protocol_ok s"
  by (induction rule: reached.induct) (auto intro: start_ok protocol_preserved)

end
