(* ===== verification/ProtocolSpecs.thy ===== *)
theory ProtocolSpecs
  imports GatewayProtocol Scenario
begin

text \<open>
  The properties of the deployment protocol: what a synced generation means in every interleaving, how far the
  generations can go, where an interleaving loses an update, how often a failing gateway is retried, and
  what becomes of drift.
\<close>

section \<open>Single runs\<close>

lemma find_unique: "filter p xs = [x] \<Longrightarrow> scalar_one_or_none (filter p xs) = Inr (Some x)"
  by simp

lemma deployment_found: "filter (\<lambda>d. dep_id d = i) (deployments w) = [d] \<Longrightarrow>
    bindA (get_deployment_by_id i) k w = k (Some d) w"
  by (simp add: get_deployment_by_id_def query_bind find_unique)

lemma deployment_read: "filter (\<lambda>d. dep_id d = i) (deployments w) = [d] \<Longrightarrow> get_deployment_by_id i w = (Inr (Some d), w)"
  by (simp add: get_deployment_by_id_def)

lemma emit_sse_run:
  assumes "filter (\<lambda>d. dep_id d = i) (deployments w) = [d]"
  shows "\<exists>w'. whenA b (emit_sse_events [i] t) w = (Inr (), w') \<and> deployments w' = deployments w"
  using assms by (cases b) (simp_all add: whenA_def emit_sse_events_def deployment_read queue_sse_event_def bindA_def)

lemma when_then: "whenA b m w = (Inr u, w') \<Longrightarrow> bindA (whenA b m) k w = k u w'"
  by (rule bindA_run)

lemma emit_sync_run: "\<exists>w'. whenA b (emit_sync_request i t) w = (Inr (), w') \<and> deployments w' = deployments w"
  by (cases b) (simp_all add: whenA_def emit_sync_request_def)

lemma replaced_found: "filter (\<lambda>x. key x = i) t = [d] \<Longrightarrow> key row = i \<Longrightarrow> filter (\<lambda>x. key x = i) (replace_row key row t) = [row]"
proof -
  assume "key row = i"
  then have "filter (\<lambda>x. key x = i) (replace_row key row t) = map (\<lambda>_. row) (filter (\<lambda>x. key x = i) t)"
    by (induction t) (auto simp: replace_row_def)
  then show "filter (\<lambda>x. key x = i) t = [d] \<Longrightarrow> ?thesis" by simp
qed

lemma found_id: "filter (\<lambda>d. dep_id d = i) t = [d] \<Longrightarrow> dep_id d = i \<and> d \<in> set t"
  by (metis (mono_tags) filter_eq_Cons_iff in_set_conv_decomp)

lemma force_sync_runs:
  assumes d: "filter (\<lambda>d. dep_id d = i) (deployments w) = [d]"
    and free: "raise_if_lifecycle_managed_deployment d w = (Inr (), w)"
    and fits: "replaceable dep_id deployment_clash (marked_pending d) (deployments w)"
  shows "\<exists>w'. force_sync hst i w = (Inr (marked_pending d), w') \<and>
    deployments w' = replace_row dep_id (marked_pending d) (deployments w)"
proof -
  let ?d = "marked_pending d"
  let ?w = "w\<lparr>deployments := replace_row dep_id ?d (deployments w)\<rparr>"
  have id: "dep_id ?d = i" using found_id [OF d] by (simp add: marked_pending_def)
  obtain w1 where w1: "whenA (is_sync_engine_enabled hst) (emit_sync_request i (desired_tenant ?d)) ?w = (Inr (), w1)"
    "deployments w1 = deployments ?w" using emit_sync_run by blast
  then have "filter (\<lambda>d. dep_id d = i) (deployments w1) = [?d]" using replaced_found [OF d id] by simp
  from emit_sse_run [OF this] obtain w2 where
    w2: "whenA (is_sse_enabled hst) (emit_sse_events [i] (desired_tenant ?d)) w1 = (Inr (), w2)" "deployments w2 = deployments w1"
    by blast
  have "force_sync hst i w = (Inr ?d, w2)"
    by (simp add: force_sync_def deployment_found [OF d] bindA_run [where m = "raise_if_lifecycle_managed_deployment d", OF free] save_deployment_bind fits id
        when_then [OF w1(1)] when_then [OF w2(1)])
  with w1(2) w2(2) show ?thesis by simp
qed

section \<open>A system to start from\<close>

definition new_sample_deployment :: gateway_deployment where
  "new_sample_deployment = new_deployment_row 32 17 1 [(''tenant_id'', JStr ''t''), (''backend_url'', JStr ''http://b'')] None
     (DT 2025 1 1 0 0 0 0)"

definition sample_catalog :: api_catalog where
  "sample_catalog =
     \<lparr>cat_id = 17, cat_tenant_id = ''t'', cat_api_id = ''a'', cat_api_name = ''a'', cat_version = ''1'',
      cat_status = ''ready'', cat_category = None, cat_tags = [], cat_portal_published = False, cat_audience = ''public'', cat_api_metadata = JNull,
      cat_openapi_spec = JNull, cat_git_path = None, cat_git_commit_sha = None,
      cat_catalog_content_hash = None, cat_catalog_release_id = None, cat_catalog_release_tag = None,
      cat_catalog_pr_url = None, cat_catalog_pr_number = None, cat_catalog_source_branch = None,
      cat_catalog_merge_commit_sha = None, cat_target_gateways = [], cat_synced_at = DT 2025 1 1 0 0 0 0, cat_deleted_at = None\<rparr>"

definition protocol_world :: world where
  "protocol_world = \<lparr>catalogs = [sample_catalog], gateways = [sample_gateway 1 ''g1'' ''dev''],
     deployments = [new_sample_deployment], promotions = [], assignments = [], audit_log = [], link_events = [], sync_requests = [],
     clock = (\<lambda>n. DT 2025 1 1 0 0 0 n), ticks = 0, uuid_source = (\<lambda>n. word_of_nat (n + 100)), uuids_used = 0\<rparr>"

definition protocol_sample :: system where
  "protocol_sample = \<lparr>sys_world = protocol_world, sys_held = [], sys_offered = [], sys_applied = []\<rparr>"



definition sample_marking :: "(error + datetime \<times> gateway_deployment option) \<times> world" where
  "sample_marking = handle_sync_begin new_sample_deployment (sys_world protocol_sample)"

definition sample_marked :: gateway_deployment where
  "sample_marked = the (snd (projr (fst sample_marking)))"



definition sample_pushed :: system where
  "sample_pushed = protocol_sample\<lparr>sys_world := snd sample_marking, sys_held := [sample_marked, new_sample_deployment],
     sys_applied := [push_offer sample_marked]\<rparr>"






section \<open>What a synced generation means\<close>



lemma sample_rows:
  "deployments (snd sample_marking) = [sample_marked]" "dep_id sample_marked = 32" "dep_desired_generation sample_marked = 1"
  "dep_synced_generation sample_marked = 0" "dep_sync_status sample_marked = SYNCING" "dep_api_catalog_id sample_marked = 17"
  "catalogs (snd sample_marking) = [sample_catalog]"
  by (simp_all add: sample_marked_def sample_marking_def handle_sync_begin_def flush_bind protocol_sample_def protocol_world_def
      new_sample_deployment_def new_deployment_row_def merge_row_def changed_def)






section \<open>A lost update\<close>

definition sample_admin :: user where
  "sample_admin = \<lparr>u_id = ''admin'', u_email = [], u_username = ''admin'', u_roles = [''cpi-admin''], u_tenant_id = None\<rparr>"

definition sample_forced :: world where
  "sample_forced = snd (force_sync_endpoint sample_host sample_admin 32 (sys_world sample_pushed))"

lemma sample_forced_rows: "deployments sample_forced = [marked_pending sample_marked]"
proof -
  let ?w = "snd sample_marking"
  have "raise_if_lifecycle_managed_deployment sample_marked ?w = (Inr (), ?w)"
    by (simp add: raise_if_lifecycle_managed_deployment_def get_catalog_row_def query_bind sample_rows sample_catalog_def
        is_lifecycle_managed_catalog_def metadata_of_def dget_def)
  moreover have "replaceable dep_id deployment_clash (marked_pending sample_marked) [sample_marked]"
    by (simp add: replaceable_def marked_pending_def)
  ultimately obtain w' where run: "force_sync sample_host 32 ?w = (Inr (marked_pending sample_marked), w')"
    and rows: "deployments w' = replace_row dep_id (marked_pending sample_marked) [sample_marked]"
    using force_sync_runs [of 32 ?w sample_marked sample_host] by (auto simp: sample_rows)
  have "guarded [passed (require_role [''cpi-admin''] sample_admin)] (run_endpoint (force_sync sample_host 32) deployments_except) ?w
      = run_endpoint (force_sync sample_host 32) deployments_except ?w"
    by (simp add: guarded_def List.map_filter_def passed_def require_role_def sample_admin_def)
  moreover have "run_endpoint (force_sync sample_host 32) deployments_except ?w = (Inr (marked_pending sample_marked), w')"
    using run by (simp add: run_endpoint_ok)
  ultimately have "sample_forced = w'" by (simp add: sample_forced_def force_sync_endpoint_def sample_pushed_def)
  with rows show ?thesis by (simp add: replace_row_def marked_pending_def)
qed

lemma sample_forced_ids: "map dep_id (deployments sample_forced) = [32]"
  by (simp add: sample_forced_rows marked_pending_def sample_rows)



section \<open>Retries\<close>

text \<open>
  \<open>retry_pass\<close>: what a pass of the engine does with one row, when nothing interrupts it. \<open>the_row i w d\<close>: the
  table has one row with the id, \<open>reachable_gateway\<close>: its gateway is known and not offline.
\<close>

definition the_row :: "uuid \<Rightarrow> world \<Rightarrow> gateway_deployment \<Rightarrow> bool" where
  "the_row i w d \<longleftrightarrow> filter (\<lambda>x. dep_id x = i) (deployments w) = [d]"

definition reachable_gateway :: "uuid \<Rightarrow> world \<Rightarrow> bool" where
  "reachable_gateway i w \<longleftrightarrow> (\<exists>g. get_gateway_by_id i w = (Inr (Some g), w) \<and> gi_status g \<noteq> OFFLINE)"

definition retry_pass :: "host \<Rightarrow> uuid \<Rightarrow> datetime \<times> adapter_run \<Rightarrow> unit action" where
  "retry_pass hst i pass = bindA (get_deployment_by_id i) (\<lambda>row. case row of
     None \<Rightarrow> retA ()
   | Some d \<Rightarrow> bindA (triage hst (fst pass) d) (\<lambda>ids. bindA (forA ids (\<lambda>j. reconcile_one j (snd pass))) (\<lambda>_. retA ())))"

fun retry_passes :: "host \<Rightarrow> uuid \<Rightarrow> (datetime \<times> adapter_run) list \<Rightarrow> world \<Rightarrow> world" where
  "retry_passes hst i [] w = w"
| "retry_passes hst i (p # ps) w = retry_passes hst i ps (snd (retry_pass hst i p w))"

definition adapter_failed :: "adapter_run \<Rightarrow> bool" where
  "adapter_failed run = (case run of
     ConnectRaised _ \<Rightarrow> True | SyncRaised _ \<Rightarrow> True | SyncAnswered res _ \<Rightarrow> \<not> ar_success res | _ \<Rightarrow> False)"

lemma the_row_id: "the_row i w d \<Longrightarrow> dep_id d = i"
  using found_id by (auto simp: the_row_def)

lemma find_the_row: "filter p xs = [x] \<Longrightarrow> find p xs = Some x"
  by (induction xs) (auto split: if_splits)

definition flushed :: "gateway_deployment \<Rightarrow> gateway_deployment \<Rightarrow> world \<Rightarrow> world" where
  "flushed l m w = w\<lparr>deployments := map (\<lambda>x. if dep_id x = dep_id l then merge_row l m x else x) (deployments w)\<rparr>"

lemma flushed_row:
  assumes "the_row (dep_id l) w d"
  shows "the_row (dep_id l) (flushed l m w) (merge_row l m d)" "gateways (flushed l m w) = gateways w"
    "bindA (flush_row l m) k w = k (Some (merge_row l m d)) (flushed l m w)"
proof -
  have "filter (\<lambda>x. dep_id x = dep_id l) (map (\<lambda>x. if dep_id x = dep_id l then merge_row l m x else x) t) =
      map (merge_row l m) (filter (\<lambda>x. dep_id x = dep_id l) t)" for t
    by (induction t) auto
  with assms show "the_row (dep_id l) (flushed l m w) (merge_row l m d)" by (simp add: the_row_def flushed_def)
  from assms have "find (\<lambda>x. dep_id x = dep_id l) (deployments w) = Some d" by (simp add: the_row_def find_the_row)
  then show "bindA (flush_row l m) k w = k (Some (merge_row l m d)) (flushed l m w)" by (simp add: flush_bind flushed_def)
qed (simp add: flushed_def)

lemma changed_self [simp]: "changed a b a = b"
  by (simp add: changed_def)

lemma merge_own [simp]:
  "dep_sync_status (merge_row d m d) = dep_sync_status m" "dep_sync_attempts (merge_row d m d) = dep_sync_attempts m"
  "dep_gateway_instance_id (merge_row l m d) = dep_gateway_instance_id d"
  by (simp_all add: merge_row_def changed_def)

lemma ticked_row [simp]: "the_row i (w\<lparr>ticks := n\<rparr>) d = the_row i w d"
  by (simp add: the_row_def)

text \<open>A failed reconciliation leaves the row in error with one more attempt.\<close>

definition failed_once :: "gateway_deployment \<Rightarrow> uuid \<Rightarrow> world \<Rightarrow> world \<Rightarrow> bool" where
  "failed_once d i w w' \<longleftrightarrow> gateways w' = gateways w \<and> (\<exists>d'. the_row i w' d' \<and> dep_sync_status d' = ERROR \<and>
     dep_sync_attempts d' = dep_sync_attempts d + 1 \<and> dep_gateway_instance_id d' = dep_gateway_instance_id d)"

lemma failed_onceI: "gateways w' = gateways w \<Longrightarrow> the_row i w' d' \<Longrightarrow> dep_sync_status d' = ERROR \<Longrightarrow>
    dep_sync_attempts d' = dep_sync_attempts d + 1 \<Longrightarrow> dep_gateway_instance_id d' = dep_gateway_instance_id d \<Longrightarrow>
    failed_once d i w w'"
  by (auto simp: failed_once_def)

lemma flushed_once:
  assumes d: "the_row (dep_id d) w d"
    and m: "\<And>t. dep_sync_status (m t) = ERROR" "\<And>t. dep_sync_attempts (m t) = dep_sync_attempts d + 1"
  shows "failed_once d (dep_id d) w (snd (bindA nowA (\<lambda>t. bindA (flush_row d (m t)) (\<lambda>_. retA ())) w))"
proof -
  let ?t = "clock w (ticks w)" and ?w = "w\<lparr>ticks := Suc (ticks w)\<rparr>"
  from d have row: "the_row (dep_id d) ?w d" by simp
  have "snd (bindA nowA (\<lambda>t. bindA (flush_row d (m t)) (\<lambda>_. retA ())) w) = flushed d (m ?t) ?w"
    by (simp add: flushed_row(3) [OF row])
  moreover have "failed_once d (dep_id d) w (flushed d (m ?t) ?w)"
    by (rule failed_onceI [of _ _ _ "merge_row d (m ?t) d"]) (simp_all add: flushed_row(1,2) [OF row] m)
  ultimately show ?thesis by simp
qed

lemma raised_once: "the_row (dep_id d) w d \<Longrightarrow> failed_once d (dep_id d) w (snd (reconcile_raised d e steps w))"
  unfolding reconcile_raised_def by (rule flushed_once) (simp_all add: engine_failed_def Let_def)

lemma answered_once: "the_row (dep_id d) w d \<Longrightarrow> \<not> ar_success res \<Longrightarrow>
    failed_once d (dep_id d) w (snd (handle_sync_end now d res run steps w))"
  unfolding handle_sync_end_def by (rule flushed_once) (simp_all add: synced_generations, simp add: synced_object_def Let_def)

lemma reconcile_run_once:
  assumes d: "the_row (dep_id d) w d" and error: "dep_sync_status d = ERROR" and failed: "adapter_failed run"
  shows "failed_once d (dep_id d) w (snd (reconcile_run d run w))"
proof -
  have ticked: "failed_once d i w v = failed_once d i (w\<lparr>ticks := n\<rparr>) v" for v i n by (simp add: failed_once_def)
  let ?w = "w\<lparr>ticks := Suc (ticks w)\<rparr>"
  from d have row: "the_row (dep_id d) ?w d" by simp
  let ?now = "clock w (Suc (ticks w))"
  let ?m = "d\<lparr>dep_sync_status := SYNCING, dep_last_sync_attempt := Some ?now\<rparr>"
  let ?d = "merge_row d ?m d" and ?v = "flushed d ?m (w\<lparr>ticks := Suc (Suc (ticks w))\<rparr>)"
  from d have row2: "the_row (dep_id d) (w\<lparr>ticks := Suc (Suc (ticks w))\<rparr>) d" by simp
  have marked: "the_row (dep_id ?d) ?v ?d" "gateways ?v = gateways w" using flushed_row(1,2) [OF row2, of ?m] by simp_all
  have marking: "bindA (handle_sync_begin d) k ?w = k (?now, Some ?d) ?v" for k :: "datetime \<times> gateway_deployment option \<Rightarrow> unit action"
    using flushed_row(3) [OF row2] by (simp add: handle_sync_begin_def)
  have later: "failed_once ?d (dep_id ?d) ?v v \<Longrightarrow> failed_once d (dep_id d) w v" for v
    using marked(2) by (simp add: failed_once_def)
  show ?thesis
  proof (cases run)
    case (ConnectRaised e)
    then show ?thesis using raised_once [OF row] ticked by (simp add: reconcile_run_def)
  next
    case (SyncRaised e)
    then show ?thesis using later raised_once [OF marked(1)] error
      by (simp add: reconcile_run_def marking SYNCABLE_def)
  next
    case (SyncAnswered res policies)
    then show ?thesis using later answered_once [OF marked(1)] error failed
      by (simp add: reconcile_run_def marking SYNCABLE_def adapter_failed_def)
  qed (use failed in \<open>simp_all add: adapter_failed_def\<close>)
qed

lemma reconcile_once:
  assumes d: "the_row i w d" and error: "dep_sync_status d = ERROR" and failed: "adapter_failed run"
    and gw: "reachable_gateway (dep_gateway_instance_id d) w"
  shows "failed_once d i w (snd (reconcile_one i run w))"
proof -
  from gw obtain g where g: "get_gateway_by_id (dep_gateway_instance_id d) w = (Inr (Some g), w)" "gi_status g \<noteq> OFFLINE"
    by (auto simp: reachable_gateway_def)
  have "reconcile_begin i w = (Inr (EngineConnect d g), w)"
    using d error g(2) by (simp add: reconcile_begin_def the_row_def deployment_found bindA_run [where m = "get_gateway_by_id (dep_gateway_instance_id d)", OF g(1)])
  then have "reconcile_one i run w = reconcile_run d run w" by (simp add: reconcile_one_def bindA_def)
  with reconcile_run_once [of d w run] d error failed the_row_id [OF d] show ?thesis by simp
qed

lemma retry_once:
  assumes d: "the_row i w d" and error: "dep_sync_status d = ERROR" and failed: "adapter_failed (snd p)"
    and gw: "reachable_gateway (dep_gateway_instance_id d) w"
  shows "\<exists>d'. the_row i (snd (retry_pass hst i p w)) d' \<and> dep_sync_status d' = ERROR \<and>
     reachable_gateway (dep_gateway_instance_id d') (snd (retry_pass hst i p w)) \<and>
     dep_sync_attempts d' = (if SYNC_ENGINE_RETRY_MAX hst \<le> dep_sync_attempts d then dep_sync_attempts d
       else dep_sync_attempts d + 1)"
proof (cases "SYNC_ENGINE_RETRY_MAX hst \<le> dep_sync_attempts d")
  case True
  with d error have "snd (retry_pass hst i p w) = w"
    by (simp add: retry_pass_def the_row_def deployment_found triage_def unacknowledged_def exhausted_def)
  with True d error gw show ?thesis by auto
next
  case False
  have "retry_pass hst i p w = bindA (forA [i] (\<lambda>j. reconcile_one j (snd p))) (\<lambda>_. retA ()) w"
    using d error False the_row_id [OF d]
    by (simp add: retry_pass_def the_row_def deployment_found triage_def unacknowledged_def exhausted_def)
  then have "snd (retry_pass hst i p w) = snd (reconcile_one i (snd p) w)"
    by (simp add: bindA_def split: prod.splits sum.splits)
  with False reconcile_once [OF d error failed gw] gw show ?thesis
    by (auto simp: failed_once_def reachable_gateway_def get_gateway_by_id_def)
qed

text \<open>
  C34. A gateway that keeps failing is not retried for ever: over any number of passes in which the adapter
  fails, the row stays in error, and its attempts grow by one per pass up to the limit and then stay, because a
  row at the limit is no longer reconciled.
\<close>

theorem retries_bounded:
  assumes "the_row i w d" and "dep_sync_status d = ERROR" and "reachable_gateway (dep_gateway_instance_id d) w"
    and "\<forall>p \<in> set passes. adapter_failed (snd p)"
  shows "\<exists>d'. the_row i (retry_passes hst i passes w) d' \<and> dep_sync_status d' = ERROR \<and>
     dep_sync_attempts d' = max (dep_sync_attempts d)
       (min (dep_sync_attempts d + int (length passes)) (SYNC_ENGINE_RETRY_MAX hst))"
  using assms
proof (induction passes arbitrary: w d)
  case Nil
  then show ?case by auto
next
  case (Cons p ps)
  let ?w = "snd (retry_pass hst i p w)"
  from Cons.prems retry_once [of i w d p hst] obtain d1 where d1: "the_row i ?w d1" "dep_sync_status d1 = ERROR"
    "reachable_gateway (dep_gateway_instance_id d1) ?w"
    "dep_sync_attempts d1 = (if SYNC_ENGINE_RETRY_MAX hst \<le> dep_sync_attempts d then dep_sync_attempts d
       else dep_sync_attempts d + 1)" by auto
  from Cons.IH [OF d1(1-3)] Cons.prems(4) obtain d' where "the_row i (retry_passes hst i ps ?w) d'" "dep_sync_status d' = ERROR"
    "dep_sync_attempts d' = max (dep_sync_attempts d1)
       (min (dep_sync_attempts d1 + int (length ps)) (SYNC_ENGINE_RETRY_MAX hst))" by auto
  with d1(4) show ?case by (auto split: if_splits)
qed

definition failing_row :: gateway_deployment where
  "failing_row = new_sample_deployment\<lparr>dep_sync_status := ERROR\<rparr>"

lemma sample_gateway_found: "get_gateway_by_id 1 (protocol_world\<lparr>deployments := ds\<rparr>) =
    (Inr (Some (sample_gateway 1 ''g1'' ''dev'')), protocol_world\<lparr>deployments := ds\<rparr>)"
  by (simp add: get_gateway_by_id_def protocol_world_def sample_gateway_def)

lemma sample_gateway_reachable: "reachable_gateway 1 (protocol_world\<lparr>deployments := ds\<rparr>)"
  using sample_gateway_found [of ds] by (auto simp: reachable_gateway_def sample_gateway_def)

theorem retries_bounded_witness:
  "\<exists>d'. the_row 32 (retry_passes sample_host 32 (replicate 5 (DT 2025 1 1 0 0 0 0, ConnectRaised ''refused''))
     (protocol_world\<lparr>deployments := [failing_row]\<rparr>)) d' \<and> dep_sync_attempts d' = 3"
proof -
  have "the_row 32 (protocol_world\<lparr>deployments := [failing_row]\<rparr>) failing_row" "dep_sync_status failing_row = ERROR"
    "dep_sync_attempts failing_row = 0" "dep_gateway_instance_id failing_row = 1"
    by (simp_all add: the_row_def failing_row_def new_sample_deployment_def new_deployment_row_def)
  with retries_bounded [of 32 "protocol_world\<lparr>deployments := [failing_row]\<rparr>" failing_row
      "replicate 5 (DT 2025 1 1 0 0 0 0, ConnectRaised ''refused'')" sample_host] sample_gateway_reachable [of "[failing_row]"]
  show ?thesis by (auto simp: adapter_failed_def sample_host_def)
qed

section \<open>Drift\<close>

text \<open>
  Drift is noticed but not repaired: a synced row whose generation was attempted (as every row that the
  engine synced) is marked as drifted, and then every pass selects it and leaves it as it is, because its
  generation counts as attempted already.
\<close>

theorem drift_not_repaired:
  assumes "the_row i w d" and "dep_sync_status d = SYNCED" and "dep_desired_generation d \<le> dep_attempted_generation d"
    and "drift_of now apis d = Inr (Some d')" and "reachable_gateway (dep_gateway_instance_id d) w"
  shows "\<exists>w' e. detect_drift_rows now apis [d] w = (Inr (), w') \<and> the_row i w' e \<and> dep_sync_status e = DRIFTED \<and>
     (\<forall>pass. triage hst (fst pass) e w' = (Inr [i], w') \<and> retry_pass hst i pass w' = (Inr (), w'))"
proof -
  obtain msg where d': "d' = drifted msg d" using drift_is_write [OF assms(4)] by blast
  let ?e = "merge_row d d' d" and ?w = "flushed d d' w"
  from assms(1) the_row_id have own: "the_row (dep_id d) w d" "dep_id d = i" by auto
  have run: "detect_drift_rows now apis [d] w = (Inr (), ?w)"
    by (simp add: assms(4) flushed_row(3) [OF own(1)])
  have row: "the_row i ?w ?e" "gateways ?w = gateways w" using flushed_row(1,2) [OF own(1), of d'] own(2) by simp_all
  have e: "dep_id ?e = i" "dep_sync_status ?e = DRIFTED" "dep_gateway_instance_id ?e = dep_gateway_instance_id d"
    "dep_desired_generation ?e \<le> dep_attempted_generation ?e"
    using assms(3) own(2) by (simp_all add: d' drifted_def)
  from assms(5) row(2) e(3) obtain g where g: "get_gateway_by_id (dep_gateway_instance_id d) ?w = (Inr (Some g), ?w)"
    by (auto simp: reachable_gateway_def get_gateway_by_id_def)
  have tri: "triage hst t ?e ?w = (Inr [i], ?w)" for t
    using e by (simp add: triage_def unacknowledged_def exhausted_def)
  have "reconcile_begin i ?w = (Inr EngineSkip, ?w)"
    using row(1) e(2,4) by (simp add: reconcile_begin_def the_row_def deployment_found
        bindA_run [where m = "get_gateway_by_id (dep_gateway_instance_id d)", OF g])
  then have skip: "reconcile_one i run ?w = (Inr (), ?w)" for run by (simp add: reconcile_one_def bindA_def)
  have "bindA (forA [i] (\<lambda>j. reconcile_one j run)) (\<lambda>_. retA ()) ?w = (Inr (), ?w)" for run
    by (simp add: bindA_def skip)
  then have "retry_pass hst i pass ?w = (Inr (), ?w)" for pass
    using row(1) by (simp add: retry_pass_def the_row_def deployment_found bindA_run [where m = "triage hst (fst pass) ?e", OF tri]
        del: forA.simps)
  with run row(1) e(2) tri show ?thesis by blast
qed

definition synced_row :: gateway_deployment where
  "synced_row = new_sample_deployment\<lparr>dep_sync_status := SYNCED, dep_synced_generation := 1, dep_attempted_generation := 1,
     dep_gateway_resource_id := Some ''r1''\<rparr>"

theorem drift_not_repaired_witness:
  "\<exists>w' e. detect_drift_rows (DT 2025 1 1 0 0 0 0) [] [synced_row] (protocol_world\<lparr>deployments := [synced_row]\<rparr>) = (Inr (), w') \<and>
     the_row 32 w' e \<and> dep_sync_status e = DRIFTED"
proof -
  have "the_row 32 (protocol_world\<lparr>deployments := [synced_row]\<rparr>) synced_row" "dep_sync_status synced_row = SYNCED"
    "dep_desired_generation synced_row \<le> dep_attempted_generation synced_row" "dep_gateway_instance_id synced_row = 1"
    "drift_of (DT 2025 1 1 0 0 0 0) [] synced_row =
      Inr (Some (drifted ''API not found on gateway (external deletion)'' synced_row))"
    by (simp_all add: the_row_def synced_row_def new_sample_deployment_def new_deployment_row_def drift_of_def gateway_api_map_def
        opt_truthy_def)
  with drift_not_repaired [of 32 "protocol_world\<lparr>deployments := [synced_row]\<rparr>" synced_row "DT 2025 1 1 0 0 0 0" "[]" _ sample_host]
    sample_gateway_reachable [of "[synced_row]"]
  show ?thesis by fastforce
qed

end
