(* ===== verification/GatewaySpecs.thy ===== *)
theory GatewaySpecs
  imports ProtocolSpecs
begin

text \<open>
  The properties of the single components of deployment: the classification of gateways, the preflight,
  acknowledgements, and the promotion requests.
\<close>

section \<open>Gateways and the preflight\<close>


text \<open>
  A contract that the lifecycle service validated passes the preflight of a webMethods gateway exactly when
  no object in it, at any depth, declares \<open>additionalProperties\<close> with a Boolean; every error that the preflight
  reports then is of that one kind.
\<close>

theorem validated_contract_preflight:
  assumes "validate_openapi_contract hst (JObj spec) = Inr r" and "dget desired_state ''openapi_spec'' = JObj spec"
  shows "(validate_desired_state_for_gateway desired_state ''webmethods'' g = [] \<longleftrightarrow> \<not> declares_boolean (JObj spec)) \<and>
    (\<forall>e \<in> set (validate_desired_state_for_gateway desired_state ''webmethods'' g).
       pe_code e = ''openapi_schema_boolean_additional_properties'')"
proof -
  have "contract_ok spec" using validate_openapi_contract_ok [OF assms(1)] by simp
  then show ?thesis
    using boolean_properties_iff [of "''openapi_spec''" "JObj spec"] assms(2)
    by (auto simp: validate_desired_state_for_gateway_def contract_preflight validate_no_boolean_additional_properties_def)
qed

theorem validated_contract_preflight_witness:
  "validate_desired_state_for_gateway [(''openapi_spec'', sample_spec)] ''webmethods'' (sample_gateway 1 ''g1'' ''dev'') = []"
proof -
  obtain r where r: "validate_openapi_contract sample_host (JObj (obj_of sample_spec)) = Inr r"
    using sample_contract by (auto simp: sample_spec_def)
  have "boolean_additional_properties [] (JObj (obj_of sample_spec)) = []" by code_simp
  then have "\<not> declares_boolean (JObj (obj_of sample_spec))" using boolean_properties_iff by blast
  with validated_contract_preflight [OF r, of "[(''openapi_spec'', sample_spec)]" "sample_gateway 1 ''g1'' ''dev''"]
  show ?thesis by (simp add: dget_def sample_spec_def)
qed

section \<open>Acknowledgements\<close>

text \<open>The result of an agent that applied a row as it is desired.\<close>

definition applied_result :: "gateway_deployment \<Rightarrow> synced_route" where
  "applied_result d = \<lparr>sr_deployment_id = uuid_str (dep_id d), sr_status = ''applied'', sr_error = None, sr_steps = None,
     sr_generation = Some (dep_desired_generation d)\<rparr>"

text \<open>What an acknowledgement keeps of a row.\<close>

definition ack_kept :: "gateway_deployment \<Rightarrow> gateway_deployment \<Rightarrow> bool" where
  "ack_kept d d' \<longleftrightarrow> dep_id d' = dep_id d \<and> dep_api_catalog_id d' = dep_api_catalog_id d \<and>
     dep_gateway_instance_id d' = dep_gateway_instance_id d \<and> dep_desired_state d' = dep_desired_state d \<and>
     dep_desired_generation d' = dep_desired_generation d \<and> dep_promotion_id d' = dep_promotion_id d"

text \<open>How an acknowledgement may change the status: never of a row that is being deleted.\<close>

definition ack_status :: "synced_route \<Rightarrow> sync_status \<Rightarrow> sync_status \<Rightarrow> bool" where
  "ack_status r s s' \<longleftrightarrow> s' = s \<or> s \<noteq> DELETING \<and> (s' = ERROR \<or> s' = SYNCED \<and> sr_status r = ''applied'')"

definition outdated :: "synced_route \<Rightarrow> gateway_deployment \<Rightarrow> bool" where
  "outdated r d \<longleftrightarrow> (\<exists>g. sr_generation r = Some g \<and> g < dep_desired_generation d)"

lemma decided_row:
  assumes "decide_ack now d r merged = Inr (AckUpdate v)"
  shows "\<not> outdated r d \<and> ack_kept d (apply_values v d) \<and> ack_status r (dep_sync_status d) (dep_sync_status (apply_values v d))"
  using assms by (auto simp: decide_ack_def effective_result_def no_values_def outdated_def ack_kept_def ack_status_def
      apply_values_def or_old_def Let_def split: if_splits sum.splits)

lemma decided_removal:
  assumes "decide_ack now d r merged = Inr AckRemove"
  shows "dep_sync_status d = DELETING \<and> sr_status r = ''removed'' \<and> sr_generation r = Some (dep_desired_generation d)"
  using assms by (auto simp: decide_ack_def effective_result_def Let_def split: if_splits sum.splits)

lemma decided_now: "decide_ack_now now d r w = (Inr a, w') \<Longrightarrow> \<exists>merged. decide_ack now d r merged = Inr a"
  by (auto simp: decide_ack_now_def bind_ok liftA_def raiseA_def retA_def split: option.splits sum.splits)

lemma read_ack_ok:
  assumes "read_ack gid r w = (Inr row, w')"
  shows "w' = w \<and> (\<forall>d. row = Some d \<longrightarrow> uuid_parse (sr_deployment_id r) = Some (dep_id d) \<and> d \<in> set (deployments w) \<and>
     dep_gateway_instance_id d = gid)"
  using assms by (auto simp: read_ack_def get_deployment_by_id_def bind_ok queryA_def retA_def split: option.splits sum.splits if_splits
      dest: selected)

lemma same_read: "distinct_ids w \<Longrightarrow> d \<in> set (deployments w) \<Longrightarrow> x \<in> set (deployments w) \<Longrightarrow> still_as_read d x \<longleftrightarrow> dep_id x = dep_id d"
  using row_of_id by (auto simp: still_as_read_def)

lemma written_update:
  assumes "distinct_ids w" and d: "d \<in> set (deployments w)" and x: "ack_kept d (apply_values x d)"
  shows "write_ack d (AckUpdate x) w = (Inr Processed, w\<lparr>deployments := replace_row dep_id (apply_values x d) (deployments w)\<rparr>)"
proof -
  have "map (\<lambda>y. if still_as_read d y then apply_values x y else y) (deployments w) =
      replace_row dep_id (apply_values x d) (deployments w)"
    using same_read [OF assms(1) d] x unfolding replace_row_def
    by (intro map_cong refl) (auto simp: ack_kept_def dest: row_of_id [OF assms(1) _ d])
  moreover have "list_ex (still_as_read d) (deployments w)" using d by (auto simp: list_ex_iff still_as_read_def)
  ultimately show ?thesis by (simp add: write_ack_def acknowledge_def bindA_def)
qed

lemma written_removal:
  assumes "distinct_ids w" and d: "d \<in> set (deployments w)"
  shows "write_ack d AckRemove w = (Inr Processed, w\<lparr>deployments := delete_row dep_id (dep_id d) (deployments w)\<rparr>)"
proof -
  have "filter (\<lambda>y. \<not> still_as_read d y) (deployments w) = delete_row dep_id (dep_id d) (deployments w)"
    using same_read [OF assms] unfolding delete_row_def by (intro filter_cong) auto
  moreover have "list_ex (still_as_read d) (deployments w)" using d by (auto simp: list_ex_iff still_as_read_def)
  ultimately show ?thesis by (simp add: write_ack_def acknowledge_def bindA_def)
qed

text \<open>
  C26. One result of an agent changes at most one row: the row whose id it names, which belongs to the gateway of
  the agent, and not if it reports an older generation. It keeps what is desired of the row; the row becomes
  synced only by an applied result and never while it is being deleted; it is removed only while it is being
  deleted and when the removal of its very generation is reported.
\<close>

theorem acknowledgement_confined:
  assumes run: "ack_one gid now r w = (Inr out, w')" and ids: "distinct_ids w"
  shows "out \<noteq> Processed \<and> deployments w' = deployments w \<or>
    out = Processed \<and> (\<exists>d \<in> set (deployments w). uuid_parse (sr_deployment_id r) = Some (dep_id d) \<and>
      dep_gateway_instance_id d = gid \<and> \<not> outdated r d \<and>
      ((\<exists>d'. ack_kept d d' \<and> ack_status r (dep_sync_status d) (dep_sync_status d') \<and>
          deployments w' = replace_row dep_id d' (deployments w)) \<or>
       dep_sync_status d = DELETING \<and> sr_status r = ''removed'' \<and> sr_generation r = Some (dep_desired_generation d) \<and>
          deployments w' = delete_row dep_id (dep_id d) (deployments w)))"
proof -
  from run obtain row u where row: "read_ack gid r w = (Inr row, u)"
    and then_u: "(case row of None \<Rightarrow> retA NotFound | Some d \<Rightarrow> bindA (decide_ack_now now d r) (write_ack d)) u = (Inr out, w')"
    unfolding ack_one_def bind_ok by blast
  from read_ack_ok [OF row] then_u
  have then_run: "(case row of None \<Rightarrow> retA NotFound | Some d \<Rightarrow> bindA (decide_ack_now now d r) (write_ack d)) w = (Inr out, w')"
    by simp
  show ?thesis
  proof (cases row)
    case None
    with then_run show ?thesis by simp
  next
    case (Some d)
    with read_ack_ok [OF row] have d: "uuid_parse (sr_deployment_id r) = Some (dep_id d)" "d \<in> set (deployments w)"
      "dep_gateway_instance_id d = gid" by simp_all
    from Some then_run obtain a v where dec: "decide_ack_now now d r w = (Inr a, v)" and wr: "write_ack d a v = (Inr out, w')"
      by (auto simp: bind_ok)
    from decide_keeps [OF dec] have v: "deployments v = deployments w" .
    then have here: "distinct_ids v" "d \<in> set (deployments v)" using ids d(2) by simp_all
    obtain merged where merged: "decide_ack now d r merged = Inr a" using decided_now [OF dec] by blast
    show ?thesis
    proof (cases a)
      case AckSkip
      with wr v show ?thesis by (simp add: write_ack_def)
    next
      case (AckUpdate x)
      with decided_row merged have x: "\<not> outdated r d" "ack_kept d (apply_values x d)"
        "ack_status r (dep_sync_status d) (dep_sync_status (apply_values x d))" by blast+
      from wr written_update [OF here x(2)] AckUpdate v
      have "out = Processed" "deployments w' = replace_row dep_id (apply_values x d) (deployments w)" by auto
      with d x show ?thesis by blast
    next
      case AckRemove
      with decided_removal merged
      have x: "dep_sync_status d = DELETING" "sr_status r = ''removed''" "sr_generation r = Some (dep_desired_generation d)" by blast+
      from wr written_removal [OF here] AckRemove v
      have "out = Processed" "deployments w' = delete_row dep_id (dep_id d) (deployments w)" by auto
      moreover from x(3) have "\<not> outdated r d" by (simp add: outdated_def)
      ultimately show ?thesis using d x by blast
    qed
  qed
qed

theorem acknowledgement_confined_witness:
  "\<exists>w'. ack_one 2 (DT 2025 1 1 0 0 0 0) (applied_result new_sample_deployment) protocol_world = (Inr NotFound, w') \<and>
     deployments w' = deployments protocol_world"
proof -
  have run: "ack_one 2 (DT 2025 1 1 0 0 0 0) (applied_result new_sample_deployment) protocol_world = (Inr NotFound, protocol_world)"
    by (simp add: ack_one_def read_ack_def applied_result_def uuid_roundtrip bindA_def get_deployment_by_id_def protocol_world_def
        new_sample_deployment_def new_deployment_row_def)
  have "distinct_ids protocol_world" by (simp add: protocol_world_def)
  from acknowledgement_confined [OF run this] show ?thesis using run by auto
qed

text \<open>
  An acknowledgement that was decided on a row which has been redeployed, resynchronised, undeployed or
  removed since then is dropped: the write changes nothing and reports the result as ignored.
\<close>

theorem late_acknowledgement_ignored:
  assumes "\<forall>d \<in> set (deployments w). dep_id d = dep_id seen \<longrightarrow>
    dep_desired_generation d \<noteq> dep_desired_generation seen \<or> dep_sync_status d \<noteq> dep_sync_status seen"
  shows "write_ack seen a w = (Inr Ignored, w)"
proof -
  have none: "\<not> still_as_read seen d" if "d \<in> set (deployments w)" for d
    using assms that by (auto simp: still_as_read_def)
  then have "map (\<lambda>d. if still_as_read seen d then f d else d) (deployments w) = deployments w"
    "filter (\<lambda>d. \<not> still_as_read seen d) (deployments w) = deployments w" for f
    by (auto intro: map_idI filter_True)
  moreover have "\<not> list_ex (still_as_read seen) (deployments w)" using none by (simp add: list_ex_iff)
  ultimately show ?thesis
    by (cases a) (simp_all add: write_ack_def acknowledge_def bindA_def)
qed

theorem late_acknowledgement_ignored_witness:
  "write_ack (new_sample_deployment\<lparr>dep_desired_generation := 0\<rparr>) AckRemove protocol_world = (Inr Ignored, protocol_world)"
  by (rule late_acknowledgement_ignored) (simp add: protocol_world_def new_sample_deployment_def new_deployment_row_def)






end
