(* ===== verification/PromotionSpecs.thy ===== *)
theory PromotionSpecs
  imports ProtocolSpecs
begin

text \<open>
  The properties of the promotion requests: the status of a promotion follows an abstract automaton, approval needs
  a second person for production, and completion does not look at the tenant.
\<close>

section \<open>The automaton of a promotion\<close>

inductive promotion_edge :: "string \<Rightarrow> string \<Rightarrow> bool" where
  approved: "promotion_edge ''pending'' ''promoting''"
| completed: "promotion_edge ''promoting'' ''promoted''"
| failed: "promotion_edge s ''failed''"
| rolled_back: "promotion_edge ''promoted'' ''rolled_back''"

text \<open>What stays of a promotion while its status moves.\<close>

definition same_promotion :: "promotion \<Rightarrow> promotion \<Rightarrow> bool" where
  "same_promotion p p' \<longleftrightarrow> pr_id p' = pr_id p \<and> pr_tenant_id p' = pr_tenant_id p \<and> pr_api_id p' = pr_api_id p \<and>
     pr_source_environment p' = pr_source_environment p \<and> pr_target_environment p' = pr_target_environment p \<and>
     pr_source_deployment_id p' = pr_source_deployment_id p \<and> pr_target_gateway_ids p' = pr_target_gateway_ids p \<and>
     pr_requested_by p' = pr_requested_by p"

definition moved :: "promotion \<Rightarrow> promotion \<Rightarrow> bool" where
  "moved p p' \<longleftrightarrow> same_promotion p p' \<and> promotion_edge\<^sup>*\<^sup>* (pr_status p) (pr_status p')"

lemma moved_refl [simp]: "moved p p"
  by (simp add: moved_def same_promotion_def)

lemma moved_trans: "moved p q \<Longrightarrow> moved q r \<Longrightarrow> moved p r"
  by (auto simp: moved_def same_promotion_def intro: rtranclp_trans)


abbreviation unique_promotions :: "world \<Rightarrow> bool" where
  "unique_promotions w \<equiv> distinct (map pr_id (promotions w))"

text \<open>
  Over rows with their own ids: every promotion is still there and has moved along the automaton, and every other
  one started in one of the two initial states.
\<close>

definition moves :: "world \<Rightarrow> world \<Rightarrow> bool" where
  "moves w w' \<longleftrightarrow> (\<forall>p \<in> set (promotions w). \<exists>p' \<in> set (promotions w'). moved p p') \<and>
     (\<forall>p' \<in> set (promotions w'). (\<exists>p \<in> set (promotions w). moved p p') \<or>
        (\<exists>s \<in> {''pending'', ''promoting''}. promotion_edge\<^sup>*\<^sup>* s (pr_status p')))"

definition promotions_move :: "world \<Rightarrow> world \<Rightarrow> bool" where
  "promotions_move w w' \<longleftrightarrow> (unique_promotions w \<longrightarrow> unique_promotions w' \<and> moves w w')"

lemma own_promotion: "p \<in> A \<Longrightarrow> \<exists>x \<in> A. moved x p" "p \<in> A \<Longrightarrow> \<exists>x \<in> A. moved p x"
  using moved_refl by blast+

lemma moves_trans:
  assumes a: "moves u v" and b: "moves v w"
  shows "moves u w"
  unfolding moves_def
proof (intro conjI ballI)
  fix p assume "p \<in> set (promotions u)"
  with a obtain q where "q \<in> set (promotions v)" "moved p q" unfolding moves_def by blast
  moreover from this b obtain r where "r \<in> set (promotions w)" "moved q r" unfolding moves_def by blast
  ultimately show "\<exists>p' \<in> set (promotions w). moved p p'" using moved_trans by blast
next
  fix r assume "r \<in> set (promotions w)"
  with b consider q where "q \<in> set (promotions v)" "moved q r" | s where "s \<in> {''pending'', ''promoting''}" "promotion_edge\<^sup>*\<^sup>* s (pr_status r)"
    unfolding moves_def by blast
  then show "(\<exists>p \<in> set (promotions u). moved p r) \<or> (\<exists>s \<in> {''pending'', ''promoting''}. promotion_edge\<^sup>*\<^sup>* s (pr_status r))"
  proof cases
    case (1 q)
    from a 1(1) consider p where "p \<in> set (promotions u)" "moved p q"
      | s where "s \<in> {''pending'', ''promoting''}" "promotion_edge\<^sup>*\<^sup>* s (pr_status q)"
      unfolding moves_def by blast
    then show ?thesis
    proof cases
      case (1 p)
      with \<open>moved q r\<close> show ?thesis using moved_trans by blast
    next
      case (2 s)
      from \<open>moved q r\<close> have "promotion_edge\<^sup>*\<^sup>* (pr_status q) (pr_status r)" by (simp add: moved_def)
      with 2(2) have "promotion_edge\<^sup>*\<^sup>* s (pr_status r)" by (rule rtranclp_trans)
      with 2(1) show ?thesis by blast
    qed
next
    case (2 s)
    then show ?thesis by blast
  qed
qed

interpretation promotions_move: state_relation promotions_move
proof unfold_locales
  show "promotions_move w w" for w by (simp add: promotions_move_def moves_def own_promotion)
  show "promotions_move u w" if "promotions_move u v" "promotions_move v w" for u v w
    using that moves_trans [of u v w] by (simp add: promotions_move_def)
qed









lemma ticked_moves [simp]: "promotions_move w (v\<lparr>ticks := n\<rparr>) = promotions_move w v"
    "promotions_move (w\<lparr>ticks := n\<rparr>) v = promotions_move w v"
  by (simp_all add: promotions_move_def moves_def)











section \<open>Properties\<close>





definition reviewed_promotion :: "string \<Rightarrow> promotion" where
  "reviewed_promotion status =
     \<lparr>pr_id = 64, pr_tenant_id = ''t'', pr_api_id = ''a'', pr_source_environment = ''staging'',
      pr_target_environment = ''production'', pr_source_deployment_id = None, pr_target_deployment_id = None,
      pr_target_gateway_ids = JArr [JStr (uuid_str 1)], pr_status = status, pr_spec_diff = JNull, pr_message = [],
      pr_requested_by = ''alice'', pr_approved_by = None, pr_completed_at = None, pr_created_at = DT 2025 1 1 0 0 0 0\<rparr>"

definition promotion_world :: "string \<Rightarrow> sync_status \<Rightarrow> world" where
  "promotion_world status sync = protocol_world\<lparr>promotions := [reviewed_promotion status],
     deployments := [new_sample_deployment\<lparr>dep_promotion_id := Some 64, dep_sync_status := sync\<rparr>]\<rparr>"


text \<open>
  C32. An approval that is answered without an error was given by a user who may promote APIs, on a pending
  promotion of the named tenant with explicit target gateways; where the target is production the approver is
  not the requester. It sets the status and the approver of that one promotion and changes no other row.
\<close>

theorem approval_four_eyes:
  assumes "approve_promotion_endpoint user t i w = (Inr p', w')"
  shows "\<exists>p \<in> set (promotions w). pr_id p = i \<and> pr_tenant_id p = t \<and> pr_status p = ''pending'' \<and>
    (\<exists>ids. parse_target_gateway_ids (pr_target_gateway_ids p) = Inr ids \<and> ids \<noteq> []) \<and>
    (pr_target_environment p = ''production'' \<longrightarrow> pr_requested_by p \<noteq> u_username user) \<and>
    (\<exists>u. require_permission APIS_PROMOTE user = Inr u) \<and> (\<exists>u. decide_tenant_access user (Some t) ''resource'' = Inr u) \<and>
    p' = p\<lparr>pr_status := ''promoting'', pr_approved_by := Some (u_username user)\<rparr> \<and>
    w' = w\<lparr>promotions := replace_row pr_id p' (promotions w)\<rparr>"
proof (rule guarded_cases [of "promotion_guards user t" "run_endpoint (approve_promotion t i (u_username user)) (promotions_except 400)" w])
  fix exc
  assume "guarded (promotion_guards user t) (run_endpoint (approve_promotion t i (u_username user)) (promotions_except 400)) w = (Inl exc, w)"
  with assms show ?thesis by (simp add: approve_promotion_endpoint_def)
next
  assume g: "guarded (promotion_guards user t) (run_endpoint (approve_promotion t i (u_username user)) (promotions_except 400)) w =
      run_endpoint (approve_promotion t i (u_username user)) (promotions_except 400) w"
    and c: "\<forall>c \<in> set (promotion_guards user t). \<exists>x. c = Inr x"
  from c have checks: "\<exists>u. require_permission APIS_PROMOTE user = Inr u" "\<exists>u. decide_tenant_access user (Some t) ''resource'' = Inr u"
    by (auto simp: promotion_guards_def passed_def split: sum.splits)
  from g assms have run: "approve_promotion t i (u_username user) w = (Inr p', w')"
    by (simp add: approve_promotion_endpoint_def run_endpoint_ok)
  then obtain p where p: "p \<in> set (promotions w)" "pr_id p = i" "pr_tenant_id p = t"
    and rest: "pr_status p = ''pending''" "\<not> (pr_requested_by p = u_username user \<and> pr_target_environment p = ''production'')"
    and ids: "\<exists>ids. parse_target_gateway_ids (pr_target_gateway_ids p) = Inr ids \<and> ids \<noteq> []"
    and saved: "save_promotion (p\<lparr>pr_status := ''promoting'', pr_approved_by := Some (u_username user)\<rparr>) w = (Inr p', w')"
    by (auto simp: approve_promotion_def get_promotion_by_id_and_tenant_def bind_ok queryA_def ok_if ok_option split: sum.splits option.splits if_splits
        dest: selected)
  from saved have "p' = p\<lparr>pr_status := ''promoting'', pr_approved_by := Some (u_username user)\<rparr>"
    "w' = w\<lparr>promotions := replace_row pr_id p' (promotions w)\<rparr>"
    by (auto simp: save_promotion_def put_promotions_def save_row_replace bindA_def split: if_splits)
  with p rest ids checks show ?thesis by blast
qed

definition promoter :: "string \<Rightarrow> user" where
  "promoter tenant = \<lparr>u_id = ''bob'', u_email = [], u_username = ''bob'', u_roles = [''tenant-admin''], u_tenant_id = Some tenant\<rparr>"

lemma promoter_guards: "guarded (promotion_guards (promoter ''t'') ''t'') run w = run w"
    "guarded (promotion_guards (promoter ''other'') ''other'') run w = run w"
proof -
  have "List.map_filter (\<lambda>c. case c of Inl exc \<Rightarrow> Some exc | Inr _ \<Rightarrow> None) (promotion_guards (promoter ''t'') ''t'') = []"
    "List.map_filter (\<lambda>c. case c of Inl exc \<Rightarrow> Some exc | Inr _ \<Rightarrow> None) (promotion_guards (promoter ''other'') ''other'') = []"
    by code_simp+
  then show "guarded (promotion_guards (promoter ''t'') ''t'') run w = run w"
    "guarded (promotion_guards (promoter ''other'') ''other'') run w = run w" by (simp_all add: guarded_def)
qed

theorem approval_four_eyes_witness:
  "\<exists>p' w'. approve_promotion_endpoint (promoter ''t'') ''t'' 64 (promotion_world ''pending'' PENDING) = (Inr p', w') \<and>
     pr_approved_by p' = Some ''bob'' \<and> pr_status p' = ''promoting''"
proof -
  have ids: "parse_target_gateway_ids (JArr [JStr (uuid_str 1)]) = Inr [1]"
    by (simp add: parse_target_gateway_ids_def uuid_roundtrip List.map_filter_def)
  have "\<exists>p' w'. approve_promotion ''t'' 64 ''bob'' (promotion_world ''pending'' PENDING) = (Inr p', w')"
    by (simp add: approve_promotion_def get_promotion_by_id_and_tenant_def promotion_world_def protocol_world_def
        reviewed_promotion_def query_bind ids save_promotion_def put_promotions_def save_row_def promotion_clash_def bindA_def)
  then obtain p' w' where "approve_promotion_endpoint (promoter ''t'') ''t'' 64 (promotion_world ''pending'' PENDING) = (Inr p', w')"
    by (auto simp: approve_promotion_endpoint_def promoter_guards run_endpoint_ok) (simp add: promoter_def)
  with approval_four_eyes [OF this] show ?thesis by (auto simp: promoter_def)
qed

section \<open>Where completion and failure go too far\<close>

lemma found_promotion: "filter (\<lambda>p. pr_id p = i) t = [p] \<Longrightarrow> pr_id p = i \<and> p \<in> set t"
  by (metis (mono_tags) filter_eq_Cons_iff in_set_conv_decomp)

lemma replaced_in: "p \<in> set t \<Longrightarrow> key q = key p \<Longrightarrow> q \<in> set (replace_row key q t)"
  by (auto simp: replace_row_def image_iff)

lemma guarded_pass: "\<forall>c \<in> set checks. \<exists>x. c = Inr x \<Longrightarrow> guarded checks run w = run w"
proof -
  assume "\<forall>c \<in> set checks. \<exists>x. c = Inr x"
  then have "List.map_filter (\<lambda>c. case c of Inl exc \<Rightarrow> Some exc | Inr _ \<Rightarrow> None) checks = []"
    by (induction checks) (auto simp: List.map_filter_simps)
  then show ?thesis by (simp add: guarded_def)
qed

lemma save_promotion_run: "replaceable pr_id promotion_clash p (promotions w) \<Longrightarrow>
    save_promotion p w = (Inr p, w\<lparr>promotions := replace_row pr_id p (promotions w)\<rparr>)"
  by (simp add: save_promotion_def put_promotions_def save_row_replace bindA_def)

text \<open>
  C40. The completion endpoint checks the tenant of its path and not that of the promotion: whoever may promote
  APIs of any one tenant completes the promoting promotion of every tenant whose deployments are synced.
\<close>

theorem completed_across_tenants:
  assumes "\<forall>c \<in> set (promotion_guards user t). \<exists>x. c = Inr x"
    and "filter (\<lambda>p. pr_id p = i) (promotions w) = [p]" and "pr_status p = ''promoting''"
    and "filter (\<lambda>d. dep_promotion_id d = Some i) (deployments w) \<noteq> []"
    and "\<forall>d \<in> set (deployments w). dep_promotion_id d = Some i \<longrightarrow> dep_sync_status d = SYNCED"
  shows "\<exists>p' w'. complete_promotion_endpoint user t i w = (Inr p', w') \<and> pr_status p' = ''promoted'' \<and>
    pr_tenant_id p' = pr_tenant_id p \<and> p' \<in> set (promotions w')"
proof -
  have p: "p \<in> set (promotions w)" "pr_id p = i" using found_promotion [OF assms(2)] by simp_all
  let ?linked = "filter (\<lambda>d. dep_promotion_id d = Some i) (deployments w)"
  have linked: "list_all (\<lambda>d. sync_value (dep_sync_status d) = sync_value SYNCED) ?linked"
    using assms(5) by (simp add: list_all_iff)
  define target where "target = (case ?linked of [d] \<Rightarrow> Some (dep_id d) | _ \<Rightarrow> None)"
  have "completion_target i None w = (Inr target, w)"
    using assms(4) linked by (simp add: completion_target_def list_by_promotion_def target_def)
  note target = bindA_run [where m = "completion_target i None", OF this]
  let ?p = "p\<lparr>pr_status := ''promoted'', pr_target_deployment_id := target, pr_spec_diff := JNull,
      pr_completed_at := Some (clock w (ticks w))\<rparr>"
  have "replaceable pr_id promotion_clash ?p (promotions w)"
    by (auto simp: replaceable_def promotion_clash_def active_status_def)
  then have run: "complete_promotion i None JNull w =
      (Inr ?p, w\<lparr>ticks := Suc (ticks w), promotions := replace_row pr_id ?p (promotions w)\<rparr>)"
    by (simp add: complete_promotion_def get_promotion_by_id_def query_bind assms(2,3) target save_promotion_run)
  have "complete_promotion_endpoint user t i w =
      (Inr ?p, w\<lparr>ticks := Suc (ticks w), promotions := replace_row pr_id ?p (promotions w)\<rparr>)"
    unfolding complete_promotion_endpoint_def guarded_pass [OF assms(1)] run_endpoint_ok by (rule run)
  moreover have "?p \<in> set (replace_row pr_id ?p (promotions w))" by (rule replaced_in [OF p(1)]) simp
  ultimately show ?thesis by auto
qed

theorem completed_across_tenants_witness:
  "\<exists>p' w'. complete_promotion_endpoint (promoter ''other'') ''other'' 64 (promotion_world ''promoting'' SYNCED) = (Inr p', w') \<and>
     pr_tenant_id p' = ''t'' \<and> pr_status p' = ''promoted''"
proof -
  let ?w = "promotion_world ''promoting'' SYNCED"
  have "list_all (\<lambda>c. \<not> isl c) (promotion_guards (promoter ''other'') ''other'')" by code_simp
  then have "\<forall>c \<in> set (promotion_guards (promoter ''other'') ''other''). \<exists>x. c = Inr x"
    unfolding list_all_iff isl_def by (metis sum.exhaust)
  moreover have "filter (\<lambda>p. pr_id p = 64) (promotions ?w) = [reviewed_promotion ''promoting'']" "pr_tenant_id (reviewed_promotion s) = ''t''"
    "pr_status (reviewed_promotion s) = s" "filter (\<lambda>d. dep_promotion_id d = Some 64) (deployments ?w) \<noteq> []"
    "\<forall>d \<in> set (deployments ?w). dep_promotion_id d = Some 64 \<longrightarrow> dep_sync_status d = SYNCED" for s
    by (simp_all add: promotion_world_def reviewed_promotion_def)
  ultimately show ?thesis
    using completed_across_tenants [of "promoter ''other''" "''other''" 64 ?w "reviewed_promotion ''promoting''"] by auto
qed

text \<open>
  A promotion that was completed does not stay completed: when one of its deployments fails later and its
  gateway acknowledges, the check that follows marks the promoted (or rolled back) promotion as failed.
\<close>

theorem settled_promotion_fails:
  assumes "filter (\<lambda>p. pr_id p = i) (promotions w) = [p]"
    and "\<forall>d \<in> set (deployments w). dep_promotion_id d = Some i \<longrightarrow> dep_sync_status d \<notin> {PENDING, SYNCING}"
    and "d \<in> set (deployments w)" and "dep_promotion_id d = Some i" and "dep_sync_status d \<noteq> SYNCED"
  shows "\<exists>w'. check_promotion_completion i w = (Inr (), w') \<and>
    (\<exists>p' \<in> set (promotions w'). same_promotion p p' \<and> pr_status p' = ''failed'')"
proof -
  have p: "p \<in> set (promotions w)" "pr_id p = i" using found_promotion [OF assms(1)] by simp_all
  let ?linked = "filter (\<lambda>d. dep_promotion_id d = Some i) (deployments w)"
  let ?p = "p\<lparr>pr_status := ''failed'', pr_completed_at := Some (clock w (ticks w))\<rparr>"
  let ?w = "w\<lparr>ticks := Suc (ticks w), promotions := replace_row pr_id ?p (promotions w)\<rparr>"
  have linked: "?linked \<noteq> []" "\<not> list_ex (\<lambda>s. s \<in> {PENDING, SYNCING}) (map dep_sync_status ?linked)"
    "\<not> list_all (\<lambda>s. s = SYNCED) (map dep_sync_status ?linked)"
    using assms(2-5) by (auto simp: list_ex_iff list_all_iff filter_empty_conv)
  have "replaceable pr_id promotion_clash ?p (promotions w)"
    by (auto simp: replaceable_def promotion_clash_def active_status_def)
  then have "fail_promotion i w = (Inr ?p, ?w)"
    by (simp add: fail_promotion_def get_promotion_by_id_def query_bind assms(1) save_promotion_run)
  then have "catchA (bindA (fail_promotion i) (\<lambda>_. retA ())) is_value_error (\<lambda>_. retA ()) w = (Inr (), ?w)"
    by (simp add: catchA_def bindA_def)
  then have "check_promotion_completion i w = (Inr (), ?w)"
    unfolding check_promotion_completion_def list_by_promotion_def Let_def bindA_getA using linked by simp
  moreover have "?p \<in> set (promotions ?w)" by (simp, rule replaced_in [OF p(1)]) simp
  moreover have "same_promotion p ?p" by (simp add: same_promotion_def)
  moreover have "pr_status ?p = ''failed''" by simp
  ultimately show ?thesis by blast
qed

theorem settled_promotion_fails_witness:
  "\<exists>w'. check_promotion_completion 64 (promotion_world ''promoted'' ERROR) = (Inr (), w') \<and>
    (\<exists>p' \<in> set (promotions w'). pr_status p' = ''failed'')"
proof -
  let ?d = "new_sample_deployment\<lparr>dep_promotion_id := Some 64, dep_sync_status := ERROR\<rparr>"
  have "filter (\<lambda>p. pr_id p = 64) (promotions (promotion_world ''promoted'' ERROR)) = [reviewed_promotion ''promoted'']"
    "deployments (promotion_world ''promoted'' ERROR) = [?d]"
    by (simp_all add: promotion_world_def reviewed_promotion_def)
  with settled_promotion_fails [of 64 "promotion_world ''promoted'' ERROR" "reviewed_promotion ''promoted''" ?d] show ?thesis by auto
qed

end
