(* ===== verification/CatalogDefinition.thy ===== *)
theory CatalogDefinition
  imports Environments
begin

text \<open>
  \<open>services/catalog_api_definition.py\<close>: the two shapes of an \<open>api.yaml\<close> are brought into one flat shape,
  and the gateways an API is meant for are read off its many notations. (The environment labels of the
  module are in Environments.)
\<close>

section \<open>Normalisation\<close>

definition has_key :: "jdict \<Rightarrow> string \<Rightarrow> bool" where
  "has_key d k = (map_of d k \<noteq> None)"

definition first_present :: "jdict \<Rightarrow> string list \<Rightarrow> json option" where
  "first_present data keys = map_option (dget data) (find (has_key data) keys)"

text \<open>\<open>if key in spec: normalized[key] = spec[key]\<close>.\<close>

definition copied_key :: "jdict \<Rightarrow> string \<Rightarrow> jdict" where
  "copied_key spec key = (case map_of spec key of None \<Rightarrow> [] | Some v \<Rightarrow> [(key, v)])"

definition normalize_api_definition :: "jdict \<Rightarrow> jdict" where
  "normalize_api_definition raw_data =
     (if \<not> has_key raw_data ''apiVersion'' \<or> \<not> has_key raw_data ''kind'' then raw_data
      else let metadata = obj_of (dget raw_data ''metadata''); spec = obj_of (dget raw_data ''spec'');
               backend = obj_of (dget spec ''backend'');
               deployments = dget_def spec ''deployments'' (JObj [(''dev'', JBool False), (''staging'', JBool False)]);
               name = dget_def metadata ''name'' (JStr [])
           in [(''id'', name), (''name'', name),
               (''display_name'', dget_def spec ''displayName'' name),
               (''version'', dget_def metadata ''version'' (JStr ''1.0.0'')),
               (''description'', dget_def spec ''description'' (JStr [])),
               (''backend_url'', dget_def backend ''url'' (JStr [])),
               (''status'', dget_def spec ''status'' (JStr ''draft'')),
               (''category'', dget spec ''category''),
               (''tags'', dget_def spec ''tags'' (JArr [])),
               (''deployments'', if deployments = JNull then JObj [] else deployments)]
              @ (case first_present spec [''gateways'', ''gateway_targets'', ''deployment_targets''] of
                   None \<Rightarrow> [] | Some g \<Rightarrow> [(''gateways'', g)])
              @ concat (map (copied_key spec) [''audience'', ''documentation'', ''routing'', ''policies'']))"

lemma normalize_api_definition_flat: "\<not> has_key raw ''kind'' \<Longrightarrow> normalize_api_definition raw = raw"
  by (simp add: normalize_api_definition_def)

lemma normalize_api_definition_idem [simp]:
  "normalize_api_definition (normalize_api_definition raw) = normalize_api_definition raw"
proof (cases "has_key raw ''apiVersion'' \<and> has_key raw ''kind''")
  case True
  have "\<not> has_key (normalize_api_definition raw) ''kind''"
    using True by (simp add: normalize_api_definition_def has_key_def copied_key_def Let_def split: option.splits)
  then show ?thesis by (rule normalize_api_definition_flat)
qed (auto simp: normalize_api_definition_def)

section \<open>Deployment targets\<close>

record deployment_target =
  tgt_instance :: "string option"
  tgt_environment :: "string option"
  tgt_activated :: bool
  tgt_source :: string

abbreviation mk_target :: "string option \<Rightarrow> string option \<Rightarrow> bool \<Rightarrow> string \<Rightarrow> deployment_target" where
  "mk_target i e a s \<equiv> \<lparr>tgt_instance = i, tgt_environment = e, tgt_activated = a, tgt_source = s\<rparr>"

text \<open>\<open>a or b\<close> on optional strings.\<close>

definition or_opt :: "string option \<Rightarrow> string option \<Rightarrow> string option" where
  "or_opt a b = (if opt_truthy a then a else b)"

definition named_target :: "string option \<Rightarrow> string \<Rightarrow> string \<Rightarrow> deployment_target list" where
  "named_target default_environment src s =
     (let name = py_strip s in if name = [] then [] else [mk_target (Some name) default_environment True src])"

definition nonblank_string :: "json \<Rightarrow> string option" where
  "nonblank_string v = (case v of JStr s \<Rightarrow> if py_strip s = [] then None else Some (py_strip s) | _ \<Rightarrow> None)"

definition TARGET_NAME_KEYS :: "string list" where
  "TARGET_NAME_KEYS = [''instance'', ''name'', ''gateway'', ''gateway_name'', ''gatewayInstance'', ''gateway_instance'']"

definition target_name :: "jdict \<Rightarrow> string option" where
  "target_name data = (case List.map_filter (\<lambda>k. nonblank_string (dget data k)) TARGET_NAME_KEYS of
     [] \<Rightarrow> None | n # _ \<Rightarrow> Some n)"

definition ACTIVATION_KEYS :: "string list" where
  "ACTIVATION_KEYS = [''activated'', ''active'', ''enabled'', ''deployed'']"

definition coerce_activated :: "jdict \<Rightarrow> bool \<Rightarrow> bool" where
  "coerce_activated data by_default = (case find is_bool (map (dget data) ACTIVATION_KEYS) of
     Some (JBool b) \<Rightarrow> b | _ \<Rightarrow> by_default)"

definition has_activation_key :: "jdict \<Rightarrow> bool" where
  "has_activation_key data = list_ex (has_key data) ACTIVATION_KEYS"

definition NESTED_KEYS :: "string list" where
  "NESTED_KEYS = [''gateways'', ''gateway_targets'', ''deployment_targets'', ''instances'']"

definition looks_like_name_map :: "jdict \<Rightarrow> bool" where
  "looks_like_name_map data =
     (data \<noteq> [] \<and> \<not> list_ex (\<lambda>k. k \<in> set (''environment'' # ACTIVATION_KEYS @ NESTED_KEYS)) (map fst data))"

text \<open>The list under one of the nesting keys, when it is not \<open>None\<close>.\<close>

definition nested_targets :: "jdict \<Rightarrow> json option" where
  "nested_targets data = (case first_present data NESTED_KEYS of
     Some v \<Rightarrow> if v = JNull then None else Some v | None \<Rightarrow> None)"

text \<open>One item of a map from gateway names to configurations.\<close>

definition name_map_entry :: "string \<Rightarrow> json \<Rightarrow> jdict option" where
  "name_map_entry name config =
     (case config of
        JObj c \<Rightarrow> Some (dmerge [(''instance'', JStr name)] c)
      | JBool False \<Rightarrow> None
      | JNull \<Rightarrow> None
      | _ \<Rightarrow> Some [(''instance'', JStr name), (''activated'', JBool (truthy config))])"

fun jdepth :: "json \<Rightarrow> nat" where
  "jdepth (JArr xs) = Suc (foldr max (map jdepth xs) 0)"
| "jdepth (JObj d) = Suc (foldr max (map (\<lambda>(k, v). jdepth v) d) 0)"
| "jdepth _ = 0"

lemma foldr_max_le: "foldr max (ns :: nat list) 0 \<le> m \<longleftrightarrow> (\<forall>n \<in> set ns. n \<le> m)"
  by (induction ns) auto

lemma foldr_max_ge: "n \<in> set ns \<Longrightarrow> n \<le> foldr max (ns :: nat list) 0"
  by (induction ns) (auto simp: le_max_iff_disj)

lemma jdepth_item: "x \<in> set xs \<Longrightarrow> jdepth x < jdepth (JArr xs)"
  by (simp add: less_Suc_eq_le foldr_max_ge)

lemma jdepth_value: "(k, v) \<in> set d \<Longrightarrow> jdepth v < jdepth (JObj d)"
  by (force simp: less_Suc_eq_le intro!: foldr_max_ge)

lemma set_dset: "set (dset k v d) \<subseteq> insert (k, v) (set d)"
  by (induction d) auto

lemma set_dmerge: "set (dmerge a b) \<subseteq> set a \<union> set b"
proof (induction b arbitrary: a)
  case (Cons p b)
  obtain k v where p: "p = (k, v)" by (cases p)
  show ?case using Cons [of "dset k v a"] set_dset [of k v a] by (auto simp: p)
qed simp

lemma jdepth_entry:
  assumes "name_map_entry name config = Some e"
  shows "jdepth (JObj e) \<le> max 1 (jdepth config)"
    and "\<not> is_obj config \<Longrightarrow> jdepth (JObj e) = 1 \<and> \<not> looks_like_name_map e"
proof -
  have "jdepth (JObj e) \<le> jdepth config" if c: "config = JObj c" for c
  proof -
    from assms c have e: "e = dmerge [(''instance'', JStr name)] c" by (simp add: name_map_entry_def)
    have "jdepth v \<le> foldr max (map (\<lambda>(k, v). jdepth v) c) 0" if "(k, v) \<in> set e" for k v
    proof -
      from that set_dmerge [of "[(''instance'', JStr name)]" c] e have "v = JStr name \<or> (k, v) \<in> set c" by auto
      then show ?thesis using jdepth_value [of k v c] by (auto simp: less_Suc_eq_le)
    qed
    then show ?thesis by (auto simp: c foldr_max_le)
  qed
  moreover have flat: "jdepth (JObj e) = 1 \<and> \<not> looks_like_name_map e" if "\<not> is_obj config"
    using assms that by (cases config)
      (auto simp: name_map_entry_def looks_like_name_map_def ACTIVATION_KEYS_def split: bool.splits)
  ultimately show "jdepth (JObj e) \<le> max 1 (jdepth config)"
    by (cases config) fastforce+
  show "\<not> is_obj config \<Longrightarrow> jdepth (JObj e) = 1 \<and> \<not> looks_like_name_map e" by (rule flat)
qed

lemma nested_depth: "nested_targets data = Some v \<Longrightarrow> jdepth v < jdepth (JObj data)"
proof -
  assume "nested_targets data = Some v"
  then obtain k where "has_key data k" and v: "v = dget data k"
    by (auto simp: nested_targets_def first_present_def find_Some_iff split: option.splits if_splits)
  then have "(k, v) \<in> set data" by (auto simp: has_key_def dget_def dest: map_of_SomeD)
  then show ?thesis by (rule jdepth_value)
qed

text \<open>
  The recursion goes down in the document, except that the items of a name map become entries of the same
  depth; those are no name maps again.
\<close>

function (sequential) parse_targets_block :: "string option \<Rightarrow> string \<Rightarrow> json \<Rightarrow> deployment_target list"
  and parse_target_entry :: "string option \<Rightarrow> string \<Rightarrow> json \<Rightarrow> deployment_target list" where
  "parse_targets_block default_environment src (JStr s) = named_target default_environment src s"
| "parse_targets_block default_environment src (JArr xs) =
     concat (map (parse_target_entry default_environment src) xs)"
| "parse_targets_block default_environment src (JObj data) =
     (let env = or_opt (normalize_environment (dget data ''environment'')) default_environment;
          activated = coerce_activated data True
      in case nested_targets data of
           Some nested \<Rightarrow>
             map (\<lambda>t. mk_target (tgt_instance t) (or_opt (tgt_environment t) env)
                    (if has_activation_key data then activated else tgt_activated t) (tgt_source t))
               (parse_targets_block env src nested)
         | None \<Rightarrow>
             (case target_name data of
                Some explicit_name \<Rightarrow> [mk_target (Some explicit_name) env activated src]
              | None \<Rightarrow>
                  if looks_like_name_map data then
                    concat (map (\<lambda>(name, config). case name_map_entry name config of
                        None \<Rightarrow> []
                      | Some entry \<Rightarrow> parse_target_entry default_environment src (JObj entry)) data)
                  else []))"
| "parse_targets_block default_environment src _ = []"
| "parse_target_entry default_environment src (JStr s) = named_target default_environment src s"
| "parse_target_entry default_environment src (JObj entry) =
     (if dget entry ''enabled'' = JBool False \<or> dget entry ''deployed'' = JBool False then []
      else parse_targets_block default_environment src (JObj entry))"
| "parse_target_entry default_environment src _ = []"
  by pat_completeness auto

definition block_measure :: "json \<Rightarrow> nat" where
  "block_measure v = 4 * jdepth v + (case v of JObj d \<Rightarrow> if looks_like_name_map d then 2 else 0 | _ \<Rightarrow> 0)"

lemma block_measure_deeper: "jdepth v < jdepth v' \<Longrightarrow> Suc (block_measure v) < block_measure v'"
  by (auto simp: block_measure_def split: json.splits)

lemma block_measure_entry:
  assumes "looks_like_name_map data" and "(name, config) \<in> set data" and "name_map_entry name config = Some e"
  shows "Suc (block_measure (JObj e)) < block_measure (JObj data)"
proof (cases "is_obj config")
  case True
  then have "1 \<le> jdepth config" by (cases config) auto
  with jdepth_entry(1) [OF assms(3)] jdepth_value [OF assms(2)]
  have "jdepth (JObj e) < jdepth (JObj data)" by linarith
  then show ?thesis by (rule block_measure_deeper)
next
  case False
  from jdepth_entry(2) [OF assms(3) this] assms(1) show ?thesis by (simp add: block_measure_def)
qed

termination parse_targets_block
  by (relation "measure (case_sum (\<lambda>(e, s, v). block_measure v) (\<lambda>(e, s, v). Suc (block_measure v)))")
    (auto dest!: jdepth_item nested_depth intro: block_measure_entry Suc_lessD block_measure_deeper)

fun parse_deployments_block :: "json \<Rightarrow> deployment_target list" where
  "parse_deployments_block (JObj d) =
     concat (map (\<lambda>(env_name, env_config).
       let env = normalize_environment (JStr env_name)
       in case env_config of
            JBool False \<Rightarrow> []
          | JNull \<Rightarrow> []
          | JBool True \<Rightarrow> [mk_target None env True ''deployments'']
          | _ \<Rightarrow> parse_targets_block env ''deployments'' env_config) d)"
| "parse_deployments_block _ = []"

definition target_key :: "deployment_target \<Rightarrow> string option \<times> string option" where
  "target_key t = (tgt_instance t, tgt_environment t)"

fun dedupe_from :: "(string option \<times> string option) list \<Rightarrow> deployment_target list \<Rightarrow> deployment_target list" where
  "dedupe_from seen [] = []"
| "dedupe_from seen (t # ts) =
     (if target_key t \<in> set seen then dedupe_from seen ts else t # dedupe_from (target_key t # seen) ts)"

definition dedupe_targets :: "deployment_target list \<Rightarrow> deployment_target list" where
  "dedupe_targets targets = dedupe_from [] targets"

definition extract_deployment_targets :: "jdict \<Rightarrow> deployment_target list" where
  "extract_deployment_targets raw_api =
     (let api = normalize_api_definition raw_api
      in dedupe_targets (parse_targets_block None ''gateways'' (dget api ''gateways'') @
           parse_deployments_block (dget api ''deployments'')))"

definition extract_target_gateway_names :: "jdict \<Rightarrow> string list" where
  "extract_target_gateway_names raw_api =
     add_unseen [] (filter (\<lambda>n. n \<noteq> []) (List.map_filter tgt_instance (extract_deployment_targets raw_api)))"

end
