(* ===== verification/CatalogPaths.thy ===== *)
theory CatalogPaths
  imports Models CatalogDefinition
begin

text \<open>
  The identities of the Git catalog: the canonical path of an API (\<open>gitops_writer/paths.py\<close>), who is
  served by the Git-first writer (\<open>eligibility.py\<close>), the content hash and the advisory lock of an API
  (\<open>hashing.py\<close>, \<open>advisory_lock.py\<close>), and the classes of catalog rows that were written before Git became
  the source (\<open>catalog_reconciler/classifier.py\<close>).

  \<open>$\<close> of a Python pattern also matches before a trailing newline, which is kept here.
\<close>

section \<open>Paths\<close>

definition is_hex :: "char \<Rightarrow> bool" where
  "is_hex c = (hex_value c \<noteq> None)"

definition drop_final_newline :: "string \<Rightarrow> string" where
  "drop_final_newline s = (if s \<noteq> [] \<and> last s = CHR 0x0A then butlast s else s)"

definition is_uuid_shaped :: "string \<Rightarrow> bool" where
  "is_uuid_shaped s = (let parts = split_on (CHR ''-'') (drop_final_newline s)
     in map length parts = [8, 4, 4, 4, 12] \<and> list_all (list_all is_hex) parts)"

definition unsafe_segment :: "string \<Rightarrow> string \<Rightarrow> string" where
  "unsafe_segment name segment = ''unsafe path segment for '' @ name @ '': '' @ repr_str segment"

definition validate_slug_segment :: "string \<Rightarrow> string \<Rightarrow> error + unit" where
  "validate_slug_segment segment name =
     (if segment = [] then Inl (ValueError (name @ '' must be non-empty''))
      else if CHR ''/'' \<in> set segment \<or> CHR '' '' \<in> set segment then Inl (ValueError (unsafe_segment name segment))
      else if sublist ''..'' segment \<or> py_startswith segment ''.'' then Inl (ValueError (unsafe_segment name segment))
      else Inr ())"

definition canonical_catalog_path :: "string \<Rightarrow> string \<Rightarrow> error + string" where
  "canonical_catalog_path tenant_id api_name =
     (case validate_slug_segment tenant_id ''tenant_id'' of Inl e \<Rightarrow> Inl e | Inr _ \<Rightarrow>
      (case validate_slug_segment api_name ''api_name'' of Inl e \<Rightarrow> Inl e | Inr _ \<Rightarrow>
       if is_uuid_shaped api_name then Inl (ValueError (''api_name UUID-shaped not allowed: '' @ repr_str api_name @
         ''. Violates '' @ [CHR 0xA7] @ ''6.4 (no PK leak into git_path). See CAB-2187 (B10).''))
       else if is_uuid_shaped tenant_id then Inl (ValueError (''tenant_id UUID-shaped not allowed: '' @ repr_str tenant_id @
         ''. Violates '' @ [CHR 0xA7] @ ''6.4 (no PK leak into git_path).''))
       else Inr (''tenants/'' @ tenant_id @ ''/apis/'' @ api_name @ ''/api.yaml'')))"

text \<open>\<open>_CANONICAL_PATH_PATTERN.match\<close>: the two groups.\<close>

definition match_canonical_path :: "string \<Rightarrow> (string \<times> string) option" where
  "match_canonical_path git_path =
     (case split_on (CHR ''/'') git_path of
        [a, tenant_id, b, api_name, c] \<Rightarrow>
          if a = ''tenants'' \<and> b = ''apis'' \<and> c \<in> {''api.yaml'', ''api.yaml'' @ [CHR 0x0A]} \<and> tenant_id \<noteq> [] \<and> api_name \<noteq> []
          then Some (tenant_id, api_name) else None
      | _ \<Rightarrow> None)"

definition parse_canonical_path :: "string \<Rightarrow> error + string \<times> string" where
  "parse_canonical_path git_path =
     (case match_canonical_path git_path of
        None \<Rightarrow> Inl (ValueError (''non-canonical catalog path: '' @ repr_str git_path))
      | Some (tenant_id, api_name) \<Rightarrow>
          if is_uuid_shaped tenant_id \<or> is_uuid_shaped api_name
          then Inl (ValueError (''UUID-shaped segment in path: tenant_id='' @ repr_str tenant_id @ '', api_name='' @
                 repr_str api_name @ ''. See '' @ [CHR 0xA7] @ ''6.4 + CAB-2187 (B10).''))
          else Inr (tenant_id, api_name))"

lemma split_on_five:
  assumes "c \<notin> set x" and "c \<notin> set t" and "c \<notin> set y" and "c \<notin> set a" and "c \<notin> set f"
  shows "split_on c (x @ c # t @ c # y @ c # a @ c # f) = [x, t, y, a, f]"
  using assms by (simp add: split_on_append split_on_whole)

lemma split_canonical:
  assumes "CHR ''/'' \<notin> set t" and "CHR ''/'' \<notin> set a" and "CHR ''/'' \<notin> set f"
  shows "split_on (CHR ''/'') (''tenants/'' @ t @ ''/apis/'' @ a @ ''/'' @ f) = [''tenants'', t, ''apis'', a, f]"
  using split_on_five [of "CHR ''/''" "''tenants''" t "''apis''" a f] assms by simp

lemma match_canonical_path_iff:
  "match_canonical_path p = Some (t, a) \<longleftrightarrow>
     (\<exists>f \<in> {''api.yaml'', ''api.yaml'' @ [CHR 0x0A]}. p = ''tenants/'' @ t @ ''/apis/'' @ a @ ''/'' @ f) \<and>
     t \<noteq> [] \<and> a \<noteq> [] \<and> CHR ''/'' \<notin> set t \<and> CHR ''/'' \<notin> set a"
proof
  assume "match_canonical_path p = Some (t, a)"
  then obtain f where s: "split_on (CHR ''/'') p = [''tenants'', t, ''apis'', a, f]"
    and f: "f \<in> {''api.yaml'', ''api.yaml'' @ [CHR 0x0A]}" and ne: "t \<noteq> []" "a \<noteq> []"
    by (auto simp: match_canonical_path_def split: list.splits if_splits)
  have "p = py_join [CHR ''/''] (split_on (CHR ''/'') p)" by (simp add: join_split)
  with s f have "\<exists>f \<in> {''api.yaml'', ''api.yaml'' @ [CHR 0x0A]}. p = ''tenants/'' @ t @ ''/apis/'' @ a @ ''/'' @ f" by auto
  moreover from s split_on_parts [of t "CHR ''/''" p] split_on_parts [of a "CHR ''/''" p]
  have "CHR ''/'' \<notin> set t" "CHR ''/'' \<notin> set a" by auto
  ultimately show "(\<exists>f \<in> {''api.yaml'', ''api.yaml'' @ [CHR 0x0A]}. p = ''tenants/'' @ t @ ''/apis/'' @ a @ ''/'' @ f) \<and>
     t \<noteq> [] \<and> a \<noteq> [] \<and> CHR ''/'' \<notin> set t \<and> CHR ''/'' \<notin> set a" using ne by blast
next
  assume r: "(\<exists>f \<in> {''api.yaml'', ''api.yaml'' @ [CHR 0x0A]}. p = ''tenants/'' @ t @ ''/apis/'' @ a @ ''/'' @ f) \<and>
     t \<noteq> [] \<and> a \<noteq> [] \<and> CHR ''/'' \<notin> set t \<and> CHR ''/'' \<notin> set a"
  then obtain f where f: "f \<in> {''api.yaml'', ''api.yaml'' @ [CHR 0x0A]}" and p: "p = ''tenants/'' @ t @ ''/apis/'' @ a @ ''/'' @ f"
    by blast
  from f have "CHR ''/'' \<notin> set f" by auto
  with r have "split_on (CHR ''/'') p = [''tenants'', t, ''apis'', a, f]" unfolding p by (intro split_canonical) simp_all
  with r f show "match_canonical_path p = Some (t, a)" by (simp add: match_canonical_path_def)
qed

lemma parse_canonical_ok:
  "parse_canonical_path p = Inr (t, a) \<longleftrightarrow>
     match_canonical_path p = Some (t, a) \<and> \<not> is_uuid_shaped t \<and> \<not> is_uuid_shaped a"
  by (auto simp: parse_canonical_path_def split: option.splits)

lemma validate_slug_segment_ok:
  "validate_slug_segment s n = Inr u \<longleftrightarrow> s \<noteq> [] \<and> CHR ''/'' \<notin> set s \<and> CHR '' '' \<notin> set s \<and> \<not> sublist ''..'' s \<and>
     \<not> py_startswith s ''.''"
  by (auto simp: validate_slug_segment_def)

lemma canonical_catalog_path_ok:
  "canonical_catalog_path t a = Inr p \<longleftrightarrow>
     validate_slug_segment t ''tenant_id'' = Inr () \<and> validate_slug_segment a ''api_name'' = Inr () \<and>
     \<not> is_uuid_shaped t \<and> \<not> is_uuid_shaped a \<and> p = ''tenants/'' @ t @ ''/apis/'' @ a @ ''/api.yaml''"
  by (auto simp: canonical_catalog_path_def split: sum.splits)

lemma canonical_then_parse: "canonical_catalog_path t a = Inr p \<Longrightarrow> parse_canonical_path p = Inr (t, a)"
  by (auto simp: canonical_catalog_path_ok validate_slug_segment_ok parse_canonical_ok match_canonical_path_iff)

text \<open>Every UUID that the program prints is recognised.\<close>

lemma hex_digit_hex: "d < 16 \<Longrightarrow> is_hex (hex_digit d)"
  by (simp add: is_hex_def hex_value_digit)

lemma hex_fixed_hex: "list_all is_hex (hex_fixed k n)"
  by (induction k arbitrary: n) (simp_all add: hex_digit_hex)

lemma uuid_str_shaped: "is_uuid_shaped (uuid_str u)"
proof -
  let ?h = "hex_fixed 32 (unat u)"
  have hex: "list_all is_hex ?h" by (rule hex_fixed_hex)
  have no: "CHR ''-'' \<notin> set ?h" using set_hex_fixed [of "CHR ''-''"] by blast
  have nl: "\<not> is_hex (CHR 0x0A)" by code_simp
  have last: "last (uuid_str u) \<noteq> CHR 0x0A"
  proof -
    have "drop 20 ?h \<noteq> []" by simp
    moreover from this have "last (uuid_str u) = last (drop 20 ?h)" by (simp add: uuid_str_def hyphenate_def)
    ultimately have "last (uuid_str u) \<in> set ?h" by (metis in_set_dropD last_in_set)
    with hex nl show ?thesis by (auto simp: list_all_iff)
  qed
  have sub: "CHR ''-'' \<notin> set (take m (drop k ?h))" "CHR ''-'' \<notin> set (drop k ?h)" "CHR ''-'' \<notin> set (take m ?h)" for m k
    using no by (auto dest: in_set_takeD in_set_dropD)
  have "split_on (CHR ''-'') (uuid_str u) =
      [take 8 ?h, take 4 (drop 8 ?h), take 4 (drop 12 ?h), take 4 (drop 16 ?h), drop 20 ?h]"
    by (simp add: uuid_str_def hyphenate_def split_on_append split_on_whole sub)
  moreover have "list_all is_hex (take m (drop k ?h))" "list_all is_hex (drop k ?h)" "list_all is_hex (take m ?h)" for m k
    using hex by (auto simp: list_all_iff dest: in_set_takeD in_set_dropD)
  ultimately show ?thesis using last by (simp add: is_uuid_shaped_def drop_final_newline_def)
qed

section \<open>Eligibility, hash and lock\<close>

definition is_gitops_create_eligible :: "bool \<Rightarrow> string \<Rightarrow> string list \<Rightarrow> bool" where
  "is_gitops_create_eligible enabled tenant_id eligible_tenants =
     (let eligible = map py_strip (filter (\<lambda>t. t \<noteq> [] \<and> py_strip t \<noteq> []) eligible_tenants)
      in enabled \<and> (''*'' \<in> set eligible \<or> tenant_id \<in> set eligible))"

definition compute_catalog_content_hash :: "host \<Rightarrow> string \<Rightarrow> string" where
  "compute_catalog_content_hash hst api_yaml = sha256_hex hst api_yaml"

text \<open>The first eight bytes of the digest as a signed integer.\<close>

definition advisory_lock_key :: "host \<Rightarrow> string \<Rightarrow> string \<Rightarrow> int" where
  "advisory_lock_key hst tenant_id api_id =
     (let digest = sha256_hex hst (''stoa:gitops:'' @ tenant_id @ '':'' @ api_id)
      in sint (word_of_nat (case unhex 0 (take 16 digest) of None \<Rightarrow> 0 | Some n \<Rightarrow> n) :: 64 word))"

lemma advisory_lock_key_bounds: "- (2 ^ 63) \<le> advisory_lock_key hst t a \<and> advisory_lock_key hst t a < 2 ^ 63"
  using sint_range_size [of "word_of_nat (case unhex 0 (take 16 (sha256_hex hst (''stoa:gitops:'' @ t @ '':'' @ a))) of
      None \<Rightarrow> 0 | Some n \<Rightarrow> n) :: 64 word"]
  by (simp add: advisory_lock_key_def Let_def word_size)

section \<open>Classes of legacy rows\<close>

datatype legacy_category = HEALTHY_ADOPTABLE | UUID_HARD_DRIFT | ORPHAN_DB | PRE_GITOPS | GITOPS_CREATED | ABSENT

fun category_value :: "legacy_category \<Rightarrow> string" where
  "category_value HEALTHY_ADOPTABLE = ''A''"
| "category_value UUID_HARD_DRIFT = ''B''"
| "category_value ORPHAN_DB = ''C''"
| "category_value PRE_GITOPS = ''D''"
| "category_value GITOPS_CREATED = ''gitops_created''"
| "category_value ABSENT = ''absent''"

definition git_path_uuid_shaped :: "string option \<Rightarrow> bool" where
  "git_path_uuid_shaped git_path =
     (opt_truthy git_path \<and>
      (let parts = split_on (CHR ''/'') (rev (dropWhile (\<lambda>c. c = CHR ''/'') (rev (or_str git_path []))))
       in 2 \<le> length parts \<and> is_uuid_shaped (parts ! (length parts - 2))))"

text \<open>The columns of a row that the classification reads.\<close>

record legacy_row =
  lr_api_id :: string
  lr_git_path :: "string option"
  lr_git_commit_sha :: "string option"
  lr_catalog_content_hash :: "string option"

definition legacy_row_of :: "api_catalog \<Rightarrow> legacy_row" where
  "legacy_row_of c = \<lparr>lr_api_id = cat_api_id c, lr_git_path = cat_git_path c, lr_git_commit_sha = cat_git_commit_sha c,
     lr_catalog_content_hash = cat_catalog_content_hash c\<rparr>"

definition classify_legacy :: "legacy_row option \<Rightarrow> bool \<Rightarrow> legacy_category" where
  "classify_legacy actual_row git_file_exists =
     (case actual_row of
        None \<Rightarrow> ABSENT
      | Some r \<Rightarrow>
          if is_uuid_shaped (lr_api_id r) \<or> git_path_uuid_shaped (lr_git_path r) then UUID_HARD_DRIFT
          else if lr_git_path r = None \<and> lr_git_commit_sha r = None then PRE_GITOPS
          else if lr_git_path r \<noteq> None \<and> \<not> git_file_exists then ORPHAN_DB
          else if lr_catalog_content_hash r \<noteq> None \<and> lr_git_commit_sha r \<noteq> None \<and> git_file_exists then GITOPS_CREATED
          else if git_file_exists then HEALTHY_ADOPTABLE
          else ORPHAN_DB)"

text \<open>The categories that neither the writer nor the reconciler repairs.\<close>

definition legacy_blocked :: "legacy_category \<Rightarrow> bool" where
  "legacy_blocked c = (c \<in> {UUID_HARD_DRIFT, ORPHAN_DB, PRE_GITOPS})"

end
