(* ===== verification/CatalogProjection.thy ===== *)
theory CatalogProjection
  imports CatalogPaths LifecycleRepository
begin

text \<open>
  From an \<open>api.yaml\<close> to the row of the catalog (\<open>catalog_reconciler/projection.py\<close>): the document is
  rendered into the columns that Git owns, and the projection writes exactly these, into a new row or into
  the row that already has the identity. Columns of others (the portal flag, the target gateways, the
  lifecycle part of the metadata) stay.

  When a row is adopted under a new API id, the promotions that name the old one follow. (The statements for
  the tables of legacy deployments, subscriptions, credentials and traces are left out with these tables.)
\<close>

section \<open>Rendering\<close>

record catalog_projection =
  cp_tenant_id :: string
  cp_api_id :: string
  cp_api_name :: string
  cp_version :: string
  cp_status :: string
  cp_category :: "string option"
  cp_tags :: "string list"
  cp_portal_published :: bool
  cp_audience :: string
  cp_api_metadata :: jdict
  cp_git_path :: string
  cp_git_commit_sha :: string
  cp_catalog_content_hash :: string
  cp_openapi_spec :: json

definition DEFAULT_AUDIENCE :: string where "DEFAULT_AUDIENCE = ''public''"
definition DEFAULT_STATUS :: string where "DEFAULT_STATUS = ''active''"

text \<open>\<open>type(v).__name__\<close>.\<close>

fun py_type_name :: "json \<Rightarrow> string" where
  "py_type_name JNull = ''NoneType''"
| "py_type_name (JBool b) = ''bool''"
| "py_type_name (JInt i) = ''int''"
| "py_type_name (JFloat r) = ''float''"
| "py_type_name (JStr s) = ''str''"
| "py_type_name (JArr xs) = ''list''"
| "py_type_name (JObj d) = ''dict''"

definition coerce_tags :: "json \<Rightarrow> error + string list" where
  "coerce_tags raw = (case raw of
     JNull \<Rightarrow> Inr []
   | JArr xs \<Rightarrow> Inr (map py_str xs)
   | _ \<Rightarrow> Inl (ValueError (''tags must be a list, got '' @ py_type_name raw)))"

text \<open>A field that must be a non-empty string, and one that falls back when it is not.\<close>

definition required_string :: "json \<Rightarrow> string \<Rightarrow> error + string" where
  "required_string v message = (case v of
     JStr s \<Rightarrow> if s = [] then Inl (ValueError message) else Inr s
   | _ \<Rightarrow> Inl (ValueError message))"

definition string_or :: "json \<Rightarrow> string \<Rightarrow> string" where
  "string_or v d = (case v of JStr s \<Rightarrow> if s = [] then d else s | _ \<Rightarrow> d)"

text \<open>The identity of a document at its path: \<open>(tenant, name)\<close>.\<close>

definition catalog_identity :: "string \<Rightarrow> jdict \<Rightarrow> error + string \<times> string" where
  "catalog_identity git_path content =
     (case parse_canonical_path git_path of Inl e \<Rightarrow> Inl e | Inr (tenant_id, api_name_from_path) \<Rightarrow>
      if \<not> has_key content ''name'' then Inl (ValueError (''api.yaml missing required field '' @ sq ''name''))
      else case required_string (dget content ''name'')
          (''api.yaml '' @ sq ''name'' @ '' must be a non-empty string, got '' @ py_repr (dget content ''name'')) of
        Inl e \<Rightarrow> Inl e
      | Inr name \<Rightarrow>
          if name \<noteq> api_name_from_path then Inl (ValueError (''name mismatch: api.yaml '' @ sq ''name'' @ ''='' @ repr_str name @
            '' != git_path slug '' @ repr_str api_name_from_path @ ''. Spec '' @ [CHR 0xA7] @ ''6.10.''))
          else if dget_def content ''id'' (JStr name) \<noteq> JStr name then Inl (ValueError (''id != name: api.yaml '' @ sq ''id'' @ ''='' @
            py_repr (dget content ''id'') @ '', '' @ sq ''name'' @ ''='' @ repr_str name @ ''. Spec '' @ [CHR 0xA7] @ ''6.10.''))
          else if is_uuid_shaped name then Inl (ValueError (''api_name UUID-shaped not allowed: '' @ repr_str name @
            ''. Spec '' @ [CHR 0xA7] @ ''6.4 (CAB-2187 B10).''))
          else Inr (tenant_id, name))"

definition optional_category :: "json \<Rightarrow> error + string option" where
  "optional_category v = (case v of
     JNull \<Rightarrow> Inr None
   | JStr s \<Rightarrow> Inr (Some s)
   | _ \<Rightarrow> Inl (ValueError (''api.yaml '' @ sq ''category'' @ '' must be a string when present'')))"

definition optional_description :: "json \<Rightarrow> error + string" where
  "optional_description v = (case v of
     JNull \<Rightarrow> Inr []
   | JStr s \<Rightarrow> Inr s
   | _ \<Rightarrow> Inl (ValueError (''api.yaml '' @ sq ''description'' @ '' must be a string when present'')))"

definition optional_deployments :: "json \<Rightarrow> error + jdict" where
  "optional_deployments v = (case v of
     JNull \<Rightarrow> Inr []
   | JObj d \<Rightarrow> Inr d
   | _ \<Rightarrow> Inl (ValueError (''api.yaml '' @ sq ''deployments'' @ '' must be an object when present'')))"

text \<open>Sequencing of results.\<close>

definition bindE :: "'e + 'a \<Rightarrow> ('a \<Rightarrow> 'e + 'b) \<Rightarrow> 'e + 'b" where
  "bindE r k = (case r of Inl e \<Rightarrow> Inl e | Inr x \<Rightarrow> k x)"

lemma bindE_Inr: "bindE r k = Inr y \<longleftrightarrow> (\<exists>x. r = Inr x \<and> k x = Inr y)"
  by (cases r) (simp_all add: bindE_def)

lemma bindE_simps [simp]: "bindE (Inr x) k = k x" "bindE (Inl e) k' = Inl e"
  by (simp_all add: bindE_def)

definition projected_metadata ::
    "string \<Rightarrow> string \<Rightarrow> string \<Rightarrow> string \<Rightarrow> string \<Rightarrow> string \<Rightarrow> jdict \<Rightarrow> string list \<Rightarrow> string option \<Rightarrow> string \<Rightarrow> jdict" where
  "projected_metadata name display_name version description backend_url status targets tags category audience =
     [(''name'', JStr name), (''display_name'', JStr display_name), (''version'', JStr version),
      (''description'', JStr description), (''backend_url'', JStr backend_url), (''status'', JStr status),
      (''deployments'', JObj targets), (''tags'', JArr (map JStr tags))]
     @ (if opt_truthy category then [(''category'', opt_str category)] else [])
     @ (if audience \<noteq> [] then [(''audience'', JStr audience)] else [])"

definition render_api_catalog_projection ::
    "jdict \<Rightarrow> string \<Rightarrow> string \<Rightarrow> string \<Rightarrow> json \<Rightarrow> error + catalog_projection" where
  "render_api_catalog_projection parsed git_commit_sha catalog_content_hash git_path openapi_spec =
     (let parsed_content = normalize_api_definition parsed
      in bindE (catalog_identity git_path parsed_content) (\<lambda>(tenant_id, name).
         bindE (required_string (dget parsed_content ''version'') (''api.yaml '' @ sq ''version'' @ '' must be a non-empty string'')) (\<lambda>version.
         bindE (required_string (dget_def parsed_content ''status'' (JStr DEFAULT_STATUS))
                 (''api.yaml '' @ sq ''status'' @ '' must be a non-empty string when present'')) (\<lambda>status.
         bindE (optional_category (dget parsed_content ''category'')) (\<lambda>category.
         bindE (coerce_tags (dget parsed_content ''tags'')) (\<lambda>raw_tags.
         let tags = fst (strip_legacy_portal_publication_tags (map JStr raw_tags));
             audience = string_or (dget_def parsed_content ''audience'' (JStr DEFAULT_AUDIENCE)) DEFAULT_AUDIENCE
         in bindE (required_string (dget parsed_content ''backend_url'')
                 (''api.yaml '' @ sq ''backend_url'' @ '' must be a non-empty string'')) (\<lambda>backend_url.
         let display_name = string_or (dget_def parsed_content ''display_name'' (JStr name)) name
         in bindE (optional_description (dget_def parsed_content ''description'' (JStr []))) (\<lambda>description.
         bindE (optional_deployments (dget_def parsed_content ''deployments'' (JObj []))) (\<lambda>targets.
         Inr \<lparr>cp_tenant_id = tenant_id, cp_api_id = name, cp_api_name = name, cp_version = version, cp_status = status,
              cp_category = category, cp_tags = tags, cp_portal_published = False, cp_audience = audience,
              cp_api_metadata = projected_metadata name display_name version description backend_url status
                targets tags category audience,
              cp_git_path = git_path, cp_git_commit_sha = git_commit_sha,
              cp_catalog_content_hash = catalog_content_hash, cp_openapi_spec = openapi_spec\<rparr>)))))))))"

section \<open>Comparing\<close>

definition metadata_preserving_lifecycle :: "jdict \<Rightarrow> json \<Rightarrow> jdict" where
  "metadata_preserving_lifecycle projected existing =
     (if is_obj existing \<and> is_obj (dget (obj_of existing) ''lifecycle'')
      then dset ''lifecycle'' (dget (obj_of existing) ''lifecycle'') projected else projected)"

definition without_lifecycle_metadata :: "json \<Rightarrow> json" where
  "without_lifecycle_metadata metadata = (case metadata of
     JObj d \<Rightarrow> JObj (filter (\<lambda>(k, v). k \<noteq> ''lifecycle'') d) | _ \<Rightarrow> metadata)"

definition row_matches_projection :: "api_catalog \<Rightarrow> catalog_projection \<Rightarrow> bool" where
  "row_matches_projection row expected \<longleftrightarrow>
     cat_tenant_id row = cp_tenant_id expected \<and> cat_api_id row = cp_api_id expected \<and>
     cat_api_name row = cp_api_name expected \<and> cat_version row = cp_version expected \<and>
     cat_status row = cp_status expected \<and> cat_category row = cp_category expected \<and>
     cat_tags row = cp_tags expected \<and> cat_audience row = cp_audience expected \<and>
     jeq (without_lifecycle_metadata (JObj (metadata_of row))) (without_lifecycle_metadata (JObj (cp_api_metadata expected))) \<and>
     cat_git_path row = Some (cp_git_path expected) \<and> cat_git_commit_sha row = Some (cp_git_commit_sha expected) \<and>
     cat_catalog_content_hash row = Some (cp_catalog_content_hash expected) \<and>
     jeq (cat_openapi_spec row) (cp_openapi_spec expected)"

section \<open>Writing\<close>

definition projected_row :: "catalog_projection \<Rightarrow> uuid \<Rightarrow> datetime \<Rightarrow> api_catalog" where
  "projected_row p fresh now =
     \<lparr>cat_id = fresh, cat_tenant_id = cp_tenant_id p, cat_api_id = cp_api_id p, cat_api_name = cp_api_name p,
      cat_version = cp_version p, cat_status = cp_status p, cat_category = cp_category p, cat_tags = cp_tags p,
      cat_portal_published = False, cat_audience = cp_audience p, cat_api_metadata = JObj (cp_api_metadata p),
      cat_openapi_spec = cp_openapi_spec p, cat_git_path = Some (cp_git_path p),
      cat_git_commit_sha = Some (cp_git_commit_sha p), cat_catalog_content_hash = Some (cp_catalog_content_hash p),
      cat_catalog_release_id = None, cat_catalog_release_tag = None, cat_catalog_pr_url = None,
      cat_catalog_pr_number = None, cat_catalog_source_branch = None, cat_catalog_merge_commit_sha = None,
      cat_target_gateways = [], cat_synced_at = now, cat_deleted_at = None\<rparr>"

definition updated_row :: "catalog_projection \<Rightarrow> api_catalog \<Rightarrow> api_catalog" where
  "updated_row p existing =
     existing\<lparr>cat_api_id := cp_api_id p, cat_api_name := cp_api_name p, cat_version := cp_version p,
       cat_status := cp_status p, cat_category := cp_category p, cat_tags := cp_tags p, cat_audience := cp_audience p,
       cat_api_metadata := JObj (metadata_preserving_lifecycle (cp_api_metadata p) (cat_api_metadata existing)),
       cat_openapi_spec := cp_openapi_spec p, cat_git_path := Some (cp_git_path p),
       cat_git_commit_sha := Some (cp_git_commit_sha p), cat_catalog_content_hash := Some (cp_catalog_content_hash p)\<rparr>"

text \<open>
  The \<open>UPDATE\<close> of the promotions: the condition is read on the table before the statement. An active promotion
  whose place under the new id is taken keeps the old id.
\<close>

definition moved_promotion :: "promotion list \<Rightarrow> string \<Rightarrow> string \<Rightarrow> string \<Rightarrow> promotion \<Rightarrow> promotion" where
  "moved_promotion t tenant_id old_api_id new_api_id p =
     (if pr_tenant_id p = tenant_id \<and> pr_api_id p = old_api_id \<and>
         \<not> (active_status (pr_status p) \<and> list_ex (\<lambda>d. pr_api_id d = new_api_id \<and>
              pr_target_environment d = pr_target_environment p \<and> active_status (pr_status d)) t)
      then p\<lparr>pr_api_id := new_api_id\<rparr> else p)"

definition canonicalize_soft_api_references :: "string \<Rightarrow> string \<Rightarrow> string \<Rightarrow> unit action" where
  "canonicalize_soft_api_references tenant_id old_api_id new_api_id =
     whenA (old_api_id \<noteq> new_api_id)
       (modA (\<lambda>w. w\<lparr>promotions := map (moved_promotion (promotions w) tenant_id old_api_id new_api_id) (promotions w)\<rparr>))"

text \<open>The row of the identity, or else the row of the same name and version.\<close>

definition find_projected :: "catalog_projection \<Rightarrow> api_catalog option action" where
  "find_projected p =
     bindA (get_api_by_id (cp_tenant_id p) (cp_api_id p)) (\<lambda>existing. case existing of
       Some row \<Rightarrow> retA (Some row)
     | None \<Rightarrow> get_api_by_name_version (cp_tenant_id p) (cp_api_name p) (cp_version p))"

definition project_to_api_catalog :: "catalog_projection \<Rightarrow> unit action" where
  "project_to_api_catalog p =
     bindA (find_projected p) (\<lambda>existing. case existing of
       None \<Rightarrow>
         bindA uuid4A (\<lambda>fresh. bindA nowA (\<lambda>now.
         bindA (create_api_catalog (projected_row p fresh now)) (\<lambda>_. retA ())))
     | Some row \<Rightarrow>
         bindA (canonicalize_soft_api_references (cp_tenant_id p) (cat_api_id row) (cp_api_id p)) (\<lambda>_.
         bindA (save_api_catalog (updated_row p row)) (\<lambda>_. retA ())))"

end
