(* ===== verification/CatalogDeployment.thy ===== *)
theory CatalogDeployment
  imports CatalogProjection RouteSync
begin

text \<open>
  \<open>CatalogDeploymentReconciler\<close> (\<open>services/catalog_deployment_reconciler.py\<close>): the targets that an
  \<open>api.yaml\<close> declares become rows of the deployment table. A target names a gateway, or an environment whose
  automatic assignments (\<open>repositories/api_gateway_assignment.py\<close>) say which gateways are meant.

  \<open>self_registered\<close> is the choice of \<open>get_self_registered_by_hostname\<close> among the gateways, as in RouteSync.
\<close>

definition list_auto_deploy :: "uuid \<Rightarrow> string \<Rightarrow> api_gateway_assignment list action" where
  "list_auto_deploy api_id environment = getA (\<lambda>w. filter (\<lambda>a. aga_api_id a = api_id \<and> aga_auto_deploy a \<and>
     aga_environment a \<in> set (deployment_environment_aliases (JStr environment))) (assignments w))"

definition resolve_gateway ::
    "(string \<Rightarrow> gateway_instance list \<Rightarrow> gateway_instance option) \<Rightarrow> string \<Rightarrow> gateway_instance option action" where
  "resolve_gateway self_registered inst =
     bindA (get_gateway_by_name inst) (\<lambda>gateway. case gateway of
       Some g \<Rightarrow> retA (Some g)
     | None \<Rightarrow> getA (\<lambda>w. self_registered inst (gateways w)))"

definition gateway_fits :: "gateway_instance \<Rightarrow> deployment_target \<Rightarrow> bool" where
  "gateway_fits g t = environment_matches (JStr (gi_environment g)) (opt_str (tgt_environment t))"

definition resolve_assignment_gateways :: "api_catalog \<Rightarrow> deployment_target \<Rightarrow> gateway_instance list action" where
  "resolve_assignment_gateways catalog_entry target =
     (if \<not> opt_truthy (tgt_environment target) then retA []
      else bindA (list_auto_deploy (cat_id catalog_entry) (or_str (tgt_environment target) [])) (\<lambda>as.
        bindA (forA as (\<lambda>a. bindA (get_gateway_by_id (aga_gateway_id a)) (\<lambda>gateway. retA (case gateway of
            None \<Rightarrow> [] | Some g \<Rightarrow> if gateway_fits g target then [g] else [])))) (\<lambda>found.
        retA (concat found))))"

definition targeted_state :: "jdict \<Rightarrow> bool \<Rightarrow> string \<Rightarrow> string option \<Rightarrow> string \<Rightarrow> jdict" where
  "targeted_state base activated name environment source = dmerge base
     [(''activated'', JBool activated), (''target_gateway_name'', JStr name),
      (''target_environment'', opt_str environment), (''target_source'', JStr source)]"

definition upsert_deployment :: "api_catalog \<Rightarrow> gateway_instance \<Rightarrow> jdict \<Rightarrow> bool action" where
  "upsert_deployment catalog_entry gateway desired_state =
     bindA (get_by_api_and_gateway (cat_id catalog_entry) (gi_id gateway)) (\<lambda>existing.
     bindA nowA (\<lambda>now. case existing of
       Some e \<Rightarrow>
         if jeq (dep_desired_state e) (JObj desired_state) then retA False
         else bindA (save_gateway_deployment (redeploy_direct e desired_state now)) (\<lambda>_. retA True)
     | None \<Rightarrow>
         bindA uuid4A (\<lambda>fresh.
         bindA (create_gateway_deployment
           (new_deployment_row fresh (cat_id catalog_entry) (gi_id gateway) desired_state None now)) (\<lambda>_. retA True))))"

text \<open>One turn of the loop over the targets: whether a row was written.\<close>

definition reconcile_target ::
    "(string \<Rightarrow> gateway_instance list \<Rightarrow> gateway_instance option) \<Rightarrow> api_catalog \<Rightarrow> jdict \<Rightarrow> deployment_target \<Rightarrow> bool action" where
  "reconcile_target self_registered catalog_entry base target =
     (if \<not> opt_truthy (tgt_instance target) then
        bindA (resolve_assignment_gateways catalog_entry target) (\<lambda>assigned_gateways.
        bindA (forA assigned_gateways (\<lambda>g. upsert_deployment catalog_entry g
          (targeted_state base (tgt_activated target) (gi_name g) (Some (gi_environment g)) ''assignment''))) (\<lambda>written.
        retA (True \<in> set written)))
      else let inst = or_str (tgt_instance target) [] in
        bindA (resolve_gateway self_registered inst) (\<lambda>gateway. case gateway of
          None \<Rightarrow> retA False
        | Some g \<Rightarrow>
            if \<not> gateway_fits g target then retA False
            else upsert_deployment catalog_entry g
              (targeted_state base (tgt_activated target) inst (tgt_environment target) (tgt_source target))))"

definition reconcile_api ::
    "host \<Rightarrow> (string \<Rightarrow> gateway_instance list \<Rightarrow> gateway_instance option) \<Rightarrow> string \<Rightarrow> string \<Rightarrow> jdict \<Rightarrow> api_catalog option \<Rightarrow> bool action" where
  "reconcile_api hst self_registered tenant_id api_id api_content catalog_entry =
     (let api = normalize_api_definition api_content;
          targets = extract_deployment_targets api;
          desired_target_names = extract_target_gateway_names api
      in if targets = [] \<and> desired_target_names = [] then retA False
         else bindA (case catalog_entry of Some entry \<Rightarrow> retA (Some entry) | None \<Rightarrow> get_api_by_id tenant_id api_id) (\<lambda>found.
           case found of None \<Rightarrow> retA False
           | Some entry \<Rightarrow>
               let renamed = (cat_target_gateways entry \<noteq> desired_target_names) in
               bindA (whenA renamed (bindA (save_api_catalog (entry\<lparr>cat_target_gateways := desired_target_names\<rparr>)) (\<lambda>_. retA ()))) (\<lambda>_.
               bindA (forA targets (reconcile_target self_registered entry (build_desired_state hst entry))) (\<lambda>written.
               retA (renamed \<or> True \<in> set written)))))"

end
