(* ===== verification/CatalogGit.thy ===== *)
theory CatalogGit
  imports CatalogPaths
begin

text \<open>
  The Git client of the catalog (\<open>services/catalog_git_client/\<close>): the value objects of \<open>models.py\<close> and the
  operations of \<open>GitHubContentsCatalogClient\<close> over the calls it makes to PyGithub. PyGithub and the service
  behind it are not part of the repository: the record \<open>pygithub\<close> takes its calls as parameters over an
  unknown remote state, which other writers may change during any call. A call may raise whatever the library
  raises; \<open>GithubException\<close> carries the HTTP status that the client looks at.

  A file is its text, whose encoding is not modelled. \<open>run_sync\<close> only moves a call to a thread.
\<close>

section \<open>Value objects: models.py\<close>

record remote_file =
  rf_path :: string
  rf_content :: string
  rf_sha :: string

record remote_file_metadata =
  rm_path :: string
  rm_sha :: string
  rm_commit_sha :: "string option"

record remote_commit =
  rc_commit_sha :: string
  rc_file_sha :: string
  rc_path :: string

record remote_pull_request =
  rp_number :: int
  rp_url :: string
  rp_source_branch :: string
  rp_target_branch :: string
  rp_state :: string
  rp_merge_commit_sha :: "string option"

record remote_tag =
  rt_name :: string
  rt_target_sha :: string
  rt_url :: "string option"

section \<open>The library\<close>

text \<open>
  What \<open>get_contents\<close> returns, a reference (type and sha of its object, its url), an entry of a tree (path,
  type, sha), and the attributes of a pull request that the client reads.
\<close>

datatype gh_content = GhFile string string | GhDirectory

record gh_pull =
  ghp_number :: int
  ghp_url :: string
  ghp_state :: string
  ghp_merged :: bool
  ghp_merge_commit_sha :: "string option"
  ghp_head :: "string option"
  ghp_base :: "string option"

record 'g pygithub =
  default_branch :: string
  get_contents :: "string \<Rightarrow> string \<Rightarrow> ('g, error, gh_content) act"
  create_file :: "string \<Rightarrow> string \<Rightarrow> string \<Rightarrow> string \<Rightarrow> ('g, error, string \<times> string) act"
  update_file :: "string \<Rightarrow> string \<Rightarrow> string \<Rightarrow> string \<Rightarrow> string \<Rightarrow> ('g, error, string \<times> string) act"
  get_git_ref :: "string \<Rightarrow> ('g, error, string \<times> string \<times> string option) act"
  create_git_ref :: "string \<Rightarrow> string \<Rightarrow> ('g, error, string option) act"
  get_branch_sha :: "string \<Rightarrow> ('g, error, string) act"
  create_pull :: "string \<Rightarrow> string \<Rightarrow> string \<Rightarrow> string \<Rightarrow> ('g, error, gh_pull) act"
  get_pull :: "int \<Rightarrow> ('g, error, gh_pull) act"
  merge_pull :: "int \<Rightarrow> ('g, error, string option) act"
  get_git_tag :: "string \<Rightarrow> ('g, error, string) act"
  create_git_tag :: "string \<Rightarrow> string \<Rightarrow> string \<Rightarrow> ('g, error, string) act"
  get_commits :: "string \<Rightarrow> string \<Rightarrow> ('g, error, string list) act"
  get_git_tree :: "string \<Rightarrow> ('g, error, (string \<times> string \<times> string) list) act"

definition github_status :: "error \<Rightarrow> int option" where
  "github_status e = (case e of GithubException status m \<Rightarrow> Some status | _ \<Rightarrow> None)"

section \<open>The actor of a commit\<close>

definition ACTOR_MAX_LEN :: nat where
  "ACTOR_MAX_LEN = 120"

definition py_isprintable :: "char \<Rightarrow> bool" where
  "py_isprintable c = (let n = code_point c in (32 \<le> n \<and> n < 127) \<or> (160 < n \<and> n \<noteq> 173))"

definition sanitize_actor :: "string \<Rightarrow> string" where
  "sanitize_actor actor =
     (if actor = [] then ''<unknown>''
      else let cleaned = py_strip (filter (\<lambda>c. c = CHR '' '' \<or> py_isprintable c \<and> c \<notin> {CHR 0x0D, CHR 0x0A}) actor)
           in if cleaned = [] then ''<unknown>'' else take ACTOR_MAX_LEN cleaned)"

section \<open>Reading\<close>

definition git_get :: "'g pygithub \<Rightarrow> string \<Rightarrow> ('g, error, remote_file option) act" where
  "git_get gh path =
     bindA (catchA (bindA (get_contents gh path (default_branch gh)) (\<lambda>c. retA (Some c)))
        (\<lambda>e. github_status e = Some 404) (\<lambda>_. retA None)) (\<lambda>found. case found of
       None \<Rightarrow> retA None
     | Some GhDirectory \<Rightarrow> raiseA (ValueError (path @ '' resolves to a directory, not a file''))
     | Some (GhFile content sha) \<Rightarrow> retA (Some \<lparr>rf_path = path, rf_content = content, rf_sha = sha\<rparr>))"

definition read_at_commit :: "'g pygithub \<Rightarrow> string \<Rightarrow> string \<Rightarrow> ('g, error, string option) act" where
  "read_at_commit gh path commit_sha =
     bindA (catchA (bindA (get_contents gh path commit_sha) (\<lambda>c. retA (Some c)))
        (\<lambda>e. github_status e = Some 404) (\<lambda>_. retA None)) (\<lambda>found. case found of
       None \<Rightarrow> retA None
     | Some GhDirectory \<Rightarrow>
         raiseA (ValueError (path @ '' resolves to a directory, not a file at '' @ commit_sha))
     | Some (GhFile content sha) \<Rightarrow> retA (Some content))"

definition latest_file_commit :: "'g pygithub \<Rightarrow> string \<Rightarrow> ('g, error, string) act" where
  "latest_file_commit gh path =
     bindA (get_commits gh (default_branch gh) path) (\<lambda>commits. case commits of
       [] \<Rightarrow> raiseA (FileNotFoundError (''no commits touch '' @ path @ '' on '' @ default_branch gh))
     | sha # _ \<Rightarrow> retA sha)"

text \<open>
  \<open>fnmatch.fnmatch\<close> for the patterns in use, whose only special character is the star; it matches any text,
  slashes too.
\<close>

fun glob_match :: "string \<Rightarrow> string \<Rightarrow> bool" where
  "glob_match [] s = (s = [])"
| "glob_match (p # ps) s =
     (if p = CHR ''*'' then list_ex (glob_match ps) (suffixes s)
      else case s of [] \<Rightarrow> False | c # cs \<Rightarrow> p = c \<and> glob_match ps cs)"

definition list_file_metadata :: "'g pygithub \<Rightarrow> string \<Rightarrow> ('g, error, remote_file_metadata list) act" where
  "list_file_metadata gh glob_pattern =
     catchA
       (bindA (get_git_ref gh (''heads/'' @ default_branch gh)) (\<lambda>(_, head_sha, _).
        bindA (get_git_tree gh head_sha) (\<lambda>tree.
        retA (List.map_filter (\<lambda>(path, ty, sha).
          if ty = ''blob'' \<and> glob_match glob_pattern path
          then Some \<lparr>rm_path = path, rm_sha = sha, rm_commit_sha = Some head_sha\<rparr> else None) tree))))
       (\<lambda>e. github_status e = Some 404) (\<lambda>_. retA [])"

definition git_list :: "'g pygithub \<Rightarrow> string \<Rightarrow> ('g, error, string list) act" where
  "git_list gh glob_pattern =
     catchA
       (bindA (get_git_ref gh (''heads/'' @ default_branch gh)) (\<lambda>(_, head_sha, _).
        bindA (get_git_tree gh head_sha) (\<lambda>tree.
        retA (List.map_filter (\<lambda>(path, ty, sha).
          if ty = ''blob'' \<and> glob_match glob_pattern path then Some path else None) tree))))
       (\<lambda>e. github_status e = Some 404) (\<lambda>_. retA [])"

section \<open>Writing\<close>

text \<open>409 and 422 of the contents API are a lost compare-and-set.\<close>

definition create_or_update ::
    "'g pygithub \<Rightarrow> string \<Rightarrow> string \<Rightarrow> string option \<Rightarrow> string \<Rightarrow> string \<Rightarrow> string option \<Rightarrow> ('g, error, remote_commit) act" where
  "create_or_update gh path content expected_sha actor message branch =
     (let target_branch = or_str branch (default_branch gh);
          full_message = message @ [CHR 0x0A, CHR 0x0A] @ ''Actor: '' @ sanitize_actor actor
      in catchA
        (bindA (case expected_sha of
             None \<Rightarrow> create_file gh path full_message content target_branch
           | Some sha \<Rightarrow> update_file gh path full_message content sha target_branch) (\<lambda>(commit_sha, file_sha).
         retA \<lparr>rc_commit_sha = commit_sha, rc_file_sha = file_sha, rc_path = path\<rparr>))
        (\<lambda>e. github_status e \<in> {Some 409, Some 422})
        (\<lambda>e. raiseA (CatalogShaConflictError path expected_sha
           (case github_status e of None \<Rightarrow> 0 | Some s \<Rightarrow> s) (''SHA mismatch on '' @ path @ '': '' @ err_text e))))"

definition create_branch :: "'g pygithub \<Rightarrow> string \<Rightarrow> ('g, error, string) act" where
  "create_branch gh name =
     bindA (catchA
       (bindA (get_git_ref gh (''heads/'' @ default_branch gh)) (\<lambda>(_, base_sha, _).
        bindA (create_git_ref gh (''refs/heads/'' @ name) base_sha) (\<lambda>_. retA ())))
       (\<lambda>e. github_status e = Some 422) (\<lambda>_. retA ())) (\<lambda>_.
     get_branch_sha gh name)"

definition create_pull_request ::
    "'g pygithub \<Rightarrow> string \<Rightarrow> string \<Rightarrow> string \<Rightarrow> ('g, error, remote_pull_request) act" where
  "create_pull_request gh title body source_branch =
     bindA (create_pull gh title body source_branch (default_branch gh)) (\<lambda>pr.
     retA \<lparr>rp_number = ghp_number pr, rp_url = ghp_url pr, rp_source_branch = source_branch,
           rp_target_branch = default_branch gh, rp_state = ghp_state pr,
           rp_merge_commit_sha = ghp_merge_commit_sha pr\<rparr>)"

definition merge_pull_request :: "'g pygithub \<Rightarrow> int \<Rightarrow> ('g, error, remote_pull_request) act" where
  "merge_pull_request gh number =
     bindA (get_pull gh number) (\<lambda>pr.
     bindA (if ghp_merged pr then retA None else merge_pull gh number) (\<lambda>merge_sha.
     bindA (get_pull gh number) (\<lambda>merged.
     retA \<lparr>rp_number = ghp_number merged, rp_url = ghp_url merged, rp_source_branch = or_str (ghp_head merged) [],
           rp_target_branch = (case ghp_base merged of None \<Rightarrow> default_branch gh | Some b \<Rightarrow> b),
           rp_state = (if ghp_merged merged then ''merged'' else ghp_state merged),
           rp_merge_commit_sha = or_opt (ghp_merge_commit_sha merged) merge_sha\<rparr>)))"

text \<open>The reference of the tag; an annotated tag is resolved to the commit it points to.\<close>

definition create_tag :: "'g pygithub \<Rightarrow> string \<Rightarrow> string \<Rightarrow> string \<Rightarrow> ('g, error, remote_tag) act" where
  "create_tag gh name target_sha message =
     bindA (catchA
       (bindA (get_git_ref gh (''tags/'' @ name)) (\<lambda>(ty, sha, url).
        bindA (if ty = ''tag'' then get_git_tag gh sha else retA sha) (\<lambda>existing_target_sha.
        retA (Some (existing_target_sha, url)))))
       (\<lambda>e. github_status e = Some 404) (\<lambda>_. retA None)) (\<lambda>existing. case existing of
       Some (existing_target_sha, url) \<Rightarrow>
         if existing_target_sha = target_sha
         then retA \<lparr>rt_name = name, rt_target_sha = target_sha, rt_url = url\<rparr>
         else raiseA (ValueError (''tag '' @ repr_str name @ '' already exists and points to '' @ existing_target_sha))
     | None \<Rightarrow>
         bindA (create_git_tag gh name message target_sha) (\<lambda>tag_sha.
         bindA (create_git_ref gh (''refs/tags/'' @ name) tag_sha) (\<lambda>url.
         retA \<lparr>rt_name = name, rt_target_sha = target_sha, rt_url = url\<rparr>)))"

end
