(* ===== verification/GitopsWriter.thy ===== *)
theory GitopsWriter
  imports CatalogGit CatalogProjection
begin

text \<open>
  The Git-first creation of an API (\<open>services/gitops_writer/writer.py\<close>, \<open>models.py\<close>): the \<open>api.yaml\<close> of the
  payload (\<open>services/catalog/write_api_yaml.py\<close>) is committed to the catalog repository, read back at that
  commit, and projected into the database. The state is the database, the remote repository, the advisory
  locks that other sessions hold, and the sync statuses that the code reports.
\<close>

section \<open>State\<close>

text \<open>Paths, file contents, digests and user names are all strings; the signatures below say which is meant.\<close>

type_synonym repo_path = string
type_synonym yaml_text = string
type_synonym digest = string
type_synonym actor_name = string

record sync_report =
  sy_tenant_id :: string
  sy_api_id :: string
  sy_status :: string
  sy_git_commit_sha :: "string option"
  sy_catalog_content_hash :: "string option"
  sy_git_path :: "string option"
  sy_last_error :: "string option"

record 'g gitops =
  go_db :: world
  go_git :: 'g
  go_locks :: "int list"
  go_reports :: "sync_report list"

type_synonym ('g, 'a) gitops_action = "('g gitops, error, 'a) act"

definition dbA :: "'a action \<Rightarrow> ('g, 'a) gitops_action" where
  "dbA m = (\<lambda>s. case m (go_db s) of (r, w) \<Rightarrow> (r, s\<lparr>go_db := w\<rparr>))"

definition gitA :: "('g, error, 'a) act \<Rightarrow> ('g, 'a) gitops_action" where
  "gitA m = (\<lambda>s. case m (go_git s) of (r, g) \<Rightarrow> (r, s\<lparr>go_git := g\<rparr>))"

definition log_sync_status :: "sync_report \<Rightarrow> ('g, unit) gitops_action" where
  "log_sync_status r = modA (\<lambda>s. s\<lparr>go_reports := go_reports s @ [r]\<rparr>)"

section \<open>Payload and documents\<close>

record catalog_release_ref =
  cr_release_id :: string
  cr_tag_name :: string
  cr_source_branch :: string
  cr_pull_request_url :: string
  cr_pull_request_number :: int
  cr_merge_commit_sha :: string

record api_create_payload =
  ap_api_name :: string
  ap_display_name :: string
  ap_version :: string
  ap_backend_url :: string
  ap_description :: string
  ap_category :: "string option"
  ap_tags :: "string list"
  ap_openapi_spec :: json

record create_api_result =
  cres_api_id :: string
  cres_git_path :: string
  cres_git_commit_sha :: string
  cres_catalog_content_hash :: string
  cres_case :: string
  cres_catalog_release :: "catalog_release_ref option"

text \<open>\<open>render_api_yaml\<close> with the default status and deployments; the document, and its text.\<close>

definition api_yaml_document ::
    "string \<Rightarrow> string \<Rightarrow> string \<Rightarrow> string \<Rightarrow> string option \<Rightarrow> string option \<Rightarrow> string list \<Rightarrow> jdict" where
  "api_yaml_document api_name version backend_url display_name description category tags =
     [(''id'', JStr api_name), (''name'', JStr api_name),
      (''display_name'', JStr (if display_name = [] then api_name else display_name)), (''version'', JStr version),
      (''backend_url'', JStr backend_url), (''status'', JStr ''active''),
      (''deployments'', JObj [(''dev'', JBool True), (''staging'', JBool False)])]
     @ (if opt_truthy description then [(''description'', opt_str description)] else [])
     @ (if opt_truthy category then [(''category'', opt_str category)] else [])
     @ (if tags \<noteq> [] then [(''tags'', JArr (map JStr tags))] else [])"

definition render_api_yaml ::
    "host \<Rightarrow> string \<Rightarrow> string \<Rightarrow> string \<Rightarrow> string \<Rightarrow> string \<Rightarrow> string option \<Rightarrow> string option \<Rightarrow> string list \<Rightarrow> error + string" where
  "render_api_yaml hst tenant_id api_name version backend_url display_name description category tags =
     (if is_uuid_shaped api_name then Inl (ValueError (''api_name UUID-shaped not allowed: '' @ repr_str api_name @
        ''. Spec '' @ [CHR 0xA7] @ ''6.4 (CAB-2187 B10).''))
      else if api_name = [] then Inl (ValueError ''api_name must be non-empty'')
      else if tenant_id = [] then Inl (ValueError ''tenant_id must be non-empty'')
      else if version = [] then Inl (ValueError ''version must be non-empty'')
      else if backend_url = [] then Inl (ValueError ''backend_url must be non-empty'')
      else Inr (yaml_safe_dump hst
             (JObj (api_yaml_document api_name version backend_url display_name description category tags))))"

definition generated_openapi_spec :: "api_create_payload \<Rightarrow> jdict" where
  "generated_openapi_spec p =
     (let title = (if ap_display_name p = [] then ap_api_name p else ap_display_name p)
      in [(''openapi'', JStr ''3.0.3''),
          (''info'', JObj ([(''title'', JStr title),
             (''version'', JStr (if ap_version p = [] then ''1.0.0'' else ap_version p))]
             @ (if ap_description p \<noteq> [] then [(''description'', JStr (ap_description p))] else []))),
          (''servers'', JArr [JObj [(''url'', JStr (ap_backend_url p))]]),
          (''paths'', JObj [(''/'', JObj [(''get'', JObj
             [(''summary'', JStr (title @ '' root endpoint'')),
              (''responses'', JObj [(''200'', JObj
                 [(''description'', JStr ''Successful response''),
                  (''content'', JObj [(''application/json'', JObj
                     [(''schema'', JObj [(''type'', JStr ''object'')])])])])]),
              (''x-stoa-generated'', JBool True)])])])])"

definition openapi_spec_for_payload :: "api_create_payload \<Rightarrow> json" where
  "openapi_spec_for_payload p =
     (if truthy (ap_openapi_spec p) then ap_openapi_spec p else JObj (generated_openapi_spec p))"

definition render_openapi_yaml :: "host \<Rightarrow> json \<Rightarrow> string" where
  "render_openapi_yaml hst spec = yaml_safe_dump hst spec"

section \<open>Names of releases\<close>

definition release_char :: "char \<Rightarrow> bool" where
  "release_char c = (let n = code_point c in (65 \<le> n \<and> n \<le> 90) \<or> (97 \<le> n \<and> n \<le> 122) \<or> (48 \<le> n \<and> n \<le> 57) \<or>
     c \<in> {CHR ''.'', CHR ''_'', CHR ''-''})"

text \<open>\<open>re.sub(r"[^A-Za-z0-9._-]+", "-", s)\<close>: a run of other characters becomes one hyphen.\<close>

fun sub_release :: "string \<Rightarrow> string" where
  "sub_release [] = []"
| "sub_release [c] = (if release_char c then [c] else ''-'')"
| "sub_release (c # d # s) =
     (if release_char c then c # sub_release (d # s)
      else if release_char d then CHR ''-'' # sub_release (d # s) else sub_release (d # s))"

definition release_segment :: "string \<Rightarrow> string" where
  "release_segment s =
     (let cleaned = strip_by (\<lambda>c. c = CHR ''-'') (sub_release (py_strip s))
      in take 63 (if cleaned = [] then ''unknown'' else cleaned))"

definition release_name :: "string \<Rightarrow> string \<Rightarrow> string \<Rightarrow> string \<Rightarrow> string" where
  "release_name tenant_id api_name version sha =
     ''stoa/api/'' @ release_segment tenant_id @ ''/'' @ release_segment api_name @ ''/v'' @ release_segment version @
     ''/'' @ take 12 sha"

definition catalog_release_id :: "host \<Rightarrow> string \<Rightarrow> string \<Rightarrow> string \<Rightarrow> string \<Rightarrow> string" where
  "catalog_release_id hst tenant_id api_name version merge_commit_sha =
     ''catalog-release:'' @ take 24 (sha256_hex hst (tenant_id @ '':'' @ api_name @ '':'' @ version @ '':'' @ merge_commit_sha))"

section \<open>Steps of the flow\<close>

text \<open>A failing read of the old file counts as its absence.\<close>

definition check_legacy_collision :: "'g pygithub \<Rightarrow> string \<Rightarrow> string \<Rightarrow> ('g, unit) gitops_action" where
  "check_legacy_collision gh tenant_id api_name =
     bindA (dbA (getA (\<lambda>w. filter (\<lambda>c. cat_tenant_id c = tenant_id \<and> cat_api_id c = api_name \<and> cat_deleted_at c = None)
        (catalogs w)))) (\<lambda>rows. case rows of
       [] \<Rightarrow> retA ()
     | row # _ \<Rightarrow>
         bindA (case cat_git_path row of
             None \<Rightarrow> retA False
           | Some p \<Rightarrow> catchA (bindA (gitA (git_get gh p)) (\<lambda>remote. retA (remote \<noteq> None))) (\<lambda>_. True) (\<lambda>_. retA False))
           (\<lambda>git_file_exists.
         let category = classify_legacy (Some (legacy_row_of row)) git_file_exists in
         if legacy_blocked category then
           raiseA (LegacyCollisionError tenant_id api_name (category_value category)
             (Some (''row api_id='' @ repr_str (cat_api_id row) @ '' git_path='' @
               (case cat_git_path row of None \<Rightarrow> ''None'' | Some p \<Rightarrow> repr_str p))))
         else retA ()))"

definition MAX_RACE_RETRIES :: nat where
  "MAX_RACE_RETRIES = 3"

definition create_message :: "string \<Rightarrow> string \<Rightarrow> string" where
  "create_message tenant_id api_name = ''create api '' @ tenant_id @ ''/'' @ api_name"

text \<open>Case B or C for a file that is there.\<close>

definition compare_remote ::
    "host \<Rightarrow> 'g pygithub \<Rightarrow> repo_path \<Rightarrow> digest \<Rightarrow> string \<Rightarrow> string \<Rightarrow> remote_file \<Rightarrow> ('g, error, string) act" where
  "compare_remote hst gh git_path attempted_hash tenant_id api_name existing =
     (let existing_hash = compute_catalog_content_hash hst (rf_content existing)
      in if existing_hash = attempted_hash then latest_file_commit gh git_path
         else raiseA (GitOpsConflictError tenant_id api_name existing_hash attempted_hash))"

text \<open>The loop over the attempts, from the number that is left.\<close>

fun commit_or_noop ::
    "host \<Rightarrow> 'g pygithub \<Rightarrow> repo_path \<Rightarrow> yaml_text \<Rightarrow> digest \<Rightarrow> actor_name \<Rightarrow> string \<Rightarrow> string \<Rightarrow> nat \<Rightarrow> ('g, error, string \<times> string) act" where
  "commit_or_noop hst gh git_path api_yaml attempted_hash actor tenant_id api_name 0 =
     raiseA (GitOpsRaceExhaustedError tenant_id api_name MAX_RACE_RETRIES)"
| "commit_or_noop hst gh git_path api_yaml attempted_hash actor tenant_id api_name (Suc left) =
     bindA (git_get gh git_path) (\<lambda>existing. case existing of
       Some file \<Rightarrow>
         bindA (compare_remote hst gh git_path attempted_hash tenant_id api_name file) (\<lambda>sha. retA (sha, ''idempotent''))
     | None \<Rightarrow>
         bindA (catchA (bindA (create_or_update gh git_path api_yaml None actor (create_message tenant_id api_name) None)
             (\<lambda>commit. retA (Some (rc_commit_sha commit)))) is_sha_conflict (\<lambda>_. retA None)) (\<lambda>committed.
         case committed of
           Some sha \<Rightarrow> retA (sha, ''created'')
         | None \<Rightarrow> commit_or_noop hst gh git_path api_yaml attempted_hash actor tenant_id api_name left))"

definition commit_openapi_spec ::
    "'g pygithub \<Rightarrow> repo_path \<Rightarrow> yaml_text \<Rightarrow> actor_name \<Rightarrow> string \<Rightarrow> string \<Rightarrow> ('g, error, unit) act" where
  "commit_openapi_spec gh openapi_git_path openapi_yaml actor tenant_id api_name =
     bindA (git_get gh openapi_git_path) (\<lambda>existing.
       if map_option rf_content existing = Some openapi_yaml then retA ()
       else bindA (create_or_update gh openapi_git_path openapi_yaml (map_option rf_sha existing) actor
           (''update openapi spec '' @ tenant_id @ ''/'' @ api_name) None) (\<lambda>_. retA ()))"

text \<open>The pull request route: branch, commits, pull request, merge, tag.\<close>

definition line :: "string \<Rightarrow> string" where
  "line s = s @ [CHR 0x0A]"

definition release_from_branch ::
    "host \<Rightarrow> 'g pygithub \<Rightarrow> repo_path \<Rightarrow> digest \<Rightarrow> string \<Rightarrow> string \<Rightarrow> string \<Rightarrow> string \<Rightarrow> ('g, error, catalog_release_ref) act" where
  "release_from_branch hst gh git_path attempted_hash tenant_id api_name version source_branch =
     bindA (create_pull_request gh (''catalog: release '' @ tenant_id @ ''/'' @ api_name @ '' v'' @ version)
        (line (line ''Automated STOA catalog release.'') @ line (''- tenant_id: '' @ tenant_id) @
         line (''- api_id: '' @ api_name) @ line (''- api_version: '' @ version) @ line (''- git_path: '' @ git_path) @
         line (''- catalog_content_hash: '' @ attempted_hash)) source_branch) (\<lambda>pr.
     bindA (merge_pull_request gh (rp_number pr)) (\<lambda>merged.
     if \<not> opt_truthy (rp_merge_commit_sha merged) then raiseA (InfrastructureBugError git_path ''<missing-merge-sha>'')
     else let merge_commit_sha = or_str (rp_merge_commit_sha merged) [];
              tag_name = release_name tenant_id api_name version merge_commit_sha;
              release_id = catalog_release_id hst tenant_id api_name version merge_commit_sha
       in bindA (create_tag gh tag_name merge_commit_sha
            (line (line (''STOA catalog release '' @ release_id)) @ line (''tenant_id: '' @ tenant_id) @
             line (''api_id: '' @ api_name) @ line (''api_version: '' @ version) @ line (''git_path: '' @ git_path) @
             line (''catalog_content_hash: '' @ attempted_hash) @ line (''pull_request_url: '' @ rp_url pr) @
             line (''merge_commit_sha: '' @ merge_commit_sha))) (\<lambda>_.
          retA \<lparr>cr_release_id = release_id, cr_tag_name = tag_name, cr_source_branch = source_branch,
                cr_pull_request_url = rp_url pr, cr_pull_request_number = rp_number pr,
                cr_merge_commit_sha = merge_commit_sha\<rparr>)))"

definition commit_or_noop_via_pull_request ::
    "host \<Rightarrow> 'g pygithub \<Rightarrow> repo_path \<Rightarrow> yaml_text \<Rightarrow> repo_path \<Rightarrow> yaml_text \<Rightarrow> digest \<Rightarrow> actor_name \<Rightarrow> string \<Rightarrow> string \<Rightarrow> string \<Rightarrow>
     ('g, error, string \<times> string \<times> catalog_release_ref option) act" where
  "commit_or_noop_via_pull_request hst gh git_path api_yaml openapi_git_path openapi_yaml attempted_hash actor
       tenant_id api_name version =
     bindA (git_get gh git_path) (\<lambda>existing. case existing of
       Some file \<Rightarrow>
         bindA (compare_remote hst gh git_path attempted_hash tenant_id api_name file) (\<lambda>sha.
         retA (sha, ''idempotent'', None))
     | None \<Rightarrow>
         let source_branch = release_name tenant_id api_name version attempted_hash in
         bindA (create_branch gh source_branch) (\<lambda>_.
         bindA (create_or_update gh git_path api_yaml None actor (create_message tenant_id api_name) (Some source_branch)) (\<lambda>_.
         bindA (create_or_update gh openapi_git_path openapi_yaml None actor
            (''create openapi spec '' @ tenant_id @ ''/'' @ api_name) (Some source_branch)) (\<lambda>_.
         bindA (release_from_branch hst gh git_path attempted_hash tenant_id api_name version source_branch) (\<lambda>release.
         retA (cr_merge_commit_sha release, ''created'', Some release))))))"

definition released_row :: "catalog_release_ref \<Rightarrow> api_catalog \<Rightarrow> api_catalog" where
  "released_row r c = c\<lparr>cat_catalog_release_id := Some (cr_release_id r), cat_catalog_release_tag := Some (cr_tag_name r),
     cat_catalog_pr_url := Some (cr_pull_request_url r), cat_catalog_pr_number := Some (cr_pull_request_number r),
     cat_catalog_source_branch := Some (cr_source_branch r),
     cat_catalog_merge_commit_sha := Some (cr_merge_commit_sha r)\<rparr>"

definition apply_catalog_release_metadata :: "string \<Rightarrow> string \<Rightarrow> catalog_release_ref \<Rightarrow> unit action" where
  "apply_catalog_release_metadata tenant_id api_name release = modA (\<lambda>w. w\<lparr>catalogs := map (\<lambda>c.
     if cat_tenant_id c = tenant_id \<and> cat_api_id c = api_name \<and> cat_deleted_at c = None
     then released_row release c else c) (catalogs w)\<rparr>)"

section \<open>create\_api\<close>

datatype catalog_write_mode = Direct | PullRequest

definition openapi_path_of :: "string \<Rightarrow> string" where
  "openapi_path_of git_path =
     (if suffix ''/api.yaml'' git_path then take (length git_path - length ''/api.yaml'') git_path else git_path) @ ''/openapi.yaml''"

definition commit_contract ::
    "host \<Rightarrow> 'g pygithub \<Rightarrow> catalog_write_mode \<Rightarrow> repo_path \<Rightarrow> yaml_text \<Rightarrow> yaml_text \<Rightarrow> digest \<Rightarrow> actor_name \<Rightarrow> string \<Rightarrow> string \<Rightarrow>
     string \<Rightarrow> ('g, error, string \<times> string \<times> catalog_release_ref option) act" where
  "commit_contract hst gh mode git_path api_yaml openapi_yaml attempted_hash actor tenant_id api_name version =
     (case mode of
        PullRequest \<Rightarrow> commit_or_noop_via_pull_request hst gh git_path api_yaml (openapi_path_of git_path) openapi_yaml
          attempted_hash actor tenant_id api_name version
      | Direct \<Rightarrow>
          bindA (commit_or_noop hst gh git_path api_yaml attempted_hash actor tenant_id api_name MAX_RACE_RETRIES) (\<lambda>(sha, c).
          bindA (commit_openapi_spec gh (openapi_path_of git_path) openapi_yaml actor tenant_id api_name) (\<lambda>_.
          retA (sha, c, None))))"

text \<open>From the commit to the row: the file is read back at its commit, parsed, and projected.\<close>

definition project_committed ::
    "host \<Rightarrow> 'g pygithub \<Rightarrow> string \<Rightarrow> string \<Rightarrow> string \<Rightarrow> string \<Rightarrow> json \<Rightarrow> catalog_release_ref option \<Rightarrow> ('g, string) gitops_action" where
  "project_committed hst gh git_path tenant_id api_name file_commit_sha openapi_spec release =
     bindA (gitA (read_at_commit gh git_path file_commit_sha)) (\<lambda>committed. case committed of
       None \<Rightarrow> raiseA (InfrastructureBugError git_path file_commit_sha)
     | Some committed_text \<Rightarrow>
         let committed_hash = compute_catalog_content_hash hst committed_text in
         case yaml_safe_load hst committed_text of
           Inl m \<Rightarrow> raiseA (YAMLError m)
         | Inr parsed \<Rightarrow>
             if \<not> is_obj parsed then raiseA (InfrastructureBugError git_path file_commit_sha)
             else bindA (liftA (render_api_catalog_projection (obj_of parsed) file_commit_sha committed_hash git_path
                  openapi_spec)) (\<lambda>projection.
               bindA (dbA (project_to_api_catalog projection)) (\<lambda>_.
               bindA (case release of None \<Rightarrow> retA ()
                  | Some r \<Rightarrow> dbA (apply_catalog_release_metadata tenant_id api_name r)) (\<lambda>_.
               bindA (log_sync_status \<lparr>sy_tenant_id = tenant_id, sy_api_id = api_name, sy_status = ''synced'',
                  sy_git_commit_sha = Some file_commit_sha, sy_catalog_content_hash = Some committed_hash,
                  sy_git_path = Some git_path, sy_last_error = None\<rparr>) (\<lambda>_.
               retA committed_hash)))))"

text \<open>
  \<open>waiting\<close> is what other sessions do while \<open>pg_advisory_lock\<close> blocks. The lock is released on every way out;
  a failure to release it is only logged.
\<close>

definition create_api ::
    "host \<Rightarrow> 'g pygithub \<Rightarrow> catalog_write_mode \<Rightarrow> ('g gitops \<Rightarrow> 'g gitops) \<Rightarrow> string \<Rightarrow> api_create_payload \<Rightarrow> string \<Rightarrow>
     ('g, create_api_result) gitops_action" where
  "create_api hst gh mode waiting tenant_id payload actor0 =
     (let api_name = ap_api_name payload; actor = sanitize_actor actor0 in
      if api_name = [] \<or> is_uuid_shaped api_name then
        raiseA (InvalidApiNameError api_name (''UUID-shaped or empty api_name (spec '' @ [CHR 0xA7] @ ''6.5 step 2)''))
      else
      bindA (liftA (render_api_yaml hst tenant_id api_name (ap_version payload) (ap_backend_url payload)
          (ap_display_name payload) (Some (ap_description payload)) (ap_category payload) (ap_tags payload))) (\<lambda>api_yaml.
      let attempted_hash = compute_catalog_content_hash hst api_yaml;
          openapi_spec = openapi_spec_for_payload payload;
          openapi_yaml = render_openapi_yaml hst openapi_spec
      in bindA (liftA (canonical_catalog_path tenant_id api_name)) (\<lambda>git_path.
         bindA (check_legacy_collision gh tenant_id api_name) (\<lambda>_.
         bindA (modA waiting) (\<lambda>_.
         bindA (gitA (commit_contract hst gh mode git_path api_yaml openapi_yaml attempted_hash actor tenant_id api_name
            (ap_version payload))) (\<lambda>(file_commit_sha, c, release).
         bindA (project_committed hst gh git_path tenant_id api_name file_commit_sha openapi_spec release) (\<lambda>committed_hash.
         retA \<lparr>cres_api_id = api_name, cres_git_path = git_path, cres_git_commit_sha = file_commit_sha,
               cres_catalog_content_hash = committed_hash, cres_case = c, cres_catalog_release = release\<rparr>)))))))"

end
