(* ===== verification/CatalogReconciler.thy ===== *)
theory CatalogReconciler
  imports CatalogDeployment GitopsWriter
begin

text \<open>
  The worker that brings the catalog of the database to the state of the catalog repository
  (\<open>services/catalog_reconciler/worker.py\<close>). One iteration lists the \<open>api.yaml\<close> files, skips those whose blobs
  it has processed before, and treats each of the others in a session of its own: the row is classified, and a
  missing or drifted row is projected under the advisory lock of the API. Rows without a file are only reported.

  A session that ends without a commit is rolled back. An exception of one path does not stop the others.
\<close>

section \<open>State\<close>

record 'g worker =
  wk_state :: "'g gitops"
  wk_seen :: "(string \<times> string) list"

definition sysA :: "('g, 'a) gitops_action \<Rightarrow> ('g worker, error, 'a) act" where
  "sysA m = (\<lambda>s. case m (wk_state s) of (r, v) \<Rightarrow> (r, s\<lparr>wk_state := v\<rparr>))"

text \<open>The action says whether it committed.\<close>

definition in_session :: "('g, bool) gitops_action \<Rightarrow> ('g, unit) gitops_action" where
  "in_session m = (\<lambda>s. case m s of
     (Inr True, s') \<Rightarrow> (Inr (), s')
   | (Inr False, s') \<Rightarrow> (Inr (), s'\<lparr>go_db := rollback (go_db s) (go_db s')\<rparr>)
   | (Inl e, s') \<Rightarrow> (Inl e, s'\<lparr>go_db := rollback (go_db s) (go_db s')\<rparr>))"

definition try_advisory_lock :: "host \<Rightarrow> string \<Rightarrow> string \<Rightarrow> ('g, bool) gitops_action" where
  "try_advisory_lock hst tenant_id api_id = getA (\<lambda>s. advisory_lock_key hst tenant_id api_id \<notin> set (go_locks s))"

definition report ::
    "string \<Rightarrow> string \<Rightarrow> string \<Rightarrow> string option \<Rightarrow> string option \<Rightarrow> string option \<Rightarrow> string option \<Rightarrow> sync_report" where
  "report tenant_id api_id status sha hash path err =
     \<lparr>sy_tenant_id = tenant_id, sy_api_id = api_id, sy_status = status, sy_git_commit_sha = sha,
      sy_catalog_content_hash = hash, sy_git_path = path, sy_last_error = err\<rparr>"

section \<open>Paths and listings\<close>

definition OPENAPI_FILENAMES :: "string list" where
  "OPENAPI_FILENAMES = [''openapi.yaml'', ''openapi.yml'', ''openapi.json'', ''swagger.yaml'', ''swagger.yml'', ''swagger.json'']"

definition filename_rank :: "string \<Rightarrow> nat option" where
  "filename_rank f = (if f \<in> set OPENAPI_FILENAMES then Some (length (takeWhile (\<lambda>g. g \<noteq> f) OPENAPI_FILENAMES)) else None)"

definition base_name :: "string \<Rightarrow> string" where
  "base_name p = rev (takeWhile (\<lambda>c. c \<noteq> CHR ''/'') (rev p))"

text \<open>What stands before the last slash; of a path without one, nothing (\<open>rpartition\<close>) or all (\<open>rsplit\<close>).\<close>

definition base_path :: "string \<Rightarrow> string" where
  "base_path p = rev (drop 1 (dropWhile (\<lambda>c. c \<noteq> CHR ''/'') (rev p)))"

definition dir_name :: "string \<Rightarrow> string" where
  "dir_name p = (if CHR ''/'' \<in> set p then base_path p else p)"

definition uuid_api_path :: "string \<Rightarrow> (string \<times> string) option" where
  "uuid_api_path git_path =
     (let parts = split_on (CHR ''/'') (rstrip_slash git_path)
      in if 5 \<le> length parts \<and> parts ! 0 = ''tenants'' \<and> parts ! 2 = ''apis'' \<and> is_uuid_shaped (parts ! 3)
         then Some (parts ! 1, parts ! 3) else None)"

definition source_cache_key :: "remote_file_metadata \<Rightarrow> remote_file_metadata option \<Rightarrow> string" where
  "source_cache_key api_file openapi_file =
     (if rm_sha api_file = [] then []
      else rm_sha api_file @ '':'' @ (case openapi_file of None \<Rightarrow> ''no-openapi'' | Some f \<Rightarrow> rm_sha f))"

definition prefer_openapi ::
    "(string \<times> remote_file_metadata) list \<Rightarrow> remote_file_metadata \<Rightarrow> (string \<times> remote_file_metadata) list" where
  "prefer_openapi by_api_path remote =
     (case filename_rank (base_name (rm_path remote)) of
        None \<Rightarrow> by_api_path
      | Some rank \<Rightarrow>
          let api_yaml_path = base_path (rm_path remote) @ ''/api.yaml''
          in case map_of by_api_path api_yaml_path of
               None \<Rightarrow> AList.update api_yaml_path remote by_api_path
             | Some existing \<Rightarrow>
                 (case filename_rank (base_name (rm_path existing)) of
                    Some r \<Rightarrow> if rank < r then AList.update api_yaml_path remote by_api_path else by_api_path
                  | None \<Rightarrow> by_api_path))"

definition list_openapi_metadata :: "'g pygithub \<Rightarrow> ('g, error, (string \<times> remote_file_metadata) list) act" where
  "list_openapi_metadata gh =
     bindA (list_file_metadata gh ''tenants/*/apis/*/*'') (\<lambda>files. retA (foldl prefer_openapi [] files))"

definition seen_key_from_path :: "string \<Rightarrow> (string \<times> string) option" where
  "seen_key_from_path git_path =
     (if uuid_api_path git_path \<noteq> None then None
      else case parse_canonical_path git_path of Inl e \<Rightarrow> None | Inr k \<Rightarrow> Some k)"

section \<open>One path\<close>

definition load_openapi_spec ::
    "host \<Rightarrow> 'g pygithub \<Rightarrow> string \<Rightarrow> remote_file_metadata option \<Rightarrow> ('g, error, json) act" where
  "load_openapi_spec hst gh api_git_path openapi_metadata =
     (case openapi_metadata of None \<Rightarrow> retA JNull
      | Some m \<Rightarrow>
          let spec_path = rm_path m; filename = base_name spec_path in
          if \<not> py_startswith spec_path (dir_name api_git_path @ ''/'') then
            raiseA (ValueError (''OpenAPI sibling '' @ repr_str spec_path @ '' is not next to '' @ repr_str api_git_path))
          else bindA (git_get gh spec_path) (\<lambda>remote. case remote of
            None \<Rightarrow> retA JNull
          | Some file \<Rightarrow>
              (case (if suffix ''.json'' filename then json_loads hst (rf_content file)
                     else yaml_safe_load hst (rf_content file)) of
                 Inl m \<Rightarrow> raiseA (ValueError (filename @ '' parse error: '' @ m))
               | Inr parsed \<Rightarrow>
                   if \<not> is_obj parsed then raiseA (ValueError (filename @ '' root is not a mapping''))
                   else if \<not> truthy (dget (obj_of parsed) ''openapi'') \<and> \<not> truthy (dget (obj_of parsed) ''swagger'') then
                     raiseA (ValueError (filename @ '' missing '' @ sq ''openapi'' @ '' or '' @ sq ''swagger'' @ '' version field''))
                   else retA parsed)))"

text \<open>\<open>_row_to_dict\<close> only fails on metadata that \<open>dict\<close> does not take.\<close>

definition row_to_dict :: "api_catalog option \<Rightarrow> error + unit" where
  "row_to_dict row = (case row of None \<Rightarrow> Inr ()
     | Some r \<Rightarrow> (case dict_or_empty (cat_api_metadata r) of Inl e \<Rightarrow> Inl e | Inr d \<Rightarrow> Inr ()))"

definition project_and_deploy ::
    "host \<Rightarrow> (string \<Rightarrow> gateway_instance list \<Rightarrow> gateway_instance option) \<Rightarrow> catalog_projection \<Rightarrow> jdict \<Rightarrow> unit action" where
  "project_and_deploy hst self_registered expected api_content =
     bindA (project_to_api_catalog expected) (\<lambda>_.
     bindA (get_api_by_id (cp_tenant_id expected) (cp_api_id expected)) (\<lambda>row.
     bindA (reconcile_api hst self_registered (cp_tenant_id expected) (cp_api_id expected) api_content row) (\<lambda>_.
     retA ())))"

definition reconcile_db_row ::
    "host \<Rightarrow> (string \<Rightarrow> gateway_instance list \<Rightarrow> gateway_instance option) \<Rightarrow> catalog_projection \<Rightarrow> jdict \<Rightarrow> ('g, unit) gitops_action" where
  "reconcile_db_row hst self_registered expected api_content =
     (let tenant_id = cp_tenant_id expected; api_name = cp_api_id expected;
          log = (\<lambda>status err. log_sync_status (report tenant_id api_name status (Some (cp_git_commit_sha expected))
            (Some (cp_catalog_content_hash expected)) (Some (cp_git_path expected)) err))
      in in_session (
        bindA (dbA (get_api_by_id tenant_id api_name)) (\<lambda>row.
        bindA (liftA (row_to_dict row)) (\<lambda>_.
        case classify_legacy (map_option legacy_row_of row) True of
          UUID_HARD_DRIFT \<Rightarrow> bindA (log ''drift_detected'' (Some ''uuid hard drift'')) (\<lambda>_. retA False)
        | PRE_GITOPS \<Rightarrow> bindA (log ''drift_pre_gitops'' (Some ''no git_path nor commit pointer'')) (\<lambda>_. retA False)
        | ABSENT \<Rightarrow>
            bindA (try_advisory_lock hst tenant_id api_name) (\<lambda>acquired.
            if \<not> acquired then retA False
            else bindA (dbA (project_and_deploy hst self_registered expected api_content)) (\<lambda>_.
              bindA (log ''synced'' None) (\<lambda>_. retA True)))
        | _ \<Rightarrow>
            (case row of None \<Rightarrow> retA False
             | Some actual \<Rightarrow>
                 if \<not> row_matches_projection actual expected then
                   bindA (try_advisory_lock hst tenant_id api_name) (\<lambda>acquired.
                   if \<not> acquired then retA False
                   else bindA (log ''drift_detected'' (Some ''projection drift'')) (\<lambda>_.
                     bindA (dbA (project_and_deploy hst self_registered expected api_content)) (\<lambda>_.
                     bindA (log ''synced'' None) (\<lambda>_. retA True))))
                 else
                   bindA (log ''synced'' None) (\<lambda>_.
                   dbA (reconcile_api hst self_registered tenant_id api_name api_content (Some actual))))))))"

text \<open>
  From the text of a file to its projection; \<open>Inl\<close> is the error of the report. A \<open>ValueError\<close> of the two
  last steps is reported, any other exception leaves.
\<close>

definition expected_projection ::
    "host \<Rightarrow> 'g pygithub \<Rightarrow> string \<Rightarrow> string \<Rightarrow> string \<Rightarrow> remote_file_metadata option \<Rightarrow>
     ('g, error, string + catalog_projection \<times> jdict) act" where
  "expected_projection hst gh git_path content commit_sha openapi_metadata =
     (case yaml_safe_load hst content of
        Inl m \<Rightarrow> retA (Inl ''api.yaml parse error'')
      | Inr parsed0 \<Rightarrow>
          if \<not> is_obj parsed0 then retA (Inl ''api.yaml root is not a mapping'')
          else let parsed = normalize_api_definition (obj_of parsed0) in
            catchA
              (bindA (load_openapi_spec hst gh git_path openapi_metadata) (\<lambda>openapi_spec.
               bindA (liftA (render_api_catalog_projection parsed commit_sha (compute_catalog_content_hash hst content)
                  git_path openapi_spec)) (\<lambda>expected.
               retA (Inr (expected, parsed)))))
              is_value_error (\<lambda>_. retA (Inl ''api.yaml or OpenAPI validation failed'')))"

text \<open>The commit of the listing, or else the latest of the file; \<open>None\<close> when there is none.\<close>

definition commit_of_file ::
    "'g pygithub \<Rightarrow> string \<Rightarrow> remote_file_metadata \<Rightarrow> ('g, error, string option) act" where
  "commit_of_file gh git_path remote_metadata =
     (if opt_truthy (rm_commit_sha remote_metadata) then retA (rm_commit_sha remote_metadata)
      else catchA (bindA (latest_file_commit gh git_path) (\<lambda>sha. retA (Some sha))) is_file_not_found (\<lambda>_. retA None))"

definition reconcile_one_path ::
    "host \<Rightarrow> (string \<Rightarrow> gateway_instance list \<Rightarrow> gateway_instance option) \<Rightarrow> 'g pygithub \<Rightarrow> remote_file_metadata \<Rightarrow>
     remote_file_metadata option \<Rightarrow> ('g, (string \<times> string) option) gitops_action" where
  "reconcile_one_path hst self_registered gh remote_metadata openapi_metadata =
     (let git_path = rm_path remote_metadata in
      case uuid_api_path git_path of
        Some (t, a) \<Rightarrow>
          bindA (log_sync_status (report t a ''failed'' None None (Some git_path) (Some ''uuid-shaped api_name in git_path'')))
            (\<lambda>_. retA None)
      | None \<Rightarrow>
          (case parse_canonical_path git_path of
             Inl e \<Rightarrow> retA None
           | Inr (tenant_id, api_name) \<Rightarrow>
               bindA (gitA (git_get gh git_path)) (\<lambda>remote. case remote of
                 None \<Rightarrow> retA None
               | Some file \<Rightarrow>
                   bindA (gitA (commit_of_file gh git_path remote_metadata)) (\<lambda>commit. case commit of
                     None \<Rightarrow> retA None
                   | Some commit_sha \<Rightarrow>
                       bindA (gitA (expected_projection hst gh git_path (rf_content file) commit_sha openapi_metadata)) (\<lambda>outcome.
                       bindA (case outcome of
                           Inl err \<Rightarrow> log_sync_status (report tenant_id api_name ''failed'' (Some commit_sha)
                             (Some (compute_catalog_content_hash hst (rf_content file))) (Some git_path) (Some err))
                         | Inr (expected, parsed) \<Rightarrow> reconcile_db_row hst self_registered expected parsed) (\<lambda>_.
                       retA (Some (tenant_id, api_name))))))))"

section \<open>One iteration\<close>

definition visit_file ::
    "host \<Rightarrow> (string \<Rightarrow> gateway_instance list \<Rightarrow> gateway_instance option) \<Rightarrow> 'g pygithub \<Rightarrow>
     (string \<times> remote_file_metadata) list \<Rightarrow> remote_file_metadata \<Rightarrow> ('g worker, error, (string \<times> string) option) act" where
  "visit_file hst self_registered gh openapi_by_path remote_file =
     (let git_path = rm_path remote_file; openapi = map_of openapi_by_path git_path;
          source_key = source_cache_key remote_file openapi
      in bindA (getA (\<lambda>s. map_of (wk_seen s) git_path)) (\<lambda>last.
         if source_key \<noteq> [] \<and> last = Some source_key then retA (seen_key_from_path git_path)
         else bindA (sysA (reconcile_one_path hst self_registered gh remote_file openapi)) (\<lambda>key.
           bindA (whenA (source_key \<noteq> []) (modA (\<lambda>s. s\<lparr>wk_seen := AList.update git_path source_key (wk_seen s)\<rparr>))) (\<lambda>_.
           retA key))))"

text \<open>A row without a file of this iteration: what is reported of it, if anything.\<close>

definition orphan_report :: "api_catalog \<Rightarrow> sync_report option" where
  "orphan_report row =
     (let mk = (\<lambda>status err. Some (report (cat_tenant_id row) (cat_api_id row) status (cat_git_commit_sha row)
            (cat_catalog_content_hash row) (cat_git_path row) (Some err)))
      in case classify_legacy (Some (legacy_row_of row)) False of
           UUID_HARD_DRIFT \<Rightarrow> mk ''drift_detected'' ''uuid hard drift''
         | PRE_GITOPS \<Rightarrow> mk ''drift_pre_gitops'' ''no git_path nor commit pointer''
         | ORPHAN_DB \<Rightarrow> mk ''drift_orphan'' ''no git file at HEAD''
         | _ \<Rightarrow> None)"

definition detect_legacy_orphans :: "(string \<times> string) list \<Rightarrow> ('g, unit) gitops_action" where
  "detect_legacy_orphans seen_keys =
     bindA (dbA (getA (\<lambda>w. filter (\<lambda>c. cat_deleted_at c = None) (catalogs w)))) (\<lambda>rows.
     bindA (forA (filter (\<lambda>c. (cat_tenant_id c, cat_api_id c) \<notin> set seen_keys) rows) (\<lambda>row.
        bindA (liftA (row_to_dict (Some row))) (\<lambda>_.
        case orphan_report row of None \<Rightarrow> retA () | Some r \<Rightarrow> log_sync_status r))) (\<lambda>_. retA ()))"

definition reconcile_iteration ::
    "host \<Rightarrow> (string \<Rightarrow> gateway_instance list \<Rightarrow> gateway_instance option) \<Rightarrow> 'g pygithub \<Rightarrow> ('g worker, error, unit) act" where
  "reconcile_iteration hst self_registered gh =
     bindA (sysA (gitA (list_file_metadata gh ''tenants/*/apis/*/api.yaml''))) (\<lambda>files.
     bindA (sysA (gitA (list_openapi_metadata gh))) (\<lambda>openapi_by_path.
     bindA (modA (\<lambda>s. s\<lparr>wk_seen := filter (\<lambda>(p, k). p \<in> rm_path ` set files) (wk_seen s)\<rparr>)) (\<lambda>_.
     bindA (forA files (\<lambda>f. catchA (visit_file hst self_registered gh openapi_by_path f) (\<lambda>_. True) (\<lambda>_. retA None))) (\<lambda>keys.
     catchA (sysA (detect_legacy_orphans (List.map_filter id keys))) (\<lambda>_. True) (\<lambda>_. retA ())))))"

text \<open>The body of the loop of \<open>start\<close>, which logs what an iteration raises.\<close>

definition reconciler_tick ::
    "host \<Rightarrow> (string \<Rightarrow> gateway_instance list \<Rightarrow> gateway_instance option) \<Rightarrow> 'g pygithub \<Rightarrow> 'g worker \<Rightarrow> 'g worker" where
  "reconciler_tick hst self_registered gh s = snd (catchA (reconcile_iteration hst self_registered gh) (\<lambda>_. True) (\<lambda>_. retA ()) s)"

end
