(* ===== verification/CatalogFacts.thy ===== *)
theory CatalogFacts
  imports CatalogReconciler GatewayProtocol
begin

text \<open>
  What the Git side does to the database, whatever the remote repository answers. A relation that the
  projection and the deployment of targets stay within is a relation of every iteration of the reconciler
  (locale \<open>catalog_relation\<close>); it is interpreted for the constraints of the database, for the rows of the
  deployment protocol, and for the columns that belong to others.
\<close>

section \<open>Relations on the database of a larger state\<close>

definition over_db :: "(world \<Rightarrow> world \<Rightarrow> bool) \<Rightarrow> 'g gitops \<Rightarrow> 'g gitops \<Rightarrow> bool" where
  "over_db R s s' = R (go_db s) (go_db s')"

definition over_worker :: "(world \<Rightarrow> world \<Rightarrow> bool) \<Rightarrow> 'g worker \<Rightarrow> 'g worker \<Rightarrow> bool" where
  "over_worker R s s' = R (go_db (wk_state s)) (go_db (wk_state s'))"

lemma over_db_relation: "state_relation R \<Longrightarrow> state_relation (over_db R)"
  and over_worker_relation: "state_relation R \<Longrightarrow> state_relation (over_worker R)"
  by (auto simp: state_relation_def over_db_def over_worker_def)

lemma over_dbA: "acts_within R m \<Longrightarrow> acts_within (over_db R) (dbA m)"
  by (auto simp: acts_within_def over_db_def dbA_def split: prod.splits) (metis snd_conv)

lemma over_gitA: "state_relation R \<Longrightarrow> acts_within (over_db R) (gitA m)"
  by (auto simp: acts_within_def over_db_def gitA_def state_relation_def split: prod.splits)

lemma over_log: "state_relation R \<Longrightarrow> acts_within (over_db R) (log_sync_status r)"
  by (auto simp: acts_within_def over_db_def log_sync_status_def state_relation_def)

lemma over_session:
  assumes "acts_within (over_db R) m" and "\<And>w w'. R w (rollback w w')"
  shows "acts_within (over_db R) (in_session m)"
proof -
  have "R (go_db s) (go_db (snd (in_session m s)))" for s
  proof -
    obtain r s' where m: "m s = (r, s')" by (cases "m s")
    with assms(1) have "R (go_db s) (go_db s')" by (auto simp: over_db_def dest: stepsD)
    with m assms(2) show ?thesis by (cases r) (auto simp: in_session_def split: bool.splits)
  qed
  then show ?thesis by (simp add: acts_within_def over_db_def)
qed

lemma over_sysA: "acts_within (over_db R) m \<Longrightarrow> acts_within (over_worker R) (sysA m)"
  by (auto simp: acts_within_def over_db_def over_worker_def sysA_def split: prod.splits) (metis snd_conv)

text \<open>A session, and a read at its start, from one state.\<close>

lemma session_at:
  assumes "R (go_db s) (go_db (snd (m s)))" and "\<And>w w'. R w (rollback w w')"
  shows "R (go_db s) (go_db (snd (in_session m s)))"
proof -
  obtain r s' where m: "m s = (r, s')" by (cases "m s")
  with assms show ?thesis by (cases r) (auto simp: in_session_def split: bool.splits)
qed

lemma read_row_at:
  assumes "\<And>row. get_api_by_id t a (go_db s) = (Inr row, go_db s) \<Longrightarrow> R (go_db s) (go_db (snd (k row s)))"
    and "R (go_db s) (go_db s)"
  shows "R (go_db s) (go_db (snd (bindA (dbA (get_api_by_id t a)) k s)))"
proof -
  obtain r where r: "get_api_by_id t a (go_db s) = (r, go_db s)" using queries_same(1) by (metis prod.collapse)
  then show ?thesis using assms by (cases r) (auto simp: bindA_def dbA_def)
qed

locale catalog_relation = state_relation R for R :: "world \<Rightarrow> world \<Rightarrow> bool" +
  assumes projects: "acts_within R (project_to_api_catalog p)"
    and deploys: "(\<And>c. entry = Some c \<Longrightarrow> c \<in> set (catalogs w) \<and> cat_deleted_at c = None) \<Longrightarrow>
      R w (snd (reconcile_api hst sr t a content entry w))"
    and releases: "acts_within R (apply_catalog_release_metadata t a release)"
    and rolls: "R w (rollback w w')"
begin

lemmas db_rules = state_relation.steps_rules [OF over_db_relation [OF state_relation_axioms]]
lemmas worker_rules = state_relation.steps_rules [OF over_worker_relation [OF state_relation_axioms]]

lemma row_reads: "acts_within R (getA f)" "acts_within R (get_api_by_id t a)"
  by (simp_all add: steps_getA state_relation_axioms)

lemma deploys_read: "acts_within R (bindA (get_api_by_id t a) (\<lambda>row. bindA (reconcile_api hst sr t' a' content row) (\<lambda>_. retA ())))"
  unfolding acts_within_def
proof
  fix w
  obtain r where r: "get_api_by_id t a w = (r, w)" using queries_same(1) by (metis prod.collapse)
  show "R w (snd (bindA (get_api_by_id t a) (\<lambda>row. bindA (reconcile_api hst sr t' a' content row) (\<lambda>_. retA ())) w))"
  proof (cases r)
    case (Inr row)
    have "R w (snd (reconcile_api hst sr t' a' content row w))"
      using r Inr by (intro deploys) (auto dest: get_api_by_id_Some)
    then show ?thesis using r Inr by (auto simp: bindA_def split: prod.splits sum.splits)
  qed (simp add: bindA_def r rel_refl)
qed

lemma project_and_deploy_within: "acts_within R (project_and_deploy hst sr p content)"
  unfolding project_and_deploy_def by (intro steps_bindA projects deploys_read)

lemma deploy_matched:
  assumes "c \<in> set (catalogs (go_db s)) \<and> cat_deleted_at c = None"
  shows "R (go_db s) (go_db (snd (bindA (log_sync_status r) (\<lambda>_. dbA (reconcile_api hst sr t a content (Some c))) s)))"
proof -
  have "R (go_db s) (snd (reconcile_api hst sr t a content (Some c) (go_db s)))" using assms by (intro deploys) simp
  then show ?thesis
    by (cases "reconcile_api hst sr t a content (Some c) (go_db s)") (simp add: log_sync_status_def dbA_def)
qed

lemma at_start: "acts_within (over_db R) m \<Longrightarrow> R (go_db s) (go_db (snd (m s)))"
  by (simp add: acts_within_def over_db_def)

lemma db_row_within: "acts_within (over_db R) (reconcile_db_row hst sr p content :: ('g, unit) gitops_action)"
proof -
  note leaf = over_dbA [OF project_and_deploy_within] over_log [OF state_relation_axioms]
  have "R (go_db s) (go_db (snd (reconcile_db_row hst sr p content s)))" for s :: "'g gitops"
    unfolding reconcile_db_row_def Let_def try_advisory_lock_def
  proof (rule session_at [of R, OF read_row_at [of _ _ _ R] rolls], goal_cases)
    case (1 row)
    show ?case
    proof (cases "row_to_dict row")
      case (Inr u)
      have mem: "c \<in> set (catalogs (go_db s)) \<and> cat_deleted_at c = None" if "row = Some c" for c
        using 1 that by (auto dest: get_api_by_id_Some)
      show ?thesis 
        apply (simp only: Inr bindA_simps)
        apply (cases row)
         apply (simp add: classify_legacy_def del: bindA_getA split del: if_split, intro at_start db_rules leaf)
        subgoal for c
          by (cases "classify_legacy (Some (legacy_row_of c)) True"; cases "row_matches_projection c p";
              simp del: bindA_getA split del: if_split;
              (rule deploy_matched, rule mem, assumption | rule at_start, intro db_rules leaf))
        done
    qed (simp add: rel_refl)
  qed (rule rel_refl)
  then show ?thesis by (simp add: acts_within_def over_db_def)
qed

lemma one_path_within: "acts_within (over_db R) (reconcile_one_path hst sr gh m o')"
  unfolding reconcile_one_path_def
  by (intro db_rules over_log [OF state_relation_axioms] over_gitA [OF state_relation_axioms] db_row_within)

lemma orphans_within: "acts_within (over_db R) (detect_legacy_orphans keys)"
  unfolding detect_legacy_orphans_def
  by (intro db_rules over_dbA row_reads over_log [OF state_relation_axioms]
      state_relation.steps_forA [OF over_db_relation [OF state_relation_axioms]])

lemma seen_within: "(\<And>s. wk_state (f s) = wk_state s) \<Longrightarrow> acts_within (over_worker R) (modA f)"
  by (simp add: acts_within_def over_worker_def rel_refl)

lemma visit_within: "acts_within (over_worker R) (visit_file hst sr gh op f)"
  unfolding visit_file_def by (intro worker_rules over_sysA one_path_within seen_within) simp

lemma iteration_within: "acts_within (over_worker R) (reconcile_iteration hst sr gh)"
  unfolding reconcile_iteration_def
  by (intro worker_rules over_sysA over_gitA [OF state_relation_axioms] orphans_within visit_within seen_within
      state_relation.steps_forA [OF over_worker_relation [OF state_relation_axioms]]) simp

lemma tick_within: "R (go_db (wk_state s)) (go_db (wk_state (reconciler_tick hst sr gh s)))"
proof -
  have "acts_within (over_worker R) (catchA (reconcile_iteration hst sr gh) (\<lambda>_. True) (\<lambda>_. retA ()))"
    by (intro worker_rules iteration_within)
  then show ?thesis by (simp add: acts_within_def over_worker_def reconciler_tick_def)
qed

lemma collision_within: "acts_within (over_db R) (check_legacy_collision gh t a)"
  unfolding check_legacy_collision_def
  by (intro db_rules over_dbA row_reads over_gitA [OF state_relation_axioms])

lemma project_committed_within: "acts_within (over_db R) (project_committed hst gh p t a c spec release)"
  unfolding project_committed_def
  by (intro db_rules over_dbA projects releases over_log [OF state_relation_axioms] over_gitA [OF state_relation_axioms])

lemma create_api_within:
  assumes "\<And>s. R (go_db s) (go_db (waiting s))"
  shows "acts_within (over_db R) (create_api hst gh mode waiting t payload actor)"
proof -
  have "acts_within (over_db R) (modA waiting)" by (simp add: acts_within_def over_db_def assms)
  then show ?thesis
    unfolding create_api_def
    by (intro db_rules collision_within project_committed_within over_gitA [OF state_relation_axioms])
qed

end

section \<open>What the projection writes\<close>

lemma moved_promotion_fields [simp]:
  "pr_id (moved_promotion t tn old new p) = pr_id p" "pr_tenant_id (moved_promotion t tn old new p) = pr_tenant_id p"
  "pr_status (moved_promotion t tn old new p) = pr_status p"
  "pr_target_environment (moved_promotion t tn old new p) = pr_target_environment p"
  by (simp_all add: moved_promotion_def)

lemma table_ok_map:
  assumes "table_ok key clash t" and "\<And>r. r \<in> set t \<Longrightarrow> key (f r) = key r"
    and "\<And>r s. r \<in> set t \<Longrightarrow> s \<in> set t \<Longrightarrow> clash (f r) (f s) \<Longrightarrow> clash r s"
  shows "table_ok key clash (map f t)"
proof -
  have "map key (map f t) = map key t" using assms(2) by simp
  moreover have "\<not> clash (f r) (f s)" if "r \<in> set t" "s \<in> set t" "key (f r) \<noteq> key (f s)" for r s
    using that assms by (metis table_ok_def)
  ultimately show ?thesis using assms(1) by (auto simp: table_ok_def simp del: map_map)
qed

lemma moved_promotion_clash:
  assumes "p \<in> set t" and "q \<in> set t" and "promotion_clash (moved_promotion t tn old new p) (moved_promotion t tn old new q)"
  shows "promotion_clash p q"
  using assms
  by (auto simp: promotion_clash_def moved_promotion_def list_ex_iff split: if_splits)

lemma moved_promotions_ok:
  assumes "table_ok pr_id promotion_clash t"
  shows "table_ok pr_id promotion_clash (map (moved_promotion t tn old new) t)"
  using assms by (rule table_ok_map) (simp_all add: moved_promotion_clash)

lemma canonicalize_within:
  assumes "state_relation R"
    and "\<And>w. R w (w\<lparr>promotions := map (moved_promotion (promotions w) t old new) (promotions w)\<rparr>)"
  shows "acts_within R (canonicalize_soft_api_references t old new)"
  unfolding canonicalize_soft_api_references_def
  by (intro state_relation.steps_whenA [OF assms(1)] state_relation.steps_modA [OF assms(1)] assms(2))

lemma find_projected_same: "snd (find_projected p w) = w"
  by (auto simp: find_projected_def bindA_def queries_same split: prod.splits sum.splits option.splits)
    (metis queries_same snd_conv)+

lemma get_api_by_id_state: "get_api_by_id t a w = (r, w') \<Longrightarrow> w' = w"
  by (metis queries_same(1) snd_conv)

lemma find_projected_Some:
  assumes "find_projected p w = (Inr (Some c), w')"
  shows "w' = w \<and> c \<in> set (catalogs w) \<and> cat_tenant_id c = cp_tenant_id p \<and> cat_deleted_at c = None"
  using assms
  by (auto simp: find_projected_def bind_ok get_api_by_name_version_def split: option.splits
      dest: get_api_by_id_state dest!: get_api_by_id_Some scalar_one_or_none_in)

section \<open>Relations by their single writes\<close>

text \<open>It is enough to look at the writes, one by one.\<close>

locale deployment_writes = state_relation R for R :: "world \<Rightarrow> world \<Rightarrow> bool" +
  assumes timed: "R w (w\<lparr>ticks := n\<rparr>)" and drawn: "R w (w\<lparr>uuids_used := n\<rparr>)"
    and redeployed: "e \<in> set (deployments w) \<Longrightarrow>
      replaceable dep_id deployment_clash (redeploy_direct e ds now) (deployments w) \<Longrightarrow>
      R w (w\<lparr>deployments := replace_row dep_id (redeploy_direct e ds now) (deployments w)\<rparr>)"
    and deployed: "fits dep_id deployment_clash (new_deployment_row i a g ds None now) (deployments w) \<Longrightarrow>
      R w (w\<lparr>deployments := deployments w @ [new_deployment_row i a g ds None now]\<rparr>)"
begin

lemma basic: "acts_within R nowA" "acts_within R uuid4A" "acts_within R (queryA q)"
  by (simp_all add: acts_within_def timed drawn rel_refl)

lemma chain: "R u v \<Longrightarrow> R v w \<Longrightarrow> R u w"
  by (rule rel_trans)

lemma upsert_writes: "acts_within R (upsert_deployment entry g ds)"
  unfolding acts_within_def upsert_deployment_def get_by_api_and_gateway_def
proof (intro allI, rule within_query [where R = R, OF rel_refl], goal_cases)
  case (1 w e)
  let ?v = "w\<lparr>ticks := Suc (ticks w)\<rparr>"
  show ?case
  proof (cases e)
    case None
    let ?u = "?v\<lparr>uuids_used := Suc (uuids_used w)\<rparr>"
    have u: "R w ?u" by (rule chain [OF timed drawn])
    then show ?thesis using chain [OF u deployed [of _ _ _ _ _ ?u]] by (simp add: None create_deployment_bind)
  next
    case (Some d)
    with 1 have "d \<in> set (deployments ?v)" by (auto dest: selected)
    with chain [OF timed redeployed [of d ?v]] show ?thesis by (simp add: Some save_deployment_bind timed)
  qed
qed

lemma target_writes: "acts_within R (reconcile_target sr entry base t)"
proof -
  note queries = basic(3) steps_getA
  have "acts_within R (get_gateway_by_id i)" "acts_within R (get_gateway_by_name n)" for i n
    by (simp_all add: get_gateway_by_id_def get_gateway_by_name_def basic)
  note gets = this
  show ?thesis
    unfolding reconcile_target_def resolve_assignment_gateways_def resolve_gateway_def list_auto_deploy_def
    by (intro steps_rules steps_forA gets upsert_writes)
qed

end

locale catalog_writes = deployment_writes R for R :: "world \<Rightarrow> world \<Rightarrow> bool" +
  assumes inserted: "fits cat_id catalog_clash (projected_row p i now) (catalogs w) \<Longrightarrow>
      R w (w\<lparr>catalogs := catalogs w @ [projected_row p i now]\<rparr>)"
    and moved: "R w (w\<lparr>promotions := map (moved_promotion (promotions w) t old new) (promotions w)\<rparr>)"
    and projected: "c \<in> set (catalogs w) \<Longrightarrow> cat_tenant_id c = cp_tenant_id p \<Longrightarrow> cat_deleted_at c = None \<Longrightarrow>
      replaceable cat_id catalog_clash (updated_row p c) (catalogs w) \<Longrightarrow>
      R w (w\<lparr>catalogs := replace_row cat_id (updated_row p c) (catalogs w)\<rparr>)"
    and retargeted: "c \<in> set (catalogs w) \<Longrightarrow> cat_deleted_at c = None \<Longrightarrow>
      replaceable cat_id catalog_clash (c\<lparr>cat_target_gateways := ns\<rparr>) (catalogs w) \<Longrightarrow>
      R w (w\<lparr>catalogs := replace_row cat_id (c\<lparr>cat_target_gateways := ns\<rparr>) (catalogs w)\<rparr>)"
    and released: "R w (snd (apply_catalog_release_metadata t a' release w))"
    and rolled_back: "R w (rollback w w')"
begin

lemma project_writes: "acts_within R (project_to_api_catalog p)"
  unfolding acts_within_def
proof
  fix w
  obtain r where r: "find_projected p w = (r, w)" using find_projected_same by (metis prod.collapse)
  show "R w (snd (project_to_api_catalog p w))"
  proof (cases r)
    case (Inl e)
    then show ?thesis by (simp add: project_to_api_catalog_def bindA_def r rel_refl)
  next
    case (Inr found)
    have run: "project_to_api_catalog p w = (case found of
         None \<Rightarrow> bindA uuid4A (\<lambda>fresh. bindA nowA (\<lambda>now.
           bindA (create_api_catalog (projected_row p fresh now)) (\<lambda>_. retA ())))
       | Some row \<Rightarrow> bindA (canonicalize_soft_api_references (cp_tenant_id p) (cat_api_id row) (cp_api_id p)) (\<lambda>_.
           bindA (save_api_catalog (updated_row p row)) (\<lambda>_. retA ()))) w"
      by (simp add: project_to_api_catalog_def bindA_run [where m = "find_projected p", OF r [unfolded Inr]])
    show ?thesis
    proof (cases found)
      case None
      let ?v = "w\<lparr>uuids_used := Suc (uuids_used w), ticks := Suc (ticks w)\<rparr>"
      have v: "R w ?v" by (rule chain [OF drawn timed])
      then show ?thesis
        using chain [OF v inserted [of p "uuid_source w (uuids_used w)" "clock w (ticks w)" ?v]]
        by (simp add: run None create_catalog_bind)
    next
      case (Some c)
      with find_projected_Some r Inr have c: "c \<in> set (catalogs w)" "cat_tenant_id c = cp_tenant_id p" "cat_deleted_at c = None"
        by blast+
      define v where "v = snd (canonicalize_soft_api_references (cp_tenant_id p) (cat_api_id c) (cp_api_id p) w)"
      have canon: "canonicalize_soft_api_references (cp_tenant_id p) (cat_api_id c) (cp_api_id p) w = (Inr (), v)"
        and v: "R w v" "catalogs v = catalogs w"
        by (auto simp: v_def canonicalize_soft_api_references_def whenA_def moved rel_refl)
      show ?thesis
        using v c chain [OF v(1) projected [of c v p]]
        by (simp add: run Some bindA_run [where m = "canonicalize_soft_api_references _ _ _", OF canon] save_catalog_bind)
    qed
  qed
qed

lemma api_writes:
  assumes "\<And>c. entry = Some c \<Longrightarrow> c \<in> set (catalogs w) \<and> cat_deleted_at c = None"
  shows "R w (snd (reconcile_api hst sr t a content entry w))"
proof -
  have known: "R w (snd (bindA (whenA b (bindA (save_api_catalog (c\<lparr>cat_target_gateways := ns\<rparr>)) (\<lambda>_. retA ())))
      (\<lambda>_. bindA (forA targets (reconcile_target sr c base)) (\<lambda>written. retA (h written))) w))"
    if c: "c \<in> set (catalogs w) \<and> cat_deleted_at c = None" for c b ns targets base and h :: "bool list \<Rightarrow> bool"
  proof -
    have rest: "acts_within R (bindA (forA targets (reconcile_target sr c base)) (\<lambda>written. retA (h written)))"
      by (intro steps_rules steps_forA target_writes)
    then have rest': "R v (snd (bindA (forA targets (reconcile_target sr c base)) (\<lambda>written. retA (h written)) v))" for v
      by (simp add: acts_within_def)
    show ?thesis
      using rest' chain [OF retargeted [OF conjunct1 [OF c] conjunct2 [OF c]] rest'] by (simp add: whenA_def save_catalog_bind rel_refl)
  qed
  show ?thesis
  proof (cases entry)
    case (Some c)
    then show ?thesis using assms known by (simp add: reconcile_api_def Let_def rel_refl)
  next
    case None
    obtain r where r: "get_api_by_id t a w = (r, w)" using queries_same(1) by (metis prod.collapse)
    have c: "c \<in> set (catalogs w) \<and> cat_deleted_at c = None" if "r = Inr (Some c)" for c using r that by (auto dest: get_api_by_id_Some)
    show ?thesis
    proof (cases r)
      case (Inr found)
      show ?thesis
        by (cases found) (auto simp: reconcile_api_def Let_def None rel_refl
            bindA_run [where m = "get_api_by_id t a", OF r [unfolded Inr]] intro!: known c [unfolded Inr])
    qed (simp add: reconcile_api_def Let_def None rel_refl bindA_def r)
  qed
qed

end

sublocale catalog_writes \<subseteq> catalog_relation R
proof unfold_locales
  show "acts_within R (apply_catalog_release_metadata t a release)" for t a release
    by (simp add: acts_within_def released)
qed (rule project_writes api_writes rolled_back, assumption?)+

section \<open>Constraints, deployments, and the columns of others\<close>

lemma released_map_ok:
  "table_ok cat_id catalog_clash t \<Longrightarrow> table_ok cat_id catalog_clash (map (\<lambda>c. if P c then released_row r c else c) t)"
  by (erule table_ok_map) (auto simp: released_row_def catalog_clash_def split: if_splits)

lemma saved_table_ok:
  "table_ok cat_id catalog_clash t \<Longrightarrow> replaceable cat_id catalog_clash r t \<Longrightarrow> table_ok cat_id catalog_clash (replace_row cat_id r t)"
  "table_ok dep_id deployment_clash u \<Longrightarrow> replaceable dep_id deployment_clash d u \<Longrightarrow> table_ok dep_id deployment_clash (replace_row dep_id d u)"
  using catalog_table.save_ok [of t n r] deployment_table.save_ok [of u n d] by (simp_all add: save_row_replace)

lemma inserted_table_ok:
  "table_ok cat_id catalog_clash t \<Longrightarrow> fits cat_id catalog_clash r t \<Longrightarrow> table_ok cat_id catalog_clash (t @ [r])"
  "table_ok dep_id deployment_clash u \<Longrightarrow> fits dep_id deployment_clash d u \<Longrightarrow> table_ok dep_id deployment_clash (u @ [d])"
  using catalog_table.insert_ok [of t n r] deployment_table.insert_ok [of u n d] by (simp_all add: insert_row_fits)

interpretation catalog_constraints: catalog_writes keeps_db_ok
  by unfold_locales
    (auto simp: keeps_db_ok_def db_ok_def rollback_def apply_catalog_release_metadata_def
      intro: moved_promotions_ok released_map_ok saved_table_ok inserted_table_ok)

interpretation catalog_rows: catalog_writes rows_advance
proof unfold_locales
  show "e \<in> set (deployments w) \<Longrightarrow> replaceable dep_id deployment_clash (redeploy_direct e ds now) (deployments w) \<Longrightarrow>
      rows_advance w (w\<lparr>deployments := replace_row dep_id (redeploy_direct e ds now) (deployments w)\<rparr>)" for e w ds now
    by (rule replaced_advance [of e w "redeploy_direct e ds now"]) (simp_all add: advanced_def redeploy_direct_def)
  show "fits dep_id deployment_clash (new_deployment_row i a g ds None now) (deployments w) \<Longrightarrow>
      rows_advance w (w\<lparr>deployments := deployments w @ [new_deployment_row i a g ds None now]\<rparr>)" for i a g ds now w
    by (rule created_advance) (simp_all add: newborn_def new_deployment_row_def)
qed (auto simp: apply_catalog_release_metadata_def rollback_def intro: same_rows_advance)

text \<open>
  What Git does not own: a row keeps its key, its tenant, whether it is published or deleted, its time, and the
  lifecycle part of its metadata; a deleted row is not touched. New rows are unpublished. Gateways and
  assignments stay, and of the promotions only the API id may change.
\<close>

definition managed_part :: "api_catalog \<Rightarrow> json option" where
  "managed_part c = (if is_obj (dget (metadata_of c) ''lifecycle'') then Some (dget (metadata_of c) ''lifecycle'') else None)"

definition owned_update :: "api_catalog \<Rightarrow> api_catalog \<Rightarrow> bool" where
  "owned_update c c' \<longleftrightarrow> cat_id c' = cat_id c \<and> cat_tenant_id c' = cat_tenant_id c \<and>
     cat_portal_published c' = cat_portal_published c \<and> cat_deleted_at c' = cat_deleted_at c \<and>
     cat_synced_at c' = cat_synced_at c \<and> (managed_part c \<noteq> None \<longrightarrow> managed_part c' = managed_part c) \<and>
     (cat_deleted_at c \<noteq> None \<longrightarrow> c' = c)"

definition catalog_from :: "api_catalog list \<Rightarrow> api_catalog list \<Rightarrow> bool" where
  "catalog_from t t' \<longleftrightarrow> (distinct (map cat_id t) \<longrightarrow> distinct (map cat_id t') \<and>
     (\<forall>c \<in> set t. \<exists>c' \<in> set t'. owned_update c c') \<and>
     (\<forall>c' \<in> set t'. (\<exists>c \<in> set t. owned_update c c') \<or>
        cat_id c' \<notin> cat_id ` set t \<and> \<not> cat_portal_published c' \<and> cat_deleted_at c' = None))"

definition keeps_foreign :: "world \<Rightarrow> world \<Rightarrow> bool" where
  "keeps_foreign w w' \<longleftrightarrow> gateways w' = gateways w \<and> assignments w' = assignments w \<and>
     map (pr_api_id_update (\<lambda>_. [])) (promotions w') = map (pr_api_id_update (\<lambda>_. [])) (promotions w) \<and>
     catalog_from (catalogs w) (catalogs w')"

lemma owned_refl [simp]: "owned_update c c"
  by (simp add: owned_update_def)

lemma owned_trans: "owned_update c d \<Longrightarrow> owned_update d e \<Longrightarrow> owned_update c e"
  by (auto simp: owned_update_def)

lemma catalog_from_refl: "catalog_from t t"
  unfolding catalog_from_def using owned_refl by blast

lemma catalog_from_trans:
  assumes "catalog_from t u" and "catalog_from u v"
  shows "catalog_from t v"
  unfolding catalog_from_def
proof (intro impI conjI ballI)
  assume d: "distinct (map cat_id t)"
  with assms(1) have d': "distinct (map cat_id u)" by (simp add: catalog_from_def)
  with assms(2) show "distinct (map cat_id v)" by (simp add: catalog_from_def)
  note one = assms(1) [unfolded catalog_from_def, rule_format, OF d]
  note two = assms(2) [unfolded catalog_from_def, rule_format, OF d']
  show "\<exists>e \<in> set v. owned_update c e" if "c \<in> set t" for c
  proof -
    from that one obtain d where "d \<in> set u" "owned_update c d" by blast
    moreover from this two obtain e where "e \<in> set v" "owned_update d e" by blast
    ultimately show ?thesis using owned_trans [of c d e] by blast
  qed
  have ids: "cat_id ` set t \<subseteq> cat_id ` set u"
  proof
    fix i
    assume "i \<in> cat_id ` set t"
    then obtain c where "c \<in> set t" "i = cat_id c" by blast
    with one obtain d where "d \<in> set u" "owned_update c d" by blast
    then have "cat_id d = i" using \<open>i = cat_id c\<close> by (simp add: owned_update_def)
    with \<open>d \<in> set u\<close> show "i \<in> cat_id ` set u" by blast
  qed
  show "(\<exists>c \<in> set t. owned_update c e) \<or> cat_id e \<notin> cat_id ` set t \<and> \<not> cat_portal_published e \<and> cat_deleted_at e = None"
    if e: "e \<in> set v" for e
  proof -
    from two e have "(\<exists>d \<in> set u. owned_update d e) \<or>
        cat_id e \<notin> cat_id ` set u \<and> \<not> cat_portal_published e \<and> cat_deleted_at e = None" by simp
    then consider (old) d where "d \<in> set u" "owned_update d e"
      | (new) "cat_id e \<notin> cat_id ` set u" "\<not> cat_portal_published e" "cat_deleted_at e = None" by auto
    then show ?thesis
    proof cases
      case old
      with one have "(\<exists>c \<in> set t. owned_update c d) \<or>
          cat_id d \<notin> cat_id ` set t \<and> \<not> cat_portal_published d \<and> cat_deleted_at d = None" by simp
      then show ?thesis
      proof
        assume "\<exists>c \<in> set t. owned_update c d"
        then obtain c where "c \<in> set t" "owned_update c d" by blast
        with old(2) owned_trans [of c d e] show ?thesis by blast
      next
        assume "cat_id d \<notin> cat_id ` set t \<and> \<not> cat_portal_published d \<and> cat_deleted_at d = None"
        with old(2) show ?thesis by (simp add: owned_update_def)
      qed
    next
      case new
      with ids show ?thesis by blast
    qed
  qed
qed

lemma catalog_from_replace:
  assumes "c \<in> set t" and "owned_update c c'"
  shows "catalog_from t (replace_row cat_id c' t)"
  unfolding catalog_from_def
proof (intro impI conjI ballI)
  assume d: "distinct (map cat_id t)"
  then show "distinct (map cat_id (replace_row cat_id c' t))" by simp
  have id: "cat_id c' = cat_id c" using assms(2) by (simp add: owned_update_def)
  show "\<exists>e' \<in> set (replace_row cat_id c' t). owned_update e e'" if e: "e \<in> set t" for e
  proof (cases "cat_id e = cat_id c'")
    case True
    with d id e assms(1) have "e = c" by (metis distinct_map inj_onD)
    with True e assms(2) show ?thesis by (force simp: replace_row_def)
  next
    case False
    with e show ?thesis by (force simp: replace_row_def)
  qed
  show "(\<exists>e \<in> set t. owned_update e e') \<or> cat_id e' \<notin> cat_id ` set t \<and> \<not> cat_portal_published e' \<and> cat_deleted_at e' = None"
    if "e' \<in> set (replace_row cat_id c' t)" for e'
  proof (cases "e' = c'")
    case False
    with that have "e' \<in> set t" by (auto simp: replace_row_def split: if_splits)
    then show ?thesis using owned_refl by blast
  qed (use assms in blast)
qed

lemma catalog_from_insert:
  assumes "fits cat_id catalog_clash r t" and "\<not> cat_portal_published r" and "cat_deleted_at r = None"
  shows "catalog_from t (t @ [r])"
  using assms unfolding catalog_from_def by (auto simp: fits_def) (use owned_refl in blast)+

lemma catalog_from_map:
  assumes "\<And>c. c \<in> set t \<Longrightarrow> owned_update c (f c)"
  shows "catalog_from t (map f t)"
proof -
  have "map cat_id (map f t) = map cat_id t" using assms by (simp add: owned_update_def)
  then have "distinct (map cat_id t) \<Longrightarrow> distinct (map cat_id (map f t))" by (simp only:)
  then show ?thesis unfolding catalog_from_def using assms by (auto simp del: map_map)
qed

lemma metadata_preserved:
  assumes "managed_part c \<noteq> None"
  shows "managed_part (updated_row p c) = managed_part c"
proof -
  from assms have o: "is_obj (dget (metadata_of c) ''lifecycle'')" by (simp add: managed_part_def split: if_splits)
  then have "is_obj (cat_api_metadata c)" by (cases "cat_api_metadata c") (simp_all add: metadata_of_def dget_def)
  with o show ?thesis
    by (cases "cat_api_metadata c")
      (simp_all add: managed_part_def updated_row_def metadata_of_def metadata_preserving_lifecycle_def dget_dset)
qed

lemma owned_projection: "cat_deleted_at c = None \<Longrightarrow> owned_update c (updated_row p c)"
  using metadata_preserved [of c p] by (simp add: owned_update_def) (simp add: updated_row_def)

lemma owned_release: "cat_deleted_at c = None \<Longrightarrow> owned_update c (released_row r c)"
  by (simp add: owned_update_def released_row_def managed_part_def metadata_of_def)

lemma keeps_foreign_relation: "state_relation keeps_foreign"
  by unfold_locales (auto simp: keeps_foreign_def catalog_from_refl intro: catalog_from_trans)

lemma moved_promotion_rest: "pr_api_id_update (\<lambda>_. []) (moved_promotion t tn old new p) = pr_api_id_update (\<lambda>_. []) p"
  by (simp add: moved_promotion_def)

interpretation catalog_foreign: catalog_writes keeps_foreign
proof (intro catalog_writes.intro deployment_writes.intro keeps_foreign_relation, unfold_locales, goal_cases)
  case (7 c w p)
  then show ?case by (simp add: keeps_foreign_def catalog_from_replace owned_projection)
next
  case (8 c w ns)
  then show ?case
    by (auto simp: keeps_foreign_def owned_update_def managed_part_def metadata_of_def intro: catalog_from_replace)
next
  case (9 w t a' release)
  then show ?case
    by (auto simp: keeps_foreign_def apply_catalog_release_metadata_def owned_release intro!: catalog_from_map)
qed (auto simp: keeps_foreign_def catalog_from_refl moved_promotion_rest projected_row_def rollback_def
    intro: catalog_from_insert)

end
