(* ===== verification/CatalogProgress.thy ===== *)
theory CatalogProgress
  imports CatalogFacts
begin

text \<open>
  What a pass of the reconciler achieves: a projection leaves a row that matches the file, and the deployment
  of the targets is a list of writes, one per gateway, that a second pass finds done. The writes are read off
  the gateways and the assignments, which no write changes.
\<close>

section \<open>Frames\<close>

definition same_api :: "world \<Rightarrow> world \<Rightarrow> bool" where
  "same_api w w' \<longleftrightarrow> catalogs w' = catalogs w \<and> gateways w' = gateways w \<and> assignments w' = assignments w \<and>
     promotions w' = promotions w"

interpretation same_api: deployment_writes same_api
  by unfold_locales (auto simp: same_api_def)

lemma upsert_same_api: "same_api w (snd (upsert_deployment entry g ds w))"
  and target_same_api: "same_api w (snd (reconcile_target sr entry base t w))"
  using same_api.upsert_writes same_api.target_writes by (auto simp: acts_within_def)

lemma targets_same_api: "same_api w (snd (forA ts (reconcile_target sr entry base) w))"
  using same_api.steps_forA [where xs = ts and f = "reconcile_target sr entry base"] same_api.target_writes
  by (auto simp: acts_within_def)

section \<open>A projected row\<close>

definition projection_wf :: "catalog_projection \<Rightarrow> bool" where
  "projection_wf p \<longleftrightarrow> jwf (JObj (cp_api_metadata p)) \<and> jwf (cp_openapi_spec p)"

lemma filter_dset: "filter (\<lambda>(k, v). k \<noteq> k0) (dset k0 x d) = filter (\<lambda>(k, v). k \<noteq> k0) d"
  by (induction d) auto

lemma jwf_filter: "jwf (JObj d) \<Longrightarrow> jwf (JObj (filter P d))"
  by (auto simp: list_all_iff distinct_map_filter)

lemma metadata_matches:
  assumes "jwf (JObj d)"
  shows "jeq (without_lifecycle_metadata (JObj (metadata_preserving_lifecycle d v))) (without_lifecycle_metadata (JObj d))"
  using jeq_refl [OF jwf_filter [OF assms]]
  by (simp add: without_lifecycle_metadata_def metadata_preserving_lifecycle_def filter_dset del: jeq.simps)

lemma projected_row_matches: "projection_wf p \<Longrightarrow> row_matches_projection (projected_row p i now) p"
  using metadata_matches [of "cp_api_metadata p" JNull]
  by (simp add: row_matches_projection_def projected_row_def projection_wf_def metadata_of_def jeq_refl
      metadata_preserving_lifecycle_def del: jeq.simps)

lemma updated_row_matches:
  "projection_wf p \<Longrightarrow> cat_tenant_id c = cp_tenant_id p \<Longrightarrow> row_matches_projection (updated_row p c) p"
  using metadata_matches [of "cp_api_metadata p" "cat_api_metadata c"]
  by (simp add: row_matches_projection_def updated_row_def projection_wf_def metadata_of_def jeq_refl del: jeq.simps)

lemma retargeted_document [simp]: "metadata_of (c\<lparr>cat_target_gateways := ns\<rparr>) = metadata_of c"
  "spec_data_of (c\<lparr>cat_target_gateways := ns\<rparr>) = spec_data_of c"
  "backend_url_of (c\<lparr>cat_target_gateways := ns\<rparr>) = backend_url_of c"
  "desired_state_git_metadata hst (c\<lparr>cat_target_gateways := ns\<rparr>) = desired_state_git_metadata hst c"
  by (simp_all add: metadata_of_def spec_data_of_def backend_url_of_def desired_state_git_metadata_def cong: if_cong)

lemma retargeted_matches [simp]:
  "row_matches_projection (c\<lparr>cat_target_gateways := ns\<rparr>) p = row_matches_projection c p"
  "build_desired_state hst (c\<lparr>cat_target_gateways := ns\<rparr>) = build_desired_state hst c"
  "legacy_row_of (c\<lparr>cat_target_gateways := ns\<rparr>) = legacy_row_of c"
  by (simp_all add: row_matches_projection_def build_desired_state_def legacy_row_of_def)

definition matching_row :: "catalog_projection \<Rightarrow> world \<Rightarrow> api_catalog \<Rightarrow> bool" where
  "matching_row p w c \<longleftrightarrow> get_api_by_id (cp_tenant_id p) (cp_api_id p) w = (Inr (Some c), w) \<and> row_matches_projection c p"

lemma matching_row_in: "matching_row p w c \<Longrightarrow> c \<in> set (catalogs w) \<and> cat_deleted_at c = None"
  by (auto simp: matching_row_def dest: get_api_by_id_Some)

lemma matching_rowI:
  assumes "db_ok w" and "c \<in> set (catalogs w)" and "cat_deleted_at c = None" and "row_matches_projection c p"
  shows "matching_row p w c"
  using get_api_by_id_finds [OF assms(1-3)] assms(4) by (simp add: matching_row_def row_matches_projection_def)

lemma projection_keeps_ok: "db_ok w \<Longrightarrow> project_to_api_catalog p w = (r, w') \<Longrightarrow> db_ok w'"
  using catalog_constraints.project_writes [of p] by (auto simp: acts_within_def keeps_db_ok_def dest!: spec [of _ w])

lemma projection_matches:
  assumes "project_to_api_catalog p w = (Inr (), w')" and "db_ok w" and "projection_wf p"
  shows "\<exists>c. matching_row p w' c \<and> is_obj (cat_api_metadata c)"
proof -
  have ok: "db_ok w'" using assms projection_keeps_ok by blast
  from assms(1) obtain found where f: "find_projected p w = (Inr found, w)"
    using find_projected_same by (auto simp: project_to_api_catalog_def bind_ok) (metis snd_conv)
  have "\<exists>c \<in> set (catalogs w'). cat_deleted_at c = None \<and> row_matches_projection c p \<and> is_obj (cat_api_metadata c)"
  proof (cases found)
    case None
    with assms(1) f obtain i now where "catalogs w' = catalogs w @ [projected_row p i now]"
      by (auto simp: project_to_api_catalog_def bindA_run [where m = "find_projected p"] run_simps split: if_splits)
    moreover have "cat_deleted_at (projected_row p i now) = None \<and> is_obj (cat_api_metadata (projected_row p i now))"
      by (simp add: projected_row_def)
    ultimately show ?thesis using projected_row_matches [OF assms(3), of i now] by auto
  next
    case (Some c)
    from find_projected_Some [OF f [unfolded Some]] have c: "c \<in> set (catalogs w)" "cat_tenant_id c = cp_tenant_id p"
      "cat_deleted_at c = None" by simp_all
    have "catalogs w' = replace_row cat_id (updated_row p c) (catalogs w)"
      using assms(1) f Some
      by (auto simp: project_to_api_catalog_def bindA_run [where m = "find_projected p"] ok_writes whenA_def
          canonicalize_soft_api_references_def split: if_splits)
    moreover have "updated_row p c \<in> set (replace_row cat_id (updated_row p c) (catalogs w))"
      using c(1) by (force simp: replace_row_def updated_row_def)
    ultimately show ?thesis
      using updated_row_matches [OF assms(3) c(2)] c(3) by (intro bexI [of _ "updated_row p c"]) (simp_all add: updated_row_def)
  qed
  then show ?thesis using matching_rowI [OF ok] by blast
qed

section \<open>The writes of a pass\<close>

text \<open>What one target writes: gateways with their desired states. The actions below only read.\<close>

definition target_writes_of ::
    "(string \<Rightarrow> gateway_instance list \<Rightarrow> gateway_instance option) \<Rightarrow> api_catalog \<Rightarrow> jdict \<Rightarrow> deployment_target \<Rightarrow>
     (gateway_instance \<times> jdict) list action" where
  "target_writes_of sr entry base t =
     (if \<not> opt_truthy (tgt_instance t) then
        bindA (resolve_assignment_gateways entry t) (\<lambda>gs. retA (map (\<lambda>g. (g,
          targeted_state base (tgt_activated t) (gi_name g) (Some (gi_environment g)) ''assignment'')) gs))
      else bindA (resolve_gateway sr (or_str (tgt_instance t) [])) (\<lambda>gateway. retA (case gateway of
          None \<Rightarrow> []
        | Some g \<Rightarrow> if gateway_fits g t
            then [(g, targeted_state base (tgt_activated t) (or_str (tgt_instance t) []) (tgt_environment t) (tgt_source t))]
            else [])))"

definition planned_writes ::
    "(string \<Rightarrow> gateway_instance list \<Rightarrow> gateway_instance option) \<Rightarrow> api_catalog \<Rightarrow> jdict \<Rightarrow> deployment_target list \<Rightarrow>
     (gateway_instance \<times> jdict) list action" where
  "planned_writes sr entry base ts = bindA (forA ts (target_writes_of sr entry base)) (\<lambda>ls. retA (concat ls))"

definition write_all :: "api_catalog \<Rightarrow> (gateway_instance \<times> jdict) list \<Rightarrow> bool list action" where
  "write_all entry l = forA l (\<lambda>(g, ds). upsert_deployment entry g ds)"

lemma forA_map: "forA (map f xs) k = forA xs (\<lambda>x. k (f x))"
  by (induction xs) simp_all

lemma bind_ret: "bindA m retA = m"
  by (auto simp: fun_eq_iff bindA_def retA_def split: prod.splits sum.splits)

lemma forA_append: "forA (xs @ ys) k = bindA (forA xs k) (\<lambda>a. bindA (forA ys k) (\<lambda>b. retA (a @ b)))"
  by (induction xs) (simp_all add: bind_ret del: retA_apply)

lemma write_all_simps [simp]:
  "write_all entry [] = retA []"
  "write_all entry ((g, ds) # l) = bindA (upsert_deployment entry g ds) (\<lambda>b. bindA (write_all entry l) (\<lambda>bs. retA (b # bs)))"
  by (simp_all add: write_all_def)

lemma target_by_writes: "reconcile_target sr entry base t =
    bindA (target_writes_of sr entry base t) (\<lambda>l. bindA (write_all entry l) (\<lambda>bs. retA (True \<in> set bs)))"
proof (cases "opt_truthy (tgt_instance t)")
  case True
  show ?thesis
    using True unfolding reconcile_target_def target_writes_of_def Let_def
    apply (simp del: retA_apply)
    apply (rule arg_cong [where f = "bindA (resolve_gateway sr (or_str (tgt_instance t) []))"], rule ext)
    subgoal for g by (cases g) (simp_all add: bind_ret eq_commute [of True] del: retA_apply)
    done
next
  case False
  then show ?thesis by (simp add: reconcile_target_def target_writes_of_def write_all_def forA_map)
qed

text \<open>Reading gives the same in worlds with the same gateways and assignments, and changes nothing.\<close>

definition reads_same :: "world \<Rightarrow> world \<Rightarrow> 'a action \<Rightarrow> bool" where
  "reads_same w w' m \<longleftrightarrow> (\<exists>r. m w = (r, w) \<and> m w' = (r, w'))"

lemma reads_same_bind: "reads_same w w' m \<Longrightarrow> (\<And>x. reads_same w w' (k x)) \<Longrightarrow> reads_same w w' (bindA m k)"
  unfolding reads_same_def bindA_def by (auto split: sum.splits)

lemma reads_same_basic: "reads_same w w' (retA x)" "f w = f w' \<Longrightarrow> reads_same w w' (getA f)"
  "q w = q w' \<Longrightarrow> reads_same w w' (queryA q)"
  by (simp_all add: reads_same_def)

lemma reads_same_forA: "(\<And>x. reads_same w w' (f x)) \<Longrightarrow> reads_same w w' (forA xs f)"
  by (induction xs) (simp_all add: reads_same_bind reads_same_basic)

lemma reads_same_writes:
  assumes "gateways w' = gateways w" and "assignments w' = assignments w"
  shows "reads_same w w' (target_writes_of sr entry base t)" and "reads_same w w' (planned_writes sr entry base ts)"
proof -
  show one: "reads_same w w' (target_writes_of sr entry base t)" for t
    unfolding target_writes_of_def resolve_assignment_gateways_def resolve_gateway_def list_auto_deploy_def
      get_gateway_by_id_def get_gateway_by_name_def
    by (auto simp: assms simp del: retA_apply intro!: reads_same_bind reads_same_basic reads_same_forA split: option.splits)
  then show "reads_same w w' (planned_writes sr entry base ts)"
    unfolding planned_writes_def by (intro reads_same_bind reads_same_basic reads_same_forA)
qed

lemma planned_same:
  assumes "same_api w w'" and "planned_writes sr entry base ts w = (r, v)"
  shows "planned_writes sr entry base ts w' = (r, w')"
  using reads_same_writes(2) [of w' w sr entry base ts] assms by (auto simp: same_api_def reads_same_def)

lemma planned_Cons: "planned_writes sr entry base (t # ts) =
    bindA (target_writes_of sr entry base t) (\<lambda>l. bindA (planned_writes sr entry base ts) (\<lambda>ls. retA (l @ ls)))"
  by (simp add: planned_writes_def del: retA_apply)

lemma write_all_append: "write_all entry (l @ m) =
    bindA (write_all entry l) (\<lambda>a. bindA (write_all entry m) (\<lambda>b. retA (a @ b)))"
  by (simp add: write_all_def forA_append)

lemma writes_same_api: "same_api w (snd (write_all entry l w))"
proof -
  have "acts_within same_api (write_all entry l)"
    unfolding write_all_def by (intro same_api.steps_forA) (auto intro: same_api.upsert_writes)
  then show ?thesis by (simp add: acts_within_def)
qed

text \<open>The loop over the targets does the planned writes, one after the other.\<close>

lemma targets_by_writes:
  assumes "planned_writes sr entry base ts w = (Inr l, v)"
  shows "bindA (forA ts (reconcile_target sr entry base)) (\<lambda>bs. retA (True \<in> set bs)) w =
    bindA (write_all entry l) (\<lambda>bs. retA (True \<in> set bs)) w"
  using assms
proof (induction ts arbitrary: l v w)
  case Nil
  then show ?case by (simp add: planned_writes_def)
next
  case (Cons t ts)
  from Cons.prems obtain l1 ls v1 where t: "target_writes_of sr entry base t w = (Inr l1, v1)"
    and ts: "planned_writes sr entry base ts v1 = (Inr ls, v)" and l: "l = l1 @ ls"
    by (auto simp: planned_Cons bind_ok)
  have v1: "v1 = w" using reads_same_writes(1) [of w w sr entry base t] t by (simp add: reads_same_def)
  obtain r w1 where w1: "write_all entry l1 w = (r, w1)" by (cases "write_all entry l1 w")
  show ?case
  proof (cases r)
    case (Inl e)
    then show ?thesis
      using t w1 by (simp add: l write_all_append target_by_writes v1 bindA_def)
  next
    case (Inr bs)
    from w1 writes_same_api [of w entry l1] have "same_api w w1" by simp
    with ts v1 have "planned_writes sr entry base ts w1 = (Inr ls, w1)" by (auto intro: planned_same)
    from Cons.IH [OF this] show ?thesis
      using t w1 Inr
      by (auto simp: l write_all_append target_by_writes v1 bindA_def split: prod.splits sum.splits)
  qed
qed

section \<open>A second pass\<close>

text \<open>The gateway has the row of the API, with this desired state.\<close>

definition settled :: "world \<Rightarrow> api_catalog \<Rightarrow> gateway_instance \<times> jdict \<Rightarrow> bool" where
  "settled w entry x \<longleftrightarrow> (\<exists>d \<in> set (deployments w). dep_api_catalog_id d = cat_id entry \<and>
     dep_gateway_instance_id d = gi_id (fst x) \<and> jeq (dep_desired_state d) (JObj (snd x)))"

lemma row_of_gateway:
  assumes "db_ok w" and "d \<in> set (deployments w)"
  shows "get_by_api_and_gateway (dep_api_catalog_id d) (dep_gateway_instance_id d) w = (Inr (Some d), w)"
  using assms deployment_table.query_finds [of "deployments w"
      "\<lambda>e. dep_api_catalog_id e = dep_api_catalog_id d \<and> dep_gateway_instance_id e = dep_gateway_instance_id d" d]
  by (simp add: get_by_api_and_gateway_def db_ok_def deployment_clash_def)

lemma upsert_settled:
  assumes "db_ok w" and "settled w entry (g, ds)"
  shows "upsert_deployment entry g ds w = (Inr False, w\<lparr>ticks := Suc (ticks w)\<rparr>)"
proof -
  from assms(2) obtain d where d: "d \<in> set (deployments w)" "dep_api_catalog_id d = cat_id entry"
    "dep_gateway_instance_id d = gi_id g" "jeq (dep_desired_state d) (JObj ds)" by (auto simp: settled_def)
  with row_of_gateway [OF assms(1) d(1)] have "get_by_api_and_gateway (cat_id entry) (gi_id g) w = (Inr (Some d), w)" by simp
  then show ?thesis
    by (simp add: upsert_deployment_def bindA_run [where m = "get_by_api_and_gateway (cat_id entry) (gi_id g)"] d(4))
qed

text \<open>The outcomes of one write.\<close>

lemma upsert_cases:
  assumes "upsert_deployment entry g ds w = (Inr b, w')"
  obtains (unchanged) d where "b = False" and "w' = w\<lparr>ticks := Suc (ticks w)\<rparr>" and "d \<in> set (deployments w)"
    "dep_api_catalog_id d = cat_id entry" "dep_gateway_instance_id d = gi_id g" "jeq (dep_desired_state d) (JObj ds)"
  | (changed) d now where "b = True" and "d \<in> set (deployments w)" "dep_api_catalog_id d = cat_id entry"
    "dep_gateway_instance_id d = gi_id g" "\<not> jeq (dep_desired_state d) (JObj ds)"
    "deployments w' = replace_row dep_id (redeploy_direct d ds now) (deployments w)"
  | (new) i now where "b = True"
    "deployments w' = deployments w @ [new_deployment_row i (cat_id entry) (gi_id g) ds None now]"
proof -
  from assms obtain e where e: "get_by_api_and_gateway (cat_id entry) (gi_id g) w = (Inr e, w)"
    by (auto simp: upsert_deployment_def bind_ok get_by_api_and_gateway_def)
  show thesis
  proof (cases e)
    case None
    with assms e show thesis
      by (intro new [where i = "uuid_source w (uuids_used w)" and now = "clock w (ticks w)"])
        (auto simp: upsert_deployment_def bindA_run [where m = "get_by_api_and_gateway (cat_id entry) (gi_id g)"] run_simps
          split: if_splits)
  next
    case (Some d)
    with e have d: "d \<in> set (deployments w)" "dep_api_catalog_id d = cat_id entry" "dep_gateway_instance_id d = gi_id g"
      by (auto simp: get_by_api_and_gateway_def dest: scalar_one_or_none_in)
    show thesis
    proof (cases "jeq (dep_desired_state d) (JObj ds)")
      case True
      with assms e Some d show thesis
        by (intro unchanged [of d])
          (auto simp: upsert_deployment_def bindA_run [where m = "get_by_api_and_gateway (cat_id entry) (gi_id g)"])
    next
      case False
      with assms e Some d show thesis
        by (intro changed [of d "clock w (ticks w)"])
          (auto simp: upsert_deployment_def bindA_run [where m = "get_by_api_and_gateway (cat_id entry) (gi_id g)"] run_simps
            split: if_splits)
    qed
  qed
qed

lemma upsert_settles:
  assumes "upsert_deployment entry g ds w = (Inr b, w')" and "jwf (JObj ds)"
  shows "settled w' entry (g, ds)"
  using assms(1)
proof (cases rule: upsert_cases)
  case (unchanged d)
  then show ?thesis by (auto simp: settled_def)
next
  case (changed d now)
  then have "redeploy_direct d ds now \<in> set (deployments w')" by (force simp: replace_row_def redeploy_direct_def)
  with changed jeq_refl [OF assms(2)] show ?thesis
    by (auto simp: settled_def redeploy_direct_def intro!: bexI [of _ "redeploy_direct d ds now"] simp del: jeq.simps)
next
  case (new i now)
  with jeq_refl [OF assms(2)] show ?thesis by (auto simp: settled_def new_deployment_row_def simp del: jeq.simps)
qed

lemma upsert_keeps_settled:
  assumes "upsert_deployment entry g ds w = (Inr b, w')" and "db_ok w" and "settled w entry x" and "gi_id (fst x) \<noteq> gi_id g"
  shows "settled w' entry x"
  using assms(1)
proof (cases rule: upsert_cases)
  case (unchanged d)
  with assms(3) show ?thesis by (simp add: settled_def)
next
  case (changed d now)
  from assms(3) obtain e where e: "e \<in> set (deployments w)" "dep_api_catalog_id e = cat_id entry"
    "dep_gateway_instance_id e = gi_id (fst x)" "jeq (dep_desired_state e) (JObj (snd x))" by (auto simp: settled_def)
  have "dep_id e \<noteq> dep_id d"
    using assms(2,4) e(1,3) changed(2,4) by (auto simp: db_ok_def table_ok_def distinct_map dest: inj_onD)
  then have "e \<in> set (deployments w')" using e(1) changed(6) by (force simp: replace_row_def redeploy_direct_def)
  with e show ?thesis by (auto simp: settled_def)
next
  case (new i now)
  with assms(3) show ?thesis by (auto simp: settled_def)
qed

lemma upsert_keeps_ok: "upsert_deployment entry g ds w = (r, w') \<Longrightarrow> db_ok w \<Longrightarrow> db_ok w'"
  using catalog_constraints.upsert_writes [of entry g ds] by (auto simp: acts_within_def keeps_db_ok_def dest!: spec [of _ w])

lemma write_all_settles:
  assumes "write_all entry l w = (Inr bs, w')" and "db_ok w" and "distinct (map (\<lambda>x. gi_id (fst x)) l)"
    and "\<forall>x \<in> set l. jwf (JObj (snd x))"
  shows "db_ok w' \<and> (\<forall>x \<in> set l. settled w' entry x) \<and>
     (\<forall>x. settled w entry x \<and> gi_id (fst x) \<notin> (\<lambda>x. gi_id (fst x)) ` set l \<longrightarrow> settled w' entry x)"
  using assms
proof (induction l arbitrary: w bs)
  case (Cons x l)
  obtain g ds where x: "x = (g, ds)" by (cases x)
  from Cons.prems(1) obtain b cs w1 where one: "upsert_deployment entry g ds w = (Inr b, w1)"
    and rest: "write_all entry l w1 = (Inr cs, w')" by (auto simp: x bind_ok)
  have ok: "db_ok w1" by (rule upsert_keeps_ok [OF one Cons.prems(2)])
  have "settled w1 entry (g, ds)" using one Cons.prems(4) by (intro upsert_settles) (auto simp: x simp del: jwf.simps)
  moreover note IH = Cons.IH [OF rest ok] and keep = upsert_keeps_settled [OF one Cons.prems(2)]
  ultimately show ?case using Cons.prems(3,4) by (auto simp: x simp del: jwf.simps)
qed simp

lemma write_all_settled:
  assumes "db_ok w" and "\<forall>x \<in> set l. settled w entry x"
  shows "write_all entry l w = (Inr (replicate (length l) False), w\<lparr>ticks := ticks w + length l\<rparr>)"
  using assms
proof (induction l arbitrary: w)
  case (Cons x l)
  obtain g ds where x: "x = (g, ds)" by (cases x)
  let ?v = "w\<lparr>ticks := Suc (ticks w)\<rparr>"
  have one: "upsert_deployment entry g ds w = (Inr False, ?v)" using Cons.prems by (intro upsert_settled) (simp_all add: x)
  have "write_all entry l ?v = (Inr (replicate (length l) False), ?v\<lparr>ticks := ticks ?v + length l\<rparr>)"
    using Cons.prems by (intro Cons.IH) (auto simp: settled_def db_ok_def)
  then show ?case by (simp add: x bindA_run [where m = "upsert_deployment entry g ds", OF one] bindA_run [where m = "write_all entry l"])
qed simp

lemma write_all_unchanged: "write_all entry l w = (Inr bs, w') \<Longrightarrow> True \<notin> set bs \<Longrightarrow> same_tables w w'"
proof (induction l arbitrary: w bs)
  case (Cons x l)
  obtain g ds where x: "x = (g, ds)" by (cases x)
  from Cons.prems obtain b cs w1 where one: "upsert_deployment entry g ds w = (Inr b, w1)"
    and rest: "write_all entry l w1 = (Inr cs, w')" and "\<not> b" "True \<notin> set cs" by (auto simp: x bind_ok)
  from one \<open>\<not> b\<close> have "same_tables w w1" by (cases rule: upsert_cases) (auto simp: same_tables_def)
  with Cons.IH [OF rest \<open>True \<notin> set cs\<close>] show ?case by (auto simp: same_tables_def)
qed (simp add: same_tables_def)

section \<open>reconcile\_api on a known row\<close>

text \<open>The writes of the document for a row.\<close>

definition api_writes_of ::
    "host \<Rightarrow> (string \<Rightarrow> gateway_instance list \<Rightarrow> gateway_instance option) \<Rightarrow> jdict \<Rightarrow> api_catalog \<Rightarrow>
     (gateway_instance \<times> jdict) list action" where
  "api_writes_of hst sr content c =
     planned_writes sr c (build_desired_state hst c) (extract_deployment_targets (normalize_api_definition content))"

definition target_names_of :: "jdict \<Rightarrow> string list" where
  "target_names_of content = extract_target_gateway_names (normalize_api_definition content)"

definition no_targets :: "jdict \<Rightarrow> bool" where
  "no_targets content \<longleftrightarrow> extract_deployment_targets (normalize_api_definition content) = [] \<and> target_names_of content = []"

lemma api_writes_same:
  assumes "gateways w' = gateways w" and "assignments w' = assignments w" and "api_writes_of hst sr content c w = (r, v)"
  shows "api_writes_of hst sr content c w' = (r, w')"
  using reads_same_writes(2) [OF assms(1,2), of sr c "build_desired_state hst c"
      "extract_deployment_targets (normalize_api_definition content)"] assms(3)
  by (auto simp: api_writes_of_def reads_same_def)

lemma api_writes_retargeted [simp]:
  "api_writes_of hst sr content (c\<lparr>cat_target_gateways := ns\<rparr>) = api_writes_of hst sr content c"
proof -
  have "target_writes_of sr (c\<lparr>cat_target_gateways := ns\<rparr>) base t = target_writes_of sr c base t" for base t
    by (simp add: target_writes_of_def resolve_assignment_gateways_def cong: if_cong)
  then have "target_writes_of sr (c\<lparr>cat_target_gateways := ns\<rparr>) base = target_writes_of sr c base" for base by (rule ext)
  then show ?thesis by (simp add: api_writes_of_def planned_writes_def)
qed

lemma settled_retargeted [simp]: "settled w (c\<lparr>cat_target_gateways := ns\<rparr>) x = settled w c x"
  by (simp add: settled_def)

lemma target_writes_wf:
  assumes "target_writes_of sr c base t w = (Inr l, v)" and "jwf (JObj base)"
  shows "\<forall>x \<in> set l. jwf (JObj (snd x))"
proof -
  have "jwf (JObj (targeted_state base b n e src))" for b n e src
    unfolding targeted_state_def by (rule jwf_dmerge [OF assms(2)]) (simp add: opt_str_def split: option.splits)
  with assms(1) show ?thesis
    by (auto simp: target_writes_of_def bind_ok simp del: jwf.simps split: if_splits option.splits)
qed

lemma planned_writes_wf:
  "planned_writes sr c base ts w = (Inr l, v) \<Longrightarrow> jwf (JObj base) \<Longrightarrow> \<forall>x \<in> set l. jwf (JObj (snd x))"
proof (induction ts arbitrary: l w)
  case (Cons t ts)
  from Cons.prems(1) obtain l1 ls w1 where "target_writes_of sr c base t w = (Inr l1, w1)"
    and "planned_writes sr c base ts w1 = (Inr ls, v)" and "l = l1 @ ls"
    by (auto simp: planned_Cons bind_ok)
  then show ?case using target_writes_wf [OF _ Cons.prems(2)] Cons.IH [OF _ Cons.prems(2)]
    by (simp del: jwf.simps add: ball_Un)
qed (simp add: planned_writes_def)

lemma reconcile_api_run:
  assumes "api_writes_of hst sr content c w = (Inr l, w)" and "\<not> no_targets content"
  shows "reconcile_api hst sr t a content (Some c) w =
    bindA (whenA (cat_target_gateways c \<noteq> target_names_of content)
        (bindA (save_api_catalog (c\<lparr>cat_target_gateways := target_names_of content\<rparr>)) (\<lambda>_. retA ())))
      (\<lambda>_. bindA (write_all c l) (\<lambda>bs. retA (cat_target_gateways c \<noteq> target_names_of content \<or> True \<in> set bs))) w"
    (is "_ = bindA ?save (\<lambda>_. ?writes) w")
proof -
  let ?base = "build_desired_state hst c" and ?ts = "extract_deployment_targets (normalize_api_definition content)"
  let ?renamed = "cat_target_gateways c \<noteq> target_names_of content"
  have loop: "bindA (forA ?ts (reconcile_target sr c ?base)) (\<lambda>bs. retA (b \<or> True \<in> set bs)) v =
      bindA (write_all c l) (\<lambda>bs. retA (b \<or> True \<in> set bs)) v"
    if v: "gateways v = gateways w" "assignments v = assignments w" for v b
  proof -
    from api_writes_same [OF v assms(1)] have "planned_writes sr c ?base ?ts v = (Inr l, v)" by (simp add: api_writes_of_def)
    from targets_by_writes [OF this]
    have "bindA (bindA (forA ?ts (reconcile_target sr c ?base)) (\<lambda>bs. retA (True \<in> set bs))) (\<lambda>x. retA (b \<or> x)) v =
      bindA (bindA (write_all c l) (\<lambda>bs. retA (True \<in> set bs))) (\<lambda>x. retA (b \<or> x)) v"
      by (simp only: bindA_def [of "bindA _ _"])
    then show ?thesis by (simp del: retA_apply)
  qed
  have run: "reconcile_api hst sr t a content (Some c) w =
      bindA ?save (\<lambda>_. bindA (forA ?ts (reconcile_target sr c ?base)) (\<lambda>bs. retA (?renamed \<or> True \<in> set bs))) w"
    using assms(2) by (auto simp: reconcile_api_def no_targets_def target_names_of_def Let_def simp del: retA_apply)
  note loops = loop [where b = True, simplified] loop [where b = False, simplified]
  show ?thesis unfolding run
    by (simp add: whenA_def save_catalog_bind loops del: normalize_api_definition_idem retA_apply)
qed

text \<open>The first pass does the writes, the second finds them done.\<close>

lemma reconcile_api_first:
  assumes "reconcile_api hst sr t a content (Some c) w = (Inr b, w')" and "db_ok w" and "c \<in> set (catalogs w)"
    and "api_writes_of hst sr content c w = (Inr l, w)" and "distinct (map (\<lambda>x. gi_id (fst x)) l)"
    and "jwf (cat_openapi_spec c)" and "jwf (cat_api_metadata c)"
  obtains c' where "c' \<in> set (catalogs w')" and "c' = c\<lparr>cat_target_gateways := cat_target_gateways c'\<rparr>"
    and "no_targets content \<or> cat_target_gateways c' = target_names_of content \<and> (\<forall>x \<in> set l. settled w' c' x)"
    and "db_ok w'" and "gateways w' = gateways w" and "assignments w' = assignments w"
    and "\<not> b \<longrightarrow> same_tables w w'"
proof (cases "no_targets content")
  case True
  then have "reconcile_api hst sr t a content (Some c) w = (Inr False, w)"
    by (simp add: reconcile_api_def no_targets_def target_names_of_def)
  with assms True show thesis by (intro that [of c]) (simp_all add: same_tables_def)
next
  case False
  let ?names = "target_names_of content" let ?c = "c\<lparr>cat_target_gateways := ?names\<rparr>"
  define w1 where "w1 = (if cat_target_gateways c \<noteq> ?names then w\<lparr>catalogs := replace_row cat_id ?c (catalogs w)\<rparr> else w)"
  from assms(1) [unfolded reconcile_api_run [OF assms(4) False]]
  have ok: "cat_target_gateways c \<noteq> ?names \<Longrightarrow> replaceable cat_id catalog_clash ?c (catalogs w)"
    and "bindA (write_all c l) (\<lambda>bs. retA (cat_target_gateways c \<noteq> ?names \<or> True \<in> set bs)) w1 = (Inr b, w')"
    by (simp_all add: whenA_def save_catalog_bind w1_def split: if_splits)
  then obtain bs where run: "write_all c l w1 = (Inr bs, w')"
    and b: "b \<longleftrightarrow> cat_target_gateways c \<noteq> ?names \<or> True \<in> set bs" by (auto simp: bind_ok)
  have ok1: "db_ok w1" using assms(2) ok by (auto simp: w1_def db_ok_def intro: saved_table_ok)
  have wf: "\<forall>x \<in> set l. jwf (JObj (snd x))"
    using assms(4) planned_writes_wf jwf_desired_state [OF assms(6,7)] by (auto simp: api_writes_of_def simp del: jwf.simps)
  note all = write_all_settles [OF run ok1 assms(5) wf]
  have frame: "same_api w1 w'" using writes_same_api [of w1 c l] run by simp
  have c: "?c \<in> set (catalogs w1)"
  proof (cases "cat_target_gateways c = ?names")
    case True
    then have "?c = c" by (cases c) simp
    with assms(3) True show ?thesis unfolding w1_def by (simp only:) simp
  next
    case False
    with assms(3) show ?thesis by (force simp: w1_def replace_row_def)
  qed
  show thesis
  proof (rule that [of ?c])
    show "\<not> b \<longrightarrow> same_tables w w'" using b write_all_unchanged [OF run] by (auto simp: w1_def)
    show "no_targets content \<or> cat_target_gateways ?c = ?names \<and> (\<forall>x \<in> set l. settled w' ?c x)" using all by simp
  qed (use frame c all in \<open>auto simp: same_api_def w1_def split: if_splits\<close>)
qed

lemma reconcile_api_again:
  assumes "db_ok w" and "api_writes_of hst sr content c w = (Inr l, w)"
    and "no_targets content \<or> cat_target_gateways c = target_names_of content \<and> (\<forall>x \<in> set l. settled w c x)"
  shows "\<exists>n. reconcile_api hst sr t a content (Some c) w = (Inr False, w\<lparr>ticks := n\<rparr>)"
proof (cases "no_targets content")
  case True
  then have "reconcile_api hst sr t a content (Some c) w = (Inr False, w\<lparr>ticks := ticks w\<rparr>)"
    by (simp add: reconcile_api_def no_targets_def target_names_of_def)
  then show ?thesis ..
next
  case False
  with assms write_all_settled [OF assms(1), of l c] show ?thesis
    by (auto simp: reconcile_api_run whenA_def bindA_run [where m = "write_all c l"])
qed

end
