(* ===== verification/CatalogRows.thy ===== *)
theory CatalogRows
  imports CatalogProgress
begin

text \<open>The decision of the reconciler on one row, taken apart: what each branch leaves in the database.\<close>

lemma deploys_keep_ok:
  assumes "reconcile_api hst sr t a content (Some c) w = (r, w')" and "db_ok w" and "c \<in> set (catalogs w)" and "cat_deleted_at c = None"
  shows "db_ok w'"
  using catalog_constraints.api_writes [of "Some c" w hst sr t a content] assms by (simp add: keeps_db_ok_def)

text \<open>Deploying the targets writes nothing of a row but the names of its gateways.\<close>

lemma deploys_keep_row:
  assumes "reconcile_api hst sr t a content (Some c) w = (Inr b, w')" and "c \<in> set (catalogs w)"
  shows "\<exists>ns. c\<lparr>cat_target_gateways := ns\<rparr> \<in> set (catalogs w') \<and> gateways w' = gateways w \<and> assignments w' = assignments w \<and>
     promotions w' = promotions w"
proof -
  let ?names = "target_names_of content" and ?base = "build_desired_state hst c"
    and ?ts = "extract_deployment_targets (normalize_api_definition content)"
  define w1 where "w1 = (if cat_target_gateways c \<noteq> ?names
    then w\<lparr>catalogs := replace_row cat_id (c\<lparr>cat_target_gateways := ?names\<rparr>) (catalogs w)\<rparr> else w)"
  have same: "c\<lparr>cat_target_gateways := cat_target_gateways c\<rparr> = c" by simp
  show ?thesis
  proof (cases "no_targets content")
    case True
    with assms have "w' = w" by (simp add: reconcile_api_def no_targets_def target_names_of_def)
    with assms(2) same have "c\<lparr>cat_target_gateways := cat_target_gateways c\<rparr> \<in> set (catalogs w')" by (simp only:)
    with \<open>w' = w\<close> show ?thesis by blast
  next
    case False
    with assms(1) have "\<exists>bs. forA ?ts (reconcile_target sr c ?base) w1 = (Inr bs, w')"
      by (auto simp: reconcile_api_def no_targets_def target_names_of_def Let_def whenA_def save_catalog_bind w1_def bind_ok
          split: if_splits)
    then have frame: "same_api w1 w'" using targets_same_api [of w1 ?ts sr c ?base] by auto
    have "\<exists>ns. c\<lparr>cat_target_gateways := ns\<rparr> \<in> set (catalogs w1)"
    proof (cases "cat_target_gateways c = ?names")
      case True
      then have "catalogs w1 = catalogs w" by (simp add: w1_def)
      with assms(2) same have "c\<lparr>cat_target_gateways := cat_target_gateways c\<rparr> \<in> set (catalogs w1)" by (simp only:)
      then show ?thesis ..
    next
      case False
      then have "c\<lparr>cat_target_gateways := ?names\<rparr> \<in> set (catalogs w1)"
        using assms(2) by (force simp: w1_def replace_row_def)
      then show ?thesis ..
    qed
    with frame show ?thesis by (auto simp: same_api_def w1_def)
  qed
qed

lemma deploys_keep_match:
  assumes "reconcile_api hst sr t a content (Some c) w = (Inr b, w')" and "matching_row p w c" and "db_ok w"
  shows "\<exists>ns. matching_row p w' (c\<lparr>cat_target_gateways := ns\<rparr>) \<and> db_ok w'"
proof -
  from matching_row_in [OF assms(2)] have c: "c \<in> set (catalogs w)" "cat_deleted_at c = None" by simp_all
  have ok: "db_ok w'" by (rule deploys_keep_ok [OF assms(1,3) c])
  from deploys_keep_row [OF assms(1) c(1)] obtain ns where "c\<lparr>cat_target_gateways := ns\<rparr> \<in> set (catalogs w')" by blast
  with ok c assms(2) have "matching_row p w' (c\<lparr>cat_target_gateways := ns\<rparr>)"
    by (intro matching_rowI) (simp_all add: matching_row_def)
  with ok show ?thesis by blast
qed

lemma projection_frame:
  assumes "project_to_api_catalog p w = (r, w')"
  shows "gateways w' = gateways w \<and> assignments w' = assignments w"
  using catalog_foreign.project_writes [of p] assms by (auto simp: acts_within_def keeps_foreign_def dest!: spec [of _ w])

lemma project_and_deploy_run:
  assumes "project_and_deploy hst sr p content w = (Inr (), w')" and "db_ok w" and "projection_wf p"
  obtains w1 c b where "project_to_api_catalog p w = (Inr (), w1)" and "matching_row p w1 c"
    and "is_obj (cat_api_metadata c)" and "db_ok w1"
    and "reconcile_api hst sr (cp_tenant_id p) (cp_api_id p) content (Some c) w1 = (Inr b, w')"
    and "gateways w1 = gateways w" and "assignments w1 = assignments w"
proof -
  from assms(1) obtain w1 where one: "project_to_api_catalog p w = (Inr (), w1)" by (auto simp: project_and_deploy_def bind_ok)
  from projection_matches [OF one assms(2,3)] obtain c where c: "matching_row p w1 c" "is_obj (cat_api_metadata c)" by blast
  from assms(1) one c obtain b where "reconcile_api hst sr (cp_tenant_id p) (cp_api_id p) content (Some c) w1 = (Inr b, w')"
    by (auto simp: project_and_deploy_def bindA_run [where m = "project_to_api_catalog p"] matching_row_def
        bindA_run [where m = "get_api_by_id (cp_tenant_id p) (cp_api_id p)"] bind_ok)
  then show thesis using that [OF one c] projection_keeps_ok [OF assms(2) one] projection_frame [OF one] by blast
qed

text \<open>The branches.\<close>

definition lock_free :: "host \<Rightarrow> catalog_projection \<Rightarrow> 'g gitops \<Rightarrow> bool" where
  "lock_free hst p s \<longleftrightarrow> advisory_lock_key hst (cp_tenant_id p) (cp_api_id p) \<notin> set (go_locks s)"

definition row_category :: "api_catalog option \<Rightarrow> legacy_category" where
  "row_category row = classify_legacy (map_option legacy_row_of row) True"

definition out_of_date :: "catalog_projection \<Rightarrow> api_catalog option \<Rightarrow> bool" where
  "out_of_date p row \<longleftrightarrow> (case row of None \<Rightarrow> True | Some c \<Rightarrow> \<not> row_matches_projection c p)"

definition db_row_report :: "catalog_projection \<Rightarrow> string \<Rightarrow> string option \<Rightarrow> sync_report" where
  "db_row_report p status err = report (cp_tenant_id p) (cp_api_id p) status (Some (cp_git_commit_sha p))
     (Some (cp_catalog_content_hash p)) (Some (cp_git_path p)) err"

lemma category_of_row: "row_category (Some c) \<noteq> ABSENT" "row_category None = ABSENT" "row_category row \<noteq> ORPHAN_DB"
  by (auto simp: row_category_def classify_legacy_def split: option.splits)

lemma rollback_same [simp]: "rollback w w = w" and rollback_tables [simp]: "same_tables w (rollback w v)"
  by (simp_all add: rollback_def same_tables_def)

lemma same_tables_refl [simp]: "same_tables w w"
  by (rule same_tables.rel_refl)

text \<open>What follows the reading of the row.\<close>

definition db_row_branch ::
    "host \<Rightarrow> (string \<Rightarrow> gateway_instance list \<Rightarrow> gateway_instance option) \<Rightarrow> catalog_projection \<Rightarrow> jdict \<Rightarrow>
     api_catalog option \<Rightarrow> ('g, bool) gitops_action" where
  "db_row_branch hst sr p content row =
     (let log = (\<lambda>status err. log_sync_status (db_row_report p status err));
          synced = (\<lambda>_. bindA (dbA (project_and_deploy hst sr p content)) (\<lambda>_. bindA (log ''synced'' None) (\<lambda>_. retA True)))
      in case row_category row of
           UUID_HARD_DRIFT \<Rightarrow> bindA (log ''drift_detected'' (Some ''uuid hard drift'')) (\<lambda>_. retA False)
         | PRE_GITOPS \<Rightarrow> bindA (log ''drift_pre_gitops'' (Some ''no git_path nor commit pointer'')) (\<lambda>_. retA False)
         | ABSENT \<Rightarrow> bindA (try_advisory_lock hst (cp_tenant_id p) (cp_api_id p)) (\<lambda>acquired.
             if \<not> acquired then retA False else synced ())
         | _ \<Rightarrow> (case row of None \<Rightarrow> retA False
             | Some actual \<Rightarrow>
                 if out_of_date p row then
                   bindA (try_advisory_lock hst (cp_tenant_id p) (cp_api_id p)) (\<lambda>acquired.
                   if \<not> acquired then retA False
                   else bindA (log ''drift_detected'' (Some ''projection drift'')) synced)
                 else bindA (log ''synced'' None) (\<lambda>_.
                   dbA (reconcile_api hst sr (cp_tenant_id p) (cp_api_id p) content (Some actual)))))"

lemma db_row_run:
  assumes "get_api_by_id (cp_tenant_id p) (cp_api_id p) (go_db s) = (Inr row, go_db s)" and "row_to_dict row = Inr ()"
  shows "reconcile_db_row hst sr p content s = in_session (\<lambda>_. db_row_branch hst sr p content row s) s"
proof -
  have get: "dbA (get_api_by_id (cp_tenant_id p) (cp_api_id p)) s = (Inr row, s)" using assms(1) by (simp add: dbA_def)
  have session: "reconcile_db_row hst sr p content = in_session (bindA (dbA (get_api_by_id (cp_tenant_id p) (cp_api_id p)))
      (\<lambda>row. bindA (liftA (row_to_dict row)) (\<lambda>_. db_row_branch hst sr p content row)))"
    unfolding reconcile_db_row_def db_row_branch_def Let_def row_category_def db_row_report_def out_of_date_def
    by (intro arg_cong [where f = in_session] arg_cong2 [where f = bindA] refl ext)
      (simp split: option.split legacy_category.split del: retA_apply)
  have branch: "bindA (dbA (get_api_by_id (cp_tenant_id p) (cp_api_id p)))
      (\<lambda>row. bindA (liftA (row_to_dict row)) (\<lambda>_. db_row_branch hst sr p content row)) s = db_row_branch hst sr p content row s"
    by (simp only: bindA_run [where m = "dbA (get_api_by_id (cp_tenant_id p) (cp_api_id p))", OF get]) (simp add: assms(2))
  show ?thesis by (simp only: session in_session_def branch)
qed

lemma dbA_run: "m (go_db s) = (r, w) \<Longrightarrow> dbA m s = (r, s\<lparr>go_db := w\<rparr>)"
  by (simp add: dbA_def)

lemmas branch_defs = in_session_def db_row_branch_def lock_free_def try_advisory_lock_def log_sync_status_def

lemma db_row_blocked:
  assumes "get_api_by_id (cp_tenant_id p) (cp_api_id p) (go_db s) = (Inr row, go_db s)" and "row_to_dict row = Inr ()"
    and "legacy_blocked (row_category row)"
  shows "\<exists>status err. reconcile_db_row hst sr p content s =
    (Inr (), s\<lparr>go_reports := go_reports s @ [db_row_report p status (Some err)]\<rparr>) \<and> status \<noteq> ''synced''"
proof -
  from assms(3) category_of_row(3) [of row] have "row_category row = UUID_HARD_DRIFT \<or> row_category row = PRE_GITOPS"
    by (auto simp: legacy_blocked_def)
  then show ?thesis unfolding db_row_run [OF assms(1,2)]
  proof
    assume "row_category row = UUID_HARD_DRIFT"
    then show "\<exists>status err. in_session (\<lambda>_. db_row_branch hst sr p content row s) s =
        (Inr (), s\<lparr>go_reports := go_reports s @ [db_row_report p status (Some err)]\<rparr>) \<and> status \<noteq> ''synced''"
      by (intro exI [of _ "''drift_detected''"] exI [of _ "''uuid hard drift''"]) (simp add: branch_defs)
  next
    assume "row_category row = PRE_GITOPS"
    then show "\<exists>status err. in_session (\<lambda>_. db_row_branch hst sr p content row s) s =
        (Inr (), s\<lparr>go_reports := go_reports s @ [db_row_report p status (Some err)]\<rparr>) \<and> status \<noteq> ''synced''"
      by (intro exI [of _ "''drift_pre_gitops''"] exI [of _ "''no git_path nor commit pointer''"]) (simp add: branch_defs)
  qed
qed

lemma unblocked_category:
  assumes "\<not> legacy_blocked (row_category row)"
  shows "(row = None \<and> row_category row = ABSENT) \<or>
    (\<exists>c. row = Some c \<and> (row_category row = HEALTHY_ADOPTABLE \<or> row_category row = GITOPS_CREATED))"
  using assms category_of_row(1) category_of_row(2) category_of_row(3) [of row]
  by (cases row; cases "row_category row") (auto simp: legacy_blocked_def)

lemma db_row_locked:
  assumes "get_api_by_id (cp_tenant_id p) (cp_api_id p) (go_db s) = (Inr row, go_db s)" and "row_to_dict row = Inr ()"
    and "\<not> legacy_blocked (row_category row)" and "out_of_date p row" and "\<not> lock_free hst p s"
  shows "reconcile_db_row hst sr p content s = (Inr (), s)"
  using unblocked_category [OF assms(3)] assms(4,5) unfolding db_row_run [OF assms(1,2)]
  by (auto simp: branch_defs)

lemma db_row_free:
  assumes "get_api_by_id (cp_tenant_id p) (cp_api_id p) (go_db s) = (Inr row, go_db s)" and "row_to_dict row = Inr ()"
    and "\<not> legacy_blocked (row_category row)" and "out_of_date p row" and "lock_free hst p s"
    and "project_and_deploy hst sr p content (go_db s) = (r, w)"
  shows "reconcile_db_row hst sr p content s =
    (let before = go_reports s @ (if row = None then [] else [db_row_report p ''drift_detected'' (Some ''projection drift'')])
     in case r of Inr _ \<Rightarrow> (Inr (), s\<lparr>go_db := w, go_reports := before @ [db_row_report p ''synced'' None]\<rparr>)
      | Inl e \<Rightarrow> (Inl e, s\<lparr>go_db := rollback (go_db s) w, go_reports := before\<rparr>))"
  using unblocked_category [OF assms(3)] assms(4-6) unfolding db_row_run [OF assms(1,2)]
  by (cases r) (auto simp: branch_defs bindA_def [of "dbA (project_and_deploy hst sr p content)"] dbA_run)

lemma db_row_matched:
  assumes "get_api_by_id (cp_tenant_id p) (cp_api_id p) (go_db s) = (Inr (Some c), go_db s)" and "row_to_dict (Some c) = Inr ()"
    and "\<not> legacy_blocked (row_category (Some c))" and "row_matches_projection c p"
    and "reconcile_api hst sr (cp_tenant_id p) (cp_api_id p) content (Some c) (go_db s) = (r, w)"
  shows "reconcile_db_row hst sr p content s =
    (map_sum id (\<lambda>_. ()) r, s\<lparr>go_db := (if r = Inr True then w else rollback (go_db s) w),
       go_reports := go_reports s @ [db_row_report p ''synced'' None]\<rparr>)"
  using unblocked_category [OF assms(3)] assms(4,5) unfolding db_row_run [OF assms(1,2)]
  by (cases r) (auto simp: branch_defs out_of_date_def dbA_run split: bool.splits)

text \<open>A row whose metadata is no dictionary cannot be compared.\<close>

lemma db_row_unreadable:
  assumes "get_api_by_id (cp_tenant_id p) (cp_api_id p) (go_db s) = (Inr row, go_db s)" and "row_to_dict row = Inl e"
  shows "reconcile_db_row hst sr p content s = (Inl e, s)"
proof -
  have get: "dbA (get_api_by_id (cp_tenant_id p) (cp_api_id p)) s = (Inr row, s)" using assms(1) by (simp add: dbA_def)
  show ?thesis
    unfolding reconcile_db_row_def Let_def in_session_def
    by (simp only: bindA_run [where m = "dbA (get_api_by_id (cp_tenant_id p) (cp_api_id p))", OF get]) (simp add: assms(2))
qed

lemma matching_row_same: "catalogs w' = catalogs w \<Longrightarrow> matching_row p w c \<Longrightarrow> matching_row p w' c"
  by (simp add: matching_row_def get_api_by_id_def)

lemma matching_row_unique: "matching_row p w c \<Longrightarrow> matching_row p w c' \<Longrightarrow> c' = c"
  by (simp add: matching_row_def)

text \<open>A row that matches a rendered projection belongs to Git.\<close>

lemma rendered_identity:
  assumes "render_api_catalog_projection parsed sha hash path spec = Inr p"
  shows "parse_canonical_path path = Inr (cp_tenant_id p, cp_api_id p)" and "cp_git_path p = path"
    and "cp_git_commit_sha p = sha" and "cp_catalog_content_hash p = hash" and "cp_openapi_spec p = spec"
    and "cp_api_name p = cp_api_id p" and "\<not> is_uuid_shaped (cp_api_id p)"
  using assms
  by (auto simp: render_api_catalog_projection_def Let_def bindE_Inr catalog_identity_def split: sum.splits if_splits)

lemma matched_category:
  assumes "row_matches_projection c p" and "render_api_catalog_projection parsed sha hash path spec = Inr p"
  shows "\<not> legacy_blocked (row_category (Some c))"
proof -
  note id = rendered_identity [OF assms(2)]
  from id(1) obtain f where f: "f \<in> {''api.yaml'', ''api.yaml'' @ [CHR 0x0A]}"
    and path: "path = ''tenants/'' @ cp_tenant_id p @ ''/apis/'' @ cp_api_id p @ ''/'' @ f"
    and slash: "CHR ''/'' \<notin> set (cp_tenant_id p)" "CHR ''/'' \<notin> set (cp_api_id p)"
    by (auto simp: parse_canonical_ok match_canonical_path_iff)
  have "CHR ''/'' \<notin> set f" using f by auto
  from split_canonical [OF slash this]
  have parts: "split_on (CHR ''/'') path = [''tenants'', cp_tenant_id p, ''apis'', cp_api_id p, f]" by (simp add: path)
  have strip: "rev (dropWhile (\<lambda>c. c = CHR ''/'') (rev path)) = path" using f by (auto simp: path)
  have "\<not> git_path_uuid_shaped (Some path)"
    using id(7) parts strip by (auto simp: git_path_uuid_shaped_def or_str_def)
  then show ?thesis using assms(1) id
    by (simp add: row_category_def classify_legacy_def legacy_row_of_def row_matches_projection_def legacy_blocked_def)
qed

text \<open>A session that was not refused deployed the targets of a matching row.\<close>

lemma session_deployed:
  assumes "reconcile_db_row hst sr p content s = (Inr (), s')" and "db_ok (go_db s)" and "projection_wf p"
    and "get_api_by_id (cp_tenant_id p) (cp_api_id p) (go_db s) = (Inr row, go_db s)"
    and "\<not> legacy_blocked (row_category row)" and "out_of_date p row \<longrightarrow> lock_free hst p s"
  obtains c w1 b w where "matching_row p w1 c" and "row_to_dict (Some c) = Inr ()" and "db_ok w1"
    and "reconcile_api hst sr (cp_tenant_id p) (cp_api_id p) content (Some c) w1 = (Inr b, w)"
    and "go_db s' = w \<or> \<not> b \<and> go_db s' = rollback w1 w"
proof (cases "row_to_dict row")
  case (Inl e)
  with db_row_unreadable [OF assms(4)] assms(1) show thesis by auto
next
  case (Inr u)
  then have dict: "row_to_dict row = Inr ()" by simp
  show thesis
  proof (cases "out_of_date p row")
    case True
    obtain x w where x: "project_and_deploy hst sr p content (go_db s) = (x, w)" by (cases "project_and_deploy hst sr p content (go_db s)")
    note run = db_row_free [OF assms(4) dict assms(5) True mp [OF assms(6) True] x]
    with assms(1) have w: "x = Inr ()" "go_db s' = w" by (cases x; auto simp: Let_def)+
    from x w(1) have "project_and_deploy hst sr p content (go_db s) = (Inr (), w)" by simp
    from project_and_deploy_run [OF this assms(2,3)] obtain w1 c b where "matching_row p w1 c" "is_obj (cat_api_metadata c)"
      "db_ok w1" "reconcile_api hst sr (cp_tenant_id p) (cp_api_id p) content (Some c) w1 = (Inr b, w)" by blast
    moreover from this(2) have "row_to_dict (Some c) = Inr ()"
      by (cases "cat_api_metadata c") (simp_all add: row_to_dict_def dict_or_empty_def)
    ultimately show thesis using that w(2) by blast
  next
    case False
    then obtain c where c: "row = Some c" "row_matches_projection c p" by (auto simp: out_of_date_def split: option.splits)
    obtain x w where x: "reconcile_api hst sr (cp_tenant_id p) (cp_api_id p) content (Some c) (go_db s) = (x, w)"
      by (cases "reconcile_api hst sr (cp_tenant_id p) (cp_api_id p) content (Some c) (go_db s)")
    have run: "reconcile_db_row hst sr p content s = (map_sum id (\<lambda>_. ()) x, s\<lparr>go_db := (if x = Inr True then w else rollback (go_db s) w),
        go_reports := go_reports s @ [db_row_report p ''synced'' None]\<rparr>)"
      using db_row_matched [of p s c hst sr content x w] assms(4,5) dict c x by simp
    with assms(1) obtain b where b: "x = Inr b" by (cases x) auto
    have "go_db s' = w \<or> \<not> b \<and> go_db s' = rollback (go_db s) w" using run assms(1) b by (cases b) auto
    moreover have "matching_row p (go_db s) c" using assms(4) c by (simp add: matching_row_def)
    ultimately show thesis using that x b assms(2) dict c(1) by blast
  qed
qed

end
