(* ===== verification/CatalogScenario.thy ===== *)
theory CatalogScenario
  imports CatalogRows Scenario
begin

text \<open>
  A catalog with one file: the API \<open>orders\<close> of the tenant \<open>acme\<close>, meant for the gateway of \<open>dev\<close>. The database of
  the sample world starts without rows, and the first session creates the row and its deployment.
\<close>

definition orders_document :: jdict where
  "orders_document = [(''name'', JStr ''orders''), (''version'', JStr ''1''), (''backend_url'', JStr ''http://b''),
     (''gateways'', JArr [JStr ''g1''])]"

definition orders_path :: string where
  "orders_path = ''tenants/acme/apis/orders/api.yaml''"

definition orders_projection :: "string \<Rightarrow> catalog_projection" where
  "orders_projection sha = projr (render_api_catalog_projection orders_document sha ''h1'' orders_path JNull)"

lemma orders_rendered: "render_api_catalog_projection orders_document sha ''h1'' orders_path JNull = Inr (orders_projection sha)"
proof -
  have "\<not> isl (render_api_catalog_projection orders_document sha ''h1'' orders_path JNull)" by code_simp
  then show ?thesis by (simp add: orders_projection_def)
qed

lemma orders_wf: "projection_wf (orders_projection sha)" by code_simp

definition catalog_world :: world where
  "catalog_world = sample_world\<lparr>catalogs := [], deployments := []\<rparr>"

definition catalog_state :: "unit gitops" where
  "catalog_state = \<lparr>go_db = catalog_world, go_git = (), go_locks = [], go_reports = []\<rparr>"


lemma orders_fields: "cp_tenant_id (orders_projection sha) = ''acme''" "cp_api_id (orders_projection sha) = ''orders''"
  "cp_api_name (orders_projection sha) = ''orders''" "cp_version (orders_projection sha) = ''1''"
  "cp_git_commit_sha (orders_projection sha) = sha"
  "extract_deployment_targets (normalize_api_definition orders_document) = [mk_target (Some ''g1'') None True ''gateways'']"
  "target_names_of orders_document = [''g1'']"
  by code_simp+

lemma orders_gateway: "gateways w = gateways sample_world \<Longrightarrow>
    get_gateway_by_name ''g1'' w = (Inr (Some (sample_gateway 1 ''g1'' ''dev'')), w)"
  by (simp add: get_gateway_by_name_def sample_world_def sample_gateway_def)

lemma orders_fits: "gateway_fits (sample_gateway 1 ''g1'' ''dev'') (mk_target (Some ''g1'') None True ''gateways'')"
  by (simp add: gateway_fits_def sample_gateway_def) code_simp

definition orders_writes :: "api_catalog \<Rightarrow> (gateway_instance \<times> jdict) list" where
  "orders_writes c = [(sample_gateway 1 ''g1'' ''dev'',
     targeted_state (build_desired_state sample_host c) True ''g1'' None ''gateways'')]"

lemma orders_plan:
  assumes "gateways w = gateways sample_world"
  shows "api_writes_of sample_host (\<lambda>_ _. None) orders_document c w = (Inr (orders_writes c), w)"
  unfolding orders_writes_def
  by (simp add: api_writes_of_def orders_fields planned_writes_def target_writes_of_def resolve_gateway_def opt_truthy_def or_str_def
      bindA_run [where m = "get_gateway_by_name ''g1''", OF orders_gateway [OF assms]] orders_fits del: retA_apply) simp

lemma orders_targets: "\<not> no_targets orders_document"
  by (simp add: no_targets_def orders_fields)

definition orders_row :: "string \<Rightarrow> api_catalog" where
  "orders_row sha = projected_row (orders_projection sha) (word_of_nat 100) (DT 2025 1 1 0 0 0 0)"

definition orders_deployment :: "string \<Rightarrow> gateway_deployment" where
  "orders_deployment sha = new_deployment_row (word_of_nat 101) (word_of_nat 100) 1
     (targeted_state (build_desired_state sample_host (orders_row sha)) True ''g1'' None ''gateways'') None (DT 2025 1 1 0 0 0 1)"

definition orders_world :: "string \<Rightarrow> world" where
  "orders_world sha = catalog_world\<lparr>catalogs := [(orders_row sha)\<lparr>cat_target_gateways := [''g1'']\<rparr>],
     deployments := [orders_deployment sha], ticks := 2, uuids_used := 2\<rparr>"

lemma orders_absent: "get_api_by_id t a (catalog_world\<lparr>catalogs := []\<rparr>) = (Inr None, catalog_world\<lparr>catalogs := []\<rparr>)"
  "find_projected p catalog_world = (Inr None, catalog_world)"
  by (simp_all add: find_projected_def get_api_by_id_def get_api_by_name_version_def bindA_def catalog_world_def)

definition orders_start :: "string \<Rightarrow> world" where
  "orders_start sha = catalog_world\<lparr>catalogs := [orders_row sha], ticks := 1, uuids_used := 1\<rparr>"

lemma fresh_projected: "project_to_api_catalog p catalog_world =
    (Inr (), catalog_world\<lparr>catalogs := [projected_row p (word_of_nat 100) (DT 2025 1 1 0 0 0 0)], ticks := 1, uuids_used := 1\<rparr>)"
  by (simp add: project_to_api_catalog_def bindA_run [where m = "find_projected p", OF orders_absent(2)]
      create_catalog_bind fits_def) (simp add: catalog_world_def sample_world_def)

lemma orders_projected: "project_to_api_catalog (orders_projection sha) catalog_world = (Inr (), orders_start sha)"
  by (simp only: fresh_projected orders_start_def orders_row_def)

lemma orders_found: "get_api_by_id ''acme'' ''orders'' (orders_start sha) = (Inr (Some (orders_row sha)), orders_start sha)"
  by (simp add: get_api_by_id_def orders_row_def projected_row_def orders_fields orders_start_def)

lemma orders_row_fields [simp]: "cat_id (orders_row sha) = 100" "cat_target_gateways (orders_row sha) = []"
  by (simp_all add: orders_row_def projected_row_def)

lemma orders_written: "upsert_deployment (orders_row sha) (sample_gateway 1 ''g1'' ''dev'')
    (targeted_state (build_desired_state sample_host (orders_row sha)) True ''g1'' None ''gateways'')
    (catalog_world\<lparr>catalogs := cs, ticks := 1, uuids_used := 1\<rparr>) =
    (Inr True, catalog_world\<lparr>catalogs := cs, deployments := [orders_deployment sha], ticks := 2, uuids_used := 2\<rparr>)"
proof -
  let ?w = "catalog_world\<lparr>catalogs := cs, ticks := 1, uuids_used := 1\<rparr>"
  have none: "get_by_api_and_gateway 100 1 ?w = (Inr None, ?w)"
    by (simp add: get_by_api_and_gateway_def catalog_world_def)
  have g: "gi_id (sample_gateway 1 ''g1'' ''dev'') = 1" by (simp add: sample_gateway_def)
  show ?thesis
    by (simp only: upsert_deployment_def orders_row_fields g bindA_run [where m = "get_by_api_and_gateway 100 1", OF none])
      (simp add: create_deployment_bind fits_def orders_deployment_def catalog_world_def sample_world_def numeral_2_eq_2)
qed

lemma orders_reconciled: "reconcile_api sample_host (\<lambda>_ _. None) ''acme'' ''orders'' orders_document (Some (orders_row sha))
    (orders_start sha) = (Inr True, orders_world sha)"
proof -
  let ?c = "(orders_row sha)\<lparr>cat_target_gateways := [''g1'']\<rparr>"
  have gw: "gateways (orders_start sha) = gateways sample_world" by (simp add: orders_start_def catalog_world_def)
  have saved: "save_api_catalog ?c (orders_start sha) =
      (Inr ?c, catalog_world\<lparr>catalogs := [?c], ticks := 1, uuids_used := 1\<rparr>)"
    using save_catalog_bind [of ?c retA "orders_start sha"]
    by (simp add: bind_ret orders_start_def replaceable_def replace_row_def)
  show ?thesis
    unfolding reconcile_api_run [OF orders_plan [OF gw] orders_targets]
    by (simp add: orders_writes_def whenA_def orders_fields bindA_run [where m = "save_api_catalog ?c", OF saved]
        bindA_run [where m = "upsert_deployment (orders_row sha) _ _", OF orders_written [simplified]] del: retA_apply) (simp add: orders_world_def)
qed

lemma orders_deployed: "project_and_deploy sample_host (\<lambda>_ _. None) (orders_projection sha) orders_document catalog_world =
    (Inr (), orders_world sha)"
  unfolding project_and_deploy_def orders_fields
  by (simp only: bindA_run [where m = "project_to_api_catalog (orders_projection sha)", OF orders_projected]
     bindA_run [where m = "get_api_by_id ''acme'' ''orders''", OF orders_found]
     bindA_run [where m = "reconcile_api sample_host (\<lambda>_ _. None) ''acme'' ''orders'' orders_document (Some (orders_row sha))", OF orders_reconciled] retA_apply)

lemma orders_synced: "reconcile_db_row sample_host (\<lambda>_ _. None) (orders_projection sha) orders_document catalog_state =
    (Inr (), catalog_state\<lparr>go_db := orders_world sha, go_reports := [db_row_report (orders_projection sha) ''synced'' None]\<rparr>)"
proof -
  let ?p = "orders_projection sha"
  have found: "get_api_by_id (cp_tenant_id ?p) (cp_api_id ?p) (go_db (catalog_state :: unit gitops)) = (Inr None, go_db (catalog_state :: unit gitops))"
    by (simp add: catalog_state_def get_api_by_id_def catalog_world_def)
  have "project_and_deploy sample_host (\<lambda>_ _. None) ?p orders_document (go_db (catalog_state :: unit gitops)) = (Inr (), orders_world sha)"
    by (simp add: catalog_state_def orders_deployed)
  from db_row_free [OF found _ _ _ _ this] show ?thesis
    by (simp add: row_to_dict_def row_category_def classify_legacy_def legacy_blocked_def out_of_date_def lock_free_def catalog_state_def)
qed

lemma catalog_world_ok: "db_ok catalog_world"
  using sample_ok by (simp add: catalog_world_def db_ok_def table_ok_def sample_world_def)

text \<open>The row after the session.\<close>

abbreviation orders_final :: "string \<Rightarrow> api_catalog" where
  "orders_final sha \<equiv> (orders_row sha)\<lparr>cat_target_gateways := [''g1'']\<rparr>"

lemma orders_matching: "matching_row (orders_projection sha) (orders_world sha) (orders_final sha)"
proof -
  have "get_api_by_id ''acme'' ''orders'' (orders_world sha) = (Inr (Some (orders_final sha)), orders_world sha)"
    by (simp add: get_api_by_id_def orders_world_def orders_row_def projected_row_def orders_fields)
  then show ?thesis
    using projected_row_matches [OF orders_wf] by (simp add: matching_row_def orders_fields orders_row_def)
qed

lemma orders_documents: "jwf (cat_openapi_spec (orders_final sha))" "jwf (cat_api_metadata (orders_final sha))"
  using orders_wf [of sha] by (simp_all add: orders_row_def projected_row_def projection_wf_def del: jwf.simps)

end
