(* ===== verification/CatalogSpecs.thy ===== *)
theory CatalogSpecs
  imports CatalogScenario
begin

text \<open>
  The properties of the Git catalog: its paths, the projection of a file into its row, the reconciler, and
  the Git-first writer. The remote repository is a parameter everywhere; where a property relies on what
  it answers, the answer is a hypothesis.
\<close>

section \<open>Paths\<close>

lemma glob_literal: "CHR ''*'' \<notin> set p \<Longrightarrow> glob_match (p @ q) (p @ u) = glob_match q u"
  by (induction p) auto

lemma glob_star: "glob_match q u \<Longrightarrow> glob_match (CHR ''*'' # q) (s @ u)"
  by (auto simp: list_ex_iff suffix_def)

lemma canonical_listed: "glob_match ''tenants/*/apis/*/api.yaml'' (''tenants/'' @ t @ ''/apis/'' @ a @ ''/api.yaml'')"
proof -
  have end_matches: "glob_match (''*'' @ ''/api.yaml'') (a @ ''/api.yaml'')"
    using glob_star [of "''/api.yaml''" "''/api.yaml''" a] glob_literal [of "''/api.yaml''" "[]" "[]"] by simp
  then have "glob_match (''/apis/'' @ ''*/api.yaml'') (''/apis/'' @ a @ ''/api.yaml'')"
    using glob_literal [of "''/apis/''" "''*/api.yaml''" "a @ ''/api.yaml''"] by simp
  then have "glob_match (''*'' @ ''/apis/*/api.yaml'') (t @ ''/apis/'' @ a @ ''/api.yaml'')"
    using glob_star [of "''/apis/*/api.yaml''" "''/apis/'' @ a @ ''/api.yaml''" t] by simp
  then show ?thesis
    using glob_literal [of "''tenants/''" "''*/apis/*/api.yaml''" "t @ ''/apis/'' @ a @ ''/api.yaml''"] by simp
qed

lemma canonical_path_parts:
  assumes "canonical_catalog_path t a = Inr p"
  shows "split_on (CHR ''/'') p = [''tenants'', t, ''apis'', a, ''api.yaml'']" and "rstrip_slash p = p"
proof -
  from assms have p: "p = ''tenants/'' @ t @ ''/apis/'' @ a @ ''/api.yaml''" and t: "CHR ''/'' \<notin> set t" "CHR ''/'' \<notin> set a"
    by (auto simp: canonical_catalog_path_ok validate_slug_segment_ok)
  show "split_on (CHR ''/'') p = [''tenants'', t, ''apis'', a, ''api.yaml'']"
    using split_canonical [of t a "''api.yaml''"] t by (simp add: p)
  show "rstrip_slash p = p" by (simp add: p rstrip_slash_def)
qed

text \<open>
  C19. A path that the writer builds names its tenant and its API: the reconciler reads exactly these two back,
  no other pair is written there, and the listing of the reconciler finds the path. It is never taken for
  a path with a UUID.
\<close>
theorem canonical_path_roundtrip:
  assumes "canonical_catalog_path t a = Inr p"
  shows "parse_canonical_path p = Inr (t, a) \<and>
     (\<forall>t' a'. canonical_catalog_path t' a' = Inr p \<longleftrightarrow> t' = t \<and> a' = a) \<and>
     glob_match ''tenants/*/apis/*/api.yaml'' p \<and> uuid_api_path p = None \<and> \<not> git_path_uuid_shaped (Some p)"
proof (intro conjI allI)
  note parsed = canonical_then_parse [OF assms]
  from assms have no: "\<not> is_uuid_shaped a" and p: "p = ''tenants/'' @ t @ ''/apis/'' @ a @ ''/api.yaml''"
    by (simp_all add: canonical_catalog_path_ok)
  note parts = canonical_path_parts [OF assms]
  show "parse_canonical_path p = Inr (t, a)" by (rule parsed)
  show "canonical_catalog_path t' a' = Inr p \<longleftrightarrow> t' = t \<and> a' = a" for t' a'
    using canonical_then_parse [of t' a' p] parsed assms by auto
  show "glob_match ''tenants/*/apis/*/api.yaml'' p" unfolding p by (rule canonical_listed)
  show "uuid_api_path p = None" using no by (simp add: uuid_api_path_def parts)
  show "\<not> git_path_uuid_shaped (Some p)"
    using no parts(1) parts(2) [unfolded rstrip_slash_def] by (auto simp: git_path_uuid_shaped_def or_str_def)
qed

theorem canonical_path_roundtrip_witness:
  "parse_canonical_path ''tenants/acme/apis/orders/api.yaml'' = Inr (''acme'', ''orders'')"
proof -
  have "canonical_catalog_path ''acme'' ''orders'' = Inr ''tenants/acme/apis/orders/api.yaml''" by code_simp
  from canonical_path_roundtrip [OF this] show ?thesis by (rule conjunct1)
qed

section \<open>The reconciler\<close>


text \<open>
  C6. Reconciling one file with its row. A row of a blocked class, a row whose lock another session holds, and a
  session that raises leave every table as it was. Otherwise the session ends with the row of the API
  matching the projection of the file.
\<close>
theorem reconciled_row:
  assumes "reconcile_db_row hst sr p content s = (r, s')" and "db_ok (go_db s)" and "projection_wf p"
    and "get_api_by_id (cp_tenant_id p) (cp_api_id p) (go_db s) = (Inr row, go_db s)"
  shows "(isl r \<or> legacy_blocked (row_category row) \<or> out_of_date p row \<and> \<not> lock_free hst p s \<longrightarrow> same_tables (go_db s) (go_db s')) \<and>
     (r = Inr () \<and> \<not> legacy_blocked (row_category row) \<and> (out_of_date p row \<longrightarrow> lock_free hst p s) \<longrightarrow>
        (\<exists>c. matching_row p (go_db s') c))"
proof (cases "row_to_dict row")
  case (Inl e)
  with db_row_unreadable [OF assms(4)] assms(1) show ?thesis by auto
next
  case (Inr u)
  then have dict: "row_to_dict row = Inr ()" by simp
  consider (blocked) "legacy_blocked (row_category row)"
    | (locked) "\<not> legacy_blocked (row_category row)" "out_of_date p row" "\<not> lock_free hst p s"
    | (free) "\<not> legacy_blocked (row_category row)" "out_of_date p row" "lock_free hst p s"
    | (matched) c where "\<not> legacy_blocked (row_category row)" "row = Some c" "row_matches_projection c p"
    by (cases row) (auto simp: out_of_date_def)
  then show ?thesis
  proof cases
    case blocked
    with db_row_blocked [OF assms(4) dict, of hst sr content] assms(1) show ?thesis by auto
  next
    case locked
    with db_row_locked [OF assms(4) dict] assms(1) show ?thesis by auto
  next
    case free
    obtain x w where x: "project_and_deploy hst sr p content (go_db s) = (x, w)" by (cases "project_and_deploy hst sr p content (go_db s)")
    note run = db_row_free [OF assms(4) dict free x]
    show ?thesis
    proof (cases x)
      case (Inl e)
      with run assms(1) free show ?thesis by (auto simp: Let_def)
    next
      case (Inr u)
      with x have "project_and_deploy hst sr p content (go_db s) = (Inr (), w)" by simp
      then obtain w1 c b where "matching_row p w1 c" and "db_ok w1"
        and "reconcile_api hst sr (cp_tenant_id p) (cp_api_id p) content (Some c) w1 = (Inr b, w)"
        by (rule project_and_deploy_run [OF _ assms(2,3)])
      then have "\<exists>c. matching_row p w c" using deploys_keep_match by blast
      with run Inr assms(1) free show ?thesis by (auto simp: Let_def)
    qed
  next
    case matched
    obtain x w where x: "reconcile_api hst sr (cp_tenant_id p) (cp_api_id p) content (Some c) (go_db s) = (x, w)"
      by (cases "reconcile_api hst sr (cp_tenant_id p) (cp_api_id p) content (Some c) (go_db s)")
    have row: "matching_row p (go_db s) c" using assms(4) matched by (simp add: matching_row_def)
    have kept: "matching_row p (rollback (go_db s) w) c"
      by (rule matching_row_same [OF _ row]) (simp add: rollback_def)
    have forward: "\<exists>c. matching_row p w c" if "x = Inr True"
      using deploys_keep_match [OF x [unfolded that] row assms(2)] by blast
    have "reconcile_db_row hst sr p content s = (map_sum id (\<lambda>_. ()) x, s\<lparr>go_db := (if x = Inr True then w else rollback (go_db s) w),
        go_reports := go_reports s @ [db_row_report p ''synced'' None]\<rparr>)"
      using db_row_matched [of p s c hst sr content x w] assms(4) dict matched x by simp
    with assms(1) matched kept forward show ?thesis by (cases x) (auto simp: out_of_date_def)
  qed
qed

theorem reconciled_row_witness: "\<exists>c. matching_row (orders_projection ''c1'') (orders_world ''c1'') c"
proof -
  have "\<not> legacy_blocked (row_category None)" by (simp add: category_of_row(2) legacy_blocked_def)
  moreover have "lock_free sample_host (orders_projection ''c1'') (catalog_state :: unit gitops)"
    by (simp add: lock_free_def catalog_state_def)
  moreover have "get_api_by_id t a (go_db (catalog_state :: unit gitops)) = (Inr None, go_db (catalog_state :: unit gitops))" for t a
    by (simp add: get_api_by_id_def catalog_state_def catalog_world_def)
  moreover have "db_ok (go_db (catalog_state :: unit gitops))" by (simp add: catalog_state_def catalog_world_ok)
  ultimately show ?thesis using reconciled_row [OF orders_synced _ orders_wf] by simp
qed



end
