(* ===== verification/WriterFacts.thy ===== *)
theory WriterFacts
  imports CatalogRows
begin

text \<open>
  The Git-first writer: the document it renders is read back as the projection of the payload, what it
  commits is what it projects, and how it behaves when others write the same file.
\<close>

section \<open>Rendered projections are well formed\<close>

lemma jwf_member: "jwf (JObj d) \<Longrightarrow> map_of d k = Some v \<Longrightarrow> jwf v"
  by (auto simp: list_all_iff dest: map_of_SomeD)

lemma jwf_dget: "jwf (JObj d) \<Longrightarrow> jwf (dget d k)"
  using jwf_dget_def [of d JNull k] by (simp add: dget_def dget_def_def split: option.splits)

lemma jwf_obj_of': "jwf v \<Longrightarrow> jwf (JObj (obj_of v))"
  by (cases v) auto

lemma normalized_deployments_wf:
  assumes "jwf (JObj raw)"
  shows "jwf (dget_def (normalize_api_definition raw) ''deployments'' (JObj []))"
proof (cases "has_key raw ''apiVersion'' \<and> has_key raw ''kind''")
  case False
  then have "normalize_api_definition raw = raw" by (auto simp: normalize_api_definition_def)
  with assms show ?thesis by (simp add: jwf_dget_def del: jwf.simps) (simp add: jwf_dget_def)
next
  case True
  let ?spec = "obj_of (dget raw ''spec'')"
  have "jwf (JObj ?spec)" by (rule jwf_obj_of' [OF jwf_dget [OF assms]])
  from jwf_dget_def [OF this, of "JObj [(''dev'', JBool False), (''staging'', JBool False)]" "''deployments''"]
  have "jwf (dget_def ?spec ''deployments'' (JObj [(''dev'', JBool False), (''staging'', JBool False)]))" by simp
  with True show ?thesis by (auto simp: normalize_api_definition_def Let_def dget_def_def)
qed

lemma rendered_wf:
  assumes "render_api_catalog_projection parsed sha hash path spec = Inr p" and "jwf (JObj parsed)" and "jwf spec"
  shows "projection_wf p"
proof -
  have meta: "jwf (JObj (projected_metadata n dn v de b st targets tags cat au))" if "jwf (JObj targets)" for n dn v de b st targets tags cat au
    using that by (auto simp: projected_metadata_def opt_str_def list_all_iff split: option.splits)
  have "jwf (JObj targets)"
    if "optional_deployments (dget_def (normalize_api_definition parsed) ''deployments'' (JObj [])) = Inr targets" for targets
    using that normalized_deployments_wf [OF assms(2)]
    by (cases "dget_def (normalize_api_definition parsed) ''deployments'' (JObj [])") (auto simp: optional_deployments_def)
  with assms(1,3) meta show ?thesis
    by (auto simp: render_api_catalog_projection_def Let_def bindE_Inr projection_wf_def simp del: jwf.simps)
qed

section \<open>The document of a payload\<close>

definition payload_projection :: "string \<Rightarrow> api_create_payload \<Rightarrow> string \<Rightarrow> string \<Rightarrow> string \<Rightarrow> catalog_projection" where
  "payload_projection tenant_id q sha hash path =
     (let display = (if ap_display_name q = [] then ap_api_name q else ap_display_name q);
          category = (if opt_truthy (ap_category q) then ap_category q else None);
          tags = fst (strip_legacy_portal_publication_tags (map JStr (ap_tags q)))
      in \<lparr>cp_tenant_id = tenant_id, cp_api_id = ap_api_name q, cp_api_name = ap_api_name q, cp_version = ap_version q,
          cp_status = ''active'', cp_category = category, cp_tags = tags, cp_portal_published = False,
          cp_audience = ''public'',
          cp_api_metadata = projected_metadata (ap_api_name q) display (ap_version q) (ap_description q) (ap_backend_url q)
            ''active'' [(''dev'', JBool True), (''staging'', JBool False)] tags category ''public'',
          cp_git_path = path, cp_git_commit_sha = sha, cp_catalog_content_hash = hash,
          cp_openapi_spec = openapi_spec_for_payload q\<rparr>)"

definition payload_document :: "api_create_payload \<Rightarrow> jdict" where
  "payload_document q = api_yaml_document (ap_api_name q) (ap_version q) (ap_backend_url q) (ap_display_name q)
     (Some (ap_description q)) (ap_category q) (ap_tags q)"

lemma document_keys:
  "normalize_api_definition (payload_document q) = payload_document q" "has_key (payload_document q) ''name''"
  "dget (payload_document q) ''name'' = JStr (ap_api_name q)" "dget_def (payload_document q) ''id'' v = JStr (ap_api_name q)"
  "dget (payload_document q) ''version'' = JStr (ap_version q)" "dget_def (payload_document q) ''status'' v = JStr ''active''"
  "dget (payload_document q) ''category'' = (if opt_truthy (ap_category q) then opt_str (ap_category q) else JNull)"
  "dget (payload_document q) ''tags'' = (if ap_tags q = [] then JNull else JArr (map JStr (ap_tags q)))"
  "dget_def (payload_document q) ''audience'' v = v" "dget (payload_document q) ''backend_url'' = JStr (ap_backend_url q)"
  "dget_def (payload_document q) ''display_name'' v = JStr (if ap_display_name q = [] then ap_api_name q else ap_display_name q)"
  "dget_def (payload_document q) ''description'' (JStr []) = JStr (ap_description q)"
  "dget_def (payload_document q) ''deployments'' v = JObj [(''dev'', JBool True), (''staging'', JBool False)]"
  by (simp_all add: payload_document_def api_yaml_document_def normalize_api_definition_def has_key_def dget_def dget_def_def
      opt_truthy_def opt_str_def split: option.splits)

lemma document_fields:
  "coerce_tags (dget (payload_document q) ''tags'') = Inr (ap_tags q)"
  "optional_category (dget (payload_document q) ''category'') =
     Inr (if opt_truthy (ap_category q) then ap_category q else None)"
proof -
  have "map (\<lambda>x. py_str (JStr x)) xs = xs" for xs by (induction xs) simp_all
  then show "coerce_tags (dget (payload_document q) ''tags'') = Inr (ap_tags q)"
    by (simp add: document_keys coerce_tags_def comp_def)
  show "optional_category (dget (payload_document q) ''category'') =
     Inr (if opt_truthy (ap_category q) then ap_category q else None)"
    by (cases "ap_category q") (simp_all add: document_keys optional_category_def opt_truthy_def opt_str_def)
qed

lemma document_projects:
  assumes "parse_canonical_path path = Inr (t, ap_api_name q)" and "\<not> is_uuid_shaped (ap_api_name q)"
    and "ap_api_name q \<noteq> []" and "ap_version q \<noteq> []" and "ap_backend_url q \<noteq> []"
  shows "render_api_catalog_projection (payload_document q) sha hash path (openapi_spec_for_payload q) =
    Inr (payload_projection t q sha hash path)"
  using assms unfolding render_api_catalog_projection_def Let_def
  by (simp add: document_keys(1) document_fields)
    (simp add: document_keys catalog_identity_def required_string_def string_or_def optional_description_def optional_deployments_def
      payload_projection_def Let_def DEFAULT_AUDIENCE_def)

section \<open>What is projected\<close>

lemma released_row_facts [simp]:
  "row_matches_projection (released_row r c) p = row_matches_projection c p" "cat_id (released_row r c) = cat_id c"
  "cat_deleted_at (released_row r c) = cat_deleted_at c"
  by (simp_all add: released_row_def row_matches_projection_def metadata_of_def)

lemma released_matching:
  assumes "apply_catalog_release_metadata t a r w = (Inr (), w')" and "matching_row p w c" and "db_ok w"
  shows "\<exists>c. matching_row p w' c"
proof -
  from assms(1) have w': "catalogs w' = map (\<lambda>c. if cat_tenant_id c = t \<and> cat_api_id c = a \<and> cat_deleted_at c = None
      then released_row r c else c) (catalogs w)" by (auto simp: apply_catalog_release_metadata_def)
  have ok: "db_ok w'"
    using assms(1,3) by (auto simp: apply_catalog_release_metadata_def db_ok_def released_map_ok)
  from matching_row_in [OF assms(2)] have c: "c \<in> set (catalogs w)" "cat_deleted_at c = None" by simp_all
  let ?c = "if cat_tenant_id c = t \<and> cat_api_id c = a \<and> cat_deleted_at c = None then released_row r c else c"
  have "?c \<in> set (catalogs w')" using c(1) unfolding w' by (auto simp: image_iff)
  moreover have "row_matches_projection ?c p" using assms(2) by (simp add: matching_row_def)
  ultimately show ?thesis using c(2) by (intro exI [of _ ?c] matching_rowI [OF ok]) simp_all
qed

text \<open>YAML documents have no key twice in a mapping.\<close>

definition loads_wf :: "host \<Rightarrow> bool" where
  "loads_wf hst \<longleftrightarrow> (\<forall>body v. yaml_safe_load hst body = Inr v \<longrightarrow> jwf v)"

text \<open>The last step of the writer: the row matches what the repository returned for the commit.\<close>

lemma project_committed_run:
  assumes "project_committed hst gh path t a sha spec release s = (Inr h, s')" and "db_ok (go_db s)"
    and "loads_wf hst" and "jwf spec"
  shows "\<exists>body g d p c. read_at_commit gh path sha (go_git s) = (Inr (Some body), g) \<and> go_git s' = g \<and>
     h = sha256_hex hst body \<and> yaml_safe_load hst body = Inr (JObj d) \<and>
     render_api_catalog_projection d sha h path spec = Inr p \<and> matching_row p (go_db s') c \<and>
     go_reports s' = go_reports s @ [report t a ''synced'' (Some sha) (Some h) (Some path) None]"
    (is "\<exists>body g d p c. ?result body g d p c")
proof -
  from assms(1) obtain body g where body: "read_at_commit gh path sha (go_git s) = (Inr (Some body), g)"
    by (auto simp: project_committed_def bind_ok gitA_def split: prod.splits option.splits)
  let ?s = "s\<lparr>go_git := g\<rparr>" and ?h = "sha256_hex hst body"
  have run: "gitA (read_at_commit gh path sha) s = (Inr (Some body), ?s)" by (simp add: gitA_def body)
  note after = assms(1) [unfolded project_committed_def bindA_run [where m = "gitA (read_at_commit gh path sha)", OF run] option.case Let_def
      compute_catalog_content_hash_def]
  from after obtain d where d: "yaml_safe_load hst body = Inr (JObj d)"
    by (auto simp: is_obj_iff split: sum.splits if_splits)
  from after d obtain p where p: "render_api_catalog_projection d sha ?h path spec = Inr p"
    by (cases "render_api_catalog_projection d sha ?h path spec") simp_all
  have "jwf (JObj d)" using assms(3) d unfolding loads_wf_def by blast
  note wf = rendered_wf [OF p this assms(4)]
  from after d p obtain w1 where w1: "project_to_api_catalog p (go_db s) = (Inr (), w1)"
    by (auto simp: bind_ok dbA_def split: prod.splits)
  from projection_matches [OF w1 assms(2) wf] obtain c where c: "matching_row p w1 c" by blast
  have ok1: "db_ok w1" by (rule projection_keeps_ok [OF assms(2) w1])
  have db1: "dbA (project_to_api_catalog p) ?s = (Inr (), ?s\<lparr>go_db := w1\<rparr>)" by (simp add: dbA_def w1)
  show ?thesis
  proof (cases release)
    case None
    with after d p c body have "?result body g d p c"
      by (auto simp: bindA_run [where m = "dbA (project_to_api_catalog p)", OF db1] log_sync_status_def report_def)
    then show ?thesis by blast
  next
    case (Some r)
    obtain w2 where w2: "apply_catalog_release_metadata t a r w1 = (Inr (), w2)" by (simp add: apply_catalog_release_metadata_def)
    from released_matching [OF w2 c ok1] obtain c' where c': "matching_row p w2 c'" by blast
    have db2: "dbA (apply_catalog_release_metadata t a r) (?s\<lparr>go_db := w1\<rparr>) = (Inr (), ?s\<lparr>go_db := w2\<rparr>)"
      using w2 by (simp add: dbA_def)
    have "?result body g d p c'"
      using Some after d p c' body
      by (auto simp: bindA_run [where m = "dbA (project_to_api_catalog p)", OF db1]
          bindA_run [where m = "dbA (apply_catalog_release_metadata t a r)", OF db2] log_sync_status_def report_def)
    then show ?thesis by blast
  qed
qed

text \<open>The writer as a chain: what was rendered, where, and from which states the commit and the projection ran.\<close>

lemma create_api_run:
  assumes "create_api hst gh mode waiting t q actor s = (Inr res, s')"
  obtains path s0 g where "canonical_catalog_path t (ap_api_name q) = Inr path" and "cres_git_path res = path"
    and "ap_api_name q \<noteq> []" and "\<not> is_uuid_shaped (ap_api_name q)" and "ap_version q \<noteq> []" and "ap_backend_url q \<noteq> []"
    and "check_legacy_collision gh t (ap_api_name q) s = (Inr (), s0)"
    and "commit_contract hst gh mode path (yaml_safe_dump hst (JObj (payload_document q)))
        (render_openapi_yaml hst (openapi_spec_for_payload q))
        (sha256_hex hst (yaml_safe_dump hst (JObj (payload_document q)))) (sanitize_actor actor) t (ap_api_name q) (ap_version q)
        (go_git (waiting s0)) = (Inr (cres_git_commit_sha res, cres_case res, cres_catalog_release res), g)"
    and "project_committed hst gh path t (ap_api_name q) (cres_git_commit_sha res) (openapi_spec_for_payload q)
        (cres_catalog_release res) ((waiting s0)\<lparr>go_git := g\<rparr>) = (Inr (cres_catalog_content_hash res), s')"
proof -
  let ?n = "ap_api_name q" and ?yaml = "yaml_safe_dump hst (JObj (payload_document q))"
  from assms have name: "?n \<noteq> []" "\<not> is_uuid_shaped ?n" by (auto simp: create_api_def Let_def)
  obtain y where y: "render_api_yaml hst t ?n (ap_version q) (ap_backend_url q) (ap_display_name q) (Some (ap_description q))
      (ap_category q) (ap_tags q) = Inr y"
    using assms name by (auto simp: create_api_def Let_def bind_ok)
  then have doc: "y = ?yaml" "ap_version q \<noteq> []" "ap_backend_url q \<noteq> []"
    by (auto simp: render_api_yaml_def payload_document_def split: if_splits)
  from assms name y obtain path where path: "canonical_catalog_path t ?n = Inr path"
    by (cases "canonical_catalog_path t ?n") (auto simp: create_api_def Let_def)
  note parts = assms [unfolded create_api_def Let_def y doc(1) path bindA_simps compute_catalog_content_hash_def]
  from parts name obtain s0 where col: "check_legacy_collision gh t ?n s = (Inr (), s0)" by (auto simp: bind_ok)
  from parts name col obtain sha k rel g where commit: "commit_contract hst gh mode path ?yaml
      (render_openapi_yaml hst (openapi_spec_for_payload q)) (sha256_hex hst ?yaml) (sanitize_actor actor) t ?n (ap_version q)
      (go_git (waiting s0)) = (Inr (sha, k, rel), g)"
    and rest: "bindA (project_committed hst gh path t ?n sha (openapi_spec_for_payload q) rel) (\<lambda>committed_hash.
         retA \<lparr>cres_api_id = ?n, cres_git_path = path, cres_git_commit_sha = sha,
               cres_catalog_content_hash = committed_hash, cres_case = k, cres_catalog_release = rel\<rparr>)
       ((waiting s0)\<lparr>go_git := g\<rparr>) = (Inr res, s')"
    by (auto simp: bindA_run [where m = "check_legacy_collision gh t ?n"] gitA_def bind_ok split: prod.splits)
  from rest obtain h where "project_committed hst gh path t ?n sha (openapi_spec_for_payload q) rel ((waiting s0)\<lparr>go_git := g\<rparr>) = (Inr h, s')"
    and "res = \<lparr>cres_api_id = ?n, cres_git_path = path, cres_git_commit_sha = sha,
               cres_catalog_content_hash = h, cres_case = k, cres_catalog_release = rel\<rparr>"
    by (auto simp: bind_ok)
  with path name doc col commit show thesis by (intro that) simp_all
qed

section \<open>The remote repository\<close>

text \<open>
  What GitHub documents of its contents API: \<open>file_at\<close> gives the text of a path at a commit. A commit never
  changes, \<open>create_file\<close> returns a commit that has the text, and reading a path at a commit returns its text.
\<close>

definition keeps_commits :: "('g \<Rightarrow> string \<Rightarrow> string \<Rightarrow> string option) \<Rightarrow> 'g \<Rightarrow> 'g \<Rightarrow> bool" where
  "keeps_commits file_at g g' \<longleftrightarrow> (\<forall>c p x. file_at g c p = Some x \<longrightarrow> file_at g' c p = Some x)"

lemma keeps_commits_relation: "state_relation (keeps_commits file_at)"
  by unfold_locales (auto simp: keeps_commits_def)

definition contents_laws :: "'g pygithub \<Rightarrow> ('g \<Rightarrow> string \<Rightarrow> string \<Rightarrow> string option) \<Rightarrow> bool" where
  "contents_laws gh file_at \<longleftrightarrow>
     (\<forall>p r. acts_within (keeps_commits file_at) (get_contents gh p r)) \<and>
     (\<forall>p m x b. acts_within (keeps_commits file_at) (create_file gh p m x b)) \<and>
     (\<forall>p m x sha b. acts_within (keeps_commits file_at) (update_file gh p m x sha b)) \<and>
     (\<forall>p m x b g c f g'. create_file gh p m x b g = (Inr (c, f), g') \<longrightarrow> file_at g' c p = Some x) \<and>
     (\<forall>p c g y g' x. get_contents gh p c g = (Inr y, g') \<longrightarrow> file_at g c p = Some x \<longrightarrow> (\<exists>sha. y = GhFile x sha))"

lemma create_or_update_creates:
  assumes "create_or_update gh path content None actor msg br g = (Inr c, g')" and "contents_laws gh file_at"
  shows "file_at g' (rc_commit_sha c) path = Some content"
  using assms
  by (auto simp: create_or_update_def Let_def catchA_def contents_laws_def bindA_def split: prod.splits sum.splits if_splits)

lemma commit_or_noop_created:
  assumes "commit_or_noop hst gh path yaml hash actor t a left g = (Inr (sha, ''created''), g')" and "contents_laws gh file_at"
  shows "file_at g' sha path = Some yaml"
  using assms(1)
proof (induction left arbitrary: g)
  case (Suc left)
  then show ?case
    by (auto simp: bind_ok catchA_def split: option.splits prod.splits sum.splits if_splits
        dest: create_or_update_creates [OF _ assms(2)])
qed simp

lemma steps_content: "(\<And>c s. acts_within R (f c s)) \<Longrightarrow> acts_within R d \<Longrightarrow>
    acts_within R (case y of GhFile c s \<Rightarrow> f c s | GhDirectory \<Rightarrow> d)"
  by (cases y) simp_all

lemma contents_keep:
  assumes "contents_laws gh file_at"
  shows "acts_within (keeps_commits file_at) (git_get gh p)"
    and "acts_within (keeps_commits file_at) (create_or_update gh p x sha actor msg br)"
    and "acts_within (keeps_commits file_at) (commit_openapi_spec gh p y actor t a)"
    and "acts_within (keeps_commits file_at) (read_at_commit gh p c)"
proof -
  note rules = state_relation.steps_rules [OF keeps_commits_relation] steps_content
  have laws: "acts_within (keeps_commits file_at) (get_contents gh p r)"
    "acts_within (keeps_commits file_at) (create_file gh p m x b)"
    "acts_within (keeps_commits file_at) (update_file gh p m x sh b)" for p r m x b sh
    using assms by (simp_all add: contents_laws_def)
  show get: "acts_within (keeps_commits file_at) (git_get gh p)" for p
    unfolding git_get_def by (intro rules laws)
  show put: "acts_within (keeps_commits file_at) (create_or_update gh p x sha actor msg br)" for p x sha actor msg br
    unfolding create_or_update_def Let_def by (intro rules laws)
  show "acts_within (keeps_commits file_at) (commit_openapi_spec gh p y actor t a)"
    unfolding commit_openapi_spec_def by (intro rules get put)
  show "acts_within (keeps_commits file_at) (read_at_commit gh p c)"
    unfolding read_at_commit_def by (intro rules laws)
qed

lemma read_committed:
  assumes "read_at_commit gh p c g = (Inr (Some body), g')" and "contents_laws gh file_at" and "file_at g c p = Some x"
  shows "body = x"
proof -
  obtain q g2 where q: "get_contents gh p c g = (q, g2)" by (cases "get_contents gh p c g")
  from assms(1) obtain y where y: "get_contents gh p c g = (Inr y, g')" and "body = (case y of GhFile z sha \<Rightarrow> z | GhDirectory \<Rightarrow> [])"
    by (cases q) (auto simp: read_at_commit_def bindA_def catchA_def q split: if_splits gh_content.splits)
  moreover have "\<exists>sha. y = GhFile x sha" using assms(2,3) y unfolding contents_laws_def by blast
  ultimately show ?thesis by auto
qed

section \<open>How often the writer tries\<close>

text \<open>The same repository with a counter of the calls that create a file.\<close>

definition alongside :: "('g, 'e, 'a) act \<Rightarrow> ('g \<times> nat, 'e, 'a) act" where
  "alongside m = (\<lambda>(g, n). case m g of (r, g') \<Rightarrow> (r, (g', n)))"

definition counting :: "'g pygithub \<Rightarrow> ('g \<times> nat) pygithub" where
  "counting gh = \<lparr>default_branch = default_branch gh, get_contents = (\<lambda>p r. alongside (get_contents gh p r)),
     create_file = (\<lambda>p m x b (g, n). alongside (create_file gh p m x b) (g, Suc n)),
     update_file = (\<lambda>p m x sha b. alongside (update_file gh p m x sha b)),
     get_git_ref = (\<lambda>r. alongside (get_git_ref gh r)), create_git_ref = (\<lambda>r sha. alongside (create_git_ref gh r sha)),
     get_branch_sha = (\<lambda>b. alongside (get_branch_sha gh b)),
     create_pull = (\<lambda>t b h base. alongside (create_pull gh t b h base)), get_pull = (\<lambda>n. alongside (get_pull gh n)),
     merge_pull = (\<lambda>n. alongside (merge_pull gh n)), get_git_tag = (\<lambda>t. alongside (get_git_tag gh t)),
     create_git_tag = (\<lambda>n m t. alongside (create_git_tag gh n m t)),
     get_commits = (\<lambda>b p. alongside (get_commits gh b p)), get_git_tree = (\<lambda>sha. alongside (get_git_tree gh sha))\<rparr>"

definition counts_same :: "'g \<times> nat \<Rightarrow> 'g \<times> nat \<Rightarrow> bool" where
  "counts_same s s' \<longleftrightarrow> snd s' = snd s"

lemma counts_same_relation: "state_relation counts_same"
  by unfold_locales (auto simp: counts_same_def)

lemma alongside_counts: "acts_within counts_same (alongside m)"
  by (auto simp: acts_within_def counts_same_def alongside_def split: prod.splits)

lemma reads_count_same:
  "acts_within counts_same (git_get (counting gh) p)" "acts_within counts_same (compare_remote hst (counting gh) p h t a f)"
  unfolding git_get_def compare_remote_def latest_file_commit_def Let_def counting_def
  by (intro state_relation.steps_rules [OF counts_same_relation] steps_content; simp add: alongside_counts)+

lemma create_counts:
  "snd (snd (create_or_update (counting gh) p x None actor msg br s)) = Suc (snd s)"
  by (cases s) (auto simp: create_or_update_def Let_def catchA_def bindA_def counting_def alongside_def split: prod.splits sum.splits)

lemma commit_counts:
  "snd (snd (commit_or_noop hst (counting gh) path yaml h actor t a left s)) \<le> snd s + left"
proof (induction left arbitrary: s)
  case (Suc left)
  let ?put = "catchA (bindA (create_or_update (counting gh) path yaml None actor (create_message t a) None)
      (\<lambda>commit. retA (Some (rc_commit_sha commit)))) is_sha_conflict (\<lambda>_. retA None)"
  obtain r1 s1 where get: "git_get (counting gh) path s = (r1, s1)" by (cases "git_get (counting gh) path s")
  have s1: "snd s1 = snd s" using reads_count_same(1) [of gh path] get by (auto simp: counts_same_def dest: stepsD)
  have put: "snd (snd (?put v)) = Suc (snd v)" for v
  proof -
    obtain x v' where x: "create_or_update (counting gh) path yaml None actor (create_message t a) None v = (x, v')"
      by (cases "create_or_update (counting gh) path yaml None actor (create_message t a) None v")
    then have "snd v' = Suc (snd v)" using create_counts [of gh path yaml actor "create_message t a" None v] by simp
    with x show ?thesis by (cases x) (simp_all add: catchA_def bindA_def)
  qed
  show ?case
  proof (cases r1)
    case (Inl e)
    with get s1 show ?thesis by (simp add: bindA_def)
  next
    case (Inr found)
    show ?thesis
    proof (cases found)
      case (Some f)
      have "acts_within counts_same (bindA (compare_remote hst (counting gh) path h t a f) (\<lambda>sha. retA (sha, ''idempotent'')))"
        by (intro state_relation.steps_rules [OF counts_same_relation] reads_count_same)
      then have "snd (snd (bindA (compare_remote hst (counting gh) path h t a f) (\<lambda>sha. retA (sha, ''idempotent'')) s1)) = snd s1"
        by (cases s1) (simp add: acts_within_def counts_same_def)
      with get s1 Inr Some show ?thesis by (simp add: bindA_run [where m = "git_get (counting gh) path"])
    next
      case None
      obtain x s2 where x: "?put s1 = (x, s2)" by (cases "?put s1")
      with put [of s1] s1 have s2: "snd s2 = Suc (snd s)" by simp
      have run: "commit_or_noop hst (counting gh) path yaml h actor t a (Suc left) s = bindA ?put (\<lambda>committed. case committed of
           Some sha \<Rightarrow> retA (sha, ''created'')
         | None \<Rightarrow> commit_or_noop hst (counting gh) path yaml h actor t a left) s1"
        by (simp add: bindA_run [where m = "git_get (counting gh) path", OF get [unfolded Inr None]] del: bindA_simps(5))
      show ?thesis
        using Suc.IH [of s2] s2 unfolding run by (simp add: bindA_def [of ?put] x split: sum.split option.split)
    qed
  qed
qed simp

lemma race_lost:
  assumes "\<And>g. \<exists>m g'. get_contents gh path (default_branch gh) g = (Inl (GithubException 404 m), g')"
    and "\<And>msg g. \<exists>m g'. create_file gh path msg yaml (default_branch gh) g = (Inl (GithubException 409 m), g')"
    and "default_branch gh \<noteq> []"
  shows "fst (commit_or_noop hst gh path yaml h actor t a left g) = Inl (GitOpsRaceExhaustedError t a MAX_RACE_RETRIES)"
proof (induction left arbitrary: g)
  case (Suc left)
  obtain m1 g1 where get: "get_contents gh path (default_branch gh) g = (Inl (GithubException 404 m1), g1)" using assms(1) by blast
  then have found: "git_get gh path g = (Inr None, g1)"
    by (simp add: git_get_def bindA_def catchA_def github_status_def)
  have br: "or_str None (default_branch gh) = default_branch gh" by (simp add: or_str_def)
  have "\<exists>m g'. create_file gh path (create_message t a @ [CHR 0x0A, CHR 0x0A] @ ''Actor: '' @ sanitize_actor actor) yaml
      (default_branch gh) g1 = (Inl (GithubException 409 m), g')" by (rule assms(2))
  then obtain m2 g2 where put: "create_file gh path (create_message t a @ [CHR 0x0A, CHR 0x0A] @ ''Actor: '' @ sanitize_actor actor) yaml
      (default_branch gh) g1 = (Inl (GithubException 409 m2), g2)" by blast
  then have "catchA (bindA (create_or_update gh path yaml None actor (create_message t a) None)
      (\<lambda>commit. retA (Some (rc_commit_sha commit)))) is_sha_conflict (\<lambda>_. retA None) g1 = (Inr None, g2)"
    by (simp add: create_or_update_def Let_def br bindA_def catchA_def github_status_def)
  then show ?case
    using Suc.IH [of g2] by (simp add: bindA_run [where m = "git_get gh path", OF found] bindA_run [where m = "catchA _ _ _"])
qed simp

lemma race_counted:
  assumes "\<And>g. \<exists>m g'. get_contents gh path (default_branch gh) g = (Inl (GithubException 404 m), g')"
    and "\<And>msg g. \<exists>m g'. create_file gh path msg yaml (default_branch gh) g = (Inl (GithubException 409 m), g')"
    and "default_branch gh \<noteq> []"
  shows "fst (commit_or_noop hst (counting gh) path yaml h actor t a left s) = Inl (GitOpsRaceExhaustedError t a MAX_RACE_RETRIES)"
proof (rule race_lost)
  show "\<exists>m g'. get_contents (counting gh) path (default_branch (counting gh)) v = (Inl (GithubException 404 m), g')" for v
    using assms(1) [of "fst v"] by (cases v) (auto simp: counting_def alongside_def)
  show "\<exists>m g'. create_file (counting gh) path msg yaml (default_branch (counting gh)) v = (Inl (GithubException 409 m), g')" for msg v
    using assms(2) [of msg "fst v"] by (cases v) (auto simp: counting_def alongside_def)
qed (simp add: counting_def assms(3))

section \<open>A repository that refuses to be written\<close>

definition read_only :: "'g pygithub \<Rightarrow> 'g pygithub" where
  "read_only gh = gh\<lparr>create_file := (\<lambda>p m x b. raiseA (RuntimeError ''read only'')),
     update_file := (\<lambda>p m x sha b. raiseA (RuntimeError ''read only'')),
     create_git_ref := (\<lambda>r sha. raiseA (RuntimeError ''read only'')),
     create_pull := (\<lambda>t b h base. raiseA (RuntimeError ''read only'')),
     merge_pull := (\<lambda>n. raiseA (RuntimeError ''read only'')),
     create_git_tag := (\<lambda>n m t. raiseA (RuntimeError ''read only''))\<rparr>"

lemma read_only_fields [simp]: "default_branch (read_only gh) = default_branch gh"
  "get_contents (read_only gh) = get_contents gh" "get_commits (read_only gh) = get_commits gh"
  by (simp_all add: read_only_def)

lemma read_only_get [simp]: "git_get (read_only gh) p = git_get gh p" "read_at_commit (read_only gh) p c = read_at_commit gh p c"
  "latest_file_commit (read_only gh) p = latest_file_commit gh p"
  by (simp_all only: git_get_def read_at_commit_def latest_file_commit_def read_only_fields)

lemma read_only_reads [simp]:
  "compare_remote hst (read_only gh) p h t a f = compare_remote hst gh p h t a f"
  "check_legacy_collision (read_only gh) t a = check_legacy_collision gh t a"
  "project_committed hst (read_only gh) p t a c spec rel = project_committed hst gh p t a c spec rel"
  by (simp_all only: compare_remote_def check_legacy_collision_def project_committed_def read_only_get)

text \<open>A commit that is called idempotent by the pull request route wrote nothing.\<close>

lemma idempotent_release:
  assumes "commit_or_noop_via_pull_request hst gh path yaml spec_path spec h actor t a v g = (Inr (sha, ''idempotent'', rel), g')"
  shows "commit_or_noop_via_pull_request hst (read_only gh) path yaml spec_path spec' h actor t a v g = (Inr (sha, ''idempotent'', rel), g')"
proof -
  from assms obtain f g1 where f: "git_get gh path g = (Inr (Some f), g1)"
    and "compare_remote hst gh path h t a f g1 = (Inr sha, g')" and "rel = None"
    by (auto simp: commit_or_noop_via_pull_request_def bind_ok Let_def split: option.splits)
  then show ?thesis
    by (simp add: commit_or_noop_via_pull_request_def bindA_run [where m = "git_get gh path", OF f]
        bindA_run [where m = "compare_remote hst gh path h t a f"])
qed

lemma idempotent_contract:
  assumes "commit_contract hst gh PullRequest path y z h actor t a v g = (Inr (sha, ''idempotent'', rel), g')"
  shows "commit_contract hst (read_only gh) PullRequest path y z h actor t a v g = (Inr (sha, ''idempotent'', rel), g')"
  using assms idempotent_release [of hst gh path y "openapi_path_of path" z h actor t a v g sha rel g' z]
  by (simp add: commit_contract_def)

lemma idempotent_creation:
  assumes "create_api hst gh PullRequest waiting t q actor s = (Inr res, s')" and "cres_case res = ''idempotent''"
  shows "create_api hst (read_only gh) PullRequest waiting t q actor s = (Inr res, s')"
proof -
  let ?n = "ap_api_name q"
  from assms have name: "?n \<noteq> []" "\<not> is_uuid_shaped ?n" by (auto simp: create_api_def Let_def)
  obtain y where y: "render_api_yaml hst t ?n (ap_version q) (ap_backend_url q) (ap_display_name q) (Some (ap_description q))
      (ap_category q) (ap_tags q) = Inr y"
    using assms name by (auto simp: create_api_def Let_def bind_ok)
  from assms name y obtain path where path: "canonical_catalog_path t ?n = Inr path"
    by (cases "canonical_catalog_path t ?n") (auto simp: create_api_def Let_def)
  note parts = assms(1) [unfolded create_api_def Let_def y path bindA_simps]
  from parts name obtain s0 where col: "check_legacy_collision gh t ?n s = (Inr (), s0)" by (auto simp: bind_ok)
  let ?commit = "\<lambda>gh. commit_contract hst gh PullRequest path y (render_openapi_yaml hst (openapi_spec_for_payload q))
    (compute_catalog_content_hash hst y) (sanitize_actor actor) t ?n (ap_version q)"
  from parts name col obtain sha k rel g where commit: "?commit gh (go_git (waiting s0)) = (Inr (sha, k, rel), g)"
    and rest: "bindA (project_committed hst gh path t ?n sha (openapi_spec_for_payload q) rel) (\<lambda>committed_hash.
         retA \<lparr>cres_api_id = ?n, cres_git_path = path, cres_git_commit_sha = sha,
               cres_catalog_content_hash = committed_hash, cres_case = k, cres_catalog_release = rel\<rparr>)
       ((waiting s0)\<lparr>go_git := g\<rparr>) = (Inr res, s')"
    by (auto simp: bindA_run [where m = "check_legacy_collision gh t ?n"] gitA_def bind_ok split: prod.splits)
  from rest assms(2) have k: "k = ''idempotent''" by (auto simp: bind_ok)
  from idempotent_contract [OF commit [unfolded k]] have "?commit (read_only gh) (go_git (waiting s0)) = (Inr (sha, k, rel), g)" by (simp add: k)
  then have git: "gitA (?commit (read_only gh)) (waiting s0) = (Inr (sha, k, rel), (waiting s0)\<lparr>go_git := g\<rparr>)" by (simp add: gitA_def)
  show ?thesis
    unfolding create_api_def Let_def y path bindA_simps read_only_reads
    using name rest by (simp add: bindA_run [where m = "check_legacy_collision gh t ?n", OF col] bindA_run [where m = "gitA _", OF git])
qed

end
