(* ===== verification/WriterSpecs.thy ===== *)
theory WriterSpecs
  imports WriterFacts CatalogScenario
begin

text \<open>The properties of the Git-first writer.\<close>

section \<open>A repository to write to\<close>

text \<open>The commits of a repository, each with the one file it wrote; the names of the commits grow.\<close>

type_synonym sample_repo = "(string \<times> string \<times> string) list"

definition repo_file_at :: "sample_repo \<Rightarrow> string \<Rightarrow> string \<Rightarrow> string option" where
  "repo_file_at g c p = map_of (map (\<lambda>(c, p, x). ((c, p), x)) g) (c, p)"

definition repo_head :: "sample_repo \<Rightarrow> string \<Rightarrow> string option" where
  "repo_head g p = map_of (rev (map snd g)) p"

definition repo_get :: "string \<Rightarrow> string \<Rightarrow> (sample_repo, error, gh_content) act" where
  "repo_get p r = (\<lambda>g. (case repo_file_at g r p of
      Some x \<Rightarrow> Inr (GhFile x ''b'')
    | None \<Rightarrow> (case if r = ''main'' then repo_head g p else None of
        Some x \<Rightarrow> Inr (GhFile x ''b'') | None \<Rightarrow> Inl (GithubException 404 ''Not Found'')), g))"

definition repo_write :: "string \<Rightarrow> string \<Rightarrow> (sample_repo, error, string \<times> string) act" where
  "repo_write p x = (\<lambda>g. let c = ''x'' @ concat (map fst g) in (Inr (c, ''b''), g @ [(c, p, x)]))"

definition sample_github :: "sample_repo pygithub" where
  "sample_github = \<lparr>default_branch = ''main'', get_contents = repo_get, create_file = (\<lambda>p m x b. repo_write p x),
     update_file = (\<lambda>p m x sha b. repo_write p x), get_git_ref = (\<lambda>r. raiseA (GithubException 404 [])),
     create_git_ref = (\<lambda>r sha. raiseA (GithubException 404 [])), get_branch_sha = (\<lambda>b. raiseA (GithubException 404 [])),
     create_pull = (\<lambda>t b h base. raiseA (GithubException 404 [])), get_pull = (\<lambda>n. raiseA (GithubException 404 [])),
     merge_pull = (\<lambda>n. raiseA (GithubException 404 [])), get_git_tag = (\<lambda>t. raiseA (GithubException 404 [])),
     create_git_tag = (\<lambda>n m t. raiseA (GithubException 404 [])),
     get_commits = (\<lambda>b p. getA (\<lambda>g. map fst (rev (filter (\<lambda>(c, q, x). q = p) g)))),
     get_git_tree = (\<lambda>sha. raiseA (GithubException 404 []))\<rparr>"





text \<open>A payload, and the run of its creation in an empty repository.\<close>

definition orders_payload :: api_create_payload where
  "orders_payload = \<lparr>ap_api_name = ''orders'', ap_display_name = [], ap_version = ''1'', ap_backend_url = ''http://b'',
     ap_description = [], ap_category = None, ap_tags = [], ap_openapi_spec = sample_spec\<rparr>"

definition orders_text :: string where
  "orders_text = dumps_default (JObj (payload_document orders_payload))"

definition writer_host :: host where
  "writer_host = sample_host\<lparr>yaml_safe_load := (\<lambda>s. if s = orders_text then Inr (JObj (payload_document orders_payload)) else Inl [])\<rparr>"

definition writer_state :: "sample_repo gitops" where
  "writer_state = \<lparr>go_db = catalog_world, go_git = [], go_locks = [], go_reports = []\<rparr>"

lemma writer_yaml: "yaml_safe_dump writer_host (JObj (payload_document orders_payload)) = orders_text"
  "yaml_safe_load writer_host orders_text = Inr (JObj (payload_document orders_payload))" "sha256_hex writer_host x = x"
  by (simp_all add: writer_host_def orders_text_def sample_host_def)

lemma orders_payload_wf: "jwf (JObj (payload_document orders_payload))" "jwf (openapi_spec_for_payload orders_payload)"
  by code_simp+

lemma writer_loads: "loads_wf writer_host"
  using orders_payload_wf(1) by (auto simp: loads_wf_def writer_host_def split: if_splits)

lemma orders_canonical: "canonical_catalog_path ''acme'' ''orders'' = Inr orders_path"
  "openapi_path_of orders_path = ''tenants/acme/apis/orders/openapi.yaml''" "orders_path \<noteq> ''tenants/acme/apis/orders/openapi.yaml''"
  by code_simp+

lemma sample_absent: "repo_file_at g ''main'' p = None \<Longrightarrow> repo_head g p = None \<Longrightarrow> git_get sample_github p g = (Inr None, g)"
  by (simp add: git_get_def sample_github_def repo_get_def bindA_def catchA_def github_status_def)

lemma sample_create: "create_or_update sample_github p x None actor msg None g =
    (Inr \<lparr>rc_commit_sha = ''x'' @ concat (map fst g), rc_file_sha = ''b'', rc_path = p\<rparr>, g @ [(''x'' @ concat (map fst g), p, x)])"
  by (simp add: create_or_update_def sample_github_def repo_write_def bindA_def catchA_def Let_def)

lemma orders_committed: "\<exists>g. commit_contract writer_host sample_github Direct orders_path orders_text z h actor t a v [] =
      (Inr (''x'', ''created'', None), g) \<and> repo_file_at g ''x'' orders_path = Some orders_text"
proof -
  let ?spec = "''tenants/acme/apis/orders/openapi.yaml''" and ?g = "[(''x'', orders_path, orders_text)]"
  have none: "git_get sample_github orders_path [] = (Inr None, [])"
    by (rule sample_absent) (simp_all add: repo_file_at_def repo_head_def)
  have put: "catchA (bindA (create_or_update sample_github orders_path orders_text None actor msg None)
      (\<lambda>commit. retA (Some (rc_commit_sha commit)))) is_sha_conflict (\<lambda>_. retA None) [] = (Inr (Some ''x''), ?g)" for msg
    by (simp add: catchA_def bindA_run [where m = "create_or_update _ _ _ _ _ _ _", OF sample_create])
  have first: "commit_or_noop writer_host sample_github orders_path orders_text h actor t a (Suc n) [] = (Inr (''x'', ''created''), ?g)" for n
    by (simp add: bindA_run [where m = "git_get sample_github orders_path", OF none] bindA_run [where m = "catchA _ _ _", OF put])
  have none': "git_get sample_github ?spec ?g = (Inr None, ?g)"
    using orders_canonical(3) by (intro sample_absent) (simp_all add: repo_file_at_def repo_head_def)
  have second: "commit_openapi_spec sample_github ?spec z actor t a ?g = (Inr (), [(''x'', orders_path, orders_text), (''xx'', ?spec, z)])"
    by (simp add: commit_openapi_spec_def bindA_run [where m = "git_get sample_github ?spec", OF none']
        bindA_run [where m = "create_or_update _ _ _ _ _ _ _", OF sample_create])
  show ?thesis
    unfolding commit_contract_def orders_canonical(2) MAX_RACE_RETRIES_def numeral_3_eq_3
    by (simp add: bindA_run [where m = "commit_or_noop _ _ _ _ _ _ _ _ _", OF first]
        bindA_run [where m = "commit_openapi_spec _ _ _ _ _ _", OF second] repo_file_at_def del: commit_or_noop.simps)
qed

text \<open>A creation, from what the commit returns; the contract of the payload is free.\<close>

definition orders_with :: "json \<Rightarrow> api_create_payload" where
  "orders_with spec = orders_payload\<lparr>ap_openapi_spec := spec\<rparr>"

lemma writer_run_from:
  assumes g: "commit_contract writer_host sample_github mode orders_path orders_text
      (render_openapi_yaml writer_host (openapi_spec_for_payload (orders_with spec)))
      (sha256_hex writer_host orders_text) (sanitize_actor ''u1'') ''acme'' ''orders'' ''1'' g0 = (Inr (''x'', k, None), g)"
    and at_g: "repo_file_at g ''x'' orders_path = Some orders_text"
  shows "\<exists>res s'. create_api writer_host sample_github mode (\<lambda>s. s) ''acme'' (orders_with spec) ''u1'' (writer_state\<lparr>go_git := g0\<rparr>) = (Inr res, s') \<and>
    cres_case res = k \<and> cres_git_commit_sha res = ''x'' \<and> cres_git_path res = orders_path"
proof -
  let ?q = "orders_with spec" let ?spec = "openapi_spec_for_payload ?q"
  have fields: "ap_api_name ?q = ''orders''" "ap_version ?q = ''1''" "ap_backend_url ?q = ''http://b''"
    by (simp_all add: orders_payload_def orders_with_def)
  have same: "payload_document ?q = payload_document orders_payload" by (simp add: payload_document_def orders_with_def)
  have name: "\<not> is_uuid_shaped ''orders''" by code_simp
  have render: "render_api_yaml writer_host ''acme'' ''orders'' ''1'' ''http://b'' (ap_display_name ?q)
      (Some (ap_description ?q)) (ap_category ?q) (ap_tags ?q) = Inr orders_text"
    using writer_yaml(1) [folded same] name by (simp add: render_api_yaml_def payload_document_def fields)
  have col: "check_legacy_collision sample_github ''acme'' ''orders'' (writer_state\<lparr>go_git := g0\<rparr>) = (Inr (), writer_state\<lparr>go_git := g0\<rparr>)"
    by (simp add: check_legacy_collision_def dbA_def bindA_def writer_state_def catalog_world_def)
  have git: "gitA (commit_contract writer_host sample_github mode orders_path orders_text (render_openapi_yaml writer_host ?spec)
      (sha256_hex writer_host orders_text) (sanitize_actor ''u1'') ''acme'' ''orders'' ''1'') (writer_state\<lparr>go_git := g0\<rparr>) =
      (Inr (''x'', k, None), writer_state\<lparr>go_git := g\<rparr>)" using g by (simp add: gitA_def writer_state_def)
  have read: "gitA (read_at_commit sample_github orders_path ''x'') (writer_state\<lparr>go_git := g\<rparr>) =
      (Inr (Some orders_text), writer_state\<lparr>go_git := g\<rparr>)"
    by (simp add: gitA_def read_at_commit_def sample_github_def repo_get_def at_g bindA_def catchA_def)
  have "parse_canonical_path orders_path = Inr (''acme'', ap_api_name ?q)" unfolding fields by code_simp
  from document_projects [OF this, of "''x''" "sha256_hex writer_host orders_text"] name
  have p: "render_api_catalog_projection (payload_document orders_payload) ''x'' (sha256_hex writer_host orders_text) orders_path ?spec =
      Inr (payload_projection ''acme'' ?q ''x'' (sha256_hex writer_host orders_text) orders_path)"
    by (simp add: fields same)
  obtain v where db: "dbA (project_to_api_catalog (payload_projection ''acme'' ?q ''x'' (sha256_hex writer_host orders_text)
      orders_path)) (writer_state\<lparr>go_git := g\<rparr>) = (Inr (), v)"
    by (simp add: dbA_def writer_state_def fresh_projected)
  have "\<exists>s'. project_committed writer_host sample_github orders_path ''acme'' ''orders'' ''x'' ?spec None (writer_state\<lparr>go_git := g\<rparr>) =
      (Inr (sha256_hex writer_host orders_text), s')"
    unfolding project_committed_def bindA_run [where m = "gitA (read_at_commit sample_github orders_path ''x'')", OF read]
    by (simp add: writer_yaml(2) compute_catalog_content_hash_def p bindA_run [where m = "dbA _", OF db] log_sync_status_def Let_def)
  then obtain s' where committed: "project_committed writer_host sample_github orders_path ''acme'' ''orders'' ''x'' ?spec None
      (writer_state\<lparr>go_git := g\<rparr>) = (Inr (sha256_hex writer_host orders_text), s')" ..
  show ?thesis
    unfolding create_api_def Let_def fields render
    by (simp add: name compute_catalog_content_hash_def orders_canonical(1) bindA_run [where m = "check_legacy_collision _ _ _", OF col]
        bindA_run [where m = "gitA _", OF git] bindA_run [where m = "project_committed _ _ _ _ _ _ _ _", OF committed])
qed

lemma writer_runs: "\<exists>res s'. create_api writer_host sample_github Direct (\<lambda>s. s) ''acme'' orders_payload ''u1'' writer_state = (Inr res, s') \<and>
    cres_case res = ''created'' \<and> cres_git_commit_sha res = ''x'' \<and> cres_git_path res = orders_path"
proof -
  have "orders_with (ap_openapi_spec orders_payload) = orders_payload" "writer_state\<lparr>go_git := []\<rparr> = writer_state"
    by (simp_all add: orders_with_def writer_state_def)
  then show ?thesis
    using orders_committed [of "render_openapi_yaml writer_host (openapi_spec_for_payload orders_payload)"
        "sha256_hex writer_host orders_text" "sanitize_actor ''u1''" "''acme''" "''orders''" "''1''"]
      writer_run_from [of Direct "ap_openapi_spec orders_payload" "[]" "''created''"] by auto
qed


section \<open>What is written\<close>

lemma collision_ok: "check_legacy_collision gh t a s = (r, s') \<Longrightarrow> db_ok (go_db s) \<Longrightarrow> db_ok (go_db s')"
  using stepsD [OF catalog_constraints.collision_within [of gh t a]] by (auto simp: over_db_def keeps_db_ok_def)

text \<open>
  C13. The writer commits first and projects what it committed: a creation that returns answers with the commit
  that the repository holds the file at, the hash is that of the text read back there, and the row of the
  API matches the projection of that text, with the commit, the hash and the path of the answer. The API is
  reported as synced.
\<close>
theorem written_then_projected:
  assumes "create_api hst gh mode waiting t q actor s = (Inr res, s')" and "db_ok (go_db s)" and "\<And>v. db_ok (go_db v) \<Longrightarrow> db_ok (go_db (waiting v))"
    and "loads_wf hst" and "jwf (openapi_spec_for_payload q)"
  shows "\<exists>body d p c g. read_at_commit gh (cres_git_path res) (cres_git_commit_sha res) g = (Inr (Some body), go_git s') \<and>
     canonical_catalog_path t (ap_api_name q) = Inr (cres_git_path res) \<and> cres_catalog_content_hash res = sha256_hex hst body \<and>
     yaml_safe_load hst body = Inr (JObj d) \<and>
     render_api_catalog_projection d (cres_git_commit_sha res) (cres_catalog_content_hash res) (cres_git_path res)
       (openapi_spec_for_payload q) = Inr p \<and>
     matching_row p (go_db s') c \<and>
     last (go_reports s') = report t (ap_api_name q) ''synced'' (Some (cres_git_commit_sha res))
       (Some (cres_catalog_content_hash res)) (Some (cres_git_path res)) None"
proof -
  obtain path s0 g where path: "canonical_catalog_path t (ap_api_name q) = Inr path" "cres_git_path res = path"
    and col: "check_legacy_collision gh t (ap_api_name q) s = (Inr (), s0)"
    and proj: "project_committed hst gh path t (ap_api_name q) (cres_git_commit_sha res) (openapi_spec_for_payload q)
        (cres_catalog_release res) ((waiting s0)\<lparr>go_git := g\<rparr>) = (Inr (cres_catalog_content_hash res), s')"
    by (rule create_api_run [OF assms(1)])
  have ok: "db_ok (go_db ((waiting s0)\<lparr>go_git := g\<rparr>))" using assms(3) [OF collision_ok [OF col assms(2)]] by simp
  obtain body g' d p c where "read_at_commit gh path (cres_git_commit_sha res) g = (Inr (Some body), g')" "go_git s' = g'"
    and "cres_catalog_content_hash res = sha256_hex hst body" "yaml_safe_load hst body = Inr (JObj d)"
    and "render_api_catalog_projection d (cres_git_commit_sha res) (cres_catalog_content_hash res) path
       (openapi_spec_for_payload q) = Inr p" "matching_row p (go_db s') c"
    and "go_reports s' = go_reports ((waiting s0)\<lparr>go_git := g\<rparr>) @ [report t (ap_api_name q) ''synced'' (Some (cres_git_commit_sha res))
       (Some (cres_catalog_content_hash res)) (Some path) None]"
    using project_committed_run [OF proj ok assms(4,5)] by auto
  with path show ?thesis by auto
qed

lemma writer_state_ok: "db_ok (go_db writer_state)"
  by (simp add: writer_state_def catalog_world_ok)

theorem written_then_projected_witness:
  "\<exists>res s' p c. create_api writer_host sample_github Direct (\<lambda>s. s) ''acme'' orders_payload ''u1'' writer_state = (Inr res, s') \<and>
     matching_row p (go_db s') c"
proof -
  obtain res s' where run: "create_api writer_host sample_github Direct (\<lambda>s. s) ''acme'' orders_payload ''u1'' writer_state = (Inr res, s')"
    using writer_runs by blast
  from written_then_projected [OF run writer_state_ok _ writer_loads orders_payload_wf(2)] run show ?thesis by blast
qed



section \<open>Races and retries\<close>

text \<open>
  C28. The writer gives up in time: whatever the repository answers, one creation asks it to create the
  \<open>api.yaml\<close> at most three times; and when every attempt loses a race the creation ends after
  exactly these attempts with the error that says so.
\<close>
theorem attempts_bounded:
  "snd (snd (commit_or_noop hst (counting gh) path yaml h actor t a MAX_RACE_RETRIES (g, 0))) \<le> 3 \<and>
   ((\<forall>g. \<exists>m g'. get_contents gh path (default_branch gh) g = (Inl (GithubException 404 m), g')) \<and>
    (\<forall>msg g. \<exists>m g'. create_file gh path msg yaml (default_branch gh) g = (Inl (GithubException 409 m), g')) \<and>
    default_branch gh \<noteq> [] \<longrightarrow>
      fst (commit_or_noop hst (counting gh) path yaml h actor t a MAX_RACE_RETRIES (g, 0)) = Inl (GitOpsRaceExhaustedError t a 3))"
  using commit_counts [of hst gh path yaml h actor t a MAX_RACE_RETRIES "(g, 0)"]
    race_counted [of gh path yaml hst h actor t a MAX_RACE_RETRIES "(g, 0)"]
  by (simp add: MAX_RACE_RETRIES_def del: commit_or_noop.simps)

theorem attempts_bounded_witness:
  "fst (commit_or_noop writer_host (counting (sample_github\<lparr>get_contents := (\<lambda>p r. raiseA (GithubException 404 [])),
      create_file := (\<lambda>p m x b. raiseA (GithubException 409 []))\<rparr>)) orders_path orders_text ''h'' ''u'' ''acme'' ''orders'' MAX_RACE_RETRIES ([], 0))
    = Inl (GitOpsRaceExhaustedError ''acme'' ''orders'' 3)"
  using attempts_bounded [of writer_host "sample_github\<lparr>get_contents := (\<lambda>p r. raiseA (GithubException 404 [])),
      create_file := (\<lambda>p m x b. raiseA (GithubException 409 []))\<rparr>" orders_path orders_text "''h''" "''u''" "''acme''" "''orders''" "[]"]
  by (simp add: sample_github_def del: commit_or_noop.simps)



end
