(* ===== verification/CatalogDrift.thy ===== *)
theory CatalogDrift
  imports CatalogRows
begin

text \<open>
  How deployments move when the reconciler writes: the generation of a row grows with every write, and a row is
  written whenever its desired state is not the planned one.
\<close>

section \<open>Writes with another base\<close>

text \<open>The plan is the same for every base: gateways, each with the keys that are merged into the base.\<close>

definition based :: "jdict \<Rightarrow> (gateway_instance \<times> jdict) list \<Rightarrow> (gateway_instance \<times> jdict) list" where
  "based base m = map (\<lambda>(g, k). (g, dmerge base k)) m"

definition target_keys :: "(gateway_instance \<times> jdict) list \<Rightarrow> bool" where
  "target_keys m \<longleftrightarrow> (\<forall>(g, k) \<in> set m. \<forall>x \<in> set (map fst k). x \<in> {''activated'', ''target_gateway_name'', ''target_environment'', ''target_source''})"

lemma based_simps [simp]: "based base [] = []" "based base (a @ b) = based base a @ based base b"
  by (simp_all add: based_def)

lemma target_plan:
  assumes "target_writes_of sr c base t w = (Inr l, v)"
  shows "\<exists>m. target_keys m \<and> (\<forall>b. target_writes_of sr c b t w = (Inr (based b m), v)) \<and> l = based base m"
proof (cases "opt_truthy (tgt_instance t)")
  case False
  with assms obtain gs where gs: "resolve_assignment_gateways c t w = (Inr gs, v)" by (auto simp: target_writes_of_def bind_ok)
  let ?m = "map (\<lambda>g. (g, [(''activated'', JBool (tgt_activated t)), (''target_gateway_name'', JStr (gi_name g)),
      (''target_environment'', opt_str (Some (gi_environment g))), (''target_source'', JStr ''assignment'')])) gs"
  have "target_writes_of sr c b t w = (Inr (based b ?m), v)" for b
    using False by (simp add: target_writes_of_def bindA_run [where m = "resolve_assignment_gateways c t", OF gs] based_def targeted_state_def)
  with assms show ?thesis by (intro exI [of _ ?m]) (auto simp: target_keys_def)
next
  case True
  with assms obtain x where x: "resolve_gateway sr (or_str (tgt_instance t) []) w = (Inr x, v)" by (auto simp: target_writes_of_def bind_ok)
  let ?m = "case x of None \<Rightarrow> [] | Some g \<Rightarrow> if gateway_fits g t then [(g, [(''activated'', JBool (tgt_activated t)),
      (''target_gateway_name'', JStr (or_str (tgt_instance t) [])), (''target_environment'', opt_str (tgt_environment t)),
      (''target_source'', JStr (tgt_source t))])] else []"
  have "target_writes_of sr c b t w = (Inr (based b ?m), v)" for b
    using True by (simp add: target_writes_of_def bindA_run [where m = "resolve_gateway sr (or_str (tgt_instance t) [])", OF x]
        based_def targeted_state_def split: option.split)
  with assms show ?thesis by (intro exI [of _ ?m]) (auto simp: target_keys_def split: option.splits)
qed

lemma plan_by_base:
  "planned_writes sr c base ts w = (Inr l, v) \<Longrightarrow>
   \<exists>m. target_keys m \<and> (\<forall>b. planned_writes sr c b ts w = (Inr (based b m), v)) \<and> l = based base m"
proof (induction ts arbitrary: l w)
  case Nil
  then show ?case by (intro exI [of _ "[]"]) (simp add: planned_writes_def target_keys_def)
next
  case (Cons t ts)
  from Cons.prems obtain l1 ls w1 where l1: "target_writes_of sr c base t w = (Inr l1, w1)"
    and ls: "planned_writes sr c base ts w1 = (Inr ls, v)" by (auto simp: planned_Cons bind_ok)
  from target_plan [OF l1] obtain m1 where m1: "target_keys m1" "\<And>b. target_writes_of sr c b t w = (Inr (based b m1), w1)" by blast
  from Cons.IH [OF ls] obtain m2 where m2: "target_keys m2" "\<And>b. planned_writes sr c b ts w1 = (Inr (based b m2), v)" by blast
  have "planned_writes sr c b (t # ts) w = (Inr (based b (m1 @ m2)), v)" for b
    by (simp add: planned_Cons bindA_run [where m = "target_writes_of sr c b t", OF m1(2)] bindA_run [where m = "planned_writes sr c b ts", OF m2(2)])
  with m1(1) m2(1) Cons.prems show ?case by (intro exI [of _ "m1 @ m2"]) (auto simp: target_keys_def)
qed

text \<open>Other keys of the base survive.\<close>

lemma based_key:
  assumes "target_keys m" and "(g, ds) \<in> set (based base m)"
    and "x \<notin> {''activated'', ''target_gateway_name'', ''target_environment'', ''target_source''}"
  shows "map_of ds x = map_of base x"
proof -
  have merged: "map_of (dmerge b k) x = map_of b x" if "\<forall>y \<in> set (map fst k). y \<noteq> x" for b k
    using that by (induction k arbitrary: b) (auto simp: map_update_if)
  from assms(2) obtain k where "(g, k) \<in> set m" "ds = dmerge base k" by (auto simp: based_def)
  moreover from this(1) assms(1,3) have "\<forall>y \<in> set (map fst k). y \<noteq> x" by (auto simp: target_keys_def)
  ultimately show ?thesis using merged by simp
qed

section \<open>Generations\<close>

text \<open>How often a row is state_after by states that are written one after the other, and where that ends.\<close>

fun times_written :: "json \<Rightarrow> jdict list \<Rightarrow> nat" where
  "times_written v [] = 0"
| "times_written v (ds # r) = (if jeq v (JObj ds) then times_written v r else Suc (times_written (JObj ds) r))"

fun state_after :: "json \<Rightarrow> jdict list \<Rightarrow> json" where
  "state_after v [] = v"
| "state_after v (ds # r) = (if jeq v (JObj ds) then state_after v r else state_after (JObj ds) r)"

text \<open>The states that a list of writes has for a gateway.\<close>

definition states_for :: "uuid \<Rightarrow> (gateway_instance \<times> jdict) list \<Rightarrow> jdict list" where
  "states_for i l = map snd (filter (\<lambda>x. gi_id (fst x) = i) l)"

lemma states_for_simps [simp]: "states_for i [] = []"
  "states_for i (x # l) = (if gi_id (fst x) = i then snd x # states_for i l else states_for i l)"
  by (simp_all add: states_for_def)

lemma rows_unique:
  assumes "db_ok w" and "d \<in> set (deployments w)" and "e \<in> set (deployments w)"
    and "dep_api_catalog_id d = dep_api_catalog_id e" and "dep_gateway_instance_id d = dep_gateway_instance_id e"
  shows "d = e"
  using row_of_gateway [OF assms(1,2)] row_of_gateway [OF assms(1,3)] unfolding assms(4,5) by simp

lemma upsert_row:
  assumes "upsert_deployment entry g ds w = (Inr b, w')" and "db_ok w" and "d \<in> set (deployments w)"
    and "dep_api_catalog_id d = cat_id entry"
  shows "(gi_id g \<noteq> dep_gateway_instance_id d \<or> jeq (dep_desired_state d) (JObj ds)) \<and> d \<in> set (deployments w') \<or>
     gi_id g = dep_gateway_instance_id d \<and> \<not> jeq (dep_desired_state d) (JObj ds) \<and>
     (\<exists>now. redeploy_direct d ds now \<in> set (deployments w'))"
  using assms(1)
proof (cases rule: upsert_cases)
  case (unchanged e)
  with rows_unique [OF assms(2,3), of e] assms(3,4) show ?thesis by auto
next
  case (changed e now)
  show ?thesis
  proof (cases "d = e")
    case True
    with changed have "redeploy_direct d ds now \<in> set (deployments w')" by (force simp: replace_row_def redeploy_direct_def)
    with True changed show ?thesis by auto
  next
    case False
    then have "gi_id g \<noteq> dep_gateway_instance_id d" using rows_unique [OF assms(2,3) changed(2)] changed(3,4) assms(4) by auto
    moreover have "dep_id d \<noteq> dep_id e"
      using False assms(2,3) changed(2) by (auto simp: db_ok_def table_ok_def distinct_map dest: inj_onD)
    then have "d \<in> set (deployments w')" using assms(3) changed(6) by (force simp: replace_row_def redeploy_direct_def)
    ultimately show ?thesis by blast
  qed
next
  case (new i now)
  have "gi_id g \<noteq> dep_gateway_instance_id d"
  proof
    let ?n = "new_deployment_row i (cat_id entry) (gi_id g) ds None now"
    assume "gi_id g = dep_gateway_instance_id d"
    with assms(4) have "dep_api_catalog_id d = dep_api_catalog_id ?n" "dep_gateway_instance_id d = dep_gateway_instance_id ?n"
      by (simp_all add: new_deployment_row_def)
    moreover have ok: "db_ok w'" by (rule upsert_keeps_ok [OF assms(1,2)])
    ultimately have "d = ?n" using rows_unique [OF ok, of d ?n] new(2) assms(3) by simp
    with ok new(2) assms(3) show False by (auto simp: db_ok_def table_ok_def)
  qed
  with new assms(3) show ?thesis by auto
qed

text \<open>A row through a list of writes.\<close>

lemma write_all_track:
  assumes "write_all entry l w = (Inr bs, w')" and "db_ok w" and "d \<in> set (deployments w)" and "dep_api_catalog_id d = cat_id entry"
  shows "\<exists>d' \<in> set (deployments w'). dep_id d' = dep_id d \<and> dep_api_catalog_id d' = dep_api_catalog_id d \<and>
     dep_gateway_instance_id d' = dep_gateway_instance_id d \<and>
     dep_desired_generation d' = dep_desired_generation d +
       int (times_written (dep_desired_state d) (states_for (dep_gateway_instance_id d) l)) \<and>
     dep_desired_state d' = state_after (dep_desired_state d) (states_for (dep_gateway_instance_id d) l) \<and>
     (if times_written (dep_desired_state d) (states_for (dep_gateway_instance_id d) l) = 0 then d' = d
      else dep_sync_status d' = PENDING)"
  using assms
proof (induction l arbitrary: w bs d)
  case Nil
  then show ?case by auto
next
  case (Cons x l)
  obtain g ds where x: "x = (g, ds)" by (cases x)
  from Cons.prems(1) obtain b cs w1 where one: "upsert_deployment entry g ds w = (Inr b, w1)"
    and rest: "write_all entry l w1 = (Inr cs, w')" by (auto simp: x bind_ok)
  have ok: "db_ok w1" by (rule upsert_keeps_ok [OF one Cons.prems(2)])
  from upsert_row [OF one Cons.prems(2-4)] show ?case
  proof (elim disjE conjE exE, goal_cases)
    case (3 now)
    let ?d = "redeploy_direct d ds now" and ?n = "times_written (JObj ds) (states_for (dep_gateway_instance_id d) l)"
    have same: "dep_id ?d = dep_id d" "dep_api_catalog_id ?d = dep_api_catalog_id d"
      "dep_gateway_instance_id ?d = dep_gateway_instance_id d" "dep_desired_state ?d = JObj ds"
      "dep_desired_generation ?d = dep_desired_generation d + 1" "dep_sync_status ?d = PENDING"
      by (simp_all add: redeploy_direct_def)
    have cat: "dep_api_catalog_id ?d = cat_id entry" using same(2) Cons.prems(4) by simp
    from Cons.IH [OF rest ok 3(3) cat] obtain d' where d': "d' \<in> set (deployments w')" "dep_id d' = dep_id d"
      "dep_api_catalog_id d' = dep_api_catalog_id d" "dep_gateway_instance_id d' = dep_gateway_instance_id d"
      "dep_desired_generation d' = dep_desired_generation d + 1 + int ?n"
      "dep_desired_state d' = state_after (JObj ds) (states_for (dep_gateway_instance_id d) l)"
      "if ?n = 0 then d' = ?d else dep_sync_status d' = PENDING" unfolding same by blast
    then have "dep_sync_status d' = PENDING" using same(6) by (auto split: if_splits)
    with d' 3 show ?case by (intro bexI [of _ d']) (auto simp: x)
  qed (use Cons.IH [OF rest ok _ Cons.prems(4)] in \<open>auto simp: x\<close>)
qed

lemma upsert_existing:
  assumes "db_ok w" and "d \<in> set (deployments w)" and "dep_api_catalog_id d = cat_id entry" and "dep_gateway_instance_id d = gi_id g"
    and "\<not> jeq (dep_desired_state d) (JObj ds)"
  shows "upsert_deployment entry g ds w = (Inr True, w\<lparr>ticks := Suc (ticks w),
    deployments := replace_row dep_id (redeploy_direct d ds (clock w (ticks w))) (deployments w)\<rparr>)"
proof -
  have get: "get_by_api_and_gateway (cat_id entry) (gi_id g) w = (Inr (Some d), w)"
    using row_of_gateway [OF assms(1,2)] assms(3,4) by simp
  have "replaceable dep_id deployment_clash (redeploy_direct d ds now) (deployments w)" for now
    using assms(1,2) by (fastforce simp: db_ok_def table_ok_def replaceable_def deployment_clash_def redeploy_direct_def)
  then show ?thesis
    by (simp add: upsert_deployment_def bindA_run [where m = "get_by_api_and_gateway (cat_id entry) (gi_id g)", OF get] assms(5)
        save_deployment_bind)
qed

text \<open>A gateway that is meant twice, with two states, is written twice in every pass.\<close>

lemma written_twice:
  assumes "db_ok w" and "d \<in> set (deployments w)" and "dep_api_catalog_id d = cat_id entry" and "dep_gateway_instance_id d = gi_id g"
    and "dep_desired_state d = JObj ds2" and "\<not> jeq (JObj ds2) (JObj ds1)" and "\<not> jeq (JObj ds1) (JObj ds2)"
  shows "\<exists>w' d'. write_all entry [(g, ds1), (g, ds2)] w = (Inr [True, True], w') \<and> d' \<in> set (deployments w') \<and>
     dep_id d' = dep_id d \<and> dep_api_catalog_id d' = cat_id entry \<and> dep_gateway_instance_id d' = gi_id g \<and>
     dep_desired_state d' = JObj ds2 \<and> dep_desired_generation d' = dep_desired_generation d + 2 \<and> dep_sync_status d' = PENDING"
proof -
  let ?d1 = "redeploy_direct d ds1 (clock w (ticks w))"
  obtain w1 where w1: "w1 = w\<lparr>ticks := Suc (ticks w), deployments := replace_row dep_id ?d1 (deployments w)\<rparr>" by simp
  have one: "upsert_deployment entry g ds1 w = (Inr True, w1)"
    using upsert_existing [OF assms(1-4), of ds1] assms(5,6) by (simp add: w1 del: jeq.simps)
  have d1: "?d1 \<in> set (deployments w1)" using assms(2) by (force simp: w1 replace_row_def redeploy_direct_def)
  have f1: "dep_api_catalog_id ?d1 = cat_id entry" "dep_gateway_instance_id ?d1 = gi_id g" "dep_desired_state ?d1 = JObj ds1"
    using assms(3,4) by (simp_all add: redeploy_direct_def)
  let ?d2 = "redeploy_direct ?d1 ds2 (clock w1 (ticks w1))"
  obtain w2 where w2: "w2 = w1\<lparr>ticks := Suc (ticks w1), deployments := replace_row dep_id ?d2 (deployments w1)\<rparr>" by simp
  have two: "upsert_deployment entry g ds2 w1 = (Inr True, w2)"
    using upsert_existing [OF upsert_keeps_ok [OF one assms(1)] d1 f1(1,2), of ds2] f1(3) assms(7) by (simp add: w2 del: jeq.simps)
  have "?d2 \<in> set (deployments w2)" using d1 by (force simp: w2 replace_row_def redeploy_direct_def)
  moreover have "write_all entry [(g, ds1), (g, ds2)] w = (Inr [True, True], w2)"
    by (simp add: bindA_run [where m = "upsert_deployment entry g ds1", OF one] bindA_run [where m = "upsert_deployment entry g ds2", OF two]
        del: retA_apply) simp
  ultimately show ?thesis using assms(3,4) by (intro exI [of _ w2] exI [of _ ?d2]) (simp add: redeploy_direct_def)
qed

section \<open>Telling desired states apart\<close>

lemma jeq_string: "jeq (JStr x) v \<longleftrightarrow> v = JStr x"
  by (cases v) auto

lemma jeq_key:
  assumes "jeq (JObj a) (JObj b)" and "map_of a k = Some (JStr x)"
  shows "map_of b k = Some (JStr x)"
proof -
  from assms have "case map_of b k of None \<Rightarrow> False | Some v' \<Rightarrow> jeq (JStr x) v'"
    by (auto simp: list_all_iff dest!: map_of_SomeD)
  then show ?thesis by (auto simp: jeq_string split: option.splits)
qed

lemma targeted_source: "map_of (targeted_state base b n e src) ''target_source'' = Some (JStr src)"
  by (simp add: targeted_state_def map_update_if)

lemma targeted_source_differs: "src \<noteq> src' \<Longrightarrow> \<not> jeq (JObj (targeted_state base b n e src)) (JObj (targeted_state base' b' n' e' src'))"
  using jeq_key [OF _ targeted_source] by (fastforce simp: targeted_source simp del: jeq.simps)

text \<open>The commit of the row is part of the desired state.\<close>

lemma desired_commit:
  "cat_git_commit_sha c = Some sha \<Longrightarrow> sha \<noteq> [] \<Longrightarrow> map_of (build_desired_state hst c) ''desired_commit_sha'' = Some (JStr sha)"
  by (simp add: build_desired_state_def desired_state_git_metadata_def Let_def map_update_if opt_truthy_def opt_str_def)

lemma based_commit:
  assumes "target_keys m" and "(g, ds) \<in> set (based (build_desired_state hst c) m)" and "cat_git_commit_sha c = Some sha" and "sha \<noteq> []"
  shows "map_of ds ''desired_commit_sha'' = Some (JStr sha)"
  using based_key [OF assms(1,2), of "''desired_commit_sha''"] desired_commit [OF assms(3,4)] by simp

lemma times_written_other:
  assumes "dss \<noteq> []" and "\<And>ds. ds \<in> set dss \<Longrightarrow> \<not> jeq v (JObj ds)"
  shows "times_written v dss \<noteq> 0"
  using assms by (cases dss) auto

lemma plan_same_key:
  assumes "cat_id c' = cat_id c"
  shows "planned_writes sr c' base ts = planned_writes sr c base ts"
proof -
  have "target_writes_of sr c' base t = target_writes_of sr c base t" for t
    by (simp add: target_writes_of_def resolve_assignment_gateways_def assms cong: if_cong)
  then have "target_writes_of sr c' base = target_writes_of sr c base" by (rule ext)
  then show ?thesis by (simp add: planned_writes_def)
qed

text \<open>What the projection does to the row of its API.\<close>

lemma projection_of_row:
  assumes "project_to_api_catalog p w = (Inr (), w1)" and "get_api_by_id (cp_tenant_id p) (cp_api_id p) w = (Inr (Some c), w)"
  shows "deployments w1 = deployments w" and "updated_row p c \<in> set (catalogs w1)"
proof -
  have f: "find_projected p w = (Inr (Some c), w)"
    by (simp add: find_projected_def bindA_run [where m = "get_api_by_id (cp_tenant_id p) (cp_api_id p)", OF assms(2)])
  have "deployments w1 = deployments w \<and> catalogs w1 = replace_row cat_id (updated_row p c) (catalogs w)"
    using assms(1) f
    by (auto simp: project_to_api_catalog_def bindA_run [where m = "find_projected p"] ok_writes whenA_def
        canonicalize_soft_api_references_def split: if_splits)
  moreover have "c \<in> set (catalogs w)" using get_api_by_id_Some [OF assms(2)] by simp
  ultimately show "deployments w1 = deployments w" "updated_row p c \<in> set (catalogs w1)"
    by (force simp: replace_row_def updated_row_def)+
qed

end
