(* ===== verification/ReconcilerSpecs.thy ===== *)
theory ReconcilerSpecs
  imports CatalogDrift CatalogScenario
begin

text \<open>Where the reconciler does more, or less, than the repository asks for.\<close>

section \<open>Targets that are named twice\<close>

definition passes ::
    "host \<Rightarrow> (string \<Rightarrow> gateway_instance list \<Rightarrow> gateway_instance option) \<Rightarrow> catalog_projection \<Rightarrow> jdict \<Rightarrow> nat \<Rightarrow>
     'g gitops \<Rightarrow> 'g gitops" where
  "passes hst sr p content n s = ((\<lambda>s. snd (reconcile_db_row hst sr p content s)) ^^ n) s"

lemma flapping_pass:
  assumes "db_ok (go_db s)" and "matching_row p (go_db s) c" and "row_to_dict (Some c) = Inr ()"
    and "\<not> legacy_blocked (row_category (Some c))" and "cat_target_gateways c = target_names_of content" and "\<not> no_targets content"
    and "api_writes_of hst sr content c (go_db s) = (Inr [(g, ds1), (g, ds2)], go_db s)"
    and "\<not> jeq (JObj ds2) (JObj ds1)" and "\<not> jeq (JObj ds1) (JObj ds2)"
    and "d \<in> set (deployments (go_db s))" and "dep_api_catalog_id d = cat_id c" and "dep_gateway_instance_id d = gi_id g"
    and "dep_desired_state d = JObj ds2"
  shows "\<exists>s' d'. reconcile_db_row hst sr p content s = (Inr (), s') \<and> db_ok (go_db s') \<and> matching_row p (go_db s') c \<and>
     api_writes_of hst sr content c (go_db s') = (Inr [(g, ds1), (g, ds2)], go_db s') \<and> d' \<in> set (deployments (go_db s')) \<and>
     dep_id d' = dep_id d \<and> dep_api_catalog_id d' = cat_id c \<and> dep_gateway_instance_id d' = gi_id g \<and>
     dep_desired_state d' = JObj ds2 \<and> dep_desired_generation d' = dep_desired_generation d + 2 \<and> dep_sync_status d' = PENDING"
proof -
  obtain w' d' where all: "write_all c [(g, ds1), (g, ds2)] (go_db s) = (Inr [True, True], w')"
    and d': "d' \<in> set (deployments w')" "dep_id d' = dep_id d" "dep_api_catalog_id d' = cat_id c" "dep_gateway_instance_id d' = gi_id g"
      "dep_desired_state d' = JObj ds2" "dep_desired_generation d' = dep_desired_generation d + 2" "dep_sync_status d' = PENDING"
    using written_twice [OF assms(1,10-13,8,9)] by blast
  have deploy: "reconcile_api hst sr (cp_tenant_id p) (cp_api_id p) content (Some c) (go_db s) = (Inr True, w')"
    unfolding reconcile_api_run [OF assms(7,6)] by (simp add: whenA_def assms(5) bindA_run [where m = "write_all c _", OF all] del: write_all_simps)
  from assms(2) have row: "get_api_by_id (cp_tenant_id p) (cp_api_id p) (go_db s) = (Inr (Some c), go_db s)" "row_matches_projection c p"
    by (simp_all add: matching_row_def)
  from db_row_matched [OF row(1) assms(3,4) row(2) deploy]
  have run: "reconcile_db_row hst sr p content s = (Inr (), s\<lparr>go_db := w', go_reports := go_reports s @ [db_row_report p ''synced'' None]\<rparr>)" by simp
  have frame: "same_api (go_db s) w'" using writes_same_api [of "go_db s" c "[(g, ds1), (g, ds2)]"] all by simp
  have "db_ok w'" using deploys_keep_ok [OF deploy assms(1)] matching_row_in [OF assms(2)] by simp
  moreover have "matching_row p w' c" using frame matching_row_same [OF _ assms(2)] by (simp add: same_api_def)
  moreover have "api_writes_of hst sr content c w' = (Inr [(g, ds1), (g, ds2)], w')"
    using frame api_writes_same [OF _ _ assms(7)] by (simp add: same_api_def)
  ultimately show ?thesis using run d' by (intro exI [of _ "s\<lparr>go_db := w', go_reports := go_reports s @ [db_row_report p ''synced'' None]\<rparr>"] exI [of _ d']) simp
qed

text \<open>
  A gateway that an \<open>api.yaml\<close> names twice, once under \<open>gateways\<close> and once under \<open>deployments\<close>, is
  never settled: the two targets have different desired states for the one row of API and gateway, so every
  pass over the unchanged file writes the row twice, moves its generation by two and makes it pending again.
\<close>
theorem duplicate_target_flaps:
  assumes "db_ok (go_db s)" and "matching_row p (go_db s) c" and "row_to_dict (Some c) = Inr ()"
    and "\<not> legacy_blocked (row_category (Some c))" and "cat_target_gateways c = target_names_of content" and "\<not> no_targets content"
    and "api_writes_of hst sr content c (go_db s) = (Inr [(g, ds1), (g, ds2)], go_db s)"
    and "\<not> jeq (JObj ds2) (JObj ds1)" and "\<not> jeq (JObj ds1) (JObj ds2)"
    and "d \<in> set (deployments (go_db s))" and "dep_api_catalog_id d = cat_id c" and "dep_gateway_instance_id d = gi_id g"
    and "dep_desired_state d = JObj ds2"
  shows "\<exists>d' \<in> set (deployments (go_db (passes hst sr p content n s))). dep_id d' = dep_id d \<and>
     dep_desired_generation d' = dep_desired_generation d + 2 * int n \<and> (0 < n \<longrightarrow> dep_sync_status d' = PENDING)"
  using assms
proof (induction n arbitrary: s d)
  case 0
  then show ?case by (auto simp: passes_def)
next
  case (Suc n)
  obtain s' d1 where run: "reconcile_db_row hst sr p content s = (Inr (), s')" and s': "db_ok (go_db s')" "matching_row p (go_db s') c"
    "api_writes_of hst sr content c (go_db s') = (Inr [(g, ds1), (g, ds2)], go_db s')" and d1: "d1 \<in> set (deployments (go_db s'))"
    "dep_id d1 = dep_id d" "dep_api_catalog_id d1 = cat_id c" "dep_gateway_instance_id d1 = gi_id g"
    "dep_desired_state d1 = JObj ds2" "dep_desired_generation d1 = dep_desired_generation d + 2" "dep_sync_status d1 = PENDING"
    using flapping_pass [OF Suc.prems] by blast
  have step: "passes hst sr p content (Suc n) s = passes hst sr p content n s'"
    by (simp add: passes_def funpow_swap1 [symmetric] funpow_Suc_right run del: funpow.simps)
  obtain d' where d': "d' \<in> set (deployments (go_db (passes hst sr p content n s')))" "dep_id d' = dep_id d1"
    "dep_desired_generation d' = dep_desired_generation d1 + 2 * int n" "0 < n \<longrightarrow> dep_sync_status d' = PENDING"
    using Suc.IH [OF s'(1,2) Suc.prems(3-6) s'(3) Suc.prems(8,9) d1(1,3-5)] by blast
  show ?case
  proof (cases n)
    case 0
    then show ?thesis using d1 run by (intro bexI [of _ d1]) (auto simp: step passes_def)
  next
    case (Suc m)
    with d' d1 show ?thesis unfolding step by (intro bexI [of _ d']) auto
  qed
qed

definition twice_document :: jdict where
  "twice_document = orders_document @ [(''deployments'', JObj [(''dev'', JObj [(''gateways'', JArr [JStr ''g1''])])])]"

definition twice_projection :: catalog_projection where
  "twice_projection = projr (render_api_catalog_projection twice_document ''c1'' ''h1'' orders_path JNull)"

definition twice_row :: api_catalog where
  "twice_row = (projected_row twice_projection (word_of_nat 100) (DT 2025 1 1 0 0 0 0))\<lparr>cat_target_gateways := [''g1'']\<rparr>"

definition twice_state :: "string option \<Rightarrow> string \<Rightarrow> jdict" where
  "twice_state env src = targeted_state (build_desired_state sample_host twice_row) True ''g1'' env src"

definition twice_deployment :: gateway_deployment where
  "twice_deployment = new_deployment_row (word_of_nat 101) (word_of_nat 100) 1 (twice_state (Some ''dev'') ''deployments'') None (DT 2025 1 1 0 0 0 0)"

definition twice_gitops :: "unit gitops" where
  "twice_gitops = catalog_state\<lparr>go_db := catalog_world\<lparr>catalogs := [twice_row], deployments := [twice_deployment]\<rparr>\<rparr>"

lemma twice_fields: "render_api_catalog_projection twice_document ''c1'' ''h1'' orders_path JNull = Inr twice_projection"
  "cp_tenant_id twice_projection = ''acme''" "cp_api_id twice_projection = ''orders''" "projection_wf twice_projection"
  "extract_deployment_targets (normalize_api_definition twice_document) =
     [mk_target (Some ''g1'') None True ''gateways'', mk_target (Some ''g1'') (Some ''dev'') True ''deployments'']"
  "target_names_of twice_document = [''g1'']"
proof -
  have "\<not> isl (render_api_catalog_projection twice_document ''c1'' ''h1'' orders_path JNull)" by code_simp
  then show "render_api_catalog_projection twice_document ''c1'' ''h1'' orders_path JNull = Inr twice_projection"
    by (simp add: twice_projection_def)
qed code_simp+

lemma twice_row_fields: "cat_id twice_row = word_of_nat 100" "cat_tenant_id twice_row = ''acme''" "cat_api_id twice_row = ''orders''"
  "cat_deleted_at twice_row = None" "cat_target_gateways twice_row = [''g1'']" "is_obj (cat_api_metadata twice_row)"
  by (simp_all add: twice_row_def projected_row_def twice_fields)

lemma twice_ok: "db_ok (go_db twice_gitops)"
  using catalog_world_ok by (simp add: twice_gitops_def catalog_state_def db_ok_def table_ok_def catalog_world_def)

lemma twice_matching: "matching_row twice_projection (go_db twice_gitops) twice_row"
  using projected_row_matches [OF twice_fields(4)]
  by (simp add: matching_row_def twice_gitops_def catalog_state_def get_api_by_id_def twice_fields twice_row_fields)
    (simp add: twice_row_def)

lemma twice_fits: "gateway_fits (sample_gateway 1 ''g1'' ''dev'') (mk_target (Some ''g1'') (Some ''dev'') True ''deployments'')"
  by (simp add: gateway_fits_def sample_gateway_def) code_simp

lemma twice_plan: "api_writes_of sample_host (\<lambda>_ _. None) twice_document twice_row (go_db twice_gitops) =
    (Inr [(sample_gateway 1 ''g1'' ''dev'', twice_state None ''gateways''),
          (sample_gateway 1 ''g1'' ''dev'', twice_state (Some ''dev'') ''deployments'')], go_db twice_gitops)"
proof -
  have "gateways (go_db twice_gitops) = gateways sample_world" by (simp add: twice_gitops_def catalog_state_def catalog_world_def)
  note gw = orders_gateway [OF this]
  show ?thesis
    by (simp add: api_writes_of_def twice_fields planned_writes_def target_writes_of_def resolve_gateway_def opt_truthy_def or_str_def
      twice_state_def bindA_run [where m = "get_gateway_by_name ''g1''", OF gw] orders_fits twice_fits del: retA_apply) simp
qed

theorem duplicate_target_flaps_witness:
  "\<exists>d \<in> set (deployments (go_db (passes sample_host (\<lambda>_ _. None) twice_projection twice_document 5 twice_gitops))).
     dep_desired_generation d = 11 \<and> dep_sync_status d = PENDING"
proof -
  have "row_to_dict (Some twice_row) = Inr ()"
    using twice_row_fields(6) by (cases "cat_api_metadata twice_row") (simp_all add: row_to_dict_def dict_or_empty_def)
  moreover have "\<not> legacy_blocked (row_category (Some twice_row))"
    using twice_matching matched_category [OF _ twice_fields(1)] by (simp add: matching_row_def)
  moreover have "\<not> no_targets twice_document" by (simp add: no_targets_def twice_fields)
  moreover have "\<not> jeq (JObj (twice_state (Some ''dev'') ''deployments'')) (JObj (twice_state None ''gateways''))"
    "\<not> jeq (JObj (twice_state None ''gateways'')) (JObj (twice_state (Some ''dev'') ''deployments''))"
    unfolding twice_state_def by (rule targeted_source_differs, simp)+
  moreover have "twice_deployment \<in> set (deployments (go_db twice_gitops))" "dep_api_catalog_id twice_deployment = cat_id twice_row"
    "dep_gateway_instance_id twice_deployment = gi_id (sample_gateway 1 ''g1'' ''dev'')"
    "dep_desired_state twice_deployment = JObj (twice_state (Some ''dev'') ''deployments'')" "dep_desired_generation twice_deployment = 1"
    by (simp_all add: twice_gitops_def twice_deployment_def new_deployment_row_def twice_row_fields sample_gateway_def)
  ultimately obtain d' where "d' \<in> set (deployments (go_db (passes sample_host (\<lambda>_ _. None) twice_projection twice_document 5 twice_gitops)))"
    "dep_desired_generation d' = 1 + 2 * int 5" "0 < (5::nat) \<longrightarrow> dep_sync_status d' = PENDING"
    using duplicate_target_flaps [OF twice_ok twice_matching, of twice_document sample_host "\<lambda>_ _. None" "sample_gateway 1 ''g1'' ''dev''"
        "twice_state None ''gateways''" "twice_state (Some ''dev'') ''deployments''" twice_deployment 5] twice_plan
    by (auto simp: twice_fields twice_row_fields simp del: jeq.simps)
  then show ?thesis by auto
qed

section \<open>The commit of a file and the head of the branch\<close>

text \<open>
  A commit anywhere moves every API: the listing gives each file the head of the branch as its commit, and the
  commit is part of the projection and of the desired states. A row that matches its file at an older head
  counts as drifted although neither file has changed, and visiting it rewrites every deployment of the API: the
  generation grows and the row is pending again.
\<close>
theorem moved_head_redeploys:
  assumes "reconcile_db_row hst sr p' content s = (Inr (), s')" and "db_ok (go_db s)" and "projection_wf p'"
    and "p' = p\<lparr>cp_git_commit_sha := sha'\<rparr>" and "sha' \<noteq> cp_git_commit_sha p" and "sha' \<noteq> []" and "cp_git_commit_sha p \<noteq> []"
    and "matching_row p (go_db s) c" and "\<not> legacy_blocked (row_category (Some c))" and "lock_free hst p' s"
    and "api_writes_of hst sr content c (go_db s) = (Inr l, go_db s)" and "(g, ds) \<in> set l"
    and "d \<in> set (deployments (go_db s))" and "dep_api_catalog_id d = cat_id c" and "dep_gateway_instance_id d = gi_id g"
    and "dep_desired_state d = JObj ds"
  shows "\<exists>d' \<in> set (deployments (go_db s')). dep_id d' = dep_id d \<and> dep_desired_generation d < dep_desired_generation d' \<and>
     dep_sync_status d' = PENDING"
proof -
  have ids: "cp_tenant_id p' = cp_tenant_id p" "cp_api_id p' = cp_api_id p" using assms(4) by simp_all
  have found: "get_api_by_id (cp_tenant_id p') (cp_api_id p') (go_db s) = (Inr (Some c), go_db s)"
    and commit: "cat_git_commit_sha c = Some (cp_git_commit_sha p)"
    using assms(8) by (simp_all add: matching_row_def ids row_matches_projection_def)
  have drift: "out_of_date p' (Some c)" using commit assms(4,5) by (simp add: out_of_date_def row_matches_projection_def)
  have dict: "row_to_dict (Some c) = Inr ()" using db_row_unreadable [OF found] assms(1) by (cases "row_to_dict (Some c)") auto
  obtain x w where x: "project_and_deploy hst sr p' content (go_db s) = (x, w)" by (cases "project_and_deploy hst sr p' content (go_db s)")
  have "x = Inr ()" and db': "go_db s' = w" using db_row_free [OF found dict assms(9) drift assms(10) x] assms(1) by (cases x; auto simp: Let_def)+
  with x have "project_and_deploy hst sr p' content (go_db s) = (Inr (), w)" by simp
  then obtain w1 c1 b where proj: "project_to_api_catalog p' (go_db s) = (Inr (), w1)" and c1: "matching_row p' w1 c1" and ok1: "db_ok w1"
    and deploy: "reconcile_api hst sr (cp_tenant_id p') (cp_api_id p') content (Some c1) w1 = (Inr b, w)"
    and frame: "gateways w1 = gateways (go_db s)" "assignments w1 = assignments (go_db s)"
    by (rule project_and_deploy_run [OF _ assms(2,3)]) blast
  note row = projection_of_row [OF proj found] and live = conjunct2 [OF matching_row_in [OF assms(8)]]
  have "row_matches_projection (updated_row p' c) p'"
    using assms(8) ids by (intro updated_row_matches [OF assms(3)]) (simp add: matching_row_def row_matches_projection_def)
  then have "matching_row p' w1 (updated_row p' c)" using row(2) live by (intro matching_rowI [OF ok1]) (simp_all add: updated_row_def)
  with c1 have c1_eq: "c1 = updated_row p' c" using matching_row_unique by blast
  have c1f: "cat_id c1 = cat_id c" "cat_git_commit_sha c1 = Some sha'" using assms(4) by (simp_all add: c1_eq updated_row_def)
  let ?ts = "extract_deployment_targets (normalize_api_definition content)"
  from plan_by_base assms(11) obtain m where m: "target_keys m" "l = based (build_desired_state hst c) m"
    and all_bases: "\<And>base. planned_writes sr c base ?ts (go_db s) = (Inr (based base m), go_db s)"
    unfolding api_writes_of_def by blast
  let ?l1 = "based (build_desired_state hst c1) m"
  have "api_writes_of hst sr content c1 (go_db s) = (Inr ?l1, go_db s)"
    by (simp add: api_writes_of_def plan_same_key [OF c1f(1)] all_bases)
  from api_writes_same [OF frame this] have plan: "api_writes_of hst sr content c1 w1 = (Inr ?l1, w1)" .
  have targets: "\<not> no_targets content" using assms(11,12) by (auto simp: no_targets_def api_writes_of_def planned_writes_def)
  obtain w2 bs where w2: "write_all c1 ?l1 w2 = (Inr bs, w)" "deployments w2 = deployments (go_db s)" "db_ok w2"
    using deploy row(1) ok1 unfolding reconcile_api_run [OF plan targets]
    by (auto simp: whenA_def save_catalog_bind bind_ok db_ok_def saved_table_ok split: if_splits)
  have d: "d \<in> set (deployments w2)" "dep_api_catalog_id d = cat_id c1" using assms(13,14) w2(2) c1f(1) by simp_all
  have other: "\<not> jeq (JObj ds) (JObj ds')" if "(g', ds') \<in> set ?l1" for g' ds'
  proof
    assume "jeq (JObj ds) (JObj ds')"
    from jeq_key [OF this based_commit [OF m(1) assms(12) [unfolded m(2)] commit assms(7)]]
      based_commit [OF m(1) that c1f(2) assms(6)] assms(5) show False by simp
  qed
  have "states_for (dep_gateway_instance_id d) ?l1 \<noteq> []"
    using assms(12,15) by (force simp: m(2) based_def states_for_def filter_empty_conv)
  then have "times_written (dep_desired_state d) (states_for (dep_gateway_instance_id d) ?l1) \<noteq> 0"
    using other assms(16) by (intro times_written_other) (auto simp: states_for_def simp del: jeq.simps)
  with write_all_track [OF w2(1,3) d] db' show ?thesis by (auto split: if_splits)
qed

text \<open>The sample API after a commit of another file.\<close>

definition later_state :: "unit gitops" where
  "later_state = catalog_state\<lparr>go_db := orders_world ''c1''\<rparr>"

lemma later_projection: "orders_projection ''c2'' = (orders_projection ''c1'')\<lparr>cp_git_commit_sha := ''c2''\<rparr>"
  by code_simp

lemma orders_world_ok: "db_ok (orders_world sha)"
  using catalog_world_ok by (simp add: orders_world_def db_ok_def table_ok_def catalog_world_def)

lemma later_found: "get_api_by_id ''acme'' ''orders'' (orders_world sha) = (Inr (Some (orders_final sha)), orders_world sha)"
  using orders_matching [of sha] by (simp add: matching_row_def orders_fields)

lemma later_deploys: "\<exists>w. project_and_deploy sample_host (\<lambda>_ _. None) (orders_projection ''c2'') orders_document
    (go_db later_state) = (Inr (), w)"
proof -
  let ?p = "orders_projection ''c2''" and ?w = "orders_world ''c1''" and ?c = "orders_final ''c1''"
  have ids: "cp_tenant_id ?p = ''acme''" "cp_api_id ?p = ''orders''" by (simp_all add: orders_fields)
  note found = later_found [of "''c1''"]
  let ?c1 = "updated_row ?p ?c"
  obtain w1 where w1: "w1 = ?w\<lparr>catalogs := [?c1]\<rparr>" by simp
  have "find_projected ?p ?w = (Inr (Some ?c), ?w)"
    by (simp add: find_projected_def ids bindA_run [where m = "get_api_by_id ''acme'' ''orders''", OF found])
  moreover have "cat_api_id ?c = ''orders''" by (simp add: orders_row_def projected_row_def orders_fields)
  moreover have "catalogs ?w = [?c]" by (simp add: orders_world_def)
  ultimately have proj: "project_to_api_catalog ?p ?w = (Inr (), w1)"
    by (simp add: project_to_api_catalog_def bindA_run [where m = "find_projected ?p"] canonicalize_soft_api_references_def whenA_def
        ids save_catalog_bind replaceable_def replace_row_def updated_row_def w1)
  have "projection_wf ?p" by (rule orders_wf)
  moreover have tenant: "cat_tenant_id ?c = ''acme''" "cat_deleted_at ?c = None" "cat_id ?c = word_of_nat 100"
    by (simp_all add: orders_row_def projected_row_def orders_fields)
  ultimately have "row_matches_projection ?c1 ?p" by (intro updated_row_matches) (simp_all add: ids)
  have ok1: "db_ok w1" by (rule projection_keeps_ok [OF orders_world_ok proj])
  have found1: "get_api_by_id ''acme'' ''orders'' w1 = (Inr (Some ?c1), w1)"
    using tenant by (simp add: get_api_by_id_def w1 updated_row_def ids)
  have gw: "gateways w1 = gateways sample_world" by (simp add: w1 orders_world_def catalog_world_def)
  let ?g = "sample_gateway 1 ''g1'' ''dev''" and ?d = "orders_deployment ''c1''"
    and ?ds = "targeted_state (build_desired_state sample_host ?c1) True ''g1'' None ''gateways''"
  have d: "?d \<in> set (deployments w1)" "dep_api_catalog_id ?d = cat_id ?c1" "dep_gateway_instance_id ?d = gi_id ?g"
    by (simp_all add: w1 orders_world_def orders_deployment_def new_deployment_row_def updated_row_def sample_gateway_def)
  have k: "map_of (targeted_state (build_desired_state sample_host c) True ''g1'' None ''gateways'') ''desired_commit_sha'' = Some (JStr x)"
    if "cat_git_commit_sha c = Some x" "x \<noteq> []" for c x
    using desired_commit [OF that] by (simp add: targeted_state_def map_update_if)
  have "\<not> jeq (dep_desired_state ?d) (JObj ?ds)"
  proof
    assume "jeq (dep_desired_state ?d) (JObj ?ds)"
    then have "jeq (JObj (targeted_state (build_desired_state sample_host (orders_row ''c1'')) True ''g1'' None ''gateways'')) (JObj ?ds)"
      by (simp add: orders_deployment_def new_deployment_row_def del: jeq.simps)
    from jeq_key [OF this k [of "orders_row ''c1''" "''c1''"]] k [of ?c1 "''c2''"]
    show False by (simp add: orders_row_def projected_row_def updated_row_def orders_fields)
  qed
  from upsert_existing [OF ok1 d this]
  have up: "\<exists>w2. upsert_deployment ?c1 ?g ?ds w1 = (Inr True, w2)" by blast
  have names: "cat_target_gateways ?c1 = target_names_of orders_document" by (simp add: updated_row_def orders_fields)
  have "\<exists>w2. reconcile_api sample_host (\<lambda>_ _. None) ''acme'' ''orders'' orders_document (Some ?c1) w1 = (Inr True, w2)"
    unfolding reconcile_api_run [OF orders_plan [OF gw] orders_targets]
    using up names by (auto simp: whenA_def orders_writes_def bind_ok)
  then obtain w2 where deploy: "reconcile_api sample_host (\<lambda>_ _. None) ''acme'' ''orders'' orders_document (Some ?c1) w1 = (Inr True, w2)" ..
  have "project_and_deploy sample_host (\<lambda>_ _. None) ?p orders_document (go_db later_state) = (Inr (), w2)"
    unfolding project_and_deploy_def ids
    by (simp add: later_state_def bindA_run [where m = "project_to_api_catalog ?p", OF proj]
        bindA_run [where m = "get_api_by_id ''acme'' ''orders''", OF found1] bindA_run [where m = "reconcile_api _ _ _ _ _ _", OF deploy] del: query_ok)
  then show ?thesis ..
qed

lemma later_blocked: "\<not> legacy_blocked (row_category (Some (orders_final ''c1'')))"
  using orders_matching [of "''c1''"] matched_category [OF _ orders_rendered] by (auto simp: matching_row_def)

lemma later_runs: "\<exists>s'. reconcile_db_row sample_host (\<lambda>_ _. None) (orders_projection ''c2'') orders_document later_state = (Inr (), s')"
proof -
  let ?p = "orders_projection ''c2''" and ?c = "orders_final ''c1''"
  obtain w where w: "project_and_deploy sample_host (\<lambda>_ _. None) ?p orders_document (go_db later_state) = (Inr (), w)"
    using later_deploys by blast
  have found: "get_api_by_id (cp_tenant_id ?p) (cp_api_id ?p) (go_db later_state) = (Inr (Some ?c), go_db later_state)"
    using later_found by (simp add: later_state_def orders_fields)
  have "row_to_dict (Some ?c) = Inr ()" by (simp add: row_to_dict_def dict_or_empty_def orders_row_def projected_row_def)
  moreover have "out_of_date ?p (Some ?c)"
    by (simp add: out_of_date_def row_matches_projection_def orders_row_def projected_row_def orders_fields)
  moreover have "lock_free sample_host ?p later_state" by (simp add: lock_free_def later_state_def catalog_state_def)
  ultimately have "reconcile_db_row sample_host (\<lambda>_ _. None) ?p orders_document later_state = (Inr (), later_state\<lparr>go_db := w,
      go_reports := go_reports later_state @ [db_row_report ?p ''drift_detected'' (Some ''projection drift''), db_row_report ?p ''synced'' None]\<rparr>)"
    using db_row_free [OF found _ later_blocked _ _ w] by (simp add: Let_def)
  then show ?thesis by blast
qed

theorem moved_head_redeploys_witness:
  "\<exists>s' d'. reconcile_db_row sample_host (\<lambda>_ _. None) (orders_projection ''c2'') orders_document later_state = (Inr (), s') \<and>
     d' \<in> set (deployments (go_db s')) \<and> 1 < dep_desired_generation d' \<and> dep_sync_status d' = PENDING"
proof -
  let ?d = "orders_deployment ''c1''"
  obtain s' where run: "reconcile_db_row sample_host (\<lambda>_ _. None) (orders_projection ''c2'') orders_document later_state = (Inr (), s')"
    using later_runs by blast
  have gw: "gateways (go_db later_state) = gateways sample_world" by (simp add: later_state_def orders_world_def catalog_world_def)
  have "\<exists>d' \<in> set (deployments (go_db s')). dep_id d' = dep_id ?d \<and> dep_desired_generation ?d < dep_desired_generation d' \<and>
     dep_sync_status d' = PENDING"
  proof (rule moved_head_redeploys [OF run _ orders_wf later_projection _ _ _ _ later_blocked _ orders_plan [OF gw]])
    show "matching_row (orders_projection ''c1'') (go_db later_state) (orders_final ''c1'')"
      using orders_matching by (simp add: later_state_def)
    show "db_ok (go_db later_state)" by (simp add: later_state_def orders_world_ok)
  qed (auto simp: later_state_def orders_fields lock_free_def catalog_state_def orders_writes_def orders_world_def
      orders_deployment_def new_deployment_row_def sample_gateway_def)
  then show ?thesis using run by (auto simp: orders_deployment_def new_deployment_row_def)
qed

section \<open>A lock that was held\<close>

text \<open>The steps of the repository that bring a file to its projection.\<close>

definition file_projected ::
    "host \<Rightarrow> 'g pygithub \<Rightarrow> remote_file_metadata \<Rightarrow> remote_file_metadata option \<Rightarrow> 'g \<Rightarrow> catalog_projection \<Rightarrow> jdict \<Rightarrow> 'g \<Rightarrow> bool" where
  "file_projected hst gh f op g p content g' \<longleftrightarrow> (\<exists>remote sha g1 g2. git_get gh (rm_path f) g = (Inr (Some remote), g1) \<and>
     commit_of_file gh (rm_path f) f g1 = (Inr (Some sha), g2) \<and>
     expected_projection hst gh (rm_path f) (rf_content remote) sha op g2 = (Inr (Inr (p, content)), g'))"

lemma one_path_run:
  assumes "parse_canonical_path (rm_path f) = Inr (t, a)" and "uuid_api_path (rm_path f) = None"
    and "file_projected hst gh f op (go_git s) p content g" and "reconcile_db_row hst sr p content (s\<lparr>go_git := g\<rparr>) = (Inr (), s')"
  shows "reconcile_one_path hst sr gh f op s = (Inr (Some (t, a)), s')"
proof -
  from assms(3) obtain remote sha g1 g2 where "git_get gh (rm_path f) (go_git s) = (Inr (Some remote), g1)"
    "commit_of_file gh (rm_path f) f g1 = (Inr (Some sha), g2)"
    "expected_projection hst gh (rm_path f) (rf_content remote) sha op g2 = (Inr (Inr (p, content)), g)"
    by (auto simp: file_projected_def)
  then have "gitA (git_get gh (rm_path f)) s = (Inr (Some remote), s\<lparr>go_git := g1\<rparr>)"
    "gitA (commit_of_file gh (rm_path f) f) (s\<lparr>go_git := g1\<rparr>) = (Inr (Some sha), s\<lparr>go_git := g2\<rparr>)"
    "gitA (expected_projection hst gh (rm_path f) (rf_content remote) sha op) (s\<lparr>go_git := g2\<rparr>) = (Inr (Inr (p, content)), s\<lparr>go_git := g\<rparr>)"
    by (simp_all add: gitA_def)
  note runs = bindA_run [where m = "gitA _", OF this(1)] bindA_run [where m = "gitA _", OF this(2)] bindA_run [where m = "gitA _", OF this(3)]
  show ?thesis
    unfolding reconcile_one_path_def Let_def assms(1,2)
    by (simp add: runs bindA_run [where m = "reconcile_db_row _ _ _ _", OF assms(4)])
qed

text \<open>
  C31. A file whose lock is held is forgotten: when another session holds the advisory lock of an API, the visit of
  its file leaves the database and the reports as they are, and the blobs are remembered as processed all the
  same. Every later visit of the unchanged file skips it, whether the lock is free or not, however the
  database looks: the row stays missing or drifted until the file changes or the worker is restarted.
\<close>
theorem locked_file_forgotten:
  assumes "parse_canonical_path (rm_path f) = Inr (t, a)" and "uuid_api_path (rm_path f) = None"
    and "file_projected hst gh f (map_of op (rm_path f)) (go_git (wk_state ws)) p content g"
    and "get_api_by_id (cp_tenant_id p) (cp_api_id p) (go_db (wk_state ws)) = (Inr row, go_db (wk_state ws))"
    and "row_to_dict row = Inr ()" and "\<not> legacy_blocked (row_category row)" and "out_of_date p row"
    and "\<not> lock_free hst p (wk_state ws)"
    and "source_cache_key f (map_of op (rm_path f)) \<noteq> []"
    and "map_of (wk_seen ws) (rm_path f) \<noteq> Some (source_cache_key f (map_of op (rm_path f)))"
  shows "\<exists>ws'. visit_file hst sr gh op f ws = (Inr (Some (t, a)), ws') \<and> go_db (wk_state ws') = go_db (wk_state ws) \<and>
     go_reports (wk_state ws') = go_reports (wk_state ws) \<and>
     (\<forall>later. map_of (wk_seen later) (rm_path f) = map_of (wk_seen ws') (rm_path f) \<longrightarrow>
        visit_file hst sr gh op f later = (Inr (Some (t, a)), later))"
proof -
  let ?s = "(wk_state ws)\<lparr>go_git := g\<rparr>" and ?key = "source_cache_key f (map_of op (rm_path f))"
  let ?ws = "ws\<lparr>wk_state := ?s, wk_seen := AList.update (rm_path f) ?key (wk_seen ws)\<rparr>"
  have "reconcile_db_row hst sr p content ?s = (Inr (), ?s)"
    using assms(4-8) by (intro db_row_locked) (simp_all add: lock_free_def)
  from one_path_run [OF assms(1,2,3) this]
  have "sysA (reconcile_one_path hst sr gh f (map_of op (rm_path f))) ws = (Inr (Some (t, a)), ws\<lparr>wk_state := ?s\<rparr>)"
    by (simp add: sysA_def)
  then have "visit_file hst sr gh op f ws = (Inr (Some (t, a)), ?ws)"
    using assms(9,10) by (simp add: visit_file_def Let_def whenA_def bindA_run [where m = "sysA _"])
  moreover have "seen_key_from_path (rm_path f) = Some (t, a)" using assms(1,2) by (simp add: seen_key_from_path_def)
  moreover have "map_of (wk_seen ?ws) (rm_path f) = Some ?key" by (simp add: update_conv')
  ultimately show ?thesis using assms(9) by (intro exI [of _ ?ws]) (simp add: visit_file_def Let_def)
qed

text \<open>A repository with the one file, whose text is \<open>h1\<close>.\<close>

definition fixed_github :: "unit pygithub" where
  "fixed_github = \<lparr>default_branch = ''main'', get_contents = (\<lambda>p r. retA (GhFile ''h1'' ''b1'')),
     create_file = (\<lambda>p m x b. raiseA (GithubException 409 [])), update_file = (\<lambda>p m x sha b. raiseA (GithubException 409 [])),
     get_git_ref = (\<lambda>r. retA (''commit'', ''c1'', None)), create_git_ref = (\<lambda>r sha. raiseA (GithubException 409 [])),
     get_branch_sha = (\<lambda>b. retA ''c1''), create_pull = (\<lambda>t b h base. raiseA (GithubException 409 [])),
     get_pull = (\<lambda>n. raiseA (GithubException 404 [])), merge_pull = (\<lambda>n. raiseA (GithubException 409 [])),
     get_git_tag = (\<lambda>t. raiseA (GithubException 404 [])), create_git_tag = (\<lambda>n m t. raiseA (GithubException 409 [])),
     get_commits = (\<lambda>b p. retA [''c1'']), get_git_tree = (\<lambda>sha. retA [(orders_path, ''blob'', ''b1'')])\<rparr>"

definition fixed_host :: host where
  "fixed_host = sample_host\<lparr>yaml_safe_load := (\<lambda>s. Inr (JObj orders_document))\<rparr>"

definition orders_file :: remote_file_metadata where
  "orders_file = \<lparr>rm_path = orders_path, rm_sha = ''b1'', rm_commit_sha = Some ''c1''\<rparr>"

definition locked_worker :: "unit worker" where
  "locked_worker = \<lparr>wk_state = catalog_state\<lparr>go_locks := [advisory_lock_key fixed_host ''acme'' ''orders'']\<rparr>, wk_seen = []\<rparr>"

lemma orders_file_projected: "file_projected fixed_host fixed_github orders_file None g (orders_projection ''c1'') orders_document g"
proof -
  have "normalize_api_definition orders_document = orders_document" by code_simp
  then have "expected_projection fixed_host fixed_github orders_path ''h1'' ''c1'' None g = (Inr (Inr (orders_projection ''c1'', orders_document)), g)"
    using orders_rendered [of "''c1''"]
    by (simp add: expected_projection_def fixed_host_def sample_host_def load_openapi_spec_def compute_catalog_content_hash_def catchA_def)
  moreover have "git_get fixed_github orders_path g = (Inr (Some \<lparr>rf_path = orders_path, rf_content = ''h1'', rf_sha = ''b1''\<rparr>), g)"
    by (simp add: git_get_def fixed_github_def catchA_def bindA_def)
  moreover have "commit_of_file fixed_github orders_path orders_file g = (Inr (Some ''c1''), g)"
    by (simp add: commit_of_file_def orders_file_def opt_truthy_def)
  ultimately show ?thesis by (simp add: file_projected_def) (simp add: orders_file_def)
qed

theorem locked_file_forgotten_witness:
  "\<exists>ws'. visit_file fixed_host (\<lambda>_ _. None) fixed_github [] orders_file locked_worker = (Inr (Some (''acme'', ''orders'')), ws') \<and>
     catalogs (go_db (wk_state ws')) = []"
proof -
  have path: "parse_canonical_path (rm_path orders_file) = Inr (''acme'', ''orders'')" "uuid_api_path (rm_path orders_file) = None"
    by code_simp+
  have "file_projected fixed_host fixed_github orders_file (map_of [] (rm_path orders_file)) (go_git (wk_state locked_worker))
      (orders_projection ''c1'') orders_document ()"
    using orders_file_projected [of "()"] by simp
  moreover have "get_api_by_id t a (go_db (wk_state locked_worker)) = (Inr None, go_db (wk_state locked_worker))" for t a
    by (simp add: locked_worker_def catalog_state_def get_api_by_id_def catalog_world_def)
  moreover have "\<not> legacy_blocked (row_category None)" by (simp add: category_of_row(2) legacy_blocked_def)
  moreover have "\<not> lock_free fixed_host (orders_projection ''c1'') (wk_state locked_worker)"
    by (simp add: lock_free_def locked_worker_def orders_fields)
  ultimately have "\<exists>ws'. visit_file fixed_host (\<lambda>_ _. None) fixed_github [] orders_file locked_worker = (Inr (Some (''acme'', ''orders'')), ws') \<and>
      go_db (wk_state ws') = go_db (wk_state locked_worker)"
    using locked_file_forgotten [OF path, of fixed_host fixed_github "[]" locked_worker "orders_projection ''c1''" orders_document "()" None "\<lambda>_ _. None"]
    by (auto simp: row_to_dict_def out_of_date_def source_cache_key_def orders_file_def locked_worker_def)
  then show ?thesis by (auto simp: locked_worker_def catalog_state_def catalog_world_def)
qed

section \<open>Rows of another identity\<close>

text \<open>
  A row of a blocked class is rewritten all the same: when no row has the API id of the file, but an
  unfinished migration left a row of the same tenant, name and version, whose id has the form of a UUID, the
  file counts as absent and the session takes that row over: it keeps its key and gets the API id, the path
  and the commit of the file, and so does every promotion of the old id that does not collide.
\<close>
theorem legacy_row_adopted:
  assumes "reconcile_db_row hst sr p content s = (Inr (), s')" and "db_ok (go_db s)" and "projection_wf p"
    and "get_api_by_id (cp_tenant_id p) (cp_api_id p) (go_db s) = (Inr None, go_db s)" and "lock_free hst p s"
    and "c \<in> set (catalogs (go_db s))" and "cat_deleted_at c = None" and "cat_tenant_id c = cp_tenant_id p"
    and "cat_api_name c = cp_api_name p" and "cat_version c = cp_version p" and "row_category (Some c) = UUID_HARD_DRIFT"
  shows "\<exists>c'. matching_row p (go_db s') c' \<and> cat_id c' = cat_id c \<and> cat_api_id c' \<noteq> cat_api_id c \<and>
     (\<forall>r \<in> set (promotions (go_db s')). pr_tenant_id r = cp_tenant_id p \<and> pr_api_id r = cat_api_id c \<longrightarrow> active_status (pr_status r))"
proof -
  have open_row: "\<not> legacy_blocked (row_category None)" by (simp add: category_of_row(2) legacy_blocked_def)
  obtain x w where x: "project_and_deploy hst sr p content (go_db s) = (x, w)" by (cases "project_and_deploy hst sr p content (go_db s)")
  have "out_of_date p None" "row_to_dict None = Inr ()" by (simp_all add: out_of_date_def row_to_dict_def)
  then have "x = Inr ()" and db': "go_db s' = w"
    using db_row_free [OF assms(4) _ open_row _ assms(5) x] assms(1) by (cases x; auto simp: Let_def)+
  with x have "project_and_deploy hst sr p content (go_db s) = (Inr (), w)" by simp
  then obtain w1 c1 b where proj: "project_to_api_catalog p (go_db s) = (Inr (), w1)" and c1: "matching_row p w1 c1" and ok1: "db_ok w1"
    and deploy: "reconcile_api hst sr (cp_tenant_id p) (cp_api_id p) content (Some c1) w1 = (Inr b, w)"
    by (rule project_and_deploy_run [OF _ assms(2,3)]) blast
  have other: "cat_api_id c \<noteq> cp_api_id p"
    using get_api_by_id_finds [OF assms(2,6,7)] assms(4,8) by auto
  have "get_api_by_name_version (cp_tenant_id p) (cp_api_name p) (cp_version p) (go_db s) = (Inr (Some c), go_db s)"
    using catalog_table.query_finds [of "catalogs (go_db s)" "\<lambda>d. cat_tenant_id d = cp_tenant_id p \<and> cat_api_name d = cp_api_name p \<and>
        cat_version d = cp_version p \<and> cat_deleted_at d = None" c] assms(2,6-10)
    by (simp add: get_api_by_name_version_def db_ok_def catalog_clash_def)
  then have found: "find_projected p (go_db s) = (Inr (Some c), go_db s)"
    by (simp add: find_projected_def bindA_run [where m = "get_api_by_id (cp_tenant_id p) (cp_api_id p)", OF assms(4)])
  have w1: "catalogs w1 = replace_row cat_id (updated_row p c) (catalogs (go_db s))"
    "promotions w1 = map (moved_promotion (promotions (go_db s)) (cp_tenant_id p) (cat_api_id c) (cp_api_id p)) (promotions (go_db s))"
    using proj found other
    by (auto simp: project_to_api_catalog_def bindA_run [where m = "find_projected p"] ok_writes whenA_def
        canonicalize_soft_api_references_def split: if_splits)
  have "updated_row p c \<in> set (catalogs w1)" using assms(6) by (force simp: w1 replace_row_def updated_row_def)
  moreover have "cat_deleted_at (updated_row p c) = None" using assms(7) by (simp add: updated_row_def)
  ultimately have "matching_row p w1 (updated_row p c)"
    by (rule matching_rowI [OF ok1 _ _ updated_row_matches [OF assms(3,8)]])
  with c1 have c1_eq: "c1 = updated_row p c" using matching_row_unique by blast
  from deploys_keep_match [OF deploy c1 ok1] obtain ns where final: "matching_row p w (c1\<lparr>cat_target_gateways := ns\<rparr>)" by blast
  have "promotions w = promotions w1" using deploys_keep_row [OF deploy] matching_row_in [OF c1] by blast
  with w1(2) other have "\<forall>r \<in> set (promotions w). pr_tenant_id r = cp_tenant_id p \<and> pr_api_id r = cat_api_id c \<longrightarrow> active_status (pr_status r)"
    by (auto simp: moved_promotion_def split: if_splits)
  with final other show ?thesis
    unfolding db' by (intro exI [of _ "c1\<lparr>cat_target_gateways := ns\<rparr>"]) (simp add: c1_eq updated_row_def)
qed

definition legacy_orders :: api_catalog where
  "legacy_orders = (orders_row ''c1'')\<lparr>cat_api_id := uuid_str 7, cat_git_path := None, cat_git_commit_sha := None\<rparr>"

definition legacy_state :: "unit gitops" where
  "legacy_state = catalog_state\<lparr>go_db := catalog_world\<lparr>catalogs := [legacy_orders]\<rparr>\<rparr>"

lemma legacy_runs: "\<exists>s'. reconcile_db_row sample_host (\<lambda>_ _. None) (orders_projection ''c1'') [] legacy_state = (Inr (), s')"
  and legacy_absent: "get_api_by_id ''acme'' ''orders'' (go_db legacy_state) = (Inr None, go_db legacy_state)"
proof -
  let ?p = "orders_projection ''c1''" and ?w = "go_db legacy_state" and ?c = "legacy_orders"
  have ids: "cp_tenant_id ?p = ''acme''" "cp_api_id ?p = ''orders''" "cp_api_name ?p = ''orders''" "cp_version ?p = ''1''"
    by (simp_all add: orders_fields)
  have "uuid_str 7 \<noteq> ''orders''" by code_simp
  then show absent: "get_api_by_id ''acme'' ''orders'' ?w = (Inr None, ?w)"
    by (simp add: get_api_by_id_def legacy_state_def legacy_orders_def)
  have c: "cat_tenant_id ?c = ''acme''" "cat_api_name ?c = ''orders''" "cat_version ?c = ''1''" "cat_deleted_at ?c = None" "catalogs ?w = [?c]"
    by (simp_all add: legacy_orders_def orders_row_def projected_row_def ids legacy_state_def)
  then have "find_projected ?p ?w = (Inr (Some ?c), ?w)"
    by (simp add: find_projected_def ids bindA_run [where m = "get_api_by_id ''acme'' ''orders''", OF absent] get_api_by_name_version_def)
  moreover obtain w0 where canon: "canonicalize_soft_api_references ''acme'' (cat_api_id ?c) ''orders'' ?w = (Inr (), w0)" "catalogs w0 = [?c]"
    using c(5) by (cases "cat_api_id ?c = ''orders''") (auto simp: canonicalize_soft_api_references_def whenA_def)
  moreover obtain w1 where w1: "w1 = w0\<lparr>catalogs := [updated_row ?p ?c]\<rparr>" by simp
  moreover have "cat_id (updated_row ?p ?c) = cat_id ?c" by (simp add: updated_row_def)
  ultimately have proj: "project_to_api_catalog ?p ?w = (Inr (), w1)"
    by (simp add: project_to_api_catalog_def bindA_run [where m = "find_projected ?p"] ids save_catalog_bind replaceable_def replace_row_def
        bindA_run [where m = "canonicalize_soft_api_references ''acme'' (cat_api_id ?c) ''orders''"])
  have found: "get_api_by_id ''acme'' ''orders'' w1 = (Inr (Some (updated_row ?p ?c)), w1)"
    using c by (simp add: get_api_by_id_def w1 updated_row_def ids)
  have "no_targets []" by code_simp
  then have deploy: "reconcile_api sample_host (\<lambda>_ _. None) ''acme'' ''orders'' [] (Some (updated_row ?p ?c)) w1 = (Inr False, w1)"
    by (simp add: reconcile_api_def no_targets_def target_names_of_def)
  have "project_and_deploy sample_host (\<lambda>_ _. None) ?p [] ?w = (Inr (), w1)"
    unfolding project_and_deploy_def ids
    by (simp add: bindA_run [where m = "project_to_api_catalog ?p", OF proj] bindA_run [where m = "get_api_by_id ''acme'' ''orders''", OF found]
        bindA_run [where m = "reconcile_api _ _ _ _ _ _", OF deploy] del: query_ok)
  from db_row_free [OF _ _ _ _ _ this, of "None"] absent show "\<exists>s'. reconcile_db_row sample_host (\<lambda>_ _. None) ?p [] legacy_state = (Inr (), s')"
    by (simp add: ids row_to_dict_def category_of_row(2) legacy_blocked_def out_of_date_def lock_free_def legacy_state_def catalog_state_def)
qed

theorem legacy_row_adopted_witness:
  "\<exists>s' c'. reconcile_db_row sample_host (\<lambda>_ _. None) (orders_projection ''c1'') [] legacy_state = (Inr (), s') \<and>
     legacy_blocked (row_category (Some legacy_orders)) \<and> c' \<in> set (catalogs (go_db s')) \<and> cat_id c' = cat_id legacy_orders \<and>
     cat_api_id c' \<noteq> uuid_str 7"
proof -
  obtain s' where run: "reconcile_db_row sample_host (\<lambda>_ _. None) (orders_projection ''c1'') [] legacy_state = (Inr (), s')"
    using legacy_runs by blast
  have ok: "db_ok (go_db legacy_state)"
    using catalog_world_ok by (simp add: legacy_state_def db_ok_def table_ok_def catalog_world_def)
  have blocked: "row_category (Some legacy_orders) = UUID_HARD_DRIFT"
    by (simp add: row_category_def classify_legacy_def legacy_row_of_def legacy_orders_def uuid_str_shaped)
  have "\<exists>c'. matching_row (orders_projection ''c1'') (go_db s') c' \<and> cat_id c' = cat_id legacy_orders \<and> cat_api_id c' \<noteq> cat_api_id legacy_orders \<and>
     (\<forall>r \<in> set (promotions (go_db s')). pr_tenant_id r = cp_tenant_id (orders_projection ''c1'') \<and> pr_api_id r = cat_api_id legacy_orders \<longrightarrow>
        active_status (pr_status r))"
    by (rule legacy_row_adopted [OF run ok orders_wf _ _ _ _ _ _ _ blocked])
      (use legacy_absent in \<open>auto simp: orders_fields lock_free_def legacy_state_def catalog_state_def legacy_orders_def orders_row_def projected_row_def\<close>)
  then obtain c' where c': "matching_row (orders_projection ''c1'') (go_db s') c'" "cat_id c' = cat_id legacy_orders"
    "cat_api_id c' \<noteq> cat_api_id legacy_orders" by blast
  moreover have "cat_api_id legacy_orders = uuid_str 7" by (simp add: legacy_orders_def)
  ultimately show ?thesis using run blocked matching_row_in by (auto simp: legacy_blocked_def)
qed

end
