(* ===== verification/Timestamps.thy ===== *)
theory Timestamps
  imports PyData
begin

text \<open>
  \<open>datetime + timedelta\<close>: a timestamp is taken apart from its instant again (as \<open>_ord2ymd\<close> of the
  standard library does), and a sum outside the years 1 to 9999 raises \<open>OverflowError\<close>, which is \<open>None\<close> here.
\<close>

definition days_in_year :: "nat \<Rightarrow> nat" where
  "days_in_year y = (if leap_year y then 366 else 365)"

text \<open>The year and the day in it, counted from the first day of a year.\<close>

function split_year :: "nat \<Rightarrow> nat \<Rightarrow> nat \<times> nat" where
  "split_year y d = (if d < days_in_year y then (y, d) else split_year (Suc y) (d - days_in_year y))"
  by auto
termination split_year
  by (relation "measure snd") (auto simp: days_in_year_def)

declare split_year.simps [simp del]

fun split_month :: "nat \<Rightarrow> nat list \<Rightarrow> nat \<Rightarrow> nat \<times> nat" where
  "split_month y [] d = (12, d)"
| "split_month y (m # ms) d = (if d < month_days y m then (m, d) else split_month y ms (d - month_days y m))"

definition DAY :: int where
  "DAY = 86400000000"

definition dt_of_instant :: "int \<Rightarrow> datetime" where
  "dt_of_instant i =
     (let n = nat i; s = n div 1000000; (y, d) = split_year 1 (s div 86400 - 1); (m, k) = split_month y [1..<13] d
      in DT y m (Suc k) (s mod 86400 div 3600) (s mod 3600 div 60) (s mod 60) (n mod 1000000))"

definition MAX_ORDINAL :: int where
  "MAX_ORDINAL = 3652059"

definition dt_add :: "datetime \<Rightarrow> int \<Rightarrow> datetime option" where
  "dt_add t delta = (let i = dt_instant t + delta
     in if DAY \<le> i \<and> i < (MAX_ORDINAL + 1) * DAY then Some (dt_of_instant i) else None)"

section \<open>The instant is kept\<close>

lemma year_days_Suc: "1 \<le> y \<Longrightarrow> year_days (Suc y) = year_days y + days_in_year y"
proof -
  assume "1 \<le> y"
  then obtain p where y: "y = Suc p" by (cases y) auto
  have four: "Suc p div 4 = p div 4 + (if Suc p mod 4 = 0 then 1 else 0)"
    and hundred: "Suc p div 100 = p div 100 + (if Suc p mod 100 = 0 then 1 else 0)"
    and fourhundred: "Suc p div 400 = p div 400 + (if Suc p mod 400 = 0 then 1 else 0)"
    by (simp_all add: div_Suc)
  have le: "p div 100 \<le> p div 4" by (rule div_le_mono2) simp_all
  have "Suc p mod 400 = 0 \<Longrightarrow> Suc p mod 100 = 0" "Suc p mod 100 = 0 \<Longrightarrow> Suc p mod 4 = 0"
    using dvd_trans [of 100 400 "Suc p"] dvd_trans [of 4 100 "Suc p"] by (simp_all add: mod_eq_0_iff_dvd)
  moreover have sums: "365 * Suc p + (a + x) - (b + u) + (c + v) = 365 * p + a - b + c + (365 + x + v - u)"
    if "b \<le> a" "u \<le> x" for a b c x u v :: nat by (use that in \<open>auto simp: le_iff_add\<close>)
  moreover define x u v where "x = (if Suc p mod 4 = 0 then 1 else 0 :: nat)"
    and "u = (if Suc p mod 100 = 0 then 1 else 0 :: nat)" and "v = (if Suc p mod 400 = 0 then 1 else 0 :: nat)"
  ultimately have "u \<le> x" and days: "days_in_year y = 365 + x + v - u"
    by (simp_all add: y days_in_year_def leap_year_def)
  then show ?thesis
    unfolding days unfolding y year_days_def Let_def diff_Suc_1 four hundred fourhundred
      x_def [symmetric] u_def [symmetric] v_def [symmetric] by (intro sums le)
qed

lemma split_year_spec:
  "split_year y d = (y', d') \<Longrightarrow> 1 \<le> y \<Longrightarrow> year_days y + d = year_days y' + d' \<and> d' < days_in_year y' \<and> y \<le> y'"
proof (induction y d rule: split_year.induct)
  case (1 y d)
  then show ?case
    by (cases "d < days_in_year y") (auto simp: split_year.simps [of y d] year_days_Suc)
qed

lemma split_month_spec:
  assumes "split_month y ms d = (m, k)" and "d < sum_list (map (month_days y) ms)"
  shows "\<exists>as bs. ms = as @ m # bs \<and> d = sum_list (map (month_days y) as) + k \<and> k < month_days y m"
  using assms
proof (induction ms arbitrary: d)
  case (Cons a ms)
  show ?case
  proof (cases "d < month_days y a")
    case True
    with Cons.prems show ?thesis by (intro exI [of _ "[]"] exI [of _ ms]) auto
  next
    case False
    with Cons.prems have "split_month y ms (d - month_days y a) = (m, k)"
      "d - month_days y a < sum_list (map (month_days y) ms)" by auto
    from Cons.IH [OF this] obtain as bs where "ms = as @ m # bs"
      "d - month_days y a = sum_list (map (month_days y) as) + k" "k < month_days y m" by blast
    with False show ?thesis by (intro exI [of _ "a # as"] exI [of _ bs]) auto
  qed
qed simp

lemma months_of_year: "sum_list (map (month_days y) [1..<13]) = days_in_year y"
  by (simp add: upt_rec month_days_def days_in_year_def)

lemma upt_split: "[a..<b] = as @ m # bs \<Longrightarrow> as = [a..<m] \<and> a \<le> m \<and> m < b"
proof -
  assume split: "[a..<b] = as @ m # bs"
  then have len: "length as < b - a" by (metis length_upt length_append length_Cons less_add_Suc1 add_Suc_right)
  have "m = [a..<b] ! length as" by (simp add: split)
  with len have m: "m = a + length as" by simp
  have "as = take (length as) [a..<b]" by (simp add: split)
  also have "\<dots> = [a..<m]" using len by (simp add: take_upt m)
  finally show ?thesis using m len by auto
qed

lemma clock_parts: "(s::nat) mod 86400 div 3600 * 3600 + s mod 3600 div 60 * 60 + s mod 60 = s mod 86400"
proof -
  have "s mod 86400 mod 3600 = s mod 3600" "s mod 3600 mod 60 = s mod 60" by (simp_all add: mod_mod_cancel)
  with div_mult_mod_eq [of "s mod 86400" 3600] div_mult_mod_eq [of "s mod 3600" 60] show ?thesis by simp
qed

lemma instant_of_instant:
  assumes "DAY \<le> i"
  shows "dt_instant (dt_of_instant i) = i"
proof -
  define n where "n = nat i"
  define s where "s = n div 1000000"
  from assms have i: "i = int n" and "86400000000 \<le> n" by (simp_all add: n_def DAY_def)
  then have day: "1 \<le> s div 86400" by (simp add: s_def div_mult2_eq [symmetric] less_eq_div_iff_mult_less_eq)
  obtain y d where yd: "split_year 1 (s div 86400 - 1) = (y, d)" by fastforce
  obtain m k where mk: "split_month y [1..<13] d = (m, k)" by fastforce
  from split_year_spec [OF yd] have y: "year_days 1 + (s div 86400 - 1) = year_days y + d" "d < days_in_year y" by auto
  from y(2) have "d < sum_list (map (month_days y) [1..<13])" by (simp only: months_of_year)
  from split_month_spec [OF mk this] obtain as bs where split: "[1..<13] = as @ m # bs"
    and d: "d = sum_list (map (month_days y) as) + k" by blast
  from upt_split [OF split] have "as = [1..<m]" by simp
  with y d day have ord: "year_days y + sum_list (map (month_days y) [1..<m]) + Suc k = s div 86400"
    by (simp add: year_days_def)
  have "dt_of_instant i = DT y m (Suc k) (s mod 86400 div 3600) (s mod 3600 div 60) (s mod 60) (n mod 1000000)"
    unfolding dt_of_instant_def Let_def n_def [symmetric] s_def [symmetric] yd prod.case mk ..
  moreover from this ord have "dt_ordinal (dt_of_instant i) = s div 86400"
    by (simp add: dt_ordinal_def del: upt_Suc One_nat_def)
  ultimately have "dt_instant (dt_of_instant i) =
      int ((s div 86400 * 86400 + (s mod 86400 div 3600 * 3600 + s mod 3600 div 60 * 60 + s mod 60)) * 1000000 + n mod 1000000)"
    by (simp add: dt_instant_def algebra_simps)
  also have "\<dots> = int n" by (simp add: clock_parts s_def)
  finally show ?thesis by (simp add: i)
qed

lemma dt_add_instant: "dt_add t delta = Some u \<Longrightarrow> dt_instant u = dt_instant t + delta"
  by (auto simp: dt_add_def Let_def instant_of_instant split: if_splits)

end
