(* ===== verification/SubscriptionModels.thy ===== *)
theory SubscriptionModels
  imports Timestamps Models Rbac
begin

text \<open>
  The state of the subscription service: the rows of \<open>models/subscription.py\<close>, \<open>portal_application.py\<close>,
  \<open>plan.py\<close>, \<open>consumer.py\<close> and \<open>webhook.py\<close>, the session of a request with what it has committed, and the
  background jobs that \<open>asyncio.create_task\<close> starts.

  A session sees its own writes (\<open>po_tables\<close>), the other sessions see what was committed
  (\<open>po_committed\<close>). The catalog, the gateways and their deployments are those of \<open>world\<close>, which the
  subscriptions only read; its clock and its supply of identifiers are shared. \<open>po_random\<close> is the source of
  \<open>secrets.token_hex(16)\<close>. Columns that no modelled code reads or writes are left out.
\<close>

section \<open>Rows\<close>

datatype subscription_status = SUB_PENDING | SUB_ACTIVE | SUB_SUSPENDED | SUB_REVOKED | SUB_EXPIRED | SUB_REJECTED

fun subscription_value :: "subscription_status \<Rightarrow> string" where
  "subscription_value SUB_PENDING = ''pending''"
| "subscription_value SUB_ACTIVE = ''active''"
| "subscription_value SUB_SUSPENDED = ''suspended''"
| "subscription_value SUB_REVOKED = ''revoked''"
| "subscription_value SUB_EXPIRED = ''expired''"
| "subscription_value SUB_REJECTED = ''rejected''"

datatype provisioning_status =
    PROV_NONE | PROV_PENDING | PROV_RUNNING | PROV_READY | PROV_FAILED
  | DEPROV_RUNNING | DEPROV_FAILED | DEPROV_DONE

fun provisioning_value :: "provisioning_status \<Rightarrow> string" where
  "provisioning_value PROV_NONE = ''none''"
| "provisioning_value PROV_PENDING = ''pending''"
| "provisioning_value PROV_RUNNING = ''provisioning''"
| "provisioning_value PROV_READY = ''ready''"
| "provisioning_value PROV_FAILED = ''failed''"
| "provisioning_value DEPROV_RUNNING = ''deprovisioning''"
| "provisioning_value DEPROV_FAILED = ''deprovisioning_failed''"
| "provisioning_value DEPROV_DONE = ''deprovisioned''"

record subscription =
  sub_id :: uuid
  sub_application_id :: string
  sub_application_name :: string
  sub_subscriber_id :: string
  sub_subscriber_email :: string
  sub_api_id :: string
  sub_api_name :: string
  sub_api_version :: string
  sub_tenant_id :: string
  sub_consumer_id :: "uuid option"
  sub_plan_id :: "string option"
  sub_plan_name :: "string option"
  sub_oauth_client_id :: "string option"
  sub_api_key_hash :: "string option"
  sub_api_key_prefix :: "string option"
  sub_previous_api_key_hash :: "string option"
  sub_previous_key_expires_at :: "datetime option"
  sub_last_rotated_at :: "datetime option"
  sub_rotation_count :: int
  sub_status :: subscription_status
  sub_status_reason :: "string option"
  sub_created_at :: datetime
  sub_updated_at :: datetime
  sub_approved_at :: "datetime option"
  sub_expires_at :: "datetime option"
  sub_revoked_at :: "datetime option"
  sub_ttl_extension_count :: int
  sub_ttl_total_extended_days :: int
  sub_approved_by :: "string option"
  sub_revoked_by :: "string option"
  sub_rejected_by :: "string option"
  sub_rejected_at :: "datetime option"
  sub_environment :: "string option"
  sub_provisioning_status :: provisioning_status
  sub_gateway_app_id :: "string option"
  sub_provisioning_error :: "string option"
  sub_provisioned_at :: "datetime option"

datatype security_profile = API_KEY | OAUTH2_PUBLIC | OAUTH2_CONFIDENTIAL | FAPI_BASELINE | FAPI_ADVANCED

fun security_profile_value :: "security_profile \<Rightarrow> string" where
  "security_profile_value API_KEY = ''api_key''"
| "security_profile_value OAUTH2_PUBLIC = ''oauth2_public''"
| "security_profile_value OAUTH2_CONFIDENTIAL = ''oauth2_confidential''"
| "security_profile_value FAPI_BASELINE = ''fapi_baseline''"
| "security_profile_value FAPI_ADVANCED = ''fapi_advanced''"

record portal_application =
  app_id :: uuid
  app_owner_id :: string
  app_tenant_id :: "string option"
  app_keycloak_client_id :: "string option"
  app_security_profile :: security_profile

record plan =
  pl_id :: uuid
  pl_slug :: string
  pl_tenant_id :: string
  pl_rate_limit_per_second :: "int option"
  pl_rate_limit_per_minute :: "int option"
  pl_daily_request_limit :: "int option"
  pl_monthly_request_limit :: "int option"
  pl_burst_limit :: "int option"
  pl_requires_approval :: bool
  pl_auto_approve_roles :: "string list option"

record consumer =
  cns_id :: uuid
  cns_external_id :: string
  cns_keycloak_client_id :: "string option"

record tenant_webhook =
  wh_id :: uuid
  wh_tenant_id :: string
  wh_name :: string
  wh_url :: string
  wh_secret :: "string option"
  wh_events :: "string list"
  wh_headers :: json
  wh_enabled :: bool
  wh_created_at :: datetime
  wh_updated_at :: datetime
  wh_created_by :: "string option"

record webhook_delivery =
  whd_id :: uuid
  whd_webhook_id :: uuid
  whd_subscription_id :: "uuid option"
  whd_event_type :: string
  whd_payload :: json
  whd_status :: string
  whd_attempt_count :: int
  whd_max_attempts :: int
  whd_response_status_code :: "int option"
  whd_response_body :: "string option"
  whd_error_message :: "string option"
  whd_created_at :: datetime
  whd_last_attempt_at :: "datetime option"
  whd_next_retry_at :: "datetime option"
  whd_delivered_at :: "datetime option"

section \<open>The portal\<close>

record tables =
  tb_subscriptions :: "subscription list"
  tb_applications :: "portal_application list"
  tb_plans :: "plan list"
  tb_consumers :: "consumer list"
  tb_webhooks :: "tenant_webhook list"
  tb_deliveries :: "webhook_delivery list"

text \<open>
  A background job, from the task that was created to its last commit: the row it loaded travels with it
  from the first commit on, with what it sends to the adapter, the number of the attempt it waits for and the error of
  the attempt before.
\<close>

datatype job =
    Provision uuid
  | Resolving subscription
  | Provisioning subscription jdict nat
  | Deprovision uuid "string option"
  | Deresolving subscription
  | Deprovisioning subscription nat

record portal =
  po_tables :: tables
  po_committed :: tables
  po_world :: world
  po_jobs :: "job list"
  po_random :: "nat \<Rightarrow> uuid"
  po_randoms_used :: nat

text \<open>
  How a handler fails: with an HTTP answer, with an error of the database layer, with the
  \<open>OverflowError\<close> of a date, or with the \<open>ValidationError\<close> of a response model.
\<close>

datatype failure =
    Refused http_exception
  | Crashed error
  | OverflowError
  | ValidationError string

type_synonym 'a portal_action = "(portal, failure, 'a) act"

definition refuse :: "int \<Rightarrow> string \<Rightarrow> 'a portal_action" where
  "refuse code detail_text = raiseA (Refused (HTTPException code (JStr detail_text)))"

section \<open>The session\<close>

definition on_world :: "'a action \<Rightarrow> 'a portal_action" where
  "on_world m = (\<lambda>s. case m (po_world s) of
     (Inl e, w) \<Rightarrow> (Inl (Crashed e), s\<lparr>po_world := w\<rparr>)
   | (Inr x, w) \<Rightarrow> (Inr x, s\<lparr>po_world := w\<rparr>))"

text \<open>\<open>datetime.utcnow()\<close>.\<close>

abbreviation utcnow :: "datetime portal_action" where
  "utcnow \<equiv> on_world nowA"

definition select_one :: "(tables \<Rightarrow> 'r list) \<Rightarrow> 'r option portal_action" where
  "select_one q = (\<lambda>s. case scalar_one_or_none (q (po_tables s)) of
     Inl e \<Rightarrow> (Inl (Crashed e), s) | Inr r \<Rightarrow> (Inr r, s))"

definition select_rows :: "(tables \<Rightarrow> 'r) \<Rightarrow> 'r portal_action" where
  "select_rows q = getA (\<lambda>s. q (po_tables s))"

definition update_tables :: "(tables \<Rightarrow> tables) \<Rightarrow> unit portal_action" where
  "update_tables f = modA (\<lambda>s. s\<lparr>po_tables := f (po_tables s)\<rparr>)"

definition commit :: "unit portal_action" where
  "commit = modA (\<lambda>s. s\<lparr>po_committed := po_tables s\<rparr>)"

definition create_task :: "job \<Rightarrow> unit portal_action" where
  "create_task j = modA (\<lambda>s. s\<lparr>po_jobs := po_jobs s @ [j]\<rparr>)"

text \<open>
  \<open>get_db\<close> around a handler: a handler that returns is committed, one that raises is rolled back. What is not an
  HTTP answer becomes the answer 500 of the framework. The jobs that were started stay.
\<close>

definition http_answer :: "failure \<Rightarrow> http_exception" where
  "http_answer f = (case f of Refused exc \<Rightarrow> exc | _ \<Rightarrow> HTTPException 500 (JStr ''Internal Server Error''))"

definition with_session :: "'a portal_action \<Rightarrow> portal \<Rightarrow> (http_exception + 'a) \<times> portal" where
  "with_session m s = (case m s of
     (Inr x, s') \<Rightarrow> (Inr x, s'\<lparr>po_committed := po_tables s'\<rparr>)
   | (Inl f, s') \<Rightarrow> (Inl (http_answer f), s'\<lparr>po_tables := po_committed s'\<rparr>))"

lemma on_world_now [simp]:
  "on_world nowA s = (Inr (clock (po_world s) (ticks (po_world s))), s\<lparr>po_world := (po_world s)\<lparr>ticks := Suc (ticks (po_world s))\<rparr>\<rparr>)"
  and on_world_uuid [simp]: "on_world uuid4A s =
    (Inr (uuid_source (po_world s) (uuids_used (po_world s))), s\<lparr>po_world := (po_world s)\<lparr>uuids_used := Suc (uuids_used (po_world s))\<rparr>\<rparr>)"
  by (simp_all add: on_world_def)

lemma select_one_run: "scalar_one_or_none (q (po_tables s)) = Inr r \<Longrightarrow> select_one q s = (Inr r, s)"
  by (simp add: select_one_def)

lemma session_apply [simp]:
  "select_rows q s = (Inr (q (po_tables s)), s)"
  "update_tables g s = (Inr (), s\<lparr>po_tables := g (po_tables s)\<rparr>)"
  "commit s = (Inr (), s\<lparr>po_committed := po_tables s\<rparr>)"
  "create_task j s = (Inr (), s\<lparr>po_jobs := po_jobs s @ [j]\<rparr>)"
  "refuse code t s = (Inl (Refused (HTTPException code (JStr t))), s)"
  by (simp_all add: select_rows_def update_tables_def commit_def create_task_def refuse_def)

end
