(* ===== verification/SubscriptionRepository.thy ===== *)
theory SubscriptionRepository
  imports SubscriptionModels
begin

text \<open>
  \<open>repositories/subscription.py\<close> and the look-ups of \<open>repositories/plan.py\<close>, \<open>portal_application.py\<close> and
  \<open>consumer.py\<close>, and the keys of \<open>services/api_key.py\<close>. The object a handler holds is the row of its id: an
  operation that assigns to it writes the row.
\<close>

section \<open>Look-ups\<close>

definition get_subscription_by_id :: "uuid \<Rightarrow> subscription option portal_action" where
  "get_subscription_by_id i = select_one (\<lambda>t. filter (\<lambda>s. sub_id s = i) (tb_subscriptions t))"

definition get_by_api_key_hash :: "string \<Rightarrow> subscription option portal_action" where
  "get_by_api_key_hash h = select_one (\<lambda>t. filter (\<lambda>s. sub_api_key_hash s = Some h) (tb_subscriptions t))"

text \<open>The statuses under which a second subscription of an application to an API is refused.\<close>

definition holds_place :: "subscription \<Rightarrow> bool" where
  "holds_place s = (sub_status s \<in> {SUB_PENDING, SUB_ACTIVE})"

definition get_by_application_and_api :: "string \<Rightarrow> string \<Rightarrow> subscription option portal_action" where
  "get_by_application_and_api application_id api_id = select_one (\<lambda>t. filter
     (\<lambda>s. sub_application_id s = application_id \<and> sub_api_id s = api_id \<and> holds_place s) (tb_subscriptions t))"

definition get_by_oauth_client_and_api :: "string \<Rightarrow> string \<Rightarrow> subscription option portal_action" where
  "get_by_oauth_client_and_api client_id api_id = select_one (\<lambda>t. filter
     (\<lambda>s. sub_oauth_client_id s = Some client_id \<and> sub_api_id s = api_id \<and> sub_status s = SUB_ACTIVE) (tb_subscriptions t))"

text \<open>\<open>column > now\<close>, which is not true of a missing time.\<close>

definition after :: "datetime option \<Rightarrow> datetime \<Rightarrow> bool" where
  "after t now = (case t of None \<Rightarrow> False | Some u \<Rightarrow> dt_instant now < dt_instant u)"

definition get_by_previous_key_hash :: "string \<Rightarrow> subscription option portal_action" where
  "get_by_previous_key_hash h = bindA utcnow (\<lambda>now. select_one (\<lambda>t. filter
     (\<lambda>s. sub_previous_api_key_hash s = Some h \<and> after (sub_previous_key_expires_at s) now) (tb_subscriptions t)))"

definition get_application_by_id :: "uuid \<Rightarrow> portal_application option portal_action" where
  "get_application_by_id i = select_one (\<lambda>t. filter (\<lambda>a. app_id a = i) (tb_applications t))"

definition get_plan_by_id :: "uuid \<Rightarrow> plan option portal_action" where
  "get_plan_by_id i = select_one (\<lambda>t. filter (\<lambda>p. pl_id p = i) (tb_plans t))"

section \<open>Listings\<close>

text \<open>The rows of a page, from the ordered rows of the query; the total is counted before.\<close>

definition page_of :: "nat \<Rightarrow> nat \<Rightarrow> 'a list \<Rightarrow> 'a list" where
  "page_of page page_size rows = take page_size (drop ((page - 1) * page_size) rows)"

definition newest_first :: "subscription list \<Rightarrow> subscription list" where
  "newest_first = sort_key (\<lambda>s. - dt_instant (sub_created_at s))"

definition oldest_first :: "subscription list \<Rightarrow> subscription list" where
  "oldest_first = sort_key (\<lambda>s. dt_instant (sub_created_at s))"

definition paginated ::
    "(subscription list \<Rightarrow> subscription list) \<Rightarrow> (subscription \<Rightarrow> bool) \<Rightarrow> nat \<Rightarrow> nat \<Rightarrow> (subscription list \<times> nat) portal_action" where
  "paginated order cond page page_size = select_rows (\<lambda>t.
     let rows = filter cond (tb_subscriptions t) in (page_of page page_size (order rows), length rows))"

text \<open>An optional filter: \<open>None\<close> selects every row.\<close>

definition if_given :: "'a option \<Rightarrow> 'a \<Rightarrow> bool" where
  "if_given wanted v = (case wanted of None \<Rightarrow> True | Some x \<Rightarrow> v = x)"

definition list_by_subscriber ::
    "string \<Rightarrow> subscription_status option \<Rightarrow> nat \<Rightarrow> nat \<Rightarrow> string option \<Rightarrow> bool \<Rightarrow> string option \<Rightarrow> (subscription list \<times> nat) portal_action" where
  "list_by_subscriber subscriber_id status page page_size environment admin tenant_id =
     paginated newest_first (\<lambda>s. if_given tenant_id (sub_tenant_id s) \<and> (admin \<or> sub_subscriber_id s = subscriber_id) \<and>
       if_given status (sub_status s) \<and> (environment = None \<or> sub_environment s = environment)) page page_size"

definition list_by_tenant ::
    "string \<Rightarrow> subscription_status option \<Rightarrow> nat \<Rightarrow> nat \<Rightarrow> string option \<Rightarrow> (subscription list \<times> nat) portal_action" where
  "list_by_tenant tenant_id status page page_size environment =
     paginated newest_first (\<lambda>s. sub_tenant_id s = tenant_id \<and> if_given status (sub_status s) \<and>
       (environment = None \<or> sub_environment s = environment)) page page_size"

definition list_by_api ::
    "string \<Rightarrow> string \<Rightarrow> subscription_status option \<Rightarrow> nat \<Rightarrow> nat \<Rightarrow> (subscription list \<times> nat) portal_action" where
  "list_by_api api_id tenant_id status page page_size =
     paginated newest_first (\<lambda>s. sub_api_id s = api_id \<and> sub_tenant_id s = tenant_id \<and> if_given status (sub_status s))
       page page_size"

definition list_pending :: "string option \<Rightarrow> nat \<Rightarrow> nat \<Rightarrow> (subscription list \<times> nat) portal_action" where
  "list_pending tenant_id page page_size =
     paginated oldest_first (\<lambda>s. sub_status s = SUB_PENDING \<and> (opt_truthy tenant_id \<longrightarrow> Some (sub_tenant_id s) = tenant_id))
       page page_size"

text \<open>The counts of \<open>get_stats\<close>: in total, by status, and of the last day. (The average approval time, a float, is left out.)\<close>

definition ALL_STATUSES :: "subscription_status list" where
  "ALL_STATUSES = [SUB_PENDING, SUB_ACTIVE, SUB_SUSPENDED, SUB_REVOKED, SUB_EXPIRED, SUB_REJECTED]"

definition get_stats :: "string option \<Rightarrow> (nat \<times> (string \<times> nat) list \<times> nat) portal_action" where
  "get_stats tenant_id =
     bindA utcnow (\<lambda>now. select_rows (\<lambda>t.
       let rows = filter (\<lambda>s. opt_truthy tenant_id \<longrightarrow> Some (sub_tenant_id s) = tenant_id) (tb_subscriptions t)
       in (length rows, map (\<lambda>st. (subscription_value st, length (filter (\<lambda>s. sub_status s = st) rows))) ALL_STATUSES,
           length (filter (\<lambda>s. dt_instant now - DAY \<le> dt_instant (sub_created_at s)) rows))))"

section \<open>Writes\<close>

definition put_subscription :: "subscription \<Rightarrow> tables \<Rightarrow> tables" where
  "put_subscription s t = t\<lparr>tb_subscriptions := map (\<lambda>r. if sub_id r = sub_id s then s else r) (tb_subscriptions t)\<rparr>"

definition save_subscription :: "subscription \<Rightarrow> subscription portal_action" where
  "save_subscription s = bindA (update_tables (put_subscription s)) (\<lambda>_. retA s)"

text \<open>The key and the two timestamps of a new row are drawn when it is flushed.\<close>

definition create_subscription_row :: "(uuid \<Rightarrow> datetime \<Rightarrow> datetime \<Rightarrow> subscription) \<Rightarrow> subscription portal_action" where
  "create_subscription_row build =
     bindA (on_world uuid4A) (\<lambda>i. bindA utcnow (\<lambda>created. bindA utcnow (\<lambda>updated.
     bindA (select_rows tb_subscriptions) (\<lambda>rows.
     case insert_row sub_id (\<lambda>_ _. False) ''subscriptions_pkey'' (build i created updated) rows of
       Inl e \<Rightarrow> raiseA (Crashed e)
     | Inr rows' \<Rightarrow> bindA (update_tables (\<lambda>t. t\<lparr>tb_subscriptions := rows'\<rparr>)) (\<lambda>_. retA (build i created updated))))))"

definition status_updated ::
    "subscription_status \<Rightarrow> string option \<Rightarrow> string option \<Rightarrow> datetime \<Rightarrow> datetime \<Rightarrow> subscription \<Rightarrow> subscription" where
  "status_updated new_status reason actor now later s =
     (let s1 = s\<lparr>sub_status := new_status, sub_updated_at := now\<rparr>;
          s2 = (if opt_truthy reason then s1\<lparr>sub_status_reason := reason\<rparr> else s1)
      in case new_status of
           SUB_ACTIVE \<Rightarrow> s2\<lparr>sub_approved_at := Some later, sub_approved_by := actor\<rparr>
         | SUB_REVOKED \<Rightarrow> s2\<lparr>sub_revoked_at := Some later, sub_revoked_by := actor\<rparr>
         | SUB_REJECTED \<Rightarrow> s2\<lparr>sub_rejected_at := Some later, sub_rejected_by := actor\<rparr>
         | _ \<Rightarrow> s2)"

definition update_status ::
    "subscription \<Rightarrow> subscription_status \<Rightarrow> string option \<Rightarrow> string option \<Rightarrow> subscription portal_action" where
  "update_status s new_status reason actor =
     bindA utcnow (\<lambda>now.
     bindA (if new_status \<in> {SUB_ACTIVE, SUB_REVOKED, SUB_REJECTED} then utcnow else retA now) (\<lambda>later.
     save_subscription (status_updated new_status reason actor now later s)))"

definition set_expiration :: "subscription \<Rightarrow> datetime option \<Rightarrow> subscription portal_action" where
  "set_expiration s expires_at = bindA utcnow (\<lambda>now.
     save_subscription (s\<lparr>sub_expires_at := expires_at, sub_updated_at := now\<rparr>))"

definition delete_subscription :: "subscription \<Rightarrow> unit portal_action" where
  "delete_subscription s = update_tables (\<lambda>t. t\<lparr>tb_subscriptions := delete_row sub_id (sub_id s) (tb_subscriptions t)\<rparr>)"

definition rotated :: "string \<Rightarrow> string \<Rightarrow> datetime \<Rightarrow> datetime \<Rightarrow> subscription \<Rightarrow> subscription" where
  "rotated new_hash new_prefix now grace_end s =
     s\<lparr>sub_previous_api_key_hash := sub_api_key_hash s, sub_previous_key_expires_at := Some grace_end,
       sub_api_key_hash := Some new_hash, sub_api_key_prefix := Some new_prefix, sub_last_rotated_at := Some now,
       sub_rotation_count := sub_rotation_count s + 1, sub_updated_at := now\<rparr>"

definition rotate_key :: "subscription \<Rightarrow> string \<Rightarrow> string \<Rightarrow> int \<Rightarrow> subscription portal_action" where
  "rotate_key s new_hash new_prefix grace_period_hours =
     bindA utcnow (\<lambda>now. case dt_add now (grace_period_hours * 3600000000) of
       None \<Rightarrow> raiseA OverflowError
     | Some grace_end \<Rightarrow> save_subscription (rotated new_hash new_prefix now grace_end s))"

text \<open>The number of rows that were cleaned; \<open>updated_at\<close> is set by the statement as well.\<close>

definition grace_over :: "datetime \<Rightarrow> subscription \<Rightarrow> bool" where
  "grace_over now s = (case sub_previous_key_expires_at s of None \<Rightarrow> False | Some t \<Rightarrow> dt_instant t < dt_instant now)"

definition cleanup_expired_previous_keys :: "nat portal_action" where
  "cleanup_expired_previous_keys =
     bindA utcnow (\<lambda>now. bindA utcnow (\<lambda>updated. bindA (select_rows tb_subscriptions) (\<lambda>rows.
     bindA (update_tables (\<lambda>t. t\<lparr>tb_subscriptions := map (\<lambda>s. if grace_over now s
         then s\<lparr>sub_previous_api_key_hash := None, sub_previous_key_expires_at := None, sub_updated_at := updated\<rparr> else s) rows\<rparr>))
       (\<lambda>_. retA (length (filter (grace_over now) rows))))))"

section \<open>API keys\<close>

definition KEY_PREFIX :: string where
  "KEY_PREFIX = ''stoa_sk_''"

definition KEY_LENGTH :: nat where
  "KEY_LENGTH = 32"

text \<open>\<open>secrets.token_hex(16)\<close>: 32 hexadecimal digits of 128 random bits.\<close>

definition token_hex :: "string portal_action" where
  "token_hex = (\<lambda>s. (Inr (hex_fixed 32 (unat (po_random s (po_randoms_used s)))),
     s\<lparr>po_randoms_used := Suc (po_randoms_used s)\<rparr>))"

definition hash_key :: "host \<Rightarrow> string \<Rightarrow> string" where
  "hash_key hst api_key = sha256_hex hst api_key"

definition generate_key :: "host \<Rightarrow> string option \<Rightarrow> (string \<times> string \<times> string) portal_action" where
  "generate_key hst key_prefix = bindA token_hex (\<lambda>random_part.
     let full_key = (if opt_truthy key_prefix then or_str key_prefix [] else KEY_PREFIX) @ random_part
     in retA (full_key, hash_key hst full_key, take 12 full_key))"

text \<open>
  The texts that \<open>int(s, 16)\<close> takes: blanks around, a sign, \<open>0x\<close> (with an underscore behind it), and
  hexadecimal digits that single underscores may separate.
\<close>

definition hex_groups :: "string \<Rightarrow> bool" where
  "hex_groups s = list_all (\<lambda>g. g \<noteq> [] \<and> list_all (\<lambda>c. hex_value c \<noteq> None) g) (split_on (CHR ''_'') s)"

definition int16_ok :: "string \<Rightarrow> bool" where
  "int16_ok text_in =
     (let s = py_strip text_in;
          u = (if s \<noteq> [] \<and> hd s \<in> {CHR ''+'', CHR ''-''} then tl s else s);
          x = (if take 2 u \<in> {''0x'', ''0X''} then (if take 1 (drop 2 u) = ''_'' then drop 3 u else drop 2 u) else u)
      in hex_groups x)"

definition validate_format :: "string \<Rightarrow> bool" where
  "validate_format api_key =
     (api_key \<noteq> [] \<and> py_startswith api_key KEY_PREFIX \<and> length api_key = length KEY_PREFIX + KEY_LENGTH \<and>
      int16_ok (drop (length KEY_PREFIX) api_key))"

definition mask_key :: "string \<Rightarrow> string" where
  "mask_key api_key = (if length api_key < 12 then ''***''
     else take 8 api_key @ ''...'' @ drop (length api_key - 4) api_key)"

end
