(* ===== verification/WebhookService.thy ===== *)
theory WebhookService
  imports SubscriptionRepository
begin

text \<open>
  \<open>services/webhook_service.py\<close>: the webhooks of a tenant, the delivery records an event of a subscription
  leaves, and the attempts of one delivery. A delivery is sent by a task; what the receiver answers to attempt \<open>n\<close> is the
  parameter \<open>answers n\<close>. The signature and the headers of the request are not modelled, nor the session of the
  task, which is the one of the request that started it.
\<close>

section \<open>Webhooks\<close>

definition EVENT_TYPES :: "string list" where
  "EVENT_TYPES = [''subscription.created'', ''subscription.approved'', ''subscription.revoked'', ''subscription.key_rotated'',
     ''subscription.rejected'', ''subscription.expired'', ''deployment.started'', ''deployment.succeeded'', ''deployment.failed'',
     ''deployment.rolled_back'', ''workflow.created'', ''workflow.step_completed'', ''workflow.approved'', ''workflow.rejected'']"

definition matches_event :: "tenant_webhook \<Rightarrow> string \<Rightarrow> bool" where
  "matches_event w event_type =
     (wh_enabled w \<and> wh_events w \<noteq> [] \<and> (''*'' \<in> set (wh_events w) \<or> event_type \<in> set (wh_events w)))"

text \<open>The first event that is no event type; the message then lists the valid ones in the order of a set.\<close>

definition invalid_event :: "string list \<Rightarrow> string option" where
  "invalid_event events = find (\<lambda>e. e \<notin> set (''*'' # EVENT_TYPES)) events"

definition get_webhook :: "uuid \<Rightarrow> tenant_webhook option portal_action" where
  "get_webhook i = select_one (\<lambda>t. filter (\<lambda>w. wh_id w = i) (tb_webhooks t))"

definition list_webhooks :: "string \<Rightarrow> bool \<Rightarrow> tenant_webhook list portal_action" where
  "list_webhooks tenant_id enabled_only = select_rows (\<lambda>t. sort_key (\<lambda>w. - dt_instant (wh_created_at w))
     (filter (\<lambda>w. wh_tenant_id w = tenant_id \<and> (enabled_only \<longrightarrow> wh_enabled w)) (tb_webhooks t)))"

definition create_webhook ::
    "string \<Rightarrow> string \<Rightarrow> string \<Rightarrow> string list \<Rightarrow> string option \<Rightarrow> jdict option \<Rightarrow> string option \<Rightarrow> tenant_webhook portal_action" where
  "create_webhook tenant_id name url events secret headers created_by =
     (case invalid_event events of
        Some e \<Rightarrow> raiseA (Crashed (ValueError (''Invalid event type: '' @ e)))
      | None \<Rightarrow>
          bindA (on_world uuid4A) (\<lambda>i. bindA utcnow (\<lambda>created. bindA utcnow (\<lambda>updated.
          let w = \<lparr>wh_id = i, wh_tenant_id = tenant_id, wh_name = name, wh_url = url, wh_secret = secret, wh_events = events,
                   wh_headers = JObj (case headers of None \<Rightarrow> [] | Some h \<Rightarrow> h), wh_enabled = True,
                   wh_created_at = created, wh_updated_at = updated, wh_created_by = created_by\<rparr>
          in bindA (select_rows tb_webhooks) (\<lambda>rows.
             case insert_row wh_id (\<lambda>_ _. False) ''tenant_webhooks_pkey'' w rows of
               Inl e \<Rightarrow> raiseA (Crashed e)
             | Inr rows' \<Rightarrow> bindA (update_tables (\<lambda>t. t\<lparr>tb_webhooks := rows'\<rparr>)) (\<lambda>_. retA w))))))"

definition put_webhook :: "tenant_webhook \<Rightarrow> tables \<Rightarrow> tables" where
  "put_webhook w t = t\<lparr>tb_webhooks := map (\<lambda>r. if wh_id r = wh_id w then w else r) (tb_webhooks t)\<rparr>"

text \<open>Every argument that is given is assigned; the attributes before the events are assigned even when those are refused.\<close>

definition update_webhook ::
    "uuid \<Rightarrow> string option \<Rightarrow> string option \<Rightarrow> string list option \<Rightarrow> string option \<Rightarrow> jdict option \<Rightarrow> bool option \<Rightarrow>
     tenant_webhook option portal_action" where
  "update_webhook i name url events secret headers enabled =
     bindA (get_webhook i) (\<lambda>found. case found of
       None \<Rightarrow> retA None
     | Some w \<Rightarrow>
         let w1 = w\<lparr>wh_name := (case name of None \<Rightarrow> wh_name w | Some n \<Rightarrow> n), wh_url := (case url of None \<Rightarrow> wh_url w | Some u \<Rightarrow> u)\<rparr>
         in case (case events of None \<Rightarrow> None | Some es \<Rightarrow> invalid_event es) of
              Some e \<Rightarrow> bindA (update_tables (put_webhook w1)) (\<lambda>_. raiseA (Crashed (ValueError (''Invalid event type: '' @ e))))
            | None \<Rightarrow> bindA utcnow (\<lambda>now.
                let w2 = w1\<lparr>wh_events := (case events of None \<Rightarrow> wh_events w | Some es \<Rightarrow> es),
                            wh_secret := (case secret of None \<Rightarrow> wh_secret w | Some x \<Rightarrow> Some x),
                            wh_headers := (case headers of None \<Rightarrow> wh_headers w | Some h \<Rightarrow> JObj h),
                            wh_enabled := (case enabled of None \<Rightarrow> wh_enabled w | Some b \<Rightarrow> b), wh_updated_at := now\<rparr>
                in bindA (update_tables (put_webhook w2)) (\<lambda>_. retA (Some w2))))"

definition delete_webhook :: "uuid \<Rightarrow> bool portal_action" where
  "delete_webhook i = bindA (get_webhook i) (\<lambda>found. case found of
     None \<Rightarrow> retA False
   | Some w \<Rightarrow> bindA (update_tables (\<lambda>t. t\<lparr>tb_webhooks := delete_row wh_id (wh_id w) (tb_webhooks t)\<rparr>)) (\<lambda>_. retA True))"

section \<open>Events\<close>

text \<open>\<open>isoformat()\<close> of a naive timestamp, and that with a \<open>Z\<close>, or \<open>None\<close>.\<close>

definition naive_isoformat :: "datetime \<Rightarrow> string" where
  "naive_isoformat t = take (length (isoformat t) - 6) (isoformat t)"

definition opt_time_z :: "datetime option \<Rightarrow> json" where
  "opt_time_z t = (case t of None \<Rightarrow> JNull | Some u \<Rightarrow> JStr (naive_isoformat u @ ''Z''))"

definition event_details :: "string \<Rightarrow> subscription \<Rightarrow> jdict" where
  "event_details event_type s =
     (if event_type = ''subscription.approved'' then
        [(''approved_by'', opt_str (sub_approved_by s)), (''approved_at'', opt_time_z (sub_approved_at s))]
      else if event_type = ''subscription.revoked'' then
        [(''revoked_by'', opt_str (sub_revoked_by s)), (''revoked_at'', opt_time_z (sub_revoked_at s)),
         (''reason'', opt_str (sub_status_reason s))]
      else if event_type = ''subscription.key_rotated'' then
        [(''rotation_count'', JInt (sub_rotation_count s)), (''last_rotated_at'', opt_time_z (sub_last_rotated_at s)),
         (''grace_period_expires_at'', opt_time_z (sub_previous_key_expires_at s))]
      else [])"

definition build_payload :: "string \<Rightarrow> subscription \<Rightarrow> jdict \<Rightarrow> datetime \<Rightarrow> jdict" where
  "build_payload event_type s additional_data now =
     [(''event'', JStr event_type), (''timestamp'', JStr (naive_isoformat now @ ''Z'')),
      (''data'', JObj (dmerge
        ([(''subscription_id'', JStr (uuid_str (sub_id s))), (''application_id'', JStr (sub_application_id s)),
          (''application_name'', JStr (sub_application_name s)), (''api_id'', JStr (sub_api_id s)),
          (''api_name'', JStr (sub_api_name s)), (''tenant_id'', JStr (sub_tenant_id s)),
          (''subscriber_id'', JStr (sub_subscriber_id s)), (''subscriber_email'', JStr (sub_subscriber_email s)),
          (''status'', JStr (subscription_value (sub_status s)))] @ event_details event_type s) additional_data))]"

text \<open>One delivery record per matching webhook. (Its key is drawn; a collision of drawn keys is not modelled here.)\<close>

definition new_delivery :: "uuid \<Rightarrow> datetime \<Rightarrow> tenant_webhook \<Rightarrow> subscription \<Rightarrow> string \<Rightarrow> jdict \<Rightarrow> webhook_delivery" where
  "new_delivery i created w s event_type payload =
     \<lparr>whd_id = i, whd_webhook_id = wh_id w, whd_subscription_id = Some (sub_id s), whd_event_type = event_type,
      whd_payload = JObj payload, whd_status = ''pending'', whd_attempt_count = 0, whd_max_attempts = 5,
      whd_response_status_code = None, whd_response_body = None, whd_error_message = None, whd_created_at = created,
      whd_last_attempt_at = None, whd_next_retry_at = None, whd_delivered_at = None\<rparr>"

definition record_delivery :: "subscription \<Rightarrow> string \<Rightarrow> jdict \<Rightarrow> tenant_webhook \<Rightarrow> webhook_delivery portal_action" where
  "record_delivery s event_type payload w =
     bindA (on_world uuid4A) (\<lambda>i. bindA utcnow (\<lambda>created.
     let d = new_delivery i created w s event_type payload
     in bindA (update_tables (\<lambda>t. t\<lparr>tb_deliveries := tb_deliveries t @ [d]\<rparr>)) (\<lambda>_. retA d)))"

definition dispatch_event :: "string \<Rightarrow> subscription \<Rightarrow> jdict \<Rightarrow> webhook_delivery list portal_action" where
  "dispatch_event event_type s additional_data =
     bindA (list_webhooks (sub_tenant_id s) True) (\<lambda>webhooks.
     let matching = filter (\<lambda>w. matches_event w event_type) webhooks
     in if matching = [] then retA []
        else bindA utcnow (\<lambda>now. forA matching (record_delivery s event_type (build_payload event_type s additional_data now))))"

text \<open>\<open>emit_subscription_\<dots>\<close> inside the \<open>try\<close> of its caller: a failure is only logged.\<close>

definition emit_subscription_event :: "string \<Rightarrow> subscription \<Rightarrow> jdict \<Rightarrow> unit portal_action" where
  "emit_subscription_event event_type s additional_data =
     catchA (bindA (dispatch_event event_type s additional_data) (\<lambda>_. retA ())) (\<lambda>_. True) (\<lambda>_. retA ())"

section \<open>Deliveries\<close>

datatype webhook_answer = Answered int string | TimedOut string | RequestFailed string | Unexpected string

definition RETRY_DELAYS :: "int list" where
  "RETRY_DELAYS = [60, 300, 900, 3600, 7200]"

definition retry_delay :: "int \<Rightarrow> int" where
  "retry_delay attempt_count = RETRY_DELAYS ! nat (min (attempt_count - 1) (int (length RETRY_DELAYS) - 1))"

definition accepted_answer :: "webhook_answer \<Rightarrow> bool" where
  "accepted_answer a = (case a of Answered code body \<Rightarrow> 200 \<le> code \<and> code < 300 | _ \<Rightarrow> False)"

text \<open>What one attempt writes into the record, before the status.\<close>

definition answered :: "webhook_answer \<Rightarrow> datetime \<Rightarrow> webhook_delivery \<Rightarrow> webhook_delivery" where
  "answered a now d =
     (let d1 = d\<lparr>whd_attempt_count := whd_attempt_count d + 1, whd_last_attempt_at := Some now\<rparr>
      in case a of
           Answered code body \<Rightarrow>
             let d2 = d1\<lparr>whd_response_status_code := Some code,
                         whd_response_body := (if body = [] then None else Some (take 2000 body))\<rparr>
             in if accepted_answer a then d2
                else d2\<lparr>whd_error_message := Some (''HTTP '' @ int_str code @ '': '' @ take 500 body)\<rparr>
         | TimedOut e \<Rightarrow> d1\<lparr>whd_error_message := Some (''Timeout: '' @ e)\<rparr>
         | RequestFailed e \<Rightarrow> d1\<lparr>whd_error_message := Some (''Request error: '' @ e)\<rparr>
         | Unexpected e \<Rightarrow> d1\<lparr>whd_error_message := Some (''Unexpected error: '' @ e)\<rparr>)"

function deliver_webhook :: "(int \<Rightarrow> webhook_answer) \<Rightarrow> webhook_delivery \<Rightarrow> webhook_delivery portal_action" where
  "deliver_webhook answers d =
     (if whd_attempt_count d < whd_max_attempts d then
        bindA utcnow (\<lambda>now.
        let a = answers (whd_attempt_count d + 1); d1 = answered a now d
        in if accepted_answer a then
             bindA utcnow (\<lambda>delivered.
             retA (d1\<lparr>whd_status := ''success'', whd_delivered_at := Some delivered, whd_next_retry_at := None\<rparr>))
           else if whd_attempt_count d1 < whd_max_attempts d1 then
             bindA utcnow (\<lambda>later. case dt_add later (retry_delay (whd_attempt_count d1) * 1000000) of
               None \<Rightarrow> raiseA OverflowError
             | Some next \<Rightarrow> deliver_webhook answers (d1\<lparr>whd_next_retry_at := Some next, whd_status := ''retrying''\<rparr>))
           else retA (d1\<lparr>whd_status := ''failed'', whd_next_retry_at := None\<rparr>))
      else retA d)"
  by pat_completeness auto
termination deliver_webhook
  by (relation "measure (\<lambda>(a, d). nat (whd_max_attempts d - whd_attempt_count d))")
    (auto simp: answered_def Let_def split: webhook_answer.splits)

declare deliver_webhook.simps [simp del]

text \<open>The state in which \<open>retry_delivery\<close> hands a record to a new task.\<close>

definition put_delivery :: "webhook_delivery \<Rightarrow> tables \<Rightarrow> tables" where
  "put_delivery d t = t\<lparr>tb_deliveries := map (\<lambda>r. if whd_id r = whd_id d then d else r) (tb_deliveries t)\<rparr>"

definition retry_delivery :: "uuid \<Rightarrow> webhook_delivery option portal_action" where
  "retry_delivery i =
     bindA (select_one (\<lambda>t. filter (\<lambda>d. whd_id d = i) (tb_deliveries t))) (\<lambda>found. case found of
       None \<Rightarrow> retA None
     | Some d \<Rightarrow>
         if whd_status d \<noteq> ''failed'' then raiseA (Crashed (ValueError ''Can only retry failed deliveries''))
         else bindA (get_webhook (whd_webhook_id d)) (\<lambda>w. case w of
             None \<Rightarrow> raiseA (Crashed (ValueError ''Webhook no longer exists''))
           | Some _ \<Rightarrow>
               let d' = d\<lparr>whd_status := ''pending'', whd_attempt_count := 0, whd_next_retry_at := None, whd_error_message := None\<rparr>
               in bindA (update_tables (put_delivery d')) (\<lambda>_. retA (Some d'))))"

definition get_delivery_history :: "uuid \<Rightarrow> nat \<Rightarrow> webhook_delivery list portal_action" where
  "get_delivery_history webhook_id limit = select_rows (\<lambda>t. take limit
     (sort_key (\<lambda>d. - dt_instant (whd_created_at d)) (filter (\<lambda>d. whd_webhook_id d = webhook_id) (tb_deliveries t))))"

end
