(* ===== verification/SubscriptionRouter.thy ===== *)
theory SubscriptionRouter
  imports WebhookService
begin

text \<open>
  \<open>routers/subscriptions.py\<close>: the endpoints for subscribers, for administrators and for the gateway. A handler
  runs in the session of its request (\<open>with_session\<close>). Mails, Kafka events and log lines are left out: each is sent inside
  a \<open>try\<close> that only logs its failure. A response model is the row it is built from, and building it can fail.
\<close>

section \<open>Access\<close>

definition allow :: "http_exception + 'a \<Rightarrow> 'a portal_action" where
  "allow r = (case r of Inl exc \<Rightarrow> raiseA (Refused exc) | Inr x \<Rightarrow> retA x)"

definition has_tenant_access :: "user \<Rightarrow> string \<Rightarrow> bool" where
  "has_tenant_access user tenant_id = (\<not> isl (decide_tenant_access user (Some tenant_id) ''resource''))"

definition is_any_admin :: "user \<Rightarrow> bool" where
  "is_any_admin user = (''cpi-admin'' \<in> set (u_roles user) \<or> ''tenant-admin'' \<in> set (u_roles user))"

definition has_tenant_admin_access :: "user \<Rightarrow> string \<Rightarrow> bool" where
  "has_tenant_admin_access user tenant_id = (is_any_admin user \<and> has_tenant_access user tenant_id)"

definition scoped_user :: "user \<Rightarrow> unit portal_action" where
  "scoped_user user = (if is_admin user then retA ()
     else bindA (allow (decide_tenant_access user None ''filter'')) (\<lambda>_. retA ()))"

text \<open>The body of the request as JSON, \<open>None\<close> when it is not.\<close>

definition status_reason_from_request :: "json option \<Rightarrow> string \<Rightarrow> string" where
  "status_reason_from_request payload fallback =
     (case payload of
        Some (JObj d) \<Rightarrow> (case dget d ''status_reason'' of JStr r \<Rightarrow> if py_strip r \<noteq> [] then r else fallback | _ \<Rightarrow> fallback)
      | _ \<Rightarrow> fallback)"

text \<open>\<open>SubscriptionResponse.model_validate\<close>: \<open>ProvisioningStatusEnum\<close> has no member for a failed removal.\<close>

definition PROVISIONING_STATUS_ENUM :: "string list" where
  "PROVISIONING_STATUS_ENUM =
     [''none'', ''pending'', ''provisioning'', ''ready'', ''failed'', ''deprovisioning'', ''deprovisioned'']"

definition respond :: "subscription \<Rightarrow> subscription portal_action" where
  "respond s = (if provisioning_value (sub_provisioning_status s) \<in> set PROVISIONING_STATUS_ENUM then retA s
     else raiseA (ValidationError ''provisioning_status''))"

text \<open>The subscription of the path, or 404; and the checks an administrator's action starts with.\<close>

definition subscription_or_404 :: "uuid \<Rightarrow> subscription portal_action" where
  "subscription_or_404 i = bindA (get_subscription_by_id i) (\<lambda>found. case found of
     None \<Rightarrow> refuse 404 ''Subscription not found'' | Some s \<Rightarrow> retA s)"

definition readable_subscription :: "user \<Rightarrow> uuid \<Rightarrow> subscription portal_action" where
  "readable_subscription user i = bindA (scoped_user user) (\<lambda>_. bindA (subscription_or_404 i) (\<lambda>s.
     if \<not> has_tenant_access user (sub_tenant_id s) then refuse 403 ''Access denied'' else retA s))"

definition administered_subscription :: "user \<Rightarrow> uuid \<Rightarrow> subscription portal_action" where
  "administered_subscription user i = bindA (scoped_user user) (\<lambda>_. bindA (subscription_or_404 i) (\<lambda>s.
     if \<not> has_tenant_admin_access user (sub_tenant_id s)
     then refuse 403 ''Access denied - tenant-admin or cpi-admin role required'' else retA s))"

definition cannot :: "string \<Rightarrow> subscription \<Rightarrow> string" where
  "cannot verb s = ''Cannot '' @ verb @ '' subscription in '' @ subscription_value (sub_status s) @ '' status''"

section \<open>Subscribing\<close>

record subscription_create =
  sc_application_id :: string
  sc_application_name :: string
  sc_api_id :: string
  sc_api_name :: string
  sc_api_version :: string
  sc_tenant_id :: string
  sc_plan_id :: "string option"
  sc_plan_name :: "string option"

text \<open>The text of the \<open>ValueError\<close> of \<open>UUID(s)\<close>.\<close>

definition uuid_error :: "string \<Rightarrow> string" where
  "uuid_error s = (let h = filter (\<lambda>c. c \<noteq> CHR ''-'') (strip_by is_brace s)
     in if length h \<noteq> 32 then ''badly formed hexadecimal UUID string''
        else ''invalid literal for int() with base 16: '' @ repr_str h)"

definition failure_text :: "failure \<Rightarrow> string" where
  "failure_text f = (case f of
     Refused exc \<Rightarrow> int_str (status_code exc) @ '': '' @ (case detail exc of JStr t \<Rightarrow> t | j \<Rightarrow> py_str j)
   | Crashed e \<Rightarrow> err_text e | OverflowError \<Rightarrow> ''date value out of range'' | ValidationError field \<Rightarrow> field)"

definition application_of :: "string \<Rightarrow> portal_application portal_action" where
  "application_of application_id =
     bindA (case uuid_parse application_id of
         None \<Rightarrow> refuse 400 (''Invalid application_id: '' @ uuid_error application_id)
       | Some i \<Rightarrow> catchA (get_application_by_id i) (\<lambda>_. True) (\<lambda>f. refuse 400 (''Invalid application_id: '' @ failure_text f)))
       (\<lambda>app. case app of None \<Rightarrow> refuse 404 ''Application not found. Please create an application first.'' | Some a \<Rightarrow> retA a)"

definition oauth_client_of :: "portal_application \<Rightarrow> string option portal_action" where
  "oauth_client_of a =
     (if app_security_profile a = API_KEY then retA None
      else if \<not> opt_truthy (app_keycloak_client_id a)
      then refuse 400 ''Application has no OAuth2 client configured. Please regenerate credentials in My Applications.''
      else retA (app_keycloak_client_id a))"

definition new_subscription ::
    "user \<Rightarrow> subscription_create \<Rightarrow> string option \<Rightarrow> uuid \<Rightarrow> datetime \<Rightarrow> datetime \<Rightarrow> subscription" where
  "new_subscription user rq client i created updated =
     \<lparr>sub_id = i, sub_application_id = sc_application_id rq, sub_application_name = sc_application_name rq,
      sub_subscriber_id = u_id user, sub_subscriber_email = u_email user, sub_api_id = sc_api_id rq,
      sub_api_name = sc_api_name rq, sub_api_version = sc_api_version rq, sub_tenant_id = sc_tenant_id rq,
      sub_consumer_id = None, sub_plan_id = sc_plan_id rq, sub_plan_name = sc_plan_name rq, sub_oauth_client_id = client,
      sub_api_key_hash = None, sub_api_key_prefix = None, sub_previous_api_key_hash = None,
      sub_previous_key_expires_at = None, sub_last_rotated_at = None, sub_rotation_count = 0, sub_status = SUB_PENDING,
      sub_status_reason = None, sub_created_at = created, sub_updated_at = updated, sub_approved_at = None,
      sub_expires_at = None, sub_revoked_at = None, sub_ttl_extension_count = 0, sub_ttl_total_extended_days = 0,
      sub_approved_by = None, sub_revoked_by = None, sub_rejected_by = None, sub_rejected_at = None,
      sub_environment = None, sub_provisioning_status = PROV_NONE, sub_gateway_app_id = None,
      sub_provisioning_error = None, sub_provisioned_at = None\<rparr>"

text \<open>Whether the plan lets the request through without an administrator.\<close>

definition plan_auto_approves :: "user \<Rightarrow> plan option \<Rightarrow> bool" where
  "plan_auto_approves user p = (case p of
     None \<Rightarrow> True
   | Some pl \<Rightarrow> \<not> pl_requires_approval pl \<or>
       (case pl_auto_approve_roles pl of None \<Rightarrow> False | Some roles \<Rightarrow> list_ex (\<lambda>r. r \<in> set roles) (u_roles user)))"

definition should_auto_approve :: "user \<Rightarrow> string option \<Rightarrow> bool portal_action" where
  "should_auto_approve user plan_id =
     (if \<not> opt_truthy plan_id then retA True
      else case uuid_parse (or_str plan_id []) of
        None \<Rightarrow> retA False
      | Some i \<Rightarrow> bindA (get_plan_by_id i) (\<lambda>p. retA (plan_auto_approves user p)))"

text \<open>
  \<open>provision_on_approval\<close> awaited inside the request: it looks the row up in a session of its own, which sees what was
  committed. (A row found there is provisioned as by a job.)
\<close>

definition provision_inline :: "subscription \<Rightarrow> unit portal_action" where
  "provision_inline s =
     bindA (getA (\<lambda>p. find (\<lambda>r. sub_id r = sub_id s) (tb_subscriptions (po_committed p)))) (\<lambda>found. case found of
       None \<Rightarrow> retA () | Some _ \<Rightarrow> create_task (Provision (sub_id s)))"

definition auto_approve :: "subscription \<Rightarrow> subscription portal_action" where
  "auto_approve s = catchA
     (bindA (update_status s SUB_ACTIVE None (Some ''system:auto-approve'')) (\<lambda>approved.
      bindA (emit_subscription_event ''subscription.approved'' approved []) (\<lambda>_.
      bindA (on_world uuid4A) (\<lambda>_. bindA (provision_inline approved) (\<lambda>_. retA approved)))))
     (\<lambda>_. True) (\<lambda>_. retA s)"

text \<open>The checks before the row is created; they end with the OAuth client it gets.\<close>

definition admission :: "user \<Rightarrow> subscription_create \<Rightarrow> string option portal_action" where
  "admission user rq =
     bindA (scoped_user user) (\<lambda>_.
     bindA (allow (decide_tenant_access user (Some (sc_tenant_id rq)) ''resource'')) (\<lambda>_.
     bindA (get_by_application_and_api (sc_application_id rq) (sc_api_id rq)) (\<lambda>existing. case existing of
       Some e \<Rightarrow> refuse 409 (''Subscription already exists for this application and API (status: '' @
                    subscription_value (sub_status e) @ '')'')
     | None \<Rightarrow> bindA (application_of (sc_application_id rq)) oauth_client_of)))"

definition create_subscription :: "user \<Rightarrow> subscription_create \<Rightarrow> subscription portal_action" where
  "create_subscription user rq =
     bindA (admission user rq) (\<lambda>client.
     bindA (catchA (create_subscription_row (new_subscription user rq client)) (\<lambda>_. True)
              (\<lambda>_. refuse 500 ''Failed to create subscription'')) (\<lambda>s.
     bindA (emit_subscription_event ''subscription.created'' s []) (\<lambda>_.
     bindA (should_auto_approve user (sc_plan_id rq)) (\<lambda>auto.
     bindA (if auto then auto_approve s else retA s) respond))))"

section \<open>Reading\<close>

definition get_subscription :: "user \<Rightarrow> uuid \<Rightarrow> subscription portal_action" where
  "get_subscription user i = bindA (readable_subscription user i) respond"

record subscription_list =
  sl_items :: "subscription list"
  sl_total :: nat
  sl_page :: nat
  sl_page_size :: nat
  sl_total_pages :: nat

definition total_pages :: "nat \<Rightarrow> nat \<Rightarrow> nat" where
  "total_pages n page_size = (if 0 < n then (n + page_size - 1) div page_size else 1)"

definition list_response :: "nat \<Rightarrow> nat \<Rightarrow> subscription list \<times> nat \<Rightarrow> subscription_list portal_action" where
  "list_response page page_size found = (case found of (rows, n) \<Rightarrow>
     bindA (forA rows respond) (\<lambda>items. retA \<lparr>sl_items = items, sl_total = n, sl_page = page,
       sl_page_size = page_size, sl_total_pages = total_pages n page_size\<rparr>))"

definition list_my_subscriptions ::
    "user \<Rightarrow> subscription_status option \<Rightarrow> nat \<Rightarrow> nat \<Rightarrow> string option \<Rightarrow> subscription_list portal_action" where
  "list_my_subscriptions user status page page_size environment =
     bindA (scoped_user user) (\<lambda>_.
     bindA (allow (decide_tenant_access user None (if is_admin user then ''global'' else ''filter''))) (\<lambda>tenant_id.
     bindA (list_by_subscriber (u_id user) status page page_size environment (is_any_admin user) tenant_id)
       (list_response page page_size)))"

definition list_tenant_subscriptions ::
    "user \<Rightarrow> string \<Rightarrow> subscription_status option \<Rightarrow> nat \<Rightarrow> nat \<Rightarrow> string option \<Rightarrow> subscription_list portal_action" where
  "list_tenant_subscriptions user tenant_id status page page_size environment =
     bindA (scoped_user user) (\<lambda>_.
     if \<not> has_tenant_access user tenant_id then refuse 403 ''Access denied to this tenant''
     else bindA (list_by_tenant tenant_id status page page_size environment) (list_response page page_size))"

definition list_pending_subscriptions :: "user \<Rightarrow> string \<Rightarrow> nat \<Rightarrow> nat \<Rightarrow> subscription_list portal_action" where
  "list_pending_subscriptions user tenant_id page page_size =
     bindA (scoped_user user) (\<lambda>_.
     if \<not> has_tenant_access user tenant_id then refuse 403 ''Access denied to this tenant''
     else bindA (list_pending (Some tenant_id) page page_size) (list_response page page_size))"

definition get_subscription_stats :: "user \<Rightarrow> string \<Rightarrow> (nat \<times> (string \<times> nat) list \<times> nat) portal_action" where
  "get_subscription_stats user tenant_id =
     bindA (scoped_user user) (\<lambda>_.
     if \<not> has_tenant_access user tenant_id then refuse 403 ''Access denied'' else get_stats (Some tenant_id))"

section \<open>Keys and lifetime\<close>

definition cancel_subscription :: "user \<Rightarrow> uuid \<Rightarrow> unit portal_action" where
  "cancel_subscription user i =
     bindA (scoped_user user) (\<lambda>_. bindA (subscription_or_404 i) (\<lambda>s.
     bindA (allow (decide_tenant_access user (Some (sub_tenant_id s)) ''resource'')) (\<lambda>_.
     if sub_subscriber_id s \<noteq> u_id user then refuse 403 ''Access denied''
     else if \<not> holds_place s then refuse 400 (cannot ''cancel'' s)
     else bindA (update_status s SUB_REVOKED (Some ''Cancelled by subscriber'') (Some (u_id user))) (\<lambda>_. retA ()))))"

record key_rotation =
  kr_new_api_key :: string
  kr_new_api_key_prefix :: string
  kr_old_key_expires_at :: "datetime option"
  kr_grace_period_hours :: int
  kr_rotation_count :: int

text \<open>Refused while the grace period of an earlier rotation is running.\<close>

definition no_rotation_running :: "subscription \<Rightarrow> unit portal_action" where
  "no_rotation_running s = (case sub_previous_key_expires_at s of
     None \<Rightarrow> retA ()
   | Some t \<Rightarrow> bindA utcnow (\<lambda>now.
       if dt_instant now < dt_instant t then
         refuse 400 (''A key rotation is already in progress. Previous key expires at '' @ naive_isoformat t @
           ''. Wait for the grace period to end before rotating again.'')
       else retA ()))"

fun write_new_key :: "subscription \<Rightarrow> int \<Rightarrow> string \<times> string \<times> string \<Rightarrow> key_rotation portal_action" where
  "write_new_key s grace_period_hours (key, key_hash, key_prefix) =
     bindA (rotate_key s key_hash key_prefix grace_period_hours) (\<lambda>rotated_row.
     bindA (emit_subscription_event ''subscription.key_rotated'' rotated_row [(''grace_period_hours'', JInt grace_period_hours)]) (\<lambda>_.
     retA \<lparr>kr_new_api_key = key, kr_new_api_key_prefix = key_prefix,
           kr_old_key_expires_at = sub_previous_key_expires_at rotated_row, kr_grace_period_hours = grace_period_hours,
           kr_rotation_count = sub_rotation_count rotated_row\<rparr>))"

definition rotate_api_key :: "host \<Rightarrow> user \<Rightarrow> uuid \<Rightarrow> int \<Rightarrow> key_rotation portal_action" where
  "rotate_api_key hst user i grace_period_hours =
     bindA (readable_subscription user i) (\<lambda>s.
     if sub_status s \<noteq> SUB_ACTIVE then
       refuse 400 (''Cannot rotate key for subscription in '' @ subscription_value (sub_status s) @ '' status'')
     else bindA (no_rotation_running s) (\<lambda>_.
     bindA (generate_key hst None) (\<lambda>generated.
     catchA (write_new_key s grace_period_hours generated) (\<lambda>_. True) (\<lambda>_. refuse 500 ''Failed to rotate API key''))))"

text \<open>The response and whether a grace period is running.\<close>

definition get_subscription_rotation_info :: "user \<Rightarrow> uuid \<Rightarrow> (subscription \<times> bool) portal_action" where
  "get_subscription_rotation_info user i =
     bindA (readable_subscription user i) (\<lambda>s.
     bindA (if sub_previous_key_expires_at s = None then retA False
            else bindA utcnow (\<lambda>now. retA (after (sub_previous_key_expires_at s) now))) (\<lambda>active.
     bindA (respond s) (\<lambda>r. retA (r, active))))"

definition MAX_TTL_EXTENSIONS :: int where
  "MAX_TTL_EXTENSIONS = 2"

definition MAX_TTL_TOTAL_DAYS :: int where
  "MAX_TTL_TOTAL_DAYS = 60"

record ttl_extension =
  te_new_expires_at :: "datetime option"
  te_extension_count :: int
  te_total_extended_days :: int
  te_remaining_extensions :: int

definition extended :: "datetime \<Rightarrow> int \<Rightarrow> datetime \<Rightarrow> subscription \<Rightarrow> subscription" where
  "extended expires_at days now s =
     s\<lparr>sub_expires_at := Some expires_at, sub_ttl_extension_count := sub_ttl_extension_count s + 1,
       sub_ttl_total_extended_days := sub_ttl_total_extended_days s + days, sub_updated_at := now\<rparr>"

definition extend_row :: "user \<Rightarrow> uuid \<Rightarrow> int \<Rightarrow> subscription portal_action" where
  "extend_row user i extend_days =
     bindA (readable_subscription user i) (\<lambda>s.
     if sub_subscriber_id s \<noteq> u_id user \<and> \<not> is_any_admin user then refuse 403 ''Access denied''
     else if sub_status s \<noteq> SUB_ACTIVE then refuse 409 ''Only active subscriptions can be extended''
     else case sub_expires_at s of
       None \<Rightarrow> refuse 409 ''Subscription has no expiry date''
     | Some expires_at \<Rightarrow>
         if MAX_TTL_EXTENSIONS \<le> sub_ttl_extension_count s then
           refuse 409 (''Maximum extensions reached ('' @ int_str MAX_TTL_EXTENSIONS @ '')'')
         else if MAX_TTL_TOTAL_DAYS < sub_ttl_total_extended_days s + extend_days then
           refuse 409 (''Would exceed '' @ int_str MAX_TTL_TOTAL_DAYS @ ''-day maximum total extension'')
         else case dt_add expires_at (extend_days * DAY) of
           None \<Rightarrow> raiseA OverflowError
         | Some new_expires_at \<Rightarrow>
             bindA utcnow (\<lambda>now. save_subscription (extended new_expires_at extend_days now s)))"

text \<open>The commit flushes the assignments, with \<open>updated_at\<close>; nothing after it can fail.\<close>

definition extend_subscription_ttl :: "user \<Rightarrow> uuid \<Rightarrow> int \<Rightarrow> ttl_extension portal_action" where
  "extend_subscription_ttl user i extend_days =
     bindA (extend_row user i extend_days) (\<lambda>s. bindA commit (\<lambda>_. retA
       \<lparr>te_new_expires_at = sub_expires_at s, te_extension_count = sub_ttl_extension_count s,
        te_total_extended_days = sub_ttl_total_extended_days s,
        te_remaining_extensions = MAX_TTL_EXTENSIONS - sub_ttl_extension_count s\<rparr>))"

section \<open>Administration\<close>

definition approve_subscription :: "user \<Rightarrow> uuid \<Rightarrow> datetime option \<Rightarrow> subscription portal_action" where
  "approve_subscription user i expires_at =
     bindA (administered_subscription user i) (\<lambda>s.
     if sub_status s \<noteq> SUB_PENDING then refuse 400 (cannot ''approve'' s)
     else bindA (if expires_at = None then retA s else set_expiration s expires_at) (\<lambda>s1.
       bindA (update_status s1 SUB_ACTIVE None (Some (u_id user))) (\<lambda>s2.
       bindA (emit_subscription_event ''subscription.approved'' s2 []) (\<lambda>_.
       bindA (on_world uuid4A) (\<lambda>_. bindA (create_task (Provision (sub_id s2))) (\<lambda>_. respond s2))))))"

definition revoke_subscription :: "user \<Rightarrow> uuid \<Rightarrow> string \<Rightarrow> subscription portal_action" where
  "revoke_subscription user i reason =
     bindA (administered_subscription user i) (\<lambda>s.
     if sub_status s = SUB_REVOKED then refuse 400 ''Subscription already revoked''
     else bindA (update_status s SUB_REVOKED (Some reason) (Some (u_id user))) (\<lambda>s1.
       bindA (emit_subscription_event ''subscription.revoked'' s1 []) (\<lambda>_.
       bindA (on_world uuid4A) (\<lambda>_. bindA (create_task (Deprovision (sub_id s1) (sub_gateway_app_id s1))) (\<lambda>_. respond s1)))))"

definition suspend_subscription :: "user \<Rightarrow> uuid \<Rightarrow> json option \<Rightarrow> subscription portal_action" where
  "suspend_subscription user i payload =
     bindA (administered_subscription user i) (\<lambda>s.
     if sub_status s \<noteq> SUB_ACTIVE then refuse 400 (cannot ''suspend'' s)
     else bindA (update_status s SUB_SUSPENDED (Some (status_reason_from_request payload ''Suspended by admin'')) (Some (u_id user)))
       respond)"

definition reactivate_subscription :: "user \<Rightarrow> uuid \<Rightarrow> json option \<Rightarrow> subscription portal_action" where
  "reactivate_subscription user i payload =
     bindA (administered_subscription user i) (\<lambda>s.
     if sub_status s \<noteq> SUB_SUSPENDED then refuse 400 (cannot ''reactivate'' s)
     else bindA (update_status s SUB_ACTIVE (Some (status_reason_from_request payload ''Reactivated by admin'')) (Some (u_id user)))
       respond)"

definition reject_subscription :: "user \<Rightarrow> uuid \<Rightarrow> string \<Rightarrow> subscription portal_action" where
  "reject_subscription user i reason =
     bindA (administered_subscription user i) (\<lambda>s.
     if sub_status s \<noteq> SUB_PENDING then refuse 400 (cannot ''reject'' s)
     else bindA (update_status s SUB_REJECTED (Some reason) (Some (u_id user))) (\<lambda>s1.
       bindA (emit_subscription_event ''subscription.rejected'' s1 []) (\<lambda>_. respond s1)))"

datatype bulk_action = BulkApprove | BulkReject

fun bulk_action_value :: "bulk_action \<Rightarrow> string" where
  "bulk_action_value BulkApprove = ''approve''"
| "bulk_action_value BulkReject = ''reject''"

text \<open>One turn of the loop: \<open>None\<close> when it succeeded, or the error that is listed.\<close>

definition bulk_one :: "user \<Rightarrow> bulk_action \<Rightarrow> string option \<Rightarrow> uuid \<Rightarrow> string option portal_action" where
  "bulk_one user action reason i = catchA
     (bindA (get_subscription_by_id i) (\<lambda>found. case found of
        None \<Rightarrow> retA (Some ''Subscription not found'')
      | Some s \<Rightarrow>
          if \<not> has_tenant_admin_access user (sub_tenant_id s) then retA (Some ''Access denied'')
          else if sub_status s \<noteq> SUB_PENDING then retA (Some (cannot (bulk_action_value action) s))
          else case action of
            BulkApprove \<Rightarrow>
              bindA (update_status s SUB_ACTIVE None (Some (u_id user))) (\<lambda>s1.
              bindA (emit_subscription_event ''subscription.approved'' s1 []) (\<lambda>_.
              bindA (on_world uuid4A) (\<lambda>_. bindA (create_task (Provision (sub_id s1))) (\<lambda>_. retA None))))
          | BulkReject \<Rightarrow>
              bindA (update_status s SUB_REJECTED reason (Some (u_id user))) (\<lambda>s1.
              bindA (emit_subscription_event ''subscription.rejected'' s1 []) (\<lambda>_. retA None))))
     (\<lambda>_. True) (\<lambda>f. retA (Some (failure_text f)))"

record bulk_result =
  br_succeeded :: nat
  br_failed :: "(uuid \<times> string) list"

definition bulk_subscription_action :: "user \<Rightarrow> uuid list \<Rightarrow> bulk_action \<Rightarrow> string option \<Rightarrow> bulk_result portal_action" where
  "bulk_subscription_action user ids action reason =
     bindA (scoped_user user) (\<lambda>_.
     if action = BulkReject \<and> \<not> opt_truthy reason then refuse 400 ''Reason is required for reject action''
     else bindA (forA ids (bulk_one user action reason)) (\<lambda>outcomes. retA
       \<lparr>br_succeeded = length (filter (\<lambda>r. r = None) outcomes),
        br_failed = List.map_filter (\<lambda>(i, r). map_option (Pair i) r) (zip ids outcomes)\<rparr>))"

section \<open>Validation for the gateway\<close>

definition expired :: "subscription \<Rightarrow> datetime \<Rightarrow> bool" where
  "expired s now = (case sub_expires_at s of None \<Rightarrow> False | Some t \<Rightarrow> dt_instant t < dt_instant now)"

definition validation_result :: "subscription \<Rightarrow> jdict" where
  "validation_result s =
     [(''valid'', JBool True), (''subscription_id'', JStr (uuid_str (sub_id s))), (''application_id'', JStr (sub_application_id s)),
      (''application_name'', JStr (sub_application_name s)), (''subscriber_id'', JStr (sub_subscriber_id s)),
      (''api_id'', JStr (sub_api_id s)), (''api_name'', JStr (sub_api_name s)), (''tenant_id'', JStr (sub_tenant_id s)),
      (''plan_id'', opt_str (sub_plan_id s)), (''plan_name'', opt_str (sub_plan_name s))]"

definition deprecated_key_warning :: "subscription \<Rightarrow> jdict" where
  "deprecated_key_warning s =
     [(''warning'', JStr ''Using deprecated API key during grace period''),
      (''key_expires_at'', (case sub_previous_key_expires_at s of None \<Rightarrow> JNull | Some t \<Rightarrow> JStr (naive_isoformat t))),
      (''using_previous_key'', JBool True)]"

text \<open>The row of a key: that of the current key, or that of the previous one in its grace period.\<close>

definition row_of_key :: "string \<Rightarrow> (subscription \<times> bool) option portal_action" where
  "row_of_key key_hash = bindA (get_by_api_key_hash key_hash) (\<lambda>found. case found of
     Some s \<Rightarrow> retA (Some (s, False))
   | None \<Rightarrow> bindA (get_by_previous_key_hash key_hash) (\<lambda>previous. retA (map_option (\<lambda>s. (s, True)) previous)))"

definition validate_api_key :: "host \<Rightarrow> string option \<Rightarrow> string option \<Rightarrow> jdict portal_action" where
  "validate_api_key hst body_key query_key =
     (let key = (if opt_truthy body_key then body_key else query_key)
      in if \<not> opt_truthy key then refuse 400 ''api_key required in body or query''
         else if \<not> validate_format (or_str key []) then refuse 401 ''Invalid API key format''
         else bindA (row_of_key (hash_key hst (or_str key []))) (\<lambda>found. case found of
           None \<Rightarrow> refuse 401 ''API key not found''
         | Some (s, is_previous_key) \<Rightarrow>
             if sub_status s \<noteq> SUB_ACTIVE then refuse 403 (''Subscription is '' @ subscription_value (sub_status s))
             else bindA utcnow (\<lambda>now.
               if expired s now then refuse 403 ''Subscription expired''
               else retA (validation_result s @ (if is_previous_key then deprecated_key_warning s else [])))))"

definition security_profile_of :: "subscription \<Rightarrow> string portal_action" where
  "security_profile_of s =
     (if sub_application_id s = [] then retA ''oauth2_public''
      else case uuid_parse (sub_application_id s) of
        None \<Rightarrow> retA ''oauth2_public''
      | Some i \<Rightarrow> catchA (bindA (get_application_by_id i) (\<lambda>app. retA (case app of
            None \<Rightarrow> ''oauth2_public'' | Some a \<Rightarrow> security_profile_value (app_security_profile a))))
          (\<lambda>_. True) (\<lambda>_. retA ''oauth2_public''))"

definition validate_subscription_oauth :: "string \<Rightarrow> string \<Rightarrow> jdict portal_action" where
  "validate_subscription_oauth client_id api_id =
     bindA (get_by_oauth_client_and_api client_id api_id) (\<lambda>found. case found of
       None \<Rightarrow> refuse 404 ''No active subscription found for this client and API''
     | Some s \<Rightarrow> bindA utcnow (\<lambda>now.
         if expired s now then refuse 403 ''Subscription expired''
         else bindA (security_profile_of s) (\<lambda>profile. retA (validation_result s @ [(''security_profile'', JStr profile)]))))"

section \<open>Requests\<close>

datatype subscription_request =
    CreateSubscription subscription_create
  | CancelSubscription uuid
  | RotateKey uuid int
  | ExtendTtl uuid int
  | ApproveSubscription uuid "datetime option"
  | RevokeSubscription uuid string
  | SuspendSubscription uuid "json option"
  | ReactivateSubscription uuid "json option"
  | RejectSubscription uuid string
  | BulkSubscriptions "uuid list" bulk_action "string option"

definition ignoring :: "'a portal_action \<Rightarrow> unit portal_action" where
  "ignoring m = bindA m (\<lambda>_. retA ())"

fun handle_subscription :: "host \<Rightarrow> user \<Rightarrow> subscription_request \<Rightarrow> unit portal_action" where
  "handle_subscription hst user (CreateSubscription rq) = ignoring (create_subscription user rq)"
| "handle_subscription hst user (CancelSubscription i) = cancel_subscription user i"
| "handle_subscription hst user (RotateKey i hours) = ignoring (rotate_api_key hst user i hours)"
| "handle_subscription hst user (ExtendTtl i days) = ignoring (extend_subscription_ttl user i days)"
| "handle_subscription hst user (ApproveSubscription i t) = ignoring (approve_subscription user i t)"
| "handle_subscription hst user (RevokeSubscription i r) = ignoring (revoke_subscription user i r)"
| "handle_subscription hst user (SuspendSubscription i b) = ignoring (suspend_subscription user i b)"
| "handle_subscription hst user (ReactivateSubscription i b) = ignoring (reactivate_subscription user i b)"
| "handle_subscription hst user (RejectSubscription i r) = ignoring (reject_subscription user i r)"
| "handle_subscription hst user (BulkSubscriptions is a r) = ignoring (bulk_subscription_action user is a r)"

end
