(* ===== verification/Provisioning.thy ===== *)
theory Provisioning
  imports WebhookService GatewayService
begin

text \<open>
  \<open>services/provisioning_service.py\<close>: the background jobs that create an application on the gateway when a
  subscription is approved and remove it when it is revoked. A job has a session of its own: what it reads and writes is the
  committed state, and every \<open>await\<close> on the gateway ends a step, so that requests and other jobs come in between.
  The row it loaded is kept over its commits and written back as the session does it: only the attributes that
  were assigned a new value.

  The secret store and the adapters are parameters: \<open>credentials g\<close> is what the secret store says for gateway \<open>g\<close>, and an
  \<open>adapter_answer\<close> is what the adapter returns or the text of what it raises. The rate-limit policies are sent
  after the commit, and a failure to send them is only logged; they are given by \<open>policy_spec\<close>.
\<close>

section \<open>The adapter of an API\<close>

datatype credential_answer = Credentials | CredentialError | UnknownAdapter

datatype resolution = Adapter gateway_instance | NoAdapter | CredentialResolutionError

text \<open>The first synced deployment of the API in the order of the table; the query has no order of its own.\<close>

definition get_primary_for_api :: "string \<Rightarrow> string \<Rightarrow> world \<Rightarrow> gateway_deployment option" where
  "get_primary_for_api api_id tenant_id w =
     find (\<lambda>d. dep_sync_status d = SYNCED \<and>
       list_ex (\<lambda>c. cat_id c = dep_api_catalog_id d \<and> cat_api_id c = api_id \<and> cat_tenant_id c = tenant_id) (catalogs w))
       (deployments w)"

text \<open>\<open>create_adapter_with_credentials\<close> on the columns of the row: an agent that pulls its routes has no adapter.\<close>

definition agent_managed :: "gateway_instance \<Rightarrow> bool" where
  "agent_managed g = (gi_source g = ''self_register'' \<and> gateway_type_value (gi_gateway_type g) = ''stoa'')"

definition resolve_adapter :: "(gateway_instance \<Rightarrow> credential_answer) \<Rightarrow> world \<Rightarrow> string \<Rightarrow> string \<Rightarrow> resolution" where
  "resolve_adapter credentials w api_id tenant_id =
     (case get_primary_for_api api_id tenant_id w of
        None \<Rightarrow> NoAdapter
      | Some d \<Rightarrow>
          (case fst (get_gateway_by_id (dep_gateway_instance_id d) w) of
             Inr (Some g) \<Rightarrow>
               if agent_managed g then NoAdapter
               else (case credentials g of
                  Credentials \<Rightarrow> Adapter g | CredentialError \<Rightarrow> CredentialResolutionError | UnknownAdapter \<Rightarrow> NoAdapter)
           | _ \<Rightarrow> NoAdapter))"

section \<open>What is sent\<close>

definition app_spec_base :: "subscription \<Rightarrow> string \<Rightarrow> jdict" where
  "app_spec_base s correlation_id =
     [(''subscription_id'', JStr (uuid_str (sub_id s))), (''application_name'', JStr (sub_application_name s)),
      (''api_id'', JStr (sub_api_id s)), (''tenant_id'', JStr (sub_tenant_id s)),
      (''subscriber_email'', JStr (sub_subscriber_email s)), (''correlation_id'', JStr correlation_id)]"

definition opt_int :: "int option \<Rightarrow> json" where
  "opt_int v = (case v of None \<Rightarrow> JNull | Some n \<Rightarrow> JInt n)"

definition consumer_of :: "tables \<Rightarrow> subscription \<Rightarrow> consumer option" where
  "consumer_of t s = (case sub_consumer_id s of None \<Rightarrow> None | Some i \<Rightarrow> find (\<lambda>c. cns_id c = i) (tb_consumers t))"

definition plan_of :: "tables \<Rightarrow> subscription \<Rightarrow> plan option" where
  "plan_of t s = (if opt_truthy (sub_plan_id s) then
     (case uuid_parse (or_str (sub_plan_id s) []) of None \<Rightarrow> None | Some i \<Rightarrow> find (\<lambda>p. pl_id p = i) (tb_plans t)) else None)"

definition app_spec :: "subscription \<Rightarrow> string \<Rightarrow> consumer option \<Rightarrow> plan option \<Rightarrow> jdict" where
  "app_spec s correlation_id c p =
     app_spec_base s correlation_id
     @ (case c of None \<Rightarrow> [] | Some k \<Rightarrow>
          [(''consumer_id'', JStr (uuid_str (cns_id k))), (''consumer_external_id'', JStr (cns_external_id k)),
           (''keycloak_client_id'', JStr (or_str (cns_keycloak_client_id k) []))])
     @ (case p of None \<Rightarrow> [] | Some pl \<Rightarrow>
          [(''plan_slug'', JStr (pl_slug pl)), (''rate_limit_per_second'', opt_int (pl_rate_limit_per_second pl)),
           (''rate_limit_per_minute'', opt_int (pl_rate_limit_per_minute pl)),
           (''daily_request_limit'', opt_int (pl_daily_request_limit pl)),
           (''monthly_request_limit'', opt_int (pl_monthly_request_limit pl)), (''burst_limit'', opt_int (pl_burst_limit pl))])"

text \<open>A limit of zero is no limit.\<close>

definition nonzero :: "int option \<Rightarrow> int option" where
  "nonzero v = (if v = Some 0 then None else v)"

definition policy_spec :: "subscription \<Rightarrow> plan option \<Rightarrow> consumer option \<Rightarrow> jdict option" where
  "policy_spec s p c =
     (case p of
        None \<Rightarrow> None
      | Some pl \<Rightarrow>
          if nonzero (pl_rate_limit_per_minute pl) = None \<and> nonzero (pl_rate_limit_per_second pl) = None then None
          else Some
            [(''id'', JStr (''quota-'' @ uuid_str (sub_id s))),
             (''name'', JStr (''rate-limit-'' @ (case c of None \<Rightarrow> ''unknown'' | Some k \<Rightarrow> cns_external_id k) @ ''-'' @ pl_slug pl)),
             (''type'', JStr ''rate_limit''), (''api_id'', JStr (sub_api_id s)),
             (''config'', JObj [(''maxRequests'', JInt (case nonzero (pl_rate_limit_per_minute pl) of None \<Rightarrow> 100 | Some n \<Rightarrow> n)),
                (''intervalSeconds'', JInt 60)]),
             (''priority'', JInt 50)])"

section \<open>Commits of a job\<close>

text \<open>
  \<open>await db.commit()\<close> in the session of a job: the attributes of \<open>new\<close> that differ from those of \<open>held\<close> are
  written into the row, if there is any such attribute.
\<close>

definition written :: "'a \<Rightarrow> 'a \<Rightarrow> 'a \<Rightarrow> 'a" where
  "written held new current = (if new = held then current else new)"

definition write_back :: "subscription \<Rightarrow> subscription \<Rightarrow> datetime \<Rightarrow> subscription \<Rightarrow> subscription" where
  "write_back held new now row =
     (if new = held then row
      else row\<lparr>sub_provisioning_status := written (sub_provisioning_status held) (sub_provisioning_status new) (sub_provisioning_status row),
               sub_gateway_app_id := written (sub_gateway_app_id held) (sub_gateway_app_id new) (sub_gateway_app_id row),
               sub_provisioning_error := written (sub_provisioning_error held) (sub_provisioning_error new) (sub_provisioning_error row),
               sub_provisioned_at := written (sub_provisioned_at held) (sub_provisioned_at new) (sub_provisioned_at row),
               sub_updated_at := now\<rparr>)"

text \<open>The jobs run between the requests, when no session holds uncommitted rows.\<close>

definition job_commit :: "subscription \<Rightarrow> subscription \<Rightarrow> subscription portal_action" where
  "job_commit held new = bindA utcnow (\<lambda>now.
     bindA (modA (\<lambda>s. let t = (po_committed s)\<lparr>tb_subscriptions := map (\<lambda>r. if sub_id r = sub_id held
         then write_back held new now r else r) (tb_subscriptions (po_committed s))\<rparr>
       in s\<lparr>po_tables := t, po_committed := t\<rparr>)) (\<lambda>_. retA new))"

definition load_committed :: "uuid \<Rightarrow> subscription option portal_action" where
  "load_committed i = getA (\<lambda>s. find (\<lambda>r. sub_id r = i) (tb_subscriptions (po_committed s)))"

section \<open>Provisioning\<close>

definition MAX_RETRIES :: nat where
  "MAX_RETRIES = 3"

datatype adapter_answer = AdapterResult (ad_success: bool) (ad_resource_id: "string option") (ad_error: "string option") | AdapterRaised string

definition answer_error :: "adapter_answer \<Rightarrow> string option" where
  "answer_error a = (case a of
     AdapterResult ok r e \<Rightarrow> if ok then None else Some (if opt_truthy e then or_str e [] else ''Adapter returned failure'')
   | AdapterRaised e \<Rightarrow> Some e)"

definition answer_resource :: "adapter_answer \<Rightarrow> string option" where
  "answer_resource a = (case a of AdapterResult ok r e \<Rightarrow> r | AdapterRaised e \<Rightarrow> None)"

definition begin_provision :: "uuid \<Rightarrow> job option portal_action" where
  "begin_provision i = bindA (load_committed i) (\<lambda>found. case found of
     None \<Rightarrow> retA None
   | Some s \<Rightarrow> bindA (job_commit s (s\<lparr>sub_provisioning_status := PROV_RUNNING, sub_provisioning_error := None\<rparr>))
       (\<lambda>held. retA (Some (Resolving held))))"

definition resolve_provision :: "(gateway_instance \<Rightarrow> credential_answer) \<Rightarrow> string \<Rightarrow> subscription \<Rightarrow> job option portal_action" where
  "resolve_provision credentials correlation_id s =
     bindA (getA (\<lambda>p. resolve_adapter credentials (po_world p) (sub_api_id s) (sub_tenant_id s))) (\<lambda>resolved. case resolved of
       CredentialResolutionError \<Rightarrow>
         bindA (job_commit s (s\<lparr>sub_provisioning_status := PROV_FAILED, sub_provisioned_at := None,
             sub_provisioning_error := Some ''Required read failed; no fallback credentials allowed; operation refused.''\<rparr>))
           (\<lambda>_. retA None)
     | NoAdapter \<Rightarrow>
         bindA utcnow (\<lambda>now. bindA (job_commit s (s\<lparr>sub_provisioning_status := PROV_READY, sub_provisioning_error := None,
             sub_provisioned_at := Some now\<rparr>)) (\<lambda>_. retA None))
     | Adapter g \<Rightarrow> getA (\<lambda>p. Some (Provisioning s
         (app_spec s correlation_id (consumer_of (po_committed p) s) (plan_of (po_committed p) s)) 1)))"

definition answer_provision :: "subscription \<Rightarrow> jdict \<Rightarrow> nat \<Rightarrow> adapter_answer \<Rightarrow> job option portal_action" where
  "answer_provision s spec attempt a =
     (case answer_error a of
        None \<Rightarrow>
          bindA utcnow (\<lambda>now. bindA (job_commit s (s\<lparr>sub_provisioning_status := PROV_READY,
              sub_gateway_app_id := answer_resource a, sub_provisioned_at := Some now, sub_provisioning_error := None\<rparr>))
            (\<lambda>_. retA None))
      | Some e \<Rightarrow>
          if attempt < MAX_RETRIES then retA (Some (Provisioning s spec (Suc attempt)))
          else bindA (job_commit s (s\<lparr>sub_provisioning_status := PROV_FAILED, sub_provisioning_error := Some e\<rparr>)) (\<lambda>_. retA None))"

section \<open>Deprovisioning\<close>

text \<open>\<open>gateway_app\<close> is what the revoked object of the request had.\<close>

definition begin_deprovision :: "uuid \<Rightarrow> string option \<Rightarrow> job option portal_action" where
  "begin_deprovision i gateway_app =
     (if \<not> opt_truthy gateway_app then retA None
      else bindA (load_committed i) (\<lambda>found. case found of
        None \<Rightarrow> retA None
      | Some s \<Rightarrow> bindA (job_commit s (s\<lparr>sub_provisioning_status := DEPROV_RUNNING\<rparr>)) (\<lambda>held. retA (Some (Deresolving held)))))"

definition resolve_deprovision :: "(gateway_instance \<Rightarrow> credential_answer) \<Rightarrow> subscription \<Rightarrow> job option portal_action" where
  "resolve_deprovision credentials s =
     bindA (getA (\<lambda>p. resolve_adapter credentials (po_world p) (sub_api_id s) (sub_tenant_id s))) (\<lambda>resolved. case resolved of
       Adapter g \<Rightarrow> retA (Some (Deprovisioning s 1))
     | _ \<Rightarrow> bindA (job_commit s (s\<lparr>sub_provisioning_status := DEPROV_FAILED,
             sub_provisioning_error := Some ''Deprovision failed: no gateway adapter resolved for existing gateway_app_id''\<rparr>))
           (\<lambda>_. retA None))"

definition answer_deprovision :: "subscription \<Rightarrow> nat \<Rightarrow> adapter_answer \<Rightarrow> job option portal_action" where
  "answer_deprovision s attempt a =
     (case answer_error a of
        None \<Rightarrow> bindA (job_commit s (s\<lparr>sub_provisioning_status := DEPROV_DONE, sub_gateway_app_id := None\<rparr>)) (\<lambda>_. retA None)
      | Some e \<Rightarrow>
          if attempt < MAX_RETRIES then retA (Some (Deprovisioning s (Suc attempt)))
          else bindA (job_commit s (s\<lparr>sub_provisioning_status := DEPROV_FAILED,
             sub_provisioning_error := Some (''Deprovision failed after '' @ nat_digits MAX_RETRIES @ '' attempts: '' @ e)\<rparr>))
            (\<lambda>_. retA None))"

section \<open>One step of a job\<close>

fun job_step :: "(gateway_instance \<Rightarrow> credential_answer) \<Rightarrow> string \<Rightarrow> adapter_answer \<Rightarrow> job \<Rightarrow> job option portal_action" where
  "job_step credentials correlation_id a (Provision i) = begin_provision i"
| "job_step credentials correlation_id a (Resolving s) = resolve_provision credentials correlation_id s"
| "job_step credentials correlation_id a (Provisioning s spec n) = answer_provision s spec n a"
| "job_step credentials correlation_id a (Deprovision i gateway_app) = begin_deprovision i gateway_app"
| "job_step credentials correlation_id a (Deresolving s) = resolve_deprovision credentials s"
| "job_step credentials correlation_id a (Deprovisioning s n) = answer_deprovision s n a"

end
