(* ===== verification/SubscriptionFacts.thy ===== *)
theory SubscriptionFacts
  imports SubscriptionRouter Provisioning
begin

text \<open>
  What a subscription request can do to the rows: \<open>sub_moved user\<close> is what one user may bring about, \<open>sub_evolves\<close>
  what anybody may. \<open>keeps user P m Q\<close> is a triple: from rows with \<open>P\<close> the action \<open>m\<close> only moves rows, commits
  nothing, and ends with \<open>Q\<close> when it returns. Its rules follow the structure of the handlers.
\<close>

section \<open>The automaton of a subscription\<close>

inductive status_edge :: "subscription_status \<Rightarrow> subscription_status \<Rightarrow> bool" where
  approved: "status_edge SUB_PENDING SUB_ACTIVE"
| rejected: "status_edge SUB_PENDING SUB_REJECTED"
| suspended: "status_edge SUB_ACTIVE SUB_SUSPENDED"
| reactivated: "status_edge SUB_SUSPENDED SUB_ACTIVE"
| revoked: "st \<noteq> SUB_REVOKED \<Longrightarrow> status_edge st SUB_REVOKED"

inductive_cases revoked_edgeE: "status_edge SUB_REVOKED st"

lemma revoked_stays: "status_edge\<^sup>*\<^sup>* SUB_REVOKED st \<Longrightarrow> st = SUB_REVOKED"
  by (induction rule: rtranclp_induct) (auto elim: revoked_edgeE)

lemma never_pending_again: "status_edge\<^sup>*\<^sup>* st SUB_PENDING \<Longrightarrow> st = SUB_PENDING"
  by (erule rtranclp.cases) (auto elim: status_edge.cases)

lemma never_expires: "status_edge\<^sup>*\<^sup>* st SUB_EXPIRED \<Longrightarrow> st = SUB_EXPIRED"
  by (erule rtranclp.cases) (auto elim: status_edge.cases)

section \<open>Rows that move\<close>

definition same_subscription :: "subscription \<Rightarrow> subscription \<Rightarrow> bool" where
  "same_subscription r r' \<longleftrightarrow> sub_id r' = sub_id r \<and> sub_application_id r' = sub_application_id r \<and> sub_api_id r' = sub_api_id r \<and>
     sub_tenant_id r' = sub_tenant_id r \<and> sub_subscriber_id r' = sub_subscriber_id r \<and> sub_plan_id r' = sub_plan_id r \<and>
     sub_oauth_client_id r' = sub_oauth_client_id r \<and> sub_created_at r' = sub_created_at r"

text \<open>An extension is by 7 or 14 days, and there are at most two.\<close>

definition ttl_ok :: "subscription \<Rightarrow> bool" where
  "ttl_ok s \<longleftrightarrow> 0 \<le> sub_ttl_extension_count s \<and> sub_ttl_extension_count s \<le> MAX_TTL_EXTENSIONS \<and>
     7 * sub_ttl_extension_count s \<le> sub_ttl_total_extended_days s \<and>
     sub_ttl_total_extended_days s \<le> 14 * sub_ttl_extension_count s"

definition sub_evolves :: "subscription \<Rightarrow> subscription \<Rightarrow> bool" where
  "sub_evolves r r' \<longleftrightarrow> same_subscription r r' \<and> status_edge\<^sup>*\<^sup>* (sub_status r) (sub_status r') \<and>
     sub_ttl_extension_count r \<le> sub_ttl_extension_count r' \<and> (ttl_ok r \<longrightarrow> ttl_ok r')"

text \<open>A status is only changed by an administrator of the tenant, or revoked by the subscriber.\<close>

definition sub_moved :: "user \<Rightarrow> subscription \<Rightarrow> subscription \<Rightarrow> bool" where
  "sub_moved user r r' \<longleftrightarrow> r' = r \<or> has_tenant_access user (sub_tenant_id r) \<and> sub_evolves r r' \<and>
     (sub_status r' \<noteq> sub_status r \<longrightarrow> has_tenant_admin_access user (sub_tenant_id r) \<or>
        sub_subscriber_id r = u_id user \<and> sub_status r' = SUB_REVOKED)"

definition sub_new :: "user \<Rightarrow> subscription \<Rightarrow> bool" where
  "sub_new user r \<longleftrightarrow> has_tenant_access user (sub_tenant_id r) \<and> sub_subscriber_id r = u_id user \<and> ttl_ok r"

text \<open>The rows stay in their places; new ones stand behind them.\<close>

definition rows_move :: "('r \<Rightarrow> 'r \<Rightarrow> bool) \<Rightarrow> ('r \<Rightarrow> bool) \<Rightarrow> 'r list \<Rightarrow> 'r list \<Rightarrow> bool" where
  "rows_move E N t t' \<longleftrightarrow> (\<exists>xs ys. t' = xs @ ys \<and> list_all2 E t xs \<and> list_all N ys)"

lemma rows_moveI: "t' = xs @ ys \<Longrightarrow> list_all2 E t xs \<Longrightarrow> list_all N ys \<Longrightarrow> rows_move E N t t'"
  unfolding rows_move_def by blast

lemma rows_move_refl: "(\<And>r. E r r) \<Longrightarrow> rows_move E N t t"
  by (rule rows_moveI [of _ t "[]"]) (simp_all add: list_all2_refl)

lemma rows_move_trans:
  assumes trans: "\<And>a b c. E a b \<Longrightarrow> E b c \<Longrightarrow> E a c" and new: "\<And>a b. N a \<Longrightarrow> E a b \<Longrightarrow> N b"
    and "rows_move E N t u" and "rows_move E N u v"
  shows "rows_move E N t v"
proof -
  from assms(3) obtain xs ys where u: "u = xs @ ys" "list_all2 E t xs" "list_all N ys" by (auto simp: rows_move_def)
  from assms(4) u(1) obtain zs ws where v: "v = zs @ ws" "list_all2 E (xs @ ys) zs" "list_all N ws"
    by (auto simp: rows_move_def)
  from v(2) obtain as bs where zs: "zs = as @ bs" "list_all2 E xs as" "list_all2 E ys bs"
    by (auto simp: list_all2_append1)
  have "list_all2 E t as" by (rule list_all2_trans [OF trans u(2) zs(2)])
  moreover have "list_all N bs" using zs(3) u(3) by (induction rule: list_all2_induct) (auto intro: new)
  ultimately show ?thesis using v(1,3) zs(1) by (intro rows_moveI [of _ as "bs @ ws"]) simp_all
qed

lemma rows_move_map:
  assumes "\<And>r. r \<in> set t \<Longrightarrow> E r (f r)" shows "rows_move E N t (map f t)"
  by (rule rows_moveI [of _ "map f t" "[]"]) (simp_all add: list_all2_map2 list_all2_same assms)

lemma rows_move_snoc: "(\<And>r. E r r) \<Longrightarrow> N y \<Longrightarrow> rows_move E N t (t @ [y])"
  by (rule rows_moveI [of _ t "[y]"]) (simp_all add: list_all2_refl)

lemma rows_move_mono: "rows_move E N t t' \<Longrightarrow> (\<And>a b. E a b \<Longrightarrow> E' a b) \<Longrightarrow> (\<And>a. N a \<Longrightarrow> N' a) \<Longrightarrow> rows_move E' N' t t'"
proof -
  assume "rows_move E N t t'" and E: "\<And>a b. E a b \<Longrightarrow> E' a b" and N: "\<And>a. N a \<Longrightarrow> N' a"
  then obtain xs ys where "t' = xs @ ys" "list_all2 E t xs" "list_all N ys" by (auto simp: rows_move_def)
  then show ?thesis by (intro rows_moveI [of _ xs ys]) (auto intro: E N list_all2_mono simp: list_all_iff)
qed

lemma list_all2_set2: "list_all2 P xs ys \<Longrightarrow> y \<in> set ys \<Longrightarrow> \<exists>x \<in> set xs. P x y"
  and list_all2_set1: "list_all2 P xs ys \<Longrightarrow> x \<in> set xs \<Longrightarrow> \<exists>y \<in> set ys. P x y"
  by (induction xs ys rule: list_all2_induct) auto

lemma rows_move_member: "rows_move E N t t' \<Longrightarrow> r' \<in> set t' \<Longrightarrow> (\<exists>r \<in> set t. E r r') \<or> N r'"
proof -
  assume "rows_move E N t t'" and r': "r' \<in> set t'"
  then obtain xs ys where t': "t' = xs @ ys" "list_all2 E t xs" "list_all N ys" by (auto simp: rows_move_def)
  show ?thesis
  proof (cases "r' \<in> set xs")
    case True
    with t'(2) show ?thesis by (auto dest: list_all2_set2)
  next
    case False
    with r' t' show ?thesis by (auto simp: list_all_iff)
  qed
qed

lemma rows_move_old: "rows_move E N t t' \<Longrightarrow> r \<in> set t \<Longrightarrow> \<exists>r' \<in> set t'. E r r'"
  unfolding rows_move_def by (metis list_all2_set1 Un_iff set_append)

lemma evolves_refl: "sub_evolves r r"
  by (simp add: sub_evolves_def same_subscription_def)

lemma evolves_trans: "sub_evolves a b \<Longrightarrow> sub_evolves b c \<Longrightarrow> sub_evolves a c"
  by (auto simp: sub_evolves_def same_subscription_def)

lemma moved_evolves: "sub_moved user r r' \<Longrightarrow> sub_evolves r r'"
  by (auto simp: sub_moved_def evolves_refl)

lemma sub_moved_refl: "sub_moved user r r"
  by (simp add: sub_moved_def)

lemma sub_moved_trans:
  assumes ab: "sub_moved user a b" and bc: "sub_moved user b c"
  shows "sub_moved user a c"
proof (cases "b = a \<or> c = b")
  case False
  with ab bc have acc: "has_tenant_access user (sub_tenant_id a)" and ev: "sub_evolves a b" "sub_evolves b c"
    by (auto simp: sub_moved_def)
  from ev have same: "sub_tenant_id b = sub_tenant_id a" "sub_subscriber_id b = sub_subscriber_id a"
    and stays: "sub_status b = SUB_REVOKED \<Longrightarrow> sub_status c = SUB_REVOKED"
    by (auto simp: sub_evolves_def same_subscription_def dest: revoked_stays)
  from evolves_trans [OF ev] acc same stays ab bc False show ?thesis unfolding sub_moved_def by metis
qed (use ab bc in auto)

lemma new_moved: "sub_new user a \<Longrightarrow> sub_moved user a b \<Longrightarrow> sub_new user b"
  by (auto simp: sub_new_def sub_moved_def sub_evolves_def same_subscription_def)

definition subs_move :: "user \<Rightarrow> subscription list \<Rightarrow> subscription list \<Rightarrow> bool" where
  "subs_move user = rows_move (sub_moved user) (sub_new user)"

lemma subs_move_refl: "subs_move user t t"
  by (simp add: subs_move_def rows_move_refl sub_moved_refl)

lemma subs_move_trans: "subs_move user t u \<Longrightarrow> subs_move user u v \<Longrightarrow> subs_move user t v"
  unfolding subs_move_def by (rule rows_move_trans [OF sub_moved_trans new_moved])

section \<open>Triples\<close>

abbreviation subs :: "portal \<Rightarrow> subscription list" where
  "subs p \<equiv> tb_subscriptions (po_tables p)"

definition unique_ids :: "subscription list \<Rightarrow> bool" where
  "unique_ids t = distinct (map sub_id t)"

definition holding :: "subscription \<Rightarrow> subscription list \<Rightarrow> bool" where
  "holding s t \<longleftrightarrow> s \<in> set t \<and> unique_ids t"

definition keeps ::
    "(subscription list \<Rightarrow> subscription list \<Rightarrow> bool) \<Rightarrow> (subscription list \<Rightarrow> bool) \<Rightarrow> 'a portal_action \<Rightarrow>
     ('a \<Rightarrow> subscription list \<Rightarrow> bool) \<Rightarrow> bool" where
  "keeps R P m Q \<longleftrightarrow> (\<forall>p r p'. P (subs p) \<longrightarrow> m p = (r, p') \<longrightarrow>
     R (subs p) (subs p') \<and> po_committed p' = po_committed p \<and> unique_ids (subs p') \<and> (\<forall>x. r = Inr x \<longrightarrow> Q x (subs p')))"

lemma keepsD:
  assumes "keeps R P m Q" and "P (subs p)" and "m p = (r, p')"
  shows "R (subs p) (subs p')" and "po_committed p' = po_committed p" and "unique_ids (subs p')"
    and "r = Inr x \<Longrightarrow> Q x (subs p')"
  using assms by (auto simp: keeps_def)

lemma keeps_weaken:
  assumes "keeps R P' m Q'" and "\<And>t. P t \<Longrightarrow> P' t" and "\<And>x t. Q' x t \<Longrightarrow> Q x t"
  shows "keeps R P m Q"
  using assms unfolding keeps_def by metis

lemma keeps_fact: "(F \<Longrightarrow> keeps R P m Q) \<Longrightarrow> keeps R (\<lambda>t. P t \<and> F) m Q"
  unfolding keeps_def by blast

lemma keeps_if: "(b \<Longrightarrow> keeps R P m Q) \<Longrightarrow> (\<not> b \<Longrightarrow> keeps R P n Q) \<Longrightarrow> keeps R P (if b then m else n) Q"
  by simp

lemma keeps_option:
  "(v = None \<Longrightarrow> keeps R P m Q) \<Longrightarrow> (\<And>x. v = Some x \<Longrightarrow> keeps R P (k x) Q) \<Longrightarrow>
   keeps R P (case v of None \<Rightarrow> m | Some x \<Rightarrow> k x) Q"
  by (cases v) auto

lemma holding_unique [simp]: "holding s t \<Longrightarrow> unique_ids t"
  by (simp add: holding_def)

text \<open>An action that reads, draws or notifies leaves the subscriptions and what is committed.\<close>

definition quiet :: "'a portal_action \<Rightarrow> bool" where
  "quiet m \<longleftrightarrow> (\<forall>p. subs (snd (m p)) = subs p \<and> po_committed (snd (m p)) = po_committed p)"

lemma quiet_relation: "state_relation (\<lambda>p p'. subs p' = subs p \<and> po_committed p' = po_committed p)"
  by unfold_locales auto

lemma quiet_within: "quiet m \<longleftrightarrow> acts_within (\<lambda>p p'. subs p' = subs p \<and> po_committed p' = po_committed p) m"
  by (simp add: quiet_def acts_within_def)

lemma quiet_bind: "quiet m \<Longrightarrow> (\<And>x. quiet (k x)) \<Longrightarrow> quiet (bindA m k)"
  unfolding quiet_within by (rule state_relation.steps_bindA [OF quiet_relation])

lemma quiet_catch: "quiet m \<Longrightarrow> (\<And>e. quiet (h e)) \<Longrightarrow> quiet (catchA m c h)"
  unfolding quiet_within by (rule state_relation.steps_catchA [OF quiet_relation])

lemma quiet_forA: "(\<And>x. x \<in> set xs \<Longrightarrow> quiet (f x)) \<Longrightarrow> quiet (forA xs f)"
  unfolding quiet_within by (rule state_relation.steps_forA [OF quiet_relation])

lemma quiet_if: "quiet m \<Longrightarrow> quiet n \<Longrightarrow> quiet (if b then m else n)"
  by simp

lemma quiet_option: "quiet m \<Longrightarrow> (\<And>x. quiet (k x)) \<Longrightarrow> quiet (case v of None \<Rightarrow> m | Some x \<Rightarrow> k x)"
  by (cases v) simp_all

lemmas quiet_rules = quiet_bind quiet_catch quiet_forA quiet_if quiet_option

lemma quiet_basic [simp]:
  "quiet (retA x)" "quiet (raiseA e)" "quiet (getA f)" "quiet (on_world m)" "quiet (select_one q)" "quiet (select_rows g)"
  "quiet (create_task j)" "quiet (refuse c t)" "quiet (allow a)" "quiet token_hex"
  by (auto simp: quiet_def on_world_def select_one_def allow_def token_hex_def split: prod.splits sum.splits)

text \<open>A relation on the rows that actions stay within, and the rules of the triples over it.\<close>

locale row_relation =
  fixes R :: "subscription list \<Rightarrow> subscription list \<Rightarrow> bool"
  assumes row_refl: "R t t" and row_trans: "R t u \<Longrightarrow> R u v \<Longrightarrow> R t v"
begin

lemma keeps_bind:
  assumes m: "keeps R P m Q" and k: "\<And>x. keeps R (Q x) (k x) S"
  shows "keeps R P (bindA m k) S"
  unfolding keeps_def
proof (intro allI impI)
  fix p r p'
  assume P: "P (subs p)" and run: "bindA m k p = (r, p')"
  obtain r1 p1 where first: "m p = (r1, p1)" by (cases "m p")
  note one = keepsD [OF m P first]
  show "R (subs p) (subs p') \<and> po_committed p' = po_committed p \<and> unique_ids (subs p') \<and>
     (\<forall>x. r = Inr x \<longrightarrow> S x (subs p'))"
  proof (cases r1)
    case (Inl e)
    with first run one show ?thesis by (auto simp: bindA_def)
  next
    case (Inr x)
    with first run have second: "k x p1 = (r, p')" by (simp add: bindA_def)
    note two = keepsD [OF k one(4) [OF Inr] second]
    from two(1-3) one(1,2) two(4) show ?thesis by (auto intro: row_trans)
  qed
qed

lemma keeps_catch:
  assumes m: "keeps R P m Q" and h: "\<And>e. keeps R unique_ids (h e) Q"
  shows "keeps R P (catchA m c h) Q"
  unfolding keeps_def
proof (intro allI impI)
  fix p r p'
  assume P: "P (subs p)" and run: "catchA m c h p = (r, p')"
  obtain r1 p1 where first: "m p = (r1, p1)" by (cases "m p")
  note one = keepsD [OF m P first]
  show "R (subs p) (subs p') \<and> po_committed p' = po_committed p \<and> unique_ids (subs p') \<and>
     (\<forall>x. r = Inr x \<longrightarrow> Q x (subs p'))"
  proof (cases "\<exists>e. r1 = Inl e \<and> c e")
    case True
    then obtain e where e: "r1 = Inl e" "c e" by blast
    with first run have second: "h e p1 = (r, p')" by (simp add: catchA_def)
    note two = keepsD [OF h one(3) second]
    from two(1-3) one(1,2) two(4) show ?thesis by (auto intro: row_trans)
  next
    case False
    with first run have "r = r1" "p' = p1" by (auto simp: catchA_def split: sum.splits)
    with one show ?thesis by auto
  qed
qed

lemma keeps_quiet: "quiet m \<Longrightarrow> (\<And>t. P t \<Longrightarrow> unique_ids t) \<Longrightarrow> (\<And>x t. P t \<Longrightarrow> Q x t) \<Longrightarrow> keeps R P m Q"
  unfolding keeps_def quiet_def by (metis snd_conv row_refl)

lemma keeps_ret: "(\<And>t. P t \<Longrightarrow> unique_ids t) \<Longrightarrow> (\<And>t. P t \<Longrightarrow> Q x t) \<Longrightarrow> keeps R P (retA x) Q"
  by (auto simp: keeps_def row_refl)

lemma keeps_after_quiet: "quiet m \<Longrightarrow> (\<And>t. P t \<Longrightarrow> unique_ids t) \<Longrightarrow> (\<And>x. keeps R P (k x) Q) \<Longrightarrow> keeps R P (bindA m k) Q"
  by (rule keeps_bind [where Q = "\<lambda>_. P"]) (auto intro: keeps_quiet)

lemma keeps_refuse: "(\<And>t. P t \<Longrightarrow> unique_ids t) \<Longrightarrow> keeps R P (refuse c d) Q"
  and keeps_raise: "(\<And>t. P t \<Longrightarrow> unique_ids t) \<Longrightarrow> keeps R P (raiseA e) Q"
  by (auto simp: keeps_def row_refl)

lemma keeps_forA: "(\<And>x. keeps R unique_ids (f x) (\<lambda>_. unique_ids)) \<Longrightarrow> keeps R unique_ids (forA xs f) (\<lambda>_. unique_ids)"
proof (induction xs)
  case (Cons x xs)
  then show ?case
    unfolding forA.simps by (intro keeps_bind [where Q = "\<lambda>_. unique_ids"]) (auto intro: keeps_quiet)
qed (auto intro: keeps_quiet)

lemma keeps_save:
  assumes "sub_id s' = sub_id s" and "\<And>t. holding s t \<Longrightarrow> R t (map (\<lambda>r. if sub_id r = sub_id s' then s' else r) t)"
  shows "keeps R (holding s) (save_subscription s') (\<lambda>x t. holding x t \<and> x = s')"
proof -
  have ids: "map sub_id (map (\<lambda>r. if sub_id r = sub_id s' then s' else r) t) = map sub_id t" for t by simp
  have unique: "unique_ids t \<Longrightarrow> unique_ids (map (\<lambda>r. if sub_id r = sub_id s' then s' else r) t)" for t
    unfolding unique_ids_def ids .
  have "holding s' (map (\<lambda>r. if sub_id r = sub_id s' then s' else r) t)" if "holding s t" for t
    using that unique by (auto simp: holding_def assms(1) intro!: image_eqI)
  with assms(2) unique show ?thesis
    by (auto simp: keeps_def save_subscription_def put_subscription_def bindA_def)
qed

lemma keeps_update_status:
  assumes "\<And>now later t. holding s t \<Longrightarrow>
     R t (map (\<lambda>r. if sub_id r = sub_id s then status_updated st reason act now later s else r) t)"
  shows "keeps R (holding s) (update_status s st reason act) holding"
proof -
  have id: "sub_id (status_updated st reason act now later s) = sub_id s" for now later
    by (simp add: status_updated_def Let_def split: subscription_status.split)
  show ?thesis
    unfolding update_status_def
    by (intro keeps_after_quiet keeps_weaken [OF keeps_save]) (auto simp: id intro: assms)
qed

lemma keeps_if_found:
  assumes "keeps R unique_ids m Q" and "\<And>s. keeps R (holding s) (k s) Q"
  shows "keeps R unique_ids (bindA (get_subscription_by_id i) (\<lambda>found. case found of None \<Rightarrow> m | Some s \<Rightarrow> k s)) Q"
proof (rule keeps_bind)
  show "keeps R unique_ids (get_subscription_by_id i) (\<lambda>found t. unique_ids t \<and> (\<forall>s. found = Some s \<longrightarrow> s \<in> set t))"
    by (auto simp: keeps_def get_subscription_by_id_def select_one_def row_refl
        dest: scalar_one_or_none_in split: sum.splits)
  show "keeps R (\<lambda>t. unique_ids t \<and> (\<forall>s. found = Some s \<longrightarrow> s \<in> set t)) (case found of None \<Rightarrow> m | Some s \<Rightarrow> k s) Q" for found
    by (cases found) (auto intro: keeps_weaken [OF assms(1)] keeps_weaken [OF assms(2)] simp: holding_def)
qed

lemma keeps_found: "keeps R unique_ids (subscription_or_404 i) holding"
  unfolding subscription_or_404_def by (rule keeps_if_found) (auto intro: keeps_refuse keeps_ret)

end

section \<open>What the handlers are made of\<close>

lemma held_row: "holding s t \<Longrightarrow> r \<in> set t \<Longrightarrow> sub_id r = sub_id s \<Longrightarrow> r = s"
  by (auto simp: holding_def unique_ids_def distinct_map dest: inj_onD)

lemma status_updated_fields [simp]:
  "same_subscription s (status_updated st reason act now later s)"
  "sub_status (status_updated st reason act now later s) = st"
  "sub_ttl_extension_count (status_updated st reason act now later s) = sub_ttl_extension_count s"
  "sub_ttl_total_extended_days (status_updated st reason act now later s) = sub_ttl_total_extended_days s"
  by (simp_all add: status_updated_def same_subscription_def Let_def split: subscription_status.split)

lemma sub_status_moved:
  assumes "status_edge (sub_status s) st" and "has_tenant_access user (sub_tenant_id s)"
    and "has_tenant_admin_access user (sub_tenant_id s) \<or> sub_subscriber_id s = u_id user \<and> st = SUB_REVOKED"
  shows "sub_moved user s (status_updated st reason act now later s)"
  using assms by (simp add: sub_moved_def sub_evolves_def ttl_ok_def r_into_rtranclp)

lemma emits_quiet [simp]: "quiet (emit_subscription_event e s d)"
proof -
  have "quiet (record_delivery s e pl w)" for pl w
    by (simp add: quiet_def record_delivery_def Let_def bindA_def)
  then show ?thesis
    unfolding emit_subscription_event_def dispatch_event_def list_webhooks_def Let_def by (intro quiet_rules) simp_all
qed

lemma respond_quiet [simp]: "quiet (respond s)"
  by (simp add: respond_def)

lemma scoped_quiet [simp]: "quiet (scoped_user user)"
  unfolding scoped_user_def by (intro quiet_rules) simp_all

lemma rotation_quiet [simp]: "quiet (no_rotation_running s)" "quiet (generate_key hst p)"
  unfolding no_rotation_running_def generate_key_def Let_def by (intro quiet_rules | simp)+

lemma create_quiet [simp]: "quiet (application_of a)" "quiet (oauth_client_of app)" "quiet (should_auto_approve user p)"
    "quiet (get_by_application_and_api a api)" "quiet (provision_inline s)"
  unfolding application_of_def oauth_client_of_def should_auto_approve_def get_application_by_id_def get_plan_by_id_def
    get_by_application_and_api_def provision_inline_def
  by (intro quiet_rules | simp)+

text \<open>The two relations the handlers stay within: \<open>subs_move\<close>, and changes of the one row a request has created.\<close>

definition touching :: "user \<Rightarrow> uuid \<Rightarrow> subscription list \<Rightarrow> subscription list \<Rightarrow> bool" where
  "touching user i = rows_move (\<lambda>a b. b = a \<or> sub_id a = i \<and> sub_id b = i \<and> (sub_new user a \<longrightarrow> sub_new user b)) (\<lambda>_. False)"

interpretation moving: row_relation "subs_move user" for user
  by unfold_locales (rule subs_move_refl, rule subs_move_trans)

interpretation fresh: row_relation "touching user i" for user i
proof unfold_locales
  show "touching user i t t" for t by (simp add: touching_def rows_move_refl)
  show "touching user i t u \<Longrightarrow> touching user i u v \<Longrightarrow> touching user i t v" for t u v
    unfolding touching_def by (rule rows_move_trans) auto
qed

lemma touching_fresh:
  assumes "touching user (sub_id s) (t @ [s]) u" and "unique_ids (t @ [s])" and "sub_new user s"
  shows "subs_move user t u"
proof -
  let ?E = "\<lambda>a b. b = a \<or> sub_id a = sub_id s \<and> sub_id b = sub_id s \<and> (sub_new user a \<longrightarrow> sub_new user b)"
  from assms(1) have "list_all2 ?E (t @ [s]) u" by (auto simp: touching_def rows_move_def list.pred_set)
  then obtain xs y where u: "u = xs @ [y]" and t: "list_all2 ?E t xs" and y: "?E s y"
    by (auto simp: list_all2_append1 list_all2_Cons1)
  have "sub_id r \<noteq> sub_id s" if "r \<in> set t" for r
    using assms(2) imageI [OF that, of sub_id] by (auto simp: unique_ids_def)
  with t have "list_all2 (sub_moved user) t xs"
    by (induction rule: list_all2_induct) (auto simp: sub_moved_refl)
  moreover from y assms(3) have "sub_new user y" by auto
  ultimately show ?thesis unfolding subs_move_def using u by (intro rows_moveI [of _ xs "[y]"]) simp_all
qed

lemma moved_map:
  assumes "holding s t" and "sub_moved user s s'" and "sub_id s' = sub_id s"
  shows "subs_move user t (map (\<lambda>r. if sub_id r = sub_id s' then s' else r) t)"
  unfolding subs_move_def by (rule rows_move_map) (use assms in \<open>auto simp: sub_moved_refl dest: held_row\<close>)

lemma touching_map:
  assumes "holding s t" and "sub_new user s \<Longrightarrow> sub_new user s'" and "sub_id s' = sub_id s"
  shows "touching user (sub_id s) t (map (\<lambda>r. if sub_id r = sub_id s' then s' else r) t)"
  unfolding touching_def by (rule rows_move_map) (use assms in \<open>auto dest: held_row\<close>)

section \<open>The handlers\<close>

context row_relation begin

lemma keeps_allow:
  assumes "\<And>t. P t \<Longrightarrow> unique_ids t" and "\<And>x. r = Inr x \<Longrightarrow> keeps R P (k x) Q"
  shows "keeps R P (bindA (allow r) k) Q"
proof (cases r)
  case (Inl e)
  then have "bindA (allow r) k = raiseA (Refused e)" by (simp add: allow_def bindA_def fun_eq_iff)
  then show ?thesis using keeps_raise assms(1) by metis
next
  case (Inr x)
  then have "bindA (allow r) k = k x" by (simp add: allow_def bindA_def fun_eq_iff)
  with assms(2) [OF Inr] show ?thesis by simp
qed

text \<open>What the checks of a handler say of the row they hand on.\<close>

lemma keeps_readable: "keeps R unique_ids (readable_subscription user i)
    (\<lambda>s t. holding s t \<and> has_tenant_access user (sub_tenant_id s))"
  unfolding readable_subscription_def
proof (intro keeps_after_quiet [OF scoped_quiet] keeps_bind [OF keeps_found] keeps_if)
  show "\<not> \<not> has_tenant_access user (sub_tenant_id s) \<Longrightarrow> keeps R (holding s) (retA s)
      (\<lambda>s t. holding s t \<and> has_tenant_access user (sub_tenant_id s))" for s
    by (rule keeps_ret) auto
qed (auto intro: keeps_refuse)

lemma keeps_administered: "keeps R unique_ids (administered_subscription user i)
    (\<lambda>s t. holding s t \<and> has_tenant_admin_access user (sub_tenant_id s))"
  unfolding administered_subscription_def
proof (intro keeps_after_quiet [OF scoped_quiet] keeps_bind [OF keeps_found] keeps_if)
  show "\<not> \<not> has_tenant_admin_access user (sub_tenant_id s) \<Longrightarrow> keeps R (holding s) (retA s)
      (\<lambda>s t. holding s t \<and> has_tenant_admin_access user (sub_tenant_id s))" for s
    by (rule keeps_ret) auto
qed (auto intro: keeps_refuse)

text \<open>What follows the last write of a handler.\<close>

lemma keeps_rest: "quiet m \<Longrightarrow> keeps R (holding s) m (\<lambda>_. unique_ids)"
  by (rule keeps_quiet) auto

end

lemma administered_access: "has_tenant_admin_access user t \<Longrightarrow> has_tenant_access user t"
  by (simp add: has_tenant_admin_access_def)

text \<open>A status update of a row the user may move it for, and whatever is said about it afterwards.\<close>

lemma status_keeps:
  assumes "status_edge (sub_status s) st" and "has_tenant_access user (sub_tenant_id s)"
    and "has_tenant_admin_access user (sub_tenant_id s) \<or> sub_subscriber_id s = u_id user \<and> st = SUB_REVOKED"
    and "\<And>s'. quiet (k s')"
  shows "keeps (subs_move user) (holding s) (bindA (update_status s st reason act) k) (\<lambda>_. unique_ids)"
proof (rule moving.keeps_bind [OF moving.keeps_update_status])
  fix now later t
  let ?s = "status_updated st reason act now later s"
  have "sub_id ?s = sub_id s" by (simp add: status_updated_def Let_def split: subscription_status.split)
  then show "holding s t \<Longrightarrow> subs_move user t (map (\<lambda>r. if sub_id r = sub_id s then ?s else r) t)"
    using moved_map [of s t user ?s] sub_status_moved [OF assms(1-3)] by simp
qed (rule moving.keeps_rest [OF assms(4)])

lemma cancel_keeps: "keeps (subs_move user) unique_ids (cancel_subscription user i) (\<lambda>_. unique_ids)"
  unfolding cancel_subscription_def
proof (intro moving.keeps_after_quiet [OF scoped_quiet] moving.keeps_bind [OF moving.keeps_found] moving.keeps_allow keeps_if)
  fix s x
  assume "decide_tenant_access user (Some (sub_tenant_id s)) ''resource'' = Inr x" and "\<not> sub_subscriber_id s \<noteq> u_id user"
    and "\<not> \<not> holds_place s"
  then show "keeps (subs_move user) (holding s)
      (bindA (update_status s SUB_REVOKED (Some ''Cancelled by subscriber'') (Some (u_id user))) (\<lambda>_. retA ())) (\<lambda>_. unique_ids)"
    by (intro status_keeps) (auto simp: holds_place_def has_tenant_access_def intro: status_edge.intros)
qed (auto intro: moving.keeps_refuse)

(*REST*)
text \<open>A row with new values is saved and the rest of the handler is quiet.\<close>

lemma save_keeps:
  assumes "sub_moved user s s'" and "sub_id s' = sub_id s" and "\<And>x. quiet (k x)"
  shows "keeps (subs_move user) (holding s) (bindA (save_subscription s') k) (\<lambda>_. unique_ids)"
proof (rule moving.keeps_bind [OF moving.keeps_save [OF assms(2)]])
  show "holding s t \<Longrightarrow> subs_move user t (map (\<lambda>r. if sub_id r = sub_id s' then s' else r) t)" for t
    by (rule moved_map [OF _ assms(1,2)])
  show "keeps (subs_move user) (\<lambda>t. holding x t \<and> x = s') (k x) (\<lambda>_. unique_ids)" for x
    by (rule moving.keeps_quiet [OF assms(3)]) auto
qed

lemma kept_moved:
  assumes "has_tenant_access user (sub_tenant_id s)" and "same_subscription s s'" and "sub_status s' = sub_status s"
    and "sub_ttl_extension_count s' = sub_ttl_extension_count s" and "sub_ttl_total_extended_days s' = sub_ttl_total_extended_days s"
  shows "sub_moved user s s'"
  using assms by (simp add: sub_moved_def sub_evolves_def ttl_ok_def)

lemma rotate_key_keeps:
  assumes "has_tenant_access user (sub_tenant_id s)" and "\<And>x. quiet (k x)"
  shows "keeps (subs_move user) (holding s) (bindA (rotate_key s h px hours) k) (\<lambda>_. unique_ids)"
  unfolding rotate_key_def bindA_simps(5)
proof (rule moving.keeps_after_quiet)
  fix now
  show "keeps (subs_move user) (holding s)
      (bindA (case dt_add now (hours * 3600000000) of None \<Rightarrow> raiseA OverflowError
         | Some g \<Rightarrow> save_subscription (rotated h px now g s)) k) (\<lambda>_. unique_ids)"
  proof (cases "dt_add now (hours * 3600000000)")
    case (Some g)
    have "sub_moved user s (rotated h px now g s)"
      using assms(1) by (rule kept_moved) (simp_all add: rotated_def same_subscription_def)
    moreover have "sub_id (rotated h px now g s) = sub_id s" by (simp add: rotated_def)
    ultimately show ?thesis using Some assms(2) by (simp add: save_keeps)
  qed (simp add: bindA_def moving.row_refl keeps_def)
qed simp_all

lemma write_key_keeps:
  assumes "has_tenant_access user (sub_tenant_id s)"
  shows "keeps (subs_move user) (holding s) (write_new_key s hours generated) (\<lambda>_. unique_ids)"
  by (cases generated) (auto intro!: rotate_key_keeps assms quiet_rules)

lemma rotate_keeps: "keeps (subs_move user) unique_ids (rotate_api_key hst user i hours) (\<lambda>_. unique_ids)"
  unfolding rotate_api_key_def
  by (intro moving.keeps_bind [OF moving.keeps_readable] keeps_fact keeps_if moving.keeps_after_quiet [OF rotation_quiet(1)]
      moving.keeps_after_quiet [OF rotation_quiet(2)] moving.keeps_catch write_key_keeps)
    (auto intro: moving.keeps_refuse)

lemma bindA_retA: "bindA m retA = m"
  by (rule ext) (simp add: bindA_def split: prod.split sum.split)

lemma extended_moved:
  assumes "has_tenant_access user (sub_tenant_id s)" and "days \<in> {7, 14}" and "sub_ttl_extension_count s < MAX_TTL_EXTENSIONS"
  shows "sub_moved user s (extended t days now s)"
proof -
  have "ttl_ok s \<Longrightarrow> ttl_ok (extended t days now s)"
    using assms(2,3) by (auto simp: ttl_ok_def extended_def)
  then show ?thesis
    using assms(1) by (simp add: sub_moved_def sub_evolves_def same_subscription_def extended_def)
qed

lemma extend_keeps:
  assumes days: "days \<in> {7, 14}"
  shows "keeps (subs_move user) unique_ids (extend_row user i days) (\<lambda>_. unique_ids)"
  unfolding extend_row_def
proof (intro moving.keeps_bind [OF moving.keeps_readable] keeps_fact keeps_if keeps_option moving.keeps_after_quiet [OF quiet_basic(4)])
  fix s :: subscription and e new now
  assume acc: "has_tenant_access user (sub_tenant_id s)" and count: "\<not> MAX_TTL_EXTENSIONS \<le> sub_ttl_extension_count s"
  have "sub_moved user s (extended new days now s)" using extended_moved [OF acc days] count by simp
  moreover have "sub_id (extended new days now s) = sub_id s" by (simp add: extended_def)
  ultimately show "keeps (subs_move user) (holding s) (save_subscription (extended new days now s)) (\<lambda>_. unique_ids)"
    using save_keeps [of user s "extended new days now s" retA] by (simp add: bindA_retA)
qed (auto intro: moving.keeps_refuse moving.keeps_raise)

lemma decided_keeps:
  assumes "status_edge (sub_status s) st" and "has_tenant_admin_access user (sub_tenant_id s)" and "\<And>s'. quiet (k s')"
  shows "keeps (subs_move user) (holding s) (bindA (update_status s st reason act) k) (\<lambda>_. unique_ids)"
  using assms by (intro status_keeps) (auto intro: administered_access)

lemma expiration_keeps:
  fixes s :: subscription
  assumes "has_tenant_access user (sub_tenant_id s)"
  shows "keeps (subs_move user) (holding s) (set_expiration s t)
    (\<lambda>x u. holding x u \<and> sub_status x = sub_status s \<and> sub_tenant_id x = sub_tenant_id s)"
  unfolding set_expiration_def
proof (rule moving.keeps_after_quiet)
  fix now
  let ?s = "s\<lparr>sub_expires_at := t, sub_updated_at := now\<rparr>"
  have "sub_moved user s ?s" using assms by (rule kept_moved) (simp_all add: same_subscription_def)
  then have "\<And>u. holding s u \<Longrightarrow> subs_move user u (map (\<lambda>r. if sub_id r = sub_id ?s then ?s else r) u)"
    using moved_map [of s _ user ?s] by simp
  then show "keeps (subs_move user) (holding s) (save_subscription ?s)
      (\<lambda>x u. holding x u \<and> sub_status x = sub_status s \<and> sub_tenant_id x = sub_tenant_id s)"
    by (intro keeps_weaken [OF moving.keeps_save]) auto
qed simp_all

lemma approved_row_keeps:
  assumes s: "has_tenant_admin_access user (sub_tenant_id s)" "sub_status s = SUB_PENDING" and k: "\<And>x. quiet (k x)"
  shows "keeps (subs_move user) (holding s) (bindA (if t = None then retA s else set_expiration s t)
     (\<lambda>s1. bindA (update_status s1 SUB_ACTIVE None act) k)) (\<lambda>_. unique_ids)"
proof (rule moving.keeps_bind)
  let ?Q = "\<lambda>x u. holding x u \<and> sub_status x = sub_status s \<and> sub_tenant_id x = sub_tenant_id s"
  show "keeps (subs_move user) (holding s) (if t = None then retA s else set_expiration s t) ?Q"
    using s by (intro keeps_if expiration_keeps moving.keeps_ret) (auto intro: administered_access)
  show "keeps (subs_move user) (?Q s1) (bindA (update_status s1 SUB_ACTIVE None act) k) (\<lambda>_. unique_ids)" for s1
    using s k by (intro keeps_fact decided_keeps) (auto intro: status_edge.intros)
qed

lemma approve_keeps: "keeps (subs_move user) unique_ids (approve_subscription user i t) (\<lambda>_. unique_ids)"
  unfolding approve_subscription_def
  by (intro moving.keeps_bind [OF moving.keeps_administered] keeps_fact keeps_if approved_row_keeps)
    (auto intro!: quiet_rules intro: moving.keeps_refuse)

text \<open>The actions of an administrator that check the status and write a new one.\<close>

lemma decision_keeps:
  assumes "\<And>s. \<not> wrong s \<Longrightarrow> status_edge (sub_status s) st" and "\<And>s s'. quiet (k s s')"
  shows "keeps (subs_move user) unique_ids (bindA (administered_subscription user i) (\<lambda>s.
     if wrong s then refuse 400 (msg s) else bindA (update_status s st reason act) (k s))) (\<lambda>_. unique_ids)"
proof (intro moving.keeps_bind [OF moving.keeps_administered] keeps_fact keeps_if)
  show "keeps (subs_move user) (holding s) (bindA (update_status s st reason act) (k s)) (\<lambda>_. unique_ids)"
    if "has_tenant_admin_access user (sub_tenant_id s)" and "\<not> wrong s" for s
    using assms that by (intro decided_keeps) simp_all
qed (auto intro: moving.keeps_refuse)

lemma revoke_keeps: "keeps (subs_move user) unique_ids (revoke_subscription user i reason) (\<lambda>_. unique_ids)"
  unfolding revoke_subscription_def by (rule decision_keeps) (auto intro!: quiet_rules intro: status_edge.intros)

lemma suspend_keeps: "keeps (subs_move user) unique_ids (suspend_subscription user i body) (\<lambda>_. unique_ids)"
  and reactivate_keeps: "keeps (subs_move user) unique_ids (reactivate_subscription user i body) (\<lambda>_. unique_ids)"
  unfolding suspend_subscription_def reactivate_subscription_def
  by (rule decision_keeps; auto intro: status_edge.intros)+

lemma reject_keeps: "keeps (subs_move user) unique_ids (reject_subscription user i reason) (\<lambda>_. unique_ids)"
  unfolding reject_subscription_def by (rule decision_keeps) (auto intro!: quiet_rules intro: status_edge.intros)

lemma bulk_keeps: "keeps (subs_move user) unique_ids (bulk_one user action reason i) (\<lambda>_. unique_ids)"
  unfolding bulk_one_def
  by (cases action; intro moving.keeps_catch moving.keeps_if_found keeps_if)
    (auto intro!: decided_keeps quiet_rules intro: moving.keeps_quiet status_edge.intros)

lemma bulk_action_keeps: "keeps (subs_move user) unique_ids (bulk_subscription_action user is action reason) (\<lambda>_. unique_ids)"
  unfolding bulk_subscription_action_def
  by (intro moving.keeps_after_quiet [OF scoped_quiet] keeps_if moving.keeps_bind [OF moving.keeps_forA [OF bulk_keeps]])
    (auto intro: moving.keeps_refuse moving.keeps_quiet)

section \<open>Subscribing\<close>

lemma fresh_status:
  assumes "sub_new user s" and "\<And>s'. quiet (k s')"
  shows "keeps (touching user (sub_id s)) (holding s) (bindA (update_status s st reason act) k) (\<lambda>_. unique_ids)"
proof (rule fresh.keeps_bind [OF fresh.keeps_update_status])
  fix now later t
  let ?s = "status_updated st reason act now later s"
  have "sub_id ?s = sub_id s" and "sub_new user ?s"
    using status_updated_fields(1) [of s st reason act now later] assms(1)
    by (auto simp: same_subscription_def sub_new_def ttl_ok_def)
  then show "holding s t \<Longrightarrow> touching user (sub_id s) t (map (\<lambda>r. if sub_id r = sub_id s then ?s else r) t)"
    using touching_map [of s t user ?s] by simp
qed (rule fresh.keeps_rest [OF assms(2)])

lemma auto_approve_keeps:
  assumes "sub_new user s"
  shows "keeps (touching user (sub_id s)) (holding s) (auto_approve s) (\<lambda>_. unique_ids)"
  unfolding auto_approve_def using assms
  by (intro fresh.keeps_catch fresh_status) (auto intro!: quiet_rules intro: fresh.keeps_quiet)

text \<open>The new row stands at the end, under a key no row has; then only that row is touched.\<close>

lemma create_row_run:
  fixes p :: portal and build :: "uuid \<Rightarrow> datetime \<Rightarrow> datetime \<Rightarrow> subscription"
  defines "s \<equiv> build (uuid_source (po_world p) (uuids_used (po_world p))) (clock (po_world p) (ticks (po_world p)))
    (clock (po_world p) (Suc (ticks (po_world p))))"
  shows "create_subscription_row build p =
    (let w = (po_world p)\<lparr>uuids_used := Suc (uuids_used (po_world p)), ticks := Suc (Suc (ticks (po_world p)))\<rparr>
     in if fits sub_id (\<lambda>_ _. False) s (subs p)
        then (Inr s, p\<lparr>po_world := w, po_tables := (po_tables p)\<lparr>tb_subscriptions := subs p @ [s]\<rparr>\<rparr>)
        else (Inl (Crashed (IntegrityError ''subscriptions_pkey'')), p\<lparr>po_world := w\<rparr>))"
  by (simp add: s_def create_subscription_row_def bindA_def insert_row_fits Let_def)

lemma create_row_cases:
  assumes run: "create_subscription_row build p = (r, p')"
  obtains (refused) e where "r = Inl e" and "subs p' = subs p" and "po_committed p' = po_committed p"
  | (created) i c u where "r = Inr (build i c u)" and "subs p' = subs p @ [build i c u]" and "po_committed p' = po_committed p"
      and "sub_id (build i c u) \<notin> sub_id ` set (subs p)" and "po_jobs p' = po_jobs p"
      and "tb_plans (po_tables p') = tb_plans (po_tables p)"
proof -
  let ?i = "uuid_source (po_world p) (uuids_used (po_world p))" and ?c = "clock (po_world p) (ticks (po_world p))"
    and ?u = "clock (po_world p) (Suc (ticks (po_world p)))"
  show thesis
  proof (cases "fits sub_id (\<lambda>_ _. False) (build ?i ?c ?u) (subs p)")
    case True
    then have "sub_id (build ?i ?c ?u) \<notin> sub_id ` set (subs p)" by (auto simp: fits_def)
    with True run show thesis by (intro created [of ?i ?c ?u]) (auto simp: create_row_run Let_def)
  next
    case False
    with run show thesis by (intro refused) (auto simp: create_row_run Let_def)
  qed
qed

lemma inserted_keeps:
  assumes new: "\<And>i c u. sub_new user (build i c u)"
    and k: "\<And>s. sub_new user s \<Longrightarrow> keeps (touching user (sub_id s)) (holding s) (k s) (\<lambda>_. unique_ids)"
  shows "keeps (subs_move user) unique_ids
    (bindA (catchA (create_subscription_row build) (\<lambda>_. True) (\<lambda>_. refuse 500 d)) k) (\<lambda>_. unique_ids)"
  unfolding keeps_def
proof (intro allI impI)
  fix p r p'
  assume unique: "unique_ids (subs p)"
    and run: "bindA (catchA (create_subscription_row build) (\<lambda>_. True) (\<lambda>_. refuse 500 d)) k p = (r, p')"
  obtain r1 p1 where row: "create_subscription_row build p = (r1, p1)" by (cases "create_subscription_row build p")
  from row show "subs_move user (subs p) (subs p') \<and> po_committed p' = po_committed p \<and> unique_ids (subs p') \<and>
      (\<forall>x. r = Inr x \<longrightarrow> unique_ids (subs p'))"
  proof (cases rule: create_row_cases)
    case (refused e)
    with run row unique show ?thesis by (auto simp: bindA_def catchA_def subs_move_refl)
  next
    case (created i c u)
    let ?s = "build i c u"
    from created unique have ids: "unique_ids (subs p @ [?s])" by (auto simp: unique_ids_def)
    with created have held: "holding ?s (subs p1)" by (simp add: holding_def)
    from run row created have "k ?s p1 = (r, p')" by (simp add: bindA_def catchA_def)
    note K = keepsD [OF k [OF new] held this]
    from K(1) created(2) touching_fresh [OF _ ids new] have "subs_move user (subs p) (subs p')" by metis
    with K(2,3) created(3) show ?thesis by simp
  qed
qed

lemma admission_keeps: "keeps (subs_move user) unique_ids (admission user rq)
    (\<lambda>_ t. unique_ids t \<and> has_tenant_access user (sc_tenant_id rq))"
  unfolding admission_def
proof (intro moving.keeps_after_quiet [OF scoped_quiet] moving.keeps_allow moving.keeps_after_quiet [OF create_quiet(4)] keeps_option)
  fix x
  assume "decide_tenant_access user (Some (sc_tenant_id rq)) ''resource'' = Inr x"
  then show "keeps (subs_move user) unique_ids (bindA (application_of (sc_application_id rq)) oauth_client_of)
      (\<lambda>_ t. unique_ids t \<and> has_tenant_access user (sc_tenant_id rq))"
    by (intro moving.keeps_quiet quiet_rules) (simp_all add: has_tenant_access_def)
qed (auto intro: moving.keeps_refuse)

lemma create_keeps: "keeps (subs_move user) unique_ids (create_subscription user rq) (\<lambda>_. unique_ids)"
  unfolding create_subscription_def
proof (intro moving.keeps_bind [OF admission_keeps] keeps_fact)
  fix client
  assume "has_tenant_access user (sc_tenant_id rq)"
  then have new: "sub_new user (new_subscription user rq client i c u)" for i c u
    by (simp add: sub_new_def new_subscription_def ttl_ok_def MAX_TTL_EXTENSIONS_def)
  have approval: "keeps (touching user (sub_id s)) (holding s) (if auto then auto_approve s else retA s) (\<lambda>_. unique_ids)"
    if "sub_new user s" for s auto
    using that by (intro keeps_if auto_approve_keeps fresh.keeps_ret) simp_all
  show "keeps (subs_move user) unique_ids
      (bindA (catchA (create_subscription_row (new_subscription user rq client)) (\<lambda>_. True)
         (\<lambda>_. refuse 500 ''Failed to create subscription''))
       (\<lambda>s. bindA (emit_subscription_event ''subscription.created'' s []) (\<lambda>_. bindA (should_auto_approve user (sc_plan_id rq))
         (\<lambda>auto. bindA (if auto then auto_approve s else retA s) respond)))) (\<lambda>_. unique_ids)"
    by (intro inserted_keeps new fresh.keeps_after_quiet [OF emits_quiet] fresh.keeps_after_quiet [OF create_quiet(3)]
        fresh.keeps_bind [OF approval] fresh.keeps_quiet) simp_all
qed

section \<open>Requests\<close>

text \<open>
  An extension is by 7 or 14 days (\<open>Literal[7, 14]\<close>). The one handler that commits, the extension of a lifetime, does it
  last; the session of a request ends at rest, and an answer that is an error has no effect on the tables.
\<close>

fun request_ok :: "subscription_request \<Rightarrow> bool" where
  "request_ok (ExtendTtl i days) = (days \<in> {7, 14})"
| "request_ok _ = True"

definition at_rest :: "portal \<Rightarrow> bool" where
  "at_rest p \<longleftrightarrow> po_committed p = po_tables p \<and> unique_ids (subs p)"

lemma session_ends:
  assumes "at_rest p" and "keeps (subs_move user) unique_ids m (\<lambda>_. unique_ids)" and "with_session m p = (a, p')"
  shows "subs_move user (subs p) (subs p')" and "at_rest p'" and "isl a \<Longrightarrow> po_tables p' = po_tables p"
proof -
  obtain r p1 where run: "m p = (r, p1)" by (cases "m p")
  have "unique_ids (subs p)" using assms(1) by (simp add: at_rest_def)
  note K = keepsD [OF assms(2) this run]
  from assms(1,3) run K show "subs_move user (subs p) (subs p')" and "at_rest p'" and "isl a \<Longrightarrow> po_tables p' = po_tables p"
    by (auto simp: with_session_def at_rest_def subs_move_refl split: sum.splits)
qed

lemma session_extend:
  assumes "at_rest p"
  shows "with_session (ignoring (extend_subscription_ttl user i days)) p =
     with_session (ignoring (extend_row user i days)) p"
  by (simp add: with_session_def ignoring_def extend_subscription_ttl_def bindA_def split: prod.split sum.split)

lemma ignoring_keeps:
  "keeps (subs_move user) unique_ids m (\<lambda>_. unique_ids) \<Longrightarrow> keeps (subs_move user) unique_ids (ignoring m) (\<lambda>_. unique_ids)"
  unfolding ignoring_def by (rule moving.keeps_bind) (auto intro: moving.keeps_ret)

lemmas handler_keeps = create_keeps cancel_keeps rotate_keeps approve_keeps revoke_keeps suspend_keeps reactivate_keeps
  reject_keeps bulk_action_keeps

lemma handled_keeps:
  assumes "\<forall>i days. rq \<noteq> ExtendTtl i days"
  shows "keeps (subs_move user) unique_ids (handle_subscription hst user rq) (\<lambda>_. unique_ids)"
  using assms by (cases rq) (simp_all add: ignoring_keeps handler_keeps)

lemma request_body:
  assumes "at_rest p" and "request_ok rq"
  obtains m :: "unit portal_action" where "with_session (handle_subscription hst user rq) p = with_session m p"
    and "keeps (subs_move user) unique_ids m (\<lambda>_. unique_ids)"
proof (cases "\<exists>i days. rq = ExtendTtl i days")
  case True
  then obtain i days where rq: "rq = ExtendTtl i days" by blast
  with assms(2) have "keeps (subs_move user) unique_ids (ignoring (extend_row user i days)) (\<lambda>_. unique_ids)"
    by (intro ignoring_keeps extend_keeps) simp
  with rq that show thesis by (simp add: session_extend [OF assms(1)])
next
  case False
  then have "keeps (subs_move user) unique_ids (handle_subscription hst user rq) (\<lambda>_. unique_ids)"
    by (intro handled_keeps) blast
  then show thesis by (rule that [OF refl])
qed

lemma request_moves:
  assumes "at_rest p" and "request_ok rq" and run: "with_session (handle_subscription hst user rq) p = (a, p')"
  shows "subs_move user (subs p) (subs p')" and "at_rest p'" and "isl a \<Longrightarrow> po_tables p' = po_tables p"
proof -
  obtain m :: "unit portal_action" where m: "with_session (handle_subscription hst user rq) p = with_session m p"
    "keeps (subs_move user) unique_ids m (\<lambda>_. unique_ids)"
    by (rule request_body [OF assms(1,2)])
  note S = session_ends [OF assms(1) m(2) run [unfolded m(1)]]
  from S(1) show "subs_move user (subs p) (subs p')" .
  from S(2) show "at_rest p'" .
  from S(3) show "isl a \<Longrightarrow> po_tables p' = po_tables p" .
qed

end
