(* ===== verification/SubscriptionRuns.thy ===== *)
theory SubscriptionRuns
  imports SubscriptionFacts
begin

text \<open>
  The runs of the handlers: actions that only read, what an event leaves behind, and from these what a successful request
  has decided and written.
\<close>

section \<open>Reading and noting\<close>

interpretation reading: state_relation "\<lambda>p p' :: portal. p' = p"
  by unfold_locales simp_all

abbreviation reads :: "'a portal_action \<Rightarrow> bool" where
  "reads \<equiv> acts_within (\<lambda>p p'. p' = p)"

lemmas reads_rules = reading.steps_bindA reading.steps_catchA reading.steps_if reading.steps_option

lemma reads_basic [simp]:
  "reads (retA x)" "reads (raiseA e)" "reads (getA f)" "reads (refuse c t)" "reads (allow a)" "reads (select_one q)"
  "reads (select_rows g)"
  by (auto simp: acts_within_def allow_def select_one_def split: sum.splits)

lemma reads_bindE:
  assumes "reads m" and "bindA m k p = (Inr y, p')"
  obtains x where "m p = (Inr x, p)" and "k x p = (Inr y, p')"
  using assms by (cases rule: bindA_okE [OF assms(2)]) (auto dest: stepsD)

lemma reads_run: "reads m \<Longrightarrow> fst (m p) = Inr x \<Longrightarrow> bindA m k p = k x p"
  by (cases "m p") (auto simp: bindA_def dest: stepsD)

lemma create_reads [simp]: "reads (scoped_user user)" "reads (application_of a)" "reads (oauth_client_of app)"
    "reads (should_auto_approve user plan_id)" "reads (get_by_application_and_api a api)"
  unfolding scoped_user_def application_of_def oauth_client_of_def should_auto_approve_def get_application_by_id_def
    get_plan_by_id_def get_by_application_and_api_def
  by (intro reads_rules | simp)+

lemma admission_reads: "reads (admission user rq)"
  unfolding admission_def by (intro reads_rules | simp)+

text \<open>An event of a subscription adds delivery records, and takes identifiers and the time.\<close>

definition noted :: "portal \<Rightarrow> portal \<Rightarrow> bool" where
  "noted p p' \<longleftrightarrow> (\<exists>ds n k. p' = p\<lparr>po_tables := (po_tables p)\<lparr>tb_deliveries := ds\<rparr>,
     po_world := (po_world p)\<lparr>uuids_used := n, ticks := k\<rparr>\<rparr>)"

lemma noted_refl: "noted p p"
proof -
  have "p = p\<lparr>po_tables := (po_tables p)\<lparr>tb_deliveries := tb_deliveries (po_tables p)\<rparr>,
      po_world := (po_world p)\<lparr>uuids_used := uuids_used (po_world p), ticks := ticks (po_world p)\<rparr>\<rparr>" by simp
  then show ?thesis unfolding noted_def by blast
qed

interpretation noting: state_relation noted
proof unfold_locales
  show "noted p p" for p by (rule noted_refl)
  show "noted p q \<Longrightarrow> noted q r \<Longrightarrow> noted p r" for p q r
    by (auto simp: noted_def) blast
qed

lemma noted_fields:
  assumes "noted p p'"
  shows "subs p' = subs p" "po_jobs p' = po_jobs p" "po_committed p' = po_committed p" "tb_plans (po_tables p') = tb_plans (po_tables p)"
    "tb_applications (po_tables p') = tb_applications (po_tables p)" "clock (po_world p') = clock (po_world p)"
    "po_random p' = po_random p" "po_randoms_used p' = po_randoms_used p"
  using assms by (auto simp: noted_def)

lemma noted_basic: "acts_within noted utcnow" "acts_within noted (on_world uuid4A)"
  "acts_within noted (update_tables (\<lambda>t. t\<lparr>tb_deliveries := f t\<rparr>))"
  "acts_within noted (select_rows g)" "acts_within noted (retA x)"
proof -
  have tick: "noted p (p\<lparr>po_world := (po_world p)\<lparr>ticks := k\<rparr>\<rparr>)" for p k
    unfolding noted_def
    by (intro exI [of _ "tb_deliveries (po_tables p)"] exI [of _ "uuids_used (po_world p)"] exI [of _ k]) simp
  have draw: "noted p (p\<lparr>po_world := (po_world p)\<lparr>uuids_used := k\<rparr>\<rparr>)" for p k
    unfolding noted_def
    by (intro exI [of _ "tb_deliveries (po_tables p)"] exI [of _ k] exI [of _ "ticks (po_world p)"]) simp
  have deliver: "noted p (p\<lparr>po_tables := (po_tables p)\<lparr>tb_deliveries := ds\<rparr>\<rparr>)" for p ds
    unfolding noted_def
    by (intro exI [of _ ds] exI [of _ "uuids_used (po_world p)"] exI [of _ "ticks (po_world p)"]) simp
  show "acts_within noted utcnow" "acts_within noted (on_world uuid4A)"
    "acts_within noted (update_tables (\<lambda>t. t\<lparr>tb_deliveries := f t\<rparr>))" "acts_within noted (select_rows g)" "acts_within noted (retA x)"
    by (simp_all add: acts_within_def tick draw deliver noted_refl)
qed

lemma emits_noted: "acts_within noted (emit_subscription_event e s d)"
  unfolding emit_subscription_event_def dispatch_event_def list_webhooks_def record_delivery_def Let_def
  by (intro noting.steps_catchA noting.steps_bindA noting.steps_if noting.steps_forA noted_basic)

lemma emit_run:
  obtains p' where "emit_subscription_event e s d p = (Inr (), p')" and "noted p p'"
proof -
  obtain r p' where run: "emit_subscription_event e s d p = (r, p')" by (cases "emit_subscription_event e s d p")
  then have "r = Inr ()"
    by (auto simp: emit_subscription_event_def catchA_def bindA_def split: sum.splits prod.splits)
  with run emits_noted show thesis by (intro that) (auto dest: stepsD)
qed

lemma emit_bind:
  assumes "bindA (emit_subscription_event e s d) k p = (r, p')"
  obtains p1 where "noted p p1" and "k () p1 = (r, p')"
proof -
  obtain p1 where "emit_subscription_event e s d p = (Inr (), p1)" and "noted p p1" by (rule emit_run)
  with assms show thesis by (intro that [of p1]) (simp_all add: bindA_run)
qed

section \<open>Writing a status\<close>

definition saved :: "subscription \<Rightarrow> subscription list \<Rightarrow> subscription list" where
  "saved s t = map (\<lambda>r. if sub_id r = sub_id s then s else r) t"

lemma update_status_run:
  obtains now later p' where "update_status s st reason act p = (Inr (status_updated st reason act now later s), p')"
    and "subs p' = saved (status_updated st reason act now later s) (subs p)"
    and "po_jobs p' = po_jobs p" and "po_committed p' = po_committed p" and "tb_plans (po_tables p') = tb_plans (po_tables p)"
    and "clock (po_world p') = clock (po_world p)"
proof (cases "st \<in> {SUB_ACTIVE, SUB_REVOKED, SUB_REJECTED}")
  case True
  then show thesis
    by (intro that [of "clock (po_world p) (ticks (po_world p))" "clock (po_world p) (Suc (ticks (po_world p)))"
          "snd (update_status s st reason act p)"])
      (auto simp: update_status_def bindA_def save_subscription_def put_subscription_def saved_def)
next
  case False
  then show thesis
    by (intro that [of "clock (po_world p) (ticks (po_world p))" "clock (po_world p) (ticks (po_world p))"
          "snd (update_status s st reason act p)"])
      (auto simp: update_status_def bindA_def save_subscription_def put_subscription_def saved_def)
qed

text \<open>An approval by the system: the row becomes active, and a job is only started for a row that was already committed.\<close>

lemma auto_approve_run:
  assumes "sub_id s \<notin> sub_id ` set (tb_subscriptions (po_committed p))"
  obtains now later p' where
    "auto_approve s p = (Inr (status_updated SUB_ACTIVE None (Some ''system:auto-approve'') now later s), p')"
    and "subs p' = saved (status_updated SUB_ACTIVE None (Some ''system:auto-approve'') now later s) (subs p)"
    and "po_jobs p' = po_jobs p" and "po_committed p' = po_committed p"
proof -
  obtain now later p1 where one: "update_status s SUB_ACTIVE None (Some ''system:auto-approve'') p =
      (Inr (status_updated SUB_ACTIVE None (Some ''system:auto-approve'') now later s), p1)"
    "subs p1 = saved (status_updated SUB_ACTIVE None (Some ''system:auto-approve'') now later s) (subs p)"
    "po_jobs p1 = po_jobs p" "po_committed p1 = po_committed p"
    by (rule update_status_run)
  let ?s = "status_updated SUB_ACTIVE None (Some ''system:auto-approve'') now later s"
  obtain p2 where two: "noted p1 p2" "emit_subscription_event ''subscription.approved'' ?s [] p1 = (Inr (), p2)"
    using emit_run by metis
  let ?p = "p2\<lparr>po_world := (po_world p2)\<lparr>uuids_used := Suc (uuids_used (po_world p2))\<rparr>\<rparr>"
  have "sub_id ?s = sub_id s" by (simp add: status_updated_def Let_def)
  moreover have "find (\<lambda>r. sub_id r = sub_id s) (tb_subscriptions (po_committed p)) = None"
    unfolding find_None_iff using assms by (metis image_eqI)
  ultimately have "provision_inline ?s ?p = (Inr (), ?p)"
    using noted_fields(3) [OF two(1)] one(4) by (simp add: provision_inline_def)
  then have "auto_approve s p = (Inr ?s, ?p)"
    using one(1) two(2) by (simp add: auto_approve_def catchA_def bindA_run)
  then show thesis
    using one two noted_fields [OF two(1)] by (intro that [of now later ?p]) simp_all
qed

section \<open>Subscribing\<close>

text \<open>Whether a request is approved at once: without a plan, for a plan that is not found, or when the plan says so.\<close>

definition approved_at_once :: "user \<Rightarrow> string option \<Rightarrow> plan list \<Rightarrow> bool" where
  "approved_at_once user plan_id plans =
     (\<not> opt_truthy plan_id \<or> (\<exists>i. uuid_parse (or_str plan_id []) = Some i \<and> plan_auto_approves user (find (\<lambda>pl. pl_id pl = i) plans)))"

lemma one_found: "scalar_one_or_none (filter P xs) = Inr r \<Longrightarrow> find P xs = r"
  by (induction xs) (auto simp: filter_empty_conv find_None_iff elim!: scalar_one_or_none.elims split: if_splits)

lemma should_auto_approve_ok:
  assumes "should_auto_approve user plan_id p = (Inr b, p')"
  shows "b = approved_at_once user plan_id (tb_plans (po_tables p))"
  using assms
  by (auto simp: should_auto_approve_def approved_at_once_def get_plan_by_id_def select_one_def bindA_def
      split: if_splits option.splits sum.splits dest: one_found)

definition decided :: "user \<Rightarrow> subscription_create \<Rightarrow> portal \<Rightarrow> subscription \<Rightarrow> subscription \<Rightarrow> bool" where
  "decided user rq p s s' \<longleftrightarrow> (if approved_at_once user (sc_plan_id rq) (tb_plans (po_tables p))
     then \<exists>now later. s' = status_updated SUB_ACTIVE None (Some ''system:auto-approve'') now later s else s' = s)"

lemma saved_held: "holding s t \<Longrightarrow> saved s t = t"
  unfolding saved_def by (rule map_idI) (auto dest: held_row)

text \<open>What a subscription that was created has gone through, and what it leaves.\<close>

lemma approval_run:
  assumes "bindA (should_auto_approve user (sc_plan_id rq)) (\<lambda>auto. bindA (if auto then auto_approve s else retA s) respond) p = (Inr s', p')"
    and fresh: "sub_id s \<notin> sub_id ` set (tb_subscriptions (po_committed p))" and held: "holding s (subs p)"
  shows "decided user rq p s s'" and "subs p' = saved s' (subs p)"
    and "po_jobs p' = po_jobs p"
proof -
  obtain auto where auto: "should_auto_approve user (sc_plan_id rq) p = (Inr auto, p)"
    and rest: "bindA (if auto then auto_approve s else retA s) respond p = (Inr s', p')"
    by (rule reads_bindE [OF create_reads(4) assms(1)])
  obtain now later p1 where one: "auto_approve s p = (Inr (status_updated SUB_ACTIVE None (Some ''system:auto-approve'') now later s), p1)"
    "subs p1 = saved (status_updated SUB_ACTIVE None (Some ''system:auto-approve'') now later s) (subs p)" "po_jobs p1 = po_jobs p"
    using auto_approve_run [OF fresh] by metis
  from rest one should_auto_approve_ok [OF auto] saved_held [OF held]
  show "decided user rq p s s'" and "subs p' = saved s' (subs p)" and "po_jobs p' = po_jobs p"
    by (auto simp: decided_def bindA_def respond_def split: if_splits)
qed

lemma saved_last: "sub_id s \<notin> sub_id ` set t \<Longrightarrow> sub_id s' = sub_id s \<Longrightarrow> saved s' (t @ [s]) = t @ [s']"
  unfolding saved_def by (simp, intro map_idI) (metis image_eqI)

lemma decided_id: "decided user rq p s s' \<Longrightarrow> sub_id s' = sub_id s"
  by (auto simp: decided_def status_updated_def Let_def split: if_splits)

lemma created_run:
  assumes rest: "at_rest p" and run: "create_subscription user rq p = (Inr s', p')"
  obtains i c u client where "admission user rq p = (Inr client, p)"
    and "decided user rq p (new_subscription user rq client i c u) s'" and "subs p' = subs p @ [s']"
    and "po_jobs p' = po_jobs p" and "i \<notin> sub_id ` set (subs p)"
proof -
  obtain client where client: "admission user rq p = (Inr client, p)"
    and body: "bindA (catchA (create_subscription_row (new_subscription user rq client)) (\<lambda>_. True)
        (\<lambda>_. refuse 500 ''Failed to create subscription'')) (\<lambda>s.
      bindA (emit_subscription_event ''subscription.created'' s []) (\<lambda>_. bindA (should_auto_approve user (sc_plan_id rq)) (\<lambda>auto.
      bindA (if auto then auto_approve s else retA s) respond))) p = (Inr s', p')"
    by (rule reads_bindE [OF admission_reads run [unfolded create_subscription_def]])
  from body obtain s p1 where caught: "catchA (create_subscription_row (new_subscription user rq client)) (\<lambda>_. True)
        (\<lambda>_. refuse 500 ''Failed to create subscription'') p = (Inr s, p1)"
    and tail: "bindA (emit_subscription_event ''subscription.created'' s []) (\<lambda>_. bindA (should_auto_approve user (sc_plan_id rq))
      (\<lambda>auto. bindA (if auto then auto_approve s else retA s) respond)) p1 = (Inr s', p')"
    by (rule bindA_okE)
  from caught have row: "create_subscription_row (new_subscription user rq client) p = (Inr s, p1)"
    by (auto simp: catchA_def split: prod.splits sum.splits)
  from row obtain i c u where s: "s = new_subscription user rq client i c u" "subs p1 = subs p @ [s]" "sub_id s \<notin> sub_id ` set (subs p)"
    and p1: "po_committed p1 = po_committed p" "po_jobs p1 = po_jobs p" "tb_plans (po_tables p1) = tb_plans (po_tables p)"
  proof (cases rule: create_row_cases)
    case (created i c u)
    then show ?thesis by (intro that [of i c u]) simp_all
  qed simp
  from tail obtain p2 where p2: "noted p1 p2" "bindA (should_auto_approve user (sc_plan_id rq))
      (\<lambda>auto. bindA (if auto then auto_approve s else retA s) respond) p2 = (Inr s', p')"
    by (rule emit_bind)
  note N = noted_fields [OF p2(1)]
  have held: "holding s (subs p2)"
    using s(2,3) rest N(1) by (auto simp: holding_def unique_ids_def at_rest_def)
  have fresh: "sub_id s \<notin> sub_id ` set (tb_subscriptions (po_committed p2))"
    using s(3) rest N(3) p1(1) by (simp add: at_rest_def)
  note A = approval_run [OF p2(2) fresh held]
  have "decided user rq p s s'" using A(1) N(4) p1(3) by (simp add: decided_def)
  moreover from this have "subs p' = subs p @ [s']" using A(2) N(1) s(2) saved_last [OF s(3) decided_id] by simp
  moreover have "i \<notin> sub_id ` set (subs p)" using s by (simp add: new_subscription_def)
  ultimately show thesis using client s(1) A(3) N(2) p1(2) by (intro that) simp_all
qed

text \<open>A request that is admitted and names no plan succeeds.\<close>

lemma create_returns:
  assumes rest: "at_rest p" and adm: "admission user rq p = (Inr client, p)" and plan: "\<not> opt_truthy (sc_plan_id rq)"
    and fresh: "uuid_source (po_world p) (uuids_used (po_world p)) \<notin> sub_id ` set (subs p)"
  shows "\<exists>s' p'. create_subscription user rq p = (Inr s', p')"
proof -
  let ?b = "new_subscription user rq client"
  let ?s = "?b (uuid_source (po_world p) (uuids_used (po_world p))) (clock (po_world p) (ticks (po_world p)))
    (clock (po_world p) (Suc (ticks (po_world p))))"
  have id: "sub_id ?s = uuid_source (po_world p) (uuids_used (po_world p))" by (simp add: new_subscription_def)
  then have "fits sub_id (\<lambda>_ _. False) ?s (subs p)" using fresh unfolding fits_def by (metis image_eqI)
  then obtain p1 where row: "create_subscription_row ?b p = (Inr ?s, p1)" "po_committed p1 = po_committed p"
    by (simp add: create_row_run Let_def)
  obtain p2 where p2: "emit_subscription_event ''subscription.created'' ?s [] p1 = (Inr (), p2)" "noted p1 p2" by (rule emit_run)
  have "sub_id ?s \<notin> sub_id ` set (tb_subscriptions (po_committed p2))"
    using fresh rest row(2) noted_fields(3) [OF p2(2)] by (simp add: id at_rest_def)
  then obtain now later p3 where p3: "auto_approve ?s p2 =
      (Inr (status_updated SUB_ACTIVE None (Some ''system:auto-approve'') now later ?s), p3)"
    using auto_approve_run by metis
  have "sub_provisioning_status (status_updated SUB_ACTIVE None (Some ''system:auto-approve'') now later ?s) = PROV_NONE"
    by (simp add: status_updated_def new_subscription_def Let_def)
  then have "create_subscription user rq p =
      (Inr (status_updated SUB_ACTIVE None (Some ''system:auto-approve'') now later ?s), p3)"
    using adm row(1) p2(1) p3 plan
    by (simp add: create_subscription_def catchA_def bindA_run should_auto_approve_def respond_def PROVISIONING_STATUS_ENUM_def)
  then show ?thesis by blast
qed

end
