(* ===== verification/SubscriptionProtocol.thy ===== *)
theory SubscriptionProtocol
  imports SubscriptionFacts
begin

text \<open>
  The histories of the subscription service: requests, steps of background jobs, and what the rest of the system does to
  the other tables and the gateways, in any order. A request is one step, for it holds its rows from the first read to the
  commit; a job gives way at every \<open>await\<close> on a gateway.
\<close>

section \<open>What a job writes\<close>

definition provisioning_only :: "subscription \<Rightarrow> subscription \<Rightarrow> bool" where
  "provisioning_only r r' \<longleftrightarrow> r' = r\<lparr>sub_provisioning_status := sub_provisioning_status r', sub_gateway_app_id := sub_gateway_app_id r',
     sub_provisioning_error := sub_provisioning_error r', sub_provisioned_at := sub_provisioned_at r',
     sub_updated_at := sub_updated_at r'\<rparr>"

lemma provisioning_evolves: "provisioning_only r r' \<Longrightarrow> sub_evolves r r'"
proof -
  assume "provisioning_only r r'"
  then have r': "r' = r\<lparr>sub_provisioning_status := sub_provisioning_status r', sub_gateway_app_id := sub_gateway_app_id r',
     sub_provisioning_error := sub_provisioning_error r', sub_provisioned_at := sub_provisioned_at r',
     sub_updated_at := sub_updated_at r'\<rparr>" by (simp add: provisioning_only_def)
  show ?thesis
    by (subst r', simp add: sub_evolves_def same_subscription_def ttl_ok_def)
qed

lemma provisioning_refl: "provisioning_only r r"
  by (simp add: provisioning_only_def)

lemma write_back_provisioning: "provisioning_only r (write_back held new now r)"
  by (simp add: provisioning_only_def write_back_def)

text \<open>What a commit of a job does to the portal: nothing but the rows, the clock and the copy that is committed.\<close>

definition job_writes :: "portal \<Rightarrow> portal \<Rightarrow> bool" where
  "job_writes p p' \<longleftrightarrow> list_all2 provisioning_only (subs p) (subs p') \<and> at_rest p' \<and> po_jobs p' = po_jobs p"

lemma job_writes_refl: "at_rest p \<Longrightarrow> job_writes p p"
  by (simp add: job_writes_def list_all2_refl provisioning_refl)

lemma job_commit_run:
  assumes "at_rest p"
  obtains p' where "job_commit held new p = (Inr new, p')" and "job_writes p p'"
    and "subs p' = map (\<lambda>r. if sub_id r = sub_id held then write_back held new (clock (po_world p) (ticks (po_world p))) r else r) (subs p)"
proof -
  let ?f = "\<lambda>r. if sub_id r = sub_id held then write_back held new (clock (po_world p) (ticks (po_world p))) r else r"
  have id: "sub_id (?f r) = sub_id r" for r by (simp add: write_back_def)
  have "map sub_id (map ?f (subs p)) = map sub_id (subs p)" using id by simp
  then have "unique_ids (map ?f (subs p))" using assms unfolding at_rest_def unique_ids_def by metis
  moreover have "list_all2 provisioning_only (subs p) (map ?f (subs p))"
    by (simp add: list_all2_map2 list_all2_same write_back_provisioning provisioning_refl)
  ultimately show thesis
    using assms that by (auto simp: job_commit_def bindA_def Let_def job_writes_def at_rest_def modA_def)
qed

lemma provisioning_trans: "provisioning_only a b \<Longrightarrow> provisioning_only b c \<Longrightarrow> provisioning_only a c"
  unfolding provisioning_only_def by (cases a; cases b; cases c; simp)

lemma job_writes_trans: "job_writes p q \<Longrightarrow> job_writes q r \<Longrightarrow> job_writes p r"
  unfolding job_writes_def by (auto intro: list_all2_trans [OF provisioning_trans])

section \<open>Steps that always come back\<close>

definition returns :: "'a portal_action \<Rightarrow> ('a \<Rightarrow> bool) \<Rightarrow> bool" where
  "returns m Q \<longleftrightarrow> (\<forall>p. at_rest p \<longrightarrow> (\<exists>x p'. m p = (Inr x, p') \<and> job_writes p p' \<and> Q x))"

lemma returns_bind:
  assumes m: "returns m Q" and k: "\<And>x. Q x \<Longrightarrow> returns (k x) S"
  shows "returns (bindA m k) S"
  unfolding returns_def
proof (intro allI impI)
  fix p
  assume "at_rest p"
  with m obtain x p1 where one: "m p = (Inr x, p1)" "job_writes p p1" "Q x" by (auto simp: returns_def)
  then have "at_rest p1" by (simp add: job_writes_def)
  with k [OF one(3)] obtain y p2 where "k x p1 = (Inr y, p2)" "job_writes p1 p2" "S y" by (auto simp: returns_def)
  with one show "\<exists>y p'. bindA m k p = (Inr y, p') \<and> job_writes p p' \<and> S y"
    by (auto simp: bindA_def intro: job_writes_trans)
qed

lemma returns_simple:
  "Q x \<Longrightarrow> returns (retA x) Q" "(\<And>p. Q (f p)) \<Longrightarrow> returns (getA f) Q"
  by (auto simp: returns_def job_writes_refl)

lemma returns_basic: "returns utcnow (\<lambda>_. True)" "returns (job_commit held new) (\<lambda>_. True)"
proof -
  show "returns utcnow (\<lambda>_. True)"
    by (auto simp: returns_def job_writes_def at_rest_def list_all2_refl provisioning_refl)
  show "returns (job_commit held new) (\<lambda>_. True)"
    unfolding returns_def by (metis job_commit_run)
qed

lemma returns_option:
  "(v = None \<Longrightarrow> returns m Q) \<Longrightarrow> (\<And>x. v = Some x \<Longrightarrow> returns (k x) Q) \<Longrightarrow>
   returns (case v of None \<Rightarrow> m | Some x \<Rightarrow> k x) Q"
  by (cases v) auto

lemma returns_if: "(b \<Longrightarrow> returns m Q) \<Longrightarrow> (\<not> b \<Longrightarrow> returns n Q) \<Longrightarrow> returns (if b then m else n) Q"
  by simp

lemmas returns_rules = returns_if returns_option returns_bind [OF returns_basic(1)] returns_bind [OF returns_basic(2)]

text \<open>How many steps a job has left at most.\<close>

fun job_rank :: "job \<Rightarrow> nat" where
  "job_rank (Provision i) = MAX_RETRIES + 2"
| "job_rank (Resolving s) = MAX_RETRIES + 1"
| "job_rank (Provisioning s spec n) = MAX_RETRIES + 1 - n"
| "job_rank (Deprovision i g) = MAX_RETRIES + 2"
| "job_rank (Deresolving s) = MAX_RETRIES + 1"
| "job_rank (Deprovisioning s n) = MAX_RETRIES + 1 - n"

definition shorter :: "job \<Rightarrow> job option \<Rightarrow> bool" where
  "shorter j r \<longleftrightarrow> (\<forall>j'. r = Some j' \<longrightarrow> job_rank j' < job_rank j)"

lemma shorter_None [simp]: "shorter j None"
  and shorter_Some [simp]: "shorter j (Some j') \<longleftrightarrow> job_rank j' < job_rank j"
  by (simp_all add: shorter_def)

lemma found_returns:
  assumes "\<And>s. returns (k s) Q" and "Q None"
  shows "returns (bindA (load_committed i) (\<lambda>found. case found of None \<Rightarrow> retA None | Some s \<Rightarrow> k s)) Q"
  unfolding load_committed_def
  by (rule returns_bind [where Q = "\<lambda>_. True"]) (auto intro!: returns_option returns_simple assms)

lemma resolved_returns:
  assumes "\<And>r. returns (k r) Q"
  shows "returns (bindA (getA f) k) Q"
  by (rule returns_bind [where Q = "\<lambda>_. True"]) (auto intro!: returns_simple assms)

lemma job_step_returns: "returns (job_step credentials correlation_id a j) (shorter j)"
proof (cases j)
  case (Resolving s)
  then show ?thesis
    by (auto simp: resolve_provision_def intro!: resolved_returns returns_rules returns_simple split: resolution.split)
next
  case (Deresolving s)
  then show ?thesis
    by (auto simp: resolve_deprovision_def intro!: resolved_returns returns_rules returns_simple split: resolution.split)
qed (auto simp: begin_provision_def begin_deprovision_def answer_provision_def answer_deprovision_def
    intro!: found_returns returns_rules returns_simple)

section \<open>Histories\<close>

inductive portal_step :: "host \<Rightarrow> (gateway_instance \<Rightarrow> credential_answer) \<Rightarrow> portal \<Rightarrow> portal \<Rightarrow> bool"
  for hst credentials where
  request: "request_ok rq \<Longrightarrow> with_session (handle_subscription hst user rq) p = (a, p') \<Longrightarrow> portal_step hst credentials p p'"
| job: "po_jobs p = js @ j # ks \<Longrightarrow> job_step credentials correlation_id a j p = (Inr r, p') \<Longrightarrow>
    portal_step hst credentials p (p'\<lparr>po_jobs := js @ (case r of None \<Rightarrow> [] | Some j' \<Rightarrow> [j']) @ ks\<rparr>)"
| elsewhere: "tb_subscriptions t = subs p \<Longrightarrow>
    portal_step hst credentials p (p\<lparr>po_tables := t, po_committed := t, po_world := w\<rparr>)"

definition evolution :: "portal \<Rightarrow> portal \<Rightarrow> bool" where
  "evolution p p' \<longleftrightarrow> at_rest p' \<and> rows_move sub_evolves ttl_ok (subs p) (subs p')"

lemma evolution_refl: "at_rest p \<Longrightarrow> evolution p p"
  by (simp add: evolution_def rows_move_refl evolves_refl)

lemma ttl_evolves: "ttl_ok a \<Longrightarrow> sub_evolves a b \<Longrightarrow> ttl_ok b"
  by (simp add: sub_evolves_def)

lemma evolution_trans: "evolution p q \<Longrightarrow> evolution q r \<Longrightarrow> evolution p r"
  using rows_move_trans [of sub_evolves ttl_ok "subs p" "subs q" "subs r"] evolves_trans ttl_evolves
  unfolding evolution_def by metis

lemma step_evolves:
  assumes "portal_step hst credentials p p'" and "at_rest p"
  shows "evolution p p'"
  using assms
proof cases
  case (request rq user a)
  note R = request_moves [OF assms(2) request]
  have "rows_move sub_evolves ttl_ok (subs p) (subs p')"
    by (rule rows_move_mono [OF R(1) [unfolded subs_move_def]]) (auto intro: moved_evolves simp: sub_new_def)
  with R(2) show ?thesis by (simp add: evolution_def)
next
  case (job js j ks correlation_id a r q)
  from job_step_returns [of credentials correlation_id a j] assms(2) job(3)
  have W: "job_writes p q" by (auto simp: returns_def)
  then have "list_all2 sub_evolves (subs p) (subs q)"
    unfolding job_writes_def by (auto intro: list_all2_mono [OF _ provisioning_evolves])
  then have "rows_move sub_evolves ttl_ok (subs p) (subs q)" by (intro rows_moveI [of _ "subs q" "[]"]) simp_all
  with W job(1) show ?thesis by (simp add: evolution_def job_writes_def at_rest_def)
next
  case (elsewhere t w)
  with assms(2) show ?thesis by (simp add: evolution_def at_rest_def rows_move_refl evolves_refl)
qed

lemma history_evolves: "(portal_step hst credentials)\<^sup>*\<^sup>* p p' \<Longrightarrow> at_rest p \<Longrightarrow> evolution p p'"
proof (induction rule: rtranclp_induct)
  case (step q r)
  from step.IH step.prems have pq: "evolution p q" by blast
  then have "at_rest q" by (simp add: evolution_def)
  from step_evolves [OF step.hyps(2) this] pq show ?case by (rule evolution_trans [rotated])
qed (rule evolution_refl)

section \<open>A job by itself\<close>

text \<open>The steps of one job when nothing else happens; \<open>answers n\<close> is what the adapter says to attempt \<open>n\<close>.\<close>

fun attempt_of :: "job \<Rightarrow> nat" where
  "attempt_of (Provisioning s spec n) = n"
| "attempt_of (Deprovisioning s n) = n"
| "attempt_of _ = 0"

fun run_job ::
    "(gateway_instance \<Rightarrow> credential_answer) \<Rightarrow> string \<Rightarrow> (nat \<Rightarrow> adapter_answer) \<Rightarrow> nat \<Rightarrow> job \<Rightarrow> job option portal_action" where
  "run_job credentials correlation_id answers 0 j = retA (Some j)"
| "run_job credentials correlation_id answers (Suc fuel) j =
     bindA (job_step credentials correlation_id (answers (attempt_of j)) j) (\<lambda>r. case r of
       None \<Rightarrow> retA None | Some j' \<Rightarrow> run_job credentials correlation_id answers fuel j')"

lemma run_job_ends: "job_rank j < fuel \<Longrightarrow> returns (run_job credentials correlation_id answers fuel j) (\<lambda>r. r = None)"
proof (induction fuel arbitrary: j)
  case (Suc fuel)
  show ?case
    unfolding run_job.simps
  proof (rule returns_bind [OF job_step_returns], rule returns_option)
    fix r j'
    assume "shorter j r" and "r = Some j'"
    with Suc.prems show "returns (run_job credentials correlation_id answers fuel j') (\<lambda>r. r = None)"
      by (intro Suc.IH) simp
  qed (simp add: returns_simple)
qed simp

text \<open>While only one job runs, its copy of the row and the row agree, but for the time of the last update.\<close>

definition in_sync :: "subscription \<Rightarrow> portal \<Rightarrow> bool" where
  "in_sync held p \<longleftrightarrow> (\<exists>r \<in> set (subs p). sub_id r = sub_id held \<and> r = held\<lparr>sub_updated_at := sub_updated_at r\<rparr>)"

definition same_gateways :: "portal \<Rightarrow> portal \<Rightarrow> bool" where
  "same_gateways p p' \<longleftrightarrow> (\<exists>n. po_world p' = (po_world p)\<lparr>ticks := n\<rparr>)"

lemma same_gateways_resolve: "same_gateways p p' \<Longrightarrow> resolve_adapter c (po_world p') api t = resolve_adapter c (po_world p) api t"
  by (auto simp: same_gateways_def resolve_adapter_def get_primary_for_api_def get_gateway_by_id_def split: option.split)

lemma commit_in_sync:
  assumes "at_rest p" and "in_sync held p" and "provisioning_only held new"
  obtains p' where "job_commit held new p = (Inr new, p')" and "at_rest p'" and "in_sync new p'" and "same_gateways p p'"
proof -
  obtain p' where run: "job_commit held new p = (Inr new, p')" and writes: "job_writes p p'" and rows:
    "subs p' = map (\<lambda>r. if sub_id r = sub_id held then write_back held new (clock (po_world p) (ticks (po_world p))) r else r) (subs p)"
    by (rule job_commit_run [OF assms(1)])
  from assms(2) obtain r where r: "r \<in> set (subs p)" "sub_id r = sub_id held" "r = held\<lparr>sub_updated_at := sub_updated_at r\<rparr>"
    by (auto simp: in_sync_def)
  let ?r = "write_back held new (clock (po_world p) (ticks (po_world p))) r"
  from r rows have "?r \<in> set (subs p')" by force
  moreover have "sub_id ?r = sub_id new \<and> ?r = new\<lparr>sub_updated_at := sub_updated_at ?r\<rparr>"
    by (subst (1 2 3) r(3)) (use assms(3) in \<open>cases held; cases new; auto simp: write_back_def written_def provisioning_only_def\<close>)
  ultimately have "in_sync new p'" unfolding in_sync_def by blast
  moreover have "same_gateways p p'"
    using run by (auto simp: job_commit_def bindA_def modA_def Let_def same_gateways_def)
  ultimately show thesis using that run writes by (simp add: job_writes_def)
qed

text \<open>The first attempt, from the \<open>n\<close>th on, that the adapter accepts; and what it leaves in the row.\<close>

definition accepted_attempt :: "(nat \<Rightarrow> adapter_answer) \<Rightarrow> nat \<Rightarrow> nat option" where
  "accepted_attempt answers n = find (\<lambda>k. answer_error (answers k) = None) [n..<Suc MAX_RETRIES]"

definition attempts_outcome :: "(nat \<Rightarrow> adapter_answer) \<Rightarrow> nat \<Rightarrow> subscription \<Rightarrow> subscription \<Rightarrow> bool" where
  "attempts_outcome answers n s s' = (case accepted_attempt answers n of
     None \<Rightarrow> sub_provisioning_status s' = PROV_FAILED \<and> sub_gateway_app_id s' = sub_gateway_app_id s \<and>
       sub_provisioning_error s' = answer_error (answers MAX_RETRIES)
   | Some k \<Rightarrow> sub_provisioning_status s' = PROV_READY \<and> sub_gateway_app_id s' = answer_resource (answers k) \<and>
       sub_provisioning_error s' = None)"

definition ends_with :: "job option portal_action \<Rightarrow> portal \<Rightarrow> subscription \<Rightarrow> (subscription \<Rightarrow> bool) \<Rightarrow> bool" where
  "ends_with m p s Q \<longleftrightarrow> (\<exists>p' s'. m p = (Inr None, p') \<and> at_rest p' \<and> in_sync s' p' \<and> provisioning_only s s' \<and> Q s')"

lemma ends_with_commit:
  assumes "at_rest p" and "in_sync s p" and "provisioning_only s s'" and "Q s'"
  shows "ends_with (bindA (job_commit s s') (\<lambda>_. retA None)) p s Q"
  using commit_in_sync [OF assms(1-3)] assms(3,4) unfolding ends_with_def by (metis bindA_run retA_apply)

lemma tick_at_rest: "at_rest p \<Longrightarrow> at_rest (p\<lparr>po_world := w\<rparr>)"
  and tick_in_sync: "in_sync s p \<Longrightarrow> in_sync s (p\<lparr>po_world := w\<rparr>)"
  by (simp_all add: at_rest_def in_sync_def)

lemma accepted_here: "n \<le> MAX_RETRIES \<Longrightarrow> accepted_attempt answers n =
    (if answer_error (answers n) = None then Some n else accepted_attempt answers (Suc n))"
  by (simp add: accepted_attempt_def upt_rec [of n "Suc MAX_RETRIES"] del: upt_Suc)

lemma accepted_never: "accepted_attempt answers (Suc MAX_RETRIES) = None"
  by (simp add: accepted_attempt_def)

lemma answer_accepted:
  assumes "at_rest p" and "in_sync s p" and "answer_error a = None"
  shows "ends_with (answer_provision s spec n a) p s
     (\<lambda>s'. sub_provisioning_status s' = PROV_READY \<and> sub_gateway_app_id s' = answer_resource a \<and> sub_provisioning_error s' = None)"
proof -
  let ?now = "clock (po_world p) (ticks (po_world p))"
  let ?s = "s\<lparr>sub_provisioning_status := PROV_READY, sub_gateway_app_id := answer_resource a,
    sub_provisioned_at := Some ?now, sub_provisioning_error := None\<rparr>"
  let ?p = "p\<lparr>po_world := (po_world p)\<lparr>ticks := Suc (ticks (po_world p))\<rparr>\<rparr>"
  have "ends_with (bindA (job_commit s ?s) (\<lambda>_. retA None)) ?p s
     (\<lambda>s'. sub_provisioning_status s' = PROV_READY \<and> sub_gateway_app_id s' = answer_resource a \<and> sub_provisioning_error s' = None)"
    by (rule ends_with_commit) (simp_all add: tick_at_rest tick_in_sync assms provisioning_only_def)
  moreover have "answer_provision s spec n a p = bindA (job_commit s ?s) (\<lambda>_. retA None) ?p"
    using assms(3) by (simp add: answer_provision_def bindA_run [where m = utcnow, OF on_world_now])
  ultimately show ?thesis by (simp add: ends_with_def)
qed

lemma answer_refused:
  assumes "at_rest p" and "in_sync s p" and "answer_error a = Some e"
  shows "ends_with (answer_provision s spec MAX_RETRIES a) p s (\<lambda>s'. sub_provisioning_status s' = PROV_FAILED \<and>
     sub_gateway_app_id s' = sub_gateway_app_id s \<and> sub_provisioning_error s' = Some e)"
proof -
  have "answer_provision s spec MAX_RETRIES a = bindA (job_commit s (s\<lparr>sub_provisioning_status := PROV_FAILED,
      sub_provisioning_error := Some e\<rparr>)) (\<lambda>_. retA None)"
    using assms(3) by (simp add: answer_provision_def)
  moreover have "ends_with (bindA (job_commit s (s\<lparr>sub_provisioning_status := PROV_FAILED,
      sub_provisioning_error := Some e\<rparr>)) (\<lambda>_. retA None)) p s (\<lambda>s'. sub_provisioning_status s' = PROV_FAILED \<and>
     sub_gateway_app_id s' = sub_gateway_app_id s \<and> sub_provisioning_error s' = Some e)"
    by (rule ends_with_commit) (simp_all add: assms provisioning_only_def)
  ultimately show ?thesis by simp
qed

lemma ends_with_bind: "ends_with m p s Q \<Longrightarrow> ends_with (bindA m (\<lambda>r. case r of None \<Rightarrow> retA None | Some j \<Rightarrow> k j)) p s Q"
  unfolding ends_with_def by (metis bindA_run option.simps(4) retA_apply)

lemma ends_with_mono: "ends_with m p s Q \<Longrightarrow> (\<And>s'. Q s' \<Longrightarrow> R s') \<Longrightarrow> ends_with m p s R"
  unfolding ends_with_def by blast

lemma attempts_end:
  assumes "n \<le> MAX_RETRIES" and "MAX_RETRIES - n < fuel" and "at_rest p" and "in_sync s p"
  shows "ends_with (run_job credentials correlation_id answers fuel (Provisioning s spec n)) p s (attempts_outcome answers n s)"
  using assms
proof (induction fuel arbitrary: n)
  case (Suc fuel)
  show ?case
  proof (cases "answer_error (answers n)")
    case None
    with Suc.prems show ?thesis
      unfolding run_job.simps job_step.simps attempt_of.simps
      by (intro ends_with_bind ends_with_mono [OF answer_accepted]) (simp_all add: attempts_outcome_def accepted_here)
  next
    case (Some e)
    show ?thesis
    proof (cases "n = MAX_RETRIES")
      case True
      have "attempts_outcome answers n s s'" if "sub_provisioning_status s' = PROV_FAILED"
        "sub_gateway_app_id s' = sub_gateway_app_id s" "sub_provisioning_error s' = Some e" for s'
        using that Some True by (simp add: attempts_outcome_def accepted_here accepted_never)
      with Suc.prems Some True show ?thesis
        unfolding run_job.simps job_step.simps attempt_of.simps
        by (intro ends_with_bind) (auto intro: ends_with_mono [OF answer_refused])
    next
      case False
      with Suc.prems have n: "Suc n \<le> MAX_RETRIES" "MAX_RETRIES - Suc n < fuel" by linarith+
      have "run_job credentials correlation_id answers (Suc fuel) (Provisioning s spec n) =
          run_job credentials correlation_id answers fuel (Provisioning s spec (Suc n))"
        using Some n(1) by (simp add: answer_provision_def)
      moreover have "attempts_outcome answers n = attempts_outcome answers (Suc n)"
        using Some n(1) by (simp add: attempts_outcome_def accepted_here fun_eq_iff)
      ultimately show ?thesis using Suc.IH [OF n Suc.prems(3,4)] by simp
    qed
  qed
qed simp

definition provision_outcome :: "resolution \<Rightarrow> (nat \<Rightarrow> adapter_answer) \<Rightarrow> subscription \<Rightarrow> subscription \<Rightarrow> bool" where
  "provision_outcome r answers s s' = (case r of
     CredentialResolutionError \<Rightarrow> sub_provisioning_status s' = PROV_FAILED \<and> sub_gateway_app_id s' = sub_gateway_app_id s
   | NoAdapter \<Rightarrow> sub_provisioning_status s' = PROV_READY \<and> sub_gateway_app_id s' = sub_gateway_app_id s
   | Adapter g \<Rightarrow> attempts_outcome answers 1 s s')"

lemma resolve_ends:
  assumes "at_rest p" and "in_sync s p" and fuel: "MAX_RETRIES < fuel"
  shows "ends_with (run_job credentials correlation_id answers fuel (Resolving s)) p s
     (provision_outcome (resolve_adapter credentials (po_world p) (sub_api_id s) (sub_tenant_id s)) answers s)"
proof -
  obtain f where f: "fuel = Suc f" "MAX_RETRIES \<le> f" using fuel by (cases fuel) auto
  show ?thesis
  proof (cases "resolve_adapter credentials (po_world p) (sub_api_id s) (sub_tenant_id s)")
    case (Adapter g)
    let ?spec = "app_spec s correlation_id (consumer_of (po_committed p) s) (plan_of (po_committed p) s)"
    have "run_job credentials correlation_id answers fuel (Resolving s) p =
        run_job credentials correlation_id answers f (Provisioning s ?spec 1) p"
      unfolding f(1) run_job.simps job_step.simps attempt_of.simps
      by (subst bindA_run [where x = "Some (Provisioning s ?spec 1)" and w' = p])
        (simp_all add: resolve_provision_def Adapter)
    moreover have "ends_with (run_job credentials correlation_id answers f (Provisioning s ?spec 1)) p s (attempts_outcome answers 1 s)"
      using f(2) by (intro attempts_end assms) (simp_all add: MAX_RETRIES_def)
    ultimately show ?thesis by (simp add: ends_with_def provision_outcome_def Adapter)
  next
    case NoAdapter
    let ?s = "s\<lparr>sub_provisioning_status := PROV_READY, sub_provisioning_error := None,
      sub_provisioned_at := Some (clock (po_world p) (ticks (po_world p)))\<rparr>"
    let ?p = "p\<lparr>po_world := (po_world p)\<lparr>ticks := Suc (ticks (po_world p))\<rparr>\<rparr>"
    have "resolve_provision credentials correlation_id s p = bindA (job_commit s ?s) (\<lambda>_. retA None) ?p"
      by (simp add: resolve_provision_def NoAdapter bindA_run [where m = utcnow, OF on_world_now])
    moreover have "ends_with (bindA (job_commit s ?s) (\<lambda>_. retA None)) ?p s (provision_outcome NoAdapter answers s)"
      by (rule ends_with_commit) (simp_all add: tick_at_rest tick_in_sync assms provisioning_only_def provision_outcome_def)
    ultimately have "ends_with (resolve_provision credentials correlation_id s) p s (provision_outcome NoAdapter answers s)"
      by (simp add: ends_with_def)
    then show ?thesis unfolding f(1) run_job.simps job_step.simps NoAdapter by (rule ends_with_bind)
  next
    case CredentialResolutionError
    let ?s = "s\<lparr>sub_provisioning_status := PROV_FAILED, sub_provisioned_at := None,
      sub_provisioning_error := Some ''Required read failed; no fallback credentials allowed; operation refused.''\<rparr>"
    have "resolve_provision credentials correlation_id s p = bindA (job_commit s ?s) (\<lambda>_. retA None) p"
      by (simp add: resolve_provision_def CredentialResolutionError)
    moreover have "ends_with (bindA (job_commit s ?s) (\<lambda>_. retA None)) p s (provision_outcome CredentialResolutionError answers s)"
      by (rule ends_with_commit) (simp_all add: assms provisioning_only_def provision_outcome_def)
    ultimately have "ends_with (resolve_provision credentials correlation_id s) p s (provision_outcome CredentialResolutionError answers s)"
      by (simp add: ends_with_def)
    then show ?thesis unfolding f(1) run_job.simps job_step.simps CredentialResolutionError by (rule ends_with_bind)
  qed
qed

lemma in_sync_row: "in_sync s p \<Longrightarrow> \<exists>r \<in> set (subs p). sub_id r = sub_id s \<and> provisioning_only s r \<and>
    sub_provisioning_status r = sub_provisioning_status s \<and> sub_gateway_app_id r = sub_gateway_app_id s \<and>
    sub_provisioning_error r = sub_provisioning_error s"
proof -
  assume "in_sync s p"
  then obtain r where r: "r \<in> set (subs p)" "sub_id r = sub_id s" "r = s\<lparr>sub_updated_at := sub_updated_at r\<rparr>"
    by (auto simp: in_sync_def)
  have "provisioning_only s r \<and> sub_provisioning_status r = sub_provisioning_status s \<and>
      sub_gateway_app_id r = sub_gateway_app_id s \<and> sub_provisioning_error r = sub_provisioning_error s"
    by (subst (1 2 3 4) r(3)) (simp add: provisioning_only_def)
  with r(1,2) show ?thesis by blast
qed

lemma found_row:
  assumes "at_rest p" and "r \<in> set (subs p)"
  shows "find (\<lambda>x. sub_id x = sub_id r) (tb_subscriptions (po_committed p)) = Some r"
proof -
  from assms have "find (\<lambda>x. sub_id x = sub_id r) (subs p) \<noteq> None" by (auto simp: find_None_iff)
  then obtain r' where r': "find (\<lambda>x. sub_id x = sub_id r) (subs p) = Some r'" by blast
  then have "r' \<in> set (subs p)" "sub_id r' = sub_id r" by (auto simp: find_Some_iff)
  with assms have "r' = r" by (auto simp: at_rest_def unique_ids_def distinct_map dest: inj_onD)
  with r' assms(1) show ?thesis by (simp add: at_rest_def)
qed

lemma outcome_cong:
  assumes "sub_gateway_app_id s = sub_gateway_app_id r" and "provision_outcome x answers s s'"
    and "sub_provisioning_status r' = sub_provisioning_status s'" and "sub_gateway_app_id r' = sub_gateway_app_id s'"
    and "sub_provisioning_error r' = sub_provisioning_error s'"
  shows "provision_outcome x answers r r'"
  using assms by (auto simp: provision_outcome_def attempts_outcome_def split: resolution.splits option.splits)

lemma provision_ends:
  assumes "at_rest p" and "r \<in> set (subs p)" and fuel: "MAX_RETRIES + 2 \<le> fuel"
  shows "\<exists>p' r'. run_job credentials correlation_id answers fuel (Provision (sub_id r)) p = (Inr None, p') \<and> at_rest p' \<and>
     r' \<in> set (subs p') \<and> provisioning_only r r' \<and>
     provision_outcome (resolve_adapter credentials (po_world p) (sub_api_id r) (sub_tenant_id r)) answers r r'"
proof -
  obtain f where f: "fuel = Suc f" "MAX_RETRIES < f" using fuel by (cases fuel) auto
  let ?s = "r\<lparr>sub_provisioning_status := PROV_RUNNING, sub_provisioning_error := None\<rparr>"
  have "in_sync r p" using assms(2) by (auto simp: in_sync_def)
  moreover have rs: "provisioning_only r ?s" by (simp add: provisioning_only_def)
  ultimately obtain p1 where one: "job_commit r ?s p = (Inr ?s, p1)" "at_rest p1" "in_sync ?s p1" "same_gateways p p1"
    using commit_in_sync [OF assms(1)] by metis
  have "begin_provision (sub_id r) p = (Inr (Some (Resolving ?s)), p1)"
    using one(1) by (simp add: begin_provision_def load_committed_def found_row [OF assms(1,2)] bindA_run)
  then have run: "run_job credentials correlation_id answers fuel (Provision (sub_id r)) p =
      run_job credentials correlation_id answers f (Resolving ?s) p1"
    by (simp add: f(1) bindA_run)
  from resolve_ends [OF one(2,3) f(2), of credentials correlation_id answers]
  obtain p2 s2 where two: "run_job credentials correlation_id answers f (Resolving ?s) p1 = (Inr None, p2)" "at_rest p2"
    "in_sync s2 p2" "provisioning_only ?s s2"
    "provision_outcome (resolve_adapter credentials (po_world p) (sub_api_id r) (sub_tenant_id r)) answers ?s s2"
    by (auto simp: ends_with_def same_gateways_resolve [OF one(4)])
  from in_sync_row [OF two(3)] obtain r' where r': "r' \<in> set (subs p2)" "provisioning_only s2 r'"
    "sub_provisioning_status r' = sub_provisioning_status s2" "sub_gateway_app_id r' = sub_gateway_app_id s2"
    "sub_provisioning_error r' = sub_provisioning_error s2" by blast
  have "provision_outcome (resolve_adapter credentials (po_world p) (sub_api_id r) (sub_tenant_id r)) answers r r'"
    by (rule outcome_cong [OF _ two(5) r'(3-5)]) simp
  moreover have "provisioning_only r r'"
    by (rule provisioning_trans [OF provisioning_trans [OF rs two(4)] r'(2)])
  ultimately show ?thesis using run two(1,2) r'(1) by metis
qed

end
