(* ===== verification/SubscriptionOutcomes.thy ===== *)
theory SubscriptionOutcomes
  imports SubscriptionRuns SubscriptionProtocol
begin

text \<open>
  What administrators' decisions, key rotations, validations and listings answer: their runs as equations over the rows.
\<close>

section \<open>Access\<close>

lemma scoped_of_access:
  assumes "has_tenant_access user t"
  shows "scoped_user user p = (Inr (), p)"
proof (cases "is_admin user")
  case True
  then show ?thesis by (simp add: scoped_user_def)
next
  case False
  obtain x where "decide_tenant_access user (Some t) ''resource'' = Inr x"
    using assms by (auto simp: has_tenant_access_def isl_def split: sum.splits) (metis sum.exhaust)
  then have t: "py_strip t \<noteq> []" "u_tenant_id user = Some t" using False by (auto simp: decide_tenant_access_def forbidden_def split: if_splits)
  then have "t \<noteq> []" by (auto simp: py_strip_def strip_by_def)
  with t False show ?thesis
    by (simp add: scoped_user_def allow_def decide_tenant_access_def opt_truthy_def or_str_def Let_def bindA_def)
qed

lemma filter_key: "distinct (map f xs) \<Longrightarrow> x \<in> set xs \<Longrightarrow> filter (\<lambda>y. f y = f x) xs = [x]"
proof (induction xs)
  case (Cons a xs)
  then have "f a \<notin> f ` set xs" by simp
  then have "x \<in> set xs \<Longrightarrow> f a \<noteq> f x" and "x = a \<Longrightarrow> filter (\<lambda>y. f y = f x) xs = []"
    unfolding filter_empty_conv by (metis image_eqI)+
  with Cons show ?case by auto
qed simp

lemma row_found:
  assumes "holding r (subs p)"
  shows "subscription_or_404 (sub_id r) p = (Inr r, p)"
proof -
  have "filter (\<lambda>s. sub_id s = sub_id r) (subs p) = [r]"
    using assms by (auto simp: holding_def unique_ids_def filter_key)
  then show ?thesis by (simp add: subscription_or_404_def get_subscription_by_id_def select_one_def bindA_def)
qed

lemma administered_run:
  assumes "holding r (subs p)" and "has_tenant_admin_access user (sub_tenant_id r)"
  shows "administered_subscription user (sub_id r) p = (Inr r, p)"
  using assms administered_access [OF assms(2)]
  by (simp add: administered_subscription_def bindA_run [OF scoped_of_access] bindA_run [OF row_found])

lemma readable_run:
  assumes "holding r (subs p)" and "has_tenant_access user (sub_tenant_id r)"
  shows "readable_subscription user (sub_id r) p = (Inr r, p)"
  using assms by (simp add: readable_subscription_def bindA_run [OF scoped_of_access] bindA_run [OF row_found])

section \<open>Decisions\<close>

lemma status_updated_rest [simp]:
  "sub_id (status_updated st reason act now later s) = sub_id s"
  "sub_tenant_id (status_updated st reason act now later s) = sub_tenant_id s"
  "sub_api_id (status_updated st reason act now later s) = sub_api_id s"
  "sub_oauth_client_id (status_updated st reason act now later s) = sub_oauth_client_id s"
  "sub_expires_at (status_updated st reason act now later s) = sub_expires_at s"
  "sub_provisioning_status (status_updated st reason act now later s) = sub_provisioning_status s"
  "sub_gateway_app_id (status_updated st reason act now later s) = sub_gateway_app_id s"
  "sub_provisioning_error (status_updated st reason act now later s) = sub_provisioning_error s"
  "sub_provisioned_at (status_updated st reason act now later s) = sub_provisioned_at s"
  by (simp_all add: status_updated_def Let_def split: subscription_status.split)

definition respondable :: "subscription \<Rightarrow> bool" where
  "respondable s \<longleftrightarrow> sub_provisioning_status s \<noteq> DEPROV_FAILED"

lemma respond_run: "respond s p = (if respondable s then (Inr s, p) else (Inl (ValidationError ''provisioning_status''), p))"
  by (cases "sub_provisioning_status s") (simp_all add: respond_def respondable_def PROVISIONING_STATUS_ENUM_def)

lemma revoke_run:
  assumes held: "holding r (subs p)" and admin: "has_tenant_admin_access user (sub_tenant_id r)" and st: "sub_status r \<noteq> SUB_REVOKED"
    and resp: "respondable r"
  obtains now later p' where "revoke_subscription user (sub_id r) reason p =
      (Inr (status_updated SUB_REVOKED (Some reason) (Some (u_id user)) now later r), p')"
    and "subs p' = saved (status_updated SUB_REVOKED (Some reason) (Some (u_id user)) now later r) (subs p)"
    and "po_jobs p' = po_jobs p @ [Deprovision (sub_id r) (sub_gateway_app_id r)]"
proof -
  obtain now later p1 where one: "update_status r SUB_REVOKED (Some reason) (Some (u_id user)) p =
      (Inr (status_updated SUB_REVOKED (Some reason) (Some (u_id user)) now later r), p1)"
    "subs p1 = saved (status_updated SUB_REVOKED (Some reason) (Some (u_id user)) now later r) (subs p)" "po_jobs p1 = po_jobs p"
    by (rule update_status_run)
  let ?s = "status_updated SUB_REVOKED (Some reason) (Some (u_id user)) now later r"
  obtain p2 where two: "emit_subscription_event ''subscription.revoked'' ?s [] p1 = (Inr (), p2)" "noted p1 p2" by (rule emit_run)
  let ?p = "p2\<lparr>po_world := (po_world p2)\<lparr>uuids_used := Suc (uuids_used (po_world p2))\<rparr>,
    po_jobs := po_jobs p2 @ [Deprovision (sub_id r) (sub_gateway_app_id r)]\<rparr>"
  have "respondable ?s" using resp by (simp add: respondable_def)
  then have "revoke_subscription user (sub_id r) reason p = (Inr ?s, ?p)"
    using st one(1) two(1)
    by (simp add: revoke_subscription_def administered_run [OF held admin] bindA_run respond_run)
  then show thesis using one two noted_fields [OF two(2)] by (intro that [of now later ?p]) simp_all
qed

lemma reactivate_run:
  assumes held: "holding r (subs p)" and admin: "has_tenant_admin_access user (sub_tenant_id r)" and st: "sub_status r = SUB_SUSPENDED"
    and resp: "respondable r"
  obtains reason now later p' where "reactivate_subscription user (sub_id r) body p =
      (Inr (status_updated SUB_ACTIVE reason (Some (u_id user)) now later r), p')"
    and "subs p' = saved (status_updated SUB_ACTIVE reason (Some (u_id user)) now later r) (subs p)"
proof -
  let ?reason = "Some (status_reason_from_request body ''Reactivated by admin'')"
  obtain now later p1 where one: "update_status r SUB_ACTIVE ?reason (Some (u_id user)) p =
      (Inr (status_updated SUB_ACTIVE ?reason (Some (u_id user)) now later r), p1)"
    "subs p1 = saved (status_updated SUB_ACTIVE ?reason (Some (u_id user)) now later r) (subs p)"
    by (rule update_status_run)
  have "respondable (status_updated SUB_ACTIVE ?reason (Some (u_id user)) now later r)" using resp by (simp add: respondable_def)
  then have "reactivate_subscription user (sub_id r) body p = (Inr (status_updated SUB_ACTIVE ?reason (Some (u_id user)) now later r), p1)"
    using st one(1) by (simp add: reactivate_subscription_def administered_run [OF held admin] bindA_run respond_run)
  then show thesis using one(2) by (rule that)
qed

section \<open>Validation of OAuth clients\<close>

definition entitled :: "string \<Rightarrow> string \<Rightarrow> subscription \<Rightarrow> bool" where
  "entitled client_id api_id s \<longleftrightarrow> sub_oauth_client_id s = Some client_id \<and> sub_api_id s = api_id \<and> sub_status s = SUB_ACTIVE"

lemma get_by_oauth_run: "get_by_oauth_client_and_api client_id api_id p =
    (case scalar_one_or_none (filter (entitled client_id api_id) (subs p)) of Inl e \<Rightarrow> (Inl (Crashed e), p) | Inr r \<Rightarrow> (Inr r, p))"
  by (simp add: get_by_oauth_client_and_api_def select_one_def entitled_def [abs_def])

lemma profile_returns: "\<exists>t. security_profile_of s p = (Inr t, p)"
  by (auto simp: security_profile_of_def get_application_by_id_def select_one_def bindA_def catchA_def split: option.split sum.split)

lemma oauth_run:
  "fst (validate_subscription_oauth client_id api_id p) =
    (case filter (entitled client_id api_id) (subs p) of
       [] \<Rightarrow> Inl (Refused (HTTPException 404 (JStr ''No active subscription found for this client and API'')))
     | [s] \<Rightarrow> if expired s (clock (po_world p) (ticks (po_world p)))
              then Inl (Refused (HTTPException 403 (JStr ''Subscription expired'')))
              else Inr (validation_result s @ [(''security_profile'',
                JStr (projr (fst (security_profile_of s (snd (utcnow p))))))])
     | _ \<Rightarrow> Inl (Crashed MultipleResultsFound))"
proof (cases "filter (entitled client_id api_id) (subs p)" rule: scalar_one_or_none.cases)
  case (2 s)
  obtain t where "security_profile_of s (snd (utcnow p)) = (Inr t, snd (utcnow p))" using profile_returns by blast
  with 2 show ?thesis by (simp add: validate_subscription_oauth_def get_by_oauth_run bindA_def)
qed (simp_all add: validate_subscription_oauth_def get_by_oauth_run bindA_def)

section \<open>Keys\<close>

text \<open>A key that was generated has the right format: it is the prefix and hexadecimal digits.\<close>

lemma hex_value_fixed: "c \<in> set (hex_fixed k n) \<Longrightarrow> hex_value c \<noteq> None"
  by (induction k arbitrary: n) (auto simp: hex_value_digit)

lemma hex_not_space: "hex_value c \<noteq> None \<Longrightarrow> \<not> py_isspace c"
  by (auto simp: py_isspace_def hex_value_def Let_def split: if_splits)

lemma hex_not_sign: "hex_value c \<noteq> None \<Longrightarrow> c \<notin> set ''+-xX_''"
  by (auto simp: hex_value_def code_point_def)

lemma int16_hex:
  assumes "\<And>c. c \<in> set h \<Longrightarrow> hex_value c \<noteq> None" and "2 \<le> length h"
  shows "int16_ok h"
proof -
  obtain a b t where h: "h = a # b # t" using assms(2) by (cases h rule: scalar_one_or_none.cases) auto
  have plain: "c \<notin> set ''+-xX_''" if "c \<in> set h" for c using hex_not_sign assms(1) that by blast
  have "\<not> py_isspace (hd h) \<and> \<not> py_isspace (last h)" using hex_not_space assms(1) h by simp
  then have "py_strip h = h" unfolding py_strip_def by (intro strip_by_fixed) blast
  moreover have "split_on (CHR ''_'') h = [h]" using plain by (intro split_on_whole) auto
  moreover have "a \<notin> {CHR ''+'', CHR ''-''}" "b \<notin> {CHR ''x'', CHR ''X''}" using plain [of a] plain [of b] h by auto
  ultimately show ?thesis using assms(1) by (auto simp: int16_ok_def Let_def hex_groups_def list_all_iff h)
qed

lemma generated_format: "validate_format (KEY_PREFIX @ hex_fixed 32 n)"
  by (simp add: validate_format_def KEY_LENGTH_def py_startswith_def int16_hex hex_value_fixed) (simp add: KEY_PREFIX_def)

lemma readable_reads: "reads (readable_subscription user i)"
  unfolding readable_subscription_def subscription_or_404_def get_subscription_by_id_def by (intro reads_rules | simp)+

lemma readable_ok:
  assumes "readable_subscription user i p = (Inr s, p')"
  shows "s \<in> set (subs p)" and "sub_id s = i" and "has_tenant_access user (sub_tenant_id s)"
proof -
  obtain u where "scoped_user user p = (Inr u, p)" and "bindA (subscription_or_404 i) (\<lambda>s.
     if \<not> has_tenant_access user (sub_tenant_id s) then refuse 403 ''Access denied'' else retA s) p = (Inr s, p')"
    by (rule reads_bindE [OF create_reads(1) assms [unfolded readable_subscription_def]])
  then show "s \<in> set (subs p)" and "sub_id s = i" and "has_tenant_access user (sub_tenant_id s)"
    by (auto simp: subscription_or_404_def get_subscription_by_id_def select_one_def
      elim!: bindA_okE split: if_splits option.splits sum.splits dest: scalar_one_or_none_in)
qed

lemma no_rotation_state: "no_rotation_running s p = (r, p') \<Longrightarrow> subs p' = subs p"
  by (auto simp: no_rotation_running_def bindA_def split: option.splits if_splits)

text \<open>What a successful write of a new key leaves.\<close>

lemma write_new_key_okE:
  assumes "write_new_key s hours (key, key_hash, key_prefix) p = (Inr k, p')"
  obtains now e where "dt_add now (hours * 3600000000) = Some e" and "kr_new_api_key k = key" and "kr_old_key_expires_at k = Some e"
    and "subs p' = saved (rotated key_hash key_prefix now e s) (subs p)"
proof -
  let ?now = "clock (po_world p) (ticks (po_world p))"
  obtain row p1 where row: "rotate_key s key_hash key_prefix hours p = (Inr row, p1)"
    and rest: "bindA (emit_subscription_event ''subscription.key_rotated'' row [(''grace_period_hours'', JInt hours)]) (\<lambda>_.
     retA \<lparr>kr_new_api_key = key, kr_new_api_key_prefix = key_prefix,
           kr_old_key_expires_at = sub_previous_key_expires_at row, kr_grace_period_hours = hours,
           kr_rotation_count = sub_rotation_count row\<rparr>) p1 = (Inr k, p')"
    using assms by (auto elim: bindA_okE)
  from row obtain e where e: "dt_add ?now (hours * 3600000000) = Some e" "row = rotated key_hash key_prefix ?now e s"
    "subs p1 = saved row (subs p)"
    by (auto simp: rotate_key_def bindA_def save_subscription_def put_subscription_def saved_def split: option.splits)
  from rest obtain p2 where p2: "noted p1 p2" "k = \<lparr>kr_new_api_key = key, kr_new_api_key_prefix = key_prefix,
           kr_old_key_expires_at = sub_previous_key_expires_at row, kr_grace_period_hours = hours,
           kr_rotation_count = sub_rotation_count row\<rparr>" "p' = p2"
    by (rule emit_bind) auto
  then show thesis using e noted_fields(1) [OF p2(1)] by (intro that [OF e(1)]) (simp_all add: rotated_def)
qed

lemma rotate_okE:
  assumes run: "rotate_api_key hst user i hours p = (Inr k, p')"
  obtains r n px now e where "r \<in> set (subs p)" and "sub_id r = i" and "has_tenant_access user (sub_tenant_id r)"
    and "sub_status r = SUB_ACTIVE" and "kr_new_api_key k = KEY_PREFIX @ hex_fixed 32 n" and "dt_add now (hours * 3600000000) = Some e"
    and "kr_old_key_expires_at k = Some e"
    and "subs p' = saved (rotated (hash_key hst (kr_new_api_key k)) px now e r) (subs p)"
proof -
  obtain r where r: "readable_subscription user i p = (Inr r, p)" and body: "(if sub_status r \<noteq> SUB_ACTIVE then
       refuse 400 (''Cannot rotate key for subscription in '' @ subscription_value (sub_status r) @ '' status'')
     else bindA (no_rotation_running r) (\<lambda>_. bindA (generate_key hst None) (\<lambda>generated.
     catchA (write_new_key r hours generated) (\<lambda>_. True) (\<lambda>_. refuse 500 ''Failed to rotate API key'')))) p = (Inr k, p')"
    by (rule reads_bindE [OF readable_reads run [unfolded rotate_api_key_def]])
  from body have st: "sub_status r = SUB_ACTIVE" by (cases "sub_status r = SUB_ACTIVE") simp_all
  with body have "bindA (no_rotation_running r) (\<lambda>_. bindA (generate_key hst None) (\<lambda>generated.
     catchA (write_new_key r hours generated) (\<lambda>_. True) (\<lambda>_. refuse 500 ''Failed to rotate API key''))) p = (Inr k, p')"
    by simp
  then obtain p1 where p1: "no_rotation_running r p = (Inr (), p1)"
    and tail: "bindA (generate_key hst None) (\<lambda>generated.
      catchA (write_new_key r hours generated) (\<lambda>_. True) (\<lambda>_. refuse 500 ''Failed to rotate API key'')) p1 = (Inr k, p')"
    by (rule bindA_okE) simp
  let ?n = "unat (po_random p1 (po_randoms_used p1))" and ?p = "p1\<lparr>po_randoms_used := Suc (po_randoms_used p1)\<rparr>"
  let ?key = "KEY_PREFIX @ hex_fixed 32 ?n"
  from tail have "write_new_key r hours (?key, hash_key hst ?key, take 12 ?key) ?p = (Inr k, p')"
    by (auto simp: generate_key_def token_hex_def bindA_def opt_truthy_def Let_def catchA_def split: prod.splits sum.splits)
  then obtain now e where w: "dt_add now (hours * 3600000000) = Some e" "kr_new_api_key k = ?key"
    "kr_old_key_expires_at k = Some e" "subs p' = saved (rotated (hash_key hst ?key) (take 12 ?key) now e r) (subs ?p)"
    by (rule write_new_key_okE)
  show thesis
    by (rule that [OF readable_ok [OF r] st w(2,1,3)]) (use w(2,4) no_rotation_state [OF p1] in simp)
qed

text \<open>And when a rotation succeeds.\<close>

lemma rotate_returns:
  assumes held: "holding r (subs p)" and acc: "has_tenant_access user (sub_tenant_id r)" and st: "sub_status r = SUB_ACTIVE"
    and free: "sub_previous_key_expires_at r = None"
    and later: "dt_add (clock (po_world p) (ticks (po_world p))) (hours * 3600000000) = Some e"
  shows "\<exists>k p'. rotate_api_key hst user (sub_id r) hours p = (Inr k, p') \<and>
    kr_new_api_key k = KEY_PREFIX @ hex_fixed 32 (unat (po_random p (po_randoms_used p)))"
proof -
  let ?key = "KEY_PREFIX @ hex_fixed 32 (unat (po_random p (po_randoms_used p)))"
  let ?p = "p\<lparr>po_randoms_used := Suc (po_randoms_used p)\<rparr>"
  obtain row p1 where row: "rotate_key r (hash_key hst ?key) (take 12 ?key) hours ?p = (Inr row, p1)"
    using later by (simp add: rotate_key_def bindA_def save_subscription_def)
  obtain p2 where "emit_subscription_event ''subscription.key_rotated'' row [(''grace_period_hours'', JInt hours)] p1 = (Inr (), p2)"
    by (rule emit_run)
  with row have "\<exists>k. write_new_key r hours (?key, hash_key hst ?key, take 12 ?key) ?p = (Inr k, p2) \<and> kr_new_api_key k = ?key"
    by (simp add: bindA_run)
  moreover have "generate_key hst None p = (Inr (?key, hash_key hst ?key, take 12 ?key), ?p)"
    by (simp add: generate_key_def token_hex_def bindA_def opt_truthy_def Let_def)
  ultimately show ?thesis
    using st free by (auto simp: rotate_api_key_def readable_run [OF held acc] bindA_run no_rotation_running_def catchA_def)
qed

text \<open>The key a subscription is asked for, in the table before and after the rotation.\<close>

definition carries :: "string \<Rightarrow> subscription \<Rightarrow> bool" where
  "carries h s \<longleftrightarrow> sub_api_key_hash s = Some h \<or> sub_previous_api_key_hash s = Some h"

lemma saved_split:
  assumes "holding r t" and "sub_id r' = sub_id r"
  obtains xs ys where "t = xs @ r # ys" and "saved r' t = xs @ r' # ys" and "r \<notin> set xs \<union> set ys"
proof -
  from assms(1) obtain xs ys where t: "t = xs @ r # ys" by (auto simp: holding_def in_set_conv_decomp)
  then have "sub_id r \<notin> sub_id ` set xs" "sub_id r \<notin> sub_id ` set ys"
    using assms(1) by (auto simp: holding_def unique_ids_def)
  then have ids: "sub_id s \<noteq> sub_id r" if "s \<in> set xs \<union> set ys" for s using that by (metis UnE image_eqI)
  then have "saved r' xs = xs" "saved r' ys = ys" unfolding saved_def using assms(2) by (auto intro!: map_idI)
  then have "saved r' t = xs @ r' # ys" using t assms(2) by (simp add: saved_def)
  with t ids show thesis by (intro that) blast+
qed

lemma saved_filter:
  assumes "holding r t" and "sub_id r' = sub_id r" and others: "\<And>s. s \<in> set t \<Longrightarrow> s \<noteq> r \<Longrightarrow> \<not> P s"
  shows "filter P (saved r' t) = (if P r' then [r'] else [])"
proof -
  obtain xs ys where s: "t = xs @ r # ys" "saved r' t = xs @ r' # ys" "r \<notin> set xs \<union> set ys"
    by (rule saved_split [OF assms(1,2)])
  then have "filter P xs = []" "filter P ys = []" using others unfolding filter_empty_conv by auto
  with s(2) show ?thesis by simp
qed

definition key_answer :: "subscription \<Rightarrow> jdict \<Rightarrow> datetime \<Rightarrow> failure + jdict" where
  "key_answer s extra now =
     (if sub_status s \<noteq> SUB_ACTIVE then Inl (Refused (HTTPException 403 (JStr (''Subscription is '' @ subscription_value (sub_status s)))))
      else if expired s now then Inl (Refused (HTTPException 403 (JStr ''Subscription expired'')))
      else Inr (validation_result s @ extra))"

lemma validate_current:
  assumes "validate_format key" and "filter (\<lambda>s. sub_api_key_hash s = Some (hash_key hst key)) (subs q) = [s]"
  shows "fst (validate_api_key hst (Some key) other q) = key_answer s [] (clock (po_world q) (ticks (po_world q)))"
proof -
  have "key \<noteq> []" using assms(1) by (simp add: validate_format_def)
  with assms show ?thesis
    by (simp add: validate_api_key_def opt_truthy_def or_str_def row_of_key_def get_by_api_key_hash_def select_one_def bindA_def
        key_answer_def Let_def)
qed

lemma validate_previous:
  fixes q :: portal
  defines "now \<equiv> clock (po_world q) (ticks (po_world q))"
  assumes "validate_format key" and "filter (\<lambda>s. sub_api_key_hash s = Some (hash_key hst key)) (subs q) = []"
    and "filter (\<lambda>s. sub_previous_api_key_hash s = Some (hash_key hst key) \<and> after (sub_previous_key_expires_at s) now) (subs q) =
      (if P then [s] else [])"
  shows "fst (validate_api_key hst (Some key) other q) =
    (if P then key_answer s (deprecated_key_warning s) (clock (po_world q) (Suc (ticks (po_world q))))
     else Inl (Refused (HTTPException 401 (JStr ''API key not found''))))"
proof -
  have "key \<noteq> []" using assms(2) by (simp add: validate_format_def)
  with assms(2-4) show ?thesis
    by (simp add: validate_api_key_def opt_truthy_def or_str_def row_of_key_def get_by_api_key_hash_def get_by_previous_key_hash_def
        select_one_def bindA_def key_answer_def Let_def now_def)
qed

section \<open>Listings\<close>

lemma respond_rows: "forA rows respond p =
    (if list_all respondable rows then (Inr rows, p) else (Inl (ValidationError ''provisioning_status''), p))"
  by (induction rows) (simp_all add: bindA_def respond_run)

lemma tenant_listing:
  assumes "has_tenant_access user tenant_id"
  shows "list_tenant_subscriptions user tenant_id st page n env p =
    (let rows = filter (\<lambda>s. sub_tenant_id s = tenant_id \<and> if_given st (sub_status s) \<and> (env = None \<or> sub_environment s = env)) (subs p);
         items = page_of page n (newest_first rows)
     in if list_all respondable items
        then (Inr \<lparr>sl_items = items, sl_total = length rows, sl_page = page, sl_page_size = n,
               sl_total_pages = total_pages (length rows) n\<rparr>, p)
        else (Inl (ValidationError ''provisioning_status''), p))"
  using assms
  by (simp add: list_tenant_subscriptions_def scoped_of_access list_by_tenant_def paginated_def Let_def bindA_def
      list_response_def respond_rows)

lemma pages_take: "concat (map (\<lambda>k. page_of k n xs) [1..<Suc m]) = take (m * n) xs"
proof (induction m)
  case (Suc m)
  have "take (Suc m * n) xs = take (m * n) xs @ take n (drop (m * n) xs)"
    using take_add [of "m * n" n xs] by (simp add: add.commute)
  with Suc show ?case by (simp add: page_of_def)
qed simp

lemma pages_enough: "0 < n \<Longrightarrow> l \<le> total_pages l n * n"
proof (cases "l = 0")
  case False
  assume n: "0 < n"
  have "l + n - 1 = (l + n - 1) div n * n + (l + n - 1) mod n" by (rule div_mult_mod_eq [symmetric])
  moreover have "(l + n - 1) mod n < n" using n by (rule mod_less_divisor)
  ultimately have "l \<le> (l + n - 1) div n * n" using n by linarith
  then show ?thesis using False by (simp add: total_pages_def)
qed simp

end
