(* ===== verification/SubscriptionScenario.thy ===== *)
theory SubscriptionScenario
  imports SubscriptionProtocol SubscriptionRuns Scenario
begin

text \<open>
  A portal at which the properties of the subscriptions are instantiated: one application of one developer, a plan that
  needs an approval, an administrator, and the API \<open>a\<close> of the sample world on a gateway that has an adapter.
\<close>

definition developer :: user where
  "developer = \<lparr>u_id = ''u1'', u_email = ''u@x'', u_username = ''u'', u_roles = [''viewer''], u_tenant_id = Some ''t''\<rparr>"

definition manager :: user where
  "manager = \<lparr>u_id = ''u2'', u_email = ''m@x'', u_username = ''m'', u_roles = [''tenant-admin''], u_tenant_id = Some ''t''\<rparr>"

definition sample_application :: portal_application where
  "sample_application = \<lparr>app_id = 50, app_owner_id = ''u1'', app_tenant_id = Some ''t'', app_keycloak_client_id = Some ''client'',
     app_security_profile = OAUTH2_PUBLIC\<rparr>"

definition sample_plan :: plan where
  "sample_plan = \<lparr>pl_id = 60, pl_slug = ''gold'', pl_tenant_id = ''t'', pl_rate_limit_per_second = None,
     pl_rate_limit_per_minute = Some 100, pl_daily_request_limit = None, pl_monthly_request_limit = None, pl_burst_limit = None,
     pl_requires_approval = True, pl_auto_approve_roles = Some [''devops'']\<rparr>"

definition subscribing :: "string option \<Rightarrow> subscription_create" where
  "subscribing plan_id = \<lparr>sc_application_id = uuid_str 50, sc_application_name = ''A'', sc_api_id = ''a'', sc_api_name = ''a'',
     sc_api_version = ''1'', sc_tenant_id = ''t'', sc_plan_id = plan_id, sc_plan_name = None\<rparr>"

definition sample_subscription :: "uuid \<Rightarrow> subscription_status \<Rightarrow> subscription" where
  "sample_subscription i st = (new_subscription developer (subscribing None) (Some ''client'') i (DT 2025 1 1 0 0 0 0) (DT 2025 1 1 0 0 0 0))
     \<lparr>sub_status := st\<rparr>"

definition sample_tables :: "subscription list \<Rightarrow> tables" where
  "sample_tables rows = \<lparr>tb_subscriptions = rows, tb_applications = [sample_application], tb_plans = [sample_plan],
     tb_consumers = [], tb_webhooks = [], tb_deliveries = []\<rparr>"

definition sample_portal :: "subscription list \<Rightarrow> portal" where
  "sample_portal rows = \<lparr>po_tables = sample_tables rows, po_committed = sample_tables rows,
     po_world = sample_world\<lparr>gateways := [(sample_gateway 1 ''g1'' ''dev'')\<lparr>gi_source := ''argocd''\<rparr>]\<rparr>,
     po_jobs = [], po_random = word_of_nat, po_randoms_used = 0\<rparr>"


lemma sample_access: "has_tenant_access developer ''t''" "has_tenant_admin_access manager ''t''"
    "scoped_user developer p = (Inr (), p)" "scoped_user manager p = (Inr (), p)"
    "decide_tenant_access developer (Some ''t'') ''resource'' = Inr (Some ''t'')"
proof -
  have "\<not> py_isspace CHR ''t''" by code_simp
  then show "has_tenant_access developer ''t''" "has_tenant_admin_access manager ''t''"
    "scoped_user developer p = (Inr (), p)" "scoped_user manager p = (Inr (), p)"
    "decide_tenant_access developer (Some ''t'') ''resource'' = Inr (Some ''t'')"
    by (simp_all add: has_tenant_access_def has_tenant_admin_access_def is_any_admin_def decide_tenant_access_def developer_def manager_def
      is_admin_def py_strip_def strip_by_def scoped_user_def allow_def opt_truthy_def or_str_def Let_def)
qed

lemma sample_subscription_fields [simp]: "sub_id (sample_subscription i st) = i" "sub_status (sample_subscription i st) = st"
    "sub_tenant_id (sample_subscription i st) = ''t''" "sub_subscriber_id (sample_subscription i st) = ''u1''"
    "sub_application_id (sample_subscription i st) = uuid_str 50" "sub_api_id (sample_subscription i st) = ''a''"
    "sub_oauth_client_id (sample_subscription i st) = Some ''client''" "sub_provisioning_status (sample_subscription i st) = PROV_NONE"
    "sub_gateway_app_id (sample_subscription i st) = None" "sub_expires_at (sample_subscription i st) = None"
    "sub_ttl_extension_count (sample_subscription i st) = 0" "sub_ttl_total_extended_days (sample_subscription i st) = 0"
  by (simp_all add: sample_subscription_def new_subscription_def subscribing_def developer_def)

lemma sample_portal_fields [simp]: "subs (sample_portal rows) = rows" "po_committed (sample_portal rows) = po_tables (sample_portal rows)"
    "tb_applications (po_tables (sample_portal rows)) = [sample_application]" "tb_plans (po_tables (sample_portal rows)) = [sample_plan]"
    "po_jobs (sample_portal rows) = []" "tb_webhooks (po_tables (sample_portal rows)) = []"
  by (simp_all add: sample_portal_def sample_tables_def)

lemma sample_at_rest: "distinct (map sub_id rows) \<Longrightarrow> at_rest (sample_portal rows)"
  by (simp add: at_rest_def unique_ids_def)

lemma sample_admission:
  assumes "list_all (\<lambda>s. sub_application_id s = uuid_str 50 \<and> sub_api_id s = ''a'' \<longrightarrow> \<not> holds_place s) rows"
  shows "admission developer (subscribing plan_id) (sample_portal rows) = (Inr (Some ''client''), sample_portal rows)"
proof -
  have "filter (\<lambda>s. sub_application_id s = uuid_str 50 \<and> sub_api_id s = ''a'' \<and> holds_place s) rows = []"
    using assms by (auto simp: filter_empty_conv list_all_iff)
  then show ?thesis
    by (simp add: admission_def sample_access subscribing_def allow_def get_by_application_and_api_def application_of_def
        get_application_by_id_def select_one_def bindA_def catchA_def uuid_roundtrip sample_application_def oauth_client_of_def opt_truthy_def)
qed

lemma subscribing_succeeds:
  assumes "list_all (\<lambda>s. sub_application_id s = uuid_str 50 \<and> sub_api_id s = ''a'' \<longrightarrow> \<not> holds_place s) rows"
    and "distinct (map sub_id rows)" and "100 \<notin> sub_id ` set rows"
  shows "\<exists>s' p'. create_subscription developer (subscribing None) (sample_portal rows) = (Inr s', p')"
  using create_returns [OF sample_at_rest [OF assms(2)] sample_admission [OF assms(1)]] assms(3)
  by (simp add: subscribing_def opt_truthy_def sample_portal_def sample_world_def sample_tables_def)

end
