(* ===== verification/WebhookFacts.thy ===== *)
theory WebhookFacts
  imports WebhookService
begin

text \<open>A delivery comes to an end: what the attempts of \<open>deliver_webhook\<close> leave in its record.\<close>

text \<open>The clock is far enough from the last representable date that a delay can be added.\<close>

definition clock_in_range :: "world \<Rightarrow> bool" where
  "clock_in_range w \<longleftrightarrow> (\<forall>n. DAY \<le> dt_instant (clock w n) \<and> dt_instant (clock w n) + 7200000000 < (MAX_ORDINAL + 1) * DAY)"

lemma retry_delay_bounds:
  assumes "1 \<le> c"
  shows "60 \<le> retry_delay c \<and> retry_delay c \<le> 7200"
proof -
  have "nat (min (c - 1) 4) \<in> {0, 1, 2, 3, 4}" using assms by auto
  then show ?thesis by (auto simp: retry_delay_def RETRY_DELAYS_def)
qed

lemma delay_added:
  assumes "clock_in_range w" and "1 \<le> c"
  shows "\<exists>u. dt_add (clock w n) (retry_delay c * 1000000) = Some u"
proof -
  have "DAY \<le> dt_instant (clock w n)" "dt_instant (clock w n) + 7200000000 < (MAX_ORDINAL + 1) * DAY"
    using assms(1) by (auto simp: clock_in_range_def)
  with retry_delay_bounds [OF assms(2)] show ?thesis by (auto simp: dt_add_def Let_def)
qed

lemma answered_fields [simp]:
  "whd_attempt_count (answered a now d) = whd_attempt_count d + 1"
  "whd_max_attempts (answered a now d) = whd_max_attempts d"
  "whd_id (answered a now d) = whd_id d"
  "whd_payload (answered a now d) = whd_payload d"
  by (simp_all add: answered_def Let_def split: webhook_answer.splits)

text \<open>The record at the end: the first attempt that is accepted, or all of them refused.\<close>

definition delivery_settled :: "(int \<Rightarrow> webhook_answer) \<Rightarrow> webhook_delivery \<Rightarrow> webhook_delivery \<Rightarrow> bool" where
  "delivery_settled answers d d' \<longleftrightarrow> whd_id d' = whd_id d \<and> whd_payload d' = whd_payload d \<and> whd_next_retry_at d' = None \<and>
     (case find (\<lambda>k. accepted_answer (answers k)) [whd_attempt_count d + 1 .. whd_max_attempts d] of
        None \<Rightarrow> whd_status d' = ''failed'' \<and> whd_attempt_count d' = whd_max_attempts d
      | Some k \<Rightarrow> whd_status d' = ''success'' \<and> whd_attempt_count d' = k)"

lemma delivery_settled_next:
  assumes "whd_attempt_count d < whd_max_attempts d" and "\<not> accepted_answer (answers (whd_attempt_count d + 1))"
    and "delivery_settled answers d1 d'" and "whd_attempt_count d1 = whd_attempt_count d + 1" and "whd_max_attempts d1 = whd_max_attempts d"
    and "whd_id d1 = whd_id d" and "whd_payload d1 = whd_payload d"
  shows "delivery_settled answers d d'"
proof -
  have "[whd_attempt_count d + 1 .. whd_max_attempts d] =
      (whd_attempt_count d + 1) # [whd_attempt_count d1 + 1 .. whd_max_attempts d1]"
    using assms(1,4,5) by (subst upto.simps) simp
  with assms(2-7) show ?thesis by (auto simp: delivery_settled_def split: option.splits)
qed

lemma delivery_ends:
  assumes "clock_in_range (po_world p)" and "0 \<le> whd_attempt_count d" and "whd_attempt_count d < whd_max_attempts d"
  shows "\<exists>d' p'. deliver_webhook answers d p = (Inr d', p') \<and> delivery_settled answers d d'"
  using assms
proof (induction "nat (whd_max_attempts d - whd_attempt_count d)" arbitrary: d p rule: less_induct)
  case less
  let ?w = "po_world p"
  let ?a = "answers (whd_attempt_count d + 1)" and ?d = "answered (answers (whd_attempt_count d + 1)) (clock ?w (ticks ?w)) d"
  let ?p = "p\<lparr>po_world := ?w\<lparr>ticks := Suc (Suc (ticks ?w))\<rparr>\<rparr>"
  have upto: "[whd_attempt_count d + 1 .. whd_max_attempts d] = (whd_attempt_count d + 1) # [whd_attempt_count d + 2 .. whd_max_attempts d]"
    using less.prems(3) by (subst upto.simps) (simp add: add.assoc)
  show ?case
  proof (cases "accepted_answer ?a")
    case True
    then show ?thesis
      using less.prems(3) by (subst deliver_webhook.simps) (simp add: bindA_def Let_def delivery_settled_def upto)
  next
    case refused: False
    show ?thesis
    proof (cases "whd_attempt_count d + 1 < whd_max_attempts d")
      case False
      with less.prems(3) have "whd_max_attempts d = whd_attempt_count d + 1" by linarith
      with refused show ?thesis by (subst deliver_webhook.simps) (simp add: bindA_def Let_def delivery_settled_def)
    next
      case True
      obtain u where u: "dt_add (clock ?w (Suc (ticks ?w))) (retry_delay (whd_attempt_count d + 1) * 1000000) = Some u"
        using delay_added [OF less.prems(1), of "whd_attempt_count d + 1"] less.prems(2) by auto
      let ?d1 = "?d\<lparr>whd_next_retry_at := Some u, whd_status := ''retrying''\<rparr>"
      have "deliver_webhook answers d p = deliver_webhook answers ?d1 ?p"
        using refused True less.prems(3) u by (subst deliver_webhook.simps) (simp add: bindA_def Let_def)
      moreover obtain d' p' where "deliver_webhook answers ?d1 ?p = (Inr d', p')" and last: "delivery_settled answers ?d1 d'"
        using less.hyps [of ?d1 ?p] less.prems True by (auto simp: clock_in_range_def)
      moreover have "delivery_settled answers d d'"
        by (rule delivery_settled_next [where answers = answers and d = d, OF less.prems(3) refused last]) simp_all
      ultimately show ?thesis by auto
    qed
  qed
qed

end
