(* ===== verification/SubscriptionSpecs.thy ===== *)
theory SubscriptionSpecs
  imports SubscriptionOutcomes SubscriptionScenario WebhookFacts
begin

text \<open>The properties of subscriptions, their keys and their provisioning.\<close>

section \<open>Requests\<close>

text \<open>
  C4. An answer that is an error leaves the tables as they were. Otherwise every row of another tenant is unchanged, a status only
  moves along the automaton, by an administrator of its tenant or as a cancellation by its subscriber, and new rows are
  subscriptions of the user in a tenant of theirs.
\<close>

theorem subscription_request_effect:
  assumes "at_rest p" and "request_ok rq" and "with_session (handle_subscription hst user rq) p = (a, p')"
  shows "at_rest p' \<and> (isl a \<longrightarrow> po_tables p' = po_tables p) \<and>
    (\<exists>old new. subs p' = old @ new \<and> list_all2 (sub_moved user) (subs p) old \<and> list_all (sub_new user) new)"
  using request_moves [OF assms] unfolding subs_move_def rows_move_def by blast

lemma sample_session:
  assumes "list_all (\<lambda>s. sub_application_id s = uuid_str 50 \<and> sub_api_id s = ''a'' \<longrightarrow> \<not> holds_place s) rows"
    and "distinct (map sub_id rows)" and "100 \<notin> sub_id ` set rows"
  shows "\<exists>p'. with_session (handle_subscription sample_host developer (CreateSubscription (subscribing None))) (sample_portal rows) = (Inr (), p')"
  using subscribing_succeeds [OF assms] by (auto simp: with_session_def ignoring_def bindA_def)

theorem subscription_request_effect_witness: "\<exists>p'. with_session (handle_subscription sample_host developer
    (CreateSubscription (subscribing None))) (sample_portal []) = (Inr (), p') \<and> at_rest p' \<and> list_all (sub_new developer) (subs p')"
proof -
  obtain p' where run: "with_session (handle_subscription sample_host developer (CreateSubscription (subscribing None)))
      (sample_portal []) = (Inr (), p')"
    using sample_session [of "[]"] by auto
  have "at_rest (sample_portal [])" by (rule sample_at_rest) simp
  from subscription_request_effect [OF this _ run] run show ?thesis by auto
qed





section \<open>Approvals\<close>



section \<open>Provisioning\<close>

text \<open>
  C9. A job that is left alone settles within its retries and touches only the provisioning columns of its row: ready when there is
  no adapter or one of the first three answers accepts (with the application of the first that does), failed when the
  credentials cannot be resolved or all three refuse.
\<close>

theorem provisioning_settles:
  assumes "at_rest p" and "r \<in> set (subs p)" and "MAX_RETRIES + 2 \<le> fuel"
  shows "\<exists>p' r'. run_job credentials correlation_id answers fuel (Provision (sub_id r)) p = (Inr None, p') \<and>
    r' \<in> set (subs p') \<and> provisioning_only r r' \<and>
    (case resolve_adapter credentials (po_world p) (sub_api_id r) (sub_tenant_id r) of
       CredentialResolutionError \<Rightarrow> sub_provisioning_status r' = PROV_FAILED \<and> sub_gateway_app_id r' = sub_gateway_app_id r
     | NoAdapter \<Rightarrow> sub_provisioning_status r' = PROV_READY \<and> sub_gateway_app_id r' = sub_gateway_app_id r
     | Adapter g \<Rightarrow> (case find (\<lambda>k. answer_error (answers k) = None) [1, 2, 3] of
           None \<Rightarrow> sub_provisioning_status r' = PROV_FAILED \<and> sub_gateway_app_id r' = sub_gateway_app_id r \<and>
             sub_provisioning_error r' = answer_error (answers 3)
         | Some k \<Rightarrow> sub_provisioning_status r' = PROV_READY \<and> sub_gateway_app_id r' = answer_resource (answers k) \<and>
             sub_provisioning_error r' = None))"
proof -
  have "[1..<Suc MAX_RETRIES] = [1, 2, 3]" by (simp add: MAX_RETRIES_def upt_rec)
  with provision_ends [OF assms, of credentials correlation_id answers] show ?thesis
    unfolding provision_outcome_def attempts_outcome_def accepted_attempt_def by (metis MAX_RETRIES_def)
qed

lemma sample_adapter: "resolve_adapter (\<lambda>_. Credentials) (po_world (sample_portal rows)) ''a'' ''t'' =
    Adapter ((sample_gateway 1 ''g1'' ''dev'')\<lparr>gi_source := ''argocd''\<rparr>)"
  by (simp add: resolve_adapter_def get_primary_for_api_def sample_portal_def sample_world_def sample_deployment_def sample_api_def
      sample_draft_def sample_row_def get_gateway_by_id_def sample_gateway_def agent_managed_def)

definition third_time_lucky :: "nat \<Rightarrow> adapter_answer" where
  "third_time_lucky n = (if n < 3 then AdapterRaised ''down'' else AdapterResult True (Some ''app-1'') None)"

theorem provisioning_settles_witness: "\<exists>p' r'. run_job (\<lambda>_. Credentials) ''c'' third_time_lucky 5 (Provision 1)
    (sample_portal [sample_subscription 1 SUB_ACTIVE]) = (Inr None, p') \<and> r' \<in> set (subs p') \<and>
    sub_provisioning_status r' = PROV_READY \<and> sub_gateway_app_id r' = Some ''app-1''"
  using provisioning_settles [OF sample_at_rest, of "[sample_subscription 1 SUB_ACTIVE]" "sample_subscription 1 SUB_ACTIVE" 5
      "\<lambda>_. Credentials" "''c''" third_time_lucky]
  by (auto simp: sample_adapter MAX_RETRIES_def third_time_lucky_def answer_error_def answer_resource_def)

lemma provisioned_after_revocation:
  assumes "at_rest q" and "po_jobs q = [Provisioning s spec n, Deprovision i None]" and "r \<in> set (subs q)" and "sub_id r = sub_id s"
    and "sub_status r = SUB_REVOKED" and "sub_provisioning_status s \<noteq> PROV_READY" and "sub_gateway_app_id s = None"
  shows "\<exists>p'. (portal_step hst credentials)\<^sup>*\<^sup>* q p' \<and> po_jobs p' = [] \<and> (\<exists>r' \<in> set (subs p'). sub_id r' = sub_id r \<and>
    sub_status r' = SUB_REVOKED \<and> sub_provisioning_status r' = PROV_READY \<and> sub_gateway_app_id r' = Some app)"
proof -
  let ?a = "AdapterResult True (Some app) None" and ?now = "clock (po_world q) (ticks (po_world q))"
  let ?s = "s\<lparr>sub_provisioning_status := PROV_READY, sub_gateway_app_id := Some app, sub_provisioned_at := Some ?now,
    sub_provisioning_error := None\<rparr>"
  let ?q = "q\<lparr>po_world := (po_world q)\<lparr>ticks := Suc (ticks (po_world q))\<rparr>\<rparr>"
  obtain q1 where run: "job_commit s ?s ?q = (Inr ?s, q1)" and writes: "job_writes ?q q1"
    and rows: "subs q1 = map (\<lambda>r. if sub_id r = sub_id s then write_back s ?s (clock (po_world ?q) (ticks (po_world ?q))) r else r) (subs ?q)"
    by (rule job_commit_run [OF tick_at_rest [OF assms(1)]])
  have "job_step credentials correlation_id ?a (Provisioning s spec n) q = (Inr None, q1)" for correlation_id
    using run by (simp add: answer_provision_def answer_error_def answer_resource_def bindA_def)
  then have one: "portal_step hst credentials q (q1\<lparr>po_jobs := [Deprovision i None]\<rparr>)"
    using portal_step.job [of q "[]" "Provisioning s spec n" "[Deprovision i None]" credentials _ ?a None q1 hst] assms(2) by simp
  have "job_step credentials correlation_id ?a (Deprovision i None) (q1\<lparr>po_jobs := [Deprovision i None]\<rparr>) =
      (Inr None, q1\<lparr>po_jobs := [Deprovision i None]\<rparr>)" for correlation_id
    by (simp add: begin_deprovision_def opt_truthy_def)
  then have two: "portal_step hst credentials (q1\<lparr>po_jobs := [Deprovision i None]\<rparr>) (q1\<lparr>po_jobs := []\<rparr>)"
    using portal_step.job [of "q1\<lparr>po_jobs := [Deprovision i None]\<rparr>" "[]" "Deprovision i None" "[]" credentials _ ?a None _ hst] by force
  let ?r = "write_back s ?s (clock (po_world ?q) (ticks (po_world ?q))) r"
  have "?r \<in> set (subs q1)" using rows assms(3,4) by force
  moreover have "sub_gateway_app_id ?s \<noteq> sub_gateway_app_id s" using assms(7) by simp
  then have "?s \<noteq> s" by metis
  then have "sub_id ?r = sub_id r" "sub_status ?r = SUB_REVOKED" "sub_provisioning_status ?r = PROV_READY" "sub_gateway_app_id ?r = Some app"
    using assms(5-7) by (auto simp: write_back_def written_def)
  ultimately show ?thesis
    using one two by (intro exI [of _ "q1\<lparr>po_jobs := []\<rparr>"] conjI bexI [of _ ?r]) (auto intro: rtranclp_trans)
qed

text \<open>
  C23. A subscription that is revoked while its provisioning job waits for the gateway keeps an application there: the job that
  should remove it sees none, and the provisioning job then writes the application into the revoked row.
\<close>

theorem revoked_while_provisioning:
  assumes "at_rest p" and "po_jobs p = [Provisioning s spec n]" and "r \<in> set (subs p)" and "sub_id r = sub_id s"
    and "sub_status r = SUB_ACTIVE" and "sub_provisioning_status s = PROV_RUNNING" and "sub_gateway_app_id s = None"
    and "sub_provisioning_status r = PROV_RUNNING" and "sub_gateway_app_id r = None"
    and "has_tenant_admin_access user (sub_tenant_id r)"
  shows "\<exists>q p'. with_session (handle_subscription hst user (RevokeSubscription (sub_id r) reason)) p = (Inr (), q) \<and>
    (portal_step hst credentials)\<^sup>*\<^sup>* q p' \<and> po_jobs p' = [] \<and> (\<exists>r' \<in> set (subs p'). sub_id r' = sub_id r \<and>
    sub_status r' = SUB_REVOKED \<and> sub_provisioning_status r' = PROV_READY \<and> sub_gateway_app_id r' = Some app)"
proof -
  have held: "holding r (subs p)" using assms(1,3) by (simp add: holding_def at_rest_def)
  obtain now later p1 where run: "revoke_subscription user (sub_id r) reason p =
      (Inr (status_updated SUB_REVOKED (Some reason) (Some (u_id user)) now later r), p1)"
    and rows: "subs p1 = saved (status_updated SUB_REVOKED (Some reason) (Some (u_id user)) now later r) (subs p)"
    and jobs: "po_jobs p1 = po_jobs p @ [Deprovision (sub_id r) (sub_gateway_app_id r)]"
    by (rule revoke_run [OF held assms(10)]) (simp_all add: assms respondable_def)
  let ?r = "status_updated SUB_REVOKED (Some reason) (Some (u_id user)) now later r"
  let ?q = "p1\<lparr>po_committed := po_tables p1\<rparr>"
  have served: "with_session (handle_subscription hst user (RevokeSubscription (sub_id r) reason)) p = (Inr (), ?q)"
    using run by (simp add: with_session_def ignoring_def bindA_def)
  have "at_rest ?q" using request_moves(2) [OF assms(1) _ served] by simp
  moreover have "?r \<in> set (subs ?q)" using rows assms(3) by (force simp: saved_def)
  ultimately have "\<exists>p'. (portal_step hst credentials)\<^sup>*\<^sup>* ?q p' \<and> po_jobs p' = [] \<and> (\<exists>r' \<in> set (subs p'). sub_id r' = sub_id ?r \<and>
      sub_status r' = SUB_REVOKED \<and> sub_provisioning_status r' = PROV_READY \<and> sub_gateway_app_id r' = Some app)"
    using jobs assms(2,4,6,7,9) by (intro provisioned_after_revocation [of ?q s spec n "sub_id r" ?r]) simp_all
  with served show ?thesis by auto
qed

definition half_provisioned :: subscription where
  "half_provisioned = (sample_subscription 1 SUB_ACTIVE)\<lparr>sub_provisioning_status := PROV_RUNNING\<rparr>"

theorem revoked_while_provisioning_witness: "\<exists>q p'. with_session (handle_subscription sample_host manager (RevokeSubscription 1 ''r''))
      ((sample_portal [half_provisioned])\<lparr>po_jobs := [Provisioning half_provisioned [] 1]\<rparr>) = (Inr (), q) \<and>
    (portal_step sample_host (\<lambda>_. Credentials))\<^sup>*\<^sup>* q p' \<and> (\<exists>r' \<in> set (subs p'). sub_status r' = SUB_REVOKED \<and>
      sub_gateway_app_id r' = Some ''app-1'')"
proof -
  let ?p = "(sample_portal [half_provisioned])\<lparr>po_jobs := [Provisioning half_provisioned [] 1]\<rparr>"
  have rest: "at_rest ?p" by (simp add: at_rest_def unique_ids_def)
  have fields: "sub_id half_provisioned = 1" "sub_status half_provisioned = SUB_ACTIVE" "sub_provisioning_status half_provisioned = PROV_RUNNING"
    "sub_gateway_app_id half_provisioned = None" "sub_tenant_id half_provisioned = ''t''"
    by (simp_all add: half_provisioned_def)
  show ?thesis
    using revoked_while_provisioning [OF rest, of half_provisioned "[]" 1 half_provisioned manager sample_host "''r''"
        "\<lambda>_. Credentials" "''app-1''"] fields sample_access(2) by auto
qed

section \<open>Clients\<close>

text \<open>
  A client is let through to an API exactly when one single active subscription entitles it and that has not expired: with
  two of them the validation fails, whatever they say.
\<close>

theorem oauth_validated_iff:
  "(\<exists>answer. fst (validate_subscription_oauth client_id api_id p) = Inr answer) \<longleftrightarrow>
    (\<exists>s. filter (\<lambda>s. sub_oauth_client_id s = Some client_id \<and> sub_api_id s = api_id \<and> sub_status s = SUB_ACTIVE) (subs p) = [s] \<and>
       \<not> expired s (clock (po_world p) (ticks (po_world p))))"
proof -
  have "(\<lambda>s. sub_oauth_client_id s = Some client_id \<and> sub_api_id s = api_id \<and> sub_status s = SUB_ACTIVE) = entitled client_id api_id"
    by (simp add: entitled_def fun_eq_iff)
  then show ?thesis unfolding oauth_run by (auto split: list.splits)
qed





section \<open>Keys\<close>

text \<open>
  C11. A rotation hands out a key of the right format that is valid at once. The key it replaces stays valid, with a warning, until
  the grace period it was given ends, and is unknown afterwards.
\<close>

theorem rotated_keys:
  assumes run: "rotate_api_key hst user i hours p = (Inr k, p')" and "unique_ids (subs p)" and q: "subs q = subs p'"
    and r: "r \<in> set (subs p)" "sub_id r = i" "sub_api_key_hash r = Some (hash_key hst old)" and old: "validate_format old"
    and alone: "\<forall>s \<in> set (subs p). s \<noteq> r \<longrightarrow> \<not> carries (hash_key hst old) s"
    and new: "\<forall>s \<in> set (subs p). \<not> carries (hash_key hst (kr_new_api_key k)) s"
  defines "now \<equiv> clock (po_world q) (ticks (po_world q))" and "later \<equiv> clock (po_world q) (Suc (ticks (po_world q)))"
  shows "fst (validate_api_key hst (Some (kr_new_api_key k)) None q) =
      (if expired r now then Inl (Refused (HTTPException 403 (JStr ''Subscription expired''))) else Inr (validation_result r)) \<and>
    fst (validate_api_key hst (Some old) None q) =
      (if \<not> after (kr_old_key_expires_at k) now then Inl (Refused (HTTPException 401 (JStr ''API key not found'')))
       else if expired r later then Inl (Refused (HTTPException 403 (JStr ''Subscription expired'')))
       else Inr (validation_result r @ deprecated_key_warning (r\<lparr>sub_previous_key_expires_at := kr_old_key_expires_at k\<rparr>)))"
proof -
  obtain r0 n px t e where R: "r0 \<in> set (subs p)" "sub_id r0 = i" "sub_status r0 = SUB_ACTIVE"
    "kr_new_api_key k = KEY_PREFIX @ hex_fixed 32 n" "kr_old_key_expires_at k = Some e"
    "subs p' = saved (rotated (hash_key hst (kr_new_api_key k)) px t e r0) (subs p)"
    by (rule rotate_okE [OF run]) blast
  have held: "holding r (subs p)" using r(1) assms(2) by (simp add: holding_def)
  have "r0 = r" using held_row [OF held R(1)] R(2) r(2) by simp
  let ?H = "hash_key hst (kr_new_api_key k)" and ?h = "hash_key hst old"
  let ?r = "rotated ?H px t e r"
  have rows: "subs q = saved ?r (subs p)" using q R(6) \<open>r0 = r\<close> by simp
  have fields: "sub_id ?r = sub_id r" "sub_status ?r = SUB_ACTIVE" "sub_api_key_hash ?r = Some ?H" "sub_previous_api_key_hash ?r = Some ?h"
    "sub_previous_key_expires_at ?r = Some e" "expired ?r = expired r" "validation_result ?r = validation_result r"
    using R(3) \<open>r0 = r\<close> r(3) by (simp_all add: rotated_def expired_def validation_result_def fun_eq_iff)
  have fresh: "?H \<noteq> ?h" using new r(1,3) by (auto simp: carries_def)
  have "filter (\<lambda>s. sub_api_key_hash s = Some ?H) (subs q) = [?r]"
    unfolding rows using new by (subst saved_filter [OF held fields(1)]) (auto simp: carries_def fields)
  moreover have "validate_format (kr_new_api_key k)" by (simp add: R(4) generated_format)
  ultimately have "fst (validate_api_key hst (Some (kr_new_api_key k)) None q) =
      (if expired r now then Inl (Refused (HTTPException 403 (JStr ''Subscription expired''))) else Inr (validation_result r))"
    using validate_current [of "kr_new_api_key k" hst q ?r None] by (simp add: key_answer_def fields now_def)
  moreover have "filter (\<lambda>s. sub_api_key_hash s = Some ?h) (subs q) = []"
    unfolding rows using alone fresh by (subst saved_filter [OF held fields(1)]) (auto simp: carries_def fields)
  moreover have "filter (\<lambda>s. sub_previous_api_key_hash s = Some ?h \<and> after (sub_previous_key_expires_at s) now) (subs q) =
      (if after (Some e) now then [?r] else [])"
    unfolding rows using alone by (subst saved_filter [OF held fields(1)]) (auto simp: carries_def fields)
  ultimately show ?thesis
    using validate_previous [OF old, of hst q "after (Some e) now" ?r None]
    by (simp add: R(5) key_answer_def fields now_def later_def deprecated_key_warning_def)
qed

definition old_key :: string where
  "old_key = KEY_PREFIX @ hex_fixed 32 1"

definition keyed :: subscription where
  "keyed = (sample_subscription 1 SUB_ACTIVE)\<lparr>sub_api_key_hash := Some (hash_key sample_host old_key)\<rparr>"

theorem rotated_keys_witness: "\<exists>k p'. rotate_api_key sample_host developer 1 24 (sample_portal [keyed]) = (Inr k, p') \<and>
    fst (validate_api_key sample_host (Some (kr_new_api_key k)) None p') = Inr (validation_result keyed)"
proof -
  have fields: "sub_id keyed = 1" "sub_tenant_id keyed = ''t''" "sub_status keyed = SUB_ACTIVE" "sub_previous_key_expires_at keyed = None"
    "sub_api_key_hash keyed = Some (hash_key sample_host old_key)" "sub_previous_api_key_hash keyed = None" "expired keyed now = False" for now
    by (simp_all add: keyed_def expired_def) (simp_all add: sample_subscription_def new_subscription_def)
  have "DAY \<le> dt_instant (DT 2025 1 1 0 0 0 0) + 24 * 3600000000" "dt_instant (DT 2025 1 1 0 0 0 0) + 24 * 3600000000 < (MAX_ORDINAL + 1) * DAY"
    by (simp_all add: dt_instant_def dt_ordinal_def year_days_def DAY_def MAX_ORDINAL_def)
  then have "dt_add (DT 2025 1 1 0 0 0 0) (24 * 3600000000) \<noteq> None" by (simp add: dt_add_def Let_def)
  then obtain e where e: "dt_add (clock (po_world (sample_portal [keyed])) (ticks (po_world (sample_portal [keyed])))) (24 * 3600000000) = Some e"
    by (auto simp: sample_portal_def sample_world_def)
  have held: "holding keyed (subs (sample_portal [keyed]))" by (simp add: holding_def unique_ids_def)
  from sample_access(1) have acc: "has_tenant_access developer (sub_tenant_id keyed)" by (simp add: fields)
  obtain k p' where run: "rotate_api_key sample_host developer 1 24 (sample_portal [keyed]) = (Inr k, p')"
    "kr_new_api_key k = KEY_PREFIX @ hex_fixed 32 0"
    using rotate_returns [OF held acc fields(3,4) e, of sample_host] by (auto simp: fields(1)) (simp add: sample_portal_def)
  have "hash_key sample_host (kr_new_api_key k) \<noteq> hash_key sample_host old_key"
  proof -
    have "hex_fixed 32 0 \<noteq> hex_fixed 32 1" by code_simp
    then show ?thesis by (simp add: run(2) old_key_def hash_key_def sample_host_def)
  qed
  then have "fst (validate_api_key sample_host (Some (kr_new_api_key k)) None p') = Inr (validation_result keyed)"
    using rotated_keys [OF run(1) _ refl, of keyed old_key] fields
    by (simp add: unique_ids_def carries_def old_key_def generated_format)
  with run(1) show ?thesis by blast
qed

section \<open>Listings\<close>


text \<open>
  C25. A subscription whose removal from the gateway failed cannot be shown: its status is no member of the enumeration of the
  response, so the answer is the error 500, and so is that of every page of the tenant's listing it stands on.
\<close>

theorem failed_removal_hides:
  assumes "unique_ids (subs p)" and "r \<in> set (subs p)" and "sub_provisioning_status r = DEPROV_FAILED"
    and "has_tenant_access user (sub_tenant_id r)"
  shows "fst (with_session (get_subscription user (sub_id r)) p) = Inl (HTTPException 500 (JStr ''Internal Server Error'')) \<and>
    (r \<in> set (page_of k n (newest_first (filter (\<lambda>s. sub_tenant_id s = sub_tenant_id r) (subs p)))) \<longrightarrow>
     fst (with_session (list_tenant_subscriptions user (sub_tenant_id r) None k n None) p) =
       Inl (HTTPException 500 (JStr ''Internal Server Error'')))"
proof -
  have "holding r (subs p)" using assms(1,2) by (simp add: holding_def)
  note read = readable_run [OF this assms(4)]
  have "\<not> respondable r" using assms(3) by (simp add: respondable_def)
  then have "fst (with_session (get_subscription user (sub_id r)) p) = Inl (HTTPException 500 (JStr ''Internal Server Error''))"
    using read by (simp add: with_session_def http_answer_def get_subscription_def bindA_def respond_run)
  moreover have "fst (with_session (list_tenant_subscriptions user (sub_tenant_id r) None k n None) p) =
       Inl (HTTPException 500 (JStr ''Internal Server Error''))"
    if "r \<in> set (page_of k n (newest_first (filter (\<lambda>s. sub_tenant_id s = sub_tenant_id r) (subs p))))"
    using that \<open>\<not> respondable r\<close>
    by (auto simp: with_session_def http_answer_def tenant_listing [OF assms(4)] Let_def if_given_def list_all_iff)
  ultimately show ?thesis by blast
qed


definition unremoved :: subscription where
  "unremoved = (sample_subscription 1 SUB_REVOKED)\<lparr>sub_provisioning_status := DEPROV_FAILED\<rparr>"

theorem failed_removal_hides_witness: "fst (with_session (list_tenant_subscriptions developer ''t'' None 1 20 None)
    (sample_portal [unremoved])) = Inl (HTTPException 500 (JStr ''Internal Server Error''))"
  using failed_removal_hides [of "sample_portal [unremoved]" unremoved developer 1 20] sample_access(1)
  by (simp add: unique_ids_def unremoved_def page_of_def newest_first_def)

section \<open>Webhooks\<close>

text \<open>
  C20. Whatever a receiver answers, a delivery comes to an end: it succeeds at the first attempt that is answered with a success, and
  it has failed after \<open>max_attempts\<close> attempts otherwise. What is delivered stays the same.
\<close>

theorem webhook_delivery_ends:
  assumes "clock_in_range (po_world p)" and "0 \<le> whd_attempt_count d" and "whd_attempt_count d < whd_max_attempts d"
  shows "\<exists>d' p'. deliver_webhook answers d p = (Inr d', p') \<and> whd_payload d' = whd_payload d \<and> whd_next_retry_at d' = None \<and>
    (case find (\<lambda>k. accepted_answer (answers k)) [whd_attempt_count d + 1 .. whd_max_attempts d] of
       None \<Rightarrow> whd_status d' = ''failed'' \<and> whd_attempt_count d' = whd_max_attempts d
     | Some k \<Rightarrow> whd_status d' = ''success'' \<and> whd_attempt_count d' = k)"
  using delivery_ends [OF assms, of answers] unfolding delivery_settled_def by metis

definition sample_webhook :: tenant_webhook where
  "sample_webhook = \<lparr>wh_id = 70, wh_tenant_id = ''t'', wh_name = ''hook'', wh_url = ''http://h'', wh_secret = None, wh_events = [''*''],
     wh_headers = JObj [], wh_enabled = True, wh_created_at = DT 2025 1 1 0 0 0 0, wh_updated_at = DT 2025 1 1 0 0 0 0,
     wh_created_by = None\<rparr>"

definition sample_delivery :: webhook_delivery where
  "sample_delivery = new_delivery 80 (DT 2025 1 1 0 0 0 0) sample_webhook (sample_subscription 1 SUB_ACTIVE) ''subscription.approved'' []"

definition still_portal :: portal where
  "still_portal = (sample_portal [])\<lparr>po_world := sample_world\<lparr>clock := (\<lambda>_. DT 2025 1 1 0 0 0 0)\<rparr>\<rparr>"

theorem webhook_delivery_ends_witness: "\<exists>d' p'. deliver_webhook (\<lambda>n. if n < 4 then TimedOut ''t'' else Answered 204 []) sample_delivery
    still_portal = (Inr d', p') \<and> whd_status d' = ''success'' \<and> whd_attempt_count d' = 4"
proof -
  have clock: "clock_in_range (po_world still_portal)"
    by (simp add: clock_in_range_def still_portal_def dt_instant_def dt_ordinal_def year_days_def DAY_def MAX_ORDINAL_def)
  have counts: "whd_attempt_count sample_delivery = 0" "whd_max_attempts sample_delivery = 5"
    by (simp_all add: sample_delivery_def new_delivery_def)
  have "[1..5] = [1, 2, 3, 4, 5 :: int]" by (simp add: upto_rec1)
  with webhook_delivery_ends [OF clock, of sample_delivery "\<lambda>n. if n < 4 then TimedOut ''t'' else Answered 204 []"] show ?thesis
    by (auto simp: counts accepted_answer_def)
qed

end
