(* ===== verification/Spec2Isabelle.thy ===== *)
theory Spec2Isabelle
  imports LifecycleSpecs RequestSpecs GatewaySpecs PromotionSpecs CatalogSpecs WriterSpecs ReconcilerSpecs
    SubscriptionSpecs
begin

text \<open>
  A verification development for the control plane of the STOA platform (\<open>control-plane-api/src\<close>), the
  program that keeps the catalog of APIs, brings them to gateways and promotes them between environments.

  \<^bold>\<open>The program and its parts.\<close> An API is a row of the catalog. The \<^emph>\<open>lifecycle service\<close> takes it from a draft
  over the validation of its contract to deployments, publications in the portal and promotions to the next
  environment. A \<^emph>\<open>deployment\<close> is a row per API and gateway with a desired state, a desired generation that
  grows with every request, and the generations that were attempted and synced. Two sides carry it to the gateway:
  agents pull the routes of their gateway and acknowledge them (\<open>routers/gateway_internal.py\<close>), and the sync
  engine pushes rows through adapters and writes what came of it (\<open>workers/sync_engine.py\<close>). The administration
  deploys directly (\<open>services/gateway_deployment_service.py\<close>), and \<^emph>\<open>promotions\<close> are requested, approved by a second
  person, completed by the acknowledgements of their deployments, failed or rolled back
  (\<open>services/promotion_service.py\<close>). All of them write the same table of deployments, in any interleaving.

  The catalog itself has a second home: a Git repository with one directory per API, which is the source of truth
  for the APIs created through the \<^emph>\<open>Git-first writer\<close> (\<open>services/gitops_writer/\<close>: commit first, then project what
  was committed into the row) and which the \<^emph>\<open>catalog reconciler\<close> (\<open>services/catalog_reconciler/\<close>) reads
  periodically, bringing drifted rows and the deployments that the files ask for
  (\<open>services/catalog_deployment_reconciler.py\<close>) back to what Git says.

  Consumers reach the APIs by \<^emph>\<open>subscriptions\<close> (\<open>routers/subscriptions.py\<close>): an application of a developer asks for an
  API, an administrator of the tenant approves, rejects, suspends, reactivates or revokes, keys are rotated and lifetimes
  extended, and the gateway asks whether a key or a client is entitled. An approval and a revocation start a background job
  (\<open>services/provisioning_service.py\<close>) that creates or removes an application on the gateway of the API, and the events of a
  subscription are delivered to the webhooks of its tenant (\<open>services/webhook_service.py\<close>).

  \<^bold>\<open>Theories, in the order of their imports.\<close>
  \<^item> Prelude, PyData, Errors: state passing with errors (\<open>act\<close>), relations that actions stay within, Python strings,
    JSON values, UUIDs and timestamps; the exceptions of the program as one datatype and the record \<open>host\<close> of what
    it takes from outside (the parsers, the digest, the settings).
  \<^item> Environments (\<open>services/environment_aliases.py\<close>, \<open>services/catalog_api_definition.py\<close>), OpenApi
    (\<open>services/api_lifecycle/openapi.py\<close>), Models (\<open>models/\<close>, the tables and their constraints, the record
    \<open>world\<close>), PortalPublication, DesiredState and SyncSteps (\<open>services/sync_step_tracker.py\<close>).
  \<^item> LifecycleRepository, LifecycleState, LifecycleDraft, LifecycleDeploy, LifecyclePublish, LifecyclePromote:
    \<open>services/api_lifecycle/service.py\<close> on \<open>services/api_lifecycle/repository.py\<close>. LifecycleRouter and Rbac:
    \<open>routers/api_lifecycle.py\<close>, \<open>database.py\<close> (\<open>rollback\<close> is what \<open>get_db\<close> does) and \<open>auth/\<close>.
  \<^item> GatewayService (\<open>services/gateway_deployment_service.py\<close>, \<open>routers/gateway_deployments.py\<close>), GatewayTopology
    (\<open>services/gateway_topology.py\<close>), Preflight (\<open>services/deployment_orchestration_service.py\<close>), PromotionService
    (\<open>services/promotion_service.py\<close>, \<open>repositories/promotion.py\<close>, \<open>routers/promotions.py\<close>), RouteSync
    (\<open>routers/gateway_internal.py\<close>, \<open>auth/gateway_key.py\<close>, \<open>GatewayDeploymentRepository.acknowledge\<close>) and
    SyncEngine (\<open>workers/sync_engine.py\<close>).
  \<^item> CatalogDefinition (\<open>services/catalog_api_definition.py\<close>: the shapes of an \<open>api.yaml\<close> and its deployment targets),
    CatalogPaths (\<open>gitops_writer/paths.py\<close>, \<open>eligibility.py\<close>, \<open>hashing.py\<close>, \<open>advisory_lock.py\<close> and
    \<open>catalog_reconciler/classifier.py\<close>), CatalogGit (\<open>catalog_git_client/\<close>), CatalogProjection
    (\<open>catalog_reconciler/projection.py\<close>), CatalogDeployment (\<open>services/catalog_deployment_reconciler.py\<close>,
    \<open>repositories/api_gateway_assignment.py\<close>), GitopsWriter (\<open>gitops_writer/writer.py\<close>, \<open>models.py\<close>,
    \<open>services/catalog/write_api_yaml.py\<close>) and CatalogReconciler (\<open>catalog_reconciler/worker.py\<close>).
  \<^item> Timestamps (the addition of a \<open>timedelta\<close>), SubscriptionModels (the rows, and \<open>portal\<close>: the tables of a session, what is
    committed, and the running jobs), SubscriptionRepository (\<open>repositories/subscription.py\<close>, \<open>services/api_key.py\<close>),
    WebhookService, SubscriptionRouter (every endpoint; \<open>handle_subscription\<close> are those that change state) and Provisioning
    (\<open>job_step\<close> is a job between two of its awaits). SubscriptionProtocol puts them together: \<open>portal_step\<close> is one request, one
    step of a job, or what the rest of the system does to the other tables.
  \<^item> GatewayProtocol puts the writers of the deployments together: \<open>protocol_step\<close> is one request, one read, offer, application or
    acknowledgement, or one piece of the engine between two of its commits.

  \<^bold>\<open>Facts.\<close> DraftFacts, DeployFacts, PublishFacts and PromoteFacts invert the successful runs of the lifecycle
  operations (\<open>..._okE\<close>), LifecycleProgress says when they succeed, LifecycleInvariants what they keep,
  RouterFacts lifts both to the endpoints. GatewayFacts shows that every request only creates fresh rows and
  advances old ones; GatewayProtocol that this, the acknowledgements and the engine keep \<open>protocol_ok\<close>: a generation
  stands for one desired state everywhere, and a generation counts as synced only when its gateway applied it.
  CatalogFacts shows that the reconciler only creates fresh rows, advances old ones and keeps what Git does not own,
  CatalogProgress that a reconciliation of deployments is a sequence of planned writes and when it comes to rest,
  CatalogRows what a reconciliation of a row ends in, CatalogDrift what a new head of the repository changes, and
  WriterFacts what the writer leaves in a repository that keeps the laws documented for it.
  SubscriptionFacts has triples (\<open>keeps\<close>) for the handlers of the subscriptions, over the rows a user may move;
  SubscriptionRuns and SubscriptionOutcomes say what they answer, SubscriptionProtocol what histories and jobs leave, and
  WebhookFacts how a delivery ends.
  Interfaces are locales interpreted on the model: \<open>state_relation\<close> (a preorder that runs compose within),
  \<open>constrained_table\<close> (a table with a key and a uniqueness constraint), \<open>deployment_writes\<close> and
  \<open>catalog_writes\<close> (relations that every write of the reconcilers stays within, and hence every pass), and
  \<open>row_relation\<close> (relations on rows over which triples compose). Scenario, CatalogScenario and SubscriptionScenario are worlds in which the properties are instantiated; LifecycleSpecs, RequestSpecs, ProtocolSpecs,
  GatewaySpecs, PromotionSpecs, CatalogSpecs, WriterSpecs, ReconcilerSpecs, SubscriptionSpecs and this theory
  hold the properties.

  \<^bold>\<open>Conventions.\<close>
  \<^item> A table is a list of rows; a query filters it, \<open>scalar_one_or_none\<close> raises on a second row. A flush checks the
    primary key and the unique indexes and raises \<open>IntegrityError\<close>. Raising keeps the state, and the endpoint then
    commits or rolls back as the code does.
  \<^item> Strings have code points below 256; the arrow and the dash of two messages are written \<open>->\<close> and \<open>-\<close>. JSON
    objects are association lists in insertion order, floats their text. \<open>fromisoformat\<close> is only applied to
    what \<open>isoformat\<close> printed; the \<open>urn:\<close> form of a UUID is not accepted.
  \<^item> \<open>created_at\<close> is a reading of the clock; a column that no modelled code reads is left out. \<open>clock\<close> and
    \<open>uuid_source\<close> are arbitrary functions of how often they were read.
  \<^item> Loops are structural recursion (\<open>forA\<close>, recursion over JSON, with a measure where a name map is turned into
    entries). The number of retries of the engine is bounded by its setting, which is a property here;
    \<open>commit_or_noop\<close> recurses on the attempts that are left, three as in the code, and \<open>attempts_bounded\<close> counts
    them. The loop of the reconciler runs for ever: \<open>reconciler_tick\<close> is one turn of it, the properties take any number.
  \<^item> A file of the repository is its text. The client of the Git provider is the record \<open>pygithub\<close> of the calls the
    code makes, arbitrary actions over an unknown state of the provider that others may change at any time; what
    is documented for it is a hypothesis (\<open>contents_laws\<close>) where a property needs it. A transaction that is not
    committed is rolled back (\<open>in_session\<close>), and advisory locks that other sessions hold are a list of keys; while
    the writer waits for its lock, the others do \<open>waiting\<close>, a parameter.
  \<^item> The object that the engine holds over an \<open>await\<close> is written back as the session does it: \<open>merge_row\<close> writes the
    attributes that differ from what was loaded. The engine reads the clock once for the entries of one trace.
  \<^item> A request on subscriptions is one step: it holds its rows from the first read to the commit. A job gives way at every
    \<open>await\<close> on a gateway, and its steps are counted by \<open>job_rank\<close>: five steps (fuel \<open>MAX_RETRIES + 2\<close> in
    \<open>provisioning_settles\<close>) are enough for its start, the resolution of the adapter and three attempts. \<open>po_committed\<close>
    is what other sessions see; \<open>deliver_webhook\<close> recurses on the attempts that are left. The fallback of a job to the session
    of the request, taken when a session cannot be opened, is left out.
  \<^item> Publishing to Kafka is a record in the state or fails with \<open>RuntimeError\<close>, where the code does not swallow it.

  \<^bold>\<open>Not modelled.\<close> The serialisation of responses and the read-only listings; adapters (their answers are parameters
  of the engine), Slack, metrics and logs; the events and repair commits of drift detection, and the object that is
  left dirty when a drift check raises; the choice among gateways of one host name (a parameter of
  \<open>list_gateway_routes\<close>); registration, heartbeats and discovery of gateways; deployment by environment through Git
  and the automatic deployment after a promotion; the check of the token signature. Of the Git side: the
  backfill of old rows, metrics, the command line of \<open>write_api_yaml.py\<close>, the soft references in tables that are not
  in \<open>world\<close>, and the older Git services that write to GitLab and GitHub without the writer. Of the subscriptions: mails, Kafka
  events, the average approval time, the signature and the headers of a webhook request, the session a delivery is written
  through, and the policies sent after a provisioning (only \<open>policy_spec\<close>). Of the rest of the
  repository: contracts, the administration of plans, quotas, chat, audit search and monitoring services; the
  portal and console (TypeScript), the gateway (Rust), charts, scripts, migrations and development tools.
\<close>

section \<open>Properties\<close>

text \<open>
  \<open>_slugify\<close> always returns a slug (lower-case letters, digits and single inner hyphens,
  never empty), and it changes a name exactly when the name is not a slug already.
\<close>

theorem slugify_slug: "is_slug (slugify s) \<and> (slugify s = s \<longleftrightarrow> is_slug s)"
  using slugify_is_slug [of s] slugify_of_slug [of s] by metis

text \<open>
  C37. \<open>validate_openapi_contract\<close> accepts a document exactly when it is a contract: a supported
  version, a titled and versioned info object, and paths whose operations all declare responses.
\<close>

theorem contract_accepted_iff:
  "(\<exists>r. validate_openapi_contract hst (JObj spec) = Inr r) \<longleftrightarrow> contract_ok spec"
  using validate_openapi_contract_ok validate_openapi_contract_complete by blast

end
